(* ===== verification/Prelude.thy ===== *)
theory Prelude
  imports
    Main
    "HOL-Library.Word"
    "HOL-Library.Product_Lexorder"
    "HOL-Library.List_Lexorder"
    "HOL-Library.Char_ord"
begin

text \<open>
  The vocabulary every component of the LeakCheck portal model shares: text, bytes, UUIDs and
  timestamps as Python sees them, Python exceptions as values of a sum type, database tables as
  lists of rows with the SQL statements the code issues (select, update, delete, insert with a
  conflict clause), and the list lemmas about those statements.
\<close>

section \<open>Collections of rules\<close>

text \<open>
  \<open>table_simps\<close> holds the facts about SQL statements on tables, \<open>codec_simps\<close> the length and
  round-trip facts about byte encodings, \<open>frame_simps\<close> the fields an operation leaves alone.
\<close>

named_theorems table_simps
named_theorems codec_simps
named_theorems frame_simps

section \<open>Scalar types\<close>

text \<open>
  A Python \<open>str\<close> is the list of its code points, a \<open>bytes\<close> object a list of octets. A
  timezone-aware \<open>datetime\<close> is the number of microseconds since the epoch in UTC, so that
  comparison and subtraction are those of \<open>int\<close>.
\<close>

type_synonym ustr = "nat list"
type_synonym bytes = "8 word list"
type_synonym uuid = "128 word"
type_synonym datetime = int

definition uni :: "string \<Rightarrow> ustr" where
  "uni s = map of_char s"

definition octets :: "string \<Rightarrow> bytes" where
  "octets s = map of_char s"

definition seconds :: "int \<Rightarrow> int" where
  "seconds n = n * 1000000"

lemma uni_inject [simp]: "uni s = uni t \<longleftrightarrow> s = t"
  by (simp add: uni_def inj_map_eq_map inj_on_def)

lemma uni_Nil [simp]: "uni [] = []"
  by (simp add: uni_def)

lemma uni_eq_Nil [simp]: "uni s = [] \<longleftrightarrow> s = []" "[] = uni s \<longleftrightarrow> s = []"
  by (simp_all add: uni_def)

lemma length_uni [simp]: "length (uni s) = length s"
  by (simp add: uni_def)

lemma length_octets [simp]: "length (octets s) = length s"
  by (simp add: octets_def)

lemma seconds_mono [simp]: "seconds m \<le> seconds n \<longleftrightarrow> m \<le> n" "seconds m < seconds n \<longleftrightarrow> m < n"
  by (simp_all add: seconds_def)

lemma seconds_pos [simp]: "0 < seconds n \<longleftrightarrow> 0 < n" "0 \<le> seconds n \<longleftrightarrow> 0 \<le> n"
  by (simp_all add: seconds_def)

section \<open>Exceptions\<close>

text \<open>
  Every exception class the modelled code raises or catches. \<open>HTTPException\<close> carries its status
  code; \<open>OtherError\<close> stands for an exception of a library or service the code only calls.
\<close>

datatype exn =
    ValueError
  | KeyError
  | OverflowError
  | UnicodeEncodeError
  | UnicodeDecodeError
  | LookupError
  | IntegrityError
  | NormalizationError
  | FindingCryptoError
  | FindingNotFoundError
  | LeakCheckConfigurationError
  | LeakCheckProtocolError
  | LeakCheckResponseTooLarge
  | LeakCheckUnavailable
  | PlatformSettingError
  | NotificationConfigurationError
  | ScheduleValidationError
  | LocalAuthenticationError
  | SuperAdminAlreadyExistsError
  | GoogleOIDCError
  | WorkspaceConfigurationError
  | WorkspaceAPIError
  | LogoRejected
  | HTTPException nat
  | OtherError string

type_synonym 'a res = "exn + 'a"

text \<open>The instances of \<open>ValueError\<close>: what \<open>except ValueError\<close> catches.\<close>

definition is_value_error :: "exn \<Rightarrow> bool" where
  "is_value_error e \<longleftrightarrow>
     e \<in> {ValueError, UnicodeEncodeError, UnicodeDecodeError, NormalizationError,
          ScheduleValidationError}"

text \<open>\<open>type(exc).__name__\<close>, which several components store as their failure reason.\<close>

fun exn_name :: "exn \<Rightarrow> string" where
  "exn_name ValueError = ''ValueError''"
| "exn_name KeyError = ''KeyError''"
| "exn_name OverflowError = ''OverflowError''"
| "exn_name UnicodeEncodeError = ''UnicodeEncodeError''"
| "exn_name UnicodeDecodeError = ''UnicodeDecodeError''"
| "exn_name LookupError = ''LookupError''"
| "exn_name IntegrityError = ''IntegrityError''"
| "exn_name NormalizationError = ''NormalizationError''"
| "exn_name FindingCryptoError = ''FindingCryptoError''"
| "exn_name FindingNotFoundError = ''FindingNotFoundError''"
| "exn_name LeakCheckConfigurationError = ''LeakCheckConfigurationError''"
| "exn_name LeakCheckProtocolError = ''LeakCheckProtocolError''"
| "exn_name LeakCheckResponseTooLarge = ''LeakCheckResponseTooLarge''"
| "exn_name LeakCheckUnavailable = ''LeakCheckUnavailable''"
| "exn_name PlatformSettingError = ''PlatformSettingError''"
| "exn_name NotificationConfigurationError = ''NotificationConfigurationError''"
| "exn_name ScheduleValidationError = ''ScheduleValidationError''"
| "exn_name LocalAuthenticationError = ''LocalAuthenticationError''"
| "exn_name SuperAdminAlreadyExistsError = ''SuperAdminAlreadyExistsError''"
| "exn_name GoogleOIDCError = ''GoogleOIDCError''"
| "exn_name WorkspaceConfigurationError = ''WorkspaceConfigurationError''"
| "exn_name WorkspaceAPIError = ''WorkspaceAPIError''"
| "exn_name LogoRejected = ''LogoRejected''"
| "exn_name (HTTPException _) = ''HTTPException''"
| "exn_name (OtherError s) = s"

text \<open>Sequencing of fallible computations, and running one over a list.\<close>

definition bind_res :: "'a res \<Rightarrow> ('a \<Rightarrow> 'b res) \<Rightarrow> 'b res" where
  "bind_res m f = (case m of Inl e \<Rightarrow> Inl e | Inr x \<Rightarrow> f x)"

fun map_res :: "('a \<Rightarrow> 'b res) \<Rightarrow> 'a list \<Rightarrow> 'b list res" where
  "map_res f [] = Inr []"
| "map_res f (x # xs) = bind_res (f x) (\<lambda>y. bind_res (map_res f xs) (\<lambda>ys. Inr (y # ys)))"

definition of_option :: "exn \<Rightarrow> 'a option \<Rightarrow> 'a res" where
  "of_option e m = (case m of None \<Rightarrow> Inl e | Some x \<Rightarrow> Inr x)"

definition guard_res :: "bool \<Rightarrow> exn \<Rightarrow> unit res" where
  "guard_res ok e = (if ok then Inr () else Inl e)"

lemma bind_res_simps [simp]:
  "bind_res (Inl e) f = Inl e" "bind_res (Inr x) f = f x"
  by (simp_all add: bind_res_def)

lemma bind_res_Inr_iff: "bind_res m f = Inr y \<longleftrightarrow> (\<exists>x. m = Inr x \<and> f x = Inr y)"
  by (cases m) auto

lemma bind_res_Inl_iff: "bind_res m f = Inl e \<longleftrightarrow> m = Inl e \<or> (\<exists>x. m = Inr x \<and> f x = Inl e)"
  by (cases m) auto

lemma of_option_Inr [simp]: "of_option e m = Inr x \<longleftrightarrow> m = Some x"
  by (simp add: of_option_def split: option.splits)

lemma of_option_Inl [simp]: "of_option e m = Inl f \<longleftrightarrow> m = None \<and> e = f"
  by (auto simp: of_option_def split: option.splits)

lemma of_option_simps [simp]: "of_option e (Some x) = Inr x" "of_option e None = Inl e"
  by (simp_all add: of_option_def)

lemma guard_res_simps [simp]: "guard_res True e = Inr ()" "guard_res False e = Inl e"
  by (simp_all add: guard_res_def)

lemma guard_res_Inr [simp]: "guard_res ok e = Inr x \<longleftrightarrow> ok"
  by (simp add: guard_res_def)

lemma guard_res_Inl [simp]: "guard_res ok e = Inl f \<longleftrightarrow> \<not> ok \<and> e = f"
  by (auto simp: guard_res_def)

lemma map_res_length: "map_res f xs = Inr ys \<Longrightarrow> length ys = length xs"
  by (induction xs arbitrary: ys) (auto simp: bind_res_Inr_iff)

lemma map_res_nth: "map_res f xs = Inr ys \<Longrightarrow> i < length xs \<Longrightarrow> f (xs ! i) = Inr (ys ! i)"
  by (induction xs arbitrary: ys i) (auto simp: bind_res_Inr_iff nth_Cons split: nat.splits)

lemma map_res_total: "(\<And>x. x \<in> set xs \<Longrightarrow> f x = Inr (g x)) \<Longrightarrow> map_res f xs = Inr (map g xs)"
  by (induction xs) auto

section \<open>Timestamps\<close>

text \<open>
  A \<open>datetime\<close> argument may be naive. The \<open>_utc_now\<close> helpers of the components reject a naive
  value and convert an aware one (local time and UTC offset, in microseconds) to UTC; without an
  argument they read the clock.
\<close>

datatype py_datetime = Naive int | Aware int int

definition utc_now :: "datetime \<Rightarrow> py_datetime option \<Rightarrow> datetime res" where
  "utc_now clock value =
     (case value of
        None \<Rightarrow> Inr clock
      | Some (Naive _) \<Rightarrow> Inl ValueError
      | Some (Aware local offset) \<Rightarrow> Inr (local - offset))"

lemma utc_now_None [simp]: "utc_now clock None = Inr clock"
  by (simp add: utc_now_def)

lemma utc_now_Aware [simp]: "utc_now clock (Some (Aware local off)) = Inr (local - off)"
  by (simp add: utc_now_def)

lemma utc_now_Naive [simp]: "utc_now clock (Some (Naive t)) = Inl ValueError"
  by (simp add: utc_now_def)

lemma utc_now_Inl: "utc_now clock v = Inl e \<Longrightarrow> e = ValueError \<and> (\<exists>t. v = Some (Naive t))"
  by (auto simp: utc_now_def split: option.splits py_datetime.splits)

section \<open>Tables and SQL statements\<close>

text \<open>
  A table is the list of its rows in storage order. A query without ORDER BY returns rows in that
  order; since every theorem quantifies over the table, it holds for every order the database
  chooses.
\<close>

definition update_where :: "('r \<Rightarrow> bool) \<Rightarrow> ('r \<Rightarrow> 'r) \<Rightarrow> 'r list \<Rightarrow> 'r list" where
  "update_where p f t = map (\<lambda>r. if p r then f r else r) t"

definition delete_where :: "('r \<Rightarrow> bool) \<Rightarrow> 'r list \<Rightarrow> 'r list" where
  "delete_where p t = filter (\<lambda>r. \<not> p r) t"

definition rowcount :: "('r \<Rightarrow> bool) \<Rightarrow> 'r list \<Rightarrow> nat" where
  "rowcount p t = length (filter p t)"

text \<open>
  \<open>INSERT ... ON CONFLICT DO UPDATE ... RETURNING\<close>: the conflicting row is updated and returned,
  otherwise the new row is appended; the flag is the \<open>xmax = 0\<close> test for a fresh insert.
\<close>

definition upsert :: "('r \<Rightarrow> bool) \<Rightarrow> ('r \<Rightarrow> 'r) \<Rightarrow> 'r \<Rightarrow> 'r list \<Rightarrow> 'r list \<times> 'r \<times> bool" where
  "upsert conflict f new t =
     (case find conflict t of
        None \<Rightarrow> (t @ [new], new, True)
      | Some r \<Rightarrow> (update_where conflict f t, f r, False))"

text \<open>\<open>INSERT ... ON CONFLICT DO NOTHING\<close>.\<close>

definition insert_if_absent :: "('r \<Rightarrow> bool) \<Rightarrow> 'r \<Rightarrow> 'r list \<Rightarrow> 'r list" where
  "insert_if_absent conflict new t = (if \<exists>r \<in> set t. conflict r then t else t @ [new])"

text \<open>A column is unique when no two rows of the table agree on it.\<close>

definition unique_on :: "('r \<Rightarrow> 'k) \<Rightarrow> 'r list \<Rightarrow> bool" where
  "unique_on k t \<longleftrightarrow> distinct (map k t)"

lemma length_update_where [table_simps, simp]: "length (update_where p f t) = length t"
  by (simp add: update_where_def)

lemma update_where_Nil [table_simps, simp]: "update_where p f [] = []"
  by (simp add: update_where_def)

lemma update_where_Cons [table_simps]:
  "update_where p f (r # t) = (if p r then f r else r) # update_where p f t"
  by (simp add: update_where_def)

lemma set_update_where: "set (update_where p f t) = (\<lambda>r. if p r then f r else r) ` set t"
  by (simp add: update_where_def)

lemma update_where_none: "(\<And>r. r \<in> set t \<Longrightarrow> \<not> p r) \<Longrightarrow> update_where p f t = t"
  by (simp add: update_where_def map_idI)

lemma map_update_where [table_simps]:
  "(\<And>r. p r \<Longrightarrow> k (f r) = k r) \<Longrightarrow> map k (update_where p f t) = map k t"
  by (simp add: update_where_def)

lemma image_update_where:
  "(\<And>r. p r \<Longrightarrow> k (f r) = k r) \<Longrightarrow> k ` set (update_where p f t) = k ` set t"
  using map_update_where [of p k f t] by (metis set_map)

lemma unique_on_update_where [table_simps]:
  "(\<And>r. p r \<Longrightarrow> k (f r) = k r) \<Longrightarrow> unique_on k (update_where p f t) = unique_on k t"
  by (simp add: unique_on_def map_update_where)

lemma filter_update_where:
  "(\<And>r. p r \<Longrightarrow> \<not> q r) \<Longrightarrow> (\<And>r. p r \<Longrightarrow> \<not> q (f r)) \<Longrightarrow>
   filter q (update_where p f t) = filter q t"
  by (induction t) (auto simp: update_where_def)

lemma set_delete_where [table_simps]: "set (delete_where p t) = {r \<in> set t. \<not> p r}"
  by (simp add: delete_where_def)

lemma unique_on_delete_where: "unique_on k t \<Longrightarrow> unique_on k (delete_where p t)"
  by (simp add: unique_on_def delete_where_def distinct_map_filter)

lemma length_delete_where: "length (delete_where p t) + rowcount p t = length t"
  by (simp add: delete_where_def rowcount_def sum_length_filter_compl add.commute)

lemma find_Some_mem: "find p t = Some r \<Longrightarrow> r \<in> set t \<and> p r"
  by (metis find_Some_iff nth_mem)

lemma find_None: "find p t = None \<longleftrightarrow> (\<forall>r \<in> set t. \<not> p r)"
  by (auto simp: find_None_iff)

lemma find_cong_all: "(\<And>r. r \<in> set t \<Longrightarrow> p r = q r) \<Longrightarrow> find p t = find q t"
  by (induction t) auto

lemma find_update_where:
  "(\<And>r. p r \<Longrightarrow> q (f r) = q r) \<Longrightarrow>
   find q (update_where p f t) = map_option (\<lambda>r. if p r then f r else r) (find q t)"
  by (induction t) (auto simp: update_where_def)

lemma find_update_where_other:
  "(\<And>r. p r \<Longrightarrow> \<not> q r \<and> \<not> q (f r)) \<Longrightarrow> find q (update_where p f t) = find q t"
  by (induction t) (auto simp: update_where_def)

lemma find_append: "find p (xs @ ys) = (case find p xs of None \<Rightarrow> find p ys | Some x \<Rightarrow> Some x)"
  by (induction xs) auto

lemma unique_on_find:
  "unique_on k t \<Longrightarrow> r \<in> set t \<Longrightarrow> find (\<lambda>r'. k r' = k r) t = Some r"
  by (induction t) (auto simp: unique_on_def)

lemma unique_on_eq: "unique_on k t \<Longrightarrow> r \<in> set t \<Longrightarrow> s \<in> set t \<Longrightarrow> k r = k s \<Longrightarrow> r = s"
  by (auto simp: unique_on_def distinct_map inj_on_def)

lemma unique_on_append1:
  "unique_on k (t @ [r]) \<longleftrightarrow> unique_on k t \<and> k r \<notin> k ` set t"
  by (auto simp: unique_on_def)

lemma set_upsert:
  "upsert c f new t = (t', r, flag) \<Longrightarrow>
   set t' \<subseteq> insert new (set t \<union> f ` {x \<in> set t. c x})"
  by (auto simp: upsert_def set_update_where split: option.splits if_splits)

lemma upsert_row_mem: "upsert c f new t = (t', r, flag) \<Longrightarrow> r \<in> set t'"
  by (auto simp: upsert_def set_update_where dest!: find_Some_mem split: option.splits)

lemma unique_on_upsert:
  assumes "unique_on k t" and "\<And>x. c x \<longleftrightarrow> k x = k new" and "\<And>x. k (f x) = k x"
    and "upsert c f new t = (t', r, flag)"
  shows "unique_on k t'"
proof (cases "find c t")
  case None
  then have "k new \<notin> k ` set t"
    using assms(2) by (auto simp: find_None_iff)
  with None assms show ?thesis
    by (auto simp: upsert_def unique_on_append1)
next
  case (Some x)
  with assms show ?thesis
    by (auto simp: upsert_def unique_on_update_where)
qed

lemma set_insert_if_absent:
  "set (insert_if_absent c new t) = (if \<exists>r \<in> set t. c r then set t else insert new (set t))"
  by (simp add: insert_if_absent_def)

lemma unique_on_insert_if_absent:
  "unique_on k t \<Longrightarrow> (\<And>x. c x \<longleftrightarrow> k x = k new) \<Longrightarrow> unique_on k (insert_if_absent c new t)"
  by (auto simp: insert_if_absent_def unique_on_append1)

lemma insert_if_absent_idem:
  "c new \<Longrightarrow> insert_if_absent c new (insert_if_absent c new t) = insert_if_absent c new t"
  by (auto simp: insert_if_absent_def)

lemma insert_if_absent_present:
  "r \<in> set t \<Longrightarrow> c r \<Longrightarrow> insert_if_absent c new t = t"
  by (auto simp: insert_if_absent_def)

lemma set_sort_key_take: "set (take n (sort_key k t)) \<subseteq> set t"
  by (metis set_sort set_take_subset)

end
