(* ===== verification/Encoding.thy ===== *)
theory Encoding
  imports Prelude
begin

text \<open>
  The parts of the Python standard library that turn values into octets, defined as Python
  computes them: big-endian integers, strict UTF-8, unpadded base64url, the textual form of UUIDs
  and ISO dates, SHA-1, SHA-256 and HMAC. The components hash, sign and compare these octets, so
  the facts proved here (fixed lengths, round trips, injectivity of length-prefixed framing) are
  what their identity and integrity properties rest on.
\<close>

unbundle bit_operations_syntax

section \<open>Big-endian integers\<close>

text \<open>\<open>int.to_bytes(n, "big")\<close> for a value that fits; \<open>to_bytes\<close> raises when it does not.\<close>

fun be_bytes :: "nat \<Rightarrow> nat \<Rightarrow> bytes" where
  "be_bytes 0 v = []"
| "be_bytes (Suc n) v = be_bytes n (v div 256) @ [word_of_nat (v mod 256)]"

definition to_bytes_big :: "nat \<Rightarrow> nat \<Rightarrow> bytes res" where
  "to_bytes_big n v = (if v < 256 ^ n then Inr (be_bytes n v) else Inl OverflowError)"

fun from_bytes_big :: "bytes \<Rightarrow> nat" where
  "from_bytes_big bs = foldl (\<lambda>acc x. acc * 256 + unat x) 0 bs"

lemma length_be_bytes [codec_simps, simp]: "length (be_bytes n v) = n"
  by (induction n arbitrary: v) auto

lemma unat_byte [simp]: "unat (word_of_nat (v mod 256) :: 8 word) = v mod 256"
  by (simp add: unat_of_nat)

lemma unat_byte_lt: "unat (x :: 8 word) < 256"
proof -
  have "unat x < 2 ^ LENGTH(8)" by (rule unsigned_less)
  then show ?thesis by simp
qed

lemma from_be_bytes [codec_simps]: "v < 256 ^ n \<Longrightarrow> from_bytes_big (be_bytes n v) = v"
proof (induction n arbitrary: v)
  case (Suc n)
  then have "v div 256 < 256 ^ n"
    by (simp add: less_mult_imp_div_less mult.commute)
  with Suc.IH show ?case by simp
qed simp

lemma be_bytes_inject:
  "v < 256 ^ n \<Longrightarrow> w < 256 ^ n \<Longrightarrow> be_bytes n v = be_bytes n w \<longleftrightarrow> v = w"
  by (metis from_be_bytes)

section \<open>Length-prefixed framing\<close>

text \<open>
  Several digests feed every part as a four-byte length followed by the part. \<open>frame\<close> is the
  octet string such a digest consumes; with every part shorter than \<open>2 ^ 32\<close> it determines the
  parts.
\<close>

definition frame_part :: "bytes \<Rightarrow> bytes" where
  "frame_part p = be_bytes 4 (length p) @ p"

definition frame :: "bytes list \<Rightarrow> bytes" where
  "frame ps = concat (map frame_part ps)"

definition frameable :: "bytes list \<Rightarrow> bool" where
  "frameable ps \<longleftrightarrow> (\<forall>p \<in> set ps. length p < 256 ^ 4)"

lemma frame_Cons: "frame (p # ps) = be_bytes 4 (length p) @ p @ frame ps"
  by (simp add: frame_def frame_part_def)

lemma frame_inject:
  assumes "length ps = length qs" and "frameable ps" and "frameable qs" and "frame ps = frame qs"
  shows "ps = qs"
  using assms
proof (induction ps qs rule: list_induct2)
  case (Cons p ps q qs)
  have pre: "be_bytes 4 (length p) = be_bytes 4 (length q)"
    and rest: "p @ frame ps = q @ frame qs"
    using Cons.prems(3) by (simp_all add: frame_Cons)
  have "length p < 256 ^ 4" and "length q < 256 ^ 4"
    using Cons.prems(1,2) by (auto simp: frameable_def)
  with pre have "length p = length q"
    using be_bytes_inject by blast
  with rest have "p = q" and "frame ps = frame qs"
    by simp_all
  moreover have "frameable ps" and "frameable qs"
    using Cons.prems(1,2) by (auto simp: frameable_def)
  ultimately show ?case
    using Cons.IH by simp
qed simp

section \<open>UTF-8\<close>

text \<open>
  Strict UTF-8 as Python's codec implements it. Encoding fails on a surrogate code point; decoding
  rejects truncated and overlong sequences, surrogates and values above \<open>U+10FFFF\<close>.
\<close>

definition scalar :: "nat \<Rightarrow> bool" where
  "scalar c \<longleftrightarrow> c < 0x110000 \<and> \<not> (0xD800 \<le> c \<and> c < 0xE000)"

definition utf8_char :: "nat \<Rightarrow> nat list" where
  "utf8_char c =
     (if c < 0x80 then [c]
      else if c < 0x800 then [0xC0 + c div 64, 0x80 + c mod 64]
      else if c < 0x10000 then [0xE0 + c div 4096, 0x80 + c div 64 mod 64, 0x80 + c mod 64]
      else [0xF0 + c div 262144, 0x80 + c div 4096 mod 64, 0x80 + c div 64 mod 64,
            0x80 + c mod 64])"

definition encode_utf8 :: "ustr \<Rightarrow> bytes res" where
  "encode_utf8 s =
     (if list_all scalar s then Inr (map word_of_nat (concat (map utf8_char s)))
      else Inl UnicodeEncodeError)"

definition cont :: "nat \<Rightarrow> bool" where
  "cont x \<longleftrightarrow> 0x80 \<le> x \<and> x < 0xC0"

fun decode_nats :: "nat list \<Rightarrow> ustr option" where
  "decode_nats [] = Some []"
| "decode_nats (x # xs) =
     (if x < 0x80 then map_option (Cons x) (decode_nats xs)
      else if 0xC0 \<le> x \<and> x < 0xE0 then
        (case xs of
           y # ys \<Rightarrow>
             let c = (x - 0xC0) * 64 + (y - 0x80) in
             if cont y \<and> 0x80 \<le> c then map_option (Cons c) (decode_nats ys) else None
         | _ \<Rightarrow> None)
      else if 0xE0 \<le> x \<and> x < 0xF0 then
        (case xs of
           y # z # ys \<Rightarrow>
             let c = (x - 0xE0) * 4096 + (y - 0x80) * 64 + (z - 0x80) in
             if cont y \<and> cont z \<and> 0x800 \<le> c \<and> scalar c
             then map_option (Cons c) (decode_nats ys) else None
         | _ \<Rightarrow> None)
      else if 0xF0 \<le> x \<and> x < 0xF8 then
        (case xs of
           y # z # w # ys \<Rightarrow>
             let c = (x - 0xF0) * 262144 + (y - 0x80) * 4096 + (z - 0x80) * 64 + (w - 0x80) in
             if cont y \<and> cont z \<and> cont w \<and> 0x10000 \<le> c \<and> scalar c
             then map_option (Cons c) (decode_nats ys) else None
         | _ \<Rightarrow> None)
      else None)"

definition decode_utf8 :: "bytes \<Rightarrow> ustr res" where
  "decode_utf8 bs = of_option UnicodeDecodeError (decode_nats (map unat bs))"

lemma utf8_char_lt_256: "scalar c \<Longrightarrow> x \<in> set (utf8_char c) \<Longrightarrow> x < 256"
  by (auto simp: utf8_char_def scalar_def split: if_splits)

text \<open>A number is the sum of its base-64 digits.\<close>

lemma base64_digits:
  fixes c :: nat
  shows "c div 4096 * 4096 + c div 64 mod 64 * 64 + c mod 64 = c"
    and "c div 262144 * 262144 + c div 4096 mod 64 * 4096 + c div 64 mod 64 * 64 + c mod 64 = c"
proof -
  have low: "c = c div 64 * 64 + c mod 64"
    by (rule div_mult_mod_eq [symmetric])
  have mid: "c div 64 = c div 4096 * 64 + c div 64 mod 64"
    using div_mult_mod_eq [of "c div 64" 64] by (simp flip: div_mult2_eq)
  have high: "c div 4096 = c div 262144 * 64 + c div 4096 mod 64"
    using div_mult_mod_eq [of "c div 4096" 64] by (simp flip: div_mult2_eq)
  have three: "q2 * 4096 + r2 * 64 + r1 = c" if "c = q1 * 64 + r1" and "q1 = q2 * 64 + r2"
    for q1 q2 r1 r2
    using that by simp
  have four: "q3 * 262144 + r3 * 4096 + r2 * 64 + r1 = c"
    if "q2 * 4096 + r2 * 64 + r1 = c" and "q2 = q3 * 64 + r3" for q2 q3 r1 r2 r3
    using that by simp
  show "c div 4096 * 4096 + c div 64 mod 64 * 64 + c mod 64 = c"
    by (rule three [OF low mid])
  show "c div 262144 * 262144 + c div 4096 mod 64 * 4096 + c div 64 mod 64 * 64 + c mod 64 = c"
    using three [OF low mid] high by (rule four)
qed

lemma decode_nats_utf8_char:
  assumes "scalar c"
  shows "decode_nats (utf8_char c @ xs) = map_option (Cons c) (decode_nats xs)"
proof -
  consider "c < 0x80" | "0x80 \<le> c" "c < 0x800" | "0x800 \<le> c" "c < 0x10000"
    | "0x10000 \<le> c" "c < 0x110000"
    using assms by (fastforce simp: scalar_def)
  then show ?thesis
  proof cases
    case 1
    then show ?thesis by (simp add: utf8_char_def)
  next
    case 2
    then have "c div 64 < 32" by simp
    then show ?thesis using 2 by (simp add: utf8_char_def cont_def Let_def)
  next
    case 3
    then have "c div 4096 < 16" by simp
    moreover have "c div 4096 * 4096 + c div 64 mod 64 * 64 + c mod 64 = c" by (rule base64_digits(1))
    ultimately show ?thesis using 3 assms by (simp add: utf8_char_def cont_def Let_def)
  next
    case 4
    then have "c div 262144 < 8" by simp
    moreover have
      "c div 262144 * 262144 + c div 4096 mod 64 * 4096 + c div 64 mod 64 * 64 + c mod 64 = c"
      by (rule base64_digits(2))
    ultimately show ?thesis using 4 assms by (simp add: utf8_char_def cont_def Let_def)
  qed
qed

lemma decode_nats_concat: "list_all scalar s \<Longrightarrow> decode_nats (concat (map utf8_char s)) = Some s"
  by (induction s) (auto simp: decode_nats_utf8_char)

lemma unat_map_word_of_nat: "(\<And>x. x \<in> set xs \<Longrightarrow> x < 256) \<Longrightarrow>
   map unat (map word_of_nat xs :: bytes) = xs"
  by (induction xs) (auto simp: unat_of_nat)

lemma decode_encode_utf8 [codec_simps]:
  assumes "encode_utf8 s = Inr bs"
  shows "decode_utf8 bs = Inr s"
proof -
  have all: "list_all scalar s" and bs: "bs = map word_of_nat (concat (map utf8_char s))"
    using assms by (auto simp: encode_utf8_def split: if_splits)
  have "map unat bs = concat (map utf8_char s)"
    unfolding bs using all
    by (intro unat_map_word_of_nat) (auto simp: list_all_iff dest: utf8_char_lt_256)
  then show ?thesis
    by (simp add: decode_utf8_def decode_nats_concat [OF all])
qed

lemma encode_utf8_inject:
  "encode_utf8 s = Inr bs \<Longrightarrow> encode_utf8 t = Inr bs \<Longrightarrow> s = t"
  by (metis decode_encode_utf8 sum.inject(2))

lemma encode_utf8_ascii:
  "list_all (\<lambda>c. c < 128) s \<Longrightarrow> encode_utf8 s = Inr (map word_of_nat s)"
  by (induction s) (auto simp: encode_utf8_def scalar_def utf8_char_def split: if_splits)

section \<open>Unpadded base64url\<close>

definition b64_char :: "nat \<Rightarrow> nat" where
  "b64_char i =
     (if i < 26 then 65 + i else if i < 52 then 71 + i else if i < 62 then i - 4
      else if i = 62 then 45 else 95)"

definition is_urlsafe :: "nat \<Rightarrow> bool" where
  "is_urlsafe c \<longleftrightarrow>
     (65 \<le> c \<and> c \<le> 90) \<or> (97 \<le> c \<and> c \<le> 122) \<or> (48 \<le> c \<and> c \<le> 57) \<or> c = 45 \<or> c = 95"

fun b64_sextets :: "nat list \<Rightarrow> nat list" where
  "b64_sextets [] = []"
| "b64_sextets [x] = [x div 4, x mod 4 * 16]"
| "b64_sextets [x, y] = [x div 4, x mod 4 * 16 + y div 16, y mod 16 * 4]"
| "b64_sextets (x # y # z # xs) =
     [x div 4, x mod 4 * 16 + y div 16, y mod 16 * 4 + z div 64, z mod 64] @ b64_sextets xs"

definition base64url :: "bytes \<Rightarrow> ustr" where
  "base64url bs = map b64_char (b64_sextets (map unat bs))"

lemma b64_char_urlsafe: "i < 64 \<Longrightarrow> is_urlsafe (b64_char i)"
  by (auto simp: b64_char_def is_urlsafe_def)

lemma sextet_bounds:
  fixes x y z :: nat
  assumes "x < 256" and "y < 256" and "z < 256"
  shows "x div 4 < 64" "x mod 4 * 16 + y div 16 < 64" "y mod 16 * 4 + z div 64 < 64"
    "y mod 16 * 4 < 64" "x mod 4 * 16 < 64"
proof -
  have sum: "a * m + d < n * m" if "a < n" and "d < m" for a d m n :: nat
  proof -
    have "a * m + d < Suc a * m" using that by simp
    also have "\<dots> \<le> n * m" using that by (intro mult_le_mono1) simp
    finally show ?thesis .
  qed
  have "x mod 4 < 4" "y div 16 < 16" "y mod 16 < 16" "z div 64 < 4" "x div 4 < 64"
    using assms by (simp_all add: less_mult_imp_div_less)
  with sum [of "x mod 4" 4 "y div 16" 16] sum [of "y mod 16" 16 "z div 64" 4]
    sum [of "y mod 16" 16 0 4] sum [of "x mod 4" 4 0 16]
  show "x div 4 < 64" "x mod 4 * 16 + y div 16 < 64" "y mod 16 * 4 + z div 64 < 64"
    "y mod 16 * 4 < 64" "x mod 4 * 16 < 64"
    by simp_all
qed

lemma b64_sextets_lt: "(\<And>x. x \<in> set xs \<Longrightarrow> x < 256) \<Longrightarrow> i \<in> set (b64_sextets xs) \<Longrightarrow> i < 64"
proof (induction xs rule: b64_sextets.induct)
  case (2 x)
  then show ?case using sextet_bounds [of x x x] by auto
next
  case (3 x y)
  then show ?case using sextet_bounds [of x y y] by auto
next
  case (4 x y z xs)
  then show ?case using sextet_bounds [of x y z] by auto
qed simp

lemma base64url_urlsafe [codec_simps]: "list_all is_urlsafe (base64url bs)"
proof -
  have "i < 64" if "i \<in> set (b64_sextets (map unat bs))" for i
    using that by (rule b64_sextets_lt [rotated]) (auto intro: unat_byte_lt)
  then show ?thesis
    by (auto simp: base64url_def list_all_iff b64_char_urlsafe)
qed

lemma length_b64_sextets: "length (b64_sextets xs) = (length xs * 4 + 2) div 3"
  by (induction xs rule: b64_sextets.induct) auto

lemma length_base64url [codec_simps]: "length (base64url bs) = (length bs * 4 + 2) div 3"
  by (simp add: base64url_def length_b64_sextets)

lemma b64_char_inject: "i < 64 \<Longrightarrow> j < 64 \<Longrightarrow> b64_char i = b64_char j \<longleftrightarrow> i = j"
  by (auto simp: b64_char_def split: if_splits)

section \<open>SHA-256, SHA-1 and HMAC\<close>

text \<open>
  FIPS 180-4 over 32-bit words, whose addition wraps. A message is padded to whole 64-byte blocks;
  each block is expanded into a message schedule and folded into the chaining state.
\<close>

type_synonym u32 = "32 word"

definition be_word :: "bytes \<Rightarrow> u32" where
  "be_word bs = word_of_nat (from_bytes_big bs)"

definition word_bytes :: "u32 \<Rightarrow> bytes" where
  "word_bytes w = be_bytes 4 (unat w)"

fun words_of :: "bytes \<Rightarrow> u32 list" where
  "words_of (p # q # r # s # bs) = be_word [p, q, r, s] # words_of bs"
| "words_of _ = []"

definition sha_pad :: "bytes \<Rightarrow> bytes" where
  "sha_pad m = m @ [0x80] @ replicate ((119 - length m mod 64) mod 64) 0 @ be_bytes 8 (8 * length m)"

function blocks :: "u32 list \<Rightarrow> u32 list list" where
  "blocks ws = (if length ws < 16 then [] else take 16 ws # blocks (drop 16 ws))"
  by pat_completeness auto
termination
  by (relation "measure length") auto

declare blocks.simps [simp del]

text \<open>The round constants, read from their hexadecimal digits, eight digits to a word.\<close>

definition hex_value :: "char \<Rightarrow> nat" where
  "hex_value c = (let v = of_char c in if v < 58 then v - 48 else v - 87)"

fun hex_words :: "string \<Rightarrow> u32 list" where
  "hex_words (c0 # c1 # c2 # c3 # c4 # c5 # c6 # c7 # cs) =
     word_of_nat (foldl (\<lambda>acc c. acc * 16 + hex_value c) 0 [c0, c1, c2, c3, c4, c5, c6, c7])
       # hex_words cs"
| "hex_words _ = []"

definition sha256_k :: "u32 list" where
  "sha256_k = hex_words (
     ''428a2f9871374491b5c0fbcfe9b5dba53956c25b59f111f1923f82a4ab1c5ed5'' @
     ''d807aa9812835b01243185be550c7dc372be5d7480deb1fe9bdc06a7c19bf174'' @
     ''e49b69c1efbe47860fc19dc6240ca1cc2de92c6f4a7484aa5cb0a9dc76f988da'' @
     ''983e5152a831c66db00327c8bf597fc7c6e00bf3d5a7914706ca635114292967'' @
     ''27b70a852e1b21384d2c6dfc53380d13650a7354766a0abb81c2c92e92722c85'' @
     ''a2bfe8a1a81a664bc24b8b70c76c51a3d192e819d6990624f40e3585106aa070'' @
     ''19a4c1161e376c082748774c34b0bcb5391c0cb34ed8aa4a5b9cca4f682e6ff3'' @
     ''748f82ee78a5636f84c878148cc7020890befffaa4506cebbef9a3f7c67178f2'')"

text \<open>The schedule is built newest word first, so the words it refers to sit at fixed positions.\<close>

fun sha256_schedule :: "nat \<Rightarrow> u32 list \<Rightarrow> u32 list" where
  "sha256_schedule 0 ws = ws"
| "sha256_schedule (Suc n) ws =
     (let s0 = word_rotr 7 (ws ! 14) XOR word_rotr 18 (ws ! 14) XOR drop_bit 3 (ws ! 14);
          s1 = word_rotr 17 (ws ! 1) XOR word_rotr 19 (ws ! 1) XOR drop_bit 10 (ws ! 1)
      in sha256_schedule n ((s1 + ws ! 6 + s0 + ws ! 15) # ws))"

type_synonym sha256_state = "u32 \<times> u32 \<times> u32 \<times> u32 \<times> u32 \<times> u32 \<times> u32 \<times> u32"

fun sha256_round :: "sha256_state \<Rightarrow> u32 \<times> u32 \<Rightarrow> sha256_state" where
  "sha256_round (a, b, c, d, e, f, g, h) (k, w) =
     (let t1 = h + (word_rotr 6 e XOR word_rotr 11 e XOR word_rotr 25 e)
                 + ((e AND f) XOR (NOT e AND g)) + k + w;
          t2 = (word_rotr 2 a XOR word_rotr 13 a XOR word_rotr 22 a)
                 + ((a AND b) XOR (a AND c) XOR (b AND c))
      in (t1 + t2, a, b, c, d + t1, e, f, g))"

fun sha256_add :: "sha256_state \<Rightarrow> sha256_state \<Rightarrow> sha256_state" where
  "sha256_add (a, b, c, d, e, f, g, h) (a', b', c', d', e', f', g', h') =
     (a + a', b + b', c + c', d + d', e + e', f + f', g + g', h + h')"

definition sha256_compress :: "sha256_state \<Rightarrow> u32 list \<Rightarrow> sha256_state" where
  "sha256_compress s block =
     sha256_add s (foldl sha256_round s (zip sha256_k (rev (sha256_schedule 48 (rev block)))))"

definition sha256_init :: sha256_state where
  "sha256_init = (0x6a09e667, 0xbb67ae85, 0x3c6ef372, 0xa54ff53a,
                  0x510e527f, 0x9b05688c, 0x1f83d9ab, 0x5be0cd19)"

definition sha256 :: "bytes \<Rightarrow> bytes" where
  "sha256 m =
     (case foldl sha256_compress sha256_init (blocks (words_of (sha_pad m))) of
        (a, b, c, d, e, f, g, h) \<Rightarrow> concat (map word_bytes [a, b, c, d, e, f, g, h]))"

lemma length_sha256 [codec_simps, simp]: "length (sha256 m) = 32"
  unfolding sha256_def by (auto simp: word_bytes_def split: prod.splits)

fun sha1_schedule :: "nat \<Rightarrow> u32 list \<Rightarrow> u32 list" where
  "sha1_schedule 0 ws = ws"
| "sha1_schedule (Suc n) ws =
     sha1_schedule n (word_rotl 1 (ws ! 2 XOR ws ! 7 XOR ws ! 13 XOR ws ! 15) # ws)"

type_synonym sha1_state = "u32 \<times> u32 \<times> u32 \<times> u32 \<times> u32"

fun sha1_round :: "sha1_state \<Rightarrow> nat \<times> u32 \<Rightarrow> sha1_state" where
  "sha1_round (a, b, c, d, e) (t, w) =
     (let (f, k) =
        (if t < 20 then ((b AND c) OR (NOT b AND d), 0x5a827999)
         else if t < 40 then (b XOR c XOR d, 0x6ed9eba1)
         else if t < 60 then ((b AND c) OR (b AND d) OR (c AND d), 0x8f1bbcdc)
         else (b XOR c XOR d, 0xca62c1d6))
      in (word_rotl 5 a + f + e + k + w, a, word_rotl 30 b, c, d))"

fun sha1_add :: "sha1_state \<Rightarrow> sha1_state \<Rightarrow> sha1_state" where
  "sha1_add (a, b, c, d, e) (a', b', c', d', e') = (a + a', b + b', c + c', d + d', e + e')"

definition sha1_compress :: "sha1_state \<Rightarrow> u32 list \<Rightarrow> sha1_state" where
  "sha1_compress s block =
     sha1_add s (foldl sha1_round s (zip [0..<80] (rev (sha1_schedule 64 (rev block)))))"

definition sha1 :: "bytes \<Rightarrow> bytes" where
  "sha1 m =
     (case foldl sha1_compress (0x67452301, 0xefcdab89, 0x98badcfe, 0x10325476, 0xc3d2e1f0)
             (blocks (words_of (sha_pad m))) of
        (a, b, c, d, e) \<Rightarrow> concat (map word_bytes [a, b, c, d, e]))"

lemma length_sha1 [codec_simps, simp]: "length (sha1 m) = 20"
  unfolding sha1_def by (auto simp: word_bytes_def split: prod.splits)

text \<open>HMAC (RFC 2104); both hash functions have 64-byte blocks.\<close>

definition hmac_pad_key :: "(bytes \<Rightarrow> bytes) \<Rightarrow> bytes \<Rightarrow> bytes" where
  "hmac_pad_key h key =
     (let k = (if length key > 64 then h key else key) in k @ replicate (64 - length k) 0)"

definition hmac :: "(bytes \<Rightarrow> bytes) \<Rightarrow> bytes \<Rightarrow> bytes \<Rightarrow> bytes" where
  "hmac h key msg =
     (let k = hmac_pad_key h key
      in h (map (\<lambda>x. x XOR 0x5c) k @ h (map (\<lambda>x. x XOR 0x36) k @ msg)))"

definition hmac_sha256 :: "bytes \<Rightarrow> bytes \<Rightarrow> bytes" where
  "hmac_sha256 = hmac sha256"

definition hmac_sha1 :: "bytes \<Rightarrow> bytes \<Rightarrow> bytes" where
  "hmac_sha1 = hmac sha1"

lemma length_hmac_sha256 [codec_simps, simp]: "length (hmac_sha256 k m) = 32"
  by (simp add: hmac_sha256_def hmac_def Let_def)

lemma length_hmac_sha1 [codec_simps, simp]: "length (hmac_sha1 k m) = 20"
  by (simp add: hmac_sha1_def hmac_def Let_def)

section \<open>Hexadecimal, UUIDs and decimal numbers\<close>

definition hex_digit :: "nat \<Rightarrow> nat" where
  "hex_digit d = (if d < 10 then 48 + d else 87 + d)"

definition hex_byte :: "8 word \<Rightarrow> ustr" where
  "hex_byte x = [hex_digit (unat x div 16), hex_digit (unat x mod 16)]"

definition hexdigest :: "bytes \<Rightarrow> ustr" where
  "hexdigest bs = concat (map hex_byte bs)"

lemma length_hexdigest [codec_simps]: "length (hexdigest bs) = 2 * length bs"
  by (induction bs) (simp_all add: hexdigest_def hex_byte_def)

definition uuid_bytes :: "uuid \<Rightarrow> bytes" where
  "uuid_bytes i = be_bytes 16 (unat i)"

definition uuid_str :: "uuid \<Rightarrow> ustr" where
  "uuid_str i =
     (let h = hexdigest (uuid_bytes i)
      in take 8 h @ [45] @ take 4 (drop 8 h) @ [45] @ take 4 (drop 12 h) @ [45]
           @ take 4 (drop 16 h) @ [45] @ drop 20 h)"

lemma length_uuid_bytes [codec_simps, simp]: "length (uuid_bytes i) = 16"
  by (simp add: uuid_bytes_def)

lemma length_uuid_str [codec_simps, simp]: "length (uuid_str i) = 36"
  by (simp add: uuid_str_def Let_def length_hexdigest)

lemma unat_uuid_lt: "unat (i :: uuid) < 256 ^ 16"
proof -
  have "unat i < 2 ^ LENGTH(128)" by (rule unsigned_less)
  then show ?thesis by simp
qed

lemma uuid_bytes_inject [simp]: "uuid_bytes i = uuid_bytes j \<longleftrightarrow> i = j"
proof
  assume "uuid_bytes i = uuid_bytes j"
  moreover have "unat i < 256 ^ 16" and "unat j < 256 ^ 16"
    using unat_uuid_lt by simp_all
  ultimately have "unat i = unat j"
    by (simp add: uuid_bytes_def be_bytes_inject)
  then show "i = j" by (rule unsigned_word_eqI)
qed simp

lemma hex_byte_inject: "hex_byte x = hex_byte y \<longleftrightarrow> x = y"
proof
  assume eq: "hex_byte x = hex_byte y"
  have inj: "d = e" if "hex_digit d = hex_digit e" "d < 16" "e < 16" for d e
    using that by (auto simp: hex_digit_def split: if_splits)
  have "unat x div 16 < 16" "unat y div 16 < 16"
    using unat_byte_lt [of x] unat_byte_lt [of y] by (simp_all add: less_mult_imp_div_less)
  with eq inj have "unat x div 16 = unat y div 16" and "unat x mod 16 = unat y mod 16"
    by (auto simp: hex_byte_def)
  then have "unat x = unat y"
    by (metis div_mult_mod_eq)
  then show "x = y" by (rule unsigned_word_eqI)
qed simp

lemma hexdigest_inject: "hexdigest xs = hexdigest ys \<longleftrightarrow> xs = ys"
proof (induction xs arbitrary: ys)
  case Nil
  then show ?case by (cases ys) (auto simp: hexdigest_def hex_byte_def)
next
  case (Cons x xs)
  show ?case
  proof (cases ys)
    case Nil
    then show ?thesis by (simp add: hexdigest_def hex_byte_def)
  next
    case (Cons y ys')
    have "hexdigest (x # xs) = hexdigest (y # ys')
        \<longleftrightarrow> hex_byte x = hex_byte y \<and> hexdigest xs = hexdigest ys'"
      by (simp add: hexdigest_def hex_byte_def)
    with Cons Cons.IH show ?thesis by (simp add: hex_byte_inject)
  qed
qed

lemma uuid_str_inject [simp]: "uuid_str i = uuid_str j \<longleftrightarrow> i = j"
proof
  assume eq: "uuid_str i = uuid_str j"
  define g where "g = (\<lambda>s :: ustr. take 8 s @ take 4 (drop 9 s) @ take 4 (drop 14 s)
      @ take 4 (drop 19 s) @ drop 24 s)"
  have split: "h = take 8 h @ take 4 (drop 8 h) @ take 4 (drop 12 h) @ take 4 (drop 16 h) @ drop 20 h"
    for h :: ustr
  proof -
    have "h = take 8 h @ drop 8 h"
      by (rule append_take_drop_id [symmetric])
    moreover have "drop 8 h = take 4 (drop 8 h) @ drop 12 h"
      using append_take_drop_id [of 4 "drop 8 h"] by simp
    moreover have "drop 12 h = take 4 (drop 12 h) @ drop 16 h"
      using append_take_drop_id [of 4 "drop 12 h"] by simp
    moreover have "drop 16 h = take 4 (drop 16 h) @ drop 20 h"
      using append_take_drop_id [of 4 "drop 16 h"] by simp
    ultimately show ?thesis by metis
  qed
  have "g (uuid_str k) = hexdigest (uuid_bytes k)" for k
    using split [of "hexdigest (uuid_bytes k)"]
    by (simp add: g_def uuid_str_def Let_def length_hexdigest)
  with eq have "hexdigest (uuid_bytes i) = hexdigest (uuid_bytes j)"
    by metis
  then show "i = j" by (simp add: hexdigest_inject)
qed simp

text \<open>\<open>str(n)\<close> of a natural number, and the zero-padded form \<open>f"{n:0wd}"\<close>.\<close>

fun dec :: "nat \<Rightarrow> ustr" where
  "dec n = (if n < 10 then [48 + n] else dec (n div 10) @ [48 + n mod 10])"

declare dec.simps [simp del]

definition zfill :: "nat \<Rightarrow> ustr \<Rightarrow> ustr" where
  "zfill w s = replicate (w - length s) 48 @ s"

fun padded :: "nat \<Rightarrow> nat \<Rightarrow> ustr" where
  "padded 0 v = []"
| "padded (Suc w) v = padded w (v div 10) @ [48 + v mod 10]"

lemma dec_digits: "c \<in> set (dec n) \<Longrightarrow> 48 \<le> c \<and> c \<le> 57"
proof (induction n rule: dec.induct)
  case (1 n)
  then show ?case
    by (auto simp: dec.simps [of n] split: if_splits)
qed

lemma length_padded [simp]: "length (padded w v) = w"
  by (induction w arbitrary: v) auto

lemma zfill_dec: "v < 10 ^ w \<Longrightarrow> 0 < w \<Longrightarrow> zfill w (dec v) = padded w v"
proof (induction w arbitrary: v)
  case (Suc w)
  show ?case
  proof (cases "v < 10")
    case True
    then have "padded w (v div 10) = replicate w 48"
      by (induction w) (auto simp: replicate_append_same)
    with True show ?thesis by (simp add: zfill_def dec.simps [of v])
  next
    case False
    with Suc.prems have "v div 10 < 10 ^ w" and "0 < w"
      by (auto simp: less_mult_imp_div_less mult.commute intro: Nat.gr0I)
    with Suc.IH have "zfill w (dec (v div 10)) = padded w (v div 10)" by blast
    with False show ?thesis by (simp add: zfill_def dec.simps [of v])
  qed
qed simp

lemma padded_inject: "v < 10 ^ w \<Longrightarrow> v' < 10 ^ w \<Longrightarrow> padded w v = padded w v' \<longleftrightarrow> v = v'"
proof (induction w arbitrary: v v')
  case (Suc w)
  then have "v div 10 < 10 ^ w" and "v' div 10 < 10 ^ w"
    by (simp_all add: less_mult_imp_div_less mult.commute)
  with Suc.IH have "padded w (v div 10) = padded w (v' div 10) \<longleftrightarrow> v div 10 = v' div 10" by blast
  then show ?case by auto (metis div_mult_mod_eq)
qed simp

section \<open>Dates\<close>

text \<open>A \<open>datetime.date\<close>, compared as PostgreSQL and Python compare dates.\<close>

type_synonym date = "nat \<times> nat \<times> nat"

definition valid_date :: "date \<Rightarrow> bool" where
  "valid_date d =
     (case d of (y, m, k) \<Rightarrow> 1 \<le> y \<and> y \<le> 9999 \<and> 1 \<le> m \<and> m \<le> 12 \<and> 1 \<le> k \<and> k \<le> 31)"

definition isoformat :: "date \<Rightarrow> ustr" where
  "isoformat d =
     (case d of (y, m, k) \<Rightarrow> zfill 4 (dec y) @ [45] @ zfill 2 (dec m) @ [45] @ zfill 2 (dec k))"

lemma isoformat_inject:
  assumes "valid_date d" and "valid_date e" and "isoformat d = isoformat e"
  shows "d = e"
proof -
  obtain y m k y' m' k' where d: "d = (y, m, k)" and e: "e = (y', m', k')"
    by (metis prod_cases3)
  have bounds: "y < 10 ^ 4" "y' < 10 ^ 4" "m < 10 ^ 2" "m' < 10 ^ 2" "k < 10 ^ 2" "k' < 10 ^ 2"
    using assms(1,2) d e by (auto simp: valid_date_def)
  have "padded 4 y @ 45 # padded 2 m @ 45 # padded 2 k
      = padded 4 y' @ 45 # padded 2 m' @ 45 # padded 2 k'"
    using assms(3) d e bounds by (simp add: isoformat_def zfill_dec del: padded.simps)
  then have "padded 4 y = padded 4 y'" "padded 2 m = padded 2 m'" "padded 2 k = padded 2 k'"
    by (simp_all del: padded.simps)
  with bounds d e show ?thesis by (simp add: padded_inject del: padded.simps)
qed

end
