(* ===== verification/Models.thy ===== *)
theory Models
  imports Encoding
begin

text \<open>
  The persisted state of the portal (\<open>src/app/models.py\<close>): every enumeration as a datatype with
  the source's members, every table as a record type with the source's columns, and the database
  as a record of tables. Column names carry a prefix for their table, since record fields share
  one name space. Foreign keys, unique constraints and check constraints are the invariant
  predicates at the end of the theory.
\<close>

section \<open>JSON values\<close>

text \<open>
  What \<open>json.loads\<close> returns and a JSONB column holds. A float is kept as its \<open>repr\<close>, since no
  modelled code computes with one; an object is the list of its members in insertion order.
\<close>

datatype json =
    JNull
  | JBool bool
  | JInt int
  | JFloat string
  | JStr ustr
  | JList "json list"
  | JObj "(ustr \<times> json) list"

text \<open>\<open>dict.get(key)\<close>, where a missing key reads as \<open>None\<close>.\<close>

definition jget :: "(ustr \<times> json) list \<Rightarrow> ustr \<Rightarrow> json" where
  "jget o' k = (case map_of o' k of None \<Rightarrow> JNull | Some v \<Rightarrow> v)"

section \<open>Enumerations\<close>

datatype UserRole = USER | ANALYST | SUPER_ADMIN

datatype UserSource = GOOGLE | WORKSPACE_SYNC | MANUAL

datatype SubjectKind = EMAIL | DOMAIN | USERNAME | PHONE | ORIGIN | PASSWORD

datatype ScanTrigger = MANUAL | SELF | BATCH | SCHEDULED

datatype ScanStatus = PENDING | RUNNING | SUCCEEDED | FAILED

datatype BatchTarget = OU | DOMAIN | SELECTION

datatype BatchStatus = PENDING | RUNNING | SUCCEEDED | PARTIAL | FAILED

datatype QueueStatus = QUEUED | RUNNING | SUCCEEDED | FAILED

datatype ScheduleKind = SCAN_OU | SCAN_DOMAIN | DIGEST

datatype NotificationStatus = PENDING | DRY_RUN | SENT | SUPPRESSED | FAILED

datatype AlertSinkName = WAZUH | DFIR_IRIS

datatype AlertOutboxStatus = PENDING | DELIVERED | DEAD_LETTER

datatype FindingSeverity = LOW | MEDIUM | HIGH

datatype FindingEventType =
    DISCOVERED | REMEDIATED | UNREMEDIATED | RE_LEAKED | PASSWORD_VIEWED | NOTIFIED | ALERTED

text \<open>The persisted \<open>.value\<close> of the enumerations whose text the code hashes, prints or parses.\<close>

fun UserRole_value :: "UserRole \<Rightarrow> string" where
  "UserRole_value UserRole.USER = ''user''"
| "UserRole_value UserRole.ANALYST = ''analyst''"
| "UserRole_value UserRole.SUPER_ADMIN = ''super_admin''"

fun SubjectKind_value :: "SubjectKind \<Rightarrow> string" where
  "SubjectKind_value SubjectKind.EMAIL = ''email''"
| "SubjectKind_value SubjectKind.DOMAIN = ''domain''"
| "SubjectKind_value SubjectKind.USERNAME = ''username''"
| "SubjectKind_value SubjectKind.PHONE = ''phone''"
| "SubjectKind_value SubjectKind.ORIGIN = ''origin''"
| "SubjectKind_value SubjectKind.PASSWORD = ''password''"

fun AlertSinkName_value :: "AlertSinkName \<Rightarrow> string" where
  "AlertSinkName_value AlertSinkName.WAZUH = ''wazuh''"
| "AlertSinkName_value AlertSinkName.DFIR_IRIS = ''dfir_iris''"

fun FindingSeverity_value :: "FindingSeverity \<Rightarrow> string" where
  "FindingSeverity_value FindingSeverity.LOW = ''low''"
| "FindingSeverity_value FindingSeverity.MEDIUM = ''medium''"
| "FindingSeverity_value FindingSeverity.HIGH = ''high''"

fun BatchTarget_value :: "BatchTarget \<Rightarrow> string" where
  "BatchTarget_value BatchTarget.OU = ''ou''"
| "BatchTarget_value BatchTarget.DOMAIN = ''domain''"
| "BatchTarget_value BatchTarget.SELECTION = ''selection''"

fun BatchStatus_value :: "BatchStatus \<Rightarrow> string" where
  "BatchStatus_value BatchStatus.PENDING = ''pending''"
| "BatchStatus_value BatchStatus.RUNNING = ''running''"
| "BatchStatus_value BatchStatus.SUCCEEDED = ''succeeded''"
| "BatchStatus_value BatchStatus.PARTIAL = ''partial''"
| "BatchStatus_value BatchStatus.FAILED = ''failed''"

fun ScheduleKind_value :: "ScheduleKind \<Rightarrow> string" where
  "ScheduleKind_value ScheduleKind.SCAN_OU = ''scan_ou''"
| "ScheduleKind_value ScheduleKind.SCAN_DOMAIN = ''scan_domain''"
| "ScheduleKind_value ScheduleKind.DIGEST = ''digest''"

fun NotificationStatus_value :: "NotificationStatus \<Rightarrow> string" where
  "NotificationStatus_value NotificationStatus.PENDING = ''pending''"
| "NotificationStatus_value NotificationStatus.DRY_RUN = ''dry_run''"
| "NotificationStatus_value NotificationStatus.SENT = ''sent''"
| "NotificationStatus_value NotificationStatus.SUPPRESSED = ''suppressed''"
| "NotificationStatus_value NotificationStatus.FAILED = ''failed''"

fun FindingEventType_value :: "FindingEventType \<Rightarrow> string" where
  "FindingEventType_value FindingEventType.DISCOVERED = ''discovered''"
| "FindingEventType_value FindingEventType.REMEDIATED = ''remediated''"
| "FindingEventType_value FindingEventType.UNREMEDIATED = ''unremediated''"
| "FindingEventType_value FindingEventType.RE_LEAKED = ''re_leaked''"
| "FindingEventType_value FindingEventType.PASSWORD_VIEWED = ''password_viewed''"
| "FindingEventType_value FindingEventType.NOTIFIED = ''notified''"
| "FindingEventType_value FindingEventType.ALERTED = ''alerted''"

text \<open>
  Looking a member up by its value, \<open>BatchTarget(s)\<close>: the members of the enumerations that are parsed are
  those of the class of finite types, in the order of the source.
\<close>

instantiation UserRole :: enum
begin

definition "enum_UserRole = [UserRole.USER, UserRole.ANALYST, UserRole.SUPER_ADMIN]"

definition "enum_all_UserRole P \<longleftrightarrow> P UserRole.USER \<and> P UserRole.ANALYST \<and> P UserRole.SUPER_ADMIN"

definition "enum_ex_UserRole P \<longleftrightarrow> P UserRole.USER \<or> P UserRole.ANALYST \<or> P UserRole.SUPER_ADMIN"

instance
proof
  show univ: "UNIV = set (enum_class.enum :: UserRole list)"
    unfolding enum_UserRole_def by (auto intro: UserRole.exhaust)
  show "enum_class.enum_all P \<longleftrightarrow> Ball UNIV P" "enum_class.enum_ex P \<longleftrightarrow> Bex UNIV P" for P :: "UserRole \<Rightarrow> bool"
    unfolding univ by (simp_all add: enum_UserRole_def enum_all_UserRole_def enum_ex_UserRole_def)
qed (simp add: enum_UserRole_def)

end

instantiation SubjectKind :: enum
begin

definition "enum_SubjectKind = [SubjectKind.EMAIL, SubjectKind.DOMAIN, SubjectKind.USERNAME, SubjectKind.PHONE, SubjectKind.ORIGIN, SubjectKind.PASSWORD]"

definition "enum_all_SubjectKind P \<longleftrightarrow> P SubjectKind.EMAIL \<and> P SubjectKind.DOMAIN \<and> P SubjectKind.USERNAME \<and> P SubjectKind.PHONE \<and> P SubjectKind.ORIGIN \<and> P SubjectKind.PASSWORD"

definition "enum_ex_SubjectKind P \<longleftrightarrow> P SubjectKind.EMAIL \<or> P SubjectKind.DOMAIN \<or> P SubjectKind.USERNAME \<or> P SubjectKind.PHONE \<or> P SubjectKind.ORIGIN \<or> P SubjectKind.PASSWORD"

instance
proof
  show univ: "UNIV = set (enum_class.enum :: SubjectKind list)"
    unfolding enum_SubjectKind_def by (auto intro: SubjectKind.exhaust)
  show "enum_class.enum_all P \<longleftrightarrow> Ball UNIV P" "enum_class.enum_ex P \<longleftrightarrow> Bex UNIV P" for P :: "SubjectKind \<Rightarrow> bool"
    unfolding univ by (simp_all add: enum_SubjectKind_def enum_all_SubjectKind_def enum_ex_SubjectKind_def)
qed (simp add: enum_SubjectKind_def)

end

instantiation BatchTarget :: enum
begin

definition "enum_BatchTarget = [BatchTarget.OU, BatchTarget.DOMAIN, BatchTarget.SELECTION]"

definition "enum_all_BatchTarget P \<longleftrightarrow> P BatchTarget.OU \<and> P BatchTarget.DOMAIN \<and> P BatchTarget.SELECTION"

definition "enum_ex_BatchTarget P \<longleftrightarrow> P BatchTarget.OU \<or> P BatchTarget.DOMAIN \<or> P BatchTarget.SELECTION"

instance
proof
  show univ: "UNIV = set (enum_class.enum :: BatchTarget list)"
    unfolding enum_BatchTarget_def by (auto intro: BatchTarget.exhaust)
  show "enum_class.enum_all P \<longleftrightarrow> Ball UNIV P" "enum_class.enum_ex P \<longleftrightarrow> Bex UNIV P" for P :: "BatchTarget \<Rightarrow> bool"
    unfolding univ by (simp_all add: enum_BatchTarget_def enum_all_BatchTarget_def enum_ex_BatchTarget_def)
qed (simp add: enum_BatchTarget_def)

end

instantiation ScheduleKind :: enum
begin

definition "enum_ScheduleKind = [ScheduleKind.SCAN_OU, ScheduleKind.SCAN_DOMAIN, ScheduleKind.DIGEST]"

definition "enum_all_ScheduleKind P \<longleftrightarrow> P ScheduleKind.SCAN_OU \<and> P ScheduleKind.SCAN_DOMAIN \<and> P ScheduleKind.DIGEST"

definition "enum_ex_ScheduleKind P \<longleftrightarrow> P ScheduleKind.SCAN_OU \<or> P ScheduleKind.SCAN_DOMAIN \<or> P ScheduleKind.DIGEST"

instance
proof
  show univ: "UNIV = set (enum_class.enum :: ScheduleKind list)"
    unfolding enum_ScheduleKind_def by (auto intro: ScheduleKind.exhaust)
  show "enum_class.enum_all P \<longleftrightarrow> Ball UNIV P" "enum_class.enum_ex P \<longleftrightarrow> Bex UNIV P" for P :: "ScheduleKind \<Rightarrow> bool"
    unfolding univ by (simp_all add: enum_ScheduleKind_def enum_all_ScheduleKind_def enum_ex_ScheduleKind_def)
qed (simp add: enum_ScheduleKind_def)

end

definition enum_member :: "('k :: enum \<Rightarrow> string) \<Rightarrow> ustr \<Rightarrow> 'k option" where
  "enum_member val s = find (\<lambda>k. uni (val k) = s) enum_class.enum"

lemma enum_member_value: "inj val \<Longrightarrow> enum_member val (uni (val k)) = Some k"
  unfolding enum_member_def uni_inject inj_eq
  by (rule unique_on_find [of "\<lambda>k. k"]) (simp_all add: unique_on_def enum_distinct enum_UNIV)

lemma SubjectKind_value_inject [simp]:
  "SubjectKind_value j = SubjectKind_value k \<longleftrightarrow> j = k"
  by (cases j; cases k) auto

lemma UserRole_value_inject [simp]: "UserRole_value r = UserRole_value s \<longleftrightarrow> r = s"
  by (cases r; cases s) auto

section \<open>Tables\<close>

record User =
  u_id :: uuid
  u_email :: ustr
  u_google_sub :: "ustr option"
  u_display_name :: ustr
  u_ou_path :: "ustr option"
  u_role :: UserRole
  u_is_active :: bool
  u_source :: UserSource
  u_created_at :: datetime
  u_last_login_at :: "datetime option"

record AdminCredential =
  cred_user_id :: uuid
  cred_password_hash :: ustr
  cred_totp_secret_enc :: "bytes option"
  cred_totp_enabled_at :: "datetime option"
  cred_failed_attempts :: nat
  cred_locked_until :: "datetime option"

record AdminLoginRateLimit =
  rl_ip_hash :: bytes
  rl_window_started_at :: datetime
  rl_attempts :: nat
  rl_blocked_until :: "datetime option"

record Session =
  sess_id_hash :: bytes
  sess_user_id :: uuid
  sess_created_at :: datetime
  sess_expires_at :: datetime
  sess_last_seen_at :: datetime
  sess_idle_expires_at :: datetime
  sess_ip_hash :: bytes
  sess_ua_hash :: bytes
  sess_revoked_at :: "datetime option"

record PlatformSetting =
  ps_key :: ustr
  ps_ciphertext :: bytes
  ps_nonce :: bytes
  ps_schema_version :: nat
  ps_updated_at :: datetime
  ps_updated_by :: uuid

record AuditLog =
  al_id :: uuid
  al_actor_id :: "uuid option"
  al_action :: string
  al_target_type :: "string option"
  al_target_id :: "ustr option"
  al_ip_hash :: bytes
  al_at :: datetime
  al_meta :: "(ustr \<times> json) list"

record Subject =
  sub_id :: uuid
  sub_kind :: SubjectKind
  sub_value_norm :: ustr
  sub_value_display :: ustr
  sub_first_scanned_at :: "datetime option"
  sub_last_scanned_at :: "datetime option"
  sub_linked_user_id :: "uuid option"

record Scan =
  scan_id :: uuid
  scan_subject_id :: uuid
  scan_requested_by :: "uuid option"
  scan_trigger :: ScanTrigger
  scan_status :: ScanStatus
  scan_started_at :: "datetime option"
  scan_finished_at :: "datetime option"
  scan_result_count :: nat
  scan_new_count :: nat
  scan_quota :: "int option"
  scan_truncated :: bool
  scan_error :: "string option"

record BreachSource =
  src_id :: uuid
  src_name :: ustr
  src_name_norm :: ustr
  src_breach_date :: "date option"
  src_breach_date_norm :: date
  src_unverified :: "bool option"
  src_passwordless :: "bool option"
  src_compilation :: "bool option"
  src_extra :: "(ustr \<times> json) list"

record Finding =
  fnd_id :: uuid
  fnd_subject_id :: uuid
  fnd_source_id :: uuid
  fnd_email :: "ustr option"
  fnd_username :: "ustr option"
  fnd_phone :: "ustr option"
  fnd_origin :: "ustr option"
  fnd_identity_key :: "bytes option"
  fnd_password_ciphertext :: "bytes option"
  fnd_password_nonce :: "bytes option"
  fnd_password_sha256 :: "bytes option"
  fnd_password_mask :: "ustr option"
  fnd_password_len :: "nat option"
  fnd_password_charset :: "ustr option"
  fnd_fields :: "ustr list"
  fnd_raw :: "(ustr \<times> json) list"
  fnd_fingerprint :: bytes
  fnd_severity :: FindingSeverity
  fnd_first_seen_at :: datetime
  fnd_last_seen_at :: datetime
  fnd_remediated_at :: "datetime option"
  fnd_remediated_by :: "uuid option"
  fnd_remediation_note :: "ustr option"
  fnd_superseded_by_id :: "uuid option"
  fnd_notified_at :: "datetime option"

record FindingEvent =
  ev_id :: uuid
  ev_finding_id :: uuid
  ev_event :: FindingEventType
  ev_actor_id :: "uuid option"
  ev_at :: datetime
  ev_meta :: "(ustr \<times> json) list"

record ScanBatch =
  batch_id :: uuid
  batch_target_type :: BatchTarget
  batch_target :: "(ustr \<times> json) list"
  batch_status :: BatchStatus
  batch_created_by :: uuid
  batch_total_count :: nat
  batch_completed_count :: nat
  batch_failed_count :: nat
  batch_created_at :: datetime
  batch_started_at :: "datetime option"
  batch_finished_at :: "datetime option"

record ScanQueue =
  q_id :: uuid
  q_batch_id :: uuid
  q_subject_id :: uuid
  q_status :: QueueStatus
  q_attempts :: nat
  q_locked_by :: "ustr option"
  q_locked_at :: "datetime option"
  q_last_error :: "string option"
  q_created_at :: datetime
  q_finished_at :: "datetime option"

record Schedule =
  sched_id :: uuid
  sched_kind :: ScheduleKind
  sched_target :: ustr
  sched_cron :: ustr
  sched_timezone :: ustr
  sched_enabled :: bool
  sched_misfire_grace_seconds :: nat
  sched_last_run_at :: "datetime option"
  sched_last_batch_id :: "uuid option"
  sched_next_run_at :: datetime
  sched_last_error :: "string option"
  sched_created_by :: uuid
  sched_created_at :: datetime

record Notification =
  ntf_id :: uuid
  ntf_user_id :: uuid
  ntf_template :: string
  ntf_finding_ids :: "ustr list"
  ntf_status :: NotificationStatus
  ntf_dedupe_key :: bytes
  ntf_attempts :: nat
  ntf_error :: "string option"
  ntf_created_at :: datetime
  ntf_sent_at :: "datetime option"

record WatchlistEntry =
  wl_id :: uuid
  wl_subject_id :: "uuid option"
  wl_user_id :: "uuid option"
  wl_alert_soc :: bool
  wl_alert_user :: bool
  wl_alert_wazuh :: bool
  wl_alert_iris :: bool
  wl_enabled :: bool
  wl_created_by :: uuid
  wl_created_at :: datetime

record AlertOutbox =
  ao_id :: uuid
  ao_sink :: AlertSinkName
  ao_payload :: "(ustr \<times> json) list"
  ao_status :: AlertOutboxStatus
  ao_dedupe_key :: bytes
  ao_attempts :: nat
  ao_next_attempt_at :: datetime
  ao_last_error :: "string option"
  ao_created_at :: datetime
  ao_delivered_at :: "datetime option"

record Branding =
  br_id :: int
  br_organization_name :: "ustr option"
  br_logo :: "bytes option"
  br_logo_content_type :: "ustr option"
  br_logo_sha256 :: "ustr option"
  br_updated_at :: datetime

section \<open>The database\<close>

text \<open>
  One record of all tables. \<open>clock\<close> is what \<open>datetime.now(UTC)\<close> returns during the operation and
  \<open>tx_now\<close> what SQL \<open>now()\<close> returns, the start of the transaction. \<open>entropy\<close> is the octet stream
  of the operating system's random source, of which the first \<open>drawn\<close> octets are used up.
\<close>

record db =
  users :: "User list"
  admin_credentials :: "AdminCredential list"
  admin_login_rate_limits :: "AdminLoginRateLimit list"
  sessions :: "Session list"
  platform_settings :: "PlatformSetting list"
  audit_log :: "AuditLog list"
  subjects :: "Subject list"
  scans :: "Scan list"
  breach_sources :: "BreachSource list"
  findings :: "Finding list"
  finding_events :: "FindingEvent list"
  scan_batches :: "ScanBatch list"
  scan_queue :: "ScanQueue list"
  schedules :: "Schedule list"
  notifications :: "Notification list"
  watchlist :: "WatchlistEntry list"
  alert_outbox :: "AlertOutbox list"
  branding :: "Branding list"
  clock :: datetime
  tx_now :: datetime
  entropy :: "nat \<Rightarrow> 8 word"
  drawn :: nat

text \<open>\<open>os.urandom(n)\<close>, \<open>uuid.uuid4()\<close> and \<open>secrets.token_urlsafe(n)\<close>.\<close>

definition token_bytes :: "nat \<Rightarrow> db \<Rightarrow> bytes \<times> db" where
  "token_bytes n d = (map (entropy d) [drawn d..<drawn d + n], d\<lparr>drawn := drawn d + n\<rparr>)"

definition uuid_of_bytes :: "bytes \<Rightarrow> uuid" where
  "uuid_of_bytes bs =
     (let i = word_of_nat (from_bytes_big bs);
          i = (i AND NOT (push_bit 48 0xC000)) OR push_bit 48 0x8000
      in (i AND NOT (push_bit 64 0xF000)) OR push_bit 76 4)"

definition uuid4 :: "db \<Rightarrow> uuid \<times> db" where
  "uuid4 d = (let (bs, d') = token_bytes 16 d in (uuid_of_bytes bs, d'))"

definition token_urlsafe :: "nat \<Rightarrow> db \<Rightarrow> ustr \<times> db" where
  "token_urlsafe n d = (let (bs, d') = token_bytes n d in (base64url bs, d'))"

definition empty_db :: "datetime \<Rightarrow> (nat \<Rightarrow> 8 word) \<Rightarrow> db" where
  "empty_db now e =
     \<lparr>users = [], admin_credentials = [], admin_login_rate_limits = [], sessions = [],
      platform_settings = [], audit_log = [], subjects = [], scans = [], breach_sources = [],
      findings = [], finding_events = [], scan_batches = [], scan_queue = [], schedules = [],
      notifications = [], watchlist = [], alert_outbox = [], branding = [],
      clock = now, tx_now = now, entropy = e, drawn = 0\<rparr>"

lemma length_token_bytes [codec_simps]: "token_bytes n d = (bs, d') \<Longrightarrow> length bs = n"
  by (auto simp: token_bytes_def)

lemma token_bytes_frame: "token_bytes n d = (bs, d') \<Longrightarrow> d' = d\<lparr>drawn := drawn d + n\<rparr>"
  by (auto simp: token_bytes_def)

lemma uuid4_frame: "uuid4 d = (i, d') \<Longrightarrow> d' = d\<lparr>drawn := drawn d + 16\<rparr>"
  by (auto simp: uuid4_def token_bytes_def)

text \<open>The octets and the identifier the next draw yields, as functions of the state.\<close>

definition next_bytes :: "nat \<Rightarrow> db \<Rightarrow> bytes" where
  "next_bytes n d = map (entropy d) [drawn d..<drawn d + n]"

definition next_uuid :: "db \<Rightarrow> uuid" where
  "next_uuid d = uuid_of_bytes (next_bytes 16 d)"

lemma token_bytes_eq: "token_bytes n d = (next_bytes n d, d\<lparr>drawn := drawn d + n\<rparr>)"
  by (simp add: token_bytes_def next_bytes_def)

lemma uuid4_eq: "uuid4 d = (next_uuid d, d\<lparr>drawn := drawn d + 16\<rparr>)"
  by (simp add: uuid4_def token_bytes_eq next_uuid_def)

lemma token_urlsafe_eq:
  "token_urlsafe n d = (base64url (next_bytes n d), d\<lparr>drawn := drawn d + n\<rparr>)"
  by (simp add: token_urlsafe_def token_bytes_eq)

lemma length_next_bytes [codec_simps, simp]: "length (next_bytes n d) = n"
  by (simp add: next_bytes_def)

lemma token_urlsafe_frame: "token_urlsafe n d = (t, d') \<Longrightarrow> d' = d\<lparr>drawn := drawn d + n\<rparr>"
  by (auto simp: token_urlsafe_def token_bytes_def)

lemma token_urlsafe_chars:
  "token_urlsafe n d = (t, d') \<Longrightarrow> list_all is_urlsafe t \<and> length t = (n * 4 + 2) div 3"
  by (auto simp: token_urlsafe_def token_bytes_def base64url_urlsafe length_base64url)

section \<open>Constraints\<close>

text \<open>
  The check constraints of the tables the modelled operations write, and the unique constraints
  and foreign keys the operations rely on.
\<close>

definition session_ok :: "Session \<Rightarrow> bool" where
  "session_ok s \<longleftrightarrow>
     sess_expires_at s > sess_created_at s \<and> sess_idle_expires_at s > sess_created_at s \<and>
     length (sess_id_hash s) = 32 \<and> length (sess_ip_hash s) = 32 \<and> length (sess_ua_hash s) = 32"

definition finding_ok :: "Finding \<Rightarrow> bool" where
  "finding_ok f \<longleftrightarrow>
     length (fnd_fingerprint f) = 32 \<and>
     (case fnd_identity_key f of None \<Rightarrow> True | Some k \<Rightarrow> length k = 32) \<and>
     (case fnd_password_sha256 f of None \<Rightarrow> True | Some k \<Rightarrow> length k = 32) \<and>
     (case fnd_password_nonce f of None \<Rightarrow> True | Some k \<Rightarrow> length k = 12)"

definition watchlist_ok :: "WatchlistEntry \<Rightarrow> bool" where
  "watchlist_ok w \<longleftrightarrow> (wl_subject_id w \<noteq> None) \<noteq> (wl_user_id w \<noteq> None)"

definition branding_ok :: "Branding \<Rightarrow> bool" where
  "branding_ok b \<longleftrightarrow>
     br_id b = 1 \<and> (case br_logo b of None \<Rightarrow> True | Some l \<Rightarrow> length l \<le> 1048576)"

text \<open>The self-reference of findings: \<open>fk_findings_superseded_by_id\<close>.\<close>

definition superseded_fk :: "Finding list \<Rightarrow> bool" where
  "superseded_fk t \<longleftrightarrow>
     (\<forall>f \<in> set t. case fnd_superseded_by_id f of None \<Rightarrow> True | Some i \<Rightarrow> i \<in> fnd_id ` set t)"

lemma superseded_fk_iff:
  "superseded_fk t \<longleftrightarrow>
     (\<forall>i. Some i \<in> fnd_superseded_by_id ` set t \<longrightarrow> i \<in> fnd_id ` set t)"
  unfolding superseded_fk_def by (force split: option.splits)

definition events_fk :: "db \<Rightarrow> bool" where
  "events_fk d \<longleftrightarrow> (\<forall>e \<in> set (finding_events d). ev_finding_id e \<in> fnd_id ` set (findings d))"

text \<open>The invariant of the findings component: keys, fingerprints and references.\<close>

definition findings_inv :: "db \<Rightarrow> bool" where
  "findings_inv d \<longleftrightarrow>
     unique_on fnd_id (findings d) \<and> unique_on fnd_fingerprint (findings d) \<and>
     list_all finding_ok (findings d) \<and> superseded_fk (findings d) \<and> events_fk d"

section \<open>Sample rows\<close>

text \<open>Concrete rows on which the components' theorems are exercised.\<close>

definition a_user :: "uuid \<Rightarrow> UserRole \<Rightarrow> User" where
  "a_user i r =
     \<lparr>u_id = i, u_email = uni ''a@example.org'', u_google_sub = None, u_display_name = uni ''A'',
      u_ou_path = None, u_role = r, u_is_active = True, u_source = UserSource.MANUAL,
      u_created_at = 0, u_last_login_at = None\<rparr>"

definition a_subject :: "uuid \<Rightarrow> SubjectKind \<Rightarrow> string \<Rightarrow> Subject" where
  "a_subject i k v =
     \<lparr>sub_id = i, sub_kind = k, sub_value_norm = uni v, sub_value_display = uni v,
      sub_first_scanned_at = None, sub_last_scanned_at = None, sub_linked_user_id = None\<rparr>"

definition a_finding :: "uuid \<Rightarrow> uuid \<Rightarrow> datetime option \<Rightarrow> Finding" where
  "a_finding i s r =
     \<lparr>fnd_id = i, fnd_subject_id = s, fnd_source_id = 0, fnd_email = None, fnd_username = None,
      fnd_phone = None, fnd_origin = None, fnd_identity_key = None, fnd_password_ciphertext = None,
      fnd_password_nonce = None, fnd_password_sha256 = None, fnd_password_mask = None,
      fnd_password_len = None, fnd_password_charset = None, fnd_fields = [], fnd_raw = [],
      fnd_fingerprint = replicate 16 0 @ uuid_bytes i, fnd_severity = FindingSeverity.MEDIUM,
      fnd_first_seen_at = 0, fnd_last_seen_at = 0, fnd_remediated_at = r, fnd_remediated_by = None,
      fnd_remediation_note = None, fnd_superseded_by_id = None, fnd_notified_at = None\<rparr>"

definition db0 :: db where
  "db0 = empty_db (seconds 1000000) word_of_nat"

lemmas sample_defs = a_user_def a_subject_def a_finding_def db0_def empty_db_def

end
