(* ===== verification/PyText.thy ===== *)
theory PyText
  imports Models
begin

text \<open>
  The methods of Python's \<open>str\<close> and the URL functions of \<open>urllib.parse\<close> that the components call.
  Their behaviour on ASCII characters is defined here; for other code points they consult the
  Unicode character database of the Python build, which is the parameter \<open>unidata\<close>.
\<close>

record unidata =
  uc_casefold :: "nat \<Rightarrow> ustr"
  uc_lower :: "nat \<Rightarrow> ustr"
  uc_islower :: "nat \<Rightarrow> bool"
  uc_isupper :: "nat \<Rightarrow> bool"
  uc_isdigit :: "nat \<Rightarrow> bool"
  uc_isalnum :: "nat \<Rightarrow> bool"
  uc_isspace :: "nat \<Rightarrow> bool"
  uc_isprintable :: "nat \<Rightarrow> bool"
  uc_punct_or_symbol :: "nat \<Rightarrow> bool"
  uc_nfkc :: "ustr \<Rightarrow> ustr"
  uc_idna :: "ustr \<Rightarrow> ustr option"
  uc_decimal :: "nat \<Rightarrow> nat option"

text \<open>Tables that know no character outside ASCII: an instance of the parameter.\<close>

definition ascii_unidata :: unidata where
  "ascii_unidata =
     \<lparr>uc_casefold = (\<lambda>c. [c]), uc_lower = (\<lambda>c. [c]), uc_islower = (\<lambda>_. False),
      uc_isupper = (\<lambda>_. False), uc_isdigit = (\<lambda>_. False), uc_isalnum = (\<lambda>_. False),
      uc_isspace = (\<lambda>_. False), uc_isprintable = (\<lambda>_. False),
      uc_punct_or_symbol = (\<lambda>_. False), uc_nfkc = (\<lambda>s. s), uc_idna = (\<lambda>_. None),
      uc_decimal = (\<lambda>_. None)\<rparr>"

definition isascii :: "ustr \<Rightarrow> bool" where
  "isascii s \<longleftrightarrow> list_all (\<lambda>c. c < 128) s"

definition is_upper_ascii :: "nat \<Rightarrow> bool" where
  "is_upper_ascii c \<longleftrightarrow> 65 \<le> c \<and> c \<le> 90"

definition is_lower_ascii :: "nat \<Rightarrow> bool" where
  "is_lower_ascii c \<longleftrightarrow> 97 \<le> c \<and> c \<le> 122"

definition is_digit_ascii :: "nat \<Rightarrow> bool" where
  "is_digit_ascii c \<longleftrightarrow> 48 \<le> c \<and> c \<le> 57"

definition is_alnum_ascii :: "nat \<Rightarrow> bool" where
  "is_alnum_ascii c \<longleftrightarrow> is_upper_ascii c \<or> is_lower_ascii c \<or> is_digit_ascii c"

definition lower_ascii :: "nat \<Rightarrow> nat" where
  "lower_ascii c = (if is_upper_ascii c then c + 32 else c)"

lemmas ascii_defs = is_upper_ascii_def is_lower_ascii_def is_digit_ascii_def is_alnum_ascii_def
  lower_ascii_def

section \<open>Character classes\<close>

definition islower :: "unidata \<Rightarrow> nat \<Rightarrow> bool" where
  "islower U c \<longleftrightarrow> (if c < 128 then is_lower_ascii c else uc_islower U c)"

definition isupper :: "unidata \<Rightarrow> nat \<Rightarrow> bool" where
  "isupper U c \<longleftrightarrow> (if c < 128 then is_upper_ascii c else uc_isupper U c)"

definition isdigit :: "unidata \<Rightarrow> nat \<Rightarrow> bool" where
  "isdigit U c \<longleftrightarrow> (if c < 128 then is_digit_ascii c else uc_isdigit U c)"

definition isalnum :: "unidata \<Rightarrow> nat \<Rightarrow> bool" where
  "isalnum U c \<longleftrightarrow> (if c < 128 then is_alnum_ascii c else uc_isalnum U c)"

definition isspace :: "unidata \<Rightarrow> nat \<Rightarrow> bool" where
  "isspace U c \<longleftrightarrow>
     (if c < 128 then (9 \<le> c \<and> c \<le> 13) \<or> (28 \<le> c \<and> c \<le> 32) else uc_isspace U c)"

definition isprintable :: "unidata \<Rightarrow> nat \<Rightarrow> bool" where
  "isprintable U c \<longleftrightarrow> (if c < 128 then 32 \<le> c \<and> c \<le> 126 else uc_isprintable U c)"

text \<open>\<open>unicodedata.category(c).startswith(("P", "S"))\<close>.\<close>

definition punct_or_symbol :: "unidata \<Rightarrow> nat \<Rightarrow> bool" where
  "punct_or_symbol U c \<longleftrightarrow>
     (if c < 128 then 33 \<le> c \<and> c \<le> 126 \<and> \<not> is_alnum_ascii c else uc_punct_or_symbol U c)"

section \<open>Methods of \<open>str\<close>\<close>

definition casefold :: "unidata \<Rightarrow> ustr \<Rightarrow> ustr" where
  "casefold U s = concat (map (\<lambda>c. if c < 128 then [lower_ascii c] else uc_casefold U c) s)"

definition lower :: "unidata \<Rightarrow> ustr \<Rightarrow> ustr" where
  "lower U s = concat (map (\<lambda>c. if c < 128 then [lower_ascii c] else uc_lower U c) s)"

definition nfkc :: "unidata \<Rightarrow> ustr \<Rightarrow> ustr" where
  "nfkc U s = (if isascii s then s else uc_nfkc U s)"

definition lstrip_of :: "(nat \<Rightarrow> bool) \<Rightarrow> ustr \<Rightarrow> ustr" where
  "lstrip_of p s = dropWhile p s"

definition rstrip_of :: "(nat \<Rightarrow> bool) \<Rightarrow> ustr \<Rightarrow> ustr" where
  "rstrip_of p s = rev (dropWhile p (rev s))"

definition strip :: "unidata \<Rightarrow> ustr \<Rightarrow> ustr" where
  "strip U s = rstrip_of (isspace U) (lstrip_of (isspace U) s)"

fun split_on :: "nat \<Rightarrow> ustr \<Rightarrow> ustr list" where
  "split_on c [] = [[]]"
| "split_on c (x # xs) =
     (if x = c then [] # split_on c xs
      else (case split_on c xs of [] \<Rightarrow> [[x]] | w # ws \<Rightarrow> (x # w) # ws))"

text \<open>\<open>partition\<close> and \<open>rpartition\<close> on a single character.\<close>

definition partition_on :: "nat \<Rightarrow> ustr \<Rightarrow> ustr \<times> bool \<times> ustr" where
  "partition_on c s =
     (takeWhile (\<lambda>x. x \<noteq> c) s, c \<in> set s, drop 1 (dropWhile (\<lambda>x. x \<noteq> c) s))"

definition rpartition_on :: "nat \<Rightarrow> ustr \<Rightarrow> ustr \<times> bool \<times> ustr" where
  "rpartition_on c s =
     (if c \<in> set s
      then (rev (drop 1 (dropWhile (\<lambda>x. x \<noteq> c) (rev s))), True, rev (takeWhile (\<lambda>x. x \<noteq> c) (rev s)))
      else ([], False, s))"

text \<open>\<open>sub in s\<close>.\<close>

fun contains :: "ustr \<Rightarrow> ustr \<Rightarrow> bool" where
  "contains sub [] \<longleftrightarrow> sub = []"
| "contains sub (x # xs) \<longleftrightarrow> take (length sub) (x # xs) = sub \<or> contains sub xs"

text \<open>
  \<open>int(s)\<close>: surrounding white space, an optional sign, and decimal digits (at most 4300) with
  single underscores between them; anything else is a \<open>ValueError\<close>.
\<close>

definition digit_value :: "unidata \<Rightarrow> nat \<Rightarrow> nat option" where
  "digit_value U c =
     (if c < 128 then (if is_digit_ascii c then Some (c - 48) else None) else uc_decimal U c)"

fun digits_value :: "unidata \<Rightarrow> bool \<Rightarrow> nat \<Rightarrow> ustr \<Rightarrow> nat option" where
  "digits_value U after acc [] = (if after then Some acc else None)"
| "digits_value U after acc (c # s) =
     (if c = 95 then (if after then digits_value U False acc s else None)
      else (case digit_value U c of
              None \<Rightarrow> None
            | Some v \<Rightarrow> digits_value U True (acc * 10 + v) s))"

definition py_int :: "unidata \<Rightarrow> ustr \<Rightarrow> int option" where
  "py_int U s =
     (let t = strip U s;
          (neg, ds) = (case t of
                         c # r \<Rightarrow> if c = 45 then (True, r) else if c = 43 then (False, r) else (False, t)
                       | [] \<Rightarrow> (False, []))
      in if length (filter (\<lambda>c. c \<noteq> 95) ds) > 4300 then None
         else map_option (\<lambda>n. if neg then - int n else int n) (digits_value U False 0 ds))"

section \<open>The \<open>idna\<close> codec\<close>

text \<open>
  \<open>s.encode("idna").decode("ascii")\<close>: an ASCII name is returned as it is when its labels have
  admissible lengths; any other name is converted label by label by the codec's tables.
\<close>

definition idna :: "unidata \<Rightarrow> ustr \<Rightarrow> ustr option" where
  "idna U s =
     (if s = [] then Some []
      else if isascii s then
        (let labels = split_on 46 s in
         if list_all (\<lambda>l. 0 < length l \<and> length l < 64) (butlast labels)
            \<and> length (last labels) < 64
         then Some s else None)
      else (case uc_idna U s of
              None \<Rightarrow> None
            | Some t \<Rightarrow> if isascii t then Some t else None))"

section \<open>\<open>urllib.parse\<close>\<close>

record split_url =
  url_scheme :: ustr
  url_netloc :: ustr
  url_path :: ustr
  url_query :: ustr

definition is_scheme_char :: "nat \<Rightarrow> bool" where
  "is_scheme_char c \<longleftrightarrow> is_alnum_ascii c \<or> c = 43 \<or> c = 45 \<or> c = 46"

definition is_alpha_ascii :: "nat \<Rightarrow> bool" where
  "is_alpha_ascii c \<longleftrightarrow> is_upper_ascii c \<or> is_lower_ascii c"

definition split_scheme :: "ustr \<Rightarrow> ustr \<times> ustr" where
  "split_scheme url =
     (let (pre, colon, rest) = partition_on 58 url in
      if colon \<and> pre \<noteq> [] \<and> is_alpha_ascii (hd pre) \<and> list_all is_scheme_char pre
      then (map lower_ascii pre, rest) else ([], url))"

definition is_hex :: "nat \<Rightarrow> bool" where
  "is_hex c \<longleftrightarrow> is_digit_ascii c \<or> (65 \<le> c \<and> c \<le> 70) \<or> (97 \<le> c \<and> c \<le> 102)"

text \<open>
  The bracketed-host check: an IPvFuture literal, or else an IPv6 address as the \<open>ipaddress\<close>
  module (parameter \<open>ipv6\<close>) recognises it.
\<close>

definition bracketed_host_ok :: "(ustr \<Rightarrow> bool) \<Rightarrow> ustr \<Rightarrow> bool" where
  "bracketed_host_ok ipv6 h =
     (if take 1 h = uni ''v'' then
        (let (v, dot, rest) = partition_on 46 (drop 1 h)
         in v \<noteq> [] \<and> list_all is_hex v \<and> dot \<and> rest \<noteq> [])
      else ipv6 h)"

definition bracketed_netloc_ok :: "(ustr \<Rightarrow> bool) \<Rightarrow> ustr \<Rightarrow> bool" where
  "bracketed_netloc_ok ipv6 netloc =
     (let (_, _, hostport) = rpartition_on 64 netloc;
          (before, have_open, bracketed) = partition_on 91 hostport
      in if have_open then
           (let (hostname, _, port) = partition_on 93 bracketed
            in before = [] \<and> (port = [] \<or> hd port = 58) \<and> bracketed_host_ok ipv6 hostname)
         else (let (hostname, _, _) = partition_on 58 hostport in bracketed_host_ok ipv6 hostname))"

text \<open>The check that compatibility normalisation does not introduce URL delimiters.\<close>

definition netloc_nfkc_ok :: "unidata \<Rightarrow> ustr \<Rightarrow> bool" where
  "netloc_nfkc_ok U netloc =
     (isascii netloc \<or>
      (let n = filter (\<lambda>c. c \<notin> {64, 58, 35, 63}) netloc;
           n2 = nfkc U n
       in n = n2 \<or> list_all (\<lambda>c. c \<notin> {47, 63, 35, 64, 58}) n2))"

definition urlsplit :: "unidata \<Rightarrow> (ustr \<Rightarrow> bool) \<Rightarrow> ustr \<Rightarrow> split_url res" where
  "urlsplit U ipv6 url0 =
     (let url = filter (\<lambda>c. c \<notin> {9, 10, 13}) (lstrip_of (\<lambda>c. c \<le> 32) url0);
          (scheme, url) = split_scheme url;
          (netloc, url) =
            (if take 2 url = uni ''//''
             then (takeWhile (\<lambda>c. c \<notin> {47, 63, 35}) (drop 2 url),
                   dropWhile (\<lambda>c. c \<notin> {47, 63, 35}) (drop 2 url))
             else ([], url));
          url = fst (partition_on 35 url);
          (path, _, query) = partition_on 63 url
      in if (91 \<in> set netloc) \<noteq> (93 \<in> set netloc) then Inl ValueError
         else if 91 \<in> set netloc \<and> \<not> bracketed_netloc_ok ipv6 netloc then Inl ValueError
         else if \<not> netloc_nfkc_ok U netloc then Inl ValueError
         else Inr \<lparr>url_scheme = scheme, url_netloc = netloc, url_path = path, url_query = query\<rparr>)"

text \<open>The text after the first number sign, which neither the scheme nor the authority contains.\<close>

definition url_fragment :: "ustr \<Rightarrow> ustr" where
  "url_fragment url0 =
     snd (snd (partition_on 35 (filter (\<lambda>c. c \<notin> {9, 10, 13}) (lstrip_of (\<lambda>c. c \<le> 32) url0))))"

definition url_userinfo :: "split_url \<Rightarrow> ustr option \<times> ustr option" where
  "url_userinfo u =
     (let (userinfo, have_info, _) = rpartition_on 64 (url_netloc u) in
      if have_info
      then (let (username, have_password, password) = partition_on 58 userinfo
            in (Some username, if have_password then Some password else None))
      else (None, None))"

definition url_hostinfo :: "split_url \<Rightarrow> ustr \<times> ustr option" where
  "url_hostinfo u =
     (let (_, _, hostinfo) = rpartition_on 64 (url_netloc u);
          (_, have_open_br, bracketed) = partition_on 91 hostinfo;
          (hostname, port) =
            (if have_open_br
             then (let (h, _, p) = partition_on 93 bracketed; (_, _, p) = partition_on 58 p in (h, p))
             else (let (h, _, p) = partition_on 58 hostinfo in (h, p)))
      in (hostname, if port = [] then None else Some port))"

definition url_hostname :: "unidata \<Rightarrow> split_url \<Rightarrow> ustr option" where
  "url_hostname U u =
     (let h = fst (url_hostinfo u) in
      if h = [] then None
      else (let (name, percent, zone) = partition_on 37 h
            in Some (lower U name @ (if percent then [37] else []) @ zone)))"

definition dec_value :: "ustr \<Rightarrow> nat" where
  "dec_value s = foldl (\<lambda>acc c. acc * 10 + (c - 48)) 0 s"

definition url_port :: "split_url \<Rightarrow> nat option res" where
  "url_port u =
     (case snd (url_hostinfo u) of
        None \<Rightarrow> Inr None
      | Some p \<Rightarrow>
          if list_all is_digit_ascii p \<and> dec_value p \<le> 65535 then Inr (Some (dec_value p))
          else Inl ValueError)"

text \<open>\<open>urlunsplit\<close> with a network location and without a fragment.\<close>

definition urlunsplit :: "split_url \<Rightarrow> ustr" where
  "urlunsplit u =
     (let path = (if url_path u \<noteq> [] \<and> hd (url_path u) \<noteq> 47 then 47 # url_path u else url_path u)
      in url_scheme u @ uni ''://'' @ url_netloc u @ path
           @ (if url_query u = [] then [] else 63 # url_query u))"

section \<open>Facts\<close>

lemma isascii_simps [simp]:
  "isascii []" "isascii (c # s) \<longleftrightarrow> c < 128 \<and> isascii s" "isascii (s @ t) \<longleftrightarrow> isascii s \<and> isascii t"
  by (auto simp: isascii_def)

lemma nfkc_ascii [simp]: "isascii s \<Longrightarrow> nfkc U s = s"
  by (simp add: nfkc_def)

lemma casefold_ascii: "isascii s \<Longrightarrow> casefold U s = map lower_ascii s"
  by (induction s) (auto simp: casefold_def)

lemma lower_ascii_idem [simp]: "lower_ascii (lower_ascii c) = lower_ascii c"
  by (auto simp: ascii_defs)

lemma lower_ascii_lt: "lower_ascii c < 128 \<longleftrightarrow> c < 128"
  by (auto simp: ascii_defs)

lemma isascii_casefold: "isascii s \<Longrightarrow> isascii (casefold U s)"
  by (simp add: casefold_ascii isascii_def list_all_iff lower_ascii_lt)

lemma casefold_fixed:
  "isascii s \<Longrightarrow> (\<And>c. c \<in> set s \<Longrightarrow> \<not> is_upper_ascii c) \<Longrightarrow> casefold U s = s"
  by (simp add: casefold_ascii lower_ascii_def map_idI)

lemma set_dropWhile: "set (dropWhile p s) \<subseteq> set s"
  by (meson set_dropWhileD subsetI)

lemma set_rstrip_of: "set (rstrip_of p s) \<subseteq> set s"
  using set_dropWhile [of p "rev s"] by (simp add: rstrip_of_def)

lemma set_strip: "set (strip U s) \<subseteq> set s"
  using set_rstrip_of set_dropWhile unfolding strip_def lstrip_of_def by (metis order_trans)

lemma isascii_strip: "isascii s \<Longrightarrow> isascii (strip U s)"
  using set_strip [of U s] by (auto simp: isascii_def list_all_iff)

lemma rstrip_of_last: "s = [] \<or> \<not> p (last s) \<Longrightarrow> rstrip_of p s = s"
  by (cases s rule: rev_cases) (auto simp: rstrip_of_def)

lemma rstrip_of_ends: "rstrip_of p s = [] \<or> \<not> p (last (rstrip_of p s))"
  using hd_dropWhile [of p "rev s"] by (auto simp: rstrip_of_def last_rev)

lemma rstrip_of_hd: "rstrip_of p s \<noteq> [] \<Longrightarrow> hd (rstrip_of p s) = hd s"
proof (induction s rule: rev_induct)
  case (snoc x xs)
  then show ?case by (auto simp: rstrip_of_def hd_append)
qed (simp add: rstrip_of_def)

lemma strip_fixed: "s = [] \<or> \<not> isspace U (hd s) \<and> \<not> isspace U (last s) \<Longrightarrow> strip U s = s"
  unfolding strip_def lstrip_of_def by (cases s) (auto intro: rstrip_of_last)

lemma strip_ends:
  "strip U s = [] \<or> \<not> isspace U (hd (strip U s)) \<and> \<not> isspace U (last (strip U s))"
proof (cases "strip U s = []")
  case False
  then have ne: "dropWhile (isspace U) s \<noteq> []"
    by (metis strip_def lstrip_of_def rstrip_of_last)
  have "hd (strip U s) = hd (dropWhile (isspace U) s)"
    using False rstrip_of_hd by (auto simp: strip_def lstrip_of_def)
  moreover have "\<not> isspace U (hd (dropWhile (isspace U) s))"
    using ne by (rule hd_dropWhile)
  moreover have "\<not> isspace U (last (strip U s))"
    using False rstrip_of_ends unfolding strip_def by blast
  ultimately show ?thesis by simp
qed simp

lemma strip_idem [simp]: "strip U (strip U s) = strip U s"
  using strip_ends by (rule strip_fixed)

lemma split_on_nonempty [simp]: "split_on c s \<noteq> []"
  by (cases s) (auto split: list.splits)

lemma set_split_on: "x \<in> set s \<Longrightarrow> x = c \<or> (\<exists>w \<in> set (split_on c s). x \<in> set w)"
proof (induction s)
  case (Cons y ys)
  then show ?case by (cases "split_on c ys") auto
qed simp

lemma set_split_on_subset: "w \<in> set (split_on c s) \<Longrightarrow> set w \<subseteq> set s"
proof (induction s arbitrary: w)
  case (Cons y ys)
  have "set v \<subseteq> set ys" if "v \<in> set (split_on c ys)" for v
    using Cons.IH that by blast
  with Cons.prems show ?case by (cases "split_on c ys") (fastforce split: if_splits)+
qed simp

lemma last_split_on: "s \<noteq> [] \<Longrightarrow> last (split_on c s) \<noteq> [] \<Longrightarrow> last s \<noteq> c"
proof (induction s)
  case (Cons y ys)
  show ?case
  proof (cases ys)
    case Nil
    then show ?thesis using Cons.prems by (auto split: if_splits)
  next
    case (Cons z zs)
    obtain w ws where split: "split_on c ys = w # ws" by (cases "split_on c ys") auto
    have "last (split_on c ys) \<noteq> []" if "ws \<noteq> [] \<or> y = c"
      using Cons.prems(2) that split by (auto split: if_splits)
    moreover have "last ys \<noteq> c" if "ws = []"
    proof -
      have "c \<notin> set ys" using split that
      proof (induction ys arbitrary: w)
        case (Cons a as)
        then show ?case by (cases "split_on c as") (auto split: if_splits)
      qed simp
      then show ?thesis using Cons by auto
    qed
    ultimately show ?thesis using Cons.IH Cons by (cases "ws = []") auto
  qed
qed simp

end
