(* ===== verification/Normalization.thy ===== *)
theory Normalization
  imports PyText
begin

text \<open>
  Canonical forms of scan subjects and finding identities (\<open>src/app/normalization.py\<close>). Every
  function takes the Unicode tables \<open>U\<close> and, for origins, the IPv6 recogniser of \<open>ipaddress\<close>.
  The lemmas show which shape a normalised value has and that normalising twice changes nothing.
\<close>

record NormalizedSubject =
  ns_kind :: SubjectKind
  ns_value_norm :: ustr
  ns_value_display :: ustr

definition norm_text :: "unidata \<Rightarrow> ustr \<Rightarrow> ustr res" where
  "norm_text U value =
     (let normalized = strip U (nfkc U value) in
      if normalized = [] \<or> \<not> list_all (isprintable U) normalized
      then Inl NormalizationError else Inr normalized)"

definition bounded :: "nat \<Rightarrow> ustr \<Rightarrow> ustr res" where
  "bounded maximum value = (if length value > maximum then Inl NormalizationError else Inr value)"

definition label_ok :: "unidata \<Rightarrow> ustr \<Rightarrow> bool" where
  "label_ok U l \<longleftrightarrow>
     l \<noteq> [] \<and> length l \<le> 63 \<and> hd l \<noteq> 45 \<and> last l \<noteq> 45 \<and>
     list_all (\<lambda>c. isalnum U c \<or> c = 45) l"

definition normalize_domain :: "unidata \<Rightarrow> ustr \<Rightarrow> ustr res" where
  "normalize_domain U value =
     bind_res (norm_text U value) (\<lambda>t.
     let domain = rstrip_of (\<lambda>c. c = 46) (casefold U t) in
     case idna U domain of
       None \<Rightarrow> Inl NormalizationError
     | Some normalized \<Rightarrow>
         (let labels = split_on 46 normalized in
          if length normalized > 253 \<or> length labels < 2 \<or> \<not> list_all (label_ok U) labels
          then Inl NormalizationError else Inr normalized))"

definition normalize_email :: "unidata \<Rightarrow> ustr \<Rightarrow> ustr res" where
  "normalize_email U value =
     bind_res (norm_text U value) (\<lambda>t.
     bind_res (bounded 320 (casefold U t)) (\<lambda>v.
     if count_list v 64 \<noteq> 1 then Inl NormalizationError
     else (let (local, _, domain) = partition_on 64 v in
           if local = [] \<or> list_ex (isspace U) local then Inl NormalizationError
           else bind_res (normalize_domain U domain) (\<lambda>dom. Inr (local @ [64] @ dom)))))"

text \<open>\<open>^\+[1-9][0-9]{7,14}$\<close>\<close>

definition phone_pattern :: "ustr \<Rightarrow> bool" where
  "phone_pattern s =
     (case s of
        lead # first # rest \<Rightarrow>
          lead = 43 \<and> 49 \<le> first \<and> first \<le> 57 \<and> list_all is_digit_ascii rest \<and>
          7 \<le> length rest \<and> length rest \<le> 14
      | _ \<Rightarrow> False)"

definition phone_separator :: "unidata \<Rightarrow> nat \<Rightarrow> bool" where
  "phone_separator U c \<longleftrightarrow> isspace U c \<or> c \<in> {40, 41, 46, 45}"

definition normalize_phone :: "unidata \<Rightarrow> ustr \<Rightarrow> ustr res" where
  "normalize_phone U value =
     bind_res (norm_text U value) (\<lambda>t.
     let compact = filter (\<lambda>c. \<not> phone_separator U c) t in
     if phone_pattern compact then Inr compact else Inl NormalizationError)"

text \<open>The body of the \<open>try\<close> block of \<open>normalize_origin\<close>.\<close>

definition origin_parts ::
  "unidata \<Rightarrow> (ustr \<Rightarrow> bool) \<Rightarrow> ustr \<Rightarrow> (split_url \<times> ustr \<times> nat option) res" where
  "origin_parts U ipv6 raw =
     bind_res (urlsplit U ipv6 raw) (\<lambda>parsed.
     bind_res (normalize_domain U (case url_hostname U parsed of None \<Rightarrow> [] | Some h \<Rightarrow> h))
       (\<lambda>hostname. bind_res (url_port parsed) (\<lambda>port. Inr (parsed, hostname, port))))"

definition normalize_origin :: "unidata \<Rightarrow> (ustr \<Rightarrow> bool) \<Rightarrow> ustr \<Rightarrow> ustr res" where
  "normalize_origin U ipv6 value =
     bind_res (norm_text U value) (\<lambda>t.
     bind_res (bounded 4096 t) (\<lambda>raw.
     if \<not> contains (uni ''://'') raw then Inr (casefold U raw)
     else
       case origin_parts U ipv6 raw of
         Inl e \<Rightarrow> if is_value_error e then Inl NormalizationError else Inl e
       | Inr (parsed, hostname, port) \<Rightarrow>
           (let scheme = casefold U (url_scheme parsed) in
            if scheme \<notin> {uni ''http'', uni ''https''} \<or> url_userinfo parsed \<noteq> (None, None)
            then Inl NormalizationError
            else
              (let netloc =
                 (case port of
                    None \<Rightarrow> hostname
                  | Some p \<Rightarrow>
                      if (scheme = uni ''http'' \<and> p = 80) \<or> (scheme = uni ''https'' \<and> p = 443)
                      then hostname else hostname @ [58] @ dec p)
               in Inr (urlunsplit (parsed\<lparr>url_scheme := scheme, url_netloc := netloc\<rparr>))))))"

definition normalize_optional_email :: "unidata \<Rightarrow> ustr option \<Rightarrow> ustr res" where
  "normalize_optional_email U value =
     (case value of
        None \<Rightarrow> Inr []
      | Some v \<Rightarrow>
          if v = [] then Inr []
          else (case normalize_email U v of
                  Inl NormalizationError \<Rightarrow>
                    bind_res (norm_text U v) (\<lambda>t. bounded 320 (casefold U t))
                | r \<Rightarrow> r))"

definition normalize_optional_username :: "unidata \<Rightarrow> ustr option \<Rightarrow> ustr res" where
  "normalize_optional_username U value =
     (case value of
        None \<Rightarrow> Inr []
      | Some v \<Rightarrow>
          if v = [] then Inr []
          else bind_res (norm_text U v) (\<lambda>t. bounded 1024 (casefold U t)))"

definition normalize_optional_phone :: "unidata \<Rightarrow> ustr option \<Rightarrow> ustr res" where
  "normalize_optional_phone U value =
     (case value of
        None \<Rightarrow> Inr []
      | Some v \<Rightarrow>
          if v = [] then Inr []
          else (case normalize_phone U v of
                  Inl NormalizationError \<Rightarrow>
                    bind_res (norm_text U v) (\<lambda>t. bounded 64 (casefold U t))
                | r \<Rightarrow> r))"

definition plain_subject :: "SubjectKind \<Rightarrow> ustr \<Rightarrow> NormalizedSubject" where
  "plain_subject kind v = \<lparr>ns_kind = kind, ns_value_norm = v, ns_value_display = v\<rparr>"

definition normalize_subject ::
  "unidata \<Rightarrow> (ustr \<Rightarrow> bool) \<Rightarrow> SubjectKind \<Rightarrow> ustr \<Rightarrow> NormalizedSubject res" where
  "normalize_subject U ipv6 kind value =
     (if kind = SubjectKind.PASSWORD then
        (if value = [] then Inl NormalizationError
         else bind_res (encode_utf8 value) (\<lambda>bs.
           if length bs > 4096 then Inl NormalizationError
           else (let digest = hexdigest (sha256 bs)
                 in Inr \<lparr>ns_kind = kind, ns_value_norm = digest,
                         ns_value_display = uni ''sha256:'' @ take 12 digest @ [8230]\<rparr>)))
      else bind_res (norm_text U value) (\<lambda>value.
        case kind of
          SubjectKind.EMAIL \<Rightarrow>
            bind_res (normalize_email U value) (\<lambda>n. Inr (plain_subject kind n))
        | SubjectKind.DOMAIN \<Rightarrow>
            bind_res (normalize_domain U value) (\<lambda>n. Inr (plain_subject kind n))
        | SubjectKind.PHONE \<Rightarrow>
            bind_res (normalize_phone U value) (\<lambda>n. Inr (plain_subject kind n))
        | SubjectKind.USERNAME \<Rightarrow>
            bind_res (bounded 1024 (casefold U value)) (\<lambda>n.
              Inr \<lparr>ns_kind = kind, ns_value_norm = n, ns_value_display = value\<rparr>)
        | SubjectKind.ORIGIN \<Rightarrow>
            bind_res (normalize_origin U ipv6 value) (\<lambda>n. Inr (plain_subject kind n))
        | SubjectKind.PASSWORD \<Rightarrow> Inl NormalizationError))"

section \<open>Errors\<close>

text \<open>Everything but the UTF-8 encoding of a searched password fails with \<open>NormalizationError\<close>.\<close>

lemma norm_text_Inl: "norm_text U v = Inl e \<Longrightarrow> e = NormalizationError"
  by (auto simp: norm_text_def Let_def split: if_splits)

lemma bounded_Inl: "bounded n v = Inl e \<Longrightarrow> e = NormalizationError"
  by (auto simp: bounded_def split: if_splits)

lemma bounded_Inr: "bounded n v = Inr w \<longleftrightarrow> w = v \<and> length v \<le> n"
  by (auto simp: bounded_def)

lemma normalize_domain_Inl: "normalize_domain U v = Inl e \<Longrightarrow> e = NormalizationError"
  by (auto simp: normalize_domain_def bind_res_Inl_iff Let_def norm_text_Inl
      split: option.splits if_splits)

lemma normalize_email_Inl: "normalize_email U v = Inl e \<Longrightarrow> e = NormalizationError"
  by (auto simp: normalize_email_def bind_res_Inl_iff Let_def case_prod_unfold
      dest: norm_text_Inl bounded_Inl normalize_domain_Inl split: if_splits)

lemma normalize_phone_Inl: "normalize_phone U v = Inl e \<Longrightarrow> e = NormalizationError"
  by (auto simp: normalize_phone_def bind_res_Inl_iff Let_def dest: norm_text_Inl split: if_splits)

lemma urlsplit_Inl: "urlsplit U ipv6 v = Inl e \<Longrightarrow> e = ValueError"
  by (auto simp: urlsplit_def Let_def case_prod_unfold split: if_split_asm)

lemma url_port_Inl: "url_port u = Inl e \<Longrightarrow> e = ValueError"
  by (auto simp: url_port_def split: option.splits if_splits)

lemma origin_parts_Inl: "origin_parts U ipv6 v = Inl e \<Longrightarrow> is_value_error e"
  by (auto simp: origin_parts_def bind_res_Inl_iff is_value_error_def
      dest: normalize_domain_Inl urlsplit_Inl url_port_Inl)

lemma normalize_origin_Inl:
  assumes "normalize_origin U ipv6 v = Inl e"
  shows "e = NormalizationError"
proof (cases "norm_text U v")
  case (Inr t)
  show ?thesis
  proof (cases "bounded 4096 t")
    case bound: (Inr raw)
    show ?thesis
      using assms Inr bound origin_parts_Inl [of U ipv6 raw]
      by (cases "origin_parts U ipv6 raw")
        (auto simp: normalize_origin_def Let_def split: if_splits)
  qed (use assms Inr in \<open>auto simp: normalize_origin_def dest: bounded_Inl\<close>)
qed (use assms in \<open>auto simp: normalize_origin_def dest: norm_text_Inl\<close>)

lemma normalize_subject_Inl:
  "normalize_subject U ipv6 k v = Inl e \<Longrightarrow>
   e = NormalizationError \<or> k = SubjectKind.PASSWORD \<and> encode_utf8 v = Inl e"
  by (cases k)
    (auto simp: normalize_subject_def bind_res_Inl_iff Let_def
      dest: norm_text_Inl bounded_Inl normalize_domain_Inl normalize_email_Inl normalize_phone_Inl
        normalize_origin_Inl split: if_splits)

section \<open>Shape of normalised values\<close>

lemma norm_text_Inr:
  "norm_text U v = Inr t \<longleftrightarrow>
     t = strip U (nfkc U v) \<and> t \<noteq> [] \<and> list_all (isprintable U) t"
  by (auto simp: norm_text_def Let_def)

lemma isascii_idna: "idna U s = Some t \<Longrightarrow> isascii t"
  by (auto simp: idna_def Let_def split: if_splits option.splits)

lemma normalize_domain_Inr:
  assumes "normalize_domain U v = Inr n"
  shows "isascii n" and "length n \<le> 253" and "2 \<le> length (split_on 46 n)"
    and "list_all (label_ok U) (split_on 46 n)"
proof -
  obtain t where t: "norm_text U v = Inr t"
    using assms by (auto simp: normalize_domain_def bind_res_Inr_iff)
  obtain m where m: "idna U (rstrip_of (\<lambda>c. c = 46) (casefold U t)) = Some m"
    using assms t by (cases "idna U (rstrip_of (\<lambda>c. c = 46) (casefold U t))")
      (auto simp: normalize_domain_def)
  have idna: "idna U (rstrip_of (\<lambda>c. c = 46) (casefold U t)) = Some n"
    and checks: "\<not> (length n > 253 \<or> length (split_on 46 n) < 2 \<or>
      \<not> list_all (label_ok U) (split_on 46 n))"
    using assms t m by (simp_all add: normalize_domain_def Let_def split: if_split_asm)
  show "isascii n" using idna by (rule isascii_idna)
  show "length n \<le> 253" "2 \<le> length (split_on 46 n)" "list_all (label_ok U) (split_on 46 n)"
    using checks by simp_all
qed

lemma label_chars:
  assumes "list_all (label_ok U) (split_on 46 n)" and "isascii n" and "c \<in> set n"
  shows "is_alnum_ascii c \<or> c = 45 \<or> c = 46"
proof -
  have "c < 128" using assms(2,3) by (auto simp: isascii_def list_all_iff)
  moreover have "isalnum U c \<or> c = 45" if "c \<noteq> 46"
    using set_split_on [OF assms(3), of 46] that assms(1)
    by (auto simp: list_all_iff label_ok_def)
  ultimately show ?thesis by (auto simp: isalnum_def)
qed

lemma domain_char_class:
  assumes "is_alnum_ascii c \<or> c = 45 \<or> c = 46"
  shows "c < 128" "\<not> isspace U c" "isprintable U c" "c \<noteq> 64"
  using assms by (auto simp: isspace_def isprintable_def ascii_defs)

text \<open>A value made of domain characters only is its own printable text.\<close>

lemma norm_text_fixed:
  assumes "isascii v" and "v \<noteq> []" and "list_all (isprintable U) v"
    and "\<not> isspace U (hd v)" and "\<not> isspace U (last v)"
  shows "norm_text U v = Inr v"
  using assms by (simp add: norm_text_Inr strip_fixed)

lemma normalize_domain_fixed:
  assumes ascii: "isascii n" and len: "length n \<le> 253" and two: "2 \<le> length (split_on 46 n)"
    and labels: "list_all (label_ok U) (split_on 46 n)"
    and no_upper: "\<And>c. c \<in> set n \<Longrightarrow> \<not> is_upper_ascii c"
  shows "normalize_domain U n = Inr n"
proof -
  have ne: "n \<noteq> []" using two by auto
  have chars: "is_alnum_ascii c \<or> c = 45 \<or> c = 46" if "c \<in> set n" for c
    using label_chars [OF labels ascii that] .
  have "norm_text U n = Inr n"
    using ascii ne chars domain_char_class
    by (intro norm_text_fixed) (auto simp: list_all_iff)
  moreover have "casefold U n = n"
    using ascii no_upper by (rule casefold_fixed)
  moreover have "last (split_on 46 n) \<noteq> []"
    using labels by (auto simp: list_all_iff label_ok_def)
  then have "rstrip_of (\<lambda>c. c = 46) n = n"
    using last_split_on [OF ne, of 46] by (intro rstrip_of_last) simp
  moreover have "length l \<noteq> 0 \<and> length l < 64" if "l \<in> set (split_on 46 n)" for l
    using labels that by (auto simp: list_all_iff label_ok_def)
  then have "idna U n = Some n"
    using ascii ne by (auto simp: idna_def Let_def list_all_iff dest: in_set_butlastD)
  ultimately show ?thesis
    using len two labels by (simp add: normalize_domain_def)
qed

lemma casefold_no_upper: "isascii t \<Longrightarrow> c \<in> set (casefold U t) \<Longrightarrow> \<not> is_upper_ascii c"
  by (auto simp: casefold_ascii ascii_defs)

lemma normalize_domain_ascii_eq:
  assumes "normalize_domain U v = Inr n" and "isascii v"
  shows "n = rstrip_of (\<lambda>c. c = 46) (casefold U (strip U v))"
proof -
  let ?d = "rstrip_of (\<lambda>c. c = 46) (casefold U (strip U v))"
  have "idna U ?d = Some n"
    using assms
    by (auto simp: normalize_domain_def bind_res_Inr_iff norm_text_Inr Let_def
        split: option.splits if_splits)
  moreover have "isascii ?d"
    using isascii_casefold [OF isascii_strip [OF assms(2)], of U U] set_rstrip_of
    by (fastforce simp: isascii_def list_all_iff)
  ultimately show ?thesis
    by (auto simp: idna_def Let_def split: if_splits)
qed

lemma normalize_domain_ascii_lower:
  assumes "normalize_domain U v = Inr n" and "isascii v" and "c \<in> set n"
  shows "\<not> is_upper_ascii c"
proof -
  have "c \<in> set (casefold U (strip U v))"
    using normalize_domain_ascii_eq [OF assms(1,2)] assms(3) set_rstrip_of by fastforce
  then show ?thesis
    using casefold_no_upper [OF isascii_strip [OF assms(2)]] by blast
qed

lemma normalize_domain_ascii_length:
  assumes "normalize_domain U v = Inr n" and "isascii v"
  shows "length n \<le> length v"
proof -
  have "length n \<le> length (casefold U (strip U v))"
    using normalize_domain_ascii_eq [OF assms] length_dropWhile_le [of _ "rev _"]
    by (metis length_rev rstrip_of_def)
  also have "\<dots> = length (strip U v)"
    using isascii_strip [OF assms(2)] by (simp add: casefold_ascii)
  also have "\<dots> \<le> length v"
    unfolding strip_def lstrip_of_def rstrip_of_def
    by (metis length_dropWhile_le length_rev order_trans)
  finally show ?thesis .
qed

section \<open>E-mail addresses\<close>

lemma partition_on_mid: "c \<notin> set l \<Longrightarrow> partition_on c (l @ c # r) = (l, True, r)"
proof -
  assume "c \<notin> set l"
  then have "takeWhile (\<lambda>x. x \<noteq> c) (l @ c # r) = l" "dropWhile (\<lambda>x. x \<noteq> c) (l @ c # r) = c # r"
    by (induction l) auto
  then show ?thesis by (simp add: partition_on_def)
qed

lemma partition_on_length:
  assumes "c \<in> set s" and "partition_on c s = (l, b, r)"
  shows "length s = Suc (length l + length r)"
proof -
  obtain l' r' where "s = l' @ c # r'" and "c \<notin> set l'"
    using split_list_first [OF assms(1)] by blast
  with assms(2) show ?thesis by (simp add: partition_on_mid)
qed

lemma partition_on_local: "partition_on c s = (l, b, r) \<Longrightarrow> c \<notin> set l \<and> set l \<subseteq> set s \<and> set r \<subseteq> set s"
  by (auto simp: partition_on_def dest: set_takeWhileD set_dropWhileD in_set_dropD)

lemma isprintable_casefold:
  "isascii t \<Longrightarrow> list_all (isprintable U) t \<Longrightarrow> list_all (isprintable U) (casefold U t)"
  by (auto simp: casefold_ascii list_all_iff isascii_def isprintable_def ascii_defs)

text \<open>What \<open>normalize_email\<close> returns on ASCII input, taken apart.\<close>

lemma normalize_email_parts:
  assumes "normalize_email U v = Inr n" and "isascii v"
  obtains l dom where "n = l @ 64 # dom" "64 \<notin> set l" "l \<noteq> []" "isascii l"
    "\<And>c. c \<in> set l \<Longrightarrow> isprintable U c \<and> \<not> isspace U c \<and> \<not> is_upper_ascii c"
    "normalize_domain U dom = Inr dom" "length n \<le> 320"
proof -
  let ?t = "strip U v"
  let ?v = "casefold U ?t"
  have t: "isascii ?t" using assms(2) by (rule isascii_strip)
  obtain l b r where part: "partition_on 64 ?v = (l, b, r)"
    by (cases "partition_on 64 ?v") auto
  with assms obtain dom where l: "l \<noteq> []" "\<not> list_ex (isspace U) l" and len: "length ?v \<le> 320"
    and cnt: "count_list ?v 64 = 1"
    and pr: "list_all (isprintable U) ?t"
    and dom: "normalize_domain U r = Inr dom" and n: "n = l @ 64 # dom"
    by (auto simp: normalize_email_def bind_res_Inr_iff norm_text_Inr bounded_Inr split: if_splits)
  have sets: "64 \<notin> set l" "set l \<subseteq> set ?v" "set r \<subseteq> set ?v"
    using partition_on_local [OF part] by simp_all
  have asc: "isascii ?v" using isascii_casefold [OF t] .
  then have r: "isascii r" "isascii l" using sets by (auto simp: isascii_def list_all_iff)
  have "normalize_domain U dom = Inr dom"
    using normalize_domain_Inr [OF dom] normalize_domain_ascii_lower [OF dom r(1)]
    by (intro normalize_domain_fixed) auto
  moreover have "isprintable U c \<and> \<not> isspace U c \<and> \<not> is_upper_ascii c" if "c \<in> set l" for c
    using that sets(2) l(2) isprintable_casefold [OF t pr] casefold_no_upper [OF t]
    by (auto simp: list_all_iff list_ex_iff)
  moreover have "length ?v = Suc (length l + length r)"
    using cnt part by (intro partition_on_length) (auto intro: ccontr simp: count_notin)
  with len normalize_domain_ascii_length [OF dom r(1)] n have "length n \<le> 320"
    by simp
  ultimately show ?thesis using that n sets l r by blast
qed


text \<open>
  For an ASCII address, \<open>normalize_email\<close> is a canonical form: its result has exactly one at
  sign, no upper-case letter, no white space and at most 320 characters, its domain is a valid
  domain, and normalising it again returns it unchanged.
\<close>

theorem normalize_email_canonical:
  assumes "normalize_email U v = Inr n" and "isascii v"
  shows "normalize_email U n = Inr n \<and> count_list n 64 = 1 \<and> length n \<le> 320
    \<and> list_all (\<lambda>c. \<not> is_upper_ascii c \<and> \<not> isspace U c) n"
proof -
  obtain l dom where n: "n = l @ 64 # dom" and l: "64 \<notin> set l" "l \<noteq> []" "isascii l"
    "\<And>c. c \<in> set l \<Longrightarrow> isprintable U c \<and> \<not> isspace U c \<and> \<not> is_upper_ascii c"
    and dom: "normalize_domain U dom = Inr dom" and len: "length n \<le> 320"
    using normalize_email_parts [OF assms] by metis
  have d: "is_alnum_ascii c \<or> c = 45 \<or> c = 46" if "c \<in> set dom" for c
    using label_chars normalize_domain_Inr [OF dom] that by blast
  have "dom \<noteq> []" using normalize_domain_Inr(3) [OF dom] by auto
  have asc: "isascii n" using n l(3) normalize_domain_Inr(1) [OF dom] by simp
  have chars: "isprintable U c \<and> \<not> isspace U c \<and> \<not> is_upper_ascii c" if mem: "c \<in> set n" for c
  proof -
    consider "c \<in> set l" | "c = 64" | "c \<in> set dom" using mem n by auto
    then show ?thesis
    proof cases
      case 3
      then show ?thesis
        using domain_char_class [OF d] normalize_domain_ascii_lower [OF dom] normalize_domain_Inr(1) [OF dom]
        by blast
    qed (use l(4) in \<open>auto simp: isprintable_def isspace_def is_upper_ascii_def\<close>)
  qed
  have "n \<noteq> []" using n by simp
  then have "norm_text U n = Inr n"
    using asc chars [OF hd_in_set] chars [OF last_in_set] chars
    by (intro norm_text_fixed) (auto simp: list_all_iff)
  moreover have "casefold U n = n"
    using asc chars by (intro casefold_fixed) auto
  moreover have "64 \<notin> set dom"
    using d [of 64] by (auto simp: ascii_defs)
  then have cnt: "count_list n 64 = 1"
    using n l(1) by (simp add: count_notin)
  moreover have "partition_on 64 n = (l, True, dom)"
    using n l(1) by (simp add: partition_on_mid)
  moreover have "\<not> list_ex (isspace U) l"
    using l(4) by (auto simp: list_ex_iff)
  ultimately have "normalize_email U n = Inr n"
    using len l(2) dom n by (simp add: normalize_email_def bounded_def)
  then show ?thesis using cnt len chars by (auto simp: list_all_iff)
qed

text \<open>A mixed-case address with surrounding blanks and a trailing dot, and its canonical form.\<close>

theorem normalize_email_canonical_witness:
  "normalize_email ascii_unidata (uni '' Al@Ex.Org. '') = Inr (uni ''al@ex.org'')
   \<and> normalize_email ascii_unidata (uni ''al@ex.org'') = Inr (uni ''al@ex.org'')"
proof -
  have run: "normalize_email ascii_unidata (uni '' Al@Ex.Org. '') = Inr (uni ''al@ex.org'')"
    by code_simp
  moreover have "isascii (uni '' Al@Ex.Org. '')"
    by code_simp
  ultimately show ?thesis
    using normalize_email_canonical by blast
qed

end
