(* ===== verification/Config.thy ===== *)
theory Config
  imports PyText
begin

text \<open>
  Process configuration (\<open>src/app/config.py\<close>) and the generated bootstrap secrets it is built from
  (\<open>src/app/bootstrap_secrets.py\<close>). \<open>validate_settings\<close> runs the field and model validators in
  pydantic's order: every field first, then the cross-field check. A \<open>Settings\<close> value the other
  components receive is one that passed it.
\<close>

section \<open>Strict base64 decoding\<close>

text \<open>
  \<open>base64.b64decode(s, altchars=b"-_", validate=True)\<close>: the two alternative characters are
  translated, so the standard alphabet stays accepted too; padding must be exactly what the number
  of data characters requires.
\<close>

definition b64_value :: "nat \<Rightarrow> nat option" where
  "b64_value c =
     (if 65 \<le> c \<and> c \<le> 90 then Some (c - 65)
      else if 97 \<le> c \<and> c \<le> 122 then Some (c - 71)
      else if 48 \<le> c \<and> c \<le> 57 then Some (c + 4)
      else if c = 45 \<or> c = 43 then Some 62
      else if c = 95 \<or> c = 47 then Some 63
      else None)"

fun sextets_bytes :: "nat list \<Rightarrow> nat list option" where
  "sextets_bytes [] = Some []"
| "sextets_bytes [a] = None"
| "sextets_bytes [a, b] = Some [a * 4 + b div 16]"
| "sextets_bytes [a, b, c] = Some [a * 4 + b div 16, b mod 16 * 16 + c div 4]"
| "sextets_bytes (a # b # c # d # r) =
     map_option (\<lambda>t. [a * 4 + b div 16, b mod 16 * 16 + c div 4, c mod 4 * 64 + d] @ t)
       (sextets_bytes r)"

definition pad_len :: "nat \<Rightarrow> nat" where
  "pad_len n = (4 - n mod 4) mod 4"

definition b64decode_strict :: "ustr \<Rightarrow> bytes option" where
  "b64decode_strict s =
     (let chars = takeWhile (\<lambda>c. c \<noteq> 61) s;
          padding = dropWhile (\<lambda>c. c \<noteq> 61) s
      in if list_all (\<lambda>c. b64_value c \<noteq> None) chars
            \<and> padding = replicate (pad_len (length chars)) 61
         then map_option (map word_of_nat) (sextets_bytes (map (\<lambda>c. the (b64_value c)) chars))
         else None)"

text \<open>\<open>encoded + "=" * (-len(encoded) % 4)\<close>, decoded.\<close>

definition decode_key :: "ustr \<Rightarrow> bytes option" where
  "decode_key encoded = b64decode_strict (encoded @ replicate (pad_len (length encoded)) 61)"

lemma b64_value_char: "i < 64 \<Longrightarrow> b64_value (b64_char i) = Some i"
  by (auto simp: b64_value_def b64_char_def)

lemma b64_char_not_pad: "i < 64 \<Longrightarrow> b64_char i \<noteq> 61"
  by (auto simp: b64_char_def split: if_splits)

lemma sextet_join:
  fixes x y z :: nat
  assumes "x < 256" and "y < 256" and "z < 256"
  shows "x div 4 * 4 + (x mod 4 * 16 + y div 16) div 16 = x"
    and "x div 4 * 4 + (x mod 4 * 16) div 16 = x"
    and "(x mod 4 * 16 + y div 16) mod 16 * 16 + (y mod 16 * 4 + z div 64) div 4 = y"
    and "(x mod 4 * 16 + y div 16) mod 16 * 16 + (y mod 16 * 4) div 4 = y"
    and "(y mod 16 * 4 + z div 64) mod 4 * 64 + z mod 64 = z"
proof -
  have y: "y div 16 < 16" and z: "z div 64 < 4" using assms by simp_all
  have d1: "(x mod 4 * 16 + y div 16) div 16 = x mod 4"
    and m1: "(x mod 4 * 16 + y div 16) mod 16 = y div 16"
    using y by simp_all
  have d2: "(y mod 16 * 4 + z div 64) div 4 = y mod 16"
    and m2: "(y mod 16 * 4 + z div 64) mod 4 = z div 64"
    using z by simp_all
  show "x div 4 * 4 + (x mod 4 * 16 + y div 16) div 16 = x"
    unfolding d1 by (rule div_mult_mod_eq)
  show "x div 4 * 4 + (x mod 4 * 16) div 16 = x"
    by simp
  show "(x mod 4 * 16 + y div 16) mod 16 * 16 + (y mod 16 * 4 + z div 64) div 4 = y"
    unfolding m1 d2 by (rule div_mult_mod_eq)
  show "(x mod 4 * 16 + y div 16) mod 16 * 16 + (y mod 16 * 4) div 4 = y"
    unfolding m1 by simp
  show "(y mod 16 * 4 + z div 64) mod 4 * 64 + z mod 64 = z"
    unfolding m2 by (rule div_mult_mod_eq)
qed

lemma sextets_bytes_sextets:
  "(\<And>x. x \<in> set xs \<Longrightarrow> x < 256) \<Longrightarrow> sextets_bytes (b64_sextets xs) = Some xs"
proof (induction xs rule: b64_sextets.induct)
  case (4 x y z xs)
  have b: "x < 256" "y < 256" "z < 256" using "4.prems" by auto
  have "sextets_bytes (b64_sextets xs) = Some xs" using 4 by simp
  then show ?case using sextet_join [OF b] by simp
next
  case (2 x)
  then have "x < 256" by simp
  then show ?case using sextet_join(2) [of x x x] by simp
next
  case (3 x y)
  then have "x < 256" "y < 256" by auto
  then show ?case using sextet_join(1,4) [of x y y] by simp
qed simp

lemma decode_key_base64url [codec_simps]: "decode_key (base64url bs) = Some bs"
proof -
  let ?s = "b64_sextets (map unat bs)"
  have lt: "i < 64" if "i \<in> set ?s" for i
    using that by (rule b64_sextets_lt [rotated]) (auto intro: unat_byte_lt)
  have nopad: "c \<noteq> 61" if "c \<in> set (base64url bs)" for c
    using that lt b64_char_not_pad by (auto simp: base64url_def)
  have split: "takeWhile (\<lambda>c. c \<noteq> 61) (base64url bs @ replicate n 61) = base64url bs"
    "dropWhile (\<lambda>c. c \<noteq> 61) (base64url bs @ replicate n 61) = replicate n 61" for n
    using nopad by (simp_all add: takeWhile_append dropWhile_append)
  have vals: "map (\<lambda>c. the (b64_value c)) (base64url bs) = ?s"
    and ok: "list_all (\<lambda>c. b64_value c \<noteq> None) (base64url bs)"
    using lt by (auto simp: base64url_def b64_value_char list_all_iff intro!: map_idI)
  have "sextets_bytes ?s = Some (map unat bs)"
    by (rule sextets_bytes_sextets) (auto intro: unat_byte_lt)
  then show ?thesis
    using split vals ok by (simp add: decode_key_def b64decode_strict_def o_def)
qed

section \<open>Settings\<close>

datatype Environment = DEVELOPMENT | TEST | PRODUCTION

record Settings =
  s_environment :: Environment
  s_database_url :: ustr
  s_session_secret :: ustr
  s_session_idle_ttl_seconds :: int
  s_session_absolute_ttl_seconds :: int
  s_admin_login_max_failures :: int
  s_admin_login_lockout_seconds :: int
  s_admin_login_ip_max_failures :: int
  s_admin_login_ip_window_seconds :: int
  s_admin_login_ip_lockout_seconds :: int
  s_data_key :: ustr
  s_trusted_hosts :: "ustr list"
  s_allow_unconfigured_hosts :: bool
  s_run_inprocess_worker :: bool

definition KNOWN_PLACEHOLDERS :: "ustr set" where
  "KNOWN_PLACEHOLDERS =
     {uni ''changeme'', uni ''change-me'', uni ''replace-me'',
      uni ''replace-with-a-long-random-password'',
      uni ''replace-with-at-least-32-random-characters'',
      uni ''replace-with-a-base64url-encoded-32-byte-key''}"

definition startswith :: "string \<Rightarrow> ustr \<Rightarrow> bool" where
  "startswith p s \<longleftrightarrow> take (length p) s = uni p"

definition database_url_must_be_async_postgres :: "ustr \<Rightarrow> unit res" where
  "database_url_must_be_async_postgres value =
     guard_res (startswith ''postgresql+asyncpg://'' value) ValueError"

definition is_placeholder :: "unidata \<Rightarrow> ustr \<Rightarrow> bool" where
  "is_placeholder U s \<longleftrightarrow> casefold U s \<in> KNOWN_PLACEHOLDERS \<or> startswith ''replace-with-'' s"

definition session_secret_must_be_strong :: "unidata \<Rightarrow> ustr \<Rightarrow> unit res" where
  "session_secret_must_be_strong U secret =
     (if is_placeholder U secret then Inl ValueError
      else bind_res (encode_utf8 secret) (\<lambda>bs. guard_res (32 \<le> length bs) ValueError))"

definition data_key_must_be_aes_256_key :: "unidata \<Rightarrow> ustr \<Rightarrow> unit res" where
  "data_key_must_be_aes_256_key U encoded =
     (if is_placeholder U encoded then Inl ValueError
      else if \<not> isascii encoded then Inl ValueError
      else (case decode_key encoded of
              None \<Rightarrow> Inl ValueError
            | Some key \<Rightarrow> guard_res (length key = 32) ValueError))"

definition parse_trusted_hosts :: "unidata \<Rightarrow> ustr + ustr list \<Rightarrow> ustr list" where
  "parse_trusted_hosts U value =
     (case value of
        Inl s \<Rightarrow> filter (\<lambda>h. h \<noteq> []) (map (strip U) (split_on 44 s))
      | Inr hosts \<Rightarrow> hosts)"

definition require_explicit_production_hosts :: "Settings \<Rightarrow> unit res" where
  "require_explicit_production_hosts s =
     (if s_session_idle_ttl_seconds s > s_session_absolute_ttl_seconds s then Inl ValueError
      else if s_trusted_hosts s = []
        \<or> uni ''*'' \<in> set (s_trusted_hosts s) \<and> \<not> s_allow_unconfigured_hosts s then Inl ValueError
      else if s_environment s = PRODUCTION
        \<and> list_ex (\<lambda>h. h \<in> {uni ''localhost'', uni ''127.0.0.1''}) (s_trusted_hosts s)
      then Inl ValueError
      else Inr ())"

text \<open>The bounds declared with the fields (\<open>Field(ge=..., le=...)\<close>).\<close>

definition field_bounds :: "Settings \<Rightarrow> bool" where
  "field_bounds s \<longleftrightarrow>
     1 \<le> s_session_idle_ttl_seconds s \<and> 1 \<le> s_session_absolute_ttl_seconds s \<and>
     1 \<le> s_admin_login_max_failures s \<and> s_admin_login_max_failures s \<le> 20 \<and>
     60 \<le> s_admin_login_lockout_seconds s \<and> s_admin_login_lockout_seconds s \<le> 86400 \<and>
     1 \<le> s_admin_login_ip_max_failures s \<and> s_admin_login_ip_max_failures s \<le> 100 \<and>
     60 \<le> s_admin_login_ip_window_seconds s \<and> s_admin_login_ip_window_seconds s \<le> 86400 \<and>
     60 \<le> s_admin_login_ip_lockout_seconds s \<and> s_admin_login_ip_lockout_seconds s \<le> 86400"

definition validate_settings :: "unidata \<Rightarrow> Settings \<Rightarrow> Settings res" where
  "validate_settings U s =
     bind_res (guard_res (field_bounds s) ValueError) (\<lambda>_.
     bind_res (database_url_must_be_async_postgres (s_database_url s)) (\<lambda>_.
     bind_res (session_secret_must_be_strong U (s_session_secret s)) (\<lambda>_.
     bind_res (data_key_must_be_aes_256_key U (s_data_key s)) (\<lambda>_.
     bind_res (require_explicit_production_hosts s) (\<lambda>_. Inr s)))))"

text \<open>What the components rely on: the octets of the two root secrets exist.\<close>

definition session_key :: "Settings \<Rightarrow> bytes res" where
  "session_key s = encode_utf8 (s_session_secret s)"

definition data_key :: "Settings \<Rightarrow> bytes res" where
  "data_key s = of_option ValueError (decode_key (s_data_key s))"

section \<open>Generated bootstrap secrets\<close>

definition new_secret :: "string \<Rightarrow> db \<Rightarrow> ustr \<times> db" where
  "new_secret name d =
     (let (bs, d') = token_bytes 32 d in
      (if name = ''data_key'' then base64url bs else hexdigest bs, d'))"

definition secret_value_ok :: "ustr \<Rightarrow> bool" where
  "secret_value_ok value \<longleftrightarrow> 32 \<le> length value \<and> 10 \<notin> set value \<and> 13 \<notin> set value"

text \<open>The settings of the zero-input stack, built from the loaded secrets.\<close>

definition runtime_settings :: "ustr \<Rightarrow> ustr \<Rightarrow> ustr \<Rightarrow> Settings" where
  "runtime_settings runtime_password session_secret key =
     \<lparr>s_environment = PRODUCTION,
      s_database_url = uni ''postgresql+asyncpg://leakcheck_runtime:'' @ runtime_password
        @ uni ''@postgres:5432/leakcheck'',
      s_session_secret = session_secret,
      s_session_idle_ttl_seconds = 60 * 60, s_session_absolute_ttl_seconds = 12 * 60 * 60,
      s_admin_login_max_failures = 5, s_admin_login_lockout_seconds = 15 * 60,
      s_admin_login_ip_max_failures = 10, s_admin_login_ip_window_seconds = 15 * 60,
      s_admin_login_ip_lockout_seconds = 15 * 60,
      s_data_key = key, s_trusted_hosts = [uni ''*''], s_allow_unconfigured_hosts = True,
      s_run_inprocess_worker = True\<rparr>"

section \<open>Facts\<close>

lemma validate_settings_Inr:
  assumes "validate_settings U s = Inr s'"
  shows "s' = s" and "field_bounds s"
    and "s_session_idle_ttl_seconds s \<le> s_session_absolute_ttl_seconds s"
    and "\<exists>k. session_key s = Inr k \<and> 32 \<le> length k"
    and "\<exists>k. data_key s = Inr k \<and> length k = 32"
  using assms
  by (auto simp: validate_settings_def bind_res_Inr_iff session_secret_must_be_strong_def
      data_key_must_be_aes_256_key_def require_explicit_production_hosts_def session_key_def
      data_key_def split: if_split_asm option.split_asm)

lemma hexdigest_chars: "c \<in> set (hexdigest bs) \<Longrightarrow> (48 \<le> c \<and> c \<le> 57) \<or> (97 \<le> c \<and> c \<le> 102)"
proof -
  assume "c \<in> set (hexdigest bs)"
  then obtain x where "c \<in> set (hex_byte x)" by (auto simp: hexdigest_def)
  moreover have "unat x div 16 < 16" using unat_byte_lt [of x] by simp
  ultimately show ?thesis by (auto simp: hex_byte_def hex_digit_def split: if_splits)
qed

lemma length_uni_ne: "length s \<noteq> length p \<Longrightarrow> s \<noteq> uni p"
  by auto

text \<open>A generated secret is no placeholder: its length differs from every known one.\<close>

lemma not_placeholder_hex: "length bs = 32 \<Longrightarrow> \<not> is_placeholder U (hexdigest bs)"
proof -
  assume len: "length bs = 32"
  have hex: "isascii (hexdigest bs)" using hexdigest_chars by (fastforce simp: isascii_def list_all_iff)
  have l: "length (casefold U (hexdigest bs)) = 64"
    using len by (simp add: casefold_ascii [OF hex] length_hexdigest)
  have "hd (hexdigest bs) \<noteq> 114"
    using hexdigest_chars [of "hd (hexdigest bs)" bs] len
    by (cases bs) (auto simp: hexdigest_def hex_byte_def)
  moreover have "hexdigest bs \<noteq> []" using len length_hexdigest [of bs] by auto
  ultimately have "\<not> startswith ''replace-with-'' (hexdigest bs)"
    by (cases "hexdigest bs") (auto simp: startswith_def uni_def)
  moreover have "casefold U (hexdigest bs) \<notin> KNOWN_PLACEHOLDERS"
    using l by (auto simp: KNOWN_PLACEHOLDERS_def)
  ultimately show ?thesis by (simp add: is_placeholder_def)
qed

lemma isascii_urlsafe: "list_all is_urlsafe s \<Longrightarrow> isascii s"
  by (auto simp: isascii_def list_all_iff is_urlsafe_def)

lemma isascii_hexdigest: "isascii (hexdigest bs)"
  using hexdigest_chars by (fastforce simp: isascii_def list_all_iff)

lemma startswith_append: "length p \<le> length q \<Longrightarrow> startswith p (uni q @ s) = startswith p (uni q)"
  by (simp add: startswith_def)

text \<open>
  The zero-input deployment starts: settings built from a generated session secret (64
  hexadecimal digits) and a generated data key (unpadded base64url of 32 octets) pass every
  validator, and the key the encryption components decode is exactly the 32 octets generated. The
  one excluded draw is a key whose text happens to begin with the placeholder prefix.
\<close>

theorem runtime_settings_valid:
  assumes "length sb = 32" and "length kb = 32"
    and "\<not> startswith ''replace-with-'' (base64url kb)"
  shows "validate_settings U (runtime_settings pw (hexdigest sb) (base64url kb))
           = Inr (runtime_settings pw (hexdigest sb) (base64url kb))
    \<and> data_key (runtime_settings pw (hexdigest sb) (base64url kb)) = Inr kb"
proof -
  let ?s = "runtime_settings pw (hexdigest sb) (base64url kb)"
  have asc: "isascii (base64url kb)" using isascii_urlsafe base64url_urlsafe by blast
  have "length (casefold U (base64url kb)) = 43"
    using assms(2) by (simp add: casefold_ascii [OF asc] length_base64url)
  then have "casefold U (base64url kb) \<notin> KNOWN_PLACEHOLDERS"
    by (auto simp: KNOWN_PLACEHOLDERS_def)
  then have key: "data_key_must_be_aes_256_key U (base64url kb) = Inr ()"
    using assms(2,3) asc
    by (simp add: data_key_must_be_aes_256_key_def is_placeholder_def decode_key_base64url)
  have sec: "session_secret_must_be_strong U (hexdigest sb) = Inr ()"
    using not_placeholder_hex [OF assms(1), of U] assms(1) isascii_hexdigest [of sb]
    by (simp add: session_secret_must_be_strong_def encode_utf8_ascii isascii_def length_hexdigest)
  have "startswith ''postgresql+asyncpg://'' (s_database_url ?s)"
    by (simp add: runtime_settings_def startswith_append) (simp add: startswith_def uni_def)
  then have url: "database_url_must_be_async_postgres (s_database_url ?s) = Inr ()"
    by (simp add: database_url_must_be_async_postgres_def)
  have hosts: "require_explicit_production_hosts ?s = Inr ()"
    by (simp add: require_explicit_production_hosts_def runtime_settings_def)
  have "field_bounds ?s"
    by (simp add: field_bounds_def runtime_settings_def)
  moreover have "s_session_secret ?s = hexdigest sb" "s_data_key ?s = base64url kb"
    by (simp_all add: runtime_settings_def)
  ultimately show ?thesis
    using key sec url hosts
    by (simp add: validate_settings_def data_key_def decode_key_base64url guard_res_def)
qed

text \<open>The settings generated from two constant draws.\<close>

theorem runtime_settings_valid_witness:
  "data_key (runtime_settings (uni ''pw'') (hexdigest (replicate 32 7)) (base64url (replicate 32 1)))
     = Inr (replicate 32 1)
   \<and> (\<exists>s. validate_settings ascii_unidata (runtime_settings (uni ''pw'')
          (hexdigest (replicate 32 7)) (base64url (replicate 32 1))) = Inr s)"
proof -
  have "\<not> startswith ''replace-with-'' (base64url (replicate 32 1))"
    by code_simp
  then show ?thesis
    using runtime_settings_valid [of "replicate 32 7" "replicate 32 1" ascii_unidata "uni ''pw''"]
    by simp
qed

end
