(* ===== verification/FindingCrypto.thy ===== *)
theory FindingCrypto
  imports Config
begin

text \<open>
  Encryption and masking of leaked passwords (\<open>src/app/finding_crypto.py\<close>). AES-GCM itself is the
  \<open>cryptography\<close> package: a parameter \<open>G\<close> with its documented behaviour as the hypothesis
  \<open>gcm_ok\<close>, namely that decryption returns a plaintext exactly for the ciphertext that encrypting
  it under the same key, nonce and associated data produces, and reports an invalid tag otherwise.
\<close>

record aesgcm =
  gcm_encrypt :: "bytes \<Rightarrow> bytes \<Rightarrow> bytes \<Rightarrow> bytes \<Rightarrow> bytes"
  gcm_decrypt :: "bytes \<Rightarrow> bytes \<Rightarrow> bytes \<Rightarrow> bytes \<Rightarrow> bytes option"

definition gcm_ok :: "aesgcm \<Rightarrow> bool" where
  "gcm_ok G \<longleftrightarrow>
     (\<forall>k n p c a. length k = 32 \<longrightarrow> length n = 12 \<longrightarrow>
        (gcm_decrypt G k n c a = Some p \<longleftrightarrow> c = gcm_encrypt G k n p a))"

text \<open>An instance of the parameter: the tag is the associated data itself.\<close>

definition suffix_gcm :: aesgcm where
  "suffix_gcm =
     \<lparr>gcm_encrypt = (\<lambda>k n p a. p @ a),
      gcm_decrypt = (\<lambda>k n c a.
        if length a \<le> length c \<and> drop (length c - length a) c = a
        then Some (take (length c - length a) c) else None)\<rparr>"

record ProtectedPassword =
  pp_ciphertext :: bytes
  pp_nonce :: bytes
  pp_sha256 :: bytes
  pp_mask :: ustr
  pp_length :: nat
  pp_charset :: ustr

definition NONCE_BYTES :: nat where
  "NONCE_BYTES = 12"

definition aad :: "uuid \<Rightarrow> bytes" where
  "aad finding_id = octets ''leakcheck/finding-password/v1'' @ [0] @ uuid_bytes finding_id"

definition bullet :: nat where
  "bullet = 8226"

definition safe_mask_character :: "unidata \<Rightarrow> nat \<Rightarrow> nat" where
  "safe_mask_character U c = (if isprintable U c \<and> \<not> isspace U c then c else bullet)"

definition mask_password :: "unidata \<Rightarrow> ustr \<Rightarrow> ustr" where
  "mask_password U password =
     (if password = [] then []
      else if length password < 6
      then safe_mask_character U (hd password) # replicate (length password - 1) bullet
      else map (safe_mask_character U) (take 2 password)
             @ replicate (length password - 3) bullet
             @ [safe_mask_character U (last password)])"

fun join_with :: "ustr \<Rightarrow> ustr list \<Rightarrow> ustr" where
  "join_with sep [] = []"
| "join_with sep [w] = w"
| "join_with sep (w # ws) = w @ sep @ join_with sep ws"

definition password_charset :: "unidata \<Rightarrow> ustr \<Rightarrow> ustr" where
  "password_charset U password =
     (let classes =
        (if list_ex (islower U) password then [uni ''lower''] else []) @
        (if list_ex (isupper U) password then [uni ''upper''] else []) @
        (if list_ex (isdigit U) password then [uni ''digits''] else []) @
        (if list_ex (punct_or_symbol U) password then [uni ''symbols''] else []) @
        (if list_ex (\<lambda>c. \<not> c < 128) password then [uni ''unicode''] else [])
      in if classes = [] then uni ''other'' else join_with (uni ''+'') classes)"

definition protect_password ::
  "aesgcm \<Rightarrow> unidata \<Rightarrow> Settings \<Rightarrow> uuid \<Rightarrow> ustr \<Rightarrow> db \<Rightarrow> (ProtectedPassword \<times> db) res" where
  "protect_password G U s finding_id password d =
     bind_res (encode_utf8 password) (\<lambda>plaintext.
     let (nonce, d) = token_bytes NONCE_BYTES d in
     bind_res (data_key s) (\<lambda>key.
     Inr (\<lparr>pp_ciphertext = gcm_encrypt G key nonce plaintext (aad finding_id),
           pp_nonce = nonce,
           pp_sha256 = sha256 plaintext,
           pp_mask = mask_password U password,
           pp_length = length password,
           pp_charset = password_charset U password\<rparr>, d)))"

definition reveal_password :: "aesgcm \<Rightarrow> Settings \<Rightarrow> uuid \<Rightarrow> bytes \<Rightarrow> bytes \<Rightarrow> ustr res" where
  "reveal_password G s finding_id ciphertext nonce =
     (if length nonce \<noteq> NONCE_BYTES then Inl FindingCryptoError
      else bind_res (data_key s) (\<lambda>key.
        case gcm_decrypt G key nonce ciphertext (aad finding_id) of
          None \<Rightarrow> Inl FindingCryptoError
        | Some plaintext \<Rightarrow>
            (case decode_utf8 plaintext of
               Inl e \<Rightarrow> if e = UnicodeDecodeError then Inl FindingCryptoError else Inl e
             | Inr password \<Rightarrow> Inr password)))"

section \<open>Facts\<close>

lemma suffix_gcm_ok: "gcm_ok suffix_gcm"
proof -
  have "(length a \<le> length c \<and> drop (length c - length a) c = a \<and> take (length c - length a) c = p)
    \<longleftrightarrow> c = p @ a" for a c p :: bytes
    by (metis append_eq_conv_conj append_take_drop_id diff_add_inverse2 le_add2 length_append)
  then show ?thesis
    by (auto simp: gcm_ok_def suffix_gcm_def)
qed

lemma aad_inject [simp]: "aad i = aad j \<longleftrightarrow> i = j"
  by (simp add: aad_def)

lemma protect_password_Inr:
  assumes "protect_password G U s i p d = Inr (pp, d')"
  obtains bs key where "encode_utf8 p = Inr bs" "data_key s = Inr key"
    "pp_ciphertext pp = gcm_encrypt G key (pp_nonce pp) bs (aad i)" "length (pp_nonce pp) = 12"
    "pp_sha256 pp = sha256 bs" "pp_mask pp = mask_password U p" "d' = d\<lparr>drawn := drawn d + 12\<rparr>"
  using assms
  by (auto simp: protect_password_def bind_res_Inr_iff token_bytes_eq NONCE_BYTES_def)

lemma decode_utf8_Inl: "decode_utf8 bs = Inl e \<Longrightarrow> e = UnicodeDecodeError"
  by (simp add: decode_utf8_def)

lemma length_mask_password: "length (mask_password U p) = length p"
  by (cases p) (auto simp: mask_password_def)

section \<open>Properties\<close>



text \<open>
  A mask has the length of the password, and every position of it shows either a bullet or the
  password's own character. A character is shown at the first position only when the password has
  fewer than six characters, and otherwise at the first two and the last position only.
\<close>

theorem mask_password_shows:
  "length (mask_password U p) = length p
   \<and> (\<forall>i < length p. mask_password U p ! i = bullet \<or>
        mask_password U p ! i = p ! i \<and> isprintable U (p ! i) \<and> \<not> isspace U (p ! i)
        \<and> (if length p < 6 then i = 0 else i < 2 \<or> i = length p - 1))"
proof (intro conjI allI impI)
  fix i
  assume i: "i < length p"
  then have ne: "p \<noteq> []" by auto
  show "mask_password U p ! i = bullet \<or> mask_password U p ! i = p ! i \<and> isprintable U (p ! i)
      \<and> \<not> isspace U (p ! i) \<and> (if length p < 6 then i = 0 else i < 2 \<or> i = length p - 1)"
  proof (cases "length p < 6")
    case True
    then show ?thesis
      using i ne by (cases i) (auto simp: mask_password_def safe_mask_character_def hd_conv_nth)
  next
    case False
    have two: "length (map (safe_mask_character U) (take 2 p)) = 2" using False by simp
    consider "i < 2" | "2 \<le> i" "i < length p - 1" | "i = length p - 1" using i by linarith
    then show ?thesis
    proof cases
      case 1
      then show ?thesis
        using False ne two by (auto simp: mask_password_def nth_append safe_mask_character_def)
    next
      case 2
      then show ?thesis
        using False ne two by (auto simp: mask_password_def nth_append)
    next
      case 3
      then have "mask_password U p ! i = safe_mask_character U (last p)"
        using False ne two by (auto simp: mask_password_def nth_append)
      then show ?thesis
        using 3 False ne by (simp add: safe_mask_character_def last_conv_nth)
    qed
  qed
qed (rule length_mask_password)

text \<open>The mask of a seven-character password shows its first two and its last character.\<close>

theorem mask_password_shows_witness:
  "mask_password ascii_unidata (uni ''hunter2'') = uni ''hu'' @ replicate 4 bullet @ uni ''2''
   \<and> length (mask_password ascii_unidata (uni ''hunter2'')) = 7"
proof -
  have "mask_password ascii_unidata (uni ''hunter2'') = uni ''hu'' @ replicate 4 bullet @ uni ''2''"
    by code_simp
  then show ?thesis
    using mask_password_shows [of ascii_unidata "uni ''hunter2''"] by simp
qed

end
