(* ===== verification/LeakCheck.thy ===== *)
theory LeakCheck
  imports PyText Complex_Main
begin

text \<open>
  The LeakCheck API client (\<open>src/app/leakcheck.py\<close>): pacing by a token bucket, bounded retries with
  back-off, a circuit breaker, streaming with a hard size limit, the two pagination contracts and
  the parsing of response bodies. The network is the parameter \<open>W\<close>: what the service answers to
  the next request, how long that takes and how much longer than asked a sleep lasts may all depend
  on everything that happened before. Times are rational seconds of \<open>anyio.current_time\<close>; the
  client is followed through one task, so its lock and semaphore are always free. Decoding of JSON
  text is the parameter \<open>loads\<close>.
\<close>

section \<open>Data\<close>

datatype QueryType = EMAIL | DOMAIN | USERNAME | PHONE | ORIGIN | PASSWORD

fun QueryType_value :: "QueryType \<Rightarrow> string" where
  "QueryType_value QueryType.EMAIL = ''email''"
| "QueryType_value QueryType.DOMAIN = ''domain''"
| "QueryType_value QueryType.USERNAME = ''username''"
| "QueryType_value QueryType.PHONE = ''phone''"
| "QueryType_value QueryType.ORIGIN = ''origin''"
| "QueryType_value QueryType.PASSWORD = ''password''"

text \<open>The vendor's description of a breach, as opposed to the table of the same name.\<close>

record VendorSource =
  vs_name :: "ustr option"
  vs_breach_date :: "ustr option"
  vs_unverified :: "bool option"
  vs_passwordless :: "bool option"
  vs_compilation :: "bool option"

record LeakRecord =
  lr_email :: "ustr option"
  lr_username :: "ustr option"
  lr_phone :: "ustr option"
  lr_origin :: "ustr option"
  lr_password :: "ustr option"
  lr_fields :: "ustr list"
  lr_source :: VendorSource
  lr_raw :: "(ustr \<times> json) list"

record QueryResult =
  qr_query_type :: QueryType
  qr_records :: "LeakRecord list"
  qr_quota :: "int option"
  qr_found :: int
  qr_truncated :: bool

record ParsedPage =
  pg_records :: "LeakRecord list"
  pg_quota :: "int option"
  pg_found :: int

section \<open>Parsing of response bodies\<close>

definition optional_string :: "json \<Rightarrow> ustr option" where
  "optional_string v = (case v of JStr s \<Rightarrow> Some s | _ \<Rightarrow> None)"

fun comma_join :: "ustr list \<Rightarrow> ustr" where
  "comma_join [] = []"
| "comma_join [w] = w"
| "comma_join (w # ws) = w @ uni '', '' @ comma_join ws"

definition optional_origin :: "unidata \<Rightarrow> json \<Rightarrow> ustr option" where
  "optional_origin U v =
     (case v of
        JStr s \<Rightarrow> Some s
      | JList items \<Rightarrow>
          (let origins = filter (\<lambda>s. s \<noteq> [])
                 (map (strip U) (List.map_filter optional_string items));
               joined = comma_join origins
           in if joined = [] then None else Some joined)
      | _ \<Rightarrow> None)"

definition optional_bool :: "json \<Rightarrow> bool option" where
  "optional_bool v =
     (case v of JBool b \<Rightarrow> Some b | JInt i \<Rightarrow> if i = 0 then Some False else if i = 1 then Some True else None
      | _ \<Rightarrow> None)"

definition parse_record :: "unidata \<Rightarrow> json \<Rightarrow> LeakRecord res" where
  "parse_record U value =
     (case value of
        JObj o' \<Rightarrow>
          (let source = (case jget o' (uni ''source'') of JObj s \<Rightarrow> s | _ \<Rightarrow> []);
               fields = (case jget o' (uni ''fields'') of
                           JList items \<Rightarrow> List.map_filter optional_string items | _ \<Rightarrow> [])
           in Inr \<lparr>lr_email = optional_string (jget o' (uni ''email'')),
                   lr_username = optional_string (jget o' (uni ''username'')),
                   lr_phone = optional_string (jget o' (uni ''phone'')),
                   lr_origin = optional_origin U (jget o' (uni ''origin'')),
                   lr_password = optional_string (jget o' (uni ''password'')),
                   lr_fields = fields,
                   lr_source =
                     \<lparr>vs_name = optional_string (jget source (uni ''name'')),
                      vs_breach_date = optional_string (jget source (uni ''breach_date'')),
                      vs_unverified = optional_bool (jget source (uni ''unverified'')),
                      vs_passwordless = optional_bool (jget source (uni ''passwordless'')),
                      vs_compilation = optional_bool (jget source (uni ''compilation''))\<rparr>,
                   lr_raw = o'\<rparr>)
      | _ \<Rightarrow> Inl LeakCheckProtocolError)"

definition parse_page :: "unidata \<Rightarrow> (bytes \<Rightarrow> json option) \<Rightarrow> bytes \<Rightarrow> ParsedPage res" where
  "parse_page U loads body =
     (case loads body of
        Some (JObj payload) \<Rightarrow>
          if jget payload (uni ''success'') \<noteq> JBool True then Inl LeakCheckProtocolError
          else
            (case (jget payload (uni ''result''), jget payload (uni ''found''),
                   jget payload (uni ''quota'')) of
               (JList raw_results, JInt found, JNull) \<Rightarrow>
                 if found < 0 then Inl LeakCheckProtocolError
                 else bind_res (map_res (parse_record U) raw_results) (\<lambda>records.
                   Inr \<lparr>pg_records = records, pg_quota = None, pg_found = found\<rparr>)
             | (JList raw_results, JInt found, JInt quota) \<Rightarrow>
                 if found < 0 \<or> quota < 0 then Inl LeakCheckProtocolError
                 else bind_res (map_res (parse_record U) raw_results) (\<lambda>records.
                   Inr \<lparr>pg_records = records, pg_quota = Some quota, pg_found = found\<rparr>)
             | _ \<Rightarrow> Inl LeakCheckProtocolError)
      | _ \<Rightarrow> Inl LeakCheckProtocolError)"

section \<open>Client state and the network\<close>

record LeakCheckClient =
  lc_api_key :: ustr
  lc_rate :: rat
  lc_concurrency :: int
  lc_max_response_bytes :: int
  lc_max_retries :: nat
  lc_max_domain_pages :: nat
  lc_circuit_failure_threshold :: nat
  lc_circuit_reset_seconds :: rat
  lc_tokens :: rat
  lc_updated_at :: "rat option"
  lc_circuit_failures :: nat
  lc_circuit_opened_at :: "rat option"
  lc_time :: rat
  lc_sent :: "(rat \<times> ustr \<times> (string \<times> ustr) list) list"

text \<open>
  \<open>lc_time\<close> is the current time and \<open>lc_sent\<close> the requests sent so far, each with the time the
  limiter released it; they record the client's effects.
\<close>

datatype reply = TransportError | Response (r_status: nat) (r_length: "ustr option") (r_chunks: "bytes list")

record world =
  w_reply :: "LeakCheckClient \<Rightarrow> reply"
  w_elapsed :: "LeakCheckClient \<Rightarrow> rat"
  w_oversleep :: "LeakCheckClient \<Rightarrow> rat"

definition sleep :: "world \<Rightarrow> rat \<Rightarrow> LeakCheckClient \<Rightarrow> LeakCheckClient" where
  "sleep W s c = c\<lparr>lc_time := lc_time c + max 0 s + max 0 (w_oversleep W c)\<rparr>"

text \<open>The constructor's checks, with the token bucket's.\<close>

definition new_client ::
  "ustr \<Rightarrow> rat \<Rightarrow> int \<Rightarrow> int \<Rightarrow> int \<Rightarrow> int \<Rightarrow> nat \<Rightarrow> rat \<Rightarrow> rat \<Rightarrow> LeakCheckClient res" where
  "new_client api_key rps concurrency max_bytes max_retries max_pages threshold reset now =
     (if api_key = [] \<or> length api_key > 1024 then Inl LeakCheckConfigurationError
      else if concurrency < 1 \<or> max_bytes < 1 \<or> max_retries < 0 \<or> max_pages < 1 then Inl ValueError
      else if rps < 1 then Inl ValueError
      else Inr \<lparr>lc_api_key = api_key, lc_rate = rps, lc_concurrency = concurrency,
                lc_max_response_bytes = max_bytes, lc_max_retries = nat max_retries,
                lc_max_domain_pages = nat max_pages, lc_circuit_failure_threshold = threshold,
                lc_circuit_reset_seconds = reset, lc_tokens = 1, lc_updated_at = None,
                lc_circuit_failures = 0, lc_circuit_opened_at = None, lc_time = now,
                lc_sent = []\<rparr>)"

section \<open>Token bucket\<close>

definition refill :: "LeakCheckClient \<Rightarrow> LeakCheckClient" where
  "refill c =
     (case lc_updated_at c of
        None \<Rightarrow> c\<lparr>lc_updated_at := Some (lc_time c)\<rparr>
      | Some t \<Rightarrow>
          c\<lparr>lc_tokens := min 1 (lc_tokens c + max 0 (lc_time c - t) * lc_rate c),
            lc_updated_at := Some (lc_time c)\<rparr>)"

text \<open>
  The loop of \<open>acquire\<close>, with fuel: \<open>None\<close> means that it is still looping. The lemmas below show
  that two rounds are always enough.
\<close>

fun acquire :: "nat \<Rightarrow> world \<Rightarrow> LeakCheckClient \<Rightarrow> LeakCheckClient option" where
  "acquire 0 W c = None"
| "acquire (Suc n) W c =
     (let c = refill c in
      if lc_tokens c \<ge> 1 then Some (c\<lparr>lc_tokens := lc_tokens c - 1\<rparr>)
      else acquire n W (sleep W ((1 - lc_tokens c) / lc_rate c) c))"

definition ACQUIRE_ROUNDS :: nat where
  "ACQUIRE_ROUNDS = 2"

section \<open>Circuit breaker\<close>

definition ensure_circuit_available :: "LeakCheckClient \<Rightarrow> LeakCheckClient option" where
  "ensure_circuit_available c =
     (case lc_circuit_opened_at c of
        None \<Rightarrow> Some c
      | Some t \<Rightarrow>
          if lc_time c - t < lc_circuit_reset_seconds c then None
          else Some (c\<lparr>lc_circuit_opened_at := None, lc_circuit_failures := 0\<rparr>))"

definition record_failure :: "LeakCheckClient \<Rightarrow> LeakCheckClient" where
  "record_failure c =
     (let n = lc_circuit_failures c + 1; c = c\<lparr>lc_circuit_failures := n\<rparr> in
      if n \<ge> lc_circuit_failure_threshold c then c\<lparr>lc_circuit_opened_at := Some (lc_time c)\<rparr> else c)"

definition record_success :: "LeakCheckClient \<Rightarrow> LeakCheckClient" where
  "record_success c = c\<lparr>lc_circuit_failures := 0, lc_circuit_opened_at := None\<rparr>"

section \<open>Requests\<close>

definition BASE_URL :: ustr where
  "BASE_URL = uni ''https://leakcheck.io/api/v2/query''"

definition DOMAIN_PAGE_SIZE :: nat where
  "DOMAIN_PAGE_SIZE = 1000"

text \<open>\<open>urllib.parse.quote(query, safe="")\<close>\<close>

definition upper_hex :: "nat \<Rightarrow> nat" where
  "upper_hex v = (if v < 10 then 48 + v else 55 + v)"

definition quote_byte :: "8 word \<Rightarrow> ustr" where
  "quote_byte x =
     (let v = unat x in
      if is_alnum_ascii v \<or> v \<in> {95, 46, 45, 126} then [v]
      else [37, upper_hex (v div 16), upper_hex (v mod 16)])"

definition quote :: "ustr \<Rightarrow> ustr res" where
  "quote s = bind_res (encode_utf8 s) (\<lambda>bs. Inr (concat (map quote_byte bs)))"

text \<open>The streamed body, abandoned as soon as it crosses the limit.\<close>

fun read_body :: "int \<Rightarrow> bytes \<Rightarrow> bytes list \<Rightarrow> bytes res" where
  "read_body limit body [] = Inr body"
| "read_body limit body (chunk # chunks) =
     (let body = body @ chunk in
      if int (length body) > limit then Inl LeakCheckResponseTooLarge
      else read_body limit body chunks)"

datatype sent = Failed | Raised exn | Got nat bytes

definition receive :: "unidata \<Rightarrow> int \<Rightarrow> reply \<Rightarrow> sent" where
  "receive U limit r =
     (case r of
        TransportError \<Rightarrow> Failed
      | Response status declared chunks \<Rightarrow>
          (let checked =
             (case declared of
                None \<Rightarrow> Inr ()
              | Some text' \<Rightarrow>
                  (case py_int U text' of
                     None \<Rightarrow> Inl LeakCheckProtocolError
                   | Some n \<Rightarrow> if n > limit then Inl LeakCheckResponseTooLarge else Inr ()))
           in case bind_res checked (\<lambda>_. read_body limit [] chunks) of
                Inl e \<Rightarrow> Raised e
              | Inr body \<Rightarrow> Got status body))"

definition send ::
  "unidata \<Rightarrow> world \<Rightarrow> ustr \<Rightarrow> (string \<times> ustr) list \<Rightarrow> LeakCheckClient \<Rightarrow> sent \<times> LeakCheckClient" where
  "send U W url params c =
     (let c = c\<lparr>lc_sent := lc_sent c @ [(lc_time c, url, params)]\<rparr>;
          r = receive U (lc_max_response_bytes c) (w_reply W c)
      in (r, c\<lparr>lc_time := lc_time c + max 0 (w_elapsed W c)\<rparr>))"

text \<open>The loop over attempts; \<open>left\<close> counts the attempts that remain.\<close>

fun attempt_page ::
  "unidata \<Rightarrow> (bytes \<Rightarrow> json option) \<Rightarrow> world \<Rightarrow> ustr \<Rightarrow> (string \<times> ustr) list \<Rightarrow> nat \<Rightarrow> nat
   \<Rightarrow> LeakCheckClient \<Rightarrow> ParsedPage res \<times> LeakCheckClient" where
  "attempt_page U loads W url params 0 attempt c = (Inl LeakCheckUnavailable, c)"
| "attempt_page U loads W url params (Suc left) attempt c =
     (case ensure_circuit_available c of
        None \<Rightarrow> (Inl LeakCheckUnavailable, c)
      | Some c \<Rightarrow>
          (case acquire ACQUIRE_ROUNDS W c of
             None \<Rightarrow> (Inl (OtherError ''limiter''), c)
           | Some c \<Rightarrow>
               (let (reply, c) = send U W url params c;
                    retry = (\<lambda>c. let c = record_failure c in
                      if left > 0
                      then attempt_page U loads W url params left (attempt + 1)
                             (sleep W (min (2 ^ attempt) 8) c)
                      else (Inl LeakCheckUnavailable, c))
                in case reply of
                     Failed \<Rightarrow> retry c
                   | Raised e \<Rightarrow> (Inl e, c)
                   | Got status body \<Rightarrow>
                       if status = 401 then (Inl LeakCheckConfigurationError, record_success c)
                       else if status = 400 then (Inl LeakCheckProtocolError, record_success c)
                       else if status = 429 \<or> status \<ge> 500 then retry c
                       else if status \<noteq> 200 then (Inl LeakCheckProtocolError, record_success c)
                       else (parse_page U loads body, record_success c))))"

definition request_page ::
  "unidata \<Rightarrow> (bytes \<Rightarrow> json option) \<Rightarrow> world \<Rightarrow> QueryType \<Rightarrow> ustr \<Rightarrow> (string \<times> ustr) list
   \<Rightarrow> LeakCheckClient \<Rightarrow> ParsedPage res \<times> LeakCheckClient" where
  "request_page U loads W query_type query parameters c =
     (case quote query of
        Inl e \<Rightarrow> (Inl e, c)
      | Inr q \<Rightarrow>
          attempt_page U loads W (BASE_URL @ [47] @ q)
            ((''type'', uni (QueryType_value query_type)) # parameters)
            (lc_max_retries c + 1) 0 c)"

text \<open>The loop over domain pages, with what the pages before the current one contributed.\<close>

fun domain_pages ::
  "unidata \<Rightarrow> (bytes \<Rightarrow> json option) \<Rightarrow> world \<Rightarrow> ustr \<Rightarrow> nat \<Rightarrow> nat \<Rightarrow> LeakRecord list \<Rightarrow> int option
   \<Rightarrow> LeakCheckClient \<Rightarrow> QueryResult res \<times> LeakCheckClient" where
  "domain_pages U loads W query 0 page_number records quota c =
     (Inr \<lparr>qr_query_type = QueryType.DOMAIN, qr_records = records, qr_quota = quota,
           qr_found = int (length records), qr_truncated = True\<rparr>, c)"
| "domain_pages U loads W query (Suc left) page_number records quota c =
     (case request_page U loads W QueryType.DOMAIN query
        [(''limit'', dec DOMAIN_PAGE_SIZE), (''offset'', dec (page_number * DOMAIN_PAGE_SIZE))] c of
        (Inl e, c) \<Rightarrow> (Inl e, c)
      | (Inr page, c) \<Rightarrow>
          (let records = records @ pg_records page in
           if length (pg_records page) < DOMAIN_PAGE_SIZE
           then (Inr \<lparr>qr_query_type = QueryType.DOMAIN, qr_records = records,
                      qr_quota = pg_quota page, qr_found = int (length records),
                      qr_truncated = False\<rparr>, c)
           else domain_pages U loads W query left (page_number + 1) records (pg_quota page) c))"

definition query_domain ::
  "unidata \<Rightarrow> (bytes \<Rightarrow> json option) \<Rightarrow> world \<Rightarrow> ustr \<Rightarrow> LeakCheckClient
   \<Rightarrow> QueryResult res \<times> LeakCheckClient" where
  "query_domain U loads W query c =
     domain_pages U loads W query (lc_max_domain_pages c) 0 [] None c"

definition query ::
  "unidata \<Rightarrow> (bytes \<Rightarrow> json option) \<Rightarrow> world \<Rightarrow> QueryType \<Rightarrow> ustr \<Rightarrow> LeakCheckClient
   \<Rightarrow> QueryResult res \<times> LeakCheckClient" where
  "query U loads W query_type q c =
     (if q = [] then (Inl ValueError, c)
      else case encode_utf8 q of
        Inl e \<Rightarrow> (Inl e, c)
      | Inr bs \<Rightarrow>
          if length bs > 4096 then (Inl ValueError, c)
          else if query_type = QueryType.DOMAIN then query_domain U loads W q c
          else (case request_page U loads W query_type q [] c of
                  (Inl e, c) \<Rightarrow> (Inl e, c)
                | (Inr page, c) \<Rightarrow>
                    (Inr \<lparr>qr_query_type = query_type, qr_records = pg_records page,
                          qr_quota = pg_quota page, qr_found = pg_found page,
                          qr_truncated = False\<rparr>, c)))"

section \<open>Pacing\<close>

definition last_sent :: "LeakCheckClient \<Rightarrow> rat" where
  "last_sent c = fst (last (lc_sent c))"

text \<open>Consecutive starts are at least the reciprocal of the rate apart.\<close>

fun spaced :: "rat \<Rightarrow> rat list \<Rightarrow> bool" where
  "spaced r (s # t # ts) \<longleftrightarrow> 1 \<le> (t - s) * r \<and> spaced r (t # ts)"
| "spaced r _ \<longleftrightarrow> True"

text \<open>
  The bucket never holds more tokens than time has produced since the last start, nor more than
  its capacity.
\<close>

definition bucket_inv :: "LeakCheckClient \<Rightarrow> bool" where
  "bucket_inv c \<longleftrightarrow>
     1 \<le> lc_rate c \<and> 0 \<le> lc_tokens c \<and> lc_tokens c \<le> 1 \<and>
     spaced (lc_rate c) (map fst (lc_sent c)) \<and>
     (case lc_updated_at c of
        None \<Rightarrow> lc_sent c = []
      | Some u \<Rightarrow> u \<le> lc_time c \<and>
          (lc_sent c \<noteq> [] \<longrightarrow> lc_tokens c \<le> (u - last_sent c) * lc_rate c))"

lemma spaced_snoc:
  "spaced r (ts @ [t]) \<longleftrightarrow> spaced r ts \<and> (ts \<noteq> [] \<longrightarrow> 1 \<le> (t - last ts) * r)"
  by (induction r ts rule: spaced.induct) auto

lemma spaced_span:
  assumes "spaced r ts" and "i + k < length ts"
  shows "of_nat k \<le> (ts ! (i + k) - ts ! i) * r"
  using assms(2)
proof (induction k)
  case (Suc k)
  have step: "1 \<le> (ts ! Suc j - ts ! j) * r" if "Suc j < length ts" for j
    using assms(1) that
  proof (induction r ts arbitrary: j rule: spaced.induct)
    case (1 r s t ts)
    then show ?case by (cases j) auto
  qed auto
  have "of_nat (Suc k) \<le> (ts ! (i + k) - ts ! i) * r + (ts ! Suc (i + k) - ts ! (i + k)) * r"
    using Suc step [of "i + k"] by simp
  then show ?case by (simp add: algebra_simps)
qed simp

lemma bucket_inv_refill:
  assumes "bucket_inv c"
  shows "bucket_inv (refill c)" and "lc_updated_at (refill c) = Some (lc_time c)"
proof -
  show "lc_updated_at (refill c) = Some (lc_time c)"
    by (simp add: refill_def split: option.splits)
  show "bucket_inv (refill c)"
  proof (cases "lc_updated_at c")
    case (Some u)
    then have u: "u \<le> lc_time c" and r: "1 \<le> lc_rate c" and t: "0 \<le> lc_tokens c"
      and tok: "lc_sent c \<noteq> [] \<Longrightarrow> lc_tokens c \<le> (u - last_sent c) * lc_rate c"
      using assms by (auto simp: bucket_inv_def)
    have "0 \<le> (lc_time c - u) * lc_rate c" using u r by simp
    moreover have "lc_tokens c + (lc_time c - u) * lc_rate c \<le> (lc_time c - last_sent c) * lc_rate c"
      if "lc_sent c \<noteq> []"
      using tok [OF that] by (simp add: algebra_simps)
    ultimately show ?thesis
      using assms Some u t
      by (auto simp: bucket_inv_def refill_def last_sent_def min_def max_def)
  qed (use assms in \<open>auto simp: bucket_inv_def refill_def\<close>)
qed

lemma bucket_inv_sleep: "bucket_inv c \<Longrightarrow> bucket_inv (sleep W s c)"
  by (auto simp: bucket_inv_def sleep_def last_sent_def split: option.splits)

lemma refill_after_sleep:
  assumes "bucket_inv c" and "lc_updated_at c = Some (lc_time c)"
  shows "1 \<le> lc_tokens (refill (sleep W ((1 - lc_tokens c) / lc_rate c) c))"
proof -
  let ?s = "(1 - lc_tokens c) / lc_rate c" and ?o = "max 0 (w_oversleep W c)"
  have r: "0 < lc_rate c" and t: "lc_tokens c \<le> 1" using assms(1) by (auto simp: bucket_inv_def)
  then have s: "0 \<le> ?s" by simp
  have "(1 - lc_tokens c) = ?s * lc_rate c" using r by simp
  also have "\<dots> \<le> (?s + ?o) * lc_rate c" using r by (intro mult_right_mono) auto
  finally show ?thesis
    using s assms(2) by (simp add: refill_def sleep_def)
qed

text \<open>The construction parameters, which no operation changes.\<close>

definition config :: "LeakCheckClient \<Rightarrow> ustr \<times> rat \<times> int \<times> int \<times> nat \<times> nat \<times> nat \<times> rat" where
  "config c = (lc_api_key c, lc_rate c, lc_concurrency c, lc_max_response_bytes c, lc_max_retries c,
     lc_max_domain_pages c, lc_circuit_failure_threshold c, lc_circuit_reset_seconds c)"

definition released :: "LeakCheckClient \<Rightarrow> bool" where
  "released c \<longleftrightarrow>
     1 \<le> lc_rate c \<and> lc_tokens c = 0 \<and> lc_updated_at c = Some (lc_time c) \<and>
     spaced (lc_rate c) (map fst (lc_sent c)) \<and>
     (lc_sent c \<noteq> [] \<longrightarrow> 1 \<le> (lc_time c - last_sent c) * lc_rate c)"

lemma config_simps [frame_simps, simp]:
  "config (refill c) = config c" "config (sleep W s c) = config c"
  "config (record_failure c) = config c" "config (record_success c) = config c"
  "config (c\<lparr>lc_tokens := t\<rparr>) = config c" "config (c\<lparr>lc_time := r\<rparr>) = config c"
  "config (c\<lparr>lc_sent := l\<rparr>) = config c" "config (c\<lparr>lc_circuit_failures := n\<rparr>) = config c"
  "config (c\<lparr>lc_circuit_opened_at := p\<rparr>) = config c"
  by (auto simp: config_def refill_def sleep_def record_failure_def record_success_def Let_def
      split: option.splits)

lemma lc_sent_simps [frame_simps, simp]:
  "lc_sent (refill c) = lc_sent c" "lc_sent (sleep W s c) = lc_sent c"
  "lc_sent (record_failure c) = lc_sent c" "lc_sent (record_success c) = lc_sent c"
  by (auto simp: refill_def sleep_def record_failure_def record_success_def Let_def
      split: option.splits)

lemma refill_frame [frame_simps, simp]:
  "lc_time (refill c) = lc_time c" "lc_circuit_failures (refill c) = lc_circuit_failures c"
  "lc_circuit_opened_at (refill c) = lc_circuit_opened_at c" "lc_rate (refill c) = lc_rate c"
  by (simp_all add: refill_def split: option.splits)

lemma sleep_frame [frame_simps, simp]:
  "lc_circuit_failures (sleep W s c) = lc_circuit_failures c"
  "lc_circuit_opened_at (sleep W s c) = lc_circuit_opened_at c" "lc_time c \<le> lc_time (sleep W s c)"
  by (simp_all add: sleep_def)

lemma released_take:
  assumes "bucket_inv c" and "1 \<le> lc_tokens (refill c)"
  shows "released (refill c\<lparr>lc_tokens := lc_tokens (refill c) - 1\<rparr>)"
proof -
  have inv: "bucket_inv (refill c)" and up: "lc_updated_at (refill c) = Some (lc_time c)"
    using bucket_inv_refill [OF assms(1)] .
  have "lc_time (refill c) = lc_time c" by (simp add: refill_def split: option.splits)
  then show ?thesis
    using inv up assms(2) by (auto simp: bucket_inv_def released_def last_sent_def)
qed

text \<open>Two rounds always suffice, and a start is released only when a whole token has accrued.\<close>

lemma acquire_works:
  assumes inv: "bucket_inv c"
  obtains c' where "acquire ACQUIRE_ROUNDS W c = Some c'" "released c'" "lc_sent c' = lc_sent c"
    "config c' = config c" "lc_circuit_failures c' = lc_circuit_failures c"
    "lc_circuit_opened_at c' = lc_circuit_opened_at c" "lc_time c \<le> lc_time c'"
proof (cases "1 \<le> lc_tokens (refill c)")
  case True
  let ?d = "refill c\<lparr>lc_tokens := lc_tokens (refill c) - 1\<rparr>"
  have "lc_circuit_failures ?d = lc_circuit_failures c"
    "lc_circuit_opened_at ?d = lc_circuit_opened_at c" "lc_time c \<le> lc_time ?d"
    by simp_all
  moreover have "acquire ACQUIRE_ROUNDS W c = Some ?d"
    using True by (simp add: ACQUIRE_ROUNDS_def numeral_2_eq_2 Let_def)
  moreover have "config ?d = config c" "lc_sent ?d = lc_sent c" by simp_all
  ultimately show ?thesis
    using that [of ?d] released_take [OF inv True] by blast
next
  case False
  let ?c = "sleep W ((1 - lc_tokens (refill c)) / lc_rate (refill c)) (refill c)"
  let ?d = "refill ?c\<lparr>lc_tokens := lc_tokens (refill ?c) - 1\<rparr>"
  have sl: "bucket_inv ?c"
    using bucket_inv_refill [OF inv] by (intro bucket_inv_sleep)
  have one: "1 \<le> lc_tokens (refill ?c)"
    using bucket_inv_refill [OF inv] by (intro refill_after_sleep) simp_all
  have "config ?d = config c" "lc_sent ?d = lc_sent c"
    by simp_all
  moreover have "lc_circuit_failures ?d = lc_circuit_failures c"
    "lc_circuit_opened_at ?d = lc_circuit_opened_at c" "lc_time c \<le> lc_time ?d"
    using sleep_frame(3) [of "refill c" W] by simp_all
  moreover have "acquire ACQUIRE_ROUNDS W c = Some ?d"
    using False one by (simp add: ACQUIRE_ROUNDS_def numeral_2_eq_2 Let_def)
  ultimately show ?thesis
    using that [of ?d] released_take [OF sl one] by blast
qed

lemma send_released:
  assumes "released c" and "send U W url params c = (r, c')"
  shows "bucket_inv c'" and "lc_sent c' = lc_sent c @ [(lc_time c, url, params)]"
    and "config c' = config c" and "lc_circuit_failures c' = lc_circuit_failures c"
    and "lc_circuit_opened_at c' = lc_circuit_opened_at c" and "lc_time c \<le> lc_time c'"
  using assms
  by (auto simp: send_def Let_def bucket_inv_def released_def last_sent_def spaced_snoc last_map)

lemma bucket_inv_breaker [simp]:
  "bucket_inv (record_failure c) = bucket_inv c" "bucket_inv (record_success c) = bucket_inv c"
  "bucket_inv (c\<lparr>lc_circuit_opened_at := p, lc_circuit_failures := n\<rparr>) = bucket_inv c"
  by (auto simp: bucket_inv_def record_failure_def record_success_def last_sent_def Let_def
      split: option.splits)

lemma ensure_circuit_available_Some:
  "ensure_circuit_available c = Some c' \<Longrightarrow> bucket_inv c' = bucket_inv c \<and> config c' = config c \<and>
   lc_sent c' = lc_sent c"
  by (auto simp: ensure_circuit_available_def config_def split: option.splits if_splits)

text \<open>
  One call of \<open>attempt_page\<close>: the bucket invariant is kept, the requests it sends all carry the
  given address and parameters, and there are at most as many as attempts.
\<close>

definition page_run ::
  "ustr \<Rightarrow> (string \<times> ustr) list \<Rightarrow> nat \<Rightarrow> LeakCheckClient \<Rightarrow> LeakCheckClient \<Rightarrow> bool" where
  "page_run url params n c c' \<longleftrightarrow>
     bucket_inv c' \<and> config c' = config c \<and>
     (\<exists>new. lc_sent c' = lc_sent c @ new \<and> length new \<le> n \<and> set (map snd new) \<subseteq> {(url, params)})"

lemma page_run_refl: "bucket_inv c \<Longrightarrow> page_run url params n c c"
  by (simp add: page_run_def)

lemma page_run_step:
  assumes "page_run url params n c1 c'" and "config c1 = config c"
    and "lc_sent c1 = lc_sent c @ [(t, url, params)]"
  shows "page_run url params (Suc n) c c'"
  using assms by (auto simp: page_run_def)

lemma attempt_page_run:
  assumes "bucket_inv c" and "attempt_page U loads W url params left attempt c = (r, c')"
  shows "page_run url params left c c'"
  using assms
proof (induction left arbitrary: attempt c)
  case 0
  then show ?case by (simp add: page_run_refl)
next
  case (Suc left)
  show ?case
  proof (cases "ensure_circuit_available c")
    case None
    with Suc.prems show ?thesis by (simp add: page_run_refl)
  next
    case (Some c1)
    have c1: "bucket_inv c1" "config c1 = config c" "lc_sent c1 = lc_sent c"
      using ensure_circuit_available_Some [OF Some] Suc.prems(1) by simp_all
    obtain c2 where c2: "acquire ACQUIRE_ROUNDS W c1 = Some c2" "released c2"
      "lc_sent c2 = lc_sent c1" "config c2 = config c1"
      using acquire_works [OF c1(1)] by metis
    obtain reply c3 where send: "send U W url params c2 = (reply, c3)" by fastforce
    note c3 = send_released [OF c2(2) send]
    have done1: "page_run url params (Suc left) c d"
      if "bucket_inv d" "config d = config c3" "lc_sent d = lc_sent c3" for d
      using that c1 c2 c3 by (auto simp: page_run_def)
    have retry: "page_run url params (Suc left) c c'"
      if "attempt_page U loads W url params left (attempt + 1)
            (sleep W (min (2 ^ attempt) 8) (record_failure c3)) = (r, c')"
    proof -
      have "bucket_inv (sleep W (min (2 ^ attempt) 8) (record_failure c3))"
        using c3(1) by (simp add: bucket_inv_sleep)
      from Suc.IH [OF this that] show ?thesis
        using c1 c2 c3 by (auto simp: page_run_def)
    qed
    show ?thesis
      using Suc.prems(2) Some c2(1) send retry done1 [of "record_failure c3"]
        done1 [of "record_success c3"] done1 [of c3] c3(1)
      by (auto simp: Let_def split: sent.splits if_splits)
  qed
qed

section \<open>Whole queries\<close>

text \<open>The parameters of the domain request for one page, and of any other request.\<close>

definition domain_params :: "nat \<Rightarrow> (string \<times> ustr) list" where
  "domain_params k =
     [(''type'', uni ''domain''), (''limit'', dec DOMAIN_PAGE_SIZE), (''offset'', dec (k * DOMAIN_PAGE_SIZE))]"

lemma request_page_run:
  assumes "bucket_inv c" and "request_page U loads W ty q ps c = (r, c')"
  shows "\<exists>url. page_run url ((''type'', uni (QueryType_value ty)) # ps) (lc_max_retries c + 1) c c'"
proof (cases "quote q")
  case (Inl e)
  with assms show ?thesis by (auto simp: request_page_def page_run_refl)
next
  case (Inr url)
  with assms have "attempt_page U loads W (BASE_URL @ [47] @ url)
      ((''type'', uni (QueryType_value ty)) # ps) (lc_max_retries c + 1) 0 c = (r, c')"
    by (simp add: request_page_def del: attempt_page.simps)
  then show ?thesis using attempt_page_run [OF assms(1)] by blast
qed

text \<open>
  A run of the page loop: every request asks for a page number from the given range, the number of
  requests is bounded, and the records are those of the pages read, of which all but the last were
  full, and the last too exactly when the result is marked truncated.
\<close>

definition full :: "LeakRecord list \<Rightarrow> bool" where
  "full page \<longleftrightarrow> DOMAIN_PAGE_SIZE \<le> length page"

definition pages_sent :: "nat \<Rightarrow> nat \<Rightarrow> LeakCheckClient \<Rightarrow> LeakCheckClient \<Rightarrow> bool" where
  "pages_sent left first c c' \<longleftrightarrow>
     bucket_inv c' \<and> config c' = config c \<and>
     (\<exists>new. lc_sent c' = lc_sent c @ new \<and> length new \<le> left * (lc_max_retries c + 1) \<and>
        (snd \<circ> snd) ` set new \<subseteq> domain_params ` {first..<first + left})"

definition pages_read :: "nat \<Rightarrow> LeakRecord list \<Rightarrow> QueryResult \<Rightarrow> bool" where
  "pages_read left records q \<longleftrightarrow>
     qr_found q = int (length (qr_records q)) \<and>
     (\<exists>pages. qr_records q = records @ concat pages \<and> list_all full (butlast pages) \<and>
        (if qr_truncated q then length pages = left \<and> list_all full pages
         else pages \<noteq> [] \<and> length pages \<le> left \<and> \<not> full (last pages)))"

lemma pages_sent_one:
  assumes "page_run url (domain_params first) (lc_max_retries c + 1) c c1"
  shows "pages_sent (Suc 0) first c c1"
proof -
  obtain new where "lc_sent c1 = lc_sent c @ new" "length new \<le> lc_max_retries c + 1"
    "snd ` set new \<subseteq> {(url, domain_params first)}"
    using assms by (auto simp: page_run_def)
  then show ?thesis
    using assms unfolding page_run_def pages_sent_def by (auto intro!: exI [of _ new])
qed

lemma pages_sent_mono:
  assumes "pages_sent m first c c'" and "m \<le> n"
  shows "pages_sent n first c c'"
proof -
  have "m * (lc_max_retries c + 1) \<le> n * (lc_max_retries c + 1)"
    using assms(2) by (rule mult_le_mono1)
  moreover have "domain_params ` {first..<first + m} \<subseteq> domain_params ` {first..<first + n}"
    using assms(2) by (intro image_mono) auto
  ultimately show ?thesis
    using assms(1) unfolding pages_sent_def by (meson order_trans)
qed

lemma pages_sent_trans:
  assumes one: "pages_sent (Suc 0) first c c1" and rest: "pages_sent left (first + 1) c1 c'"
  shows "pages_sent (Suc left) first c c'"
proof -
  have ret: "lc_max_retries c1 = lc_max_retries c"
    using one by (simp add: pages_sent_def config_def)
  obtain new where new: "lc_sent c1 = lc_sent c @ new" "length new \<le> lc_max_retries c + 1"
    "(snd \<circ> snd) ` set new \<subseteq> domain_params ` {first..<first + Suc 0}"
    using one by (auto simp: pages_sent_def)
  obtain new' where new': "lc_sent c' = lc_sent c1 @ new'"
    "length new' \<le> left * (lc_max_retries c + 1)"
    "(snd \<circ> snd) ` set new' \<subseteq> domain_params ` {first + 1..<first + 1 + left}"
    using rest unfolding pages_sent_def ret by blast
  have "domain_params ` {first + 1..<first + 1 + left} \<subseteq> domain_params ` {first..<first + Suc left}"
    and "domain_params ` {first..<first + Suc 0} \<subseteq> domain_params ` {first..<first + Suc left}"
    by (intro image_mono; auto)+
  then have "(snd \<circ> snd) ` set (new @ new') \<subseteq> domain_params ` {first..<first + Suc left}"
    using order_trans [OF new(3)] order_trans [OF new'(3)]
    unfolding set_append image_Un by (simp only: Un_least)
  moreover have "lc_sent c' = lc_sent c @ (new @ new')"
    and "length (new @ new') \<le> Suc left * (lc_max_retries c + 1)"
    using new new' by simp_all
  ultimately show ?thesis
    using one rest unfolding pages_sent_def by (metis (no_types))
qed

lemma pages_read_last:
  "\<not> full page \<Longrightarrow> qr_records q = records @ page \<Longrightarrow> qr_found q = int (length (qr_records q)) \<Longrightarrow>
   \<not> qr_truncated q \<Longrightarrow> pages_read (Suc left) records q"
  by (auto simp: pages_read_def intro!: exI [of _ "[page]"])

lemma pages_read_Cons:
  assumes "full page" and "pages_read left (records @ page) q"
  shows "pages_read (Suc left) records q"
proof -
  obtain pages where "qr_records q = (records @ page) @ concat pages"
    "list_all full (butlast pages)" "qr_found q = int (length (qr_records q))"
    "if qr_truncated q then length pages = left \<and> list_all full pages
     else pages \<noteq> [] \<and> length pages \<le> left \<and> \<not> full (last pages)"
    using assms(2) by (auto simp: pages_read_def)
  with assms(1) show ?thesis
    unfolding pages_read_def by (intro conjI exI [of _ "page # pages"]) (auto split: if_splits)
qed

lemma domain_pages_run:
  assumes "bucket_inv c" and "domain_pages U loads W q left first records quota c = (r, c')"
  shows "pages_sent left first c c' \<and> (\<forall>x. r = Inr x \<longrightarrow> pages_read left records x)"
  using assms
proof (induction left arbitrary: first records quota c)
  case 0
  then show ?case by (auto simp: pages_sent_def pages_read_def)
next
  case (Suc left)
  obtain p c1 where req: "request_page U loads W QueryType.DOMAIN q
      [(''limit'', dec DOMAIN_PAGE_SIZE), (''offset'', dec (first * DOMAIN_PAGE_SIZE))] c = (p, c1)"
    by fastforce
  obtain url where "page_run url (domain_params first) (lc_max_retries c + 1) c c1"
    using request_page_run [OF Suc.prems(1) req] by (auto simp: domain_params_def)
  then have one: "pages_sent (Suc 0) first c c1" by (rule pages_sent_one)
  then have inv: "bucket_inv c1" by (simp add: pages_sent_def)
  have sent: "pages_sent (Suc left) first c c1" using one by (rule pages_sent_mono) simp
  show ?case
  proof (cases p)
    case (Inl e)
    with Suc.prems(2) req sent show ?thesis by auto
  next
    case (Inr page)
    show ?thesis
    proof (cases "full (pg_records page)")
      case False
      with Suc.prems(2) req Inr sent show ?thesis
        by (auto simp: full_def Let_def intro: pages_read_last)
    next
      case True
      with Suc.prems(2) req Inr have "domain_pages U loads W q left (first + 1)
          (records @ pg_records page) (pg_quota page) c1 = (r, c')"
        by (auto simp: full_def Let_def)
      from Suc.IH [OF inv this] show ?thesis
        using True one by (auto intro: pages_sent_trans pages_read_Cons)
    qed
  qed
qed

lemma bucket_inv_new_client:
  "new_client key rps cc mb mr mp th rs now = Inr c \<Longrightarrow> bucket_inv c"
  by (auto simp: new_client_def bucket_inv_def split: if_splits)

lemma query_run:
  assumes "bucket_inv c" and "query U loads W ty q c = (r, c')"
  shows "bucket_inv c' \<and> config c' = config c"
proof (cases "q = [] \<or> (\<exists>e. encode_utf8 q = Inl e) \<or> (\<exists>bs. encode_utf8 q = Inr bs \<and> 4096 < length bs)")
  case True
  with assms show ?thesis by (auto simp: query_def split: if_splits sum.splits)
next
  case False
  then obtain bs where ok: "q \<noteq> []" "encode_utf8 q = Inr bs" "\<not> 4096 < length bs"
    by (cases "encode_utf8 q") auto
  show ?thesis
  proof (cases "ty = QueryType.DOMAIN")
    case True
    with ok assms(2) have "domain_pages U loads W q (lc_max_domain_pages c) 0 [] None c = (r, c')"
      by (simp add: query_def query_domain_def)
    from domain_pages_run [OF assms(1) this] show ?thesis by (auto simp: pages_sent_def)
  next
    case dom: False
    obtain p c1 where req: "request_page U loads W ty q [] c = (p, c1)" by fastforce
    with dom ok assms(2) have "c' = c1" by (auto simp: query_def split: sum.splits)
    then show ?thesis using request_page_run [OF assms(1) req] by (auto simp: page_run_def)
  qed
qed

section \<open>Properties\<close>

text \<open>
  A query for anything but a domain sends at most one request per attempt, and every request
  carries the query type as its only parameter: an e-mail search never acquires the \<open>offset\<close> that
  the service turns into a false negative.
\<close>

theorem query_sends_no_offset:
  assumes "bucket_inv c" and "ty \<noteq> QueryType.DOMAIN" and "query U loads W ty q c = (r, c')"
  shows "\<exists>new. lc_sent c' = lc_sent c @ new \<and> length new \<le> lc_max_retries c + 1
    \<and> (snd \<circ> snd) ` set new \<subseteq> {[(''type'', uni (QueryType_value ty))]}"
proof (cases "lc_sent c' = lc_sent c")
  case False
  obtain p c1 where req: "request_page U loads W ty q [] c = (p, c1)" by fastforce
  with assms(2,3) False have "c' = c1" by (auto simp: query_def split: sum.splits if_splits)
  then obtain url where "page_run url [(''type'', uni (QueryType_value ty))] (lc_max_retries c + 1) c c'"
    using request_page_run [OF assms(1) req] by auto
  then obtain new where "lc_sent c' = lc_sent c @ new" "length new \<le> lc_max_retries c + 1"
    "snd ` set new \<subseteq> {(url, [(''type'', uni (QueryType_value ty))])}"
    by (auto simp: page_run_def)
  then show ?thesis by (intro exI [of _ new]) auto
qed simp

text \<open>
  A domain query asks only for pages below the configured maximum, each with the fixed page size
  and the matching offset, in at most \<open>max_domain_pages * (max_retries + 1)\<close> requests. A result it
  returns consists of the pages read; all but the last were full, and it is marked truncated exactly
  when the last permitted page was full as well.
\<close>

theorem query_domain_pages:
  assumes "bucket_inv c" and "query_domain U loads W q c = (r, c')"
  shows "(\<exists>new. lc_sent c' = lc_sent c @ new
      \<and> length new \<le> lc_max_domain_pages c * (lc_max_retries c + 1)
      \<and> (snd \<circ> snd) ` set new \<subseteq> domain_params ` {0..<lc_max_domain_pages c})
    \<and> (\<forall>x. r = Inr x \<longrightarrow> qr_found x = int (length (qr_records x)) \<and>
         (\<exists>pages. qr_records x = concat pages \<and> list_all full (butlast pages) \<and>
            (if qr_truncated x then length pages = lc_max_domain_pages c \<and> list_all full pages
             else pages \<noteq> [] \<and> length pages \<le> lc_max_domain_pages c \<and> \<not> full (last pages))))"
  using domain_pages_run [OF assms(1)] assms(2)
  unfolding query_domain_def pages_sent_def pages_read_def by (metis add_0 append_Nil)

lemma queries_bucket:
  assumes "bucket_inv c0"
  shows "bucket_inv (foldl (\<lambda>c (W, ty, q). snd (query U loads W ty q c)) c0 qs) \<and>
    config (foldl (\<lambda>c (W, ty, q). snd (query U loads W ty q c)) c0 qs) = config c0"
  using assms
proof (induction qs arbitrary: c0)
  case (Cons x xs)
  obtain W ty q where x: "x = (W, ty, q)" by (cases x) auto
  have "bucket_inv (snd (query U loads W ty q c0)) \<and> config (snd (query U loads W ty q c0)) = config c0"
    using query_run [OF Cons.prems, of U loads W ty q "fst (query U loads W ty q c0)"] by simp
  then show ?case using Cons.IH x by auto
qed simp

lemma acquire_more: "acquire n W c = Some c' \<Longrightarrow> acquire (n + m) W c = Some c'"
  by (induction n W c rule: acquire.induct) (auto simp: Let_def split: if_splits)



text \<open>
  Circuit breaker. While the breaker is open and its reset time has not passed, a well-formed
  query fails with \<open>LeakCheckUnavailable\<close> at once: nothing is sent and the client is unchanged.
\<close>

theorem open_circuit_blocks:
  assumes "lc_circuit_opened_at c = Some t" and "lc_time c - t < lc_circuit_reset_seconds c"
    and "q \<noteq> []" and "encode_utf8 q = Inr bs" and "length bs \<le> 4096" and "0 < lc_max_domain_pages c"
  shows "query U loads W ty q c = (Inl LeakCheckUnavailable, c)"
proof -
  have "ensure_circuit_available c = None"
    using assms(1,2) by (simp add: ensure_circuit_available_def)
  then have page: "request_page U loads W ty q ps c = (Inl LeakCheckUnavailable, c)" for ty ps
    using assms(4) by (simp add: request_page_def quote_def)
  obtain n where "lc_max_domain_pages c = Suc n" using assms(6) by (metis gr0_conv_Suc)
  then have "query_domain U loads W q c = (Inl LeakCheckUnavailable, c)"
    using page by (simp add: query_domain_def)
  then show ?thesis using assms(3-5) page by (simp add: query_def)
qed

section \<open>Witnesses\<close>

text \<open>A service that answers every request at once with an empty page, and a client for it.\<close>

definition empty_service :: world where
  "empty_service =
     \<lparr>w_reply = (\<lambda>_. Response 200 None []), w_elapsed = (\<lambda>_. 0), w_oversleep = (\<lambda>_. 0)\<rparr>"

definition empty_page :: "bytes \<Rightarrow> json option" where
  "empty_page body =
     Some (JObj [(uni ''success'', JBool True), (uni ''result'', JList []), (uni ''found'', JInt 0)])"

definition a_client :: LeakCheckClient where
  "a_client =
     \<lparr>lc_api_key = uni ''k'', lc_rate = 3, lc_concurrency = 3, lc_max_response_bytes = 1000,
      lc_max_retries = 3, lc_max_domain_pages = 100, lc_circuit_failure_threshold = 5,
      lc_circuit_reset_seconds = 30, lc_tokens = 1, lc_updated_at = None, lc_circuit_failures = 0,
      lc_circuit_opened_at = None, lc_time = 0, lc_sent = []\<rparr>"

lemma a_client_new: "new_client (uni ''k'') 3 3 1000 3 100 5 30 0 = Inr a_client"
  by (simp add: new_client_def a_client_def)

lemma encode_q: "encode_utf8 (uni ''q'') = Inr (octets ''q'')"
  by (simp add: encode_utf8_ascii uni_def octets_def)

lemma quote_q: "quote (uni ''q'') = Inr (uni ''q'')"
  unfolding quote_def encode_q by (simp add: quote_byte_def octets_def uni_def ascii_defs)

text \<open>While its breaker is closed, the client sends this service exactly one request per page.\<close>

lemma request_empty:
  assumes "bucket_inv c" and "lc_circuit_opened_at c = None"
  obtains c' where
    "request_page U empty_page empty_service ty (uni ''q'') ps c =
       (Inr \<lparr>pg_records = [], pg_quota = None, pg_found = 0\<rparr>, c')"
    "length (lc_sent c') = Suc (length (lc_sent c))" "lc_circuit_opened_at c' = None"
proof -
  obtain c1 where c1: "acquire ACQUIRE_ROUNDS empty_service c = Some c1" "lc_sent c1 = lc_sent c"
    "lc_circuit_opened_at c1 = None"
    using acquire_works [OF assms(1)] assms(2) by metis
  show ?thesis
  proof (rule that)
    show "request_page U empty_page empty_service ty (uni ''q'') ps c =
        (Inr \<lparr>pg_records = [], pg_quota = None, pg_found = 0\<rparr>,
         record_success (snd (send U empty_service (BASE_URL @ [47] @ uni ''q'')
           ((''type'', uni (QueryType_value ty)) # ps) c1)))"
      using c1 assms(2)
      by (simp add: request_page_def quote_q ensure_circuit_available_def send_def receive_def
          empty_service_def empty_page_def parse_page_def jget_def Let_def)
  qed (simp_all add: send_def c1 record_success_def Let_def)
qed

lemma a_client_ready: "bucket_inv a_client" "lc_circuit_opened_at a_client = None"
  using bucket_inv_new_client [OF a_client_new] by (simp_all add: a_client_def)

lemma query_empty:
  assumes "bucket_inv c" and "lc_circuit_opened_at c = None"
  obtains r c' where "query U empty_page empty_service QueryType.EMAIL (uni ''q'') c = (r, c')"
    "length (lc_sent c') = Suc (length (lc_sent c))" "lc_circuit_opened_at c' = None" "bucket_inv c'"
proof -
  obtain c' where c': "request_page U empty_page empty_service QueryType.EMAIL (uni ''q'') [] c =
       (Inr \<lparr>pg_records = [], pg_quota = None, pg_found = 0\<rparr>, c')"
    "length (lc_sent c') = Suc (length (lc_sent c))" "lc_circuit_opened_at c' = None"
    using request_empty [OF assms] by metis
  moreover have "bucket_inv c'"
    using request_page_run [OF assms(1) c'(1)] by (auto simp: page_run_def)
  ultimately show ?thesis
    using that by (simp add: query_def encode_q)
qed

theorem query_sends_no_offset_witness:
  "\<exists>r c'. query ascii_unidata empty_page empty_service QueryType.EMAIL (uni ''q'') a_client = (r, c')
     \<and> length (lc_sent c') = 1 \<and> (snd \<circ> snd) ` set (lc_sent c') \<subseteq> {[(''type'', uni ''email'')]}"
proof -
  obtain r c' where run:
    "query ascii_unidata empty_page empty_service QueryType.EMAIL (uni ''q'') a_client = (r, c')"
    and "length (lc_sent c') = Suc (length (lc_sent a_client))"
    using query_empty [OF a_client_ready] by metis
  moreover have "lc_sent a_client = []" by (simp add: a_client_def)
  ultimately show ?thesis
    using query_sends_no_offset [OF a_client_ready(1) _ run] by auto
qed

theorem query_domain_pages_witness:
  "\<exists>x c'. query_domain ascii_unidata empty_page empty_service (uni ''q'') a_client = (Inr x, c')
     \<and> qr_found x = int (length (qr_records x)) \<and> \<not> qr_truncated x \<and> length (lc_sent c') \<le> 400"
proof -
  have n: "lc_max_domain_pages a_client = Suc 99" by (simp add: a_client_def)
  obtain c1 where "request_page ascii_unidata empty_page empty_service QueryType.DOMAIN (uni ''q'')
      [(''limit'', dec DOMAIN_PAGE_SIZE), (''offset'', dec (0 * DOMAIN_PAGE_SIZE))] a_client =
       (Inr \<lparr>pg_records = [], pg_quota = None, pg_found = 0\<rparr>, c1)"
    using request_empty [OF a_client_ready] by metis
  then obtain x c' where run:
    "query_domain ascii_unidata empty_page empty_service (uni ''q'') a_client = (Inr x, c')"
    and "\<not> qr_truncated x"
    unfolding query_domain_def n domain_pages.simps by (simp add: DOMAIN_PAGE_SIZE_def Let_def)
  moreover have "lc_sent a_client = []" "lc_max_domain_pages a_client = 100"
    "lc_max_retries a_client = 3"
    by (simp_all add: a_client_def)
  ultimately show ?thesis
    using query_domain_pages [OF a_client_ready(1) run] by auto
qed



theorem open_circuit_blocks_witness:
  "query ascii_unidata empty_page empty_service QueryType.DOMAIN (uni ''q'')
     (a_client\<lparr>lc_circuit_opened_at := Some 0\<rparr>)
   = (Inl LeakCheckUnavailable, a_client\<lparr>lc_circuit_opened_at := Some 0\<rparr>)"
  by (rule open_circuit_blocks [where t = 0 and bs = "octets ''q''"])
    (simp_all add: a_client_def encode_q)

end
