(* ===== verification/Remediation.thy ===== *)
theory Remediation
  imports Models
begin

text \<open>
  Closing and reopening a finding (\<open>src/app/remediation.py\<close>). The event table is the history of
  every finding; \<open>replay\<close> reads the remediation state off that history. The abstract contract of
  the component is that the \<open>findings\<close> row always shows the state its history replays to
  (\<open>trail_ok\<close>), and the locale \<open>finding_op\<close> states what any operation on findings promises.
\<close>

section \<open>Operations\<close>

definition locked_finding :: "db \<Rightarrow> uuid \<Rightarrow> Finding res" where
  "locked_finding d fid = of_option FindingNotFoundError (find (\<lambda>f. fnd_id f = fid) (findings d))"

definition add_event ::
  "uuid \<Rightarrow> FindingEventType \<Rightarrow> uuid \<Rightarrow> datetime \<Rightarrow> db \<Rightarrow> db" where
  "add_event fid event actor_id at d =
     (let (i, d) = uuid4 d in
      d\<lparr>finding_events := finding_events d @
          [\<lparr>ev_id = i, ev_finding_id = fid, ev_event = event, ev_actor_id = Some actor_id,
            ev_at = at, ev_meta = []\<rparr>]\<rparr>)"

definition set_finding :: "uuid \<Rightarrow> (Finding \<Rightarrow> Finding) \<Rightarrow> db \<Rightarrow> db" where
  "set_finding fid upd d = d\<lparr>findings := update_where (\<lambda>f. fnd_id f = fid) upd (findings d)\<rparr>"

definition remediate_finding ::
  "uuid \<Rightarrow> uuid \<Rightarrow> ustr option \<Rightarrow> py_datetime option \<Rightarrow> db \<Rightarrow> (Finding \<times> db) res" where
  "remediate_finding fid actor_id note now d =
     bind_res (locked_finding d fid) (\<lambda>finding.
     if fnd_remediated_at finding \<noteq> None then Inr (finding, d)
     else bind_res (utc_now (clock d) now) (\<lambda>at.
       let upd = (\<lambda>f. f\<lparr>fnd_remediated_at := Some at, fnd_remediated_by := Some actor_id,
                        fnd_remediation_note := note\<rparr>)
       in Inr (upd finding,
               add_event fid FindingEventType.REMEDIATED actor_id at (set_finding fid upd d))))"

definition unremediate_finding ::
  "uuid \<Rightarrow> uuid \<Rightarrow> py_datetime option \<Rightarrow> db \<Rightarrow> (Finding \<times> db) res" where
  "unremediate_finding fid actor_id now d =
     bind_res (locked_finding d fid) (\<lambda>finding.
     if fnd_remediated_at finding = None then Inr (finding, d)
     else bind_res (utc_now (clock d) now) (\<lambda>at.
       let upd = (\<lambda>f. f\<lparr>fnd_remediated_at := None, fnd_remediated_by := None,
                        fnd_remediation_note := None\<rparr>)
       in Inr (upd finding,
               add_event fid FindingEventType.UNREMEDIATED actor_id at (set_finding fid upd d))))"

section \<open>The history contract\<close>

fun replay_step ::
  "datetime option \<times> uuid option \<Rightarrow> FindingEvent \<Rightarrow> datetime option \<times> uuid option" where
  "replay_step s e =
     (case ev_event e of
        FindingEventType.REMEDIATED \<Rightarrow> (Some (ev_at e), ev_actor_id e)
      | FindingEventType.UNREMEDIATED \<Rightarrow> (None, None)
      | _ \<Rightarrow> s)"

definition replay :: "uuid \<Rightarrow> FindingEvent list \<Rightarrow> datetime option \<times> uuid option" where
  "replay fid es = foldl replay_step (None, None) (filter (\<lambda>e. ev_finding_id e = fid) es)"

definition trail_ok :: "db \<Rightarrow> bool" where
  "trail_ok d \<longleftrightarrow>
     (\<forall>f \<in> set (findings d).
        (fnd_remediated_at f, fnd_remediated_by f) = replay (fnd_id f) (finding_events d))"

text \<open>
  What every operation on findings promises: it keeps the keys, fingerprints and references of the
  findings tables consistent and the rows in agreement with their history.
\<close>

definition findings_ok :: "db \<Rightarrow> bool" where
  "findings_ok d \<longleftrightarrow> findings_inv d \<and> trail_ok d"

locale finding_op =
  fixes run :: "'i \<Rightarrow> db \<Rightarrow> ('o \<times> db) res"
    and fresh :: "'i \<Rightarrow> db \<Rightarrow> bool"
  assumes keeps: "findings_ok d \<Longrightarrow> fresh i d \<Longrightarrow> run i d = Inr (x, d') \<Longrightarrow> findings_ok d'"
begin

text \<open>Runs of the operation over a list of inputs, a failed call leaving the state unchanged.\<close>

lemma keeps_along:
  assumes "findings_ok d" and "\<And>i d. i \<in> set is \<Longrightarrow> findings_ok d \<Longrightarrow> fresh i d"
  shows "findings_ok (foldl (\<lambda>d i. case run i d of Inl e \<Rightarrow> d | Inr (x, d') \<Rightarrow> d') d is)"
  using assms
proof (induction "is" arbitrary: d)
  case (Cons i "is")
  have "findings_ok (case run i d of Inl e \<Rightarrow> d | Inr (x, d') \<Rightarrow> d')"
    using Cons.prems(1) keeps [OF Cons.prems(1) Cons.prems(2) [of i]]
    by (auto split: sum.splits)
  with Cons show ?case by simp
qed simp

end

lemma replay_append [simp]:
  "replay fid (es @ [e]) =
     (if ev_finding_id e = fid then replay_step (replay fid es) e else replay fid es)"
  by (simp add: replay_def)

lemma replay_none: "(\<And>e. e \<in> set es \<Longrightarrow> ev_finding_id e \<noteq> fid) \<Longrightarrow> replay fid es = (None, None)"
  by (simp add: replay_def filter_False)

lemma replay_filter:
  "(\<And>e. ev_finding_id e = fid \<Longrightarrow> q e) \<Longrightarrow> replay fid (filter q es) = replay fid es"
  unfolding replay_def filter_filter by (metis (mono_tags, lifting))

section \<open>Facts about the operations\<close>

lemma locked_finding_Inr:
  "locked_finding d fid = Inr f \<Longrightarrow> f \<in> set (findings d) \<and> fnd_id f = fid"
  by (auto simp: locked_finding_def dest: find_Some_mem)

lemma locked_finding_unique:
  "unique_on fnd_id (findings d) \<Longrightarrow> f \<in> set (findings d) \<Longrightarrow> locked_finding d (fnd_id f) = Inr f"
  by (simp add: locked_finding_def unique_on_find)

lemma add_event_frame [frame_simps, simp]:
  "findings (add_event fid ev a at d) = findings d" "clock (add_event fid ev a at d) = clock d"
  by (simp_all add: add_event_def uuid4_eq)

lemma add_event_events:
  "finding_events (add_event fid ev a at d) =
     finding_events d @ [\<lparr>ev_id = next_uuid d, ev_finding_id = fid, ev_event = ev,
                          ev_actor_id = Some a, ev_at = at, ev_meta = []\<rparr>]"
  by (simp add: add_event_def uuid4_eq)

lemma set_finding_frame [frame_simps, simp]:
  "findings (set_finding fid upd d) = update_where (\<lambda>f. fnd_id f = fid) upd (findings d)"
  "finding_events (set_finding fid upd d) = finding_events d"
  by (simp_all add: set_finding_def)

text \<open>An update of one finding that leaves its key, fingerprint, constraints and links alone.\<close>

lemma findings_inv_transition:
  assumes inv: "findings_inv d" and mem: "f \<in> set (findings d)" and fid: "fnd_id f = fid"
    and keep: "\<And>g. fnd_id (upd g) = fnd_id g \<and> fnd_fingerprint (upd g) = fnd_fingerprint g \<and>
        finding_ok (upd g) = finding_ok g \<and> fnd_superseded_by_id (upd g) = fnd_superseded_by_id g"
  shows "findings_inv (add_event fid ev a at (set_finding fid upd d))"
proof -
  let ?t = "update_where (\<lambda>f. fnd_id f = fid) upd (findings d)"
  have ids: "fnd_id ` set ?t = fnd_id ` set (findings d)"
    using keep by (simp add: image_update_where)
  have "fnd_superseded_by_id ` set ?t = fnd_superseded_by_id ` set (findings d)"
    using keep by (simp add: image_update_where)
  with inv ids have "superseded_fk ?t"
    by (simp add: findings_inv_def superseded_fk_iff)
  moreover have "unique_on fnd_id ?t" "unique_on fnd_fingerprint ?t" "list_all finding_ok ?t"
    using inv keep
    by (auto simp: findings_inv_def unique_on_update_where list_all_iff set_update_where)
  moreover have "events_fk (add_event fid ev a at (set_finding fid upd d))"
    using inv ids mem fid by (auto simp: findings_inv_def events_fk_def add_event_events)
  ultimately show ?thesis by (simp add: findings_inv_def)
qed

lemma trail_ok_transition:
  assumes "trail_ok d"
    and "\<And>g. fnd_id (upd g) = fnd_id g"
    and "\<And>g s i. (fnd_remediated_at (upd g), fnd_remediated_by (upd g)) =
       replay_step s \<lparr>ev_id = i, ev_finding_id = fid, ev_event = ev, ev_actor_id = Some a,
                      ev_at = at, ev_meta = []\<rparr>"
  shows "trail_ok (add_event fid ev a at (set_finding fid upd d))"
  unfolding trail_ok_def
proof (intro ballI)
  fix f
  assume "f \<in> set (findings (add_event fid ev a at (set_finding fid upd d)))"
  then obtain g where g: "g \<in> set (findings d)" "f = (if fnd_id g = fid then upd g else g)"
    by (auto simp: set_update_where)
  show "(fnd_remediated_at f, fnd_remediated_by f) =
      replay (fnd_id f) (finding_events (add_event fid ev a at (set_finding fid upd d)))"
  proof (cases "fnd_id g = fid")
    case True
    with g assms(2) have "f = upd g" "fnd_id f = fid" by simp_all
    then show ?thesis using assms(3) by (simp add: add_event_events del: replay_step.simps)
  next
    case False
    with g assms(1) show ?thesis by (simp add: trail_ok_def add_event_events)
  qed
qed

lemma remediate_finding_keeps:
  assumes ok: "findings_ok d" and run: "remediate_finding fid a note now d = Inr (f, d')"
  shows "findings_ok d'"
proof -
  obtain g where g: "locked_finding d fid = Inr g"
    using run by (auto simp: remediate_finding_def bind_res_Inr_iff)
  then have mem: "g \<in> set (findings d)" "fnd_id g = fid"
    by (auto dest: locked_finding_Inr)
  show ?thesis
  proof (cases "fnd_remediated_at g")
    case None
    with run g obtain at where d': "d' = add_event fid FindingEventType.REMEDIATED a at
        (set_finding fid (\<lambda>f. f\<lparr>fnd_remediated_at := Some at, fnd_remediated_by := Some a,
           fnd_remediation_note := note\<rparr>) d)"
      by (auto simp: remediate_finding_def bind_res_Inr_iff Let_def)
    then show ?thesis
      using ok mem unfolding findings_ok_def d'
      by (auto intro!: findings_inv_transition trail_ok_transition simp: finding_ok_def)
  qed (use run g ok in \<open>auto simp: remediate_finding_def\<close>)
qed

lemma unremediate_finding_keeps:
  assumes ok: "findings_ok d" and run: "unremediate_finding fid a now d = Inr (f, d')"
  shows "findings_ok d'"
proof -
  obtain g where g: "locked_finding d fid = Inr g"
    using run by (auto simp: unremediate_finding_def bind_res_Inr_iff)
  then have mem: "g \<in> set (findings d)" "fnd_id g = fid"
    by (auto dest: locked_finding_Inr)
  show ?thesis
  proof (cases "fnd_remediated_at g")
    case (Some t)
    with run g obtain at where d': "d' = add_event fid FindingEventType.UNREMEDIATED a at
        (set_finding fid (\<lambda>f. f\<lparr>fnd_remediated_at := None, fnd_remediated_by := None,
           fnd_remediation_note := None\<rparr>) d)"
      by (auto simp: unremediate_finding_def bind_res_Inr_iff Let_def)
    then show ?thesis
      using ok mem unfolding findings_ok_def d'
      by (auto intro!: findings_inv_transition trail_ok_transition simp: finding_ok_def)
  qed (use run g ok in \<open>auto simp: unremediate_finding_def\<close>)
qed

interpretation remediate: finding_op
  "\<lambda>(fid, a, note, now). remediate_finding fid a note now" "\<lambda>_ _. True"
  by unfold_locales (auto intro: remediate_finding_keeps)

interpretation unremediate: finding_op
  "\<lambda>(fid, a, now). unremediate_finding fid a now" "\<lambda>_ _. True"
  by unfold_locales (auto intro: unremediate_finding_keeps)

text \<open>The row after an update of the finding that was read.\<close>

lemma locked_finding_after:
  assumes "locked_finding d fid = Inr g" and "\<And>g. fnd_id (upd g) = fnd_id g"
  shows "locked_finding (add_event fid ev a at (set_finding fid upd d)) fid = Inr (upd g)"
  using assms
  by (auto simp: locked_finding_def find_update_where dest!: find_Some_mem)

section \<open>Properties\<close>

text \<open>
  C35. Remediating an open finding succeeds: the stored row carries the timestamp, the actor and the
  note, exactly one REMEDIATED event by that actor is appended, no other finding changes, and a
  repeated call by anyone at any time returns that row and changes nothing.
\<close>

theorem remediate_finding_once:
  assumes "locked_finding d fid = Inr g" and "fnd_remediated_at g = None"
    and "utc_now (clock d) now = Inr at"
  shows "\<exists>f d'. remediate_finding fid a note now d = Inr (f, d')
    \<and> f = g\<lparr>fnd_remediated_at := Some at, fnd_remediated_by := Some a, fnd_remediation_note := note\<rparr>
    \<and> locked_finding d' fid = Inr f
    \<and> (\<exists>e. finding_events d' = finding_events d @ [e] \<and> ev_finding_id e = fid
           \<and> ev_event e = FindingEventType.REMEDIATED \<and> ev_actor_id e = Some a \<and> ev_at e = at)
    \<and> filter (\<lambda>h. fnd_id h \<noteq> fid) (findings d') = filter (\<lambda>h. fnd_id h \<noteq> fid) (findings d)
    \<and> (\<forall>b n t. remediate_finding fid b n t d' = Inr (f, d'))"
proof -
  let ?upd = "\<lambda>f. f\<lparr>fnd_remediated_at := Some at, fnd_remediated_by := Some a,
                   fnd_remediation_note := note\<rparr>"
  let ?d' = "add_event fid FindingEventType.REMEDIATED a at (set_finding fid ?upd d)"
  have run: "remediate_finding fid a note now d = Inr (?upd g, ?d')"
    using assms by (simp add: remediate_finding_def)
  have after: "locked_finding ?d' fid = Inr (?upd g)"
    by (rule locked_finding_after) (use assms in simp_all)
  then have "remediate_finding fid b n t ?d' = Inr (?upd g, ?d')" for b n t
    by (simp add: remediate_finding_def)
  moreover have "filter (\<lambda>h. fnd_id h \<noteq> fid) (findings ?d') = filter (\<lambda>h. fnd_id h \<noteq> fid) (findings d)"
    by (simp add: filter_update_where)
  ultimately show ?thesis
    using run after by (intro exI [of _ "?upd g"] exI [of _ ?d']) (simp add: add_event_events)
qed

text \<open>An open finding of a database is closed, and stays as it is when closed again.\<close>

theorem remediate_finding_once_witness:
  "\<exists>f d'. remediate_finding 7 1 None None (db0\<lparr>findings := [a_finding 7 5 None]\<rparr>) = Inr (f, d')
     \<and> fnd_remediated_at f = Some (seconds 1000000) \<and> length (finding_events d') = 1
     \<and> remediate_finding 7 2 None None d' = Inr (f, d')"
proof -
  let ?d = "db0\<lparr>findings := [a_finding 7 5 None]\<rparr>"
  have "locked_finding ?d 7 = Inr (a_finding 7 5 None)"
    by (simp add: locked_finding_def of_option_def sample_defs)
  moreover have "fnd_remediated_at (a_finding 7 5 None) = None"
    and "utc_now (clock ?d) None = Inr (seconds 1000000)"
    and "finding_events ?d = []"
    by (simp_all add: sample_defs)
  ultimately show ?thesis
    using remediate_finding_once [of ?d 7 "a_finding 7 5 None" None "seconds 1000000" 1 None]
    by auto
qed

end
