(* ===== verification/Ingest.thy ===== *)
theory Ingest
  imports Normalization FindingCrypto LeakCheck Remediation
begin

text \<open>
  Idempotent ingest of LeakCheck records (\<open>src/app/ingest.py\<close>). \<open>ingest_records\<close> runs against an
  \<open>IngestRepository\<close>, the record of operations that the source declares as a protocol; the locale
  \<open>ingest_repository\<close> states what it relies on, and \<open>sql_repository\<close>, the model of
  \<open>SQLAlchemyIngestRepository\<close>, is shown to provide it.
\<close>

section \<open>Data\<close>

text \<open>The parameters: Unicode tables, AES-GCM, the settings, and \<open>date.fromisoformat\<close>.\<close>

record ingest_env =
  ie_unidata :: unidata
  ie_gcm :: aesgcm
  ie_settings :: Settings
  ie_fromisoformat :: "ustr \<Rightarrow> date option"

record SourceIdentity =
  si_name :: ustr
  si_name_norm :: ustr
  si_breach_date :: "date option"
  si_breach_date_norm :: date
  si_unverified :: "bool option"
  si_passwordless :: "bool option"
  si_compilation :: "bool option"
  si_extra :: "(ustr \<times> json) list"

record FindingDraft =
  fd_id :: uuid
  fd_subject_id :: uuid
  fd_source_id :: uuid
  fd_email :: "ustr option"
  fd_username :: "ustr option"
  fd_phone :: "ustr option"
  fd_origin :: "ustr option"
  fd_identity_key :: "bytes option"
  fd_password :: "ProtectedPassword option"
  fd_fields :: "ustr list"
  fd_raw :: "(ustr \<times> json) list"
  fd_fingerprint :: bytes
  fd_seen_at :: datetime

text \<open>A summary refers to the findings by their keys, since the rows change after they are listed.\<close>

record IngestSummary =
  is_findings :: "uuid list"
  is_new_count :: nat
  is_re_leaked_count :: nat
  is_new_finding_ids :: "uuid list"

definition UNKNOWN_DATE :: date where
  "UNKNOWN_DATE = (1, 1, 1)"

definition UNKNOWN_SOURCE :: ustr where
  "UNKNOWN_SOURCE = uni ''Unknown''"

definition ZERO_PASSWORD_HASH :: bytes where
  "ZERO_PASSWORD_HASH = replicate 32 0"

section \<open>Identities and fingerprints\<close>

definition json_text :: "ustr option \<Rightarrow> json" where
  "json_text v = (case v of None \<Rightarrow> JNull | Some s \<Rightarrow> JStr s)"

definition parse_date :: "ingest_env \<Rightarrow> ustr option \<Rightarrow> date option" where
  "parse_date E value =
     (case value of None \<Rightarrow> None | Some v \<Rightarrow> if v = [] then None else ie_fromisoformat E v)"

definition or_unknown :: "ustr \<Rightarrow> ustr" where
  "or_unknown s = (if s = [] then UNKNOWN_SOURCE else s)"

definition normalize_source :: "ingest_env \<Rightarrow> VendorSource \<Rightarrow> SourceIdentity" where
  "normalize_source E source =
     (let U = ie_unidata E;
          given = (case vs_name source of None \<Rightarrow> UNKNOWN_SOURCE | Some n \<Rightarrow> or_unknown n);
          name = or_unknown (strip U (nfkc U given));
          name = map (\<lambda>c. if isprintable U c then c else 0xFFFD) name;
          name = take 1024 name;
          breach_date = parse_date E (vs_breach_date source)
      in \<lparr>si_name = name, si_name_norm = casefold U name, si_breach_date = breach_date,
          si_breach_date_norm = (case breach_date of None \<Rightarrow> UNKNOWN_DATE | Some dt \<Rightarrow> dt),
          si_unverified = vs_unverified source, si_passwordless = vs_passwordless source,
          si_compilation = vs_compilation source,
          si_extra = [(uni ''vendor_name'', json_text (vs_name source)),
                      (uni ''vendor_breach_date'', json_text (vs_breach_date source))]\<rparr>)"

text \<open>Digesting each part behind its four-byte length; a part too long for it raises.\<close>

definition digest_parts :: "bytes list \<Rightarrow> bytes res" where
  "digest_parts parts = (if frameable parts then Inr (sha256 (frame parts)) else Inl OverflowError)"

definition identity_key :: "ustr \<Rightarrow> ustr \<Rightarrow> ustr \<Rightarrow> bytes option res" where
  "identity_key email username phone =
     (if email = [] \<and> username = [] \<and> phone = [] then Inr None
      else bind_res (map_res encode_utf8 [email, username, phone]) (\<lambda>parts.
           bind_res (digest_parts parts) (\<lambda>k. Inr (Some k))))"

definition fingerprint_parts ::
  "Subject \<Rightarrow> SourceIdentity \<Rightarrow> ustr \<Rightarrow> ustr \<Rightarrow> ustr \<Rightarrow> bytes option \<Rightarrow> bytes list res" where
  "fingerprint_parts subject source email_norm username_norm phone_norm password_sha256 =
     bind_res (map_res encode_utf8
       [uni (SubjectKind_value (sub_kind subject)), sub_value_norm subject, si_name_norm source,
        isoformat (si_breach_date_norm source), email_norm, username_norm, phone_norm]) (\<lambda>parts.
     Inr (parts @ [case password_sha256 of None \<Rightarrow> ZERO_PASSWORD_HASH | Some h \<Rightarrow> h]))"

definition finding_fingerprint ::
  "Subject \<Rightarrow> SourceIdentity \<Rightarrow> ustr \<Rightarrow> ustr \<Rightarrow> ustr \<Rightarrow> bytes option \<Rightarrow> bytes res" where
  "finding_fingerprint subject source email_norm username_norm phone_norm password_sha256 =
     bind_res (fingerprint_parts subject source email_norm username_norm phone_norm password_sha256)
       digest_parts"

section \<open>Removal of passwords from the stored copy\<close>

fun sanitized_raw :: "unidata \<Rightarrow> (ustr \<times> json) list \<Rightarrow> (ustr \<times> json) list"
  and sanitize_value :: "unidata \<Rightarrow> json \<Rightarrow> json" where
  "sanitized_raw U [] = []"
| "sanitized_raw U ((key, item) # rest) =
     (if casefold U key = uni ''password'' then sanitized_raw U rest
      else (key, sanitize_value U item) # sanitized_raw U rest)"
| "sanitize_value U (JObj o') = JObj (sanitized_raw U o')"
| "sanitize_value U (JList items) = JList (map (sanitize_value U) items)"
| "sanitize_value U v = v"

section \<open>Drafts\<close>

text \<open>The normalised identity of a record: its identity key and its fingerprint.\<close>

definition draft_identity ::
  "unidata \<Rightarrow> Subject \<Rightarrow> SourceIdentity \<Rightarrow> LeakRecord \<Rightarrow> bytes option \<Rightarrow> (bytes option \<times> bytes) res" where
  "draft_identity U subject source_identity record' password_sha256 =
     bind_res (normalize_optional_email U (lr_email record')) (\<lambda>email_norm.
     bind_res (normalize_optional_username U (lr_username record')) (\<lambda>username_norm.
     bind_res (normalize_optional_phone U (lr_phone record')) (\<lambda>phone_norm.
     bind_res (identity_key email_norm username_norm phone_norm) (\<lambda>key.
     bind_res (finding_fingerprint subject source_identity email_norm username_norm phone_norm
                 password_sha256) (\<lambda>fingerprint. Inr (key, fingerprint))))))"

definition protect_optional ::
  "ingest_env \<Rightarrow> uuid \<Rightarrow> ustr option \<Rightarrow> db \<Rightarrow> (ProtectedPassword option \<times> db) res" where
  "protect_optional E finding_id password d =
     (case password of
        None \<Rightarrow> Inr (None, d)
      | Some p \<Rightarrow>
          bind_res (protect_password (ie_gcm E) (ie_unidata E) (ie_settings E) finding_id p d)
            (\<lambda>(pp, d). Inr (Some pp, d)))"

definition build_finding_draft ::
  "ingest_env \<Rightarrow> Subject \<Rightarrow> BreachSource \<Rightarrow> SourceIdentity \<Rightarrow> LeakRecord \<Rightarrow> datetime \<Rightarrow> db
   \<Rightarrow> (FindingDraft \<times> db) res" where
  "build_finding_draft E subject source source_identity record' seen_at d =
     (let (finding_id, d) = uuid4 d in
     bind_res (protect_optional E finding_id (lr_password record') d) (\<lambda>(protected, d).
     bind_res (draft_identity (ie_unidata E) subject source_identity record'
                 (map_option pp_sha256 protected)) (\<lambda>(key, fingerprint).
     Inr (\<lparr>fd_id = finding_id, fd_subject_id = sub_id subject, fd_source_id = src_id source,
           fd_email = lr_email record', fd_username = lr_username record',
           fd_phone = lr_phone record', fd_origin = lr_origin record', fd_identity_key = key,
           fd_password = protected, fd_fields = lr_fields record',
           fd_raw = sanitized_raw (ie_unidata E) (lr_raw record'), fd_fingerprint = fingerprint,
           fd_seen_at = seen_at\<rparr>, d))))"

section \<open>The repository\<close>

record IngestRepository =
  resolve_source :: "SourceIdentity \<Rightarrow> db \<Rightarrow> BreachSource \<times> db"
  upsert_finding :: "FindingDraft \<Rightarrow> db \<Rightarrow> ((Finding \<times> bool) \<times> db) res"
  find_remediated_predecessor :: "Finding \<Rightarrow> SourceIdentity \<Rightarrow> db \<Rightarrow> Finding option"
  link_releak :: "uuid \<Rightarrow> uuid \<Rightarrow> db \<Rightarrow> db"
  record_event ::
    "uuid \<Rightarrow> FindingEventType \<Rightarrow> uuid option \<Rightarrow> datetime \<Rightarrow> (ustr \<times> json) list \<Rightarrow> db \<Rightarrow> db"

definition sql_resolve_source :: "SourceIdentity \<Rightarrow> db \<Rightarrow> BreachSource \<times> db" where
  "sql_resolve_source source d =
     (let (i, d) = uuid4 d;
          new = \<lparr>src_id = i, src_name = si_name source, src_name_norm = si_name_norm source,
                 src_breach_date = si_breach_date source,
                 src_breach_date_norm = si_breach_date_norm source,
                 src_unverified = si_unverified source, src_passwordless = si_passwordless source,
                 src_compilation = si_compilation source, src_extra = si_extra source\<rparr>;
          (t, row, _) = upsert
            (\<lambda>r. (src_name_norm r, src_breach_date_norm r)
                   = (si_name_norm source, si_breach_date_norm source))
            (\<lambda>r. r\<lparr>src_unverified := si_unverified source,
                   src_passwordless := si_passwordless source,
                   src_compilation := si_compilation source, src_extra := si_extra source\<rparr>)
            new (breach_sources d)
      in (row, d\<lparr>breach_sources := t\<rparr>))"

definition finding_of_draft :: "FindingDraft \<Rightarrow> Finding" where
  "finding_of_draft dr =
     \<lparr>fnd_id = fd_id dr, fnd_subject_id = fd_subject_id dr, fnd_source_id = fd_source_id dr,
      fnd_email = fd_email dr, fnd_username = fd_username dr, fnd_phone = fd_phone dr,
      fnd_origin = fd_origin dr, fnd_identity_key = fd_identity_key dr,
      fnd_password_ciphertext = map_option pp_ciphertext (fd_password dr),
      fnd_password_nonce = map_option pp_nonce (fd_password dr),
      fnd_password_sha256 = map_option pp_sha256 (fd_password dr),
      fnd_password_mask = map_option pp_mask (fd_password dr),
      fnd_password_len = map_option pp_length (fd_password dr),
      fnd_password_charset = map_option pp_charset (fd_password dr),
      fnd_fields = fd_fields dr, fnd_raw = fd_raw dr, fnd_fingerprint = fd_fingerprint dr,
      fnd_severity = FindingSeverity.MEDIUM, fnd_first_seen_at = fd_seen_at dr,
      fnd_last_seen_at = fd_seen_at dr, fnd_remediated_at = None, fnd_remediated_by = None,
      fnd_remediation_note = None, fnd_superseded_by_id = None, fnd_notified_at = None\<rparr>"

text \<open>A fresh row whose key is taken violates the primary key of the table.\<close>

definition sql_upsert_finding :: "FindingDraft \<Rightarrow> db \<Rightarrow> ((Finding \<times> bool) \<times> db) res" where
  "sql_upsert_finding dr d =
     (let (t, row, is_new) = upsert
            (\<lambda>f. fnd_fingerprint f = fd_fingerprint dr)
            (\<lambda>f. f\<lparr>fnd_last_seen_at := fd_seen_at dr, fnd_raw := fd_raw dr,
                   fnd_fields := fd_fields dr, fnd_origin := fd_origin dr\<rparr>)
            (finding_of_draft dr) (findings d)
      in if is_new \<and> fd_id dr \<in> fnd_id ` set (findings d) then Inl IntegrityError
         else Inr ((row, is_new), d\<lparr>findings := t\<rparr>))"

text \<open>ORDER BY remediated_at DESC LIMIT 1 over the rows the WHERE clause admits.\<close>

definition is_predecessor :: "Finding \<Rightarrow> SourceIdentity \<Rightarrow> db \<Rightarrow> Finding \<Rightarrow> bool" where
  "is_predecessor finding source d f \<longleftrightarrow>
     fnd_subject_id f = fnd_subject_id finding \<and> fnd_id f \<noteq> fnd_id finding \<and>
     fnd_identity_key f = fnd_identity_key finding \<and> fnd_remediated_at f \<noteq> None \<and>
     fnd_superseded_by_id f = None \<and> fnd_password_sha256 f \<noteq> fnd_password_sha256 finding \<and>
     (\<exists>s \<in> set (breach_sources d). src_id s = fnd_source_id f \<and> src_name_norm s = si_name_norm source)"

definition sql_find_remediated_predecessor ::
  "unidata \<Rightarrow> Finding \<Rightarrow> SourceIdentity \<Rightarrow> db \<Rightarrow> Finding option" where
  "sql_find_remediated_predecessor U finding source d =
     (if si_name_norm source = casefold U UNKNOWN_SOURCE \<or> fnd_identity_key finding = None then None
      else (case sort_key (\<lambda>f. - the (fnd_remediated_at f))
              (filter (is_predecessor finding source d) (findings d)) of
              [] \<Rightarrow> None
            | f # _ \<Rightarrow> Some f))"

definition sql_link_releak :: "uuid \<Rightarrow> uuid \<Rightarrow> db \<Rightarrow> db" where
  "sql_link_releak previous current d =
     set_finding current (\<lambda>f. f\<lparr>fnd_severity := FindingSeverity.HIGH\<rparr>)
       (set_finding previous (\<lambda>f. f\<lparr>fnd_superseded_by_id := Some current\<rparr>) d)"

definition sql_record_event ::
  "uuid \<Rightarrow> FindingEventType \<Rightarrow> uuid option \<Rightarrow> datetime \<Rightarrow> (ustr \<times> json) list \<Rightarrow> db \<Rightarrow> db" where
  "sql_record_event fid event actor_id time meta d =
     (let (i, d) = uuid4 d in
      d\<lparr>finding_events := finding_events d @
          [\<lparr>ev_id = i, ev_finding_id = fid, ev_event = event, ev_actor_id = actor_id,
            ev_at = time, ev_meta = meta\<rparr>]\<rparr>)"

definition sql_repository :: "unidata \<Rightarrow> IngestRepository" where
  "sql_repository U =
     \<lparr>resolve_source = sql_resolve_source,
      upsert_finding = sql_upsert_finding,
      find_remediated_predecessor = sql_find_remediated_predecessor U,
      link_releak = sql_link_releak,
      record_event = sql_record_event\<rparr>"

section \<open>Ingest\<close>

text \<open>What happens to a finding that was not known before.\<close>

definition ingest_new ::
  "IngestRepository \<Rightarrow> uuid option \<Rightarrow> datetime \<Rightarrow> SourceIdentity \<Rightarrow> Finding \<Rightarrow> IngestSummary \<Rightarrow> db
   \<Rightarrow> IngestSummary res \<times> db" where
  "ingest_new R actor_id seen_at source_identity finding acc d =
     (let acc = acc\<lparr>is_new_count := is_new_count acc + 1,
                    is_new_finding_ids := is_new_finding_ids acc @ [fnd_id finding]\<rparr>;
          d = record_event R (fnd_id finding) FindingEventType.DISCOVERED actor_id seen_at [] d
      in case find_remediated_predecessor R finding source_identity d of
           None \<Rightarrow> (Inr acc, d)
         | Some predecessor \<Rightarrow>
             (let d = link_releak R (fnd_id predecessor) (fnd_id finding) d;
                  d = record_event R (fnd_id finding) FindingEventType.RE_LEAKED actor_id seen_at
                        [(uni ''previous_finding_id'', JStr (uuid_str (fnd_id predecessor)))] d
              in (Inr (acc\<lparr>is_re_leaked_count := is_re_leaked_count acc + 1\<rparr>), d)))"

text \<open>
  One record. A draft that cannot be built raises out of the loop; the changes made before that
  stay in the session, so the state is returned with the error as well.
\<close>

definition ingest_record ::
  "IngestRepository \<Rightarrow> ingest_env \<Rightarrow> Subject \<Rightarrow> uuid option \<Rightarrow> datetime \<Rightarrow> LeakRecord
   \<Rightarrow> IngestSummary \<Rightarrow> db \<Rightarrow> IngestSummary res \<times> db" where
  "ingest_record R E subject actor_id seen_at record' acc d =
     (let source_identity = normalize_source E (lr_source record');
          (source, d) = resolve_source R source_identity d
      in case build_finding_draft E subject source source_identity record' seen_at d of
           Inl e \<Rightarrow> (Inl e, d)
         | Inr (draft, d) \<Rightarrow>
             (case upsert_finding R draft d of
                Inl e \<Rightarrow> (Inl e, d)
              | Inr ((finding, is_new), d) \<Rightarrow>
                  (let acc = acc\<lparr>is_findings := is_findings acc @ [fnd_id finding]\<rparr>
                   in if is_new then ingest_new R actor_id seen_at source_identity finding acc d
                      else (Inr acc, d))))"

fun ingest_loop ::
  "IngestRepository \<Rightarrow> ingest_env \<Rightarrow> Subject \<Rightarrow> uuid option \<Rightarrow> datetime \<Rightarrow> LeakRecord list
   \<Rightarrow> IngestSummary \<Rightarrow> db \<Rightarrow> IngestSummary res \<times> db" where
  "ingest_loop R E subject actor_id seen_at [] acc d = (Inr acc, d)"
| "ingest_loop R E subject actor_id seen_at (r # rs) acc d =
     (case ingest_record R E subject actor_id seen_at r acc d of
        (Inl e, d) \<Rightarrow> (Inl e, d)
      | (Inr acc, d) \<Rightarrow> ingest_loop R E subject actor_id seen_at rs acc d)"

definition empty_summary :: IngestSummary where
  "empty_summary =
     \<lparr>is_findings = [], is_new_count = 0, is_re_leaked_count = 0, is_new_finding_ids = []\<rparr>"

definition ingest_records ::
  "IngestRepository \<Rightarrow> ingest_env \<Rightarrow> Subject \<Rightarrow> LeakRecord list \<Rightarrow> uuid option
   \<Rightarrow> py_datetime option \<Rightarrow> db \<Rightarrow> IngestSummary res \<times> db" where
  "ingest_records R E subject records actor_id now d =
     (case utc_now (clock d) now of
        Inl e \<Rightarrow> (Inl e, d)
      | Inr seen_at \<Rightarrow> ingest_loop R E subject actor_id seen_at records empty_summary d)"

section \<open>Drafts: facts\<close>

lemma digest_parts_Inr: "digest_parts ps = Inr h \<longleftrightarrow> frameable ps \<and> h = sha256 (frame ps)"
  by (auto simp: digest_parts_def)

text \<open>The fingerprint of a record, which does not depend on the state.\<close>

definition record_fingerprint :: "ingest_env \<Rightarrow> Subject \<Rightarrow> LeakRecord \<Rightarrow> bytes res" where
  "record_fingerprint E subject r =
     bind_res (case lr_password r of
                 None \<Rightarrow> Inr None
               | Some p \<Rightarrow> bind_res (encode_utf8 p) (\<lambda>bs.
                   bind_res (data_key (ie_settings E)) (\<lambda>_. Inr (Some (sha256 bs))))) (\<lambda>h.
     bind_res (draft_identity (ie_unidata E) subject (normalize_source E (lr_source r)) r h)
       (\<lambda>(key, fingerprint). Inr fingerprint))"

lemma build_draft_Inr:
  assumes "build_finding_draft E subject src (normalize_source E (lr_source r)) r t d = Inr (dr, d')"
  shows "record_fingerprint E subject r = Inr (fd_fingerprint dr)"
    and "\<exists>n. d' = d\<lparr>drawn := n\<rparr>"
  using assms
  by (auto simp: build_finding_draft_def record_fingerprint_def uuid4_eq bind_res_Inr_iff
      protect_optional_def protect_password_def token_bytes_eq split: option.splits)

lemma build_draft_works:
  assumes "record_fingerprint E subject r = Inr fp"
  shows "\<exists>dr d'. build_finding_draft E subject src (normalize_source E (lr_source r)) r t d = Inr (dr, d')"
  using assms
  by (auto simp: build_finding_draft_def record_fingerprint_def uuid4_eq bind_res_Inr_iff
      protect_optional_def protect_password_def token_bytes_eq split: option.splits)

text \<open>The constraints of the findings table that a draft meets.\<close>

definition draft_ok :: "FindingDraft \<Rightarrow> bool" where
  "draft_ok dr \<longleftrightarrow> finding_ok (finding_of_draft dr)"

lemma finding_fingerprint_length: "finding_fingerprint s i e u p h = Inr fp \<Longrightarrow> length fp = 32"
  by (auto simp: finding_fingerprint_def bind_res_Inr_iff digest_parts_Inr)

lemma identity_key_length: "identity_key e u p = Inr (Some k) \<Longrightarrow> length k = 32"
  by (auto simp: identity_key_def bind_res_Inr_iff digest_parts_Inr simp del: map_res.simps
      split: if_splits)

lemma build_draft_ok:
  assumes "build_finding_draft E subject src si r t d = Inr (dr, d')"
  shows "draft_ok dr"
proof -
  obtain key fp pp d1 where "fd_fingerprint dr = fp" "fd_identity_key dr = key" "fd_password dr = pp"
    and id: "draft_identity (ie_unidata E) subject si r (map_option pp_sha256 pp) = Inr (key, fp)"
    and pp: "protect_optional E (next_uuid d) (lr_password r) (d\<lparr>drawn := drawn d + 16\<rparr>) = Inr (pp, d1)"
    using assms by (auto simp: build_finding_draft_def uuid4_eq bind_res_Inr_iff)
  moreover have "length fp = 32" "\<And>k. key = Some k \<Longrightarrow> length k = 32"
    using id finding_fingerprint_length identity_key_length
    by (auto simp: draft_identity_def bind_res_Inr_iff)
  moreover have "length (pp_sha256 q) = 32 \<and> length (pp_nonce q) = 12" if "pp = Some q" for q
    using pp that
    by (auto simp: protect_optional_def bind_res_Inr_iff elim!: protect_password_Inr
        split: option.splits)
  ultimately show ?thesis
    by (auto simp: draft_ok_def finding_ok_def finding_of_draft_def split: option.splits)
qed

section \<open>What ingest relies on\<close>

text \<open>
  The contract of an ingest repository. \<open>known\<close> is the set of fingerprints it holds: an upsert of a
  known fingerprint succeeds and is not new, any other one that succeeds is new and makes its
  fingerprint known, and no other operation changes the set. Events are only ever appended.
\<close>

locale ingest_repository =
  fixes R :: IngestRepository
    and known :: "db \<Rightarrow> bytes set"
  assumes known_drawn: "known (d\<lparr>drawn := n\<rparr>) = known d"
    and resolve_source: "resolve_source R si d = (src, d') \<Longrightarrow>
      known d' = known d \<and> finding_events d' = finding_events d"
    and upsert_known: "fd_fingerprint dr \<in> known d \<Longrightarrow>
      \<exists>f d'. upsert_finding R dr d = Inr ((f, False), d')"
    and upsert: "upsert_finding R dr d = Inr ((f, new), d') \<Longrightarrow>
      (new \<longleftrightarrow> fd_fingerprint dr \<notin> known d) \<and> known d' = insert (fd_fingerprint dr) (known d) \<and>
      finding_events d' = finding_events d"
    and link_releak: "known (link_releak R p c d) = known d \<and>
      finding_events (link_releak R p c d) = finding_events d"
    and record_event: "known (record_event R fid ev a t m d) = known d \<and>
      (\<exists>i. finding_events (record_event R fid ev a t m d) = finding_events d @
         [\<lparr>ev_id = i, ev_finding_id = fid, ev_event = ev, ev_actor_id = a, ev_at = t, ev_meta = m\<rparr>])"
begin

lemma ingest_new_known:
  "ingest_new R a t si f acc d = (r, d') \<Longrightarrow> known d' = known d \<and> (\<exists>acc'. r = Inr acc')"
  using record_event link_releak
  by (auto simp: ingest_new_def Let_def split: option.splits)

lemma ingest_record_known:
  assumes "ingest_record R E s a t r acc d = (Inr acc', d')"
  shows "\<exists>fp. record_fingerprint E s r = Inr fp \<and> known d' = insert fp (known d)"
proof -
  obtain src d1 where 1: "resolve_source R (normalize_source E (lr_source r)) d = (src, d1)" by fastforce
  with assms obtain dr d2 where
    2: "build_finding_draft E s src (normalize_source E (lr_source r)) r t d1 = Inr (dr, d2)"
    by (auto simp: ingest_record_def Let_def split: sum.splits)
  with assms 1 obtain f new d3 where 3: "upsert_finding R dr d2 = Inr ((f, new), d3)"
    by (auto simp: ingest_record_def Let_def split: sum.splits)
  have "known d2 = known d"
    using resolve_source [OF 1] build_draft_Inr(2) [OF 2] known_drawn by auto
  moreover have "known d' = known d3"
    using assms 1 2 3
    by (cases new) (auto simp: ingest_record_def Let_def dest: ingest_new_known)
  ultimately show ?thesis
    using build_draft_Inr(1) [OF 2] upsert [OF 3] by auto
qed

text \<open>A record whose fingerprint is known adds nothing.\<close>

lemma ingest_record_again:
  assumes "record_fingerprint E s r = Inr fp" and "fp \<in> known d"
  obtains d' i where
    "ingest_record R E s a t r acc d = (Inr (acc\<lparr>is_findings := is_findings acc @ [i]\<rparr>), d')"
    "known d' = known d" "finding_events d' = finding_events d"
proof -
  obtain src d1 where 1: "resolve_source R (normalize_source E (lr_source r)) d = (src, d1)" by fastforce
  obtain dr d2 where
    2: "build_finding_draft E s src (normalize_source E (lr_source r)) r t d1 = Inr (dr, d2)"
    using build_draft_works [OF assms(1)] by blast
  have fp: "fd_fingerprint dr = fp" and d2: "known d2 = known d" "finding_events d2 = finding_events d"
    using build_draft_Inr [OF 2] assms(1) resolve_source [OF 1] known_drawn by auto
  then obtain f d3 where 3: "upsert_finding R dr d2 = Inr ((f, False), d3)"
    using upsert_known assms(2) by blast
  show ?thesis
  proof (rule that)
    show "ingest_record R E s a t r acc d = (Inr (acc\<lparr>is_findings := is_findings acc @ [fnd_id f]\<rparr>), d3)"
      using 1 2 3 by (simp add: ingest_record_def)
  qed (use upsert [OF 3] d2 fp assms(2) in auto)
qed

lemma ingest_loop_known:
  assumes "ingest_loop R E s a t rs acc d = (Inr acc', d')"
  shows "known d \<subseteq> known d' \<and> (\<forall>r \<in> set rs. \<exists>fp \<in> known d'. record_fingerprint E s r = Inr fp)"
  using assms
proof (induction rs arbitrary: acc d)
  case (Cons r rs)
  obtain acc1 d1 where 1: "ingest_record R E s a t r acc d = (Inr acc1, d1)"
    and 2: "ingest_loop R E s a t rs acc1 d1 = (Inr acc', d')"
    using Cons.prems by (auto split: prod.splits sum.splits)
  obtain fp where "record_fingerprint E s r = Inr fp" "known d1 = insert fp (known d)"
    using ingest_record_known [OF 1] by blast
  then show ?case using Cons.IH [OF 2] by auto
qed simp

lemma ingest_loop_again:
  assumes "\<forall>r \<in> set rs. \<exists>fp \<in> known d. record_fingerprint E s r = Inr fp"
  shows "\<exists>d' is. ingest_loop R E s a t rs acc d = (Inr (acc\<lparr>is_findings := is_findings acc @ is\<rparr>), d')
    \<and> length is = length rs \<and> known d' = known d \<and> finding_events d' = finding_events d"
  using assms
proof (induction rs arbitrary: acc d)
  case (Cons r rs)
  then obtain fp where "record_fingerprint E s r = Inr fp" "fp \<in> known d" by auto
  then obtain d1 i where
    1: "ingest_record R E s a t r acc d = (Inr (acc\<lparr>is_findings := is_findings acc @ [i]\<rparr>), d1)"
    and k: "known d1 = known d" "finding_events d1 = finding_events d"
    by (rule ingest_record_again)
  obtain d' "is" where
    "ingest_loop R E s a t rs (acc\<lparr>is_findings := is_findings acc @ [i]\<rparr>) d1
       = (Inr (acc\<lparr>is_findings := (is_findings acc @ [i]) @ is\<rparr>), d')"
    "length is = length rs" "known d' = known d1" "finding_events d' = finding_events d1"
    using Cons.IH [of d1 "acc\<lparr>is_findings := is_findings acc @ [i]\<rparr>"] Cons.prems k by auto
  with 1 k show ?case by (intro exI [of _ d'] exI [of _ "i # is"]) simp
qed (auto intro!: exI [of _ "[]"])

text \<open>Ingesting the records of a successful ingest again adds no finding and no event.\<close>

lemma ingest_twice:
  assumes "ingest_records R E s rs a now d = (Inr sm, d1)" and "utc_now (clock d1) now' = Inr t'"
  shows "\<exists>is d2. ingest_records R E s rs a' now' d1 = (Inr (empty_summary\<lparr>is_findings := is\<rparr>), d2)
    \<and> length is = length rs \<and> known d2 = known d1 \<and> finding_events d2 = finding_events d1"
proof -
  obtain t where "ingest_loop R E s a t rs empty_summary d = (Inr sm, d1)"
    using assms(1) by (auto simp: ingest_records_def split: sum.splits)
  from ingest_loop_known [OF this]
  have "\<forall>r \<in> set rs. \<exists>fp \<in> known d1. record_fingerprint E s r = Inr fp" by blast
  from ingest_loop_again [OF this, of a' t' empty_summary] assms(2) show ?thesis
    by (auto simp: ingest_records_def empty_summary_def)
qed

end

section \<open>The SQL repository\<close>

definition known_fingerprints :: "db \<Rightarrow> bytes set" where
  "known_fingerprints d = fnd_fingerprint ` set (findings d)"

lemma sql_repository_simps [simp]:
  "resolve_source (sql_repository U) = sql_resolve_source"
  "upsert_finding (sql_repository U) = sql_upsert_finding"
  "find_remediated_predecessor (sql_repository U) = sql_find_remediated_predecessor U"
  "link_releak (sql_repository U) = sql_link_releak"
  "record_event (sql_repository U) = sql_record_event"
  by (simp_all add: sql_repository_def)

lemma sql_resolve_source_frame:
  "sql_resolve_source si d = (src, d') \<Longrightarrow>
   findings d' = findings d \<and> finding_events d' = finding_events d \<and> clock d' = clock d"
  by (auto simp: sql_resolve_source_def uuid4_eq Let_def split: prod.splits)

lemma sql_upsert_known:
  assumes "fd_fingerprint dr \<in> known_fingerprints d"
  obtains f where "f \<in> set (findings d)" "fnd_fingerprint f = fd_fingerprint dr"
    "sql_upsert_finding dr d = Inr ((f\<lparr>fnd_last_seen_at := fd_seen_at dr, fnd_raw := fd_raw dr,
        fnd_fields := fd_fields dr, fnd_origin := fd_origin dr\<rparr>, False),
      d\<lparr>findings := update_where (\<lambda>f. fnd_fingerprint f = fd_fingerprint dr)
        (\<lambda>f. f\<lparr>fnd_last_seen_at := fd_seen_at dr, fnd_raw := fd_raw dr,
               fnd_fields := fd_fields dr, fnd_origin := fd_origin dr\<rparr>) (findings d)\<rparr>)"
proof -
  obtain f where f: "find (\<lambda>f. fnd_fingerprint f = fd_fingerprint dr) (findings d) = Some f"
    using assms by (cases "find (\<lambda>f. fnd_fingerprint f = fd_fingerprint dr) (findings d)")
      (auto simp: known_fingerprints_def find_None)
  with find_Some_mem [OF f] show ?thesis
    by (intro that [of f]) (auto simp: sql_upsert_finding_def upsert_def)
qed

lemma sql_upsert_new:
  assumes "fd_fingerprint dr \<notin> known_fingerprints d"
  shows "sql_upsert_finding dr d =
    (if fd_id dr \<in> fnd_id ` set (findings d) then Inl IntegrityError
     else Inr ((finding_of_draft dr, True), d\<lparr>findings := findings d @ [finding_of_draft dr]\<rparr>))"
proof -
  have "find (\<lambda>f. fnd_fingerprint f = fd_fingerprint dr) (findings d) = None"
    using assms unfolding known_fingerprints_def find_None by (metis imageI)
  then show ?thesis by (simp add: sql_upsert_finding_def upsert_def)
qed

lemma sql_link_releak_frame [frame_simps, simp]:
  "finding_events (sql_link_releak p c d) = finding_events d"
  "clock (sql_link_releak p c d) = clock d"
  by (simp_all add: sql_link_releak_def set_finding_def)

lemma fingerprints_update_where [simp]:
  "(\<And>f. fnd_fingerprint (g f) = fnd_fingerprint f) \<Longrightarrow>
   fnd_fingerprint ` set (update_where p g t) = fnd_fingerprint ` set t"
  by (rule image_update_where) simp

lemma sql_link_releak_findings:
  "findings (sql_link_releak p c d) =
     update_where (\<lambda>f. fnd_id f = c) (\<lambda>f. f\<lparr>fnd_severity := FindingSeverity.HIGH\<rparr>)
       (update_where (\<lambda>f. fnd_id f = p) (\<lambda>f. f\<lparr>fnd_superseded_by_id := Some c\<rparr>) (findings d))"
  by (simp add: sql_link_releak_def)

lemma sql_record_event_frame [frame_simps, simp]:
  "findings (sql_record_event fid ev a t m d) = findings d"
  "breach_sources (sql_record_event fid ev a t m d) = breach_sources d"
  "finding_events (sql_record_event fid ev a t m d) = finding_events d @
     [\<lparr>ev_id = next_uuid d, ev_finding_id = fid, ev_event = ev, ev_actor_id = a, ev_at = t, ev_meta = m\<rparr>]"
  by (simp_all add: sql_record_event_def uuid4_eq)

interpretation sql: ingest_repository "sql_repository U" known_fingerprints for U
proof unfold_locales
  fix dr d f new d'
  show "\<exists>f d'. upsert_finding (sql_repository U) dr d = Inr ((f, False), d')"
    if "fd_fingerprint dr \<in> known_fingerprints d"
    using that by (auto simp: sql_repository_def elim: sql_upsert_known)
  assume up: "upsert_finding (sql_repository U) dr d = Inr ((f, new), d')"
  show "(new \<longleftrightarrow> fd_fingerprint dr \<notin> known_fingerprints d) \<and>
      known_fingerprints d' = insert (fd_fingerprint dr) (known_fingerprints d) \<and>
      finding_events d' = finding_events d"
  proof (cases "fd_fingerprint dr \<in> known_fingerprints d")
    case True
    have "\<not> new \<and> known_fingerprints d' = known_fingerprints d \<and> finding_events d' = finding_events d"
      by (rule sql_upsert_known [OF True]) (use up in \<open>clarsimp simp: sql_repository_def known_fingerprints_def\<close>)
    with True show ?thesis by (simp add: insert_absorb)
  next
    case False
    with up show ?thesis
      by (auto simp: sql_repository_def sql_upsert_new known_fingerprints_def finding_of_draft_def
          split: if_splits)
  qed
qed (auto simp: sql_repository_def known_fingerprints_def sql_link_releak_findings
      dest: sql_resolve_source_frame)

section \<open>Ingest keeps the findings consistent\<close>

lemma findings_ok_frame:
  "findings d' = findings d \<Longrightarrow> finding_events d' = finding_events d \<Longrightarrow> findings_ok d' = findings_ok d"
  by (simp add: findings_ok_def findings_inv_def events_fk_def trail_ok_def)

text \<open>
  An update of some rows that leaves keys, fingerprints, constraints and remediation alone and links
  at most to existing findings.
\<close>

lemma findings_ok_update:
  assumes ok: "findings_ok d" and d': "findings d' = update_where p g (findings d)"
    and ev: "finding_events d' = finding_events d"
    and keep: "\<And>f. fnd_id (g f) = fnd_id f \<and> fnd_fingerprint (g f) = fnd_fingerprint f \<and>
        finding_ok (g f) = finding_ok f \<and> fnd_remediated_at (g f) = fnd_remediated_at f \<and>
        fnd_remediated_by (g f) = fnd_remediated_by f"
    and link: "\<And>f i. f \<in> set (findings d) \<Longrightarrow> fnd_superseded_by_id (g f) = Some i \<Longrightarrow>
        fnd_superseded_by_id f = Some i \<or> i \<in> fnd_id ` set (findings d)"
  shows "findings_ok d'"
proof -
  let ?t = "update_where p g (findings d)"
  have ids: "fnd_id ` set ?t = fnd_id ` set (findings d)"
    using keep by (simp add: image_update_where)
  have inv: "findings_inv d" and tr: "trail_ok d" using ok by (simp_all add: findings_ok_def)
  have "superseded_fk ?t"
    unfolding superseded_fk_iff ids
  proof (intro allI impI)
    fix i
    assume "Some i \<in> fnd_superseded_by_id ` set ?t"
    then obtain f where f: "f \<in> set (findings d)" "fnd_superseded_by_id (if p f then g f else f) = Some i"
      by (auto simp: set_update_where)
    then have "fnd_superseded_by_id f = Some i \<or> i \<in> fnd_id ` set (findings d)"
      using link by (auto split: if_splits)
    then show "i \<in> fnd_id ` set (findings d)"
      using inv f(1) by (auto simp: findings_inv_def superseded_fk_def dest!: bspec)
  qed
  moreover have "unique_on fnd_id ?t" "unique_on fnd_fingerprint ?t" "list_all finding_ok ?t"
    using inv keep
    by (auto simp: findings_inv_def unique_on_update_where list_all_iff set_update_where)
  moreover have "trail_ok d'"
    using tr keep by (auto simp: trail_ok_def d' ev set_update_where)
  moreover have "events_fk d'"
    using inv by (simp add: findings_inv_def events_fk_def ids d' ev)
  ultimately show ?thesis by (simp add: findings_ok_def findings_inv_def d')
qed

lemma sql_upsert_keeps:
  assumes ok: "findings_ok d" and dr: "draft_ok dr" and up: "sql_upsert_finding dr d = Inr ((f, new), d')"
  shows "findings_ok d' \<and> fnd_id f \<in> fnd_id ` set (findings d')"
proof (cases "fd_fingerprint dr \<in> known_fingerprints d")
  case True
  obtain g where g: "g \<in> set (findings d)" "fnd_id f = fnd_id g" and d': "d' = d\<lparr>findings :=
      update_where (\<lambda>f. fnd_fingerprint f = fd_fingerprint dr)
        (\<lambda>f. f\<lparr>fnd_last_seen_at := fd_seen_at dr, fnd_raw := fd_raw dr,
               fnd_fields := fd_fields dr, fnd_origin := fd_origin dr\<rparr>) (findings d)\<rparr>"
    by (rule sql_upsert_known [OF True]) (use up in auto)
  have "findings_ok d'"
    by (rule findings_ok_update [OF ok, where p = "\<lambda>f. fnd_fingerprint f = fd_fingerprint dr"
        and g = "\<lambda>f. f\<lparr>fnd_last_seen_at := fd_seen_at dr, fnd_raw := fd_raw dr,
          fnd_fields := fd_fields dr, fnd_origin := fd_origin dr\<rparr>"])
      (simp_all add: d' finding_ok_def)
  moreover have "fnd_id ` set (findings d') = fnd_id ` set (findings d)"
    by (simp add: d' image_update_where)
  ultimately show ?thesis using g by auto
next
  case False
  then have f: "f = finding_of_draft dr" and d': "d' = d\<lparr>findings := findings d @ [f]\<rparr>"
    and fresh: "fnd_id f \<notin> fnd_id ` set (findings d)"
    using up by (auto simp: sql_upsert_new finding_of_draft_def split: if_splits)
  have inv: "findings_inv d" and tr: "trail_ok d" using ok by (simp_all add: findings_ok_def)
  have new: "fnd_superseded_by_id f = None" "fnd_remediated_at f = None" "fnd_remediated_by f = None"
    "fnd_fingerprint f \<notin> fnd_fingerprint ` set (findings d)" "finding_ok f"
    using False dr by (auto simp: f finding_of_draft_def known_fingerprints_def draft_ok_def)
  have "replay (fnd_id f) (finding_events d) = (None, None)"
    using inv fresh unfolding findings_inv_def events_fk_def by (intro replay_none) metis
  then have "trail_ok d'" using tr new by (auto simp: trail_ok_def d')
  moreover have "findings_inv d'"
    using inv new fresh
    by (auto simp: findings_inv_def unique_on_append1 superseded_fk_iff events_fk_def d')
  ultimately show ?thesis by (simp add: findings_ok_def d')
qed

lemma sql_record_event_keeps:
  assumes "findings_ok d" and "fid \<in> fnd_id ` set (findings d)"
    and "ev \<noteq> FindingEventType.REMEDIATED" and "ev \<noteq> FindingEventType.UNREMEDIATED"
  shows "findings_ok (sql_record_event fid ev a t m d)"
proof -
  have neutral: "replay_step s e = s" if "ev_event e = ev" for s e
    using assms(3,4) that by (cases ev) simp_all
  show ?thesis
    using assms(1,2)
    by (auto simp: findings_ok_def findings_inv_def events_fk_def trail_ok_def neutral
        simp del: replay_step.simps)
qed

lemma sql_link_releak_keeps:
  assumes ok: "findings_ok d" and c: "c \<in> fnd_id ` set (findings d)"
  shows "findings_ok (sql_link_releak p c d)"
proof -
  let ?d = "set_finding p (\<lambda>f. f\<lparr>fnd_superseded_by_id := Some c\<rparr>) d"
  have "findings_ok ?d"
    by (rule findings_ok_update [OF ok, where p = "\<lambda>f. fnd_id f = p"
        and g = "\<lambda>f. f\<lparr>fnd_superseded_by_id := Some c\<rparr>"])
      (use c in \<open>simp_all add: finding_ok_def\<close>)
  then show ?thesis
    unfolding sql_link_releak_def
    by (rule findings_ok_update [where p = "\<lambda>f. fnd_id f = c"
        and g = "\<lambda>f. f\<lparr>fnd_severity := FindingSeverity.HIGH\<rparr>"]) (simp_all add: finding_ok_def)
qed

lemma ids_link_releak [simp]:
  "fnd_id ` set (findings (sql_link_releak p c d)) = fnd_id ` set (findings d)"
  by (simp add: sql_link_releak_findings image_update_where)

lemma ingest_new_keeps:
  assumes "findings_ok d" and "fnd_id f \<in> fnd_id ` set (findings d)"
    and "ingest_new (sql_repository U) a t si f acc d = (r, d')"
  shows "findings_ok d'"
  using assms
  by (auto simp: ingest_new_def Let_def split: option.splits
      intro!: sql_record_event_keeps sql_link_releak_keeps)

lemma ingest_record_keeps:
  assumes ok: "findings_ok d" and run: "ingest_record (sql_repository U) E s a t r acc d = (x, d')"
  shows "findings_ok d'"
proof -
  obtain src d1 where 1: "sql_resolve_source (normalize_source E (lr_source r)) d = (src, d1)" by fastforce
  have ok1: "findings_ok d1" using ok sql_resolve_source_frame [OF 1] findings_ok_frame by metis
  show ?thesis
  proof (cases "build_finding_draft E s src (normalize_source E (lr_source r)) r t d1")
    case (Inl e)
    with run 1 ok1 show ?thesis by (simp add: ingest_record_def)
  next
    case (Inr y)
    then obtain dr d2 where 2: "build_finding_draft E s src (normalize_source E (lr_source r)) r t d1 = Inr (dr, d2)"
      by (cases y) auto
    have dr: "draft_ok dr" using 2 by (rule build_draft_ok)
    obtain n where "d2 = d1\<lparr>drawn := n\<rparr>" using build_draft_Inr(2) [OF 2] by blast
    then have ok2: "findings_ok d2" using ok1 findings_ok_frame [of d2 d1] by simp
    show ?thesis
    proof (cases "sql_upsert_finding dr d2")
      case (Inl e)
      with run 1 2 ok2 show ?thesis by (simp add: ingest_record_def)
    next
      case (Inr z)
      then obtain f new d3 where 3: "sql_upsert_finding dr d2 = Inr ((f, new), d3)" by (cases z) auto
      note up = sql_upsert_keeps [OF ok2 dr 3]
      show ?thesis
      proof (cases new)
        case True
        have "ingest_new (sql_repository U) a t (normalize_source E (lr_source r)) f
            (acc\<lparr>is_findings := is_findings acc @ [fnd_id f]\<rparr>) d3 = (x, d')"
          using run True by (simp add: ingest_record_def 1 2 3)
        with up show ?thesis by (blast intro: ingest_new_keeps)
      next
        case False
        with run up show ?thesis by (simp add: ingest_record_def 1 2 3)
      qed
    qed
  qed
qed

lemma ingest_records_keeps:
  assumes "findings_ok d" and "ingest_records (sql_repository U) E s rs a now d = (x, d')"
  shows "findings_ok d'"
proof -
  have loop: "findings_ok d'" if "findings_ok d" "ingest_loop (sql_repository U) E s a t rs acc d = (x, d')"
    for t acc d
    using that
  proof (induction rs arbitrary: acc d)
    case (Cons r rs)
    then show ?case by (auto split: prod.splits sum.splits dest: ingest_record_keeps)
  qed simp
  show ?thesis
    using assms loop by (auto simp: ingest_records_def split: sum.splits)
qed

interpretation ingest: finding_op
  "\<lambda>(U, E, s, rs, a, now) d. case ingest_records (sql_repository U) E s rs a now d of
     (Inl e, d') \<Rightarrow> Inl e | (Inr sm, d') \<Rightarrow> Inr (sm, d')" "\<lambda>_ _. True"
  by unfold_locales (auto dest: ingest_records_keeps split: prod.splits sum.splits)

section \<open>Properties\<close>

lemma length_known_fingerprints:
  "unique_on fnd_fingerprint (findings d) \<Longrightarrow> length (findings d) = card (known_fingerprints d)"
  by (metis known_fingerprints_def length_map list.set_map distinct_card unique_on_def)

text \<open>
  C2. Ingest is idempotent. Once a list of records has been ingested, ingesting the same list for
  the same subject again, at any later time and by anyone, succeeds, lists one finding per record,
  counts nothing as new or re-leaked, and adds neither a finding nor an event.
\<close>

theorem ingest_idempotent:
  assumes "findings_ok d" and "ingest_records (sql_repository U) E s rs a now d = (Inr sm, d1)"
    and "utc_now (clock d1) now' = Inr t'"
  shows "\<exists>sm2 d2. ingest_records (sql_repository U) E s rs a' now' d1 = (Inr sm2, d2)
    \<and> length (is_findings sm2) = length rs \<and> is_new_count sm2 = 0 \<and> is_re_leaked_count sm2 = 0
    \<and> is_new_finding_ids sm2 = [] \<and> length (findings d2) = length (findings d1)
    \<and> finding_events d2 = finding_events d1"
proof -
  obtain "is" d2 where run: "ingest_records (sql_repository U) E s rs a' now' d1 =
      (Inr (empty_summary\<lparr>is_findings := is\<rparr>), d2)"
    and res: "length is = length rs" "known_fingerprints d2 = known_fingerprints d1"
      "finding_events d2 = finding_events d1"
    using sql.ingest_twice [OF assms(2,3)] by blast
  have "findings_ok d1" using ingest_records_keeps [OF assms(1,2)] .
  moreover from this run have "findings_ok d2" by (rule ingest_records_keeps)
  ultimately have "length (findings d2) = length (findings d1)"
    using res(2) length_known_fingerprints by (metis findings_inv_def findings_ok_def)
  with run res show ?thesis by (auto simp: empty_summary_def)
qed

lemma fingerprint_parts_Inr:
  assumes "fingerprint_parts s i e u p h = Inr ps"
  obtains k v n t x y z where
    "encode_utf8 (uni (SubjectKind_value (sub_kind s))) = Inr k" "encode_utf8 (sub_value_norm s) = Inr v"
    "encode_utf8 (si_name_norm i) = Inr n" "encode_utf8 (isoformat (si_breach_date_norm i)) = Inr t"
    "encode_utf8 e = Inr x" "encode_utf8 u = Inr y" "encode_utf8 p = Inr z"
    "ps = [k, v, n, t, x, y, z, case h of None \<Rightarrow> ZERO_PASSWORD_HASH | Some w \<Rightarrow> w]"
  using assms by (auto simp: fingerprint_parts_def bind_res_Inr_iff)

text \<open>
  C3. Two exposures get the same fingerprint only if they agree on the subject (kind and value), the
  source name, the breach date, the three normalised identities and the password hash, or if their
  two framed messages are a SHA-256 collision.
\<close>

theorem fingerprint_separates:
  assumes "fingerprint_parts s i e u p h = Inr ps" and "fingerprint_parts s' i' e' u' p' h' = Inr ps'"
    and "frameable ps" and "frameable ps'"
    and "valid_date (si_breach_date_norm i)" and "valid_date (si_breach_date_norm i')"
    and "finding_fingerprint s i e u p h = finding_fingerprint s' i' e' u' p' h'"
  shows "(sub_kind s = sub_kind s' \<and> sub_value_norm s = sub_value_norm s'
      \<and> si_name_norm i = si_name_norm i' \<and> si_breach_date_norm i = si_breach_date_norm i'
      \<and> e = e' \<and> u = u' \<and> p = p'
      \<and> (case h of None \<Rightarrow> ZERO_PASSWORD_HASH | Some x \<Rightarrow> x)
          = (case h' of None \<Rightarrow> ZERO_PASSWORD_HASH | Some x \<Rightarrow> x))
    \<or> (frame ps \<noteq> frame ps' \<and> sha256 (frame ps) = sha256 (frame ps'))"
proof (cases "frame ps = frame ps'")
  case True
  obtain k v n t x y z where 1: "encode_utf8 (uni (SubjectKind_value (sub_kind s))) = Inr k"
    "encode_utf8 (sub_value_norm s) = Inr v" "encode_utf8 (si_name_norm i) = Inr n"
    "encode_utf8 (isoformat (si_breach_date_norm i)) = Inr t"
    "encode_utf8 e = Inr x" "encode_utf8 u = Inr y" "encode_utf8 p = Inr z"
    and ps: "ps = [k, v, n, t, x, y, z, case h of None \<Rightarrow> ZERO_PASSWORD_HASH | Some w \<Rightarrow> w]"
    using assms(1) by (rule fingerprint_parts_Inr)
  obtain k' v' n' t' x' y' z' where 2: "encode_utf8 (uni (SubjectKind_value (sub_kind s'))) = Inr k'"
    "encode_utf8 (sub_value_norm s') = Inr v'" "encode_utf8 (si_name_norm i') = Inr n'"
    "encode_utf8 (isoformat (si_breach_date_norm i')) = Inr t'"
    "encode_utf8 e' = Inr x'" "encode_utf8 u' = Inr y'" "encode_utf8 p' = Inr z'"
    and ps': "ps' = [k', v', n', t', x', y', z', case h' of None \<Rightarrow> ZERO_PASSWORD_HASH | Some w \<Rightarrow> w]"
    using assms(2) by (rule fingerprint_parts_Inr)
  have "ps = ps'"
    using assms(3,4) True by (intro frame_inject) (simp_all add: ps ps')
  then have eq: "k = k'" "v = v'" "n = n'" "t = t'" "x = x'" "y = y'" "z = z'"
    "(case h of None \<Rightarrow> ZERO_PASSWORD_HASH | Some x \<Rightarrow> x)
       = (case h' of None \<Rightarrow> ZERO_PASSWORD_HASH | Some x \<Rightarrow> x)"
    by (simp_all add: ps ps')
  have "uni (SubjectKind_value (sub_kind s)) = uni (SubjectKind_value (sub_kind s'))"
    "sub_value_norm s = sub_value_norm s'" "si_name_norm i = si_name_norm i'"
    "isoformat (si_breach_date_norm i) = isoformat (si_breach_date_norm i')"
    "e = e'" "u = u'" "p = p'"
    using 1 2 unfolding eq by - (rule encode_utf8_inject; assumption)+
  note this eq(8)
  with isoformat_inject [OF assms(5,6)] show ?thesis by simp
next
  case False
  with assms show ?thesis
    by (simp add: finding_fingerprint_def digest_parts_def)
qed

fun has_password_entry :: "unidata \<Rightarrow> (ustr \<times> json) list \<Rightarrow> bool"
  and has_password_key :: "unidata \<Rightarrow> json \<Rightarrow> bool" where
  "has_password_entry U [] \<longleftrightarrow> False"
| "has_password_entry U ((key, item) # rest) \<longleftrightarrow>
     casefold U key = uni ''password'' \<or> has_password_key U item \<or> has_password_entry U rest"
| "has_password_key U (JObj o') \<longleftrightarrow> has_password_entry U o'"
| "has_password_key U (JList items) \<longleftrightarrow> list_ex (has_password_key U) items"
| "has_password_key U v \<longleftrightarrow> False"

text \<open>
  The stored copy of a vendor record has no entry called \<open>password\<close>, in any capitalisation and
  at any depth of nested objects and lists, and every other top-level entry is kept, itself
  sanitised in the same way.
\<close>

theorem sanitized_raw_has_no_password:
  "\<not> has_password_entry U (sanitized_raw U raw)
   \<and> map_of (sanitized_raw U raw) k =
       (if casefold U k = uni ''password'' then None else map_option (sanitize_value U) (map_of raw k))"
proof
  show "\<not> has_password_entry U (sanitized_raw U raw)"
    by (induction U raw rule: sanitized_raw_sanitize_value.induct(1)
        [where Q = "\<lambda>U v. \<not> has_password_key U (sanitize_value U v)"])
      (auto simp: list_ex_iff)
  show "map_of (sanitized_raw U raw) k =
      (if casefold U k = uni ''password'' then None else map_option (sanitize_value U) (map_of raw k))"
    by (induction raw) auto
qed

lemma hd_sort_key_strict:
  fixes k :: "'a \<Rightarrow> int"
  assumes "x \<in> set xs" and "\<And>y. y \<in> set xs \<Longrightarrow> y \<noteq> x \<Longrightarrow> k x < k y"
  obtains ys where "sort_key k xs = x # ys"
proof -
  obtain z ys where z: "sort_key k xs = z # ys"
    using assms(1) by (cases "sort_key k xs") (auto dest: arg_cong [where f = set])
  then have zs: "set (z # ys) = set xs" by (metis set_sort)
  have "sorted (map k (z # ys))" using z by (metis sorted_sort_key)
  then have le: "k z \<le> k y" if "y \<in> set xs" for y
    using that zs by auto
  have "z = x"
  proof (rule ccontr)
    assume "z \<noteq> x"
    with assms(2) [of z] zs have "k x < k z" by auto
    with le [OF assms(1)] show False by simp
  qed
  with z that show ?thesis by blast
qed

lemma locked_finding_mem:
  "findings_ok d \<Longrightarrow> f \<in> set (findings d) \<Longrightarrow> locked_finding d (fnd_id f) = Inr f"
  by (simp add: findings_ok_def findings_inv_def locked_finding_unique)

text \<open>
  C12. Re-leak. When a new finding arrives and the same subject already has remediated, not yet
  superseded findings with the same identity and source but another password, the one remediated
  last is linked to the new finding, the new finding becomes HIGH, and the history gains its
  DISCOVERED event and a RE_LEAKED event that names the predecessor.
\<close>

theorem ingest_new_links_releak:
  assumes ok: "findings_ok d" and f: "f \<in> set (findings d)" and p: "p \<in> set (findings d)"
    and named: "si_name_norm si \<noteq> casefold U UNKNOWN_SOURCE" "fnd_identity_key f \<noteq> None"
    and pred: "is_predecessor f si d p"
    and latest: "\<And>q. q \<in> set (findings d) \<Longrightarrow> is_predecessor f si d q \<Longrightarrow> q \<noteq> p \<Longrightarrow>
      the (fnd_remediated_at q) < the (fnd_remediated_at p)"
  shows "\<exists>d' i j. ingest_new (sql_repository U) a t si f acc d =
      (Inr (acc\<lparr>is_new_count := is_new_count acc + 1,
               is_new_finding_ids := is_new_finding_ids acc @ [fnd_id f],
               is_re_leaked_count := is_re_leaked_count acc + 1\<rparr>), d')
    \<and> locked_finding d' (fnd_id p) = Inr (p\<lparr>fnd_superseded_by_id := Some (fnd_id f)\<rparr>)
    \<and> locked_finding d' (fnd_id f) = Inr (f\<lparr>fnd_severity := FindingSeverity.HIGH\<rparr>)
    \<and> finding_events d' = finding_events d @
        [\<lparr>ev_id = i, ev_finding_id = fnd_id f, ev_event = FindingEventType.DISCOVERED,
          ev_actor_id = a, ev_at = t, ev_meta = []\<rparr>,
         \<lparr>ev_id = j, ev_finding_id = fnd_id f, ev_event = FindingEventType.RE_LEAKED,
          ev_actor_id = a, ev_at = t,
          ev_meta = [(uni ''previous_finding_id'', JStr (uuid_str (fnd_id p)))]\<rparr>]"
proof -
  let ?d1 = "sql_record_event (fnd_id f) FindingEventType.DISCOVERED a t [] d"
  let ?d2 = "sql_link_releak (fnd_id p) (fnd_id f) ?d1"
  let ?d3 = "sql_record_event (fnd_id f) FindingEventType.RE_LEAKED a t
      [(uni ''previous_finding_id'', JStr (uuid_str (fnd_id p)))] ?d2"
  have same: "is_predecessor f si ?d1 = is_predecessor f si d"
    by (simp add: is_predecessor_def fun_eq_iff)
  obtain ys where "sort_key (\<lambda>f. - the (fnd_remediated_at f)) (filter (is_predecessor f si d) (findings d)) = p # ys"
    using p pred latest by (rule_tac hd_sort_key_strict [of p "filter (is_predecessor f si d) (findings d)"
          "\<lambda>f. - the (fnd_remediated_at f)"]) auto
  then have found: "sql_find_remediated_predecessor U f si ?d1 = Some p"
    using named by (simp add: sql_find_remediated_predecessor_def same)
  have ne: "fnd_id p \<noteq> fnd_id f" using pred by (simp add: is_predecessor_def)
  have "locked_finding d (fnd_id p) = Inr p" "locked_finding d (fnd_id f) = Inr f"
    using locked_finding_mem [OF ok] f p by simp_all
  then have "locked_finding ?d3 (fnd_id p) = Inr (p\<lparr>fnd_superseded_by_id := Some (fnd_id f)\<rparr>)"
    "locked_finding ?d3 (fnd_id f) = Inr (f\<lparr>fnd_severity := FindingSeverity.HIGH\<rparr>)"
    using ne by (auto simp: locked_finding_def sql_link_releak_findings find_update_where)
  with found show ?thesis
    by (intro exI [of _ ?d3] exI [of _ "next_uuid d"] exI [of _ "next_uuid ?d2"])
      (simp add: ingest_new_def)
qed

text \<open>
  One vendor record whose e-mail field is non-empty but all white space makes the whole ingest
  fail: the tolerant fallback of \<open>normalize_optional_email\<close> runs the same text check that rejected
  the value, so no later record of the response is ingested.
\<close>

theorem blank_email_aborts_ingest:
  assumes "r \<in> set rs" and "lr_email r = Some v" and "v \<noteq> []"
    and "strip (ie_unidata E) (nfkc (ie_unidata E) v) = []"
  shows "\<exists>e d'. ingest_records (sql_repository U) E s rs a now d = (Inl e, d')"
proof (rule ccontr)
  assume no: "\<nexists>e d'. ingest_records (sql_repository U) E s rs a now d = (Inl e, d')"
  obtain x d' where run: "ingest_records (sql_repository U) E s rs a now d = (x, d')" by fastforce
  with no obtain sm where "x = Inr sm" by (cases x) auto
  with run obtain t where "ingest_loop (sql_repository U) E s a t rs empty_summary d = (Inr sm, d')"
    by (auto simp: ingest_records_def split: sum.splits)
  then obtain fp where "record_fingerprint E s r = Inr fp"
    using sql.ingest_loop_known assms(1) by blast
  moreover have "norm_text (ie_unidata E) v = Inl NormalizationError"
    using assms(4) by (simp add: norm_text_def)
  then have "normalize_optional_email (ie_unidata E) (lr_email r) = Inl NormalizationError"
    using assms(2,3) by (simp add: normalize_optional_email_def normalize_email_def)
  ultimately show False
    by (simp add: record_fingerprint_def draft_identity_def bind_res_Inr_iff)
qed

section \<open>Witnesses\<close>

definition an_env :: ingest_env where
  "an_env = \<lparr>ie_unidata = ascii_unidata, ie_gcm = suffix_gcm,
             ie_settings = runtime_settings [] [] (base64url (replicate 32 1)),
             ie_fromisoformat = (\<lambda>_. None)\<rparr>"

definition a_record :: LeakRecord where
  "a_record =
     \<lparr>lr_email = None, lr_username = None, lr_phone = None, lr_origin = None, lr_password = None,
      lr_fields = [],
      lr_source = \<lparr>vs_name = None, vs_breach_date = None, vs_unverified = None,
                   vs_passwordless = None, vs_compilation = None\<rparr>,
      lr_raw = []\<rparr>"

definition an_identity :: SourceIdentity where
  "an_identity = normalize_source an_env (lr_source a_record)"

lemma an_identity_simps:
  "si_name_norm an_identity = uni ''unknown''"
  "isoformat (si_breach_date_norm an_identity) = uni ''0001-01-01''"
  "valid_date (si_breach_date_norm an_identity)"
  by code_simp+

definition sample_parts :: "bytes list" where
  "sample_parts = [octets ''email'', octets ''a@b.c'', octets ''unknown'', octets ''0001-01-01'',
     [], [], [], ZERO_PASSWORD_HASH]"

lemma sample_parts_subject:
  "h = None \<or> h = Some ZERO_PASSWORD_HASH \<Longrightarrow> sub_kind s = SubjectKind.EMAIL \<Longrightarrow>
   sub_value_norm s = uni ''a@b.c'' \<Longrightarrow> fingerprint_parts s an_identity [] [] [] h = Inr sample_parts"
  by (auto simp: fingerprint_parts_def an_identity_simps
      encode_utf8_ascii uni_def octets_def sample_parts_def)

lemma sample_parts_Inr:
  "h = None \<or> h = Some ZERO_PASSWORD_HASH \<Longrightarrow>
   fingerprint_parts (a_subject 5 SubjectKind.EMAIL ''a@b.c'') an_identity [] [] [] h = Inr sample_parts"
  by (rule sample_parts_subject) (simp_all add: a_subject_def)

lemma frameable_sample: "frameable sample_parts"
  by (simp add: frameable_def sample_parts_def ZERO_PASSWORD_HASH_def)

theorem fingerprint_separates_witness:
  "finding_fingerprint (a_subject 5 SubjectKind.EMAIL ''a@b.c'') an_identity [] [] [] None
     = finding_fingerprint (a_subject 5 SubjectKind.EMAIL ''a@b.c'') an_identity [] [] [] (Some ZERO_PASSWORD_HASH)
   \<and> frame sample_parts = frame sample_parts"
proof -
  have eq: "finding_fingerprint (a_subject 5 SubjectKind.EMAIL ''a@b.c'') an_identity [] [] [] None
      = finding_fingerprint (a_subject 5 SubjectKind.EMAIL ''a@b.c'') an_identity [] [] [] (Some ZERO_PASSWORD_HASH)"
    by (simp add: finding_fingerprint_def sample_parts_Inr)
  show ?thesis
    using fingerprint_separates [OF sample_parts_Inr sample_parts_Inr frameable_sample
        frameable_sample an_identity_simps(3) an_identity_simps(3) eq] eq by simp
qed

text \<open>An empty portal ingests one record, and ingesting it again is without effect.\<close>

lemma ingest_first:
  assumes s: "sub_kind s = SubjectKind.EMAIL" "sub_value_norm s = uni ''a@b.c''"
    and empty: "findings d = []" and now: "utc_now (clock d) now = Inr t"
  shows "\<exists>sm d1 f. ingest_records (sql_repository ascii_unidata) an_env s [a_record] a now d = (Inr sm, d1) \<and>
     is_new_count sm = 1 \<and> clock d1 = clock d \<and> findings d1 = [f]"
proof -
  let ?R = "sql_repository ascii_unidata"
  obtain src d1 where 1: "sql_resolve_source an_identity d = (src, d1)" by fastforce
  have "record_fingerprint an_env s a_record = Inr (sha256 (frame sample_parts))"
    unfolding record_fingerprint_def draft_identity_def finding_fingerprint_def
    by (simp add: a_record_def normalize_optional_email_def normalize_optional_username_def
        normalize_optional_phone_def identity_key_def an_env_def digest_parts_def frameable_sample
        sample_parts_subject [OF _ s, unfolded an_identity_def a_record_def an_env_def, simplified])
  then obtain dr d2 where 2: "build_finding_draft an_env s src an_identity a_record t d1 = Inr (dr, d2)"
    using build_draft_works unfolding an_identity_def by blast
  have "findings d2 = []" and clk: "clock d2 = clock d"
    using sql_resolve_source_frame [OF 1] build_draft_Inr(2) [OF 2 [unfolded an_identity_def]] empty
    by auto
  then have 3: "sql_upsert_finding dr d2 = Inr ((finding_of_draft dr, True), d2\<lparr>findings := [finding_of_draft dr]\<rparr>)"
    by (simp add: sql_upsert_new known_fingerprints_def)
  have none: "sql_find_remediated_predecessor ascii_unidata f an_identity d = None" for f d
  proof -
    have "casefold ascii_unidata UNKNOWN_SOURCE = uni ''unknown''" by code_simp
    then show ?thesis by (simp add: sql_find_remediated_predecessor_def an_identity_simps)
  qed
  have "ingest_record ?R an_env s a t a_record empty_summary d =
      ingest_new ?R a t an_identity (finding_of_draft dr)
        (empty_summary\<lparr>is_findings := [fnd_id (finding_of_draft dr)]\<rparr>) (d2\<lparr>findings := [finding_of_draft dr]\<rparr>)"
    using 1 2 3 by (simp add: ingest_record_def empty_summary_def flip: an_identity_def)
  also have "\<dots> = (Inr (empty_summary\<lparr>is_findings := [fnd_id (finding_of_draft dr)], is_new_count := 1,
        is_new_finding_ids := [fnd_id (finding_of_draft dr)]\<rparr>),
      sql_record_event (fnd_id (finding_of_draft dr)) FindingEventType.DISCOVERED a t []
        (d2\<lparr>findings := [finding_of_draft dr]\<rparr>))"
    by (simp add: ingest_new_def none empty_summary_def)
  finally show ?thesis
    using clk now by (simp add: ingest_records_def sql_record_event_def uuid4_eq)
qed

theorem ingest_idempotent_witness:
  "\<exists>sm d1 sm2 d2. ingest_records (sql_repository ascii_unidata) an_env
       (a_subject 5 SubjectKind.EMAIL ''a@b.c'') [a_record] None None db0 = (Inr sm, d1)
     \<and> is_new_count sm = 1
     \<and> ingest_records (sql_repository ascii_unidata) an_env
         (a_subject 5 SubjectKind.EMAIL ''a@b.c'') [a_record] None None d1 = (Inr sm2, d2)
     \<and> is_new_count sm2 = 0 \<and> finding_events d2 = finding_events d1"
proof -
  obtain sm d1 where run: "ingest_records (sql_repository ascii_unidata) an_env
       (a_subject 5 SubjectKind.EMAIL ''a@b.c'') [a_record] None None db0 = (Inr sm, d1)"
    and "is_new_count sm = 1"
    using ingest_first [of "a_subject 5 SubjectKind.EMAIL ''a@b.c''" db0 None "clock db0" None]
    by (auto simp: a_subject_def db0_def empty_db_def)
  moreover have "findings_ok db0"
    by (simp add: findings_ok_def findings_inv_def trail_ok_def events_fk_def superseded_fk_def
        unique_on_def db0_def empty_db_def)
  ultimately show ?thesis
    using ingest_idempotent [OF _ run, of None "clock d1" None] by auto
qed

theorem blank_email_aborts_ingest_witness:
  "\<exists>e d'. ingest_records (sql_repository ascii_unidata) an_env (a_subject 5 SubjectKind.EMAIL ''a@b.c'')
     [a_record, a_record\<lparr>lr_email := Some (uni '' '')\<rparr>] None None db0 = (Inl e, d')"
proof -
  have "strip (ie_unidata an_env) (nfkc (ie_unidata an_env) (uni '' '')) = []" by code_simp
  then show ?thesis
    by (intro blank_email_aborts_ingest [where r = "a_record\<lparr>lr_email := Some (uni '' '')\<rparr>"
          and v = "uni '' ''"]) simp_all
qed

text \<open>A remediated finding whose credential returns with another password.\<close>

definition closed_finding :: Finding where
  "closed_finding = (a_finding 1 5 (Some 10))\<lparr>fnd_remediated_by := Some 9,
     fnd_identity_key := Some (replicate 32 1), fnd_password_sha256 := Some (replicate 32 2)\<rparr>"

definition fresh_finding :: Finding where
  "fresh_finding = (a_finding 2 5 None)\<lparr>fnd_identity_key := Some (replicate 32 1),
     fnd_password_sha256 := Some (replicate 32 3)\<rparr>"

definition releak_db :: db where
  "releak_db = db0\<lparr>findings := [closed_finding, fresh_finding],
     finding_events := [\<lparr>ev_id = 4, ev_finding_id = 1, ev_event = FindingEventType.REMEDIATED,
       ev_actor_id = Some 9, ev_at = 10, ev_meta = []\<rparr>],
     breach_sources := [\<lparr>src_id = 0, src_name = uni ''S'', src_name_norm = uni ''s'',
       src_breach_date = None, src_breach_date_norm = (1, 1, 1), src_unverified = None,
       src_passwordless = None, src_compilation = None, src_extra = []\<rparr>]\<rparr>"

theorem ingest_new_links_releak_witness:
  "\<exists>d'. snd (ingest_new (sql_repository ascii_unidata) None 20 (an_identity\<lparr>si_name_norm := uni ''s''\<rparr>)
       fresh_finding empty_summary releak_db) = d'
     \<and> locked_finding d' 1 = Inr (closed_finding\<lparr>fnd_superseded_by_id := Some 2\<rparr>)
     \<and> locked_finding d' 2 = Inr (fresh_finding\<lparr>fnd_severity := FindingSeverity.HIGH\<rparr>)"
proof -
  let ?si = "an_identity\<lparr>si_name_norm := uni ''s''\<rparr>"
  have rows: "findings releak_db = [closed_finding, fresh_finding]" by (simp add: releak_db_def)
  have "findings_ok releak_db"
    by (simp add: findings_ok_def findings_inv_def trail_ok_def events_fk_def superseded_fk_def
        unique_on_def releak_db_def closed_finding_def fresh_finding_def a_finding_def finding_ok_def
        replay_def)
  moreover have "casefold ascii_unidata UNKNOWN_SOURCE = uni ''unknown''" by code_simp
  moreover have "is_predecessor fresh_finding ?si releak_db closed_finding"
    "\<not> is_predecessor fresh_finding ?si releak_db fresh_finding"
    by (simp_all add: is_predecessor_def releak_db_def closed_finding_def fresh_finding_def a_finding_def)
  moreover have "fnd_identity_key fresh_finding \<noteq> None" "fnd_id closed_finding = 1" "fnd_id fresh_finding = 2"
    by (simp_all add: closed_finding_def fresh_finding_def a_finding_def)
  ultimately show ?thesis
    using ingest_new_links_releak [of releak_db fresh_finding closed_finding ?si ascii_unidata None 20
        empty_summary]
    by (auto simp: rows)
qed

end
