(* ===== verification/PlatformSettings.thy ===== *)
theory PlatformSettings
  imports FindingCrypto
begin

text \<open>
  The encrypted settings store (\<open>src/app/platform_settings.py\<close>): one row per key, its value
  encrypted with the key's name and schema version as associated data. The store object holds only
  the data key, so its operations take the settings that key is decoded from.
\<close>

datatype SettingKey =
    LEAKCHECK_API_KEY | LEAKCHECK_RPS | LEAKCHECK_CONCURRENCY | LEAKCHECK_MAX_RESPONSE_BYTES
  | SELF_CHECK_COOLDOWN_SECONDS | GOOGLE_CLIENT_ID | GOOGLE_CLIENT_SECRET
  | GOOGLE_REDIRECT_URI | GOOGLE_WORKSPACE_DOMAINS | GOOGLE_WORKSPACE_SERVICE_ACCOUNT_JSON
  | GOOGLE_WORKSPACE_DELEGATED_ADMIN | WAZUH_URL | WAZUH_USERNAME | WAZUH_PASSWORD
  | DFIR_IRIS_URL | DFIR_IRIS_API_KEY | DFIR_IRIS_CUSTOMER_ID | SMTP_HOST | SMTP_PORT
  | SMTP_USERNAME | SMTP_PASSWORD | SMTP_FROM | SMTP_SECURITY | PUBLIC_BASE_URL
  | NOTIFY_DRY_RUN | NOTIFY_COOLDOWN_SECONDS | SOC_EMAIL | RETENTION_MODE | RETENTION_DAYS

fun SettingKey_value :: "SettingKey \<Rightarrow> string" where
  "SettingKey_value LEAKCHECK_API_KEY = ''leakcheck_api_key''"
| "SettingKey_value LEAKCHECK_RPS = ''leakcheck_rps''"
| "SettingKey_value LEAKCHECK_CONCURRENCY = ''leakcheck_concurrency''"
| "SettingKey_value LEAKCHECK_MAX_RESPONSE_BYTES = ''leakcheck_max_response_bytes''"
| "SettingKey_value SELF_CHECK_COOLDOWN_SECONDS = ''self_check_cooldown_seconds''"
| "SettingKey_value GOOGLE_CLIENT_ID = ''google_client_id''"
| "SettingKey_value GOOGLE_CLIENT_SECRET = ''google_client_secret''"
| "SettingKey_value GOOGLE_REDIRECT_URI = ''google_redirect_uri''"
| "SettingKey_value GOOGLE_WORKSPACE_DOMAINS = ''google_workspace_domains''"
| "SettingKey_value GOOGLE_WORKSPACE_SERVICE_ACCOUNT_JSON = ''google_workspace_service_account_json''"
| "SettingKey_value GOOGLE_WORKSPACE_DELEGATED_ADMIN = ''google_workspace_delegated_admin''"
| "SettingKey_value WAZUH_URL = ''wazuh_url''"
| "SettingKey_value WAZUH_USERNAME = ''wazuh_username''"
| "SettingKey_value WAZUH_PASSWORD = ''wazuh_password''"
| "SettingKey_value DFIR_IRIS_URL = ''dfir_iris_url''"
| "SettingKey_value DFIR_IRIS_API_KEY = ''dfir_iris_api_key''"
| "SettingKey_value DFIR_IRIS_CUSTOMER_ID = ''dfir_iris_customer_id''"
| "SettingKey_value SMTP_HOST = ''smtp_host''"
| "SettingKey_value SMTP_PORT = ''smtp_port''"
| "SettingKey_value SMTP_USERNAME = ''smtp_username''"
| "SettingKey_value SMTP_PASSWORD = ''smtp_password''"
| "SettingKey_value SMTP_FROM = ''smtp_from''"
| "SettingKey_value SMTP_SECURITY = ''smtp_security''"
| "SettingKey_value PUBLIC_BASE_URL = ''public_base_url''"
| "SettingKey_value NOTIFY_DRY_RUN = ''notify_dry_run''"
| "SettingKey_value NOTIFY_COOLDOWN_SECONDS = ''notify_cooldown_seconds''"
| "SettingKey_value SOC_EMAIL = ''soc_email''"
| "SettingKey_value RETENTION_MODE = ''retention_mode''"
| "SettingKey_value RETENTION_DAYS = ''retention_days''"

definition SECRET_KEYS :: "SettingKey set" where
  "SECRET_KEYS =
     {LEAKCHECK_API_KEY, GOOGLE_CLIENT_SECRET, GOOGLE_WORKSPACE_SERVICE_ACCOUNT_JSON,
      WAZUH_PASSWORD, DFIR_IRIS_API_KEY, SMTP_PASSWORD}"

definition SCHEMA_VERSION :: nat where
  "SCHEMA_VERSION = 1"

definition key_text :: "SettingKey \<Rightarrow> ustr" where
  "key_text key = uni (SettingKey_value key)"

definition setting_aad :: "SettingKey \<Rightarrow> nat \<Rightarrow> bytes" where
  "setting_aad key schema_version =
     octets ''leakcheck/platform-setting/'' @ map word_of_nat (dec schema_version) @ octets ''/''
       @ octets (SettingKey_value key)"

section \<open>Operations\<close>

definition read_setting ::
  "aesgcm \<Rightarrow> Settings \<Rightarrow> SettingKey \<Rightarrow> db \<Rightarrow> ustr option res" where
  "read_setting G s key d =
     (case find (\<lambda>r. ps_key r = key_text key) (platform_settings d) of
        None \<Rightarrow> Inr None
      | Some row \<Rightarrow>
          bind_res (data_key s) (\<lambda>k.
          case gcm_decrypt G k (ps_nonce row) (ps_ciphertext row)
                 (setting_aad key (ps_schema_version row)) of
            None \<Rightarrow> Inl PlatformSettingError
          | Some plaintext \<Rightarrow>
              (case decode_utf8 plaintext of
                 Inl e \<Rightarrow> Inl PlatformSettingError
               | Inr text' \<Rightarrow> Inr (Some text'))))"

text \<open>
  The keys are read in the order in which the set is iterated, an argument here; the result maps
  the configured ones.
\<close>

fun read_many ::
  "aesgcm \<Rightarrow> Settings \<Rightarrow> SettingKey list \<Rightarrow> db \<Rightarrow> (SettingKey \<times> ustr) list res" where
  "read_many G s [] d = Inr []"
| "read_many G s (key # keys) d =
     bind_res (read_setting G s key d) (\<lambda>value.
     bind_res (read_many G s keys d) (\<lambda>values.
     Inr (case value of None \<Rightarrow> values | Some v \<Rightarrow> (key, v) # values)))"

definition keeps_existing :: "SettingKey \<Rightarrow> ustr option \<Rightarrow> bool" where
  "keeps_existing key value \<longleftrightarrow> value = None \<or> (key \<in> SECRET_KEYS \<and> value = Some [])"

definition write_setting ::
  "aesgcm \<Rightarrow> Settings \<Rightarrow> uuid \<Rightarrow> SettingKey \<Rightarrow> ustr \<Rightarrow> db \<Rightarrow> db res" where
  "write_setting G s actor_id key value d =
     (let row = find (\<lambda>r. ps_key r = key_text key) (platform_settings d);
          (nonce, d) = token_bytes NONCE_BYTES d
      in bind_res (encode_utf8 value) (\<lambda>plaintext.
         bind_res (data_key s) (\<lambda>k.
         let ciphertext = gcm_encrypt G k nonce plaintext (setting_aad key SCHEMA_VERSION) in
         Inr (case row of
                None \<Rightarrow>
                  d\<lparr>platform_settings := platform_settings d @
                      [\<lparr>ps_key = key_text key, ps_ciphertext = ciphertext, ps_nonce = nonce,
                        ps_schema_version = SCHEMA_VERSION, ps_updated_at = tx_now d,
                        ps_updated_by = actor_id\<rparr>]\<rparr>
              | Some r \<Rightarrow>
                  d\<lparr>platform_settings := update_where (\<lambda>r. ps_key r = key_text key)
                      (\<lambda>r. r\<lparr>ps_ciphertext := ciphertext, ps_nonce := nonce,
                             ps_schema_version := SCHEMA_VERSION, ps_updated_at := tx_now d,
                             ps_updated_by := actor_id\<rparr>)
                      (platform_settings d)\<rparr>))))"

fun write_many ::
  "aesgcm \<Rightarrow> Settings \<Rightarrow> uuid \<Rightarrow> (SettingKey \<times> ustr option) list \<Rightarrow> db \<Rightarrow> db res" where
  "write_many G s actor_id [] d = Inr d"
| "write_many G s actor_id ((key, value) # values) d =
     (if keeps_existing key value then write_many G s actor_id values d
      else bind_res (write_setting G s actor_id key (the value) d)
             (\<lambda>d. write_many G s actor_id values d))"

definition all_setting_keys :: "SettingKey list" where
  "all_setting_keys = [
     LEAKCHECK_API_KEY, LEAKCHECK_RPS, LEAKCHECK_CONCURRENCY, LEAKCHECK_MAX_RESPONSE_BYTES,
     SELF_CHECK_COOLDOWN_SECONDS, GOOGLE_CLIENT_ID, GOOGLE_CLIENT_SECRET, GOOGLE_REDIRECT_URI,
     GOOGLE_WORKSPACE_DOMAINS, GOOGLE_WORKSPACE_SERVICE_ACCOUNT_JSON,
     GOOGLE_WORKSPACE_DELEGATED_ADMIN, WAZUH_URL, WAZUH_USERNAME, WAZUH_PASSWORD,
     DFIR_IRIS_URL, DFIR_IRIS_API_KEY, DFIR_IRIS_CUSTOMER_ID, SMTP_HOST, SMTP_PORT,
     SMTP_USERNAME, SMTP_PASSWORD, SMTP_FROM, SMTP_SECURITY, PUBLIC_BASE_URL, NOTIFY_DRY_RUN,
     NOTIFY_COOLDOWN_SECONDS, SOC_EMAIL, RETENTION_MODE, RETENTION_DAYS]"

definition configured_state :: "db \<Rightarrow> (string \<times> bool) list" where
  "configured_state d =
     map (\<lambda>k. (SettingKey_value k, key_text k \<in> ps_key ` set (platform_settings d))) all_setting_keys"

definition decode_domains :: "(ustr \<Rightarrow> json option) \<Rightarrow> ustr \<Rightarrow> ustr list res" where
  "decode_domains loads value =
     (case loads value of
        Some (JList items) \<Rightarrow>
          if list_all (\<lambda>v. case v of JStr _ \<Rightarrow> True | _ \<Rightarrow> False) items
          then Inr (List.map_filter (\<lambda>v. case v of JStr t \<Rightarrow> Some t | _ \<Rightarrow> None) items)
          else Inl PlatformSettingError
      | _ \<Rightarrow> Inl PlatformSettingError)"

section \<open>Facts\<close>

lemma SettingKey_value_inject [simp]: "SettingKey_value j = SettingKey_value k \<longleftrightarrow> j = k"
  by (cases j; cases k) simp_all

lemma key_text_inject [simp]: "key_text j = key_text k \<longleftrightarrow> j = k"
  by (simp add: key_text_def)

text \<open>Reading depends on the row of the key only.\<close>

lemma read_setting_cong:
  "find (\<lambda>r. ps_key r = key_text key) (platform_settings d') =
   find (\<lambda>r. ps_key r = key_text key) (platform_settings d) \<Longrightarrow>
   read_setting G s key d' = read_setting G s key d"
  by (simp add: read_setting_def)

lemma write_setting_read:
  assumes gcm: "gcm_ok G" and key: "data_key s = Inr k" "length k = 32"
    and run: "write_setting G s a key v d = Inr d'"
  shows "read_setting G s key d' = Inr (Some v)"
    and "j \<noteq> key \<Longrightarrow> read_setting G s j d' = read_setting G s j d"
proof -
  obtain bs where bs: "encode_utf8 v = Inr bs"
    using run by (auto simp: write_setting_def token_bytes_eq bind_res_Inr_iff)
  let ?n = "next_bytes NONCE_BYTES d"
  let ?c = "gcm_encrypt G k ?n bs (setting_aad key SCHEMA_VERSION)"
  have dec: "gcm_decrypt G k ?n ?c (setting_aad key SCHEMA_VERSION) = Some bs"
    using gcm key(2) by (simp add: gcm_ok_def NONCE_BYTES_def)
  have "\<exists>row. find (\<lambda>r. ps_key r = key_text key) (platform_settings d') = Some row \<and>
      ps_nonce row = ?n \<and> ps_ciphertext row = ?c \<and> ps_schema_version row = SCHEMA_VERSION"
    using run bs key(1)
    by (auto simp: write_setting_def token_bytes_eq bind_res_Inr_iff find_append find_update_where Let_def
        split: option.splits dest: find_Some_mem)
  then show "read_setting G s key d' = Inr (Some v)"
    using key(1) dec decode_encode_utf8 [OF bs] by (auto simp: read_setting_def)
  assume ne: "j \<noteq> key"
  have other: "find (\<lambda>r. ps_key r = key_text j) (update_where (\<lambda>r. ps_key r = key_text key) f t) =
      find (\<lambda>r. ps_key r = key_text j) t" if "\<And>r. ps_key (f r) = ps_key r" for f t
    using ne by (intro find_update_where_other) (simp add: that)
  have "find (\<lambda>r. ps_key r = key_text j) (platform_settings d') =
      find (\<lambda>r. ps_key r = key_text j) (platform_settings d)"
    using run bs key(1) ne [symmetric]
    by (auto simp: write_setting_def token_bytes_eq bind_res_Inr_iff find_append Let_def
        other split: option.splits)
  then show "read_setting G s j d' = read_setting G s j d" by (rule read_setting_cong)
qed

text \<open>
  Writing settings and reading them back. After a successful \<open>write_many\<close> every supplied key
  reads as the value supplied, except that an absent value and a blank value for a secret leave the
  key as it was; every key not supplied reads as before.
\<close>

theorem write_many_read:
  assumes "gcm_ok G" and "data_key s = Inr k" and "length k = 32"
    and "distinct (map fst vs)" and "write_many G s a vs d = Inr d'"
  shows "read_setting G s key d' =
    (case map_of vs key of
       Some (Some v) \<Rightarrow> if key \<in> SECRET_KEYS \<and> v = [] then read_setting G s key d else Inr (Some v)
     | _ \<Rightarrow> read_setting G s key d)"
  using assms(4,5)
proof (induction vs arbitrary: d)
  case (Cons x xs)
  obtain j w where x: "x = (j, w)" by (cases x) auto
  show ?case
  proof (cases "keeps_existing j w")
    case True
    then have "write_many G s a xs d = Inr d'" using Cons.prems x by simp
    note ih = Cons.IH [OF _ this]
    have none: "map_of xs j = None" using Cons.prems(1) x by (auto simp: map_of_eq_None_iff)
    show ?thesis
      using ih True Cons.prems(1) x none by (cases "key = j") (auto simp: keeps_existing_def)
  next
    case False
    then obtain v where v: "w = Some v" by (auto simp: keeps_existing_def)
    with False obtain d1 where 1: "write_setting G s a j v d = Inr d1"
      and 2: "write_many G s a xs d1 = Inr d'"
      using Cons.prems x by (auto simp: bind_res_Inr_iff)
    note wr = write_setting_read [OF assms(1,2,3) 1]
    have rest: "read_setting G s key d' =
        (case map_of xs key of
           Some (Some v) \<Rightarrow> if key \<in> SECRET_KEYS \<and> v = [] then read_setting G s key d1 else Inr (Some v)
         | _ \<Rightarrow> read_setting G s key d1)"
      using Cons.IH [OF _ 2] Cons.prems(1) by simp
    show ?thesis
    proof (cases "key = j")
      case True
      then have "map_of xs key = None" using Cons.prems(1) x by (auto simp: map_of_eq_None_iff)
      with rest wr(1) True False v x show ?thesis by (auto simp: keeps_existing_def)
    next
      case ne: False
      with rest wr(2) [of key] x show ?thesis by (simp split: option.splits)
    qed
  qed
qed simp

text \<open>A first write, with a blank secret that is left alone.\<close>

definition the_settings :: Settings where
  "the_settings = runtime_settings [] [] (base64url (replicate 32 1))"

lemma data_key_the_settings: "data_key the_settings = Inr (replicate 32 1)"
  by (simp add: the_settings_def data_key_def runtime_settings_def decode_key_base64url)

lemma write_setting_works:
  "data_key s = Inr k \<Longrightarrow> encode_utf8 v = Inr bs \<Longrightarrow> \<exists>d'. write_setting G s a key v d = Inr d'"
  by (simp add: write_setting_def token_bytes_eq Let_def)

theorem write_many_read_witness:
  "\<exists>d'. write_many suffix_gcm the_settings 1
       [(SMTP_HOST, Some (uni ''mail'')), (SMTP_PASSWORD, Some [])] db0 = Inr d'
     \<and> read_setting suffix_gcm the_settings SMTP_HOST d' = Inr (Some (uni ''mail''))
     \<and> read_setting suffix_gcm the_settings SMTP_PASSWORD d' = Inr None"
proof -
  have "encode_utf8 (uni ''mail'') = Inr (octets ''mail'')"
    by (simp add: encode_utf8_ascii uni_def octets_def)
  then obtain d' where "write_setting suffix_gcm the_settings 1 SMTP_HOST (uni ''mail'') db0 = Inr d'"
    using write_setting_works data_key_the_settings by blast
  then have run: "write_many suffix_gcm the_settings 1
       [(SMTP_HOST, Some (uni ''mail'')), (SMTP_PASSWORD, Some [])] db0 = Inr d'"
    by (simp add: keeps_existing_def SECRET_KEYS_def)
  have "read_setting suffix_gcm the_settings SMTP_PASSWORD db0 = Inr None"
    by (simp add: read_setting_def db0_def empty_db_def)
  then show ?thesis
    using run write_many_read [OF suffix_gcm_ok data_key_the_settings _ _ run, of SMTP_HOST]
      write_many_read [OF suffix_gcm_ok data_key_the_settings _ _ run, of SMTP_PASSWORD]
    by (simp add: SECRET_KEYS_def)
qed

end
