(* ===== verification/Sessions.thy ===== *)
theory Sessions
  imports PlatformSettings
begin

text \<open>
  Server-side sessions (\<open>src/app/auth/session.py\<close>): issuing, verifying and revoking opaque bearer
  tokens of which the database holds only the SHA-256 digest. The canonical text of an IP address
  (\<open>str(ipaddress.ip_address(v))\<close>) is the parameter \<open>canonical_ip\<close>.
\<close>

section \<open>Data\<close>

definition SESSION_COOKIE_NAME :: string where
  "SESSION_COOKIE_NAME = ''__Host-leakcheck-session''"

definition TOKEN_BYTES :: nat where
  "TOKEN_BYTES = 32"

record IssuedSession =
  iss_token :: ustr
  iss_expires_at :: datetime

record VerifiedSession =
  ver_user :: User
  ver_expires_at :: datetime

text \<open>A cookie as the response sets it; \<open>None\<close> as maximal age makes it a browser-session cookie.\<close>

record Cookie =
  ck_key :: string
  ck_value :: ustr
  ck_max_age :: "int option"
  ck_path :: string
  ck_secure :: bool
  ck_httponly :: bool
  ck_samesite :: string

definition idle_ttl :: "Settings \<Rightarrow> int" where
  "idle_ttl s = seconds (s_session_idle_ttl_seconds s)"

definition absolute_ttl :: "Settings \<Rightarrow> int" where
  "absolute_ttl s = seconds (s_session_absolute_ttl_seconds s)"

section \<open>Tokens and client metadata\<close>

definition token_hash :: "ustr \<Rightarrow> bytes" where
  "token_hash token = sha256 (map word_of_nat token)"

text \<open>\<open>^[A-Za-z0-9_-]{43}$\<close>\<close>

definition token_pattern :: "ustr \<Rightarrow> bool" where
  "token_pattern token \<longleftrightarrow> length token = 43 \<and> list_all is_urlsafe token"

definition validated_token_hash :: "ustr option \<Rightarrow> bytes option" where
  "validated_token_hash token =
     (case token of None \<Rightarrow> None | Some t \<Rightarrow> if token_pattern t then Some (token_hash t) else None)"

definition metadata_hash :: "Settings \<Rightarrow> ustr \<Rightarrow> bytes res" where
  "metadata_hash s value =
     bind_res (session_key s) (\<lambda>k. bind_res (encode_utf8 value) (\<lambda>v. Inr (hmac_sha256 k v)))"

section \<open>Operations\<close>

text \<open>A row whose digest is already taken violates the primary key.\<close>

definition issue_session ::
  "(ustr \<Rightarrow> ustr option) \<Rightarrow> Settings \<Rightarrow> uuid \<Rightarrow> ustr \<Rightarrow> ustr option \<Rightarrow> py_datetime option \<Rightarrow> db
   \<Rightarrow> (IssuedSession \<times> db) res" where
  "issue_session canonical_ip s user_id client_ip user_agent now d =
     bind_res (utc_now (clock d) now) (\<lambda>issued_at.
     let (raw_token, d) = token_urlsafe TOKEN_BYTES d;
         expires_at = issued_at + absolute_ttl s in
     bind_res (of_option ValueError (canonical_ip client_ip)) (\<lambda>ip.
     bind_res (metadata_hash s ip) (\<lambda>ip_hash.
     bind_res (metadata_hash s (case user_agent of None \<Rightarrow> [] | Some ua \<Rightarrow> ua)) (\<lambda>ua_hash.
     if token_hash raw_token \<in> sess_id_hash ` set (sessions d) then Inl IntegrityError
     else
       Inr (\<lparr>iss_token = raw_token, iss_expires_at = expires_at\<rparr>,
            d\<lparr>sessions := sessions d @
                [\<lparr>sess_id_hash = token_hash raw_token, sess_user_id = user_id,
                  sess_created_at = issued_at, sess_expires_at = expires_at,
                  sess_last_seen_at = issued_at,
                  sess_idle_expires_at = min (issued_at + idle_ttl s) expires_at,
                  sess_ip_hash = ip_hash, sess_ua_hash = ua_hash, sess_revoked_at = None\<rparr>]\<rparr>)))))"

definition session_usable :: "datetime \<Rightarrow> Session \<Rightarrow> User \<Rightarrow> bool" where
  "session_usable now session user \<longleftrightarrow>
     sess_revoked_at session = None \<and> u_is_active user \<and>
     now < sess_expires_at session \<and> now < sess_idle_expires_at session"

definition verify_session ::
  "Settings \<Rightarrow> ustr option \<Rightarrow> py_datetime option \<Rightarrow> db \<Rightarrow> (VerifiedSession option \<times> db) res" where
  "verify_session s token now d =
     (case validated_token_hash token of
        None \<Rightarrow> Inr (None, d)
      | Some digest \<Rightarrow>
          bind_res (utc_now (clock d) now) (\<lambda>current.
          case find (\<lambda>r. sess_id_hash r = digest) (sessions d) of
            None \<Rightarrow> Inr (None, d)
          | Some session \<Rightarrow>
              (case find (\<lambda>u. u_id u = sess_user_id session) (users d) of
                 None \<Rightarrow> Inr (None, d)
               | Some user \<Rightarrow>
                   if \<not> session_usable current session user then Inr (None, d)
                   else
                     Inr (Some \<lparr>ver_user = user, ver_expires_at = sess_expires_at session\<rparr>,
                          d\<lparr>sessions := update_where (\<lambda>r. sess_id_hash r = digest)
                              (\<lambda>r. r\<lparr>sess_last_seen_at := current,
                                     sess_idle_expires_at :=
                                       min (sess_expires_at r) (current + idle_ttl s)\<rparr>)
                              (sessions d)\<rparr>))))"

definition revoke_session ::
  "ustr option \<Rightarrow> py_datetime option \<Rightarrow> db \<Rightarrow> (bool \<times> db) res" where
  "revoke_session token now d =
     (case validated_token_hash token of
        None \<Rightarrow> Inr (False, d)
      | Some digest \<Rightarrow>
          (case find (\<lambda>r. sess_id_hash r = digest) (sessions d) of
             None \<Rightarrow> Inr (False, d)
           | Some session \<Rightarrow>
               if sess_revoked_at session \<noteq> None then Inr (False, d)
               else bind_res (utc_now (clock d) now) (\<lambda>t.
                 Inr (True, d\<lparr>sessions := update_where (\<lambda>r. sess_id_hash r = digest)
                               (\<lambda>r. r\<lparr>sess_revoked_at := Some t\<rparr>) (sessions d)\<rparr>))))"

definition revoke_all_sessions ::
  "uuid \<Rightarrow> py_datetime option \<Rightarrow> db \<Rightarrow> (nat \<times> db) res" where
  "revoke_all_sessions user_id now d =
     bind_res (utc_now (clock d) now) (\<lambda>t.
     let p = (\<lambda>r. sess_user_id r = user_id \<and> sess_revoked_at r = None) in
     Inr (rowcount p (sessions d),
          d\<lparr>sessions := update_where p (\<lambda>r. r\<lparr>sess_revoked_at := Some t\<rparr>) (sessions d)\<rparr>))"

text \<open>\<open>max(0, int(td.total_seconds()))\<close> truncates to whole seconds.\<close>

definition session_cookie :: "IssuedSession \<Rightarrow> datetime \<Rightarrow> Cookie" where
  "session_cookie issued now =
     \<lparr>ck_key = SESSION_COOKIE_NAME, ck_value = iss_token issued,
      ck_max_age = Some (max 0 ((iss_expires_at issued - now) div 1000000)), ck_path = ''/'',
      ck_secure = True, ck_httponly = True, ck_samesite = ''lax''\<rparr>"

definition clear_session_cookie :: Cookie where
  "clear_session_cookie =
     \<lparr>ck_key = SESSION_COOKIE_NAME, ck_value = [], ck_max_age = Some 0, ck_path = ''/'',
      ck_secure = True, ck_httponly = True, ck_samesite = ''lax''\<rparr>"

section \<open>Contract\<close>

text \<open>
  Every stored session has its own digest and never idles past its absolute deadline. A digest is
  dead from an instant on when its session is revoked or expires by then; \<open>session_op\<close> states that
  an operation keeps both.
\<close>

definition sessions_inv :: "db \<Rightarrow> bool" where
  "sessions_inv d \<longleftrightarrow>
     unique_on sess_id_hash (sessions d) \<and>
     (\<forall>r \<in> set (sessions d). sess_idle_expires_at r \<le> sess_expires_at r)"

definition dead :: "bytes \<Rightarrow> datetime \<Rightarrow> db \<Rightarrow> bool" where
  "dead h t d \<longleftrightarrow>
     (\<exists>r \<in> set (sessions d). sess_id_hash r = h \<and> (sess_revoked_at r \<noteq> None \<or> sess_expires_at r \<le> t))"

locale session_op =
  fixes run :: "'i \<Rightarrow> db \<Rightarrow> ('o \<times> db) res"
  assumes keeps_inv: "sessions_inv d \<Longrightarrow> run i d = Inr (x, d') \<Longrightarrow> sessions_inv d'"
    and keeps_dead: "sessions_inv d \<Longrightarrow> dead h t d \<Longrightarrow> run i d = Inr (x, d') \<Longrightarrow> dead h t d'"
begin

definition step :: "db \<Rightarrow> 'i \<Rightarrow> db" where
  "step d i = (case run i d of Inl e \<Rightarrow> d | Inr (x, d') \<Rightarrow> d')"

lemma step_keeps: "sessions_inv d \<Longrightarrow> sessions_inv (step d i) \<and> (dead h t d \<longrightarrow> dead h t (step d i))"
  using keeps_inv keeps_dead by (auto simp: step_def split: sum.splits)

lemma steps_keep:
  "sessions_inv d \<Longrightarrow> sessions_inv (foldl step d is) \<and> (dead h t d \<longrightarrow> dead h t (foldl step d is))"
proof (induction "is" arbitrary: d)
  case (Cons i "is")
  then show ?case using step_keeps [of d i h t] by auto
qed simp

end

lemma sessions_inv_clock [simp]: "sessions_inv (d\<lparr>clock := t\<rparr>) = sessions_inv d"
  by (simp add: sessions_inv_def)

lemma dead_clock [simp]: "dead h t0 (d\<lparr>clock := t\<rparr>) = dead h t0 d"
  by (simp add: dead_def)

text \<open>A dead session is not verified, and the invariant rules out a second row for its digest.\<close>

lemma verify_dead:
  assumes "sessions_inv d" and "dead (token_hash token) t d" and "t \<le> t'"
    and "utc_now (clock d) now = Inr t'"
  shows "verify_session s (Some token) now d = Inr (None, d)"
proof (cases "token_pattern token")
  case True
  obtain r where r: "r \<in> set (sessions d)" "sess_id_hash r = token_hash token"
    "sess_revoked_at r \<noteq> None \<or> sess_expires_at r \<le> t"
    using assms(2) by (auto simp: dead_def)
  have "find (\<lambda>r. sess_id_hash r = token_hash token) (sessions d) = Some r"
    using assms(1) r(1) unique_on_find [of sess_id_hash "sessions d" r] r(2) by (simp add: sessions_inv_def)
  then show ?thesis
    using True assms(3,4) r(3)
    by (auto simp: verify_session_def validated_token_hash_def session_usable_def split: option.splits)
qed (simp add: verify_session_def validated_token_hash_def)

text \<open>An update of sessions that keeps digests and deadlines and revokes or touches only.\<close>

lemma sessions_inv_update:
  assumes "sessions_inv d"
    and "\<And>r. sess_id_hash (f r) = sess_id_hash r"
    and "\<And>r. r \<in> set (sessions d) \<Longrightarrow> sess_idle_expires_at (f r) \<le> sess_expires_at (f r)"
  shows "sessions_inv (d\<lparr>sessions := update_where p f (sessions d)\<rparr>)"
  using assms by (auto simp: sessions_inv_def unique_on_update_where set_update_where)

lemma dead_update:
  assumes "dead h t d"
    and "\<And>r. sess_id_hash (f r) = sess_id_hash r \<and> sess_expires_at (f r) = sess_expires_at r \<and>
      (sess_revoked_at r \<noteq> None \<longrightarrow> sess_revoked_at (f r) \<noteq> None)"
  shows "dead h t (d\<lparr>sessions := update_where p f (sessions d)\<rparr>)"
proof -
  obtain r where "r \<in> set (sessions d)" "sess_id_hash r = h"
    "sess_revoked_at r \<noteq> None \<or> sess_expires_at r \<le> t"
    using assms(1) by (auto simp: dead_def)
  with assms(2) [of r] show ?thesis
    unfolding dead_def by (intro bexI [of _ "if p r then f r else r"]) (auto simp: set_update_where)
qed

lemma issue_session_Inr:
  assumes "issue_session cip s uid ip ua now d = Inr (x, d')"
  obtains t h1 h2 where "utc_now (clock d) now = Inr t" "length h1 = 32" "length h2 = 32"
    "iss_expires_at x = t + absolute_ttl s" "token_pattern (iss_token x)"
    "token_hash (iss_token x) \<notin> sess_id_hash ` set (sessions d)"
    "d' = d\<lparr>drawn := drawn d + 32, sessions := sessions d @
        [\<lparr>sess_id_hash = token_hash (iss_token x), sess_user_id = uid, sess_created_at = t,
          sess_expires_at = t + absolute_ttl s, sess_last_seen_at = t,
          sess_idle_expires_at = min (t + idle_ttl s) (t + absolute_ttl s),
          sess_ip_hash = h1, sess_ua_hash = h2, sess_revoked_at = None\<rparr>]\<rparr>"
proof -
  obtain t canon k v w where now: "utc_now (clock d) now = Inr t" and canon: "cip ip = Some canon"
    and k: "session_key s = Inr k" and v: "encode_utf8 canon = Inr v"
    and w: "encode_utf8 (case ua of None \<Rightarrow> [] | Some ua \<Rightarrow> ua) = Inr w"
    using assms
    by (auto simp: issue_session_def bind_res_Inr_iff Let_def token_urlsafe_eq metadata_hash_def)
  let ?tok = "base64url (next_bytes 32 d)"
  have "token_pattern ?tok"
    by (simp add: token_pattern_def length_base64url base64url_urlsafe)
  moreover have fresh: "token_hash ?tok \<notin> sess_id_hash ` set (sessions d)"
    using assms now canon k v w
    by (simp add: issue_session_def Let_def token_urlsafe_eq metadata_hash_def TOKEN_BYTES_def split: if_splits)
  ultimately show ?thesis
    using assms now canon k v w
    by (intro that [of t "hmac_sha256 k v" "hmac_sha256 k w"])
      (auto simp: issue_session_def Let_def token_urlsafe_eq metadata_hash_def TOKEN_BYTES_def)
qed

lemma issue_session_keeps:
  assumes inv: "sessions_inv d" and run: "issue_session cip s uid ip ua now d = Inr (x, d')"
  shows "sessions_inv d' \<and> (dead h t0 d \<longrightarrow> dead h t0 d')"
proof -
  obtain t h1 h2 where fresh: "token_hash (iss_token x) \<notin> sess_id_hash ` set (sessions d)"
    and d': "d' = d\<lparr>drawn := drawn d + 32, sessions := sessions d @
        [\<lparr>sess_id_hash = token_hash (iss_token x), sess_user_id = uid, sess_created_at = t,
          sess_expires_at = t + absolute_ttl s, sess_last_seen_at = t,
          sess_idle_expires_at = min (t + idle_ttl s) (t + absolute_ttl s),
          sess_ip_hash = h1, sess_ua_hash = h2, sess_revoked_at = None\<rparr>]\<rparr>"
    using run by (rule issue_session_Inr)
  have "sessions_inv d'"
    using fresh inv by (auto simp: d' sessions_inv_def unique_on_append1)
  moreover have "dead h t0 d \<longrightarrow> dead h t0 d'"
    by (auto simp: d' dead_def)
  ultimately show ?thesis by simp
qed

lemma verify_session_Some:
  assumes "verify_session s token now d = Inr (Some v, d')"
  obtains digest t r u where "validated_token_hash token = Some digest" "utc_now (clock d) now = Inr t"
    "r \<in> set (sessions d)" "sess_id_hash r = digest" "u \<in> set (users d)" "u_id u = sess_user_id r"
    "session_usable t r u" "v = \<lparr>ver_user = u, ver_expires_at = sess_expires_at r\<rparr>"
    "d' = d\<lparr>sessions := update_where (\<lambda>r. sess_id_hash r = digest)
        (\<lambda>r. r\<lparr>sess_last_seen_at := t, sess_idle_expires_at := min (sess_expires_at r) (t + idle_ttl s)\<rparr>)
        (sessions d)\<rparr>"
proof -
  obtain digest where 1: "validated_token_hash token = Some digest"
    using assms by (cases "validated_token_hash token") (auto simp: verify_session_def)
  obtain t where 2: "utc_now (clock d) now = Inr t"
    using assms 1 by (cases "utc_now (clock d) now") (auto simp: verify_session_def)
  obtain r where 3: "find (\<lambda>r. sess_id_hash r = digest) (sessions d) = Some r"
    using assms 1 2 by (cases "find (\<lambda>r. sess_id_hash r = digest) (sessions d)")
      (auto simp: verify_session_def)
  obtain u where 4: "find (\<lambda>u. u_id u = sess_user_id r) (users d) = Some u"
    using assms 1 2 3 by (cases "find (\<lambda>u. u_id u = sess_user_id r) (users d)")
      (auto simp: verify_session_def)
  have "session_usable t r u" and v: "v = \<lparr>ver_user = u, ver_expires_at = sess_expires_at r\<rparr>"
    and d': "d' = d\<lparr>sessions := update_where (\<lambda>r. sess_id_hash r = digest)
        (\<lambda>r. r\<lparr>sess_last_seen_at := t, sess_idle_expires_at := min (sess_expires_at r) (t + idle_ttl s)\<rparr>)
        (sessions d)\<rparr>"
    using assms 1 2 3 4 by (auto simp: verify_session_def split: if_splits)
  with 1 2 find_Some_mem [OF 3] find_Some_mem [OF 4] show ?thesis
    using that by blast
qed

lemma verify_session_None: "verify_session s token now d = Inr (None, d') \<Longrightarrow> d' = d"
  unfolding verify_session_def bind_res_def
  by (simp split: option.split_asm sum.split_asm if_split_asm)

lemma verify_session_keeps:
  assumes inv: "sessions_inv d" and run: "verify_session s token now d = Inr (x, d')"
  shows "sessions_inv d' \<and> (dead h t0 d \<longrightarrow> dead h t0 d')"
proof (cases x)
  case None
  with run inv verify_session_None show ?thesis by blast
next
  case (Some v)
  with run show ?thesis
    by (auto elim!: verify_session_Some intro!: sessions_inv_update dead_update inv)
qed

text \<open>Setting the revocation time of some rows, as both revocations do.\<close>

lemma revoke_where_keeps:
  assumes "sessions_inv d"
  shows "sessions_inv (d\<lparr>sessions := update_where p (\<lambda>r. r\<lparr>sess_revoked_at := Some t\<rparr>) (sessions d)\<rparr>) \<and>
    (dead h t0 d \<longrightarrow>
      dead h t0 (d\<lparr>sessions := update_where p (\<lambda>r. r\<lparr>sess_revoked_at := Some t\<rparr>) (sessions d)\<rparr>))"
proof (intro conjI impI)
  have "\<And>r. r \<in> set (sessions d) \<Longrightarrow> sess_idle_expires_at r \<le> sess_expires_at r"
    using assms by (simp add: sessions_inv_def)
  then show "sessions_inv (d\<lparr>sessions := update_where p (\<lambda>r. r\<lparr>sess_revoked_at := Some t\<rparr>) (sessions d)\<rparr>)"
    by (intro sessions_inv_update [OF assms]) simp_all
qed (rule dead_update, simp_all)

lemma revoke_session_keeps:
  assumes inv: "sessions_inv d" and run: "revoke_session token now d = Inr (x, d')"
  shows "sessions_inv d' \<and> (dead h t0 d \<longrightarrow> dead h t0 d')"
proof -
  consider "d' = d" | p t where "d' = d\<lparr>sessions := update_where p (\<lambda>r. r\<lparr>sess_revoked_at := Some t\<rparr>) (sessions d)\<rparr>"
    using run unfolding revoke_session_def bind_res_def
    by (auto split: option.split_asm sum.split_asm if_split_asm)
  then show ?thesis
    by cases (simp_all add: inv revoke_where_keeps)
qed

lemma revoke_all_keeps:
  assumes inv: "sessions_inv d" and run: "revoke_all_sessions uid now d = Inr (x, d')"
  shows "sessions_inv d' \<and> (dead h t0 d \<longrightarrow> dead h t0 d')"
proof -
  obtain p t where "d' = d\<lparr>sessions := update_where p (\<lambda>r. r\<lparr>sess_revoked_at := Some t\<rparr>) (sessions d)\<rparr>"
    using run by (auto simp: revoke_all_sessions_def bind_res_Inr_iff Let_def)
  then show ?thesis
    using revoke_where_keeps [OF inv, of p t h t0] by simp
qed

lemma revoke_session_dead:
  assumes "revoke_session (Some token) now d = Inr (True, d')"
  shows "dead (token_hash token) t d'"
proof -
  obtain r t' where r: "find (\<lambda>r. sess_id_hash r = token_hash token) (sessions d) = Some r"
    and d': "d' = d\<lparr>sessions := update_where (\<lambda>r. sess_id_hash r = token_hash token)
      (\<lambda>r. r\<lparr>sess_revoked_at := Some t'\<rparr>) (sessions d)\<rparr>"
    using assms unfolding revoke_session_def bind_res_def validated_token_hash_def
    by (auto split: option.split_asm sum.split_asm if_split_asm)
  show ?thesis
    using find_Some_mem [OF r] unfolding d' dead_def
    by (intro bexI [of _ "r\<lparr>sess_revoked_at := Some t'\<rparr>"]) (auto simp: set_update_where)
qed

text \<open>The operations a client of the session store performs, as one type.\<close>

datatype session_request =
    Issue uuid ustr "ustr option" "py_datetime option"
  | Verify "ustr option" "py_datetime option"
  | Revoke "ustr option" "py_datetime option"
  | RevokeAll uuid "py_datetime option"
  | Tick datetime

fun session_run :: "(ustr \<Rightarrow> ustr option) \<Rightarrow> Settings \<Rightarrow> session_request \<Rightarrow> db \<Rightarrow> (unit \<times> db) res" where
  "session_run cip s (Issue uid ip ua now) d =
     bind_res (issue_session cip s uid ip ua now d) (\<lambda>(_, d). Inr ((), d))"
| "session_run cip s (Verify token now) d =
     bind_res (verify_session s token now d) (\<lambda>(_, d). Inr ((), d))"
| "session_run cip s (Revoke token now) d = bind_res (revoke_session token now d) (\<lambda>(_, d). Inr ((), d))"
| "session_run cip s (RevokeAll uid now) d =
     bind_res (revoke_all_sessions uid now d) (\<lambda>(_, d). Inr ((), d))"
| "session_run cip s (Tick t) d = Inr ((), d\<lparr>clock := t\<rparr>)"

text \<open>A sequence of them; one that raises is rolled back.\<close>

fun session_runs ::
  "(ustr \<Rightarrow> ustr option) \<Rightarrow> Settings \<Rightarrow> session_request list \<Rightarrow> db \<Rightarrow> db" where
  "session_runs cip s [] d = d"
| "session_runs cip s (i # is) d =
     session_runs cip s is (case session_run cip s i d of Inl e \<Rightarrow> d | Inr (_, d') \<Rightarrow> d')"

lemma session_run_keeps:
  assumes "sessions_inv d" and "session_run cip s i d = Inr (x, d')"
  shows "sessions_inv d' \<and> (dead h t d \<longrightarrow> dead h t d')"
  using assms
proof (cases i)
  case Issue
  then show ?thesis using assms issue_session_keeps by (auto simp: bind_res_Inr_iff)
next
  case Verify
  then show ?thesis using assms verify_session_keeps by (auto simp: bind_res_Inr_iff)
next
  case Revoke
  then show ?thesis using assms revoke_session_keeps by (auto simp: bind_res_Inr_iff)
next
  case RevokeAll
  then show ?thesis using assms revoke_all_keeps by (auto simp: bind_res_Inr_iff)
qed (use assms in auto)

interpretation store: session_op "session_run cip s" for cip s
  by unfold_locales (auto dest: session_run_keeps)

lemma session_runs_foldl: "session_runs cip s is d = foldl (store.step cip s) d is"
  by (induction "is" arbitrary: d) (simp_all add: store.step_def)

lemmas session_runs_keep = store.steps_keep [folded session_runs_foldl]

section \<open>Properties\<close>

lemma issue_then_verify:
  assumes "sessions_inv d" and "issue_session cip s (u_id u) ip ua now d = Inr (x, d')"
    and "find (\<lambda>r. u_id r = u_id u) (users d) = Some u" and "u_is_active u"
    and "utc_now (clock d) now = Inr t0" and "utc_now (clock d') now' = Inr t"
    and "t < t0 + idle_ttl s" and "t < t0 + absolute_ttl s"
  shows "\<exists>d''. verify_session s (Some (iss_token x)) now' d' =
    Inr (Some \<lparr>ver_user = u, ver_expires_at = t0 + absolute_ttl s\<rparr>, d'')"
proof -
  obtain h1 h2 where exp: "iss_expires_at x = t0 + absolute_ttl s" and tok: "token_pattern (iss_token x)"
    and fresh: "token_hash (iss_token x) \<notin> sess_id_hash ` set (sessions d)"
    and d': "d' = d\<lparr>drawn := drawn d + 32, sessions := sessions d @
        [\<lparr>sess_id_hash = token_hash (iss_token x), sess_user_id = u_id u, sess_created_at = t0,
          sess_expires_at = t0 + absolute_ttl s, sess_last_seen_at = t0,
          sess_idle_expires_at = min (t0 + idle_ttl s) (t0 + absolute_ttl s),
          sess_ip_hash = h1, sess_ua_hash = h2, sess_revoked_at = None\<rparr>]\<rparr>"
    using assms(2,5) by (auto elim!: issue_session_Inr)
  have none: "find (\<lambda>r. sess_id_hash r = token_hash (iss_token x)) (sessions d) = None"
    using fresh by (force simp: find_None_iff)
  show ?thesis
    using tok none assms(3-8)
    by (simp add: verify_session_def validated_token_hash_def d' find_append session_usable_def)
qed

text \<open>A token just issued verifies: until the idle and the absolute deadline the store recognises it, and
  returns the user it was issued to together with the absolute deadline, if that user is active.\<close>

theorem issued_session_verifies:
  assumes "sessions_inv d" and "issue_session cip s (u_id u) ip ua now d = Inr (x, d')"
    and "find (\<lambda>r. u_id r = u_id u) (users d) = Some u" and "u_is_active u"
    and "utc_now (clock d) now = Inr t0" and "utc_now (clock d') now' = Inr t"
    and "t < t0 + idle_ttl s" and "t < t0 + absolute_ttl s"
  shows "\<exists>d''. verify_session s (Some (iss_token x)) now' d' =
    Inr (Some \<lparr>ver_user = u, ver_expires_at = t0 + absolute_ttl s\<rparr>, d'')"
  using assms by (rule issue_then_verify)

text \<open>Verification accepts a token only for an unrevoked, unexpired session of an active user, and sliding
  the idle deadline neither moves the absolute deadline nor passes it.\<close>

theorem verified_session_sound:
  assumes "verify_session s token now d = Inr (Some v, d')" and "utc_now (clock d) now = Inr t"
  shows "(\<exists>tok r. token = Some tok \<and> r \<in> set (sessions d) \<and> sess_id_hash r = token_hash tok \<and>
      sess_revoked_at r = None \<and> t < sess_expires_at r \<and> t < sess_idle_expires_at r \<and>
      ver_user v \<in> set (users d) \<and> u_id (ver_user v) = sess_user_id r \<and> u_is_active (ver_user v) \<and>
      ver_expires_at v = sess_expires_at r) \<and>
    map sess_expires_at (sessions d') = map sess_expires_at (sessions d) \<and>
    (\<forall>r \<in> set (sessions d'). r \<in> set (sessions d) \<or> sess_idle_expires_at r \<le> sess_expires_at r)"
proof -
  obtain digest r u where 1: "validated_token_hash token = Some digest" "r \<in> set (sessions d)"
      "sess_id_hash r = digest" "u \<in> set (users d)" "u_id u = sess_user_id r"
      "session_usable t r u" "v = \<lparr>ver_user = u, ver_expires_at = sess_expires_at r\<rparr>"
    and d': "d' = d\<lparr>sessions := update_where (\<lambda>r. sess_id_hash r = digest)
        (\<lambda>r. r\<lparr>sess_last_seen_at := t, sess_idle_expires_at := min (sess_expires_at r) (t + idle_ttl s)\<rparr>)
        (sessions d)\<rparr>"
    using assms by (auto elim!: verify_session_Some)
  obtain tok where "token = Some tok" "digest = token_hash tok"
    using 1(1) by (auto simp: validated_token_hash_def split: option.splits if_splits)
  with 1 have "\<exists>tok r. token = Some tok \<and> r \<in> set (sessions d) \<and> sess_id_hash r = token_hash tok \<and>
      sess_revoked_at r = None \<and> t < sess_expires_at r \<and> t < sess_idle_expires_at r \<and>
      ver_user v \<in> set (users d) \<and> u_id (ver_user v) = sess_user_id r \<and> u_is_active (ver_user v) \<and>
      ver_expires_at v = sess_expires_at r"
    by (intro exI [of _ tok] exI [of _ r]) (simp add: session_usable_def)
  moreover have "map sess_expires_at (sessions d') = map sess_expires_at (sessions d)"
    by (simp add: d' update_where_def)
  moreover have "\<forall>r \<in> set (sessions d'). r \<in> set (sessions d) \<or> sess_idle_expires_at r \<le> sess_expires_at r"
    by (auto simp: d' set_update_where)
  ultimately show ?thesis by blast
qed

text \<open>C13. Revocation is final: once a token has been revoked, no sequence of issuing, verifying and revoking
  makes it verify again.\<close>

theorem revoked_session_stays_dead:
  assumes "sessions_inv d" and "revoke_session (Some token) now d = Inr (True, d')"
    and "utc_now (clock (session_runs cip s is d')) now' = Inr t"
  shows "verify_session s (Some token) now' (session_runs cip s is d') =
    Inr (None, session_runs cip s is d')"
proof -
  have inv: "sessions_inv d'"
    using revoke_session_keeps [OF assms(1,2)] by simp
  have "sessions_inv (session_runs cip s is d') \<and> dead (token_hash token) t (session_runs cip s is d')"
    using session_runs_keep [OF inv] revoke_session_dead [OF assms(2), of t] by blast
  then show ?thesis
    using assms(3) verify_dead by blast
qed

text \<open>A user, the session issued to her by a first sign-in, and its end.\<close>

definition signed_in :: "db \<Rightarrow> bool" where
  "signed_in d \<longleftrightarrow> users d = [a_user 1 UserRole.USER] \<and> sessions_inv d \<and> clock d = seconds 1000000"

definition sign_in_db :: db where
  "sign_in_db = db0\<lparr>users := [a_user 1 UserRole.USER]\<rparr>"

lemma signed_in_db: "signed_in sign_in_db"
  by (simp add: signed_in_def sign_in_db_def sample_defs sessions_inv_def unique_on_def)

lemma ttl_the_settings: "idle_ttl the_settings = seconds 3600" "absolute_ttl the_settings = seconds 43200"
  by (simp_all add: idle_ttl_def absolute_ttl_def the_settings_def runtime_settings_def)

lemma encode_utf8_Nil [simp]: "encode_utf8 [] = Inr []"
  using encode_utf8_ascii [of "[]"] by simp

lemma session_key_the_settings: "session_key the_settings = Inr []"
  by (simp add: session_key_def the_settings_def runtime_settings_def)

definition first_session :: "IssuedSession \<times> db" where
  "first_session = (case issue_session (\<lambda>ip. Some []) the_settings 1 [] None None sign_in_db of
     Inr p \<Rightarrow> p)"

lemma issue_works:
  "issue_session (\<lambda>ip. Some []) the_settings 1 [] None None sign_in_db = Inr first_session"
  by (simp add: first_session_def issue_session_def token_urlsafe_eq metadata_hash_def Let_def
      session_key_the_settings sign_in_db_def sample_defs)

lemma first_session:
  shows "clock (snd first_session) = seconds 1000000" and "sessions_inv (snd first_session)"
    and "token_pattern (iss_token (fst first_session))"
    and "sessions (snd first_session) = [\<lparr>sess_id_hash = token_hash (iss_token (fst first_session)),
      sess_user_id = 1, sess_created_at = seconds 1000000, sess_expires_at = seconds 1043200,
      sess_last_seen_at = seconds 1000000, sess_idle_expires_at = seconds 1003600,
      sess_ip_hash = hmac_sha256 [] [], sess_ua_hash = hmac_sha256 [] [], sess_revoked_at = None\<rparr>]"
proof -
  obtain x d' where p: "first_session = (x, d')" by fastforce
  note run = issue_works [unfolded p]
  show "clock (snd first_session) = seconds 1000000" and "token_pattern (iss_token (fst first_session))"
    using run by (auto elim!: issue_session_Inr simp: p sign_in_db_def sample_defs)
  have "sessions_inv sign_in_db" using signed_in_db by (simp add: signed_in_def)
  with run show "sessions_inv (snd first_session)" by (simp add: p issue_session_keeps)
  show "sessions (snd first_session) = [\<lparr>sess_id_hash = token_hash (iss_token (fst first_session)),
      sess_user_id = 1, sess_created_at = seconds 1000000, sess_expires_at = seconds 1043200,
      sess_last_seen_at = seconds 1000000, sess_idle_expires_at = seconds 1003600,
      sess_ip_hash = hmac_sha256 [] [], sess_ua_hash = hmac_sha256 [] [], sess_revoked_at = None\<rparr>]"
    using run
    by (auto simp: p issue_session_def token_urlsafe_eq metadata_hash_def Let_def
      session_key_the_settings sign_in_db_def sample_defs ttl_the_settings) (simp_all add: seconds_def)
qed

lemma first_session_verifies:
  "\<exists>d''. verify_session the_settings (Some (iss_token (fst first_session))) None (snd first_session) =
    Inr (Some \<lparr>ver_user = a_user 1 UserRole.USER, ver_expires_at = seconds 1043200\<rparr>, d'')"
proof -
  obtain x d' where p: "first_session = (x, d')" by fastforce
  have run: "issue_session (\<lambda>ip. Some []) the_settings (u_id (a_user 1 UserRole.USER)) [] None None
      sign_in_db = Inr (x, d')"
    using issue_works by (simp add: p a_user_def)
  then show ?thesis
    using issue_then_verify [OF _ run, of "seconds 1000000" None "seconds 1000000"]
      signed_in_db first_session(1)
    by (simp add: p signed_in_def ttl_the_settings) (simp add: sample_defs seconds_def)
qed

theorem issued_session_verifies_witness:
  "\<exists>d''. verify_session the_settings (Some (iss_token (fst first_session))) None (snd first_session) =
    Inr (Some \<lparr>ver_user = a_user 1 UserRole.USER, ver_expires_at = seconds 1043200\<rparr>, d'')"
proof -
  obtain x d' where p: "first_session = (x, d')" by fastforce
  have run: "issue_session (\<lambda>ip. Some []) the_settings (u_id (a_user 1 UserRole.USER)) [] None None
      sign_in_db = Inr (x, d')"
    using issue_works by (simp add: p a_user_def)
  then show ?thesis
    using issued_session_verifies [OF _ run, of "seconds 1000000" None "seconds 1000000"]
      signed_in_db first_session(1)
    by (simp add: p signed_in_def ttl_the_settings) (simp add: sample_defs seconds_def)
qed

theorem verified_session_sound_witness:
  "\<exists>d'. map sess_expires_at (sessions d') = [seconds 1043200] \<and>
    verify_session the_settings (Some (iss_token (fst first_session))) None (snd first_session) =
      Inr (Some \<lparr>ver_user = a_user 1 UserRole.USER, ver_expires_at = seconds 1043200\<rparr>, d')"
proof -
  obtain d' where run: "verify_session the_settings (Some (iss_token (fst first_session))) None
      (snd first_session) =
      Inr (Some \<lparr>ver_user = a_user 1 UserRole.USER, ver_expires_at = seconds 1043200\<rparr>, d')"
    using first_session_verifies by blast
  then show ?thesis
    using verified_session_sound [OF run] first_session(1,4) by auto
qed

theorem revoked_session_stays_dead_witness:
  "\<exists>d'. revoke_session (Some (iss_token (fst first_session))) None (snd first_session) = Inr (True, d') \<and>
    verify_session the_settings (Some (iss_token (fst first_session))) None
      (session_runs (\<lambda>ip. None) the_settings [Tick 0] d') =
    Inr (None, session_runs (\<lambda>ip. None) the_settings [Tick 0] d')"
proof -
  obtain d' where run: "revoke_session (Some (iss_token (fst first_session))) None (snd first_session)
      = Inr (True, d')"
    using first_session by (simp add: revoke_session_def validated_token_hash_def)
  then show ?thesis
    using revoked_session_stays_dead
      [OF first_session(2) run, of "\<lambda>ip. None" the_settings "[Tick 0]" None 0] by simp
qed

end
