(* ===== verification/Web.thy ===== *)
theory Web
  imports Sessions
begin

text \<open>
  The HTTP layer every route goes through: requests and responses, the parameters the application
  object carries, the request transaction (\<open>src/app/db.py\<close>), audit events (\<open>src/app/audit.py\<close>),
  session-backed authentication and role guards (\<open>src/app/auth/authorization.py\<close>), signed
  double-submit CSRF tokens (\<open>src/app/auth/csrf.py\<close>) and the security headers
  (\<open>src/app/middleware.py\<close>). The web framework is not modelled beyond what the routes use of it: a
  route either returns a response or raises, and an exception other than \<open>HTTPException\<close> becomes a
  500 response.
\<close>

section \<open>Requests and responses\<close>

text \<open>
  Header names are lower case. \<open>rq_client\<close> is \<open>request.client.host\<close>; a scope that is no HTTP request
  has \<open>rq_http\<close> false.
\<close>

record http_request =
  rq_http :: bool
  rq_method :: string
  rq_cookies :: "(string \<times> ustr) list"
  rq_headers :: "(string \<times> ustr) list"
  rq_query :: "(string \<times> ustr) list"
  rq_client :: "ustr option"
  rq_body :: bytes

datatype body = NoBody | PlainText ustr | Html ustr | Json json | Binary bytes

record http_response =
  rs_status :: nat
  rs_headers :: "(string \<times> ustr) list"
  rs_cookies :: "Cookie list"
  rs_body :: body

definition header :: "http_request \<Rightarrow> string \<Rightarrow> ustr option" where
  "header r k = map_of (rq_headers r) k"

definition cookie :: "http_request \<Rightarrow> string \<Rightarrow> ustr option" where
  "cookie r k = map_of (rq_cookies r) k"

definition query_param :: "http_request \<Rightarrow> string \<Rightarrow> ustr \<Rightarrow> ustr" where
  "query_param r k absent = (case map_of (rq_query r) k of None \<Rightarrow> absent | Some v \<Rightarrow> v)"

definition no_store :: "string \<times> ustr" where
  "no_store = (''cache-control'', uni ''no-store'')"

definition respond :: "nat \<Rightarrow> body \<Rightarrow> http_response" where
  "respond status b = \<lparr>rs_status = status, rs_headers = [], rs_cookies = [], rs_body = b\<rparr>"

definition redirect_to :: "ustr \<Rightarrow> http_response" where
  "redirect_to location =
     \<lparr>rs_status = 303, rs_headers = [(''location'', location)], rs_cookies = [], rs_body = NoBody\<rparr>"

definition with_header :: "string \<times> ustr \<Rightarrow> http_response \<Rightarrow> http_response" where
  "with_header h r = r\<lparr>rs_headers := h # filter (\<lambda>(k, v). k \<noteq> fst h) (rs_headers r)\<rparr>"

definition with_cookie :: "Cookie \<Rightarrow> http_response \<Rightarrow> http_response" where
  "with_cookie c r = r\<lparr>rs_cookies := rs_cookies r @ [c]\<rparr>"

definition html_no_store :: "nat \<Rightarrow> ustr \<Rightarrow> http_response" where
  "html_no_store status b = with_header no_store (respond status (Html b))"

section \<open>The application's parameters\<close>

text \<open>
  Argon2id (\<open>argon2-cffi\<close>): hashing takes the salt it draws; the documented law \<open>argon2_ok\<close> is that
  a hash verifies exactly the password it was made from.
\<close>

record argon2 =
  argon2_hash :: "ustr \<Rightarrow> bytes \<Rightarrow> ustr"
  argon2_verify :: "ustr \<Rightarrow> ustr \<Rightarrow> bool"
  argon2_needs_rehash :: "ustr \<Rightarrow> bool"

definition argon2_ok :: "argon2 \<Rightarrow> bool" where
  "argon2_ok A \<longleftrightarrow>
     (\<forall>p q salt. length salt = 16 \<longrightarrow> (argon2_verify A (argon2_hash A p salt) q \<longleftrightarrow> p = q))"

text \<open>An instance of the parameter: the hash is the salt followed by the password.\<close>

definition plain_argon2 :: argon2 where
  "plain_argon2 =
     \<lparr>argon2_hash = (\<lambda>p salt. map unat salt @ p),
      argon2_verify = (\<lambda>h p. drop 16 h = p),
      argon2_needs_rehash = (\<lambda>h. False)\<rparr>"

lemma plain_argon2_ok: "argon2_ok plain_argon2"
  by (auto simp: argon2_ok_def plain_argon2_def)

text \<open>
  \<open>app.state\<close> and the library functions a route calls: the canonical text of an IP address, JSON
  decoding of a body, \<open>urllib.parse.parse_qs\<close> with blank values kept (strict with at most two fields,
  or lenient), \<open>date.fromisoformat\<close> and \<open>uuid.UUID\<close>.
\<close>

record app =
  ap_settings :: Settings
  ap_unidata :: unidata
  ap_gcm :: aesgcm
  ap_argon2 :: argon2
  ap_ip :: "ustr \<Rightarrow> ustr option"
  ap_json_loads :: "bytes \<Rightarrow> json option"
  ap_parse_qs_strict :: "ustr \<Rightarrow> (ustr \<times> ustr list) list option"
  ap_parse_qs :: "ustr \<Rightarrow> (ustr \<times> ustr list) list"
  ap_fromisoformat :: "ustr \<Rightarrow> date option"
  ap_uuid :: "ustr \<Rightarrow> uuid option"

type_synonym handler = "http_request \<Rightarrow> db \<Rightarrow> (http_response \<times> db) res"

definition error_response :: "exn \<Rightarrow> http_response" where
  "error_response e = respond (case e of HTTPException n \<Rightarrow> n | _ \<Rightarrow> 500) NoBody"

text \<open>
  \<open>get_db_session\<close> commits a request that returns and rolls back one that raises, whatever it wrote.
\<close>

definition in_transaction :: "handler \<Rightarrow> http_request \<Rightarrow> db \<Rightarrow> http_response \<times> db" where
  "in_transaction h r d = (case h r d of Inl e \<Rightarrow> (error_response e, d) | Inr (rs, d') \<Rightarrow> (rs, d'))"

section \<open>Audit events\<close>

definition derived_key :: "Settings \<Rightarrow> string \<Rightarrow> bytes res" where
  "derived_key s purpose = bind_res (session_key s) (\<lambda>k. Inr (hmac_sha256 k (octets purpose)))"

definition audit_ip :: "app \<Rightarrow> http_request \<Rightarrow> bytes" where
  "audit_ip A r =
     (case ap_ip A (case rq_client r of None \<Rightarrow> [] | Some h \<Rightarrow> h) of
        None \<Rightarrow> octets ''invalid''
      | Some c \<Rightarrow> if isascii c then map word_of_nat c else octets ''invalid'')"

definition audit_event ::
  "app \<Rightarrow> http_request \<Rightarrow> string \<Rightarrow> uuid option \<Rightarrow> string option \<Rightarrow> ustr option
   \<Rightarrow> (ustr \<times> json) list \<Rightarrow> db \<Rightarrow> db res" where
  "audit_event A r action actor target_type target_id meta d =
     bind_res (derived_key (ap_settings A) ''leakcheck/audit-ip/v1'') (\<lambda>key.
     let (i, d) = uuid4 d in
     Inr (d\<lparr>audit_log := audit_log d @
       [\<lparr>al_id = i, al_actor_id = actor, al_action = action, al_target_type = target_type,
         al_target_id = target_id, al_ip_hash = hmac_sha256 key (audit_ip A r), al_at = tx_now d,
         al_meta = meta\<rparr>]\<rparr>))"

section \<open>Authentication and roles\<close>

definition get_current_user :: "app \<Rightarrow> http_request \<Rightarrow> db \<Rightarrow> (User \<times> db) res" where
  "get_current_user A r d =
     bind_res (verify_session (ap_settings A) (cookie r SESSION_COOKIE_NAME) None d) (\<lambda>(v, d).
     case v of None \<Rightarrow> Inl (HTTPException 401) | Some v \<Rightarrow> Inr (ver_user v, d))"

text \<open>A guard needs at least one role; a route then runs with the user the guard resolved.\<close>

definition require_role ::
  "UserRole list \<Rightarrow> (app \<Rightarrow> http_request \<Rightarrow> db \<Rightarrow> (User \<times> db) res) res" where
  "require_role allowed =
     (if allowed = [] then Inl ValueError
      else Inr (\<lambda>A r d.
        bind_res (get_current_user A r d) (\<lambda>(u, d).
        if u_role u \<notin> set allowed then Inl (HTTPException 403) else Inr (u, d))))"

definition guarded :: "UserRole list \<Rightarrow> app \<Rightarrow> (User \<Rightarrow> handler) \<Rightarrow> handler" where
  "guarded allowed A h r d =
     bind_res (require_role allowed) (\<lambda>guard.
     bind_res (guard A r d) (\<lambda>(u, d). h u r d))"

section \<open>CSRF protection\<close>

definition CSRF_COOKIE_NAME :: string where
  "CSRF_COOKIE_NAME = ''__Host-leakcheck-csrf''"

definition CSRF_HEADER_NAME :: string where
  "CSRF_HEADER_NAME = ''x-csrf-token''"

definition SAFE_METHODS :: "string list" where
  "SAFE_METHODS = [''GET'', ''HEAD'', ''OPTIONS'', ''TRACE'']"

definition signed_token_pattern :: "ustr \<Rightarrow> bool" where
  "signed_token_pattern s \<longleftrightarrow>
     length s = 87 \<and> list_all is_urlsafe (take 43 s) \<and> s ! 43 = 46 \<and> list_all is_urlsafe (drop 44 s)"

definition session_context :: "ustr option \<Rightarrow> bytes" where
  "session_context session_token =
     (case session_token of
        None \<Rightarrow> octets ''anonymous''
      | Some t \<Rightarrow> if token_pattern t then octets ''session'' @ [0] @ map word_of_nat t
                  else octets ''anonymous'')"

definition csrf_signature :: "bytes \<Rightarrow> ustr \<Rightarrow> ustr option \<Rightarrow> ustr" where
  "csrf_signature key nonce session_token =
     base64url (hmac_sha256 key
       (octets ''leakcheck/csrf/v1'' @ [0] @ session_context session_token @ [0] @
        map word_of_nat nonce))"

definition csrf_key :: "Settings \<Rightarrow> bytes res" where
  "csrf_key s = derived_key s ''leakcheck/csrf/v1''"

definition csrf_issue :: "bytes \<Rightarrow> ustr option \<Rightarrow> http_response \<Rightarrow> db \<Rightarrow> (ustr \<times> http_response) \<times> db" where
  "csrf_issue key session_token response d =
     (let (nonce, d) = token_urlsafe 32 d;
          token = nonce @ [46] @ csrf_signature key nonce session_token
      in ((token, with_cookie
             \<lparr>ck_key = CSRF_COOKIE_NAME, ck_value = token, ck_max_age = None, ck_path = ''/'',
              ck_secure = True, ck_httponly = False, ck_samesite = ''lax''\<rparr> response), d))"

definition csrf_valid :: "bytes \<Rightarrow> ustr option \<Rightarrow> ustr option \<Rightarrow> ustr option \<Rightarrow> bool" where
  "csrf_valid key session_token cookie_value supplied_value =
     (case (cookie_value, supplied_value) of
        (Some c, Some v) \<Rightarrow>
          signed_token_pattern c \<and> signed_token_pattern v \<and> c = v \<and>
          drop 44 c = csrf_signature key (take 43 c) session_token
      | _ \<Rightarrow> False)"

definition csrf_middleware ::
  "bytes \<Rightarrow> (http_request \<Rightarrow> db \<Rightarrow> http_response \<times> db) \<Rightarrow> http_request \<Rightarrow> db \<Rightarrow> http_response \<times> db" where
  "csrf_middleware key inner r d =
     (if \<not> rq_http r \<or> rq_method r \<in> set SAFE_METHODS then inner r d
      else if \<not> csrf_valid key (cookie r SESSION_COOKIE_NAME) (cookie r CSRF_COOKIE_NAME)
                  (header r CSRF_HEADER_NAME)
      then (with_header no_store (respond 403 (PlainText (uni ''CSRF validation failed.''))), d)
      else inner r d)"

section \<open>Security headers\<close>

definition CSP :: string where
  "CSP = ''default-src 'self'; base-uri 'none'; connect-src 'self'; font-src 'self'; '' @
         ''form-action 'self'; frame-ancestors 'none'; img-src 'self' data:; object-src 'none'; '' @
         ''script-src 'self'; style-src 'self'' @ [CHR 0x27]"

definition security_headers :: "Environment \<Rightarrow> (string \<times> ustr) list" where
  "security_headers e =
     [(''content-security-policy'', uni CSP),
      (''cross-origin-opener-policy'', uni ''same-origin''),
      (''cross-origin-resource-policy'', uni ''same-origin''),
      (''permissions-policy'', uni ''camera=(), geolocation=(), microphone=(), payment=(), usb=()''),
      (''referrer-policy'', uni ''no-referrer''),
      (''x-content-type-options'', uni ''nosniff''),
      (''x-frame-options'', uni ''DENY'')] @
     (if e = PRODUCTION
      then [(''strict-transport-security'', uni ''max-age=63072000; includeSubDomains'')] else [])"

definition security_middleware ::
  "Environment \<Rightarrow> (http_request \<Rightarrow> db \<Rightarrow> http_response \<times> db) \<Rightarrow> http_request \<Rightarrow> db \<Rightarrow> http_response \<times> db" where
  "security_middleware e inner r d =
     (let (rs, d) = inner r d in
      (if rq_http r then fold with_header (security_headers e) rs else rs, d))"

section \<open>Facts\<close>

lemma base64url_inject [simp]: "base64url a = base64url b \<longleftrightarrow> a = b"
  by (metis decode_key_base64url option.inject)

lemma is_urlsafe_not_dot: "is_urlsafe c \<Longrightarrow> c \<noteq> 46"
  by (auto simp: is_urlsafe_def)

lemma audit_event_Inr:
  assumes "audit_event A r act actor tt ti meta d = Inr d'"
  obtains k i where "derived_key (ap_settings A) ''leakcheck/audit-ip/v1'' = Inr k"
    "d' = d\<lparr>drawn := drawn d + 16, audit_log := audit_log d @
       [\<lparr>al_id = i, al_actor_id = actor, al_action = act, al_target_type = tt, al_target_id = ti,
         al_ip_hash = hmac_sha256 k (audit_ip A r), al_at = tx_now d, al_meta = meta\<rparr>]\<rparr>"
  using assms by (auto simp: audit_event_def bind_res_Inr_iff uuid4_eq)

text \<open>Every table but the audit log, which an audit event leaves alone.\<close>

lemma audit_event_frame [frame_simps]:
  assumes "audit_event A r act actor tt ti meta d = Inr d'"
  shows "users d' = users d" "admin_credentials d' = admin_credentials d"
    "admin_login_rate_limits d' = admin_login_rate_limits d" "sessions d' = sessions d"
    "platform_settings d' = platform_settings d" "subjects d' = subjects d" "scans d' = scans d"
    "breach_sources d' = breach_sources d" "findings d' = findings d"
    "finding_events d' = finding_events d" "scan_batches d' = scan_batches d"
    "scan_queue d' = scan_queue d" "schedules d' = schedules d"
    "notifications d' = notifications d" "watchlist d' = watchlist d"
    "alert_outbox d' = alert_outbox d" "branding d' = branding d" "clock d' = clock d"
    "tx_now d' = tx_now d" "entropy d' = entropy d"
    "\<exists>e. audit_log d' = audit_log d @ [e] \<and> al_action e = act \<and> al_actor_id e = actor \<and>
       al_target_id e = ti \<and> length (al_ip_hash e) = 32"
  using assms by (auto elim!: audit_event_Inr)

lemma audit_event_works:
  "session_key (ap_settings A) = Inr k \<Longrightarrow> \<exists>d'. audit_event A r act actor tt ti meta d = Inr d'"
  by (simp add: audit_event_def derived_key_def uuid4_eq)

lemma get_current_user_Inr:
  assumes "get_current_user A r d = Inr (u, d')"
  obtains v where "verify_session (ap_settings A) (cookie r SESSION_COOKIE_NAME) None d = Inr (Some v, d')"
    "u = ver_user v"
  using assms by (auto simp: get_current_user_def bind_res_Inr_iff split: option.splits)

lemma guarded_Inr:
  assumes "guarded allowed A h r d = Inr (rs, d')"
  obtains u d1 where "get_current_user A r d = Inr (u, d1)" "u_role u \<in> set allowed"
    "h u r d1 = Inr (rs, d')"
  using assms by (auto simp: guarded_def require_role_def bind_res_Inr_iff split: if_splits)

lemma guarded_eq:
  "get_current_user A r d = Inr (u, d1) \<Longrightarrow> u_role u \<in> set allowed \<Longrightarrow>
   guarded allowed A h r d = h u r d1"
  by (auto simp: guarded_def require_role_def)

lemma session_context_inject:
  assumes "token_pattern s" and "token_pattern t" and "session_context (Some s) = session_context (Some t)"
  shows "s = t"
proof -
  have "map word_of_nat s = (map word_of_nat t :: bytes)"
    using assms by (simp add: session_context_def)
  moreover have "c < 256" if "c \<in> set s \<union> set t" for c
    using that assms(1,2) by (auto simp: token_pattern_def list_all_iff is_urlsafe_def)
  ultimately show ?thesis
    using unat_map_word_of_nat [of s] unat_map_word_of_nat [of t] by (metis UnI1 UnI2)
qed

text \<open>The CSRF middleware is a barrier before the routes.\<close>

lemma csrf_middleware_blocks:
  "rq_http r \<Longrightarrow> rq_method r \<notin> set SAFE_METHODS \<Longrightarrow>
   \<not> csrf_valid key (cookie r SESSION_COOKIE_NAME) (cookie r CSRF_COOKIE_NAME) (header r CSRF_HEADER_NAME) \<Longrightarrow>
   \<exists>rs. csrf_middleware key inner r d = (rs, d) \<and> rs_status rs = 403"
  by (simp add: csrf_middleware_def respond_def with_header_def)

section \<open>Properties\<close>

lemma csrf_issue_accepted:
  assumes "csrf_issue key session_token response d = ((token, response'), d')"
  shows "csrf_valid key session_token (Some token) (Some token) \<and>
    (\<exists>c. rs_cookies response' = rs_cookies response @ [c] \<and> ck_value c = token \<and> ck_secure c)"
proof -
  let ?n = "base64url (next_bytes 32 d)"
  have tok: "token = ?n @ [46] @ csrf_signature key ?n session_token"
    and rs: "response' = with_cookie
             \<lparr>ck_key = CSRF_COOKIE_NAME, ck_value = token, ck_max_age = None, ck_path = ''/'',
              ck_secure = True, ck_httponly = False, ck_samesite = ''lax''\<rparr> response"
    using assms by (auto simp: csrf_issue_def token_urlsafe_eq Let_def)
  have "length ?n = 43" "length (csrf_signature key ?n session_token) = 43"
    by (simp_all add: length_base64url csrf_signature_def)
  moreover have "list_all is_urlsafe ?n" "list_all is_urlsafe (csrf_signature key ?n session_token)"
    by (simp_all add: base64url_urlsafe csrf_signature_def)
  ultimately show ?thesis
    by (simp add: tok rs csrf_valid_def signed_token_pattern_def nth_append with_cookie_def)
qed

text \<open>
  A CSRF token issued for a browser session is accepted, as cookie and header, for that session:
  the pattern, the comparison and the signature all agree with what was issued.
\<close>

theorem csrf_issued_valid:
  assumes "csrf_issue key session_token response d = ((token, response'), d')"
  shows "csrf_valid key session_token (Some token) (Some token) \<and>
    (\<exists>c. rs_cookies response' = rs_cookies response @ [c] \<and> ck_value c = token \<and> ck_secure c)"
  using assms by (rule csrf_issue_accepted)

text \<open>
  CSRF tokens are bound to their session: a token accepted under two well-formed session tokens is
  accepted under one session, or else exhibits two distinct messages with the same HMAC-SHA-256 tag.
\<close>

theorem csrf_bound_to_session:
  assumes "csrf_valid key (Some s) (Some c) (Some c)" and "csrf_valid key (Some t) (Some c) (Some c)"
    and "token_pattern s" and "token_pattern t"
  shows "s = t \<or> (\<exists>m m'. m \<noteq> m' \<and> hmac_sha256 key m = hmac_sha256 key m')"
proof (cases "s = t")
  case ne: False
  let ?m = "\<lambda>s. octets ''leakcheck/csrf/v1'' @ [0] @ session_context (Some s) @ [0] @
    map word_of_nat (take 43 c)"
  have "csrf_signature key (take 43 c) (Some s) = csrf_signature key (take 43 c) (Some t)"
    using assms(1,2) by (auto simp: csrf_valid_def)
  then have "hmac_sha256 key (?m s) = hmac_sha256 key (?m t)"
    unfolding csrf_signature_def base64url_inject .
  moreover have "session_context (Some s) \<noteq> session_context (Some t)"
    using session_context_inject [OF assms(3,4)] ne by blast
  then have "?m s \<noteq> ?m t"
    unfolding same_append_eq append_same_eq .
  ultimately have "?m s \<noteq> ?m t \<and> hmac_sha256 key (?m s) = hmac_sha256 key (?m t)" by (rule conjI [rotated])
  then show ?thesis by (intro disjI2 exI)
qed simp

text \<open>
  A guarded route acts only for a signed-in user with a permitted role: if it returns a response, the
  request carried the token of an unrevoked session, neither deadline of which has passed, of an
  active user whose role the guard permits, and the route ran as that user.
\<close>

theorem guarded_route_sound:
  assumes "guarded allowed A h r d = Inr (rs, d')"
  shows "\<exists>token s u d1. cookie r SESSION_COOKIE_NAME = Some token \<and> s \<in> set (sessions d) \<and>
    sess_id_hash s = token_hash token \<and> sess_revoked_at s = None \<and> clock d < sess_expires_at s \<and>
    clock d < sess_idle_expires_at s \<and> u \<in> set (users d) \<and> u_id u = sess_user_id s \<and>
    u_is_active u \<and> u_role u \<in> set allowed \<and> h u r d1 = Inr (rs, d')"
proof -
  obtain u d1 where u: "get_current_user A r d = Inr (u, d1)" "u_role u \<in> set allowed"
    "h u r d1 = Inr (rs, d')"
    using assms by (rule guarded_Inr)
  obtain v where v: "verify_session (ap_settings A) (cookie r SESSION_COOKIE_NAME) None d = Inr (Some v, d1)"
    "u = ver_user v"
    using u(1) by (rule get_current_user_Inr)
  obtain digest s where "validated_token_hash (cookie r SESSION_COOKIE_NAME) = Some digest"
    "s \<in> set (sessions d)" "sess_id_hash s = digest" "u \<in> set (users d)" "u_id u = sess_user_id s"
    "session_usable (clock d) s u"
    using v by (auto elim!: verify_session_Some)
  with u(2,3) show ?thesis
    by (auto simp: validated_token_hash_def session_usable_def split: option.splits if_splits)
qed

text \<open>Concrete instances: the token of the first session, a collision of a constant tag, a route.\<close>

theorem csrf_issued_valid_witness:
  "\<exists>token. csrf_valid [1] None (Some token) (Some token)"
  using csrf_issued_valid [of "[1]" None "respond 204 NoBody" db0] by (metis surj_pair)

lemma csrf_issue_works:
  obtains token where "csrf_valid key session_token (Some token) (Some token)"
  using csrf_issue_accepted [of key session_token "respond 204 NoBody" db0] by (metis surj_pair)

theorem csrf_bound_to_session_witness:
  "\<exists>c. csrf_valid [1] (Some (replicate 43 65)) (Some c) (Some c) \<and>
    (replicate 43 (65::nat) = replicate 43 65 \<or> (\<exists>m m'. m \<noteq> m' \<and> hmac_sha256 [1] m = hmac_sha256 [1] m'))"
proof -
  obtain c where c: "csrf_valid [1] (Some (replicate 43 65)) (Some c) (Some c)"
    by (rule csrf_issue_works)
  have "token_pattern (replicate 43 65)"
    by (simp add: token_pattern_def is_urlsafe_def list_all_iff)
  with c show ?thesis
    using csrf_bound_to_session [OF c c] by blast
qed

definition post_request :: "(string \<times> ustr) list \<Rightarrow> http_request" where
  "post_request cookies =
     \<lparr>rq_http = True, rq_method = ''POST'', rq_cookies = cookies, rq_headers = [], rq_query = [],
      rq_client = None, rq_body = []\<rparr>"

definition the_app :: app where
  "the_app =
     \<lparr>ap_settings = the_settings, ap_unidata = ascii_unidata, ap_gcm = suffix_gcm,
      ap_argon2 = plain_argon2, ap_ip = (\<lambda>h. if h = [] then None else Some h),
      ap_json_loads = (\<lambda>b. None), ap_parse_qs_strict = (\<lambda>s. None), ap_parse_qs = (\<lambda>s. []),
      ap_fromisoformat = (\<lambda>s. None), ap_uuid = (\<lambda>s. None)\<rparr>"

definition first_request :: http_request where
  "first_request = post_request [(SESSION_COOKIE_NAME, iss_token (fst first_session))]"

definition echo_route :: "User \<Rightarrow> handler" where
  "echo_route u r d = Inr (respond 200 (PlainText (u_email u)), d)"

lemma first_request_user:
  "\<exists>d'. get_current_user the_app first_request (snd first_session) = Inr (a_user 1 UserRole.USER, d')"
  using first_session_verifies
  by (auto simp: get_current_user_def first_request_def post_request_def cookie_def the_app_def)

theorem guarded_route_sound_witness:
  "\<exists>s. s \<in> set (sessions (snd first_session)) \<and> sess_revoked_at s = None \<and>
     seconds 1000000 < sess_expires_at s"
proof -
  obtain d' where "get_current_user the_app first_request (snd first_session)
      = Inr (a_user 1 UserRole.USER, d')"
    using first_request_user by blast
  then have "guarded [UserRole.USER] the_app echo_route first_request (snd first_session) =
      Inr (respond 200 (PlainText (u_email (a_user 1 UserRole.USER))), d')"
    by (subst guarded_eq) (auto simp: echo_route_def a_user_def)
  from guarded_route_sound [OF this] show ?thesis
    using first_session(1) by auto
qed

end
