(* ===== verification/Notifications.thy ===== *)
theory Notifications
  imports Web
begin

text \<open>
  The mail outbox (\<open>src/app/notifications.py\<close>): queueing one message per user, template and set of
  findings, the daily digest, and the delivery of one queued message with dry-run and cooldown. The
  transport is a parameter that returns the exception it raises, if any.
\<close>

section \<open>Calendar dates\<close>

text \<open>
  \<open>datetime.date()\<close> in UTC: the proleptic Gregorian date of a number of microseconds, by eras of
  146097 days that start on the first of March.
\<close>

definition civil_of_days :: "int \<Rightarrow> date" where
  "civil_of_days n =
     (let z = n + 719468; era = z div 146097; doe = z mod 146097;
          yoe = (doe - doe div 1460 + doe div 36524 - doe div 146096) div 365;
          doy = doe - (365 * yoe + yoe div 4 - yoe div 100);
          mp = (5 * doy + 2) div 153; k = doy - (153 * mp + 2) div 5 + 1;
          m = (if mp < 10 then mp + 3 else mp - 9)
      in (nat (yoe + era * 400 + (if m \<le> 2 then 1 else 0)), nat m, nat k))"

definition utc_date :: "datetime \<Rightarrow> date" where
  "utc_date t = civil_of_days (t div 86400000000)"

lemma civil_of_days_samples:
  "civil_of_days 0 = (1970, 1, 1)" "civil_of_days 11016 = (2000, 2, 29)" "civil_of_days 19782 = (2024, 2, 29)"
  "civil_of_days 20088 = (2024, 12, 31)" "civil_of_days 20089 = (2025, 1, 1)"
  by code_simp+

text \<open>\<open>datetime.isoformat()\<close> of an aware UTC instant.\<close>

definition datetime_iso :: "datetime \<Rightarrow> ustr" where
  "datetime_iso t =
     (let us = nat (t mod 86400000000); s = us div 1000000; f = us mod 1000000 in
      isoformat (utc_date t) @ [84] @ padded 2 (s div 3600) @ [58] @ padded 2 (s div 60 mod 60) @ [58] @
        padded 2 (s mod 60) @ (if f = 0 then [] else [46] @ padded 6 f) @ uni ''+00:00'')"

section \<open>Data\<close>

record MailMessage =
  mail_recipient :: ustr
  mail_subject :: ustr
  mail_body :: ustr

record SMTPConfig =
  smtp_host :: ustr
  smtp_port :: int
  smtp_username :: "ustr option"
  smtp_password :: "ustr option"
  smtp_sender :: ustr
  smtp_security :: ustr

type_synonym sender = "MailMessage \<Rightarrow> exn option"

definition TEMPLATE :: string where
  "TEMPLATE = ''new_findings''"

definition DIGEST_TEMPLATE :: string where
  "DIGEST_TEMPLATE = ''findings_digest''"

section \<open>Queueing\<close>

definition ntf_dedupe :: "uuid \<Rightarrow> string \<Rightarrow> ustr list \<Rightarrow> bytes" where
  "ntf_dedupe user_id template ids =
     sha256 (octets ''leakcheck/notification/v1'' @ [0] @ uuid_bytes user_id @ octets template @
             concat (map (map word_of_nat) ids))"

definition sorted_ids :: "uuid list \<Rightarrow> ustr list" where
  "sorted_ids finding_ids = sort (remdups (map uuid_str finding_ids))"

definition enqueue_notification :: "uuid \<Rightarrow> uuid list \<Rightarrow> string \<Rightarrow> db \<Rightarrow> db" where
  "enqueue_notification user_id finding_ids template d =
     (let ids = sorted_ids finding_ids in
      if ids = [] then d
      else
        let (i, d) = uuid4 d; key = ntf_dedupe user_id template ids in
        d\<lparr>notifications := insert_if_absent (\<lambda>n. ntf_dedupe_key n = key)
            \<lparr>ntf_id = i, ntf_user_id = user_id, ntf_template = template, ntf_finding_ids = ids,
             ntf_status = NotificationStatus.PENDING, ntf_dedupe_key = key, ntf_attempts = 0,
             ntf_error = None, ntf_created_at = tx_now d, ntf_sent_at = None\<rparr>
            (notifications d)\<rparr>)"

definition enqueue_new_findings :: "Subject \<Rightarrow> uuid list \<Rightarrow> db \<Rightarrow> db" where
  "enqueue_new_findings subject finding_ids d =
     (case sub_linked_user_id subject of
        None \<Rightarrow> d
      | Some u \<Rightarrow> if finding_ids = [] then d else enqueue_notification u finding_ids TEMPLATE d)"

text \<open>The rows of the digest query, and Python's grouping of them by user.\<close>

definition digest_rows :: "db \<Rightarrow> (uuid \<times> uuid) list" where
  "digest_rows d = sort (concat (map (\<lambda>u. concat (map (\<lambda>s.
       if sub_linked_user_id s = Some (u_id u)
       then map (\<lambda>f. (u_id u, fnd_id f))
              (filter (\<lambda>f. fnd_subject_id f = sub_id s \<and> fnd_remediated_at f = None) (findings d))
       else []) (subjects d))) (filter u_is_active (users d))))"

definition group_rows :: "(uuid \<times> uuid) list \<Rightarrow> (uuid \<times> uuid list) list" where
  "group_rows rows =
     map (\<lambda>u. (u, map snd (filter (\<lambda>r. fst r = u) rows))) (rev (remdups (rev (map fst rows))))"

definition digest_template :: "datetime \<Rightarrow> string" where
  "digest_template t = DIGEST_TEMPLATE @ '':'' @ map char_of (isoformat (utc_date t))"

definition enqueue_digest_notifications :: "datetime \<Rightarrow> db \<Rightarrow> nat \<times> db" where
  "enqueue_digest_notifications now d =
     (let grouped = group_rows (digest_rows d) in
      (length grouped,
       fold (\<lambda>(u, ids) d. enqueue_notification u ids (digest_template now) d) grouped d))"

section \<open>Delivery\<close>

definition portal_message :: "ustr \<Rightarrow> ustr \<Rightarrow> MailMessage" where
  "portal_message recipient base_url =
     \<lparr>mail_recipient = recipient,
      mail_subject = uni ''LeakCheck Hub: security action available'',
      mail_body =
        uni ''LeakCheck Hub has security information requiring your review.'' @ [10, 10] @
        uni ''Sign in to review and remediate it: '' @ base_url @ uni ''/portal'' @ [10, 10] @
        uni ''For your protection, exposure details are available only after sign-in.''\<rparr>"

type_synonym setting_values = "(SettingKey \<times> ustr) list"

definition setting_or :: "setting_values \<Rightarrow> SettingKey \<Rightarrow> ustr \<Rightarrow> ustr" where
  "setting_or vs k absent = (case map_of vs k of None \<Rightarrow> absent | Some v \<Rightarrow> v)"

definition smtp_config :: "unidata \<Rightarrow> setting_values \<Rightarrow> SMTPConfig res" where
  "smtp_config U vs =
     bind_res (of_option NotificationConfigurationError (map_of vs SMTP_HOST)) (\<lambda>host.
     bind_res (of_option NotificationConfigurationError
                 (Option.bind (map_of vs SMTP_PORT) (py_int U))) (\<lambda>port.
     bind_res (of_option NotificationConfigurationError (map_of vs SMTP_FROM)) (\<lambda>sender.
     let security = setting_or vs SMTP_SECURITY (uni ''starttls'') in
     if host = [] \<or> sender = [] \<or> security \<notin> {uni ''starttls'', uni ''tls''} \<or>
        \<not> (1 \<le> port \<and> port \<le> 65535)
     then Inl NotificationConfigurationError
     else Inr \<lparr>smtp_host = host, smtp_port = port, smtp_username = map_of vs SMTP_USERNAME,
               smtp_password = map_of vs SMTP_PASSWORD, smtp_sender = sender,
               smtp_security = security\<rparr>)))"

definition base_url :: "setting_values \<Rightarrow> ustr res" where
  "base_url vs =
     (let value = rstrip_of (\<lambda>c. c = 47) (setting_or vs PUBLIC_BASE_URL []) in
      if take 8 value \<noteq> uni ''https://'' then Inl NotificationConfigurationError else Inr value)"

definition bool_setting :: "unidata \<Rightarrow> ustr option \<Rightarrow> bool \<Rightarrow> bool res" where
  "bool_setting U value absent =
     (case value of
        None \<Rightarrow> Inr absent
      | Some v \<Rightarrow>
          if casefold U v \<in> set (map uni [''true'', ''1'', ''yes'', ''on'']) then Inr True
          else if casefold U v \<in> set (map uni [''false'', ''0'', ''no'', ''off'']) then Inr False
          else Inl PlatformSettingError)"

definition int_setting :: "unidata \<Rightarrow> ustr option \<Rightarrow> int \<Rightarrow> int res" where
  "int_setting U value absent =
     bind_res (case value of None \<Rightarrow> Inr absent | Some v \<Rightarrow> of_option ValueError (py_int U v)) (\<lambda>parsed.
     if \<not> (0 \<le> parsed \<and> parsed \<le> 30 * 24 * 60 * 60) then Inl PlatformSettingError else Inr parsed)"

definition set_notification :: "uuid \<Rightarrow> (Notification \<Rightarrow> Notification) \<Rightarrow> db \<Rightarrow> db" where
  "set_notification i f d =
     d\<lparr>notifications := update_where (\<lambda>n. ntf_id n = i) f (notifications d)\<rparr>"

text \<open>The first pending message whose user exists, in the order of the queue.\<close>

definition next_notification :: "db \<Rightarrow> (Notification \<times> User) option" where
  "next_notification d =
     (case sort_key (\<lambda>n. (ntf_created_at n, ntf_id n))
             (filter (\<lambda>n. ntf_status n = NotificationStatus.PENDING \<and> ntf_user_id n \<in> u_id ` set (users d))
                (notifications d)) of
        [] \<Rightarrow> None
      | n # _ \<Rightarrow> (case find (\<lambda>u. u_id u = ntf_user_id n) (users d) of
                     None \<Rightarrow> None | Some u \<Rightarrow> Some (n, u)))"

definition sent_since :: "uuid \<Rightarrow> datetime \<Rightarrow> db \<Rightarrow> nat" where
  "sent_since user_id t d =
     rowcount (\<lambda>n. ntf_user_id n = user_id \<and> ntf_status n = NotificationStatus.SENT \<and>
       (case ntf_sent_at n of None \<Rightarrow> False | Some s \<Rightarrow> t < s)) (notifications d)"

text \<open>Sending: the sender supplied, or the SMTP transport of the stored configuration.\<close>

definition send_message ::
  "unidata \<Rightarrow> (SMTPConfig \<Rightarrow> sender) \<Rightarrow> sender option \<Rightarrow> setting_values \<Rightarrow> User \<Rightarrow> exn option" where
  "send_message U smtp sender vs user =
     (case base_url vs of
        Inl e \<Rightarrow> Some e
      | Inr url \<Rightarrow>
          (case (case sender of Some s \<Rightarrow> Inr s | None \<Rightarrow> bind_res (smtp_config U vs) (\<lambda>c. Inr (smtp c))) of
             Inl e \<Rightarrow> Some e
           | Inr s \<Rightarrow> s (portal_message (u_email user) url)))"

definition deliver_next ::
  "app \<Rightarrow> (SMTPConfig \<Rightarrow> sender) \<Rightarrow> sender option \<Rightarrow> datetime option \<Rightarrow> db \<Rightarrow> (bool \<times> db) res" where
  "deliver_next A smtp sender now d =
     (let current = (case now of None \<Rightarrow> clock d | Some t \<Rightarrow> t); U = ap_unidata A in
      case next_notification d of
        None \<Rightarrow> Inr (False, d)
      | Some (n, user) \<Rightarrow>
          let d = set_notification (ntf_id n) (\<lambda>n. n\<lparr>ntf_attempts := ntf_attempts n + 1\<rparr>) d;
              put = (\<lambda>f. set_notification (ntf_id n) f d) in
          bind_res (read_many (ap_gcm A) (ap_settings A) all_setting_keys d) (\<lambda>vs.
          bind_res (bool_setting U (map_of vs NOTIFY_DRY_RUN) True) (\<lambda>dry_run.
          if dry_run then Inr (True, put (\<lambda>n. n\<lparr>ntf_status := NotificationStatus.DRY_RUN\<rparr>))
          else
            bind_res (int_setting U (map_of vs NOTIFY_COOLDOWN_SECONDS) 86400) (\<lambda>cooldown.
            if cooldown \<noteq> 0 \<and> 0 < sent_since (u_id user) (current - seconds cooldown) d
            then Inr (True, put (\<lambda>n. n\<lparr>ntf_status := NotificationStatus.SUPPRESSED,
                               ntf_error := Some ''notification cooldown active''\<rparr>))
            else Inr (True, put
              (case send_message U smtp sender vs user of
                 Some e \<Rightarrow> (\<lambda>n. n\<lparr>ntf_status := NotificationStatus.FAILED, ntf_error := Some (exn_name e)\<rparr>)
               | None \<Rightarrow> (\<lambda>n. n\<lparr>ntf_status := NotificationStatus.SENT, ntf_sent_at := Some current,
                               ntf_error := None\<rparr>)))))))"

lemma sort_key_hd: "sort_key k xs = a # r \<Longrightarrow> a \<in> set xs"
  by (drule arg_cong [where f = set]) auto

end
