(* ===== verification/Alerts.thy ===== *)
theory Alerts
  imports Notifications
begin

text \<open>
  The alert outbox (\<open>src/app/alerts.py\<close>): one envelope per sink and event, fan-out of findings of
  watchlisted subjects, and dispatch with bounded exponential retries and dead-lettering. A sink is a
  parameter that returns the exception it raises, if any.
\<close>

section \<open>Queueing\<close>

type_synonym payload = "(ustr \<times> json) list"

definition MAX_ATTEMPTS :: nat where
  "MAX_ATTEMPTS = 5"

definition alert_dedupe :: "AlertSinkName \<Rightarrow> ustr \<Rightarrow> bytes" where
  "alert_dedupe sink scope =
     sha256 (octets ''leakcheck/alert-outbox/v1'' @ [0] @ octets (AlertSinkName_value sink) @ [0] @
             map word_of_nat scope)"

definition enqueue_alert :: "AlertSinkName \<Rightarrow> payload \<Rightarrow> ustr \<Rightarrow> db \<Rightarrow> db" where
  "enqueue_alert sink payload scope d =
     (let (i, d) = uuid4 d; key = alert_dedupe sink scope in
      d\<lparr>alert_outbox := insert_if_absent (\<lambda>a. ao_dedupe_key a = key)
          \<lparr>ao_id = i, ao_sink = sink, ao_payload = payload, ao_status = AlertOutboxStatus.PENDING,
           ao_dedupe_key = key, ao_attempts = 0, ao_next_attempt_at = tx_now d, ao_last_error = None,
           ao_created_at = tx_now d, ao_delivered_at = None\<rparr>
          (alert_outbox d)\<rparr>)"

definition enqueue_test_alert :: "AlertSinkName \<Rightarrow> db \<Rightarrow> db" where
  "enqueue_test_alert sink d =
     (let (test_id, d) = uuid4 d in
      enqueue_alert sink
        [(uni ''schema'', JStr (uni ''leakcheck.alert.v1'')), (uni ''event'', JStr (uni ''test'')),
         (uni ''test_id'', JStr (uuid_str test_id)),
         (uni ''generated_at'', JStr (datetime_iso (clock d)))]
        (uni ''test:'' @ uuid_str test_id) d)"

definition alert_event :: "Finding \<Rightarrow> string" where
  "alert_event f = (if fnd_severity f = FindingSeverity.HIGH then ''re_leaked'' else ''new_finding'')"

definition alert_payload :: "Subject \<Rightarrow> Finding \<Rightarrow> payload" where
  "alert_payload subject f =
     [(uni ''schema'', JStr (uni ''leakcheck.alert.v1'')), (uni ''event'', JStr (uni (alert_event f))),
      (uni ''finding_id'', JStr (uuid_str (fnd_id f))),
      (uni ''subject_id'', JStr (uuid_str (sub_id subject))),
      (uni ''subject_kind'', JStr (uni (SubjectKind_value (sub_kind subject)))),
      (uni ''subject_value'', JStr (sub_value_norm subject)),
      (uni ''observed_at'', JStr (datetime_iso (fnd_last_seen_at f)))]"

definition watching :: "Subject \<Rightarrow> db \<Rightarrow> WatchlistEntry list" where
  "watching subject d =
     filter (\<lambda>e. wl_enabled e \<and>
       (wl_subject_id e = Some (sub_id subject) \<or>
        (sub_linked_user_id subject \<noteq> None \<and> wl_user_id e = sub_linked_user_id subject))) (watchlist d)"

definition fanout_finding :: "Subject \<Rightarrow> WatchlistEntry list \<Rightarrow> Finding \<Rightarrow> nat \<times> db \<Rightarrow> nat \<times> db" where
  "fanout_finding subject entries f =
     fold (\<lambda>(enabled, sink) (queued, d).
         if enabled
         then (queued + 1, enqueue_alert sink (alert_payload subject f)
                 (uuid_str (fnd_id f) @ [58] @ uni (alert_event f)) d)
         else (queued, d))
       [(list_ex wl_alert_wazuh entries, AlertSinkName.WAZUH),
        (list_ex wl_alert_iris entries, AlertSinkName.DFIR_IRIS)]"

definition fanout_watchlisted_findings :: "Subject \<Rightarrow> uuid list \<Rightarrow> db \<Rightarrow> nat \<times> db" where
  "fanout_watchlisted_findings subject finding_ids d =
     (let entries = watching subject d in
      if finding_ids = [] \<or> entries = [] then (0, d)
      else
        let (queued, d) = fold (fanout_finding subject entries)
                            (filter (\<lambda>f. fnd_id f \<in> set finding_ids) (findings d)) (0, d)
        in (queued,
            case sub_linked_user_id subject of
              Some u \<Rightarrow> if list_ex wl_alert_user entries
                        then enqueue_notification u finding_ids TEMPLATE d else d
            | None \<Rightarrow> d))"

section \<open>Dispatch\<close>

definition set_alert :: "uuid \<Rightarrow> (AlertOutbox \<Rightarrow> AlertOutbox) \<Rightarrow> db \<Rightarrow> db" where
  "set_alert i f d = d\<lparr>alert_outbox := update_where (\<lambda>a. ao_id a = i) f (alert_outbox d)\<rparr>"

definition due_alert :: "datetime \<Rightarrow> db \<Rightarrow> AlertOutbox option" where
  "due_alert current d =
     (case sort_key (\<lambda>a. (ao_next_attempt_at a, ao_id a))
             (filter (\<lambda>a. ao_status a = AlertOutboxStatus.PENDING \<and> ao_next_attempt_at a \<le> current)
                (alert_outbox d)) of
        [] \<Rightarrow> None | a # _ \<Rightarrow> Some a)"

definition send_alert :: "(AlertSinkName \<Rightarrow> (payload \<Rightarrow> exn option) option) \<Rightarrow> AlertOutbox \<Rightarrow> exn option" where
  "send_alert sinks a = (case sinks (ao_sink a) of None \<Rightarrow> Some LookupError | Some s \<Rightarrow> s (ao_payload a))"

text \<open>The row after an attempt, its counter already raised.\<close>

definition after_failure :: "datetime \<Rightarrow> exn \<Rightarrow> AlertOutbox \<Rightarrow> AlertOutbox" where
  "after_failure current e a =
     (let a = a\<lparr>ao_last_error := Some (exn_name e)\<rparr> in
      if MAX_ATTEMPTS \<le> ao_attempts a then a\<lparr>ao_status := AlertOutboxStatus.DEAD_LETTER\<rparr>
      else a\<lparr>ao_next_attempt_at := current + seconds (min (15 * 2 ^ (ao_attempts a - 1)) (15 * 60))\<rparr>)"

definition after_attempt :: "datetime \<Rightarrow> exn option \<Rightarrow> AlertOutbox \<Rightarrow> AlertOutbox" where
  "after_attempt current outcome a =
     (let a = a\<lparr>ao_attempts := ao_attempts a + 1\<rparr> in
      case outcome of
        Some e \<Rightarrow> after_failure current e a
      | None \<Rightarrow> a\<lparr>ao_status := AlertOutboxStatus.DELIVERED, ao_delivered_at := Some current,
                   ao_last_error := None\<rparr>)"

definition dispatch_next_alert ::
  "(AlertSinkName \<Rightarrow> (payload \<Rightarrow> exn option) option) \<Rightarrow> datetime \<Rightarrow> db \<Rightarrow> bool \<times> db" where
  "dispatch_next_alert sinks current d =
     (case due_alert current d of
        None \<Rightarrow> (False, d)
      | Some a \<Rightarrow> (True, set_alert (ao_id a) (after_attempt current (send_alert sinks a)) d))"

section \<open>Facts: queueing\<close>

lemma enqueue_notification_eq:
  "enqueue_notification u ids t d =
     (if sorted_ids ids = [] then d
      else d\<lparr>drawn := drawn d + 16,
        notifications := insert_if_absent (\<lambda>n. ntf_dedupe_key n = ntf_dedupe u t (sorted_ids ids))
            \<lparr>ntf_id = next_uuid d, ntf_user_id = u, ntf_template = t, ntf_finding_ids = sorted_ids ids,
             ntf_status = NotificationStatus.PENDING, ntf_dedupe_key = ntf_dedupe u t (sorted_ids ids),
             ntf_attempts = 0, ntf_error = None, ntf_created_at = tx_now d, ntf_sent_at = None\<rparr>
            (notifications d)\<rparr>)"
  by (simp add: enqueue_notification_def uuid4_eq Let_def)

lemma enqueue_alert_eq:
  "enqueue_alert sink p scope d =
     d\<lparr>drawn := drawn d + 16,
       alert_outbox := insert_if_absent (\<lambda>a. ao_dedupe_key a = alert_dedupe sink scope)
          \<lparr>ao_id = next_uuid d, ao_sink = sink, ao_payload = p, ao_status = AlertOutboxStatus.PENDING,
           ao_dedupe_key = alert_dedupe sink scope, ao_attempts = 0, ao_next_attempt_at = tx_now d,
           ao_last_error = None, ao_created_at = tx_now d, ao_delivered_at = None\<rparr>
          (alert_outbox d)\<rparr>"
  by (simp add: enqueue_alert_def uuid4_eq Let_def)

lemma sorted_ids_cong: "set ids = set ids' \<Longrightarrow> sorted_ids ids = sorted_ids ids'"
  unfolding sorted_ids_def by (metis set_map sorted_list_of_set_sort_remdups)

text \<open>The credentials of a finding, wiped.\<close>

definition wipe :: "Finding \<Rightarrow> Finding" where
  "wipe f = f\<lparr>fnd_password_ciphertext := None, fnd_password_nonce := None, fnd_password_sha256 := None,
     fnd_password_mask := None, fnd_password_len := None, fnd_password_charset := None,
     fnd_raw := [], fnd_email := None, fnd_username := None, fnd_phone := None\<rparr>"

definition wiped :: "db \<Rightarrow> db" where
  "wiped d = d\<lparr>findings := map wipe (findings d)\<rparr>"

lemma wipe_simps [simp]:
  "fnd_id (wipe f) = fnd_id f" "fnd_severity (wipe f) = fnd_severity f"
  "fnd_last_seen_at (wipe f) = fnd_last_seen_at f" "fnd_subject_id (wipe f) = fnd_subject_id f"
  "fnd_remediated_at (wipe f) = fnd_remediated_at f"
  by (simp_all add: wipe_def)

lemma wiped_enqueue [simp]:
  "enqueue_alert sink p scope (wiped d) = wiped (enqueue_alert sink p scope d)"
  "enqueue_notification u ids t (wiped d) = wiped (enqueue_notification u ids t d)"
  by (simp_all add: enqueue_alert_eq enqueue_notification_eq wiped_def next_uuid_def next_bytes_def)

lemma fanout_finding_wiped:
  "fanout_finding s es (wipe f) (n, wiped d) =
     (fst (fanout_finding s es f (n, d)), wiped (snd (fanout_finding s es f (n, d))))"
proof -
  have "alert_payload s (wipe f) = alert_payload s f" "alert_event (wipe f) = alert_event f"
    by (simp_all add: alert_payload_def alert_event_def)
  then show ?thesis by (simp add: fanout_finding_def)
qed

lemma fold_fanout_wiped:
  "fold (fanout_finding s es) (map wipe fs) (n, wiped d) =
     (fst (fold (fanout_finding s es) fs (n, d)), wiped (snd (fold (fanout_finding s es) fs (n, d))))"
proof (induction fs arbitrary: n d)
  case (Cons f fs)
  obtain n' d' where "fanout_finding s es f (n, d) = (n', d')" by fastforce
  with Cons.IH [of n' d'] show ?case by (simp add: fanout_finding_wiped)
qed simp

section \<open>Facts: dispatch\<close>

definition outbox_inv :: "db \<Rightarrow> bool" where
  "outbox_inv d \<longleftrightarrow> unique_on ao_id (alert_outbox d) \<and> (\<forall>a \<in> set (alert_outbox d).
     (ao_status a = AlertOutboxStatus.PENDING \<longrightarrow> ao_attempts a < MAX_ATTEMPTS) \<and>
     (ao_status a = AlertOutboxStatus.DEAD_LETTER \<longrightarrow> ao_attempts a = MAX_ATTEMPTS \<and> ao_last_error a \<noteq> None) \<and>
     (ao_status a = AlertOutboxStatus.DELIVERED \<longrightarrow> ao_attempts a \<le> MAX_ATTEMPTS \<and> ao_delivered_at a \<noteq> None))"

fun dispatch_all ::
  "((AlertSinkName \<Rightarrow> (payload \<Rightarrow> exn option) option) \<times> datetime) list \<Rightarrow> db \<Rightarrow> db" where
  "dispatch_all [] d = d"
| "dispatch_all ((sinks, t) # ts) d = dispatch_all ts (snd (dispatch_next_alert sinks t d))"

lemma due_alert_Some:
  "due_alert t d = Some a \<Longrightarrow> a \<in> set (alert_outbox d) \<and> ao_status a = AlertOutboxStatus.PENDING \<and>
     ao_next_attempt_at a \<le> t"
proof -
  let ?p = "\<lambda>a. ao_status a = AlertOutboxStatus.PENDING \<and> ao_next_attempt_at a \<le> t"
  assume "due_alert t d = Some a"
  then obtain r where "sort_key (\<lambda>a. (ao_next_attempt_at a, ao_id a)) (filter ?p (alert_outbox d)) = a # r"
    by (auto simp: due_alert_def split: list.splits)
  then have "a \<in> set (filter ?p (alert_outbox d))" by (rule sort_key_hd)
  then show ?thesis by simp
qed

lemma outbox_enqueue:
  "outbox_inv d \<Longrightarrow> next_uuid d \<notin> ao_id ` set (alert_outbox d) \<Longrightarrow> outbox_inv (enqueue_alert sink p scope d)"
  by (auto simp: outbox_inv_def enqueue_alert_eq insert_if_absent_def unique_on_append1 MAX_ATTEMPTS_def)

lemma after_attempt_ok:
  assumes "ao_status a = AlertOutboxStatus.PENDING" and "ao_attempts a < MAX_ATTEMPTS"
  shows "(ao_status (after_attempt t r a) = AlertOutboxStatus.PENDING \<longrightarrow>
       ao_attempts (after_attempt t r a) < MAX_ATTEMPTS \<and>
       ao_next_attempt_at (after_attempt t r a) = t + seconds (15 * 2 ^ ao_attempts a)) \<and>
     (ao_status (after_attempt t r a) = AlertOutboxStatus.DEAD_LETTER \<longrightarrow>
       ao_attempts (after_attempt t r a) = MAX_ATTEMPTS \<and> ao_last_error (after_attempt t r a) \<noteq> None) \<and>
     (ao_status (after_attempt t r a) = AlertOutboxStatus.DELIVERED \<longrightarrow>
       ao_attempts (after_attempt t r a) \<le> MAX_ATTEMPTS \<and> ao_delivered_at (after_attempt t r a) \<noteq> None)"
proof -
  have "ao_attempts a \<in> {0, 1, 2, 3, 4}" using assms(2) by (auto simp: MAX_ATTEMPTS_def)
  then show ?thesis
    using assms by (auto simp: after_attempt_def after_failure_def Let_def MAX_ATTEMPTS_def split: option.splits)
qed

lemma after_attempt_id [simp]: "ao_id (after_attempt t r a) = ao_id a"
  by (auto simp: after_attempt_def after_failure_def Let_def split: option.splits)

lemma dispatch_keeps:
  assumes inv: "outbox_inv d" shows "outbox_inv (snd (dispatch_next_alert sinks t d))"
proof (cases "due_alert t d")
  case (Some a)
  note a = due_alert_Some [OF Some]
  have uq: "unique_on ao_id (alert_outbox d)" using inv by (simp add: outbox_inv_def)
  have at': "ao_attempts a < MAX_ATTEMPTS" using inv a by (auto simp: outbox_inv_def)
  let ?f = "after_attempt t (send_alert sinks a)"
  have rows: "b \<in> set (alert_outbox d) \<or> b = ?f a"
    if "b \<in> set (update_where (\<lambda>b. ao_id b = ao_id a) ?f (alert_outbox d))" for b
    using that a unique_on_eq [OF uq, of _ a] by (auto simp: set_update_where split: if_splits)
  have d': "snd (dispatch_next_alert sinks t d) = set_alert (ao_id a) ?f d"
    using Some by (simp add: dispatch_next_alert_def)
  show ?thesis
    unfolding d' outbox_inv_def
  proof (intro conjI ballI)
    show "unique_on ao_id (alert_outbox (set_alert (ao_id a) ?f d))"
      using uq by (simp add: set_alert_def unique_on_update_where)
  next
    fix b assume "b \<in> set (alert_outbox (set_alert (ao_id a) ?f d))"
    then have "b \<in> set (alert_outbox d) \<or> b = ?f a"
      by (intro rows) (simp add: set_alert_def)
    then show "ao_status b = AlertOutboxStatus.PENDING \<longrightarrow> ao_attempts b < MAX_ATTEMPTS"
      and "ao_status b = AlertOutboxStatus.DEAD_LETTER \<longrightarrow> ao_attempts b = MAX_ATTEMPTS \<and> ao_last_error b \<noteq> None"
      and "ao_status b = AlertOutboxStatus.DELIVERED \<longrightarrow> ao_attempts b \<le> MAX_ATTEMPTS \<and> ao_delivered_at b \<noteq> None"
      using inv after_attempt_ok [of a t "send_alert sinks a"] a at' by (auto simp: outbox_inv_def)
  qed
qed (simp add: dispatch_next_alert_def inv)

section \<open>Facts: delivery\<close>

lemma read_many_platform: "platform_settings d' = platform_settings d \<Longrightarrow> read_many G s ks d' = read_many G s ks d"
proof (induction ks)
  case (Cons k ks)
  then show ?case using read_setting_cong [of k d' d G s] by simp
qed simp

lemma rowcount_update_where: "(\<And>r. p (f r) = p r) \<Longrightarrow> rowcount p (update_where q f t) = rowcount p t"
  by (induction t) (auto simp: rowcount_def update_where_def)

lemma set_notification_twice:
  "(\<And>n. ntf_id (g n) = ntf_id n) \<Longrightarrow>
   set_notification i f (set_notification i g d) = set_notification i (\<lambda>n. f (g n)) d"
  by (simp add: set_notification_def update_where_def)

lemma next_notification_Some:
  assumes "next_notification d = Some (n, u)"
  shows "n \<in> set (notifications d)" and "ntf_status n = NotificationStatus.PENDING"
    and "u \<in> set (users d)" and "u_id u = ntf_user_id n"
proof -
  have "n \<in> set (filter (\<lambda>n. ntf_status n = NotificationStatus.PENDING \<and> ntf_user_id n \<in> u_id ` set (users d))
      (notifications d))" and u: "find (\<lambda>u. u_id u = ntf_user_id n) (users d) = Some u"
    using assms by (auto simp: next_notification_def split: list.splits option.splits dest: sort_key_hd)
  then show "n \<in> set (notifications d)" "ntf_status n = NotificationStatus.PENDING" by auto
  show "u \<in> set (users d)" "u_id u = ntf_user_id n" using find_Some_mem [OF u] by auto
qed

lemma filter_update_where_set:
  "(\<And>r. r \<in> set t \<Longrightarrow> p r \<Longrightarrow> \<not> q r \<and> \<not> q (f r)) \<Longrightarrow> filter q (update_where p f t) = filter q t"
  by (induction t) (auto simp: update_where_def)

text \<open>The four ways a delivery ends.\<close>

lemma deliver_next_Inr:
  assumes run: "deliver_next A smtp sender (Some t) d = Inr (b, d')"
  obtains (idle) "next_notification d = None" "d' = d"
  | (attempted) n u vs g where "next_notification d = Some (n, u)"
      "read_many (ap_gcm A) (ap_settings A) all_setting_keys d = Inr vs"
      "d' = set_notification (ntf_id n) g (set_notification (ntf_id n) (\<lambda>n. n\<lparr>ntf_attempts := ntf_attempts n + 1\<rparr>) d)"
      "g = (\<lambda>n. n\<lparr>ntf_status := NotificationStatus.DRY_RUN\<rparr>) \<or>
       g = (\<lambda>n. n\<lparr>ntf_status := NotificationStatus.SUPPRESSED, ntf_error := Some ''notification cooldown active''\<rparr>) \<or>
       (\<exists>e. g = (\<lambda>n. n\<lparr>ntf_status := NotificationStatus.FAILED, ntf_error := Some (exn_name e)\<rparr>)) \<or>
       g = (\<lambda>n. n\<lparr>ntf_status := NotificationStatus.SENT, ntf_sent_at := Some t, ntf_error := None\<rparr>) \<and>
         (\<exists>c. int_setting (ap_unidata A) (map_of vs NOTIFY_COOLDOWN_SECONDS) 86400 = Inr c \<and>
            (c = 0 \<or> sent_since (u_id u) (t - seconds c) d = 0))"
proof (cases "next_notification d")
  case None
  with run show ?thesis by (intro idle) (auto simp: deliver_next_def)
next
  case (Some p)
  obtain n u where p: "p = (n, u)" by (cases p)
  let ?inc = "\<lambda>n. n\<lparr>ntf_attempts := ntf_attempts n + 1\<rparr> :: Notification"
  let ?d = "set_notification (ntf_id n) ?inc d"
  have plat: "read_many G s ks ?d = read_many G s ks d" for G s ks
    by (rule read_many_platform) (simp add: set_notification_def)
  have since: "sent_since x y ?d = sent_since x y d" for x y
    by (simp add: sent_since_def set_notification_def rowcount_update_where)
  obtain vs where vs: "read_many (ap_gcm A) (ap_settings A) all_setting_keys d = Inr vs"
    using run Some p plat by (auto simp: deliver_next_def Let_def bind_res_Inr_iff)
  obtain dry where dry: "bool_setting (ap_unidata A) (map_of vs NOTIFY_DRY_RUN) True = Inr dry"
    using run Some p plat vs by (auto simp: deliver_next_def Let_def bind_res_Inr_iff)
  show ?thesis
  proof (cases dry)
    case True
    with run Some p plat vs dry show ?thesis
      by (intro attempted [of n u vs "\<lambda>n. n\<lparr>ntf_status := NotificationStatus.DRY_RUN\<rparr>"])
        (auto simp: deliver_next_def Let_def)
  next
    case False
    obtain c where c: "int_setting (ap_unidata A) (map_of vs NOTIFY_COOLDOWN_SECONDS) 86400 = Inr c"
      using run Some p plat vs dry False by (auto simp: deliver_next_def Let_def bind_res_Inr_iff)
    show ?thesis
    proof (cases "c \<noteq> 0 \<and> 0 < sent_since (u_id u) (t - seconds c) d")
      case True
      then have "c \<noteq> 0 \<and> 0 < sent_since (u_id u) (t - seconds c) ?d" by (simp only: since simp_thms)
      with run Some p plat vs dry False c True show ?thesis
        by (intro attempted [of n u vs "\<lambda>n. n\<lparr>ntf_status := NotificationStatus.SUPPRESSED,
            ntf_error := Some ''notification cooldown active''\<rparr>"])
          (auto simp: deliver_next_def Let_def)
    next
      case go: False
      then have go': "\<not> (c \<noteq> 0 \<and> 0 < sent_since (u_id u) (t - seconds c) ?d)" by (simp only: since simp_thms)
      show ?thesis
      proof (cases "send_message (ap_unidata A) smtp sender vs u")
        case None
        with run Some p plat vs dry False c go' have "d' = set_notification (ntf_id n)
            (\<lambda>n. n\<lparr>ntf_status := NotificationStatus.SENT, ntf_sent_at := Some t, ntf_error := None\<rparr>) ?d"
          by (auto simp: deliver_next_def Let_def)
        with Some p vs c go show ?thesis
          by (intro attempted [of n u vs "\<lambda>n. n\<lparr>ntf_status := NotificationStatus.SENT,
              ntf_sent_at := Some t, ntf_error := None\<rparr>"]) auto
      next
        case (Some e)
        with run \<open>next_notification d = Some p\<close> p plat vs dry False c go'
        have "d' = set_notification (ntf_id n)
            (\<lambda>n. n\<lparr>ntf_status := NotificationStatus.FAILED, ntf_error := Some (exn_name e)\<rparr>) ?d"
          by (auto simp: deliver_next_def Let_def)
        with \<open>next_notification d = Some p\<close> p vs show ?thesis
          by (intro attempted [of n u vs "\<lambda>n. n\<lparr>ntf_status := NotificationStatus.FAILED,
              ntf_error := Some (exn_name e)\<rparr>"]) auto
      qed
    qed
  qed
qed

section \<open>Sample outboxes\<close>

text \<open>Stored settings under the sample key.\<close>

definition stored :: "SettingKey \<times> string \<Rightarrow> PlatformSetting" where
  "stored p =
     \<lparr>ps_key = key_text (fst p),
      ps_ciphertext = gcm_encrypt suffix_gcm (replicate 32 1) (replicate 12 0) (octets (snd p))
        (setting_aad (fst p) SCHEMA_VERSION),
      ps_nonce = replicate 12 0, ps_schema_version = SCHEMA_VERSION, ps_updated_at = 0, ps_updated_by = 1\<rparr>"

lemma read_stored:
  assumes "platform_settings d = map stored vs" and "\<forall>p \<in> set vs. \<forall>c \<in> set (snd p). of_char c < (128::nat)"
  shows "read_setting suffix_gcm the_settings key d = Inr (map_option uni (map_of vs key))"
proof -
  have find: "find (\<lambda>r. ps_key r = key_text key) (map stored vs) =
      map_option (\<lambda>v. stored (key, v)) (map_of vs key)"
    by (induction vs) (auto simp: stored_def)
  show ?thesis
  proof (cases "map_of vs key")
    case None
    with find assms(1) show ?thesis by (simp add: read_setting_def)
  next
    case (Some v)
    then have "(key, v) \<in> set vs" by (rule map_of_SomeD)
    then have "list_all (\<lambda>c. c < 128) (uni v)"
      using assms(2) by (force simp: uni_def list_all_iff)
    then have "encode_utf8 (uni v) = Inr (octets v)"
      by (simp add: encode_utf8_ascii uni_def octets_def of_nat_of_char)
    then have "decode_utf8 (octets v) = Inr (uni v)" by (rule decode_encode_utf8)
    moreover have "gcm_decrypt suffix_gcm (replicate 32 1) (replicate 12 0)
        (gcm_encrypt suffix_gcm (replicate 32 1) (replicate 12 0) p a) a = Some p" for p a
      using suffix_gcm_ok by (simp add: gcm_ok_def)
    ultimately show ?thesis
      using find assms(1) Some data_key_the_settings by (simp add: read_setting_def stored_def)
  qed
qed

lemma all_setting_keys_all: "k \<in> set all_setting_keys"
  by (cases k) (simp_all add: all_setting_keys_def)

lemma read_many_stored:
  assumes "platform_settings d = map stored vs" and "\<forall>p \<in> set vs. \<forall>c \<in> set (snd p). of_char c < (128::nat)"
  shows "\<exists>ws. read_many suffix_gcm the_settings all_setting_keys d = Inr ws \<and>
     (\<forall>k. map_of ws k = map_option uni (map_of vs k))"
proof -
  have "\<exists>ws. read_many suffix_gcm the_settings ks d = Inr ws \<and>
     (\<forall>k. map_of ws k = (if k \<in> set ks then map_option uni (map_of vs k) else None))" for ks
  proof (induction ks)
    case (Cons k ks)
    then obtain ws where ws: "read_many suffix_gcm the_settings ks d = Inr ws"
      "\<forall>k. map_of ws k = (if k \<in> set ks then map_option uni (map_of vs k) else None)" by blast
    then show ?case
      using read_stored [OF assms, of k] by (cases "map_of vs k") auto
  qed simp
  from this [of all_setting_keys] show ?thesis by (simp add: all_setting_keys_all)
qed

definition a_message :: "uuid \<Rightarrow> uuid \<Rightarrow> NotificationStatus \<Rightarrow> datetime option \<Rightarrow> Notification" where
  "a_message i u st sent =
     \<lparr>ntf_id = i, ntf_user_id = u, ntf_template = TEMPLATE, ntf_finding_ids = [uuid_str 7], ntf_status = st,
      ntf_dedupe_key = uuid_bytes i, ntf_attempts = 0, ntf_error = None, ntf_created_at = 0, ntf_sent_at = sent\<rparr>"

lemma a_message_simps [simp]:
  "ntf_id (a_message i u st t) = i" "ntf_user_id (a_message i u st t) = u" "ntf_status (a_message i u st t) = st"
  "ntf_sent_at (a_message i u st t) = t" "ntf_created_at (a_message i u st t) = 0"
  by (simp_all add: a_message_def)

lemma a_user_simps [simp]: "u_id (a_user i r) = i" "u_email (a_user i r) = uni ''a@example.org''"
  by (simp_all add: a_user_def)

definition mail_db :: "(SettingKey \<times> string) list \<Rightarrow> db" where
  "mail_db vs = db0\<lparr>users := [a_user 1 UserRole.USER], platform_settings := map stored vs,
     notifications := [a_message 5 1 NotificationStatus.SENT (Some 0),
                       a_message 6 1 NotificationStatus.PENDING None]\<rparr>"

definition mail_settings :: "(SettingKey \<times> string) list" where
  "mail_settings = [(NOTIFY_DRY_RUN, ''false''), (PUBLIC_BASE_URL, ''https://hub'')]"

definition an_alert :: "nat \<Rightarrow> AlertOutbox" where
  "an_alert n =
     \<lparr>ao_id = 3, ao_sink = AlertSinkName.WAZUH, ao_payload = [], ao_status = AlertOutboxStatus.PENDING,
      ao_dedupe_key = [], ao_attempts = n, ao_next_attempt_at = 0, ao_last_error = None, ao_created_at = 0,
      ao_delivered_at = None\<rparr>"

section \<open>Properties\<close>

text \<open>
  Queueing is idempotent: asking again for the same user, template and set of findings, in whatever
  order and with whatever repetitions, leaves the outbox as it was, and the message is in it.
\<close>

theorem enqueue_notification_once:
  assumes "set ids = set ids'" and "ids \<noteq> []"
  shows "notifications (enqueue_notification u ids' t (enqueue_notification u ids t d)) =
      notifications (enqueue_notification u ids t d) \<and>
    (\<exists>n \<in> set (notifications (enqueue_notification u ids t d)).
       ntf_dedupe_key n = ntf_dedupe u t (sorted_ids ids))"
proof -
  have "sorted_ids ids' = sorted_ids ids" using sorted_ids_cong assms(1) by blast
  moreover have "set (sorted_ids ids) \<noteq> {}" using assms(2) by (simp add: sorted_ids_def)
  then have "sorted_ids ids \<noteq> []" by auto
  ultimately show ?thesis
    by (auto simp: enqueue_notification_eq insert_if_absent_def)
qed

theorem enqueue_notification_once_witness:
  "notifications (enqueue_notification 1 [8, 7, 7] TEMPLATE (enqueue_notification 1 [7, 8] TEMPLATE db0)) =
     notifications (enqueue_notification 1 [7, 8] TEMPLATE db0)"
  using enqueue_notification_once [of "[7, 8]" "[8, 7, 7]"] by auto

text \<open>
  The cooldown is respected: when a delivery at time \<open>t\<close> marks a message sent, every other message sent
  to the same user was sent at least the configured cooldown before \<open>t\<close>.
\<close>

theorem cooldown_respected:
  assumes "unique_on ntf_id (notifications d)" and "deliver_next A smtp sender (Some t) d = Inr (b, d')"
    and "n \<in> set (notifications d')" and "ntf_status n = NotificationStatus.SENT" and "n \<notin> set (notifications d)"
    and "read_many (ap_gcm A) (ap_settings A) all_setting_keys d = Inr vs"
    and "int_setting (ap_unidata A) (map_of vs NOTIFY_COOLDOWN_SECONDS) 86400 = Inr c" and "c \<noteq> 0"
    and "m \<in> set (notifications d)" and "ntf_user_id m = ntf_user_id n"
    and "ntf_status m = NotificationStatus.SENT" and "ntf_sent_at m = Some s"
  shows "s + seconds c \<le> t \<and> ntf_sent_at n = Some t"
  using assms(2)
proof (cases rule: deliver_next_Inr)
  case (attempted n0 u vs' g)
  note n0 = next_notification_Some [OF attempted(1)]
  have n: "n = g (n0\<lparr>ntf_attempts := ntf_attempts n0 + 1\<rparr>)"
    using assms(3,5) attempted(3,4) unique_on_eq [OF assms(1) _ n0(1)]
    by (auto simp: set_notification_def set_update_where split: if_splits)
  then have "g = (\<lambda>n. n\<lparr>ntf_status := NotificationStatus.SENT, ntf_sent_at := Some t, ntf_error := None\<rparr>)"
    and zero: "sent_since (u_id u) (t - seconds c) d = 0"
    using attempted(2,4) assms(4,6-8) by auto
  then have nu: "ntf_sent_at n = Some t" "ntf_user_id n = u_id u" using n n0(4) by simp_all
  have "\<not> t - seconds c < s"
    using zero assms(9-12) nu(2) by (auto simp: sent_since_def rowcount_def filter_empty_conv)
  with nu show ?thesis by simp
qed (use assms in auto)

text \<open>
  Dry run sends nothing: while the dry-run setting is absent or true, a delivery does not depend on the
  transport at all, and no message becomes sent.
\<close>

theorem dry_run_sends_nothing:
  assumes "unique_on ntf_id (notifications d)"
    and "read_many (ap_gcm A) (ap_settings A) all_setting_keys d = Inr vs"
    and "bool_setting (ap_unidata A) (map_of vs NOTIFY_DRY_RUN) True = Inr True"
  shows "deliver_next A smtp sender now d = deliver_next A smtp' sender' now d \<and>
    (\<forall>b d'. deliver_next A smtp sender now d = Inr (b, d') \<longrightarrow>
       filter (\<lambda>n. ntf_status n = NotificationStatus.SENT) (notifications d') =
       filter (\<lambda>n. ntf_status n = NotificationStatus.SENT) (notifications d))"
proof (cases "next_notification d")
  case None
  then show ?thesis by (simp add: deliver_next_def Let_def)
next
  case (Some p)
  obtain n u where p: "p = (n, u)" by (cases p)
  let ?d = "set_notification (ntf_id n) (\<lambda>n. n\<lparr>ntf_attempts := ntf_attempts n + 1\<rparr>) d"
  have plat: "read_many (ap_gcm A) (ap_settings A) all_setting_keys ?d = Inr vs"
    unfolding assms(2) [symmetric] by (rule read_many_platform) (simp add: set_notification_def)
  have eq: "deliver_next A smtp sender now d = Inr (True, set_notification (ntf_id n)
      (\<lambda>n. n\<lparr>ntf_status := NotificationStatus.DRY_RUN\<rparr>) ?d)" for smtp sender
    using Some p plat assms(3) by (simp add: deliver_next_def Let_def)
  note n = next_notification_Some [OF Some [unfolded p]]
  have "ntf_status r \<noteq> NotificationStatus.SENT" if "r \<in> set (notifications d)" "ntf_id r = ntf_id n" for r
    using unique_on_eq [OF assms(1) that(1) n(1) that(2)] n(2) by simp
  then have "filter (\<lambda>n. ntf_status n = NotificationStatus.SENT) (notifications (set_notification (ntf_id n)
      (\<lambda>n. n\<lparr>ntf_status := NotificationStatus.DRY_RUN\<rparr>) ?d)) =
    filter (\<lambda>n. ntf_status n = NotificationStatus.SENT) (notifications d)"
    by (auto simp: set_notification_twice) (auto simp: set_notification_def intro!: filter_update_where_set)
  with eq show ?thesis by simp
qed

theorem dry_run_sends_nothing_witness:
  "deliver_next the_app (\<lambda>c m. None) (Some (\<lambda>m. None)) (Some 5) (mail_db []) =
   deliver_next the_app (\<lambda>c m. None) (Some (\<lambda>m. Some (OtherError ''SMTPException''))) (Some 5) (mail_db [])"
proof -
  have "platform_settings (mail_db []) = map stored []" by (simp add: mail_db_def)
  from read_many_stored [OF this]
  obtain ws where "read_many suffix_gcm the_settings all_setting_keys (mail_db []) = Inr ws"
    "map_of ws NOTIFY_DRY_RUN = None" by auto
  then show ?thesis
    using dry_run_sends_nothing [of "mail_db []" the_app ws "\<lambda>c m. None" "Some (\<lambda>m. None)" "Some 5"
        "\<lambda>c m. None" "Some (\<lambda>m. Some (OtherError ''SMTPException''))"]
    by (simp add: the_app_def mail_db_def unique_on_def bool_setting_def)
qed

theorem cooldown_respected_witness:
  "\<exists>d' n. deliver_next the_app (\<lambda>c m. None) (Some (\<lambda>m. None)) (Some (seconds 90000)) (mail_db mail_settings)
       = Inr (True, d') \<and> n \<in> set (notifications d') \<and> ntf_id n = 6 \<and>
     ntf_status n = NotificationStatus.SENT \<and> 0 + seconds 86400 \<le> seconds 90000"
proof -
  let ?d = "mail_db mail_settings"
  let ?inc = "\<lambda>n. n\<lparr>ntf_attempts := ntf_attempts n + 1\<rparr> :: Notification"
  have rows: "platform_settings (set_notification 6 ?inc ?d) = map stored mail_settings"
    "platform_settings ?d = map stored mail_settings"
    by (simp_all add: set_notification_def mail_db_def)
  have ascii: "\<forall>p \<in> set mail_settings. \<forall>c \<in> set (snd p). of_char c < (128::nat)"
    by (simp add: mail_settings_def)
  obtain ws where ws: "read_many suffix_gcm the_settings all_setting_keys ?d = Inr ws"
    "\<And>k. map_of ws k = map_option uni (map_of mail_settings k)"
    using read_many_stored [OF rows(2) ascii] by blast
  then have ws': "read_many suffix_gcm the_settings all_setting_keys (set_notification 6 ?inc ?d) = Inr ws"
    using read_many_platform [of "set_notification 6 ?inc ?d" ?d] rows by simp
  have next': "next_notification ?d = Some (a_message 6 1 NotificationStatus.PENDING None, a_user 1 UserRole.USER)"
    by (simp add: next_notification_def mail_db_def)
  have dry: "bool_setting ascii_unidata (map_of ws NOTIFY_DRY_RUN) True = Inr False"
    unfolding ws(2) by code_simp
  have cool: "int_setting ascii_unidata (map_of ws NOTIFY_COOLDOWN_SECONDS) 86400 = Inr 86400"
    unfolding ws(2) by code_simp
  have url: "base_url ws = Inr (uni ''https://hub'')"
    unfolding base_url_def setting_or_def ws(2) by code_simp
  have since: "sent_since 1 (seconds 90000 - seconds 86400) (set_notification 6 ?inc ?d) = 0"
    by (simp add: sent_since_def set_notification_def mail_db_def rowcount_def update_where_def
        seconds_def)
  obtain d' where d': "deliver_next the_app (\<lambda>c m. None) (Some (\<lambda>m. None)) (Some (seconds 90000)) ?d = Inr (True, d')"
    and d'_eq: "d' = set_notification 6 (\<lambda>n. n\<lparr>ntf_status := NotificationStatus.SENT,
      ntf_sent_at := Some (seconds 90000), ntf_error := None\<rparr>) (set_notification 6 ?inc ?d)"
    using ws' dry cool url since
    by (simp add: deliver_next_def next' the_app_def Let_def send_message_def)
  then have msg: "notifications d' = [a_message 5 1 NotificationStatus.SENT (Some 0),
      (a_message 6 1 NotificationStatus.SENT (Some (seconds 90000)))\<lparr>ntf_attempts := 1\<rparr>]"
    by (simp add: set_notification_def mail_db_def update_where_def) (simp add: a_message_def)
  let ?n = "(a_message 6 1 NotificationStatus.SENT (Some (seconds 90000)))\<lparr>ntf_attempts := 1\<rparr>"
  have "?n \<noteq> a_message 5 1 NotificationStatus.SENT (Some 0)" "?n \<noteq> a_message 6 1 NotificationStatus.PENDING None"
    by (auto dest: arg_cong [where f = ntf_id] arg_cong [where f = ntf_status])
  then have new: "?n \<notin> set (notifications ?d)" by (simp add: mail_db_def)
  have app: "ap_gcm the_app = suffix_gcm" "ap_settings the_app = the_settings" "ap_unidata the_app = ascii_unidata"
    by (simp_all add: the_app_def)
  have "0 + seconds 86400 \<le> seconds 90000 \<and> ntf_sent_at ?n = Some (seconds 90000)"
    by (rule cooldown_respected [OF _ d' _ _ new, of ws 86400 "a_message 5 1 NotificationStatus.SENT (Some 0)" 0])
      (simp_all add: msg app cool mail_db_def unique_on_def ws(1) [unfolded mail_db_def])
  with d' msg show ?thesis by auto
qed

text \<open>
  Alerts carry no credentials: the alerts and messages a fan-out queues, and their number, are the same
  for findings whose password columns, identities and vendor record have been wiped.
\<close>

theorem fanout_ignores_credentials:
  "fst (fanout_watchlisted_findings subject ids (wiped d)) = fst (fanout_watchlisted_findings subject ids d) \<and>
   alert_outbox (snd (fanout_watchlisted_findings subject ids (wiped d))) =
     alert_outbox (snd (fanout_watchlisted_findings subject ids d)) \<and>
   notifications (snd (fanout_watchlisted_findings subject ids (wiped d))) =
     notifications (snd (fanout_watchlisted_findings subject ids d))"
proof -
  have w: "watching subject (wiped d) = watching subject d" by (simp add: watching_def wiped_def)
  have f: "filter (\<lambda>f. fnd_id f \<in> set ids) (findings (wiped d)) =
      map wipe (filter (\<lambda>f. fnd_id f \<in> set ids) (findings d))"
    by (simp add: wiped_def filter_map o_def)
  have keep: "alert_outbox (wiped x) = alert_outbox x" "notifications (wiped x) = notifications x" for x
    by (simp_all add: wiped_def)
  show ?thesis
    by (auto simp: fanout_watchlisted_findings_def w f fold_fanout_wiped keep Let_def split_beta
        split: option.splits)
qed

text \<open>
  Retries are bounded: whatever the sinks do and whenever dispatch runs, no alert is attempted more than
  five times, a pending one has attempts left, and a dead letter has used all of them.
\<close>

theorem alert_retries_bounded:
  assumes "outbox_inv d"
  shows "outbox_inv (dispatch_all ts d) \<and> (\<forall>a \<in> set (alert_outbox (dispatch_all ts d)).
    case ao_status a of
      AlertOutboxStatus.PENDING \<Rightarrow> ao_attempts a < 5
    | AlertOutboxStatus.DELIVERED \<Rightarrow> ao_attempts a \<le> 5
    | AlertOutboxStatus.DEAD_LETTER \<Rightarrow> ao_attempts a = 5)"
proof -
  have "outbox_inv (dispatch_all ts d)"
    using assms
  proof (induction ts arbitrary: d)
    case (Cons p ts)
    then show ?case using dispatch_keeps by (cases p) auto
  qed simp
  then show ?thesis
    by (auto simp: outbox_inv_def MAX_ATTEMPTS_def split: AlertOutboxStatus.splits)
qed

theorem alert_retries_bounded_witness:
  "outbox_inv (dispatch_all [(\<lambda>s. None, 1), (\<lambda>s. Some (\<lambda>p. None), seconds 60)] (db0\<lparr>alert_outbox := [an_alert 0]\<rparr>))"
proof -
  have "outbox_inv (db0\<lparr>alert_outbox := [an_alert 0]\<rparr>)"
    by (simp add: outbox_inv_def an_alert_def unique_on_def MAX_ATTEMPTS_def)
  from alert_retries_bounded [OF this] show ?thesis by blast
qed

text \<open>
  Backoff: a failed attempt that is not the last is retried 15, 30, 60 or 120 seconds later, so the cap
  of 15 minutes is never reached; the fifth failure makes the alert a dead letter.
\<close>

theorem alert_backoff:
  assumes "outbox_inv d" and "due_alert t d = Some a" and "send_alert sinks a = Some e"
  shows "\<exists>b. find (\<lambda>b. ao_id b = ao_id a) (alert_outbox (snd (dispatch_next_alert sinks t d))) = Some b \<and>
    ao_attempts b = ao_attempts a + 1 \<and> ao_last_error b = Some (exn_name e) \<and>
    (if ao_attempts a = 4 then ao_status b = AlertOutboxStatus.DEAD_LETTER
     else ao_status b = AlertOutboxStatus.PENDING \<and>
       ao_next_attempt_at b = t + seconds (15 * 2 ^ ao_attempts a) \<and> ao_next_attempt_at b \<le> t + seconds 120)"
proof -
  note a = due_alert_Some [OF assms(2)]
  have "ao_attempts a < 5" using a assms(1) by (auto simp: outbox_inv_def MAX_ATTEMPTS_def)
  then have cases: "ao_attempts a \<in> {0, 1, 2, 3, 4}" by auto
  have "find (\<lambda>b. ao_id b = ao_id a) (alert_outbox d) = Some a"
    using assms(1) a unique_on_find [of ao_id "alert_outbox d" a] by (simp add: outbox_inv_def)
  then have "find (\<lambda>b. ao_id b = ao_id a) (alert_outbox (snd (dispatch_next_alert sinks t d))) =
      Some (after_attempt t (Some e) a)"
    using assms(2,3) by (simp add: dispatch_next_alert_def set_alert_def find_update_where)
  with cases a show ?thesis
    by (auto simp: after_attempt_def after_failure_def MAX_ATTEMPTS_def Let_def)
qed

theorem alert_backoff_witness:
  "\<exists>b. find (\<lambda>b. ao_id b = 3) (alert_outbox (snd (dispatch_next_alert (\<lambda>s. None) 10
       (db0\<lparr>alert_outbox := [an_alert 4]\<rparr>)))) = Some b \<and> ao_status b = AlertOutboxStatus.DEAD_LETTER"
  using alert_backoff [of "db0\<lparr>alert_outbox := [an_alert 4]\<rparr>" 10 "an_alert 4" "\<lambda>s. None" LookupError]
  by (auto simp: outbox_inv_def an_alert_def unique_on_def MAX_ATTEMPTS_def due_alert_def send_alert_def)

end
