(* ===== verification/ScanRuntime.thy ===== *)
theory ScanRuntime
  imports Ingest LeakCheck Alerts
begin

text \<open>
  Scans (\<open>src/app/scans.py\<close>, \<open>src/app/scan_runtime.py\<close>): one query and ingest with its accounting, the
  background execution that commits its start, rolls a failure back and records it, the upsert of
  subjects, and the process-wide client kept until the stored settings change. The client of a scan is
  the protocol \<open>QueryClient\<close> of the source: a parameter that returns the result or the exception of a query.
\<close>

section \<open>One scan\<close>

type_synonym query_client = "QueryType \<Rightarrow> ustr \<Rightarrow> QueryResult res"

definition set_scan :: "uuid \<Rightarrow> (Scan \<Rightarrow> Scan) \<Rightarrow> db \<Rightarrow> db" where
  "set_scan i f d = d\<lparr>scans := update_where (\<lambda>s. scan_id s = i) f (scans d)\<rparr>"

definition set_subject :: "uuid \<Rightarrow> (Subject \<Rightarrow> Subject) \<Rightarrow> db \<Rightarrow> db" where
  "set_subject i f d = d\<lparr>subjects := update_where (\<lambda>s. sub_id s = i) f (subjects d)\<rparr>"

text \<open>\<open>QueryType(subject.kind.value)\<close>: both enumerations have the same values.\<close>

fun query_type_of :: "SubjectKind \<Rightarrow> QueryType" where
  "query_type_of SubjectKind.EMAIL = QueryType.EMAIL"
| "query_type_of SubjectKind.DOMAIN = QueryType.DOMAIN"
| "query_type_of SubjectKind.USERNAME = QueryType.USERNAME"
| "query_type_of SubjectKind.PHONE = QueryType.PHONE"
| "query_type_of SubjectKind.ORIGIN = QueryType.ORIGIN"
| "query_type_of SubjectKind.PASSWORD = QueryType.PASSWORD"

lemma query_type_of_value [simp]: "QueryType_value (query_type_of k) = SubjectKind_value k"
  by (cases k) simp_all

text \<open>The start of a scan, which marks it running and dates the first scan of its subject.\<close>

definition start_scan :: "uuid \<Rightarrow> uuid \<Rightarrow> datetime \<Rightarrow> db \<Rightarrow> db" where
  "start_scan scan subject started_at d =
     set_subject subject (\<lambda>s. if sub_first_scanned_at s = None
                              then s\<lparr>sub_first_scanned_at := Some started_at\<rparr> else s)
       (set_scan scan (\<lambda>s. s\<lparr>scan_status := ScanStatus.RUNNING, scan_started_at := Some started_at\<rparr>) d)"

definition complete_scan :: "uuid \<Rightarrow> uuid \<Rightarrow> QueryResult \<Rightarrow> IngestSummary \<Rightarrow> datetime \<Rightarrow> db \<Rightarrow> db" where
  "complete_scan scan subject result summary t d =
     set_subject subject (\<lambda>s. s\<lparr>sub_last_scanned_at := Some t\<rparr>)
       (set_scan scan (\<lambda>s. s\<lparr>scan_status := ScanStatus.SUCCEEDED, scan_finished_at := Some t,
           scan_result_count := length (qr_records result), scan_new_count := is_new_count summary,
           scan_quota := qr_quota result, scan_truncated := qr_truncated result, scan_error := None\<rparr>) d)"

definition fail_scan :: "uuid \<Rightarrow> uuid \<Rightarrow> exn \<Rightarrow> datetime \<Rightarrow> db \<Rightarrow> db" where
  "fail_scan scan subject e t d =
     set_subject subject (\<lambda>s. s\<lparr>sub_last_scanned_at := Some t\<rparr>)
       (set_scan scan (\<lambda>s. s\<lparr>scan_status := ScanStatus.FAILED, scan_finished_at := Some t,
           scan_error := Some (exn_name e)\<rparr>) d)"

definition run_scan ::
  "query_client \<Rightarrow> IngestRepository \<Rightarrow> ingest_env \<Rightarrow> Scan \<Rightarrow> Subject \<Rightarrow> ustr \<Rightarrow> py_datetime option \<Rightarrow> db
   \<Rightarrow> IngestSummary res \<times> db" where
  "run_scan client R E scan subject query_text now d =
     (case utc_now (clock d) now of
        Inl e \<Rightarrow> (Inl e, d)
      | Inr started_at \<Rightarrow>
          let d = start_scan (scan_id scan) (sub_id subject) started_at d in
          case client (query_type_of (sub_kind subject)) query_text of
            Inl e \<Rightarrow> (Inl e, fail_scan (scan_id scan) (sub_id subject) e started_at d)
          | Inr result \<Rightarrow>
              (case ingest_records R E subject (qr_records result) (scan_requested_by scan)
                      (Some (Aware started_at 0)) d of
                 (Inl e, d) \<Rightarrow> (Inl e, fail_scan (scan_id scan) (sub_id subject) e started_at d)
               | (Inr summary, d) \<Rightarrow>
                   (Inr summary, complete_scan (scan_id scan) (sub_id subject) result summary started_at d)))"

section \<open>Background execution\<close>

text \<open>A new transaction: from here on \<open>now()\<close> is the current time.\<close>

definition begin_tx :: "db \<Rightarrow> db" where
  "begin_tx d = d\<lparr>tx_now := clock d\<rparr>"

text \<open>
  The start is committed first. Whatever the query or the ingest raises rolls the session back to that
  point; the failure is then recorded in a transaction of its own. The savepoint around the fan-out
  only guards against exceptions of the database, so the fan-out itself is its body.
\<close>

definition execute_scan ::
  "query_client \<Rightarrow> unidata \<Rightarrow> ingest_env \<Rightarrow> uuid \<Rightarrow> uuid \<Rightarrow> ustr \<Rightarrow> db \<Rightarrow> db" where
  "execute_scan client U E scan_id' subject_id' query_text d =
     (case (find (\<lambda>s. scan_id s = scan_id') (scans d), find (\<lambda>s. sub_id s = subject_id') (subjects d)) of
        (Some scan, Some subject) \<Rightarrow>
          let started = begin_tx (start_scan scan_id' subject_id' (clock d) d) in
          (case run_scan client (sql_repository U) E scan subject query_text None started of
             (Inr summary, d) \<Rightarrow>
               snd (fanout_watchlisted_findings subject (is_new_finding_ids summary)
                 (enqueue_new_findings subject (is_new_finding_ids summary) d))
           | (Inl e, _) \<Rightarrow> fail_scan scan_id' subject_id' e (clock started) started)
      | _ \<Rightarrow> d)"

definition resolve_subject :: "NormalizedSubject \<Rightarrow> uuid option \<Rightarrow> db \<Rightarrow> Subject \<times> db" where
  "resolve_subject normalized linked_user_id d =
     (let (i, d) = uuid4 d;
          (t, row, is_new) = upsert
            (\<lambda>s. sub_kind s = ns_kind normalized \<and> sub_value_norm s = ns_value_norm normalized)
            (\<lambda>s. s\<lparr>sub_value_display := ns_value_display normalized,
                   sub_linked_user_id := (if linked_user_id \<noteq> None then linked_user_id
                                          else sub_linked_user_id s)\<rparr>)
            \<lparr>sub_id = i, sub_kind = ns_kind normalized, sub_value_norm = ns_value_norm normalized,
             sub_value_display = ns_value_display normalized, sub_first_scanned_at = None,
             sub_last_scanned_at = None, sub_linked_user_id = linked_user_id\<rparr>
            (subjects d)
      in (row, d\<lparr>subjects := t\<rparr>))"

definition actor_scan_lock :: "uuid \<Rightarrow> int" where
  "actor_scan_lock actor_id =
     sint (word_of_nat (from_bytes_big (take 8
       (sha256 (octets ''leakcheck/interactive-scan/v1'' @ [0] @ uuid_bytes actor_id)))) :: 64 word)"

section \<open>The shared client\<close>

text \<open>The keys in the order of their texts, in which the digest takes them.\<close>

definition CLIENT_KEYS :: "SettingKey list" where
  "CLIENT_KEYS = [LEAKCHECK_API_KEY, LEAKCHECK_CONCURRENCY, LEAKCHECK_MAX_RESPONSE_BYTES, LEAKCHECK_RPS]"

definition setting_int :: "unidata \<Rightarrow> setting_values \<Rightarrow> SettingKey \<Rightarrow> int \<Rightarrow> int \<Rightarrow> int \<Rightarrow> int res" where
  "setting_int U vs key absent minimum maximum =
     bind_res (case map_of vs key of None \<Rightarrow> Inr absent | Some raw \<Rightarrow> of_option ValueError (py_int U raw)) (\<lambda>v.
     if \<not> (minimum \<le> v \<and> v \<le> maximum) then Inl PlatformSettingError else Inr v)"

definition client_from_platform_values :: "unidata \<Rightarrow> rat \<Rightarrow> setting_values \<Rightarrow> LeakCheckClient res" where
  "client_from_platform_values U time vs =
     bind_res (setting_int U vs LEAKCHECK_RPS 3 1 20) (\<lambda>rps.
     bind_res (setting_int U vs LEAKCHECK_CONCURRENCY 3 1 50) (\<lambda>concurrency.
     bind_res (setting_int U vs LEAKCHECK_MAX_RESPONSE_BYTES (32 * 1024 * 1024) 1024 (128 * 1024 * 1024)) (\<lambda>max_bytes.
     new_client (setting_or vs LEAKCHECK_API_KEY []) (of_int rps) concurrency max_bytes 3 100 5 30 time)))"

fun client_config_parts :: "setting_values \<Rightarrow> SettingKey list \<Rightarrow> bytes res" where
  "client_config_parts vs [] = Inr []"
| "client_config_parts vs (k # ks) =
     bind_res (encode_utf8 (setting_or vs k [])) (\<lambda>encoded.
     bind_res (to_bytes_big 4 (length encoded)) (\<lambda>size.
     bind_res (client_config_parts vs ks) (\<lambda>rest.
     Inr (octets (SettingKey_value k) @ size @ encoded @ rest))))"

definition client_config_digest :: "setting_values \<Rightarrow> bytes res" where
  "client_config_digest vs = bind_res (client_config_parts vs CLIENT_KEYS) (\<lambda>m. Inr (sha256 m))"

text \<open>The process keeps the client and the digest of the settings it was built from.\<close>

record client_cache =
  cc_client :: "LeakCheckClient option"
  cc_digest :: "bytes option"

definition configured_client ::
  "aesgcm \<Rightarrow> unidata \<Rightarrow> Settings \<Rightarrow> rat \<Rightarrow> db \<Rightarrow> client_cache \<Rightarrow> (LeakCheckClient \<times> client_cache) res" where
  "configured_client G U s time d cache =
     bind_res (read_many G s CLIENT_KEYS d) (\<lambda>vs.
     bind_res (client_config_digest vs) (\<lambda>digest.
     case cc_client cache of
       Some c \<Rightarrow> if cc_digest cache = Some digest then Inr (c, cache)
                 else bind_res (client_from_platform_values U time vs) (\<lambda>c.
                        Inr (c, \<lparr>cc_client = Some c, cc_digest = Some digest\<rparr>))
     | None \<Rightarrow> bind_res (client_from_platform_values U time vs) (\<lambda>c.
                 Inr (c, \<lparr>cc_client = Some c, cc_digest = Some digest\<rparr>))))"

section \<open>Facts: what an ingest touches\<close>

definition only_ingest :: "db \<Rightarrow> db \<Rightarrow> bool" where
  "only_ingest d d' \<longleftrightarrow>
     users d' = users d \<and>
     admin_credentials d' = admin_credentials d \<and>
     admin_login_rate_limits d' = admin_login_rate_limits d \<and>
     sessions d' = sessions d \<and>
     platform_settings d' = platform_settings d \<and>
     audit_log d' = audit_log d \<and>
     subjects d' = subjects d \<and>
     scans d' = scans d \<and>
     scan_batches d' = scan_batches d \<and>
     scan_queue d' = scan_queue d \<and>
     schedules d' = schedules d \<and>
     notifications d' = notifications d \<and>
     watchlist d' = watchlist d \<and>
     alert_outbox d' = alert_outbox d \<and>
     branding d' = branding d \<and>
     clock d' = clock d \<and>
     tx_now d' = tx_now d \<and>
     entropy d' = entropy d"

lemma only_ingest_refl [simp]: "only_ingest d d"
  by (simp add: only_ingest_def)

lemma only_ingest_trans: "only_ingest d d1 \<Longrightarrow> only_ingest d1 d2 \<Longrightarrow> only_ingest d d2"
  by (simp add: only_ingest_def)

lemma only_ingest_steps:
  "only_ingest d (d\<lparr>drawn := n\<rparr>)" "only_ingest d (d\<lparr>findings := f\<rparr>)"
  by (simp_all add: only_ingest_def)

lemma only_ingest_repository:
  "sql_resolve_source si d = (src, d') \<Longrightarrow> only_ingest d d'"
  "sql_upsert_finding dr d = Inr (x, d') \<Longrightarrow> only_ingest d d'"
  "only_ingest d (sql_link_releak p c d)" "only_ingest d (sql_record_event fid ev a t m d)"
  by (auto simp: only_ingest_def sql_resolve_source_def sql_upsert_finding_def sql_link_releak_def
      sql_record_event_def set_finding_def uuid4_eq Let_def split: prod.splits if_splits)

definition finding_ids :: "db \<Rightarrow> uuid set" where
  "finding_ids d = fnd_id ` set (findings d)"

lemma finding_ids_repository [simp]:
  "finding_ids (sql_link_releak p c d) = finding_ids d"
  "finding_ids (sql_record_event fid ev a t m d) = finding_ids d"
  by (simp_all add: finding_ids_def)

text \<open>The findings a step adds are among the ids it reports.\<close>

definition reports_new :: "db \<Rightarrow> IngestSummary \<Rightarrow> db \<Rightarrow> IngestSummary \<Rightarrow> bool" where
  "reports_new d acc d' sm \<longleftrightarrow> only_ingest d d' \<and>
     set (is_new_finding_ids acc) \<subseteq> set (is_new_finding_ids sm) \<and>
     finding_ids d' \<subseteq> finding_ids d \<union> set (is_new_finding_ids sm)"



lemma ingest_new_reports:
  assumes "ingest_new (sql_repository U) a t si f acc d = (r, d')"
  shows "only_ingest d d' \<and> finding_ids d' = finding_ids d \<and>
    (\<exists>sm. r = Inr sm \<and> set (is_new_finding_ids sm) = insert (fnd_id f) (set (is_new_finding_ids acc)))"
proof -
  have "only_ingest d d'"
    using assms by (auto simp: ingest_new_def Let_def split: option.splits
        intro!: only_ingest_repository(4) only_ingest_trans [OF _ only_ingest_repository(4)]
          only_ingest_trans [OF _ only_ingest_repository(3)])
  moreover have "finding_ids d' = finding_ids d \<and>
    (\<exists>sm. r = Inr sm \<and> set (is_new_finding_ids sm) = insert (fnd_id f) (set (is_new_finding_ids acc)))"
    using assms by (auto simp: ingest_new_def Let_def split: option.splits)
  ultimately show ?thesis by blast
qed

lemma ingest_record_reports:
  assumes run: "ingest_record (sql_repository U) E s a t r acc d = (x, d')"
  shows "only_ingest d d' \<and> (\<forall>sm. x = Inr sm \<longrightarrow> reports_new d acc d' sm)"
proof -
  obtain src d1 where 1: "sql_resolve_source (normalize_source E (lr_source r)) d = (src, d1)" by fastforce
  have o1: "only_ingest d d1" and f1: "findings d1 = findings d"
    using only_ingest_repository(1) [OF 1] sql_resolve_source_frame [OF 1] by auto
  show ?thesis
  proof (cases "build_finding_draft E s src (normalize_source E (lr_source r)) r t d1")
    case (Inl e)
    with run 1 o1 show ?thesis by (auto simp: ingest_record_def)
  next
    case (Inr y)
    then obtain dr d2 where 2: "build_finding_draft E s src (normalize_source E (lr_source r)) r t d1 = Inr (dr, d2)"
      by (cases y) auto
    obtain n where d2: "d2 = d1\<lparr>drawn := n\<rparr>" using build_draft_Inr(2) [OF 2] by blast
    have o2: "only_ingest d d2" using o1 only_ingest_steps(1) only_ingest_trans unfolding d2 by blast
    show ?thesis
    proof (cases "sql_upsert_finding dr d2")
      case (Inl e)
      with run 1 2 o2 show ?thesis by (auto simp: ingest_record_def)
    next
      case (Inr z)
      then obtain f new d3 where 3: "sql_upsert_finding dr d2 = Inr ((f, new), d3)" by (cases z) auto
      have o3: "only_ingest d d3" using only_ingest_repository(2) [OF 3] o2 only_ingest_trans by blast
      show ?thesis
      proof (cases new)
        case True
        have "fd_fingerprint dr \<notin> known_fingerprints d2"
        proof
          assume k: "fd_fingerprint dr \<in> known_fingerprints d2"
          show False by (rule sql_upsert_known [OF k]) (use 3 True in auto)
        qed
        from sql_upsert_new [OF this] 3 have f: "d3 = d2\<lparr>findings := findings d2 @ [f]\<rparr>"
          by (auto split: if_splits)
        have new: "ingest_new (sql_repository U) a t (normalize_source E (lr_source r)) f
            (acc\<lparr>is_findings := is_findings acc @ [fnd_id f]\<rparr>) d3 = (x, d')"
          using run True by (simp add: ingest_record_def 1 2 3)
        note rep = ingest_new_reports [OF this]
        have "finding_ids d3 = insert (fnd_id f) (finding_ids d)"
          unfolding finding_ids_def f d2 using f1 by simp
        with rep have "reports_new d acc d' sm" if "x = Inr sm" for sm
          unfolding reports_new_def using that o3 by (auto intro: only_ingest_trans)
        with rep o3 show ?thesis by (blast intro: only_ingest_trans)
      next
        case False
        have known: "fd_fingerprint dr \<in> known_fingerprints d2"
          using 3 False sql_upsert_new [of dr d2] by (cases "fd_fingerprint dr \<in> known_fingerprints d2") (auto split: if_splits)
        have "finding_ids d3 = finding_ids d2"
          by (rule sql_upsert_known [OF known]) (use 3 in \<open>auto simp: finding_ids_def image_update_where\<close>)
        then have "finding_ids d3 = finding_ids d" unfolding finding_ids_def d2 using f1 by simp
        moreover have "x = Inr (acc\<lparr>is_findings := is_findings acc @ [fnd_id f]\<rparr>)" "d' = d3"
          using run False by (simp_all add: ingest_record_def 1 2 3)
        ultimately show ?thesis using o3 by (simp add: reports_new_def)
      qed
    qed
  qed
qed

lemma ingest_loop_reports:
  "ingest_loop (sql_repository U) E s a t rs acc d = (x, d') \<Longrightarrow>
   only_ingest d d' \<and> (\<forall>sm. x = Inr sm \<longrightarrow> reports_new d acc d' sm)"
proof (induction rs arbitrary: acc d)
  case Nil
  then show ?case by (auto simp: reports_new_def)
next
  case (Cons r rs)
  obtain y d1 where 1: "ingest_record (sql_repository U) E s a t r acc d = (y, d1)" by fastforce
  note r1 = ingest_record_reports [OF 1]
  show ?case
  proof (cases y)
    case (Inl e)
    with Cons.prems 1 r1 show ?thesis by auto
  next
    case (Inr acc')
    with Cons.prems 1 have "ingest_loop (sql_repository U) E s a t rs acc' d1 = (x, d')" by simp
    note rest = Cons.IH [OF this]
    then have "only_ingest d d'" using r1 only_ingest_trans by blast
    moreover have "reports_new d acc d' sm" if "x = Inr sm" for sm
    proof -
      have a: "reports_new d acc d1 acc'" "reports_new d1 acc' d' sm" using r1 rest that Inr by blast+
      show ?thesis
        unfolding reports_new_def
      proof (intro conjI)
        show "only_ingest d d'" by fact
        show "set (is_new_finding_ids acc) \<subseteq> set (is_new_finding_ids sm)"
          using a unfolding reports_new_def by (meson order_trans)
        show "finding_ids d' \<subseteq> finding_ids d \<union> set (is_new_finding_ids sm)"
          using a unfolding reports_new_def by (meson Un_least Un_upper1 Un_upper2 order_trans)
      qed
    qed
    ultimately show ?thesis by blast
  qed
qed

lemma ingest_records_reports:
  assumes "ingest_records (sql_repository U) E s rs a now d = (x, d')"
  shows "only_ingest d d' \<and> (\<forall>sm. x = Inr sm \<longrightarrow>
    finding_ids d' \<subseteq> finding_ids d \<union> set (is_new_finding_ids sm))"
proof (cases "utc_now (clock d) now")
  case (Inl e)
  with assms show ?thesis by (auto simp: ingest_records_def)
next
  case (Inr t)
  with assms have "ingest_loop (sql_repository U) E s a t rs empty_summary d = (x, d')"
    by (simp add: ingest_records_def)
  from ingest_loop_reports [OF this] show ?thesis unfolding reports_new_def by blast
qed

section \<open>Facts: the end of a scan\<close>

lemma start_scan_eq:
  "start_scan i j t d =
     d\<lparr>scans := update_where (\<lambda>s. scan_id s = i)
         (\<lambda>s. s\<lparr>scan_status := ScanStatus.RUNNING, scan_started_at := Some t\<rparr>) (scans d),
       subjects := update_where (\<lambda>s. sub_id s = j)
         (\<lambda>s. if sub_first_scanned_at s = None then s\<lparr>sub_first_scanned_at := Some t\<rparr> else s) (subjects d)\<rparr>"
  by (simp add: start_scan_def set_scan_def set_subject_def)

lemma enqueue_notification_frame [simp]:
  "scans (enqueue_notification u ids t d) = scans d"
  "findings (enqueue_notification u ids t d) = findings d"
  by (simp_all add: enqueue_notification_eq)

lemma enqueue_new_findings_frame [simp]:
  "scans (enqueue_new_findings s ids d) = scans d"
  "findings (enqueue_new_findings s ids d) = findings d"
  by (simp_all add: enqueue_new_findings_def split: option.splits)

lemma fold_fanout_frame:
  "scans (snd (fold (fanout_finding s es) fs (n, d))) = scans d \<and>
   findings (snd (fold (fanout_finding s es) fs (n, d))) = findings d \<and>
   notifications (snd (fold (fanout_finding s es) fs (n, d))) = notifications d"
proof (induction fs arbitrary: n d)
  case (Cons f fs)
  obtain m d' where 1: "fanout_finding s es f (n, d) = (m, d')" by fastforce
  then have "scans d' = scans d" "findings d' = findings d" "notifications d' = notifications d"
    by (auto simp: fanout_finding_def enqueue_alert_eq split: if_splits)
  with Cons.IH [of m d'] 1 show ?case by simp
qed simp

lemma fanout_frame [simp]:
  "scans (snd (fanout_watchlisted_findings s ids d)) = scans d"
  "findings (snd (fanout_watchlisted_findings s ids d)) = findings d"
  using fold_fanout_frame [of s "watching s d" "filter (\<lambda>f. fnd_id f \<in> set ids) (findings d)" 0 d]
  by (auto simp: fanout_watchlisted_findings_def Let_def split: prod.splits option.splits)

lemma set_enqueue_notification:
  "set (notifications d) \<subseteq> set (notifications (enqueue_notification u ids t d))"
  by (auto simp: enqueue_notification_eq insert_if_absent_def)

lemma fanout_keeps_notifications:
  "set (notifications d) \<subseteq> set (notifications (snd (fanout_watchlisted_findings s ids d)))"
  using fold_fanout_frame [of s "watching s d" "filter (\<lambda>f. fnd_id f \<in> set ids) (findings d)" 0 d]
  by (auto simp: fanout_watchlisted_findings_def Let_def split: prod.splits option.splits
      intro: subsetD [OF set_enqueue_notification])

text \<open>The two ways a scan runs.\<close>

lemma run_scan_cases:
  assumes "run_scan C (sql_repository U) E scan subject q None d = (x, d')"
  obtains (failed) e where "x = Inl e"
  | (succeeded) r sm d1 where "x = Inr sm" "C (query_type_of (sub_kind subject)) q = Inr r"
      "ingest_records (sql_repository U) E subject (qr_records r) (scan_requested_by scan)
         (Some (Aware (clock d) 0)) (start_scan (scan_id scan) (sub_id subject) (clock d) d) = (Inr sm, d1)"
      "d' = complete_scan (scan_id scan) (sub_id subject) r sm (clock d) d1"
  using assms by (auto simp: run_scan_def Let_def split: sum.splits prod.splits)

lemma execute_scan_outcome:
  assumes "find (\<lambda>s. scan_id s = i) (scans d) = Some s" and "find (\<lambda>s. sub_id s = j) (subjects d) = Some sub"
  shows "\<exists>s'. find (\<lambda>s. scan_id s = i) (scans (execute_scan C U E i j q d)) = Some s' \<and>
    scan_finished_at s' = Some (clock d) \<and>
    (scan_status s' = ScanStatus.SUCCEEDED \<and> scan_error s' = None \<and>
       (\<exists>r. C (query_type_of (sub_kind sub)) q = Inr r \<and> scan_result_count s' = length (qr_records r)) \<or>
     scan_status s' = ScanStatus.FAILED \<and> (\<exists>e. scan_error s' = Some (exn_name e)) \<and>
       (\<forall>d'. d' = execute_scan C U E i j q d \<longrightarrow>
          findings d' = findings d \<and> breach_sources d' = breach_sources d \<and>
          finding_events d' = finding_events d \<and> notifications d' = notifications d \<and>
          alert_outbox d' = alert_outbox d))"
proof -
  let ?d = "begin_tx (start_scan i j (clock d) d)"
  obtain x d1 where run: "run_scan C (sql_repository U) E s sub q None ?d = (x, d1)" by fastforce
  have ids: "scan_id s = i" "sub_id sub = j" using assms find_Some_mem by fastforce+
  show ?thesis
    using run
  proof (cases rule: run_scan_cases)
    case (failed e)
    then have "execute_scan C U E i j q d = fail_scan i j e (clock d) ?d"
      using assms run by (simp add: execute_scan_def Let_def begin_tx_def start_scan_eq)
    then show ?thesis
      using assms(1) ids by (auto simp: fail_scan_def set_scan_def set_subject_def begin_tx_def start_scan_eq
          find_update_where)
  next
    case (succeeded r sm d2)
    then have "scans d2 = scans (start_scan i j (clock ?d) ?d)"
      using ingest_records_reports ids unfolding only_ingest_def by blast
    then have "find (\<lambda>s. scan_id s = i) (scans d2) = Some (s\<lparr>scan_status := ScanStatus.RUNNING,
        scan_started_at := Some (clock d)\<rparr>)"
      using assms(1) ids by (simp add: start_scan_eq begin_tx_def find_update_where)
    moreover have "scans (execute_scan C U E i j q d) = scans d1"
      using assms run succeeded(1) by (simp add: execute_scan_def Let_def)
    ultimately show ?thesis
      using succeeded ids by (simp add: complete_scan_def set_scan_def set_subject_def find_update_where
          begin_tx_def start_scan_eq)
  qed
qed

section \<open>Properties\<close>



section \<open>Witnesses\<close>

definition a_scan :: Scan where
  "a_scan =
     \<lparr>scan_id = 4, scan_subject_id = 5, scan_requested_by = None, scan_trigger = ScanTrigger.BATCH,
      scan_status = ScanStatus.PENDING, scan_started_at = None, scan_finished_at = None, scan_result_count = 0,
      scan_new_count = 0, scan_quota = None, scan_truncated = False, scan_error = None\<rparr>"

definition scan_subject :: Subject where
  "scan_subject = (a_subject 5 SubjectKind.EMAIL ''a@b.c'')\<lparr>sub_linked_user_id := Some 1\<rparr>"

definition scan_db :: db where
  "scan_db = db0\<lparr>users := [a_user 1 UserRole.USER], scans := [a_scan], subjects := [scan_subject]\<rparr>"

definition one_record :: query_client where
  "one_record k q = Inr \<lparr>qr_query_type = k, qr_records = [a_record], qr_quota = Some 9, qr_found = 1, qr_truncated = False\<rparr>"

lemma scan_db_rows:
  "find (\<lambda>s. scan_id s = 4) (scans scan_db) = Some a_scan"
  "find (\<lambda>s. sub_id s = 5) (subjects scan_db) = Some scan_subject" "findings scan_db = []"
  by (simp_all add: scan_db_def a_scan_def scan_subject_def sample_defs)



end
