(* ===== verification/Batches.thy ===== *)
theory Batches
  imports ScanRuntime
begin

text \<open>
  Durable batches (\<open>src/app/batches.py\<close>): the users a target selects, the queue rows of a batch, claiming
  work under a ten minute lease and settling it. The lease is an abstract contract, \<open>leases\<close>, which the
  queue table is shown to implement.
\<close>

section \<open>Patterns\<close>

text \<open>SQL \<open>LIKE\<close> with the escape character \<open>\<close>92: a percent sign stands for any text, an underscore for a character.\<close>

fun sql_like :: "ustr \<Rightarrow> ustr \<Rightarrow> bool" where
  "sql_like [] s \<longleftrightarrow> s = []"
| "sql_like (c # p) s \<longleftrightarrow>
     (if c = 37 then list_ex (\<lambda>n. sql_like p (drop n s)) [0..<length s + 1]
      else if c = 95 then s \<noteq> [] \<and> sql_like p (tl s)
      else if c = 92 then (case p of [] \<Rightarrow> False | e # p' \<Rightarrow> s \<noteq> [] \<and> hd s = e \<and> sql_like p' (tl s))
      else s \<noteq> [] \<and> hd s = c \<and> sql_like p (tl s))"

definition replace_char :: "nat \<Rightarrow> ustr \<Rightarrow> ustr \<Rightarrow> ustr" where
  "replace_char c w s = concat (map (\<lambda>x. if x = c then w else [x]) s)"

definition escape_like :: "ustr \<Rightarrow> ustr" where
  "escape_like v = replace_char 95 [92, 95] (replace_char 37 [92, 37] (replace_char 92 [92, 92] v))"

definition escaped_ou_prefix :: "ustr \<Rightarrow> ustr" where
  "escaped_ou_prefix path = escape_like (rstrip_of (\<lambda>c. c = 47) path @ [47]) @ [37]"

section \<open>Creation\<close>

datatype target_value = TargetText ustr | TargetUsers "uuid list"

text \<open>
  The WHERE clause of a target and its JSON record. \<open>lo\<close> is the case mapping of \<open>ILIKE\<close> in the database.
\<close>

definition batch_target_filter ::
  "unidata \<Rightarrow> (ustr \<Rightarrow> ustr) \<Rightarrow> BatchTarget \<Rightarrow> target_value \<Rightarrow> ((User \<Rightarrow> bool) \<times> (ustr \<times> json) list) res" where
  "batch_target_filter U lo target_type v =
     (case (target_type, v) of
        (BatchTarget.OU, TargetText path) \<Rightarrow>
          Inr (\<lambda>u. case u_ou_path u of None \<Rightarrow> False
                   | Some ou \<Rightarrow> ou = path \<or> sql_like (escaped_ou_prefix path) ou,
               [(uni ''ou_path'', JStr path)])
      | (BatchTarget.DOMAIN, TargetText t) \<Rightarrow>
          (let domain = lstrip_of (\<lambda>c. c = 64) (casefold U t) in
           Inr (\<lambda>u. sql_like (lo ([37, 64] @ escape_like domain)) (lo (u_email u)),
                [(uni ''domain'', JStr domain)]))
      | (BatchTarget.SELECTION, TargetUsers ids) \<Rightarrow>
          Inr (\<lambda>u. u_id u \<in> set ids,
               [(uni ''user_ids'', JList (map (\<lambda>i. JStr (uuid_str i)) ids))])
      | _ \<Rightarrow> Inl ValueError)"

definition queue_user :: "unidata \<Rightarrow> uuid \<Rightarrow> User \<Rightarrow> db \<Rightarrow> db" where
  "queue_user U batch user d =
     (let (i, d) = uuid4 d;
          value_norm = casefold U (u_email user);
          (t, row, is_new) = upsert
            (\<lambda>s. sub_kind s = SubjectKind.EMAIL \<and> sub_value_norm s = value_norm)
            (\<lambda>s. s\<lparr>sub_linked_user_id := Some (u_id user)\<rparr>)
            \<lparr>sub_id = i, sub_kind = SubjectKind.EMAIL, sub_value_norm = value_norm,
             sub_value_display = u_email user, sub_first_scanned_at = None, sub_last_scanned_at = None,
             sub_linked_user_id = Some (u_id user)\<rparr>
            (subjects d);
          (q, d) = uuid4 d
      in d\<lparr>subjects := t,
           scan_queue := insert_if_absent (\<lambda>w. q_batch_id w = batch \<and> q_subject_id w = sub_id row)
             \<lparr>q_id = q, q_batch_id = batch, q_subject_id = sub_id row, q_status = QueueStatus.QUEUED,
              q_attempts = 0, q_locked_by = None, q_locked_at = None, q_last_error = None,
              q_created_at = tx_now d, q_finished_at = None\<rparr>
             (scan_queue d)\<rparr>)"

definition batch_users :: "(User \<Rightarrow> bool) \<Rightarrow> db \<Rightarrow> User list" where
  "batch_users p d = sort_key u_email (filter (\<lambda>u. u_is_active u \<and> p u) (users d))"

definition create_batch ::
  "unidata \<Rightarrow> (ustr \<Rightarrow> ustr) \<Rightarrow> uuid \<Rightarrow> BatchTarget \<Rightarrow> target_value \<Rightarrow> db \<Rightarrow> (ScanBatch \<times> db) res" where
  "create_batch U lo actor_id target_type v d =
     bind_res (batch_target_filter U lo target_type v) (\<lambda>(p, target).
     let us = batch_users p d in
     if us = [] then Inl ValueError
     else
       let (i, d) = uuid4 d;
           batch = \<lparr>batch_id = i, batch_target_type = target_type, batch_target = target,
                    batch_status = BatchStatus.PENDING, batch_created_by = actor_id,
                    batch_total_count = length us, batch_completed_count = 0, batch_failed_count = 0,
                    batch_created_at = tx_now d, batch_started_at = None, batch_finished_at = None\<rparr>
       in Inr (batch, fold (queue_user U i) us (d\<lparr>scan_batches := scan_batches d @ [batch]\<rparr>)))"

section \<open>Claiming and settling\<close>

record ClaimedWork =
  cw_queue_id :: uuid
  cw_batch_id :: uuid
  cw_subject_id :: uuid
  cw_query :: ustr

definition STALE_AFTER :: int where
  "STALE_AFTER = 10 * 60"

definition claimable :: "datetime \<Rightarrow> ScanQueue \<Rightarrow> bool" where
  "claimable claimed_at w \<longleftrightarrow>
     q_status w = QueueStatus.QUEUED \<or>
     q_status w = QueueStatus.RUNNING \<and>
       (case q_locked_at w of None \<Rightarrow> False | Some t \<Rightarrow> t < claimed_at - seconds STALE_AFTER)"

definition claim_statement :: "ustr \<Rightarrow> datetime \<Rightarrow> db \<Rightarrow> (uuid \<times> uuid \<times> uuid) option \<times> db" where
  "claim_statement worker_id claimed_at d =
     (case sort_key (\<lambda>w. (q_created_at w, q_id w)) (filter (claimable claimed_at) (scan_queue d)) of
        [] \<Rightarrow> (None, d)
      | w # _ \<Rightarrow> (Some (q_id w, q_batch_id w, q_subject_id w),
          d\<lparr>scan_queue := update_where (\<lambda>r. q_id r = q_id w)
              (\<lambda>r. r\<lparr>q_status := QueueStatus.RUNNING, q_locked_by := Some (take 255 worker_id),
                     q_locked_at := Some claimed_at, q_attempts := q_attempts r + 1, q_last_error := None\<rparr>)
              (scan_queue d)\<rparr>))"

text \<open>A claim whose subject is missing raises and is rolled back; the foreign key of the queue rules it out.\<close>

definition claim_next :: "ustr \<Rightarrow> db \<Rightarrow> (ClaimedWork option \<times> db) res" where
  "claim_next worker_id d =
     (case claim_statement worker_id (clock d) d of
        (None, d) \<Rightarrow> Inr (None, d)
      | (Some (queue_id, batch, subject), d) \<Rightarrow>
          (case find (\<lambda>s. sub_id s = subject) (subjects d) of
             None \<Rightarrow> Inl (OtherError ''NoResultFound'')
           | Some s \<Rightarrow>
               Inr (Some \<lparr>cw_queue_id = queue_id, cw_batch_id = batch, cw_subject_id = subject,
                          cw_query = sub_value_norm s\<rparr>,
                    d\<lparr>scan_batches := update_where
                        (\<lambda>b. batch_id b = batch \<and> batch_status b = BatchStatus.PENDING)
                        (\<lambda>b. b\<lparr>batch_status := BatchStatus.RUNNING, batch_started_at := Some (tx_now d)\<rparr>)
                        (scan_batches d)\<rparr>)))"

definition settle_row :: "bool \<Rightarrow> string option \<Rightarrow> datetime \<Rightarrow> ScanQueue \<Rightarrow> ScanQueue" where
  "settle_row succeeded error t r =
     r\<lparr>q_status := (if succeeded then QueueStatus.SUCCEEDED else QueueStatus.FAILED),
       q_finished_at := Some t, q_locked_by := None, q_locked_at := None,
       q_last_error := (if succeeded then None
         else Some (take 255 (case error of None \<Rightarrow> ''scan failed''
                              | Some e \<Rightarrow> if e = [] then ''scan failed'' else e)))\<rparr>"

definition finish_work :: "ClaimedWork \<Rightarrow> bool \<Rightarrow> string option \<Rightarrow> db \<Rightarrow> db" where
  "finish_work work succeeded error d =
     (let d = d\<lparr>scan_queue := update_where
                  (\<lambda>r. q_id r = cw_queue_id work \<and> q_status r = QueueStatus.RUNNING)
                  (settle_row succeeded error (tx_now d)) (scan_queue d)\<rparr>;
          rows = filter (\<lambda>r. q_batch_id r = cw_batch_id work) (scan_queue d);
          completed = rowcount (\<lambda>r. q_status r = QueueStatus.SUCCEEDED) rows;
          failed = rowcount (\<lambda>r. q_status r = QueueStatus.FAILED) rows
      in d\<lparr>scan_batches := update_where (\<lambda>b. batch_id b = cw_batch_id work)
             (\<lambda>b. let b = b\<lparr>batch_completed_count := completed, batch_failed_count := failed\<rparr> in
                  if completed + failed = length rows
                  then b\<lparr>batch_status := (if failed = 0 then BatchStatus.SUCCEEDED else BatchStatus.PARTIAL),
                         batch_finished_at := Some (clock d)\<rparr>
                  else b)
             (scan_batches d)\<rparr>)"

section \<open>Facts: patterns\<close>

lemma escape_like_eq: "escape_like v = concat (map (\<lambda>c. if c \<in> {92, 37, 95} then [92, c] else [c]) v)"
  by (induction v) (auto simp: escape_like_def replace_char_def)

lemma sql_like_escaped: "sql_like (escape_like v @ p) s \<longleftrightarrow> (\<exists>r. s = v @ r \<and> sql_like p r)"
proof (induction v arbitrary: s)
  case Nil
  then show ?case by (simp add: escape_like_eq)
next
  case (Cons c v)
  have step: "sql_like (escape_like (c # v) @ p) s \<longleftrightarrow> s \<noteq> [] \<and> hd s = c \<and> sql_like (escape_like v @ p) (tl s)"
    by (auto simp: escape_like_eq)
  show ?case
    unfolding step Cons.IH by (cases s) auto
qed

lemma sql_like_any: "sql_like [37] s"
  by (auto simp: list_ex_iff intro!: bexI [of _ "length s"])

text \<open>Escaping turns the pattern into a test for a prefix.\<close>

lemma escaped_ou_prefix_like:
  "sql_like (escaped_ou_prefix path) ou \<longleftrightarrow> (\<exists>r. ou = rstrip_of (\<lambda>c. c = 47) path @ [47] @ r)"
  using sql_like_any by (auto simp: escaped_ou_prefix_def sql_like_escaped)

section \<open>The lease contract\<close>

text \<open>
  What claiming promises, without tables: a piece of work waits, is held since an instant, or is settled;
  it can be acquired while it waits and again when it has been held for more than ten minutes.
\<close>

datatype lease = Waiting | Held datetime | Settled

datatype lease_event = Acquired datetime uuid | Idle datetime | Finished uuid

type_synonym leases = "uuid \<Rightarrow> lease option"

fun lease_free :: "datetime \<Rightarrow> lease \<Rightarrow> bool" where
  "lease_free t Waiting \<longleftrightarrow> True"
| "lease_free t (Held s) \<longleftrightarrow> s + seconds STALE_AFTER < t"
| "lease_free t Settled \<longleftrightarrow> False"

inductive lease_step :: "leases \<Rightarrow> lease_event \<Rightarrow> leases \<Rightarrow> bool" where
  acquire: "m i = Some l \<Longrightarrow> lease_free t l \<Longrightarrow> lease_step m (Acquired t i) (m(i \<mapsto> Held t))"
| idle: "(\<And>i l. m i = Some l \<Longrightarrow> \<not> lease_free t l) \<Longrightarrow> lease_step m (Idle t) m"
| finish: "m i = Some (Held t) \<Longrightarrow> lease_step m (Finished i) (m(i \<mapsto> Settled))"
| late: "(\<And>t. m i \<noteq> Some (Held t)) \<Longrightarrow> lease_step m (Finished i) m"

inductive_cases lease_step_cases:
  "lease_step m (Acquired t i) m'" "lease_step m (Idle t) m'" "lease_step m (Finished i) m'"

fun lease_run :: "leases \<Rightarrow> lease_event list \<Rightarrow> leases \<Rightarrow> bool" where
  "lease_run m [] m' \<longleftrightarrow> m' = m"
| "lease_run m (e # es) m' \<longleftrightarrow> (\<exists>m1. lease_step m e m1 \<and> lease_run m1 es m')"

text \<open>Work that has been acquired is not acquired again before its lease is over.\<close>

lemma lease_exclusive:
  assumes "lease_run m es m'" and "m i = Some Settled \<or> (\<exists>s. m i = Some (Held s) \<and> t \<le> s)"
    and "Acquired t' i \<in> set es"
  shows "t + seconds STALE_AFTER < t'"
  using assms
proof (induction es arbitrary: m)
  case (Cons e es)
  then obtain m1 where step: "lease_step m e m1" and rest: "lease_run m1 es m'" by auto
  show ?case
  proof (cases "e = Acquired t' i")
    case True
    with step Cons.prems(2) show ?thesis by (auto elim!: lease_step_cases)
  next
    case False
    then have es: "Acquired t' i \<in> set es" using Cons.prems(3) by auto
    have "m1 i = Some Settled \<or> (\<exists>s. m1 i = Some (Held s) \<and> t \<le> s)"
      using step Cons.prems(2)
      by (cases e) (auto elim!: lease_step_cases simp: STALE_AFTER_def seconds_def split: if_splits)
    from Cons.IH [OF rest this es] show ?thesis .
  qed
qed simp

text \<open>A queue worked by several workers: claims at given times and completions, in any order.\<close>

datatype ('w, 'c) work_op = Claim 'w datetime | Finish 'c bool "string option"

fun work_events ::
  "('w \<Rightarrow> 's \<Rightarrow> ('c option \<times> 's) res) \<Rightarrow> ('c \<Rightarrow> bool \<Rightarrow> string option \<Rightarrow> 's \<Rightarrow> 's) \<Rightarrow> (datetime \<Rightarrow> 's \<Rightarrow> 's)
   \<Rightarrow> ('c \<Rightarrow> uuid) \<Rightarrow> ('w, 'c) work_op list \<Rightarrow> 's \<Rightarrow> lease_event list" where
  "work_events claim fin set_now key [] s = []"
| "work_events claim fin set_now key (Claim w t # ops) s =
     (case claim w (set_now t s) of
        Inl e \<Rightarrow> work_events claim fin set_now key ops s
      | Inr (None, s) \<Rightarrow> Idle t # work_events claim fin set_now key ops s
      | Inr (Some c, s) \<Rightarrow> Acquired t (key c) # work_events claim fin set_now key ops s)"
| "work_events claim fin set_now key (Finish c ok e # ops) s =
     Finished (key c) # work_events claim fin set_now key ops (fin c ok e s)"

locale lease_queue =
  fixes claim :: "'w \<Rightarrow> 's \<Rightarrow> ('c option \<times> 's) res"
    and fin :: "'c \<Rightarrow> bool \<Rightarrow> string option \<Rightarrow> 's \<Rightarrow> 's"
    and set_now :: "datetime \<Rightarrow> 's \<Rightarrow> 's"
    and now :: "'s \<Rightarrow> datetime"
    and key :: "'c \<Rightarrow> uuid"
    and inv :: "'s \<Rightarrow> bool"
    and abs :: "'s \<Rightarrow> leases"
  assumes claim_step: "inv s \<Longrightarrow> claim w s = Inr (r, s') \<Longrightarrow> inv s' \<and>
      lease_step (abs s) (case r of None \<Rightarrow> Idle (now s) | Some c \<Rightarrow> Acquired (now s) (key c)) (abs s')"
    and fin_step: "inv s \<Longrightarrow> inv (fin c ok e s) \<and> lease_step (abs s) (Finished (key c)) (abs (fin c ok e s))"
    and clock: "inv (set_now t s) = inv s" "abs (set_now t s) = abs s" "now (set_now t s) = t"
begin

lemma events_run: "inv s \<Longrightarrow> \<exists>m. lease_run (abs s) (work_events claim fin set_now key ops s) m"
proof (induction ops arbitrary: s)
  case Nil
  then show ?case by auto
next
  case (Cons op ops)
  show ?case
  proof (cases op)
    case (Claim w t)
    show ?thesis
    proof (cases "claim w (set_now t s)")
      case (Inl e)
      with Claim Cons show ?thesis by simp
    next
      case (Inr y)
      then obtain r s' where run: "claim w (set_now t s) = Inr (r, s')" by (cases y) auto
      then have st: "inv s'" "lease_step (abs s) (case r of None \<Rightarrow> Idle t | Some c \<Rightarrow> Acquired t (key c)) (abs s')"
        using claim_step [of "set_now t s" w r s'] Cons.prems unfolding clock by blast+
      from Cons.IH [OF st(1)] st(2) Claim run show ?thesis by (cases r) auto
    qed
  next
    case (Finish c ok e)
    have st: "inv (fin c ok e s)" "lease_step (abs s) (Finished (key c)) (abs (fin c ok e s))"
      using fin_step [OF Cons.prems] by blast+
    from Cons.IH [OF st(1)] st(2) Finish show ?thesis by auto
  qed
qed

lemma exclusive:
  assumes "inv s" and "claim w s = Inr (Some c, s')"
    and "Acquired t (key c) \<in> set (work_events claim fin set_now key ops s')"
  shows "now s + seconds STALE_AFTER < t"
proof -
  have st: "inv s'" "lease_step (abs s) (Acquired (now s) (key c)) (abs s')"
    using claim_step [OF assms(1,2)] by auto
  then have "abs s' (key c) = Some (Held (now s))" by (auto elim!: lease_step_cases)
  moreover obtain m where "lease_run (abs s') (work_events claim fin set_now key ops s') m"
    using events_run [OF st(1)] by blast
  ultimately show ?thesis using lease_exclusive assms(3) by blast
qed

end

section \<open>The queue table keeps the contract\<close>

definition row_lease :: "ScanQueue \<Rightarrow> lease" where
  "row_lease w = (case q_status w of
     QueueStatus.QUEUED \<Rightarrow> Waiting
   | QueueStatus.RUNNING \<Rightarrow> Held (the (q_locked_at w))
   | _ \<Rightarrow> Settled)"

definition queue_leases :: "db \<Rightarrow> leases" where
  "queue_leases d i = map_option row_lease (find (\<lambda>w. q_id w = i) (scan_queue d))"

definition queue_inv :: "db \<Rightarrow> bool" where
  "queue_inv d \<longleftrightarrow> unique_on q_id (scan_queue d) \<and>
     (\<forall>w \<in> set (scan_queue d). (q_locked_at w \<noteq> None) = (q_status w = QueueStatus.RUNNING))"

lemma claimable_lease:
  "(q_locked_at w \<noteq> None) = (q_status w = QueueStatus.RUNNING) \<Longrightarrow> claimable t w = lease_free t (row_lease w)"
  by (cases "q_status w") (auto simp: claimable_def row_lease_def)

lemma queue_leases_update:
  assumes "find (\<lambda>w. q_id w = i) (scan_queue d) = Some w" and "\<And>r. q_id (f r) = q_id r"
  shows "queue_leases (d\<lparr>scan_queue := update_where (\<lambda>r. q_id r = i) f (scan_queue d)\<rparr>) =
    (queue_leases d)(i \<mapsto> row_lease (f w))"
proof
  fix j
  have "q_id w = i" using find_Some_mem [OF assms(1)] by simp
  with assms show "queue_leases (d\<lparr>scan_queue := update_where (\<lambda>r. q_id r = i) f (scan_queue d)\<rparr>) j =
    ((queue_leases d)(i \<mapsto> row_lease (f w))) j"
  proof (cases "j = i")
    case True
    with assms \<open>q_id w = i\<close> show ?thesis by (simp add: queue_leases_def find_update_where)
  next
    case False
    then have "find (\<lambda>w. q_id w = j) (update_where (\<lambda>r. q_id r = i) f (scan_queue d)) =
        find (\<lambda>w. q_id w = j) (scan_queue d)"
      using assms(2) by (intro find_update_where_other) auto
    with False show ?thesis by (simp add: queue_leases_def)
  qed
qed

lemma sort_key_Nil: "sort_key k xs = [] \<longleftrightarrow> xs = []"
  using length_sort [of k xs] by (metis length_0_conv)

lemma claim_statement_step:
  assumes inv: "queue_inv d" and run: "claim_statement w t d = (r, d')"
  shows "queue_inv d' \<and> lease_step (queue_leases d)
    (case r of None \<Rightarrow> Idle t | Some (q, b, s) \<Rightarrow> Acquired t q) (queue_leases d')"
proof (cases "sort_key (\<lambda>w. (q_created_at w, q_id w)) (filter (claimable t) (scan_queue d))")
  case Nil
  then have none: "\<not> claimable t w" if "w \<in> set (scan_queue d)" for w
    using that by (simp add: sort_key_Nil filter_empty_conv)
  have "\<not> lease_free t l" if l: "queue_leases d i = Some l" for i l
  proof -
    obtain w where w: "find (\<lambda>w. q_id w = i) (scan_queue d) = Some w" "l = row_lease w"
      using l by (auto simp: queue_leases_def)
    then have "w \<in> set (scan_queue d)" by (auto dest: find_Some_mem)
    with none inv claimable_lease w(2) show ?thesis by (auto simp: queue_inv_def)
  qed
  then have "lease_step (queue_leases d) (Idle t) (queue_leases d)" by (rule lease_step.idle)
  with run Nil inv show ?thesis by (auto simp: claim_statement_def)
next
  case (Cons c cs)
  let ?f = "\<lambda>r. r\<lparr>q_status := QueueStatus.RUNNING, q_locked_by := Some (take 255 w),
      q_locked_at := Some t, q_attempts := q_attempts r + 1, q_last_error := None\<rparr> :: ScanQueue"
  have c: "c \<in> set (scan_queue d)" "claimable t c" using sort_key_hd [OF Cons] by auto
  then have free: "lease_free t (row_lease c)" using inv claimable_lease by (auto simp: queue_inv_def)
  have find: "find (\<lambda>w. q_id w = q_id c) (scan_queue d) = Some c"
    using inv c(1) unique_on_find by (auto simp: queue_inv_def)
  have r: "r = Some (q_id c, q_batch_id c, q_subject_id c)"
    and d': "d' = d\<lparr>scan_queue := update_where (\<lambda>r. q_id r = q_id c) ?f (scan_queue d)\<rparr>"
    using run Cons by (simp_all add: claim_statement_def)
  have "queue_leases d' = (queue_leases d)(q_id c \<mapsto> Held t)"
    unfolding d' by (subst queue_leases_update [OF find]) (simp_all add: row_lease_def)
  moreover have "queue_leases d (q_id c) = Some (row_lease c)" by (simp add: queue_leases_def find)
  ultimately have "lease_step (queue_leases d) (Acquired t (q_id c)) (queue_leases d')"
    using free by (simp add: lease_step.acquire)
  moreover have "queue_inv d'"
    using inv by (auto simp: d' queue_inv_def unique_on_update_where set_update_where)
  ultimately show ?thesis by (simp add: r)
qed

lemma claim_next_Inr:
  assumes "claim_next w d = Inr (r, d')"
  obtains r0 d0 where "claim_statement w (clock d) d = (r0, d0)" "scan_queue d' = scan_queue d0"
    "map_option fst r0 = map_option cw_queue_id r"
  using assms by (auto simp: claim_next_def split: prod.splits option.splits)

lemma queue_frame:
  "scan_queue d' = scan_queue d \<Longrightarrow> queue_inv d' = queue_inv d \<and> queue_leases d' = queue_leases d"
  by (simp add: queue_inv_def queue_leases_def fun_eq_iff)

lemma claim_next_step:
  assumes "queue_inv d" and "claim_next w d = Inr (r, d')"
  shows "queue_inv d' \<and> lease_step (queue_leases d)
    (case r of None \<Rightarrow> Idle (clock d) | Some c \<Rightarrow> Acquired (clock d) (cw_queue_id c)) (queue_leases d')"
  using assms(2)
proof (cases rule: claim_next_Inr)
  case (1 r0 d0)
  from claim_statement_step [OF assms(1) 1(1)] queue_frame [OF 1(2)] 1(3) show ?thesis
    by (cases r0; cases r) auto
qed

lemma finish_work_step:
  assumes inv: "queue_inv d"
  shows "queue_inv (finish_work c ok e d) \<and>
    lease_step (queue_leases d) (Finished (cw_queue_id c)) (queue_leases (finish_work c ok e d))"
proof -
  let ?i = "cw_queue_id c" and ?f = "settle_row ok e (tx_now d)"
  let ?d = "d\<lparr>scan_queue := update_where (\<lambda>r. q_id r = ?i \<and> q_status r = QueueStatus.RUNNING) ?f (scan_queue d)\<rparr>"
  have frame: "queue_inv (finish_work c ok e d) = queue_inv ?d" "queue_leases (finish_work c ok e d) = queue_leases ?d"
    using queue_frame [of "finish_work c ok e d" ?d] by (auto simp: finish_work_def Let_def)
  have uq: "unique_on q_id (scan_queue d)" using inv by (simp add: queue_inv_def)
  have "queue_inv ?d"
    using inv by (auto simp: queue_inv_def unique_on_update_where set_update_where settle_row_def)
  moreover have "lease_step (queue_leases d) (Finished ?i) (queue_leases ?d)"
  proof (cases "\<exists>w. find (\<lambda>w. q_id w = ?i) (scan_queue d) = Some w \<and> q_status w = QueueStatus.RUNNING")
    case True
    then obtain w where w: "find (\<lambda>w. q_id w = ?i) (scan_queue d) = Some w" "q_status w = QueueStatus.RUNNING"
      by blast
    have "update_where (\<lambda>r. q_id r = ?i \<and> q_status r = QueueStatus.RUNNING) ?f (scan_queue d) =
        update_where (\<lambda>r. q_id r = ?i) ?f (scan_queue d)"
    proof -
      have "r = w" if "r \<in> set (scan_queue d)" "q_id r = ?i" for r
        using unique_on_eq [OF uq that(1)] find_Some_mem [OF w(1)] that(2) by simp
      then show ?thesis unfolding update_where_def using w(2) by (intro map_cong) auto
    qed
    then have "queue_leases ?d = (queue_leases d)(?i \<mapsto> Settled)"
      using queue_leases_update [OF w(1), of ?f] by (simp add: settle_row_def row_lease_def)
    moreover have "queue_leases d ?i = Some (Held (the (q_locked_at w)))"
      using w by (simp add: queue_leases_def row_lease_def)
    ultimately show ?thesis using lease_step.finish by simp
  next
    case False
    have "update_where (\<lambda>r. q_id r = ?i \<and> q_status r = QueueStatus.RUNNING) ?f (scan_queue d) = scan_queue d"
    proof (rule update_where_none, rule notI)
      fix r assume "r \<in> set (scan_queue d)" "q_id r = ?i \<and> q_status r = QueueStatus.RUNNING"
      with unique_on_find [OF uq, of r] False show "False" by simp
    qed
    moreover have "queue_leases d ?i \<noteq> Some (Held t)" for t
      using False by (auto simp: queue_leases_def row_lease_def split: QueueStatus.splits)
    ultimately show ?thesis using lease_step.late [of "queue_leases d" ?i] by simp
  qed
  ultimately show ?thesis by (simp add: frame)
qed

interpretation queue: lease_queue claim_next finish_work "\<lambda>t d. d\<lparr>clock := t\<rparr>" clock cw_queue_id queue_inv
    queue_leases
proof unfold_locales
  fix t :: datetime and d :: db
  show "queue_inv (d\<lparr>clock := t\<rparr>) = queue_inv d" "queue_leases (d\<lparr>clock := t\<rparr>) = queue_leases d"
    using queue_frame [of "d\<lparr>clock := t\<rparr>" d] by simp_all
qed (use claim_next_step finish_work_step in simp_all)

section \<open>Facts: creation\<close>

definition queued_for :: "unidata \<Rightarrow> uuid \<Rightarrow> db \<Rightarrow> User \<Rightarrow> bool" where
  "queued_for U b d u \<longleftrightarrow> (\<exists>s \<in> set (subjects d). \<exists>w \<in> set (scan_queue d).
     sub_kind s = SubjectKind.EMAIL \<and> sub_value_norm s = casefold U (u_email u) \<and>
     q_batch_id w = b \<and> q_subject_id w = sub_id s \<and> q_status w = QueueStatus.QUEUED)"

definition batch_rows :: "uuid \<Rightarrow> db \<Rightarrow> ScanQueue list" where
  "batch_rows b d = filter (\<lambda>w. q_batch_id w = b) (scan_queue d)"

lemma queue_user_eq:
  "\<exists>t row. (\<exists>new. upsert (\<lambda>s. sub_kind s = SubjectKind.EMAIL \<and> sub_value_norm s = casefold U (u_email u))
      (\<lambda>s. s\<lparr>sub_linked_user_id := Some (u_id u)\<rparr>)
      \<lparr>sub_id = next_uuid d, sub_kind = SubjectKind.EMAIL, sub_value_norm = casefold U (u_email u),
       sub_value_display = u_email u, sub_first_scanned_at = None, sub_last_scanned_at = None,
       sub_linked_user_id = Some (u_id u)\<rparr> (subjects d) = (t, row, new)) \<and>
    subjects (queue_user U b u d) = t \<and>
    (\<exists>w. scan_queue (queue_user U b u d) =
        insert_if_absent (\<lambda>w. q_batch_id w = b \<and> q_subject_id w = sub_id row) w (scan_queue d) \<and>
      q_batch_id w = b \<and> q_subject_id w = sub_id row \<and> q_status w = QueueStatus.QUEUED) \<and>
    users (queue_user U b u d) = users d \<and> scan_batches (queue_user U b u d) = scan_batches d"
  by (auto simp: queue_user_def uuid4_eq Let_def split: prod.splits)

lemma queue_user_subject:
  assumes "upsert (\<lambda>s. sub_kind s = SubjectKind.EMAIL \<and> sub_value_norm s = v) (\<lambda>s. s\<lparr>sub_linked_user_id := l\<rparr>)
      new xs = (t, row, flag)" and "sub_kind new = SubjectKind.EMAIL" and "sub_value_norm new = v"
  shows "row \<in> set t \<and> sub_kind row = SubjectKind.EMAIL \<and> sub_value_norm row = v \<and>
    (\<forall>s \<in> set xs. \<exists>s' \<in> set t. sub_id s' = sub_id s \<and> sub_kind s' = sub_kind s \<and> sub_value_norm s' = sub_value_norm s)"
proof -
  have "row \<in> set t" using upsert_row_mem [OF assms(1)] .
  moreover have "sub_kind row = SubjectKind.EMAIL \<and> sub_value_norm row = v"
    using assms by (auto simp: upsert_def split: option.splits dest: find_Some_mem)
  moreover have "\<exists>s' \<in> set t. sub_id s' = sub_id s \<and> sub_kind s' = sub_kind s \<and> sub_value_norm s' = sub_value_norm s"
    if "s \<in> set xs" for s
  proof -
    let ?c = "\<lambda>s. sub_kind s = SubjectKind.EMAIL \<and> sub_value_norm s = v"
    and ?f = "\<lambda>s. s\<lparr>sub_linked_user_id := l\<rparr>"
    have "t = xs @ [new] \<or> t = update_where ?c ?f xs"
      using assms(1) by (auto simp: upsert_def split: option.splits)
    then have "s \<in> set t \<or> (if ?c s then ?f s else s) \<in> set t" using that by (auto simp: set_update_where)
    then show ?thesis by (metis Subject.select_convs(1,2,3) Subject.surjective Subject.update_convs(7))
  qed
  ultimately show ?thesis by blast
qed

lemma queue_user_step:
  assumes fresh: "\<forall>w \<in> set (batch_rows b d). q_status w = QueueStatus.QUEUED"
  shows "queued_for U b (queue_user U b u d) u"
    and "queued_for U b d v \<Longrightarrow> queued_for U b (queue_user U b u d) v"
    and "\<forall>w \<in> set (batch_rows b (queue_user U b u d)). q_status w = QueueStatus.QUEUED"
    and "unique_on q_subject_id (batch_rows b d) \<Longrightarrow> unique_on q_subject_id (batch_rows b (queue_user U b u d))"
    and "length (batch_rows b (queue_user U b u d)) \<le> length (batch_rows b d) + 1"
proof -
  obtain t row new w where up: "upsert (\<lambda>s. sub_kind s = SubjectKind.EMAIL \<and> sub_value_norm s = casefold U (u_email u))
      (\<lambda>s. s\<lparr>sub_linked_user_id := Some (u_id u)\<rparr>)
      \<lparr>sub_id = next_uuid d, sub_kind = SubjectKind.EMAIL, sub_value_norm = casefold U (u_email u),
       sub_value_display = u_email u, sub_first_scanned_at = None, sub_last_scanned_at = None,
       sub_linked_user_id = Some (u_id u)\<rparr> (subjects d) = (t, row, new)"
    and subs: "subjects (queue_user U b u d) = t"
    and q: "scan_queue (queue_user U b u d) =
        insert_if_absent (\<lambda>w. q_batch_id w = b \<and> q_subject_id w = sub_id row) w (scan_queue d)"
    and w: "q_batch_id w = b" "q_subject_id w = sub_id row" "q_status w = QueueStatus.QUEUED"
    using queue_user_eq [of U u d b] by blast
  note row = queue_user_subject [OF up]
  have row1: "row \<in> set t" "sub_kind row = SubjectKind.EMAIL" "sub_value_norm row = casefold U (u_email u)"
    using row by simp_all
  have rows: "batch_rows b (queue_user U b u d) = batch_rows b d \<or>
      batch_rows b (queue_user U b u d) = batch_rows b d @ [w] \<and> (\<forall>r \<in> set (batch_rows b d). q_subject_id r \<noteq> sub_id row)"
    using w by (auto simp: batch_rows_def q insert_if_absent_def)
  have "\<exists>r \<in> set (batch_rows b (queue_user U b u d)). q_subject_id r = sub_id row"
    using w by (auto simp: batch_rows_def q insert_if_absent_def)
  moreover show st: "\<forall>w \<in> set (batch_rows b (queue_user U b u d)). q_status w = QueueStatus.QUEUED"
    using rows fresh w(3) by auto
  ultimately show "queued_for U b (queue_user U b u d) u"
    unfolding queued_for_def subs using row1 by (fastforce simp: batch_rows_def)
  show "queued_for U b (queue_user U b u d) v" if "queued_for U b d v"
  proof -
    from that obtain s r where sr: "s \<in> set (subjects d)" "r \<in> set (scan_queue d)" "sub_kind s = SubjectKind.EMAIL"
      "sub_value_norm s = casefold U (u_email v)" "q_batch_id r = b" "q_subject_id r = sub_id s"
      "q_status r = QueueStatus.QUEUED" unfolding queued_for_def by blast
    moreover obtain s' where "s' \<in> set t" "sub_id s' = sub_id s" "sub_kind s' = sub_kind s"
      "sub_value_norm s' = sub_value_norm s" using row sr(1) by auto
    moreover have "r \<in> set (scan_queue (queue_user U b u d))" using sr(2) by (simp add: q insert_if_absent_def)
    ultimately show ?thesis unfolding queued_for_def subs by metis
  qed
  show "unique_on q_subject_id (batch_rows b (queue_user U b u d))" if "unique_on q_subject_id (batch_rows b d)"
    using rows
  proof (elim disjE conjE)
    assume eq: "batch_rows b (queue_user U b u d) = batch_rows b d @ [w]"
      and new: "\<forall>r \<in> set (batch_rows b d). q_subject_id r \<noteq> sub_id row"
    have "q_subject_id w \<notin> q_subject_id ` set (batch_rows b d)" using new w(2) by auto
    with eq that show ?thesis by (simp add: unique_on_append1)
  qed (use that in simp)
  show "length (batch_rows b (queue_user U b u d)) \<le> length (batch_rows b d) + 1"
    using rows by auto
qed


lemma fold_queue_user:
  assumes "\<forall>w \<in> set (batch_rows b d). q_status w = QueueStatus.QUEUED"
    and "unique_on q_subject_id (batch_rows b d)"
  shows "(\<forall>u \<in> set us. queued_for U b (fold (queue_user U b) us d) u) \<and>
    (\<forall>u. queued_for U b d u \<longrightarrow> queued_for U b (fold (queue_user U b) us d) u) \<and>
    (\<forall>w \<in> set (batch_rows b (fold (queue_user U b) us d)). q_status w = QueueStatus.QUEUED) \<and>
    unique_on q_subject_id (batch_rows b (fold (queue_user U b) us d)) \<and>
    length (batch_rows b (fold (queue_user U b) us d)) \<le> length (batch_rows b d) + length us"
  using assms
proof (induction us arbitrary: d)
  case (Cons u us)
  note st = queue_user_step [where U = U and u = u, OF Cons.prems(1)]
  note ih = Cons.IH [OF st(3) st(4) [OF Cons.prems(2)]]
  show ?case
  proof (intro conjI ballI allI impI)
    fix v assume "v \<in> set (u # us)"
    then show "queued_for U b (fold (queue_user U b) (u # us) d) v" using ih st(1) by auto
  next
    fix v assume "queued_for U b d v"
    then show "queued_for U b (fold (queue_user U b) (u # us) d) v" using ih st(2) [where v = v] by simp
  qed (use ih st(5) in auto)
qed auto

section \<open>Properties\<close>

definition in_ou :: "ustr \<Rightarrow> User \<Rightarrow> bool" where
  "in_ou path u \<longleftrightarrow> (\<exists>ou. u_ou_path u = Some ou \<and>
     (ou = path \<or> (\<exists>r. ou = rstrip_of (\<lambda>c. c = 47) path @ [47] @ r)))"

text \<open>
  An organisational unit selects exactly the active users in it or below it, whatever characters its
  path has: no character of the path acts as a wildcard. The batch counts these users, queues the subject of
  each, and queues no subject twice.
\<close>

theorem ou_batch_selects:
  assumes "create_batch U lo a BatchTarget.OU (TargetText path) d = Inr (b, d')"
    and "\<forall>w \<in> set (scan_queue d). q_batch_id w \<noteq> next_uuid d"
  shows "batch_total_count b = length (filter (\<lambda>u. u_is_active u \<and> in_ou path u) (users d)) \<and>
    (\<forall>u \<in> set (users d). u_is_active u \<and> in_ou path u \<longrightarrow> queued_for U (batch_id b) d' u) \<and>
    unique_on q_subject_id (batch_rows (batch_id b) d') \<and>
    length (batch_rows (batch_id b) d') \<le> batch_total_count b"
proof -
  let ?p = "\<lambda>u. case u_ou_path u of None \<Rightarrow> False | Some ou \<Rightarrow> ou = path \<or> sql_like (escaped_ou_prefix path) ou"
  have p: "?p = in_ou path"
    by (auto simp: fun_eq_iff in_ou_def escaped_ou_prefix_like split: option.splits)
  let ?us = "batch_users (in_ou path) d" and ?i = "next_uuid d"
  have b: "batch_id b = ?i" "batch_total_count b = length ?us"
    and d': "d' = fold (queue_user U ?i) ?us (d\<lparr>drawn := drawn d + 16, scan_batches := scan_batches d @ [b]\<rparr>)"
    using assms(1) by (auto simp: create_batch_def batch_target_filter_def p uuid4_eq Let_def split: if_splits)
  have none: "batch_rows ?i (d\<lparr>drawn := drawn d + 16, scan_batches := scan_batches d @ [b]\<rparr>) = []"
    using assms(2) by (auto simp: batch_rows_def filter_empty_conv)
  have "(\<forall>u \<in> set ?us. queued_for U ?i d' u) \<and> unique_on q_subject_id (batch_rows ?i d') \<and>
      length (batch_rows ?i d') \<le> length ?us"
    unfolding d' using fold_queue_user [of ?i "d\<lparr>drawn := drawn d + 16, scan_batches := scan_batches d @ [b]\<rparr>" ?us U]
    by (simp add: none unique_on_def)
  then show ?thesis by (auto simp: b batch_users_def)
qed

text \<open>
  C14. The queue implements leases: a claim acquires one free piece of work or finds that none is free, and
  settling a piece of work releases it for good; both keep the queue well formed.
\<close>

theorem queue_refines_leases:
  assumes "queue_inv d"
  shows "(\<forall>w r d'. claim_next w d = Inr (r, d') \<longrightarrow> queue_inv d' \<and> lease_step (queue_leases d)
      (case r of None \<Rightarrow> Idle (clock d) | Some c \<Rightarrow> Acquired (clock d) (cw_queue_id c)) (queue_leases d')) \<and>
    (\<forall>c ok e. queue_inv (finish_work c ok e d) \<and>
      lease_step (queue_leases d) (Finished (cw_queue_id c)) (queue_leases (finish_work c ok e d)))"
  using queue.claim_step [OF assms] queue.fin_step [OF assms] by blast

text \<open>
  C7. Claims are exclusive: once a worker has claimed a piece of work, no worker claims it again within ten
  minutes, whatever claims and completions follow in whatever order.
\<close>

theorem claims_exclusive:
  assumes "queue_inv d" and "claim_next w d = Inr (Some c, d1)"
    and "Acquired t (cw_queue_id c) \<in>
      set (work_events claim_next finish_work (\<lambda>t d. d\<lparr>clock := t\<rparr>) cw_queue_id ops d1)"
  shows "clock d + seconds 600 < t"
  using queue.exclusive [OF assms] by (simp add: STALE_AFTER_def)

text \<open>
  Settling accounts for the batch: its counters are the numbers of succeeded and failed rows, and it is
  closed, as succeeded or partial but never as failed, exactly when every row is settled.
\<close>

theorem finish_work_accounts:
  assumes "find (\<lambda>b. batch_id b = cw_batch_id c) (scan_batches d) = Some b"
  shows "\<exists>b'. find (\<lambda>b. batch_id b = cw_batch_id c) (scan_batches (finish_work c ok e d)) = Some b' \<and>
    batch_completed_count b' = rowcount (\<lambda>r. q_status r = QueueStatus.SUCCEEDED) (batch_rows (cw_batch_id c) (finish_work c ok e d)) \<and>
    batch_failed_count b' = rowcount (\<lambda>r. q_status r = QueueStatus.FAILED) (batch_rows (cw_batch_id c) (finish_work c ok e d)) \<and>
    (if \<forall>r \<in> set (batch_rows (cw_batch_id c) (finish_work c ok e d)). q_status r \<in> {QueueStatus.SUCCEEDED, QueueStatus.FAILED}
     then batch_finished_at b' = Some (clock d) \<and>
       batch_status b' = (if batch_failed_count b' = 0 then BatchStatus.SUCCEEDED else BatchStatus.PARTIAL)
     else batch_status b' = batch_status b \<and> batch_finished_at b' = batch_finished_at b)"
proof -
  have id: "batch_id b = cw_batch_id c" using find_Some_mem [OF assms] by simp
  have total: "rowcount (\<lambda>r. q_status r = QueueStatus.SUCCEEDED) rs + rowcount (\<lambda>r. q_status r = QueueStatus.FAILED) rs = length rs
      \<longleftrightarrow> (\<forall>r \<in> set rs. q_status r \<in> {QueueStatus.SUCCEEDED, QueueStatus.FAILED})" for rs
  proof -
    have le: "rowcount (\<lambda>r. q_status r = QueueStatus.SUCCEEDED) rs + rowcount (\<lambda>r. q_status r = QueueStatus.FAILED) rs \<le> length rs" for rs
      by (induction rs) (auto simp: rowcount_def)
    show ?thesis
    proof (induction rs)
      case (Cons r rs)
      with le [of rs] show ?case by (cases "q_status r") (auto simp: rowcount_def)
    qed (simp add: rowcount_def)
  qed
  define g :: "ScanBatch \<Rightarrow> ScanBatch" where "g = (\<lambda>b. let rows = batch_rows (cw_batch_id c) (finish_work c ok e d);
               completed = rowcount (\<lambda>r. q_status r = QueueStatus.SUCCEEDED) rows;
               failed = rowcount (\<lambda>r. q_status r = QueueStatus.FAILED) rows;
               b = b\<lparr>batch_completed_count := completed, batch_failed_count := failed\<rparr> in
           if completed + failed = length rows
           then b\<lparr>batch_status := (if failed = 0 then BatchStatus.SUCCEEDED else BatchStatus.PARTIAL),
                  batch_finished_at := Some (clock d)\<rparr> else b)"
  have batches: "scan_batches (finish_work c ok e d) =
      update_where (\<lambda>b. batch_id b = cw_batch_id c) g (scan_batches d)"
    by (simp add: g_def finish_work_def Let_def batch_rows_def cong: if_cong split del: if_split)
  have "batch_id (g r) = batch_id r" for r by (simp add: g_def Let_def)
  then have "find (\<lambda>b. batch_id b = cw_batch_id c) (scan_batches (finish_work c ok e d)) = Some (g b)"
    using assms id by (simp add: batches find_update_where)
  then show ?thesis
    by (intro exI [of _ "g b"]) (auto simp: g_def Let_def total)
qed

section \<open>Witnesses\<close>

definition a_queue_row :: "uuid \<Rightarrow> QueueStatus \<Rightarrow> datetime option \<Rightarrow> ScanQueue" where
  "a_queue_row i st t =
     \<lparr>q_id = i, q_batch_id = 2, q_subject_id = 5, q_status = st, q_attempts = 0, q_locked_by = None,
      q_locked_at = t, q_last_error = None, q_created_at = 0, q_finished_at = None\<rparr>"

definition a_batch :: ScanBatch where
  "a_batch =
     \<lparr>batch_id = 2, batch_target_type = BatchTarget.OU, batch_target = [], batch_status = BatchStatus.RUNNING,
      batch_created_by = 1, batch_total_count = 1, batch_completed_count = 0, batch_failed_count = 0,
      batch_created_at = 0, batch_started_at = Some 0, batch_finished_at = None\<rparr>"

definition queue_db :: "ScanQueue list \<Rightarrow> db" where
  "queue_db ws = db0\<lparr>subjects := [a_subject 5 SubjectKind.EMAIL ''a@b.c''], scan_batches := [a_batch], scan_queue := ws\<rparr>"

definition the_work :: ClaimedWork where
  "the_work = \<lparr>cw_queue_id = 3, cw_batch_id = 2, cw_subject_id = 5, cw_query = uni ''a@b.c''\<rparr>"

lemma claim_the_work:
  "\<exists>d1. claim_next [] (queue_db [a_queue_row 3 QueueStatus.QUEUED None]) = Inr (Some the_work, d1) \<and>
     scan_queue d1 = [(a_queue_row 3 QueueStatus.RUNNING (Some (seconds 1000000)))\<lparr>q_locked_by := Some [], q_attempts := 1\<rparr>] \<and>
     subjects d1 = [a_subject 5 SubjectKind.EMAIL ''a@b.c'']"
  by (simp add: claim_next_def claim_statement_def claimable_def queue_db_def a_queue_row_def sample_defs
      update_where_def the_work_def a_batch_def)

lemma queue_db_inv: "queue_inv (queue_db [a_queue_row 3 QueueStatus.QUEUED None])"
  by (simp add: queue_inv_def queue_db_def a_queue_row_def unique_on_def)

theorem queue_refines_leases_witness:
  "\<exists>d1. claim_next [] (queue_db [a_queue_row 3 QueueStatus.QUEUED None]) = Inr (Some the_work, d1) \<and>
     lease_step (queue_leases (queue_db [a_queue_row 3 QueueStatus.QUEUED None])) (Acquired (seconds 1000000) 3)
       (queue_leases d1)"
proof -
  obtain d1 where 1: "claim_next [] (queue_db [a_queue_row 3 QueueStatus.QUEUED None]) = Inr (Some the_work, d1)"
    using claim_the_work by blast
  have "clock (queue_db [a_queue_row 3 QueueStatus.QUEUED None]) = seconds 1000000" "cw_queue_id the_work = 3"
    by (simp_all add: queue_db_def db0_def empty_db_def the_work_def)
  with queue_refines_leases [OF queue_db_inv] 1 show ?thesis by force
qed

text \<open>A second worker takes stale work after the lease: at ten minutes and a second.\<close>

theorem claims_exclusive_witness:
  "\<exists>d1. claim_next [] (queue_db [a_queue_row 3 QueueStatus.QUEUED None]) = Inr (Some the_work, d1) \<and>
     Acquired (seconds 1000601) 3 \<in> set (work_events claim_next finish_work (\<lambda>t d. d\<lparr>clock := t\<rparr>) cw_queue_id
       [Claim [] (seconds 1000601)] d1) \<and> seconds 1000000 + seconds 600 < seconds 1000601"
proof -
  let ?d = "queue_db [a_queue_row 3 QueueStatus.QUEUED None]"
  obtain d1 where 1: "claim_next [] ?d = Inr (Some the_work, d1)"
    and q: "scan_queue d1 = [(a_queue_row 3 QueueStatus.RUNNING (Some (seconds 1000000)))\<lparr>q_locked_by := Some [], q_attempts := 1\<rparr>]"
    and s: "subjects d1 = [a_subject 5 SubjectKind.EMAIL ''a@b.c'']"
    using claim_the_work by blast
  have "Acquired (seconds 1000601) (cw_queue_id the_work) \<in>
      set (work_events claim_next finish_work (\<lambda>t d. d\<lparr>clock := t\<rparr>) cw_queue_id [Claim [] (seconds 1000601)] d1)"
    by (simp add: claim_next_def claim_statement_def claimable_def q s a_queue_row_def a_subject_def
        STALE_AFTER_def seconds_def the_work_def)
  from claims_exclusive [OF queue_db_inv 1 this] this 1 show ?thesis
    by (auto simp: queue_db_def db0_def empty_db_def the_work_def)
qed

theorem finish_work_accounts_witness:
  "\<exists>b. find (\<lambda>b. batch_id b = 2) (scan_batches (finish_work the_work False None
      (queue_db [a_queue_row 3 QueueStatus.RUNNING (Some 0)]))) = Some b \<and> batch_status b = BatchStatus.PARTIAL"
proof -
  let ?d = "queue_db [a_queue_row 3 QueueStatus.RUNNING (Some 0)]"
  have "find (\<lambda>b. batch_id b = cw_batch_id the_work) (scan_batches ?d) = Some a_batch"
    by (simp add: queue_db_def a_batch_def the_work_def)
  moreover obtain r where "batch_rows (cw_batch_id the_work) (finish_work the_work False None ?d) = [r]"
    "q_status r = QueueStatus.FAILED"
    by (simp add: the_work_def batch_rows_def finish_work_def Let_def queue_db_def a_queue_row_def
        update_where_def settle_row_def)
  ultimately show ?thesis
    using finish_work_accounts [of the_work ?d a_batch False None] by (auto simp: rowcount_def the_work_def)
qed

definition ou_user :: "uuid \<Rightarrow> string \<Rightarrow> User" where
  "ou_user i ou = (a_user i UserRole.USER)\<lparr>u_ou_path := Some (uni ou)\<rparr>"

theorem ou_batch_selects_witness:
  "\<exists>b d'. create_batch ascii_unidata (\<lambda>s. s) 9 BatchTarget.OU (TargetText (uni ''/a_''))
      (db0\<lparr>users := [ou_user 1 ''/ab/c'', ou_user 2 ''/a_/c'']\<rparr>) = Inr (b, d') \<and> batch_total_count b = 1"
proof -
  let ?d = "db0\<lparr>users := [ou_user 1 ''/ab/c'', ou_user 2 ''/a_/c'']\<rparr>" and ?v = "TargetText (uni ''/a_'')"
  have in_ou: "\<not> in_ou (uni ''/a_'') (ou_user 1 ''/ab/c'')" "in_ou (uni ''/a_'') (ou_user 2 ''/a_/c'')"
    by (simp_all add: in_ou_def ou_user_def a_user_def uni_def rstrip_of_def)
  have "\<exists>b d'. create_batch ascii_unidata (\<lambda>s. s) 9 BatchTarget.OU ?v ?d = Inr (b, d')"
  proof -
    have "sql_like (escaped_ou_prefix (uni ''/a_'')) (uni ''/a_/c'')"
      unfolding escaped_ou_prefix_like by (simp add: uni_def rstrip_of_def)
    then have "ou_user 2 ''/a_/c'' \<in> set (batch_users (\<lambda>u. case u_ou_path u of None \<Rightarrow> False
        | Some ou \<Rightarrow> ou = uni ''/a_'' \<or> sql_like (escaped_ou_prefix (uni ''/a_'')) ou) ?d)"
      by (simp add: batch_users_def ou_user_def a_user_def)
    then show ?thesis by (auto simp: create_batch_def batch_target_filter_def uuid4_eq Let_def)
  qed
  then obtain b d' where run: "create_batch ascii_unidata (\<lambda>s. s) 9 BatchTarget.OU ?v ?d = Inr (b, d')" by blast
  from ou_batch_selects [OF run] in_ou have "batch_total_count b = 1"
    by (simp add: db0_def empty_db_def) (simp add: ou_user_def a_user_def)
  with run show ?thesis by blast
qed

end
