(* ===== verification/Retention.thy ===== *)
theory Retention
  imports PlatformSettings Remediation
begin

text \<open>
  Deletion of remediated findings under a configured policy (\<open>src/app/retention.py\<close>). The delete
  statements check the foreign keys as PostgreSQL does: removing a finding that a remaining finding
  names as its successor raises \<open>IntegrityError\<close>.
\<close>

definition MODE_INDEFINITE :: ustr where
  "MODE_INDEFINITE = uni ''indefinite''"

definition MODE_NONE :: ustr where
  "MODE_NONE = uni ''none''"

definition MODE_DAYS :: ustr where
  "MODE_DAYS = uni ''days''"

record RetentionPolicy =
  rp_mode :: ustr
  rp_days :: "int option"

definition default_policy :: RetentionPolicy where
  "default_policy = \<lparr>rp_mode = MODE_INDEFINITE, rp_days = None\<rparr>"

definition deletes_anything :: "RetentionPolicy \<Rightarrow> bool" where
  "deletes_anything p \<longleftrightarrow> rp_mode p \<in> {MODE_NONE, MODE_DAYS}"

text \<open>The earliest instant a \<open>datetime\<close> represents: midnight of 1 January of year 1.\<close>

definition MIN_DATETIME :: datetime where
  "MIN_DATETIME = seconds (- 62135596800)"

text \<open>
  \<open>now - timedelta(days=days)\<close> raises when the number of days or the result is out of range.
\<close>

definition cutoff :: "RetentionPolicy \<Rightarrow> datetime \<Rightarrow> datetime res" where
  "cutoff p now =
     (if rp_mode p = MODE_NONE then Inr now
      else case rp_days p of
        Some days \<Rightarrow>
          if rp_mode p = MODE_DAYS then
            (if \<bar>days\<bar> > 999999999 \<or> now - seconds (days * 86400) < MIN_DATETIME
             then Inl OverflowError else Inr (now - seconds (days * 86400)))
          else Inl ValueError
      | None \<Rightarrow> Inl ValueError)"

definition RETENTION_KEYS :: "SettingKey list" where
  "RETENTION_KEYS = [RETENTION_MODE, RETENTION_DAYS]"

definition load_policy :: "aesgcm \<Rightarrow> unidata \<Rightarrow> Settings \<Rightarrow> db \<Rightarrow> RetentionPolicy res" where
  "load_policy G U s d =
     bind_res (read_many G s RETENTION_KEYS d) (\<lambda>vs.
     let stored = map_of vs RETENTION_MODE;
         mode = strip U (case stored of None \<Rightarrow> MODE_INDEFINITE
                         | Some m \<Rightarrow> if m = [] then MODE_INDEFINITE else m)
     in if mode \<notin> {MODE_INDEFINITE, MODE_NONE, MODE_DAYS} then Inr default_policy
        else
          (case map_of vs RETENTION_DAYS of
             None \<Rightarrow>
               if mode = MODE_DAYS then Inr default_policy
               else Inr \<lparr>rp_mode = mode, rp_days = None\<rparr>
           | Some raw_days \<Rightarrow>
               (case py_int U raw_days of
                  None \<Rightarrow> Inr default_policy
                | Some days \<Rightarrow>
                    if mode = MODE_DAYS \<and> days < 1 then Inr default_policy
                    else Inr \<lparr>rp_mode = mode, rp_days = Some days\<rparr>)))"

definition eligible :: "datetime \<Rightarrow> Finding \<Rightarrow> bool" where
  "eligible deadline f \<longleftrightarrow> (case fnd_remediated_at f of None \<Rightarrow> False | Some t \<Rightarrow> t \<le> deadline)"

text \<open>The two delete statements on a selected list of keys.\<close>

definition delete_findings :: "uuid list \<Rightarrow> db \<Rightarrow> db res" where
  "delete_findings ids d =
     (let d = d\<lparr>finding_events := delete_where (\<lambda>e. ev_finding_id e \<in> set ids) (finding_events d)\<rparr>;
          left = delete_where (\<lambda>f. fnd_id f \<in> set ids) (findings d)
      in if superseded_fk left then Inr (d\<lparr>findings := left\<rparr>) else Inl IntegrityError)"

definition purge_ids :: "datetime \<Rightarrow> nat \<Rightarrow> db \<Rightarrow> uuid list" where
  "purge_ids deadline limit d = map fnd_id (take limit (filter (eligible deadline) (findings d)))"

definition purge_expired_findings ::
  "aesgcm \<Rightarrow> unidata \<Rightarrow> Settings \<Rightarrow> datetime option \<Rightarrow> nat \<Rightarrow> db \<Rightarrow> (nat \<times> db) res" where
  "purge_expired_findings G U s now limit d =
     bind_res (load_policy G U s d) (\<lambda>policy.
     if \<not> deletes_anything policy then Inr (0, d)
     else
       bind_res (cutoff policy (case now of None \<Rightarrow> clock d | Some t \<Rightarrow> t)) (\<lambda>deadline.
       let ids = purge_ids deadline limit d in
       if ids = [] then Inr (0, d)
       else bind_res (delete_findings ids d) (\<lambda>d. Inr (length ids, d))))"

section \<open>Facts\<close>

lemma rowcount_selected:
  assumes "unique_on k t"
  shows "rowcount (\<lambda>r. k r \<in> set (map k (take n (filter p t)))) t = length (take n (filter p t))"
proof -
  let ?ys = "take n (filter p t)"
  have dist: "distinct t" and inj: "inj_on k (set t)"
    using assms by (simp_all add: unique_on_def distinct_map)
  have sub: "set ?ys \<subseteq> set t" by (auto dest: in_set_takeD)
  have "filter (\<lambda>r. k r \<in> k ` set ?ys) t = filter (\<lambda>r. r \<in> set ?ys) t"
    using inj sub by (intro filter_cong refl) (auto simp: inj_on_def)
  moreover have "length (filter (\<lambda>r. r \<in> set ?ys) t) = card (set ?ys)"
    using dist sub by (simp add: distinct_length_filter Int_absorb2)
  moreover have "card (set ?ys) = length ?ys"
    using dist by (intro distinct_card distinct_take) simp
  ultimately show ?thesis by (simp add: rowcount_def)
qed

lemma delete_findings_Inr:
  "delete_findings ids d = Inr d' \<Longrightarrow>
   d' = d\<lparr>findings := delete_where (\<lambda>f. fnd_id f \<in> set ids) (findings d),
          finding_events := delete_where (\<lambda>e. ev_finding_id e \<in> set ids) (finding_events d)\<rparr> \<and>
   superseded_fk (delete_where (\<lambda>f. fnd_id f \<in> set ids) (findings d))"
  by (auto simp: delete_findings_def Let_def split: if_splits)

lemma purge_Inr:
  assumes "purge_expired_findings G U s now limit d = Inr (n, d')"
  obtains (nothing) "n = 0" "d' = d"
  | (deleted) p deadline where "load_policy G U s d = Inr p" "deletes_anything p"
      "cutoff p (case now of None \<Rightarrow> clock d | Some t \<Rightarrow> t) = Inr deadline"
      "n = length (purge_ids deadline limit d)" "delete_findings (purge_ids deadline limit d) d = Inr d'"
  using assms
  by (auto simp: purge_expired_findings_def bind_res_Inr_iff Let_def split: if_splits)

lemma purge_ids_eligible:
  assumes "findings_ok d" and "f \<in> set (findings d)" and "fnd_id f \<in> set (purge_ids deadline limit d)"
  shows "eligible deadline f"
proof -
  obtain g where g: "g \<in> set (findings d)" "eligible deadline g" "fnd_id g = fnd_id f"
    using assms(3) by (auto simp: purge_ids_def dest!: in_set_takeD)
  with assms(1,2) have "g = f"
    by (intro unique_on_eq [of fnd_id "findings d"]) (simp_all add: findings_ok_def findings_inv_def)
  with g show ?thesis by simp
qed

lemma delete_findings_keeps:
  assumes ok: "findings_ok d" and run: "delete_findings ids d = Inr d'"
  shows "findings_ok d'"
proof -
  let ?t = "delete_where (\<lambda>f. fnd_id f \<in> set ids) (findings d)"
  have d': "findings d' = ?t"
    "finding_events d' = delete_where (\<lambda>e. ev_finding_id e \<in> set ids) (finding_events d)"
    and fk: "superseded_fk ?t"
    using delete_findings_Inr [OF run] by simp_all
  have inv: "findings_inv d" and tr: "trail_ok d" using ok by (simp_all add: findings_ok_def)
  have "events_fk d'"
    using inv by (auto simp: findings_inv_def events_fk_def d' set_delete_where)
  moreover have "replay (fnd_id f) (finding_events d') = replay (fnd_id f) (finding_events d)"
    if "f \<in> set ?t" for f
    using that unfolding d' delete_where_def by (intro replay_filter) auto
  then have "trail_ok d'"
    using tr by (auto simp: trail_ok_def d' set_delete_where)
  ultimately show ?thesis
    using inv fk
    by (auto simp: findings_ok_def findings_inv_def d' unique_on_delete_where list_all_iff
        set_delete_where)
qed

interpretation purge: finding_op
  "\<lambda>(G, U, s, now, limit) d. purge_expired_findings G U s now limit d" "\<lambda>_ _. True"
  by unfold_locales (auto elim!: purge_Inr dest: delete_findings_keeps)

section \<open>Properties\<close>


text \<open>
  The purge cannot delete a successor that an open finding still names. If every expired finding
  fits into one batch and some remaining finding is superseded by an expired one, the purge raises
  \<open>IntegrityError\<close>: nothing is deleted, neither that finding nor any other expired one.
\<close>

theorem purge_blocked_by_predecessor:
  assumes "load_policy G U s d = Inr p" and "deletes_anything p"
    and "cutoff p (case now of None \<Rightarrow> clock d | Some t \<Rightarrow> t) = Inr deadline"
    and "findings_ok d" and "length (filter (eligible deadline) (findings d)) \<le> limit"
    and "f \<in> set (findings d)" and "eligible deadline f"
    and "g \<in> set (findings d)" and "\<not> eligible deadline g"
    and "fnd_superseded_by_id g = Some (fnd_id f)"
  shows "purge_expired_findings G U s now limit d = Inl IntegrityError"
proof -
  let ?ids = "purge_ids deadline limit d"
  have ids: "?ids = map fnd_id (filter (eligible deadline) (findings d))"
    using assms(5) by (simp add: purge_ids_def)
  then have f: "fnd_id f \<in> set ?ids" using assms(6,7) by simp
  have "fnd_id g \<notin> set ?ids"
    using purge_ids_eligible [OF assms(4,8)] assms(9) by blast
  then have "g \<in> set (delete_where (\<lambda>f. fnd_id f \<in> set ?ids) (findings d))"
    using assms(8) by (simp add: set_delete_where)
  moreover have "fnd_id f \<notin> fnd_id ` set (delete_where (\<lambda>f. fnd_id f \<in> set ?ids) (findings d))"
    using f by (auto simp: set_delete_where)
  ultimately have "\<not> superseded_fk (delete_where (\<lambda>f. fnd_id f \<in> set ?ids) (findings d))"
    using assms(10) unfolding superseded_fk_def by (metis option.simps(5))
  then have "delete_findings ?ids d = Inl IntegrityError"
    by (simp add: delete_findings_def)
  moreover have "?ids \<noteq> []" using f by auto
  ultimately show ?thesis
    using assms(1-3) by (simp add: purge_expired_findings_def)
qed

section \<open>Witnesses\<close>

text \<open>A portal whose policy deletes remediated findings at once.\<close>

definition setting_row :: "SettingKey \<Rightarrow> string \<Rightarrow> PlatformSetting" where
  "setting_row key v =
     \<lparr>ps_key = key_text key, ps_ciphertext = octets v @ setting_aad key SCHEMA_VERSION,
      ps_nonce = replicate 12 0, ps_schema_version = SCHEMA_VERSION, ps_updated_at = 0,
      ps_updated_by = 1\<rparr>"

lemma read_setting_row:
  assumes "find (\<lambda>r. ps_key r = key_text key) (platform_settings d) = Some (setting_row key v)"
    and "list_all (\<lambda>c. c < 128) (uni v)"
  shows "read_setting suffix_gcm the_settings key d = Inr (Some (uni v))"
proof -
  have "encode_utf8 (uni v) = Inr (octets v)"
    using encode_utf8_ascii [OF assms(2)] by (simp add: uni_def octets_def o_def of_nat_of_char)
  then have "decode_utf8 (octets v) = Inr (uni v)" by (rule decode_encode_utf8)
  then show ?thesis
    using assms(1) by (simp add: read_setting_def setting_row_def data_key_the_settings suffix_gcm_def)
qed

definition closed_one :: Finding where
  "closed_one = (a_finding 1 5 (Some 10))\<lparr>fnd_remediated_by := Some 9\<rparr>"

definition purge_db :: "Finding list \<Rightarrow> db" where
  "purge_db fs = db0\<lparr>platform_settings := [setting_row RETENTION_MODE ''none''],
     findings := closed_one # fs,
     finding_events := [\<lparr>ev_id = 4, ev_finding_id = 1, ev_event = FindingEventType.REMEDIATED,
       ev_actor_id = Some 9, ev_at = 10, ev_meta = []\<rparr>]\<rparr>"

lemma purge_db_policy:
  "load_policy suffix_gcm ascii_unidata the_settings (purge_db fs)
     = Inr \<lparr>rp_mode = MODE_NONE, rp_days = None\<rparr>"
proof -
  have "read_setting suffix_gcm the_settings RETENTION_MODE (purge_db fs) = Inr (Some (uni ''none''))"
    by (rule read_setting_row) (simp_all add: purge_db_def setting_row_def uni_def)
  moreover have "read_setting suffix_gcm the_settings RETENTION_DAYS (purge_db fs) = Inr None"
    by (simp add: read_setting_def purge_db_def setting_row_def)
  moreover have "strip ascii_unidata (uni ''none'') = uni ''none''" by code_simp
  ultimately show ?thesis
    by (simp add: load_policy_def RETENTION_KEYS_def MODE_NONE_def MODE_INDEFINITE_def MODE_DAYS_def)
qed

lemmas purge_db_simps = purge_db_def closed_one_def db0_def empty_db_def a_finding_def

lemma purge_db_ok:
  "findings_ok (purge_db [a_finding 2 5 None])"
  "findings_ok (purge_db [a_finding 2 5 None\<lparr>fnd_superseded_by_id := Some 1\<rparr>])"
  by (simp_all add: findings_ok_def findings_inv_def trail_ok_def events_fk_def superseded_fk_def
      unique_on_def purge_db_simps finding_ok_def replay_def)


text \<open>An open predecessor of the closed finding blocks the purge.\<close>

theorem purge_blocked_by_predecessor_witness:
  "purge_expired_findings suffix_gcm ascii_unidata the_settings None 500
     (purge_db [a_finding 2 5 None\<lparr>fnd_superseded_by_id := Some 1\<rparr>]) = Inl IntegrityError"
  by (rule purge_blocked_by_predecessor [OF purge_db_policy, where deadline = "seconds 1000000"
        and f = closed_one and g = "a_finding 2 5 None\<lparr>fnd_superseded_by_id := Some 1\<rparr>"])
    (simp_all add: deletes_anything_def cutoff_def purge_db_ok(2), simp_all add: purge_db_simps eligible_def seconds_def)

end
