(* ===== verification/Scheduling.thy ===== *)
theory Scheduling
  imports Batches Retention
begin

text \<open>
  Recurring work (\<open>src/app/scheduling.py\<close>) and the worker that drains it (\<open>src/app/worker.py\<close>). The next
  occurrence of a cron expression in a time zone is computed by APScheduler and the zone database: a
  parameter that returns it, or nothing when the expression or the zone is invalid.
\<close>

section \<open>Schedules\<close>

text \<open>\<open>CronTrigger.from_crontab(cron, zone).get_next_fire_time(None, reference)\<close>.\<close>

datatype cron_answer = InvalidCron | NoOccurrence | Occurs datetime

type_synonym cron = "ustr \<Rightarrow> ustr \<Rightarrow> datetime \<Rightarrow> cron_answer"

definition next_fire_time :: "cron \<Rightarrow> ustr \<Rightarrow> ustr \<Rightarrow> datetime \<Rightarrow> datetime res" where
  "next_fire_time K expression timezone now =
     (case K expression timezone (now + 1) of
        Occurs t \<Rightarrow> Inr t
      | _ \<Rightarrow> Inl ScheduleValidationError)"

definition set_schedule :: "uuid \<Rightarrow> (Schedule \<Rightarrow> Schedule) \<Rightarrow> db \<Rightarrow> db" where
  "set_schedule i f d = d\<lparr>schedules := update_where (\<lambda>s. sched_id s = i) f (schedules d)\<rparr>"

text \<open>
  The work of one due schedule; the only \<open>ValueError\<close> it can raise is that of a target without users,
  and what was done before it stays in the transaction.
\<close>

definition run_schedule :: "unidata \<Rightarrow> (ustr \<Rightarrow> ustr) \<Rightarrow> datetime \<Rightarrow> Schedule \<Rightarrow> db \<Rightarrow> db res" where
  "run_schedule U lo tick s d =
     (if sched_kind s = ScheduleKind.DIGEST then Inr (snd (enqueue_digest_notifications tick d))
      else
        bind_res (create_batch U lo (sched_created_by s)
                    (if sched_kind s = ScheduleKind.SCAN_OU then BatchTarget.OU else BatchTarget.DOMAIN)
                    (TargetText (sched_target s)) d) (\<lambda>(batch, d).
        Inr (set_schedule (sched_id s) (\<lambda>s. s\<lparr>sched_last_batch_id := Some (batch_id batch)\<rparr>) d)))"

definition NO_USERS :: string where
  "NO_USERS = ''batch target matched no active users''"

definition dispatch_schedule ::
  "cron \<Rightarrow> unidata \<Rightarrow> (ustr \<Rightarrow> ustr) \<Rightarrow> datetime \<Rightarrow> Schedule \<Rightarrow> nat \<times> db \<Rightarrow> (nat \<times> db) res" where
  "dispatch_schedule K U lo tick s = (\<lambda>(dispatched, d).
     bind_res (next_fire_time K (sched_cron s) (sched_timezone s) tick) (\<lambda>next.
     let put = set_schedule (sched_id s);
         d = put (\<lambda>s. s\<lparr>sched_next_run_at := next\<rparr>) d in
     if tick - sched_next_run_at s > seconds (int (sched_misfire_grace_seconds s))
     then Inr (dispatched, put (\<lambda>s. s\<lparr>sched_last_error := Some ''misfire grace exceeded''\<rparr>) d)
     else case run_schedule U lo tick s d of
       Inl e \<Rightarrow> if is_value_error e
               then Inr (dispatched, put (\<lambda>s. s\<lparr>sched_last_error := Some NO_USERS\<rparr>) d)
               else Inl e
     | Inr d \<Rightarrow> Inr (dispatched + 1,
                   put (\<lambda>s. s\<lparr>sched_last_run_at := Some tick, sched_last_error := None\<rparr>) d)))"

fun dispatch_each ::
  "cron \<Rightarrow> unidata \<Rightarrow> (ustr \<Rightarrow> ustr) \<Rightarrow> datetime \<Rightarrow> Schedule list \<Rightarrow> nat \<times> db \<Rightarrow> (nat \<times> db) res" where
  "dispatch_each K U lo tick [] acc = Inr acc"
| "dispatch_each K U lo tick (s # ss) acc =
     bind_res (dispatch_schedule K U lo tick s acc) (dispatch_each K U lo tick ss)"

definition due_schedules :: "datetime \<Rightarrow> db \<Rightarrow> Schedule list" where
  "due_schedules tick d =
     sort_key (\<lambda>s. (sched_next_run_at s, sched_id s))
       (filter (\<lambda>s. sched_enabled s \<and> sched_next_run_at s \<le> tick) (schedules d))"

text \<open>\<open>leader\<close> tells whether the advisory lock of the tick was free; an exception rolls the tick back.\<close>

definition dispatch_due_schedules ::
  "cron \<Rightarrow> unidata \<Rightarrow> (ustr \<Rightarrow> ustr) \<Rightarrow> bool \<Rightarrow> datetime option \<Rightarrow> db \<Rightarrow> (nat \<times> db) res" where
  "dispatch_due_schedules K U lo leader now d =
     (let tick = (case now of None \<Rightarrow> clock d | Some t \<Rightarrow> t) in
      if \<not> leader then Inr (0, d)
      else dispatch_each K U lo tick (due_schedules tick d) (0, d))"

section \<open>The worker\<close>

record worker =
  wk_app :: app
  wk_cron :: cron
  wk_lower :: "ustr \<Rightarrow> ustr"
  wk_smtp :: "SMTPConfig \<Rightarrow> sender"
  wk_client :: "LeakCheckClient \<Rightarrow> query_client"
  wk_time :: rat
  wk_id :: ustr

definition ingest_env_of :: "app \<Rightarrow> ingest_env" where
  "ingest_env_of A = \<lparr>ie_unidata = ap_unidata A, ie_gcm = ap_gcm A, ie_settings = ap_settings A,
     ie_fromisoformat = ap_fromisoformat A\<rparr>"

definition batch_scan :: "uuid \<Rightarrow> uuid \<Rightarrow> Scan" where
  "batch_scan i subject =
     \<lparr>scan_id = i, scan_subject_id = subject, scan_requested_by = None, scan_trigger = ScanTrigger.BATCH,
      scan_status = ScanStatus.PENDING, scan_started_at = None, scan_finished_at = None, scan_result_count = 0,
      scan_new_count = 0, scan_quota = None, scan_truncated = False, scan_error = None\<rparr>"

text \<open>One claimed piece of work: a scan row of its own, the scan, and the settling of the queue row.\<close>

definition work_item :: "worker \<Rightarrow> LeakCheckClient \<Rightarrow> ClaimedWork \<Rightarrow> db \<Rightarrow> db res" where
  "work_item W c work d =
     (let (i, d) = uuid4 d;
          d = d\<lparr>scans := scans d @ [batch_scan i (cw_subject_id work)]\<rparr>;
          d = execute_scan (wk_client W c) (ap_unidata (wk_app W)) (ingest_env_of (wk_app W)) i
                (cw_subject_id work) (cw_query work) d
      in case find (\<lambda>s. scan_id s = i) (scans d) of
           None \<Rightarrow> Inl (OtherError ''NoResultFound'')
         | Some s \<Rightarrow> Inr (finish_work work (scan_status s = ScanStatus.SUCCEEDED) (scan_error s) (begin_tx d)))"

text \<open>
  One turn of the loop, each step in a session of its own; a step that raises ends the worker with what the
  steps before it committed. The client is built at the first piece of work and kept.
\<close>

definition worker_turn ::
  "worker \<Rightarrow> bool \<Rightarrow> LeakCheckClient option \<Rightarrow> db \<Rightarrow> exn option \<times> LeakCheckClient option \<times> db" where
  "worker_turn W leader client d =
     (let A = wk_app W; U = ap_unidata A; d = begin_tx d in
      case dispatch_due_schedules (wk_cron W) U (wk_lower W) leader None d of
        Inl e \<Rightarrow> (Some e, client, d)
      | Inr (_, d) \<Rightarrow>
      (case deliver_next A (wk_smtp W) None None d of
        Inl e \<Rightarrow> (Some e, client, d)
      | Inr (_, d) \<Rightarrow>
      (case purge_expired_findings (ap_gcm A) U (ap_settings A) None 500 d of
        Inl e \<Rightarrow> (Some e, client, d)
      | Inr (_, d) \<Rightarrow>
      (case claim_next (wk_id W) d of
        Inl e \<Rightarrow> (Some e, client, d)
      | Inr (None, d) \<Rightarrow> (None, client, d)
      | Inr (Some work, d) \<Rightarrow>
          (case (case client of
                   Some c \<Rightarrow> Inr c
                 | None \<Rightarrow> bind_res (read_many (ap_gcm A) (ap_settings A) CLIENT_KEYS d)
                             (client_from_platform_values U (wk_time W))) of
             Inl e \<Rightarrow> (Some e, client, d)
           | Inr c \<Rightarrow>
               (case work_item W c work d of
                  Inl e \<Rightarrow> (Some e, Some c, d)
                | Inr d \<Rightarrow> (None, Some c, d)))))))"

section \<open>Facts: schedules\<close>

text \<open>The documented law of \<open>get_next_fire_time\<close>: the occurrence is not before the reference.\<close>

definition cron_ok :: "cron \<Rightarrow> bool" where
  "cron_ok K \<longleftrightarrow> (\<forall>e z r t. K e z r = Occurs t \<longrightarrow> r \<le> t)"

lemma next_fire_time_later: "cron_ok K \<Longrightarrow> next_fire_time K e z now = Inr t \<Longrightarrow> now < t"
  by (fastforce simp: next_fire_time_def cron_ok_def split: cron_answer.splits)

lemma update_where_twice:
  "(\<And>r. p (g r) = p r) \<Longrightarrow> update_where p f (update_where p g t) = update_where p (\<lambda>r. f (g r)) t"
  by (simp add: update_where_def)

lemma schedules_frame [simp]:
  "schedules (enqueue_notification u ids t d) = schedules d"
  "schedules (queue_user U b v d) = schedules d"
  by (simp_all add: enqueue_notification_eq queue_user_def uuid4_eq Let_def split: prod.splits)

lemma schedules_digest [simp]: "schedules (snd (enqueue_digest_notifications t d)) = schedules d"
proof -
  have "schedules (fold (\<lambda>(u, ids) d. enqueue_notification u ids x d) gs d) = schedules d" for gs x
    by (induction gs arbitrary: d) auto
  then show ?thesis by (simp add: enqueue_digest_notifications_def Let_def)
qed

lemma schedules_create_batch: "create_batch U lo a ty v d = Inr (b, d') \<Longrightarrow> schedules d' = schedules d"
proof -
  have "schedules (fold (queue_user U i) us d) = schedules d" for us i d
    by (induction us arbitrary: d) auto
  then show "create_batch U lo a ty v d = Inr (b, d') \<Longrightarrow> schedules d' = schedules d"
    by (auto simp: create_batch_def bind_res_Inr_iff uuid4_eq Let_def split: if_splits)
qed

lemma run_schedule_schedules:
  assumes "run_schedule U lo tick s d = Inr d'"
  shows "\<exists>g. schedules d' = update_where (\<lambda>r. sched_id r = sched_id s) g (schedules d) \<and>
    (\<forall>r. sched_id (g r) = sched_id r \<and> sched_next_run_at (g r) = sched_next_run_at r)"
proof (cases "sched_kind s = ScheduleKind.DIGEST")
  case True
  with assms have "schedules d' = update_where (\<lambda>r. sched_id r = sched_id s) (\<lambda>r. r) (schedules d)"
    by (auto simp: run_schedule_def update_where_def)
  then show ?thesis by (intro exI [of _ "\<lambda>r. r"]) simp
next
  case False
  then obtain b d1 where b: "create_batch U lo (sched_created_by s)
      (if sched_kind s = ScheduleKind.SCAN_OU then BatchTarget.OU else BatchTarget.DOMAIN)
      (TargetText (sched_target s)) d = Inr (b, d1)"
    and "d' = set_schedule (sched_id s) (\<lambda>s. s\<lparr>sched_last_batch_id := Some (batch_id b)\<rparr>) d1"
    using assms by (auto simp: run_schedule_def bind_res_Inr_iff)
  with schedules_create_batch [OF b] show ?thesis
    by (intro exI [of _ "\<lambda>s. s\<lparr>sched_last_batch_id := Some (batch_id b)\<rparr>"]) (simp add: set_schedule_def)
qed

text \<open>Dispatching a schedule moves its row, and only its row, past the tick.\<close>

lemma dispatch_schedule_moves:
  assumes K: "cron_ok K" and run: "dispatch_schedule K U lo tick s (n, d) = Inr (n', d')"
  shows "n' \<le> n + 1 \<and> (\<exists>g. schedules d' = update_where (\<lambda>r. sched_id r = sched_id s) g (schedules d) \<and>
    (\<forall>r. sched_id (g r) = sched_id r \<and> tick < sched_next_run_at (g r)))"
proof -
  obtain next' where nx: "next_fire_time K (sched_cron s) (sched_timezone s) tick = Inr next'"
    using run by (auto simp: dispatch_schedule_def bind_res_Inr_iff)
  let ?p = "\<lambda>r. sched_id r = sched_id s"
  let ?d = "set_schedule (sched_id s) (\<lambda>s. s\<lparr>sched_next_run_at := next'\<rparr>) d"
  have later: "tick < next'" by (rule next_fire_time_later [OF K nx])
  have put: "\<exists>g. schedules (set_schedule (sched_id s) f ?d) = update_where ?p g (schedules d) \<and>
      (\<forall>r. sched_id (g r) = sched_id r \<and> tick < sched_next_run_at (g r))"
    if "\<And>r. sched_id (f r) = sched_id r" "\<And>r. sched_next_run_at (f r) = sched_next_run_at r" for f
    using later that
    by (intro exI [of _ "\<lambda>r. f (r\<lparr>sched_next_run_at := next'\<rparr>)"]) (simp add: set_schedule_def update_where_twice)
  show ?thesis
  proof (cases "tick - sched_next_run_at s > seconds (int (sched_misfire_grace_seconds s))")
    case True
    with run nx have "n' = n" "d' = set_schedule (sched_id s) (\<lambda>s. s\<lparr>sched_last_error := Some ''misfire grace exceeded''\<rparr>) ?d"
      by (auto simp: dispatch_schedule_def Let_def)
    with put show ?thesis by simp
  next
    case False
    show ?thesis
    proof (cases "run_schedule U lo tick s ?d")
      case (Inl e)
      with run nx False have "n' = n" "d' = set_schedule (sched_id s) (\<lambda>s. s\<lparr>sched_last_error := Some NO_USERS\<rparr>) ?d"
        by (auto simp: dispatch_schedule_def Let_def split: if_splits)
      with put show ?thesis by simp
    next
      case (Inr d1)
      obtain g where g: "schedules d1 = update_where ?p g (schedules ?d)"
        "\<And>r. sched_id (g r) = sched_id r \<and> sched_next_run_at (g r) = sched_next_run_at r"
        using run_schedule_schedules [OF Inr] by blast
      let ?f = "\<lambda>s. s\<lparr>sched_last_run_at := Some tick, sched_last_error := None\<rparr> :: Schedule"
      have "n' = n + 1" "d' = set_schedule (sched_id s) ?f d1"
        using run nx False Inr by (auto simp: dispatch_schedule_def Let_def)
      moreover have "schedules (set_schedule (sched_id s) ?f d1) =
          schedules (set_schedule (sched_id s) (\<lambda>r. ?f (g r)) ?d)"
        using g by (simp add: set_schedule_def update_where_twice)
      ultimately show ?thesis using put [of "\<lambda>r. ?f (g r)"] g(2) by simp
    qed
  qed
qed

lemma dispatch_each_moves:
  assumes K: "cron_ok K" and run: "dispatch_each K U lo tick ss (n, d) = Inr (n', d')"
    and "\<forall>r \<in> set (schedules d). sched_enabled r \<and> sched_next_run_at r \<le> tick \<longrightarrow> sched_id r \<in> sched_id ` set ss"
  shows "n' \<le> n + length ss \<and> (\<forall>r \<in> set (schedules d'). sched_enabled r \<longrightarrow> tick < sched_next_run_at r)"
  using run assms(3)
proof (induction ss arbitrary: n d)
  case Nil
  then show ?case by force
next
  case (Cons s ss)
  then obtain n1 d1 where 1: "dispatch_schedule K U lo tick s (n, d) = Inr (n1, d1)"
    and rest: "dispatch_each K U lo tick ss (n1, d1) = Inr (n', d')" by (auto simp: bind_res_Inr_iff)
  obtain g where g: "schedules d1 = update_where (\<lambda>r. sched_id r = sched_id s) g (schedules d)"
    "\<And>r. sched_id (g r) = sched_id r \<and> tick < sched_next_run_at (g r)" and n1: "n1 \<le> n + 1"
    using dispatch_schedule_moves [OF K 1] by blast
  have "sched_id r \<in> sched_id ` set ss"
    if r: "r \<in> set (schedules d1)" "sched_enabled r \<and> sched_next_run_at r \<le> tick" for r
  proof -
    obtain r0 where r0: "r0 \<in> set (schedules d)" "r = (if sched_id r0 = sched_id s then g r0 else r0)"
      using r(1) by (auto simp: g(1) set_update_where)
    have "sched_id r0 \<noteq> sched_id s" using g(2) [of r0] r0(2) r(2) by (auto split: if_splits)
    then show ?thesis using Cons.prems(2) r0 r(2) by auto
  qed
  then show ?case using Cons.IH [OF rest] n1 by auto
qed

section \<open>Properties\<close>

text \<open>
  A tick fires each due schedule at most once: after it every enabled schedule lies in the future, so
  another leader that dispatches the same tick finds nothing to do.
\<close>

theorem schedules_advance:
  assumes "cron_ok K" and "dispatch_due_schedules K U lo True (Some tick) d = Inr (n, d')"
  shows "n \<le> length (due_schedules tick d) \<and>
    (\<forall>s \<in> set (schedules d'). sched_enabled s \<longrightarrow> tick < sched_next_run_at s) \<and>
    dispatch_due_schedules K U lo True (Some tick) d' = Inr (0, d')"
proof -
  have run: "dispatch_each K U lo tick (due_schedules tick d) (0, d) = Inr (n, d')"
    using assms(2) by (simp add: dispatch_due_schedules_def)
  have "\<forall>r \<in> set (schedules d). sched_enabled r \<and> sched_next_run_at r \<le> tick \<longrightarrow>
      sched_id r \<in> sched_id ` set (due_schedules tick d)"
    by (auto simp: due_schedules_def)
  from dispatch_each_moves [OF assms(1) run this]
  have n: "n \<le> length (due_schedules tick d)"
    and later: "\<forall>s \<in> set (schedules d'). sched_enabled s \<longrightarrow> tick < sched_next_run_at s" by auto
  then have "filter (\<lambda>s. sched_enabled s \<and> sched_next_run_at s \<le> tick) (schedules d') = []"
    by (auto simp: filter_empty_conv)
  then have "due_schedules tick d' = []" by (simp add: due_schedules_def)
  with n later show ?thesis by (simp add: dispatch_due_schedules_def)
qed

lemma execute_scan_queue: "scan_queue (execute_scan C U E i j q d) = scan_queue d"
proof (cases "find (\<lambda>s. scan_id s = i) (scans d)")
  case (Some s)
  show ?thesis
  proof (cases "find (\<lambda>s. sub_id s = j) (subjects d)")
    case sub: (Some sub)
    let ?d = "begin_tx (start_scan i j (clock d) d)"
    have start: "scan_queue (start_scan x y t d) = scan_queue d" for x y t d by (simp add: start_scan_eq)
    have mail: "scan_queue (enqueue_new_findings x ids d) = scan_queue d" for x ids d
      by (simp add: enqueue_new_findings_def enqueue_notification_eq split: option.splits)
    have "scan_queue (snd (fold (fanout_finding x es) fs (n, d))) = scan_queue d" for x es fs n d
    proof (induction fs arbitrary: n d)
      case (Cons f fs)
      obtain m d' where 1: "fanout_finding x es f (n, d) = (m, d')" by fastforce
      then have "scan_queue d' = scan_queue d" by (auto simp: fanout_finding_def enqueue_alert_eq split: if_splits)
      with Cons.IH [of m d'] 1 show ?case by simp
    qed simp
    then have fan: "scan_queue (snd (fanout_watchlisted_findings x ids d)) = scan_queue d" for x ids d
      by (auto simp: fanout_watchlisted_findings_def Let_def enqueue_notification_eq
          split: prod.splits option.splits) (metis snd_conv)+
    obtain x d1 where run: "run_scan C (sql_repository U) E s sub q None ?d = (x, d1)" by fastforce
    show ?thesis
      using run
    proof (cases rule: run_scan_cases)
      case (failed e)
      with Some sub run show ?thesis
        by (simp add: execute_scan_def Let_def fail_scan_def set_scan_def set_subject_def begin_tx_def start)
    next
      case (succeeded r sm d2)
      have "scan_queue d2 = scan_queue ?d"
        using ingest_records_reports [OF succeeded(3)] by (simp add: only_ingest_def start)
      with Some sub run succeeded show ?thesis
        by (simp add: execute_scan_def Let_def fan mail complete_scan_def set_scan_def set_subject_def
            begin_tx_def start)
    qed
  qed (simp add: execute_scan_def Some)
qed (simp add: execute_scan_def)

text \<open>
  Claimed work is settled: whatever the vendor answers, a worker's turn on a claimed piece of work
  leaves its queue row succeeded or failed, as the scan it made, and no longer locked.
\<close>

theorem work_item_settles:
  assumes "next_uuid d \<notin> scan_id ` set (scans d)"
    and "find (\<lambda>s. sub_id s = cw_subject_id c) (subjects d) = Some sub"
    and "unique_on q_id (scan_queue d)" and "w \<in> set (scan_queue d)" and "q_id w = cw_queue_id c"
    and "q_status w = QueueStatus.RUNNING"
  shows "\<exists>d' s w'. work_item W client c d = Inr d' \<and>
    find (\<lambda>s. scan_id s = next_uuid d) (scans d') = Some s \<and>
    w' \<in> set (scan_queue d') \<and> q_id w' = cw_queue_id c \<and> q_locked_by w' = None \<and>
    (scan_status s = ScanStatus.SUCCEEDED \<and> q_status w' = QueueStatus.SUCCEEDED \<and> q_last_error w' = None \<or>
     scan_status s = ScanStatus.FAILED \<and> q_status w' = QueueStatus.FAILED \<and> q_last_error w' \<noteq> None)"
proof -
  let ?i = "next_uuid d" and ?A = "wk_app W"
  let ?d = "d\<lparr>drawn := drawn d + 16, scans := scans d @ [batch_scan ?i (cw_subject_id c)]\<rparr>"
  let ?e = "execute_scan (wk_client W client) (ap_unidata ?A) (ingest_env_of ?A) ?i (cw_subject_id c) (cw_query c) ?d"
  have scan: "find (\<lambda>s. scan_id s = ?i) (scans ?d) = Some (batch_scan ?i (cw_subject_id c))"
  proof -
    have "find (\<lambda>s. scan_id s = ?i) (scans d) = None" unfolding find_None using assms(1) by (metis imageI)
    then show ?thesis by (simp add: find_append batch_scan_def)
  qed
  have sub': "find (\<lambda>s. sub_id s = cw_subject_id c) (subjects ?d) = Some sub" using assms(2) by simp
  obtain s where s: "find (\<lambda>s. scan_id s = ?i) (scans ?e) = Some s"
    "scan_status s = ScanStatus.SUCCEEDED \<or> scan_status s = ScanStatus.FAILED"
    using execute_scan_outcome [OF scan sub', where C = "wk_client W client" and U = "ap_unidata ?A"
        and E = "ingest_env_of ?A" and q = "cw_query c"] by blast
  have run: "work_item W client c d =
      Inr (finish_work c (scan_status s = ScanStatus.SUCCEEDED) (scan_error s) (begin_tx ?e))"
    using s by (simp add: work_item_def uuid4_eq Let_def)
  have q: "scan_queue (begin_tx ?e) = scan_queue d" by (simp add: begin_tx_def execute_scan_queue)
  let ?w = "settle_row (scan_status s = ScanStatus.SUCCEEDED) (scan_error s) (tx_now (begin_tx ?e)) w"
  let ?d' = "finish_work c (scan_status s = ScanStatus.SUCCEEDED) (scan_error s) (begin_tx ?e)"
  have "?w \<in> set (scan_queue ?d')"
    using assms(4-6) by (auto simp: finish_work_def Let_def q set_update_where)
  moreover have "scans ?d' = scans ?e" by (simp add: finish_work_def Let_def begin_tx_def)
  ultimately show ?thesis
    using run s assms(5) by (intro exI [of _ ?d'] exI [of _ s] exI [of _ ?w]) (auto simp: settle_row_def)
qed

section \<open>Witnesses\<close>

definition a_schedule :: Schedule where
  "a_schedule =
     \<lparr>sched_id = 8, sched_kind = ScheduleKind.SCAN_OU, sched_target = uni ''/it'', sched_cron = uni ''0 * * * *'',
      sched_timezone = uni ''UTC'', sched_enabled = True, sched_misfire_grace_seconds = 60,
      sched_last_run_at = None, sched_last_batch_id = None, sched_next_run_at = 5, sched_last_error = None,
      sched_created_by = 1, sched_created_at = 0\<rparr>"

text \<open>A schedule of an empty organisational unit: not dispatched, its error recorded, and moved on.\<close>

theorem schedules_advance_witness:
  "\<exists>n d'. dispatch_due_schedules (\<lambda>e z r. Occurs (r + seconds 3600)) ascii_unidata (\<lambda>s. s) True (Some 10)
       (db0\<lparr>schedules := [a_schedule]\<rparr>) = Inr (n, d') \<and> (\<forall>s \<in> set (schedules d'). sched_enabled s \<longrightarrow> 10 < sched_next_run_at s)"
proof -
  let ?K = "\<lambda>e z r. Occurs (r + seconds 3600)" and ?d = "db0\<lparr>schedules := [a_schedule]\<rparr>"
  have "cron_ok ?K" by (simp add: cron_ok_def)
  moreover have "\<exists>n d'. dispatch_due_schedules ?K ascii_unidata (\<lambda>s. s) True (Some 10) ?d = Inr (n, d')"
    by (simp add: dispatch_due_schedules_def due_schedules_def a_schedule_def dispatch_schedule_def next_fire_time_def
        run_schedule_def create_batch_def batch_target_filter_def batch_users_def set_schedule_def Let_def
        seconds_def is_value_error_def db0_def empty_db_def)
  ultimately show ?thesis using schedules_advance by blast
qed

definition a_worker :: worker where
  "a_worker = \<lparr>wk_app = the_app, wk_cron = (\<lambda>e z r. NoOccurrence), wk_lower = (\<lambda>s. s), wk_smtp = (\<lambda>c m. None),
     wk_client = (\<lambda>c k q. Inl LeakCheckUnavailable), wk_time = 0, wk_id = uni ''w''\<rparr>"

theorem work_item_settles_witness:
  "\<exists>client d' w'. work_item a_worker client the_work (queue_db [a_queue_row 3 QueueStatus.RUNNING (Some 0)]) = Inr d' \<and>
     w' \<in> set (scan_queue d') \<and> q_id w' = 3 \<and> q_status w' \<in> {QueueStatus.SUCCEEDED, QueueStatus.FAILED}"
proof -
  let ?d = "queue_db [a_queue_row 3 QueueStatus.RUNNING (Some 0)]"
  have "find (\<lambda>s. sub_id s = cw_subject_id the_work) (subjects ?d) = Some (a_subject 5 SubjectKind.EMAIL ''a@b.c'')"
    "next_uuid ?d \<notin> scan_id ` set (scans ?d)" "unique_on q_id (scan_queue ?d)"
    "a_queue_row 3 QueueStatus.RUNNING (Some 0) \<in> set (scan_queue ?d)"
    "q_id (a_queue_row 3 QueueStatus.RUNNING (Some 0)) = cw_queue_id the_work"
    "q_status (a_queue_row 3 QueueStatus.RUNNING (Some 0)) = QueueStatus.RUNNING"
    by (simp_all add: queue_db_def the_work_def a_queue_row_def sample_defs unique_on_def)
  note facts = this
  have "\<exists>d' w'. work_item a_worker client the_work ?d = Inr d' \<and> w' \<in> set (scan_queue d') \<and>
      q_id w' = cw_queue_id the_work \<and> q_status w' \<in> {QueueStatus.SUCCEEDED, QueueStatus.FAILED}" for client
    using work_item_settles [OF facts(2,1,3-6), of a_worker client] by blast
  then show ?thesis by (simp add: the_work_def)
qed

end
