(* ===== verification/LocalAuth.thy ===== *)
theory LocalAuth
  imports Web
begin

text \<open>
  Local super-admin credentials (\<open>src/app/auth/local.py\<close>): base32 TOTP seeds and RFC 6238 codes,
  their encryption under the data key, account creation, and the authenticator with its durable
  account and address throttles. Timestamps are integral microseconds, so \<open>timestamp()\<close> is exact.
\<close>

section \<open>Base32\<close>

definition b32_value :: "nat \<Rightarrow> nat option" where
  "b32_value c =
     (if 65 \<le> c \<and> c \<le> 90 then Some (c - 65)
      else if 50 \<le> c \<and> c \<le> 55 then Some (c - 24) else None)"

definition b32_char :: "nat \<Rightarrow> nat" where
  "b32_char v = (if v < 26 then v + 65 else v + 24)"

text \<open>The digits of a number to the base 32, most significant first, and back.\<close>

fun digits32 :: "nat \<Rightarrow> nat \<Rightarrow> nat list" where
  "digits32 0 v = []"
| "digits32 (Suc n) v = digits32 n (v div 32) @ [v mod 32]"

fun number32 :: "nat list \<Rightarrow> nat \<Rightarrow> nat" where
  "number32 [] acc = acc"
| "number32 (x # xs) acc = number32 xs (acc * 32 + x)"

text \<open>
  \<open>base64.b32encode\<close> with the padding stripped, and \<open>base64.b32decode\<close>: groups of five octets and
  eight characters, a shorter last group standing for as many whole octets as it has.
\<close>

function b32_groups :: "bytes \<Rightarrow> nat list" where
  "b32_groups bs =
     (if bs = [] then []
      else let g = take 5 bs in
        take ((length g * 8 + 4) div 5) (digits32 8 (from_bytes_big (g @ replicate (5 - length g) 0)))
          @ b32_groups (drop 5 bs))"
  by pat_completeness auto
termination by (relation "measure length") auto

function b32_ungroup :: "nat list \<Rightarrow> bytes" where
  "b32_ungroup vs =
     (if vs = [] then []
      else let g = take 8 vs in
        take (length g * 5 div 8) (be_bytes 5 (number32 g 0 * 32 ^ (8 - length g)))
          @ b32_ungroup (drop 8 vs))"
  by pat_completeness auto
termination by (relation "measure length") auto

declare b32_groups.simps [simp del] b32_ungroup.simps [simp del]

definition b32encode :: "bytes \<Rightarrow> ustr" where
  "b32encode bs = map b32_char (b32_groups bs)"

definition b32decode :: "ustr \<Rightarrow> bytes option" where
  "b32decode s =
     (let t = rstrip_of (\<lambda>c. c = 61) s; padchars = length s - length t in
      if length s mod 8 \<noteq> 0 \<or> padchars \<notin> {0, 1, 3, 4, 6} \<or> \<not> list_all (\<lambda>c. b32_value c \<noteq> None) t
      then None else Some (b32_ungroup (map (\<lambda>c. the (b32_value c)) t)))"

section \<open>TOTP\<close>

definition TOTP_SECRET_BYTES :: nat where "TOTP_SECRET_BYTES = 20"
definition TOTP_DIGITS :: nat where "TOTP_DIGITS = 6"
definition TOTP_PERIOD_SECONDS :: int where "TOTP_PERIOD_SECONDS = 30"
definition TOTP_NONCE_BYTES :: nat where "TOTP_NONCE_BYTES = 12"

definition totp_key :: "ustr \<Rightarrow> bytes res" where
  "totp_key secret =
     (if \<not> isascii secret \<or> \<not> (16 \<le> length secret \<and> length secret \<le> 128)
      then Inl LocalAuthenticationError
      else case b32decode (secret @ replicate ((8 - length secret mod 8) mod 8) 61) of
             None \<Rightarrow> Inl LocalAuthenticationError
           | Some key \<Rightarrow> if length key \<noteq> TOTP_SECRET_BYTES then Inl LocalAuthenticationError
                         else Inr key)"

definition generate_totp_secret :: "db \<Rightarrow> ustr \<times> db" where
  "generate_totp_secret d =
     (let (bs, d) = token_bytes TOTP_SECRET_BYTES d in (rstrip_of (\<lambda>c. c = 61) (b32encode bs), d))"

text \<open>\<open>int(timestamp()) // 30\<close>: truncation toward zero, then floor division.\<close>

definition totp_counter :: "datetime \<Rightarrow> int" where
  "totp_counter t =
     (if 0 \<le> t then t div 1000000 else - (- t div 1000000)) div TOTP_PERIOD_SECONDS"

definition totp_code :: "ustr \<Rightarrow> datetime \<Rightarrow> ustr res" where
  "totp_code secret current =
     (if totp_counter current < 0 then Inl LocalAuthenticationError
      else bind_res (totp_key secret) (\<lambda>key.
        let digest = hmac_sha1 key (be_bytes 8 (nat (totp_counter current)));
            offset = unat (last digest) mod 16;
            truncated = from_bytes_big (take 4 (drop offset digest)) mod 2 ^ 31
        in Inr (padded TOTP_DIGITS (truncated mod 10 ^ TOTP_DIGITS))))"

definition verify_totp :: "ustr \<Rightarrow> ustr \<Rightarrow> datetime \<Rightarrow> bool" where
  "verify_totp secret supplied_code current =
     (length supplied_code = TOTP_DIGITS \<and> list_all is_digit_ascii supplied_code \<and>
      (case map_res (\<lambda>offset. totp_code secret (current + seconds (offset * TOTP_PERIOD_SECONDS)))
              [-1, 0, 1] of
         Inl e \<Rightarrow> False
       | Inr codes \<Rightarrow> supplied_code \<in> set codes))"

definition totp_aad :: "uuid \<Rightarrow> bytes" where
  "totp_aad user_id = octets ''leakcheck/admin-totp/v1/'' @ uuid_bytes user_id"

definition local_data_key :: "Settings \<Rightarrow> bytes res" where
  "local_data_key s = (case data_key s of Inl e \<Rightarrow> Inl LocalAuthenticationError | Inr k \<Rightarrow> Inr k)"

definition encrypt_totp_secret :: "app \<Rightarrow> uuid \<Rightarrow> ustr \<Rightarrow> db \<Rightarrow> (bytes \<times> db) res" where
  "encrypt_totp_secret A user_id secret d =
     bind_res (totp_key secret) (\<lambda>_.
     let (nonce, d) = token_bytes TOTP_NONCE_BYTES d in
     bind_res (local_data_key (ap_settings A)) (\<lambda>k.
     Inr (nonce @ gcm_encrypt (ap_gcm A) k nonce (map word_of_nat secret) (totp_aad user_id), d)))"

definition decode_ascii :: "bytes \<Rightarrow> ustr option" where
  "decode_ascii bs = (if list_all (\<lambda>b. unat b < 128) bs then Some (map unat bs) else None)"

definition decrypt_totp_secret :: "app \<Rightarrow> uuid \<Rightarrow> bytes \<Rightarrow> ustr res" where
  "decrypt_totp_secret A user_id encrypted =
     (if length encrypted \<le> TOTP_NONCE_BYTES then Inl LocalAuthenticationError
      else bind_res (local_data_key (ap_settings A)) (\<lambda>k.
        case gcm_decrypt (ap_gcm A) k (take TOTP_NONCE_BYTES encrypted)
               (drop TOTP_NONCE_BYTES encrypted) (totp_aad user_id) of
          None \<Rightarrow> Inl LocalAuthenticationError
        | Some plaintext \<Rightarrow>
            (case decode_ascii plaintext of
               None \<Rightarrow> Inl LocalAuthenticationError
             | Some secret \<Rightarrow> bind_res (totp_key secret) (\<lambda>_. Inr secret))))"

section \<open>Names and passwords\<close>

definition email_local_char :: "nat \<Rightarrow> bool" where
  "email_local_char c \<longleftrightarrow> is_alnum_ascii c \<or> c \<in> set (uni ''.!#$%&*+/=?^_`{|}~-'') \<or> c = 39"

definition email_label :: "ustr \<Rightarrow> bool" where
  "email_label w \<longleftrightarrow>
     w \<noteq> [] \<and> length w \<le> 63 \<and> is_alnum_ascii (hd w) \<and> is_alnum_ascii (last w) \<and>
     list_all (\<lambda>c. is_alnum_ascii c \<or> c = 45) w"

definition email_pattern :: "ustr \<Rightarrow> bool" where
  "email_pattern s =
     (case partition_on 64 s of (local, found, domain) \<Rightarrow>
        found \<and> local \<noteq> [] \<and> list_all email_local_char local \<and>
        2 \<le> length (split_on 46 domain) \<and> list_all email_label (split_on 46 domain))"

definition normalise_admin_email :: "unidata \<Rightarrow> ustr \<Rightarrow> ustr res" where
  "normalise_admin_email U email =
     (let normalised = lower U (strip U email) in
      if \<not> isascii normalised \<or> 255 < length normalised \<or> \<not> email_pattern normalised
      then Inl LocalAuthenticationError else Inr normalised)"

definition normalise_display_name :: "unidata \<Rightarrow> ustr \<Rightarrow> ustr res" where
  "normalise_display_name U display_name =
     (let normalised = strip U display_name in
      if normalised = [] \<or> 255 < length normalised then Inl LocalAuthenticationError
      else Inr normalised)"

definition normalise_login_email :: "unidata \<Rightarrow> ustr \<Rightarrow> ustr option" where
  "normalise_login_email U email =
     (case normalise_admin_email U email of Inl e \<Rightarrow> None | Inr s \<Rightarrow> Some s)"

definition validate_new_password :: "ustr \<Rightarrow> unit res" where
  "validate_new_password password =
     (case encode_utf8 password of
        Inl e \<Rightarrow> Inl LocalAuthenticationError
      | Inr bs \<Rightarrow> guard_res (15 \<le> length bs \<and> length bs \<le> 1024) LocalAuthenticationError)"

definition hash_password :: "app \<Rightarrow> ustr \<Rightarrow> db \<Rightarrow> (ustr \<times> db) res" where
  "hash_password A password d =
     bind_res (validate_new_password password) (\<lambda>_.
     let (salt, d) = token_bytes 16 d in Inr (argon2_hash (ap_argon2 A) password salt, d))"

section \<open>Creating a super-admin\<close>

definition create_superadmin :: "app \<Rightarrow> ustr \<Rightarrow> ustr \<Rightarrow> ustr \<Rightarrow> db \<Rightarrow> (User \<times> db) res" where
  "create_superadmin A email display_name password d =
     bind_res (normalise_admin_email (ap_unidata A) email) (\<lambda>normalised_email.
     bind_res (normalise_display_name (ap_unidata A) display_name) (\<lambda>normalised_name.
     if find (\<lambda>u. u_email u = normalised_email) (users d) \<noteq> None
     then Inl SuperAdminAlreadyExistsError
     else
       let (i, d) = uuid4 d;
           user = \<lparr>u_id = i, u_email = normalised_email, u_google_sub = None,
                   u_display_name = normalised_name, u_ou_path = None,
                   u_role = UserRole.SUPER_ADMIN, u_is_active = True,
                   u_source = UserSource.MANUAL, u_created_at = tx_now d,
                   u_last_login_at = None\<rparr>
       in bind_res (hash_password A password d) (\<lambda>(h, d).
          Inr (user, d\<lparr>users := users d @ [user],
                       admin_credentials := admin_credentials d @
                         [\<lparr>cred_user_id = i, cred_password_hash = h, cred_totp_secret_enc = None,
                           cred_totp_enabled_at = None, cred_failed_attempts = 0,
                           cred_locked_until = None\<rparr>]\<rparr>))))"

section \<open>Throttles\<close>

definition reset_ip_limit :: "Settings \<Rightarrow> datetime \<Rightarrow> AdminLoginRateLimit \<Rightarrow> AdminLoginRateLimit" where
  "reset_ip_limit s now rl =
     (if (case rl_blocked_until rl of None \<Rightarrow> False | Some b \<Rightarrow> b \<le> now)
      then rl\<lparr>rl_attempts := 0, rl_blocked_until := None, rl_window_started_at := now\<rparr>
      else if rl_window_started_at rl + seconds (s_admin_login_ip_window_seconds s) \<le> now
      then rl\<lparr>rl_attempts := 0, rl_window_started_at := now\<rparr>
      else rl)"

definition record_ip_failure :: "Settings \<Rightarrow> datetime \<Rightarrow> AdminLoginRateLimit \<Rightarrow> AdminLoginRateLimit" where
  "record_ip_failure s now rl =
     (let rl = reset_ip_limit s now rl; rl = rl\<lparr>rl_attempts := rl_attempts rl + 1\<rparr>
      in if s_admin_login_ip_max_failures s \<le> int (rl_attempts rl)
         then rl\<lparr>rl_blocked_until := Some (now + seconds (s_admin_login_ip_lockout_seconds s))\<rparr>
         else rl)"

definition login_ip_hash :: "app \<Rightarrow> ustr \<Rightarrow> bytes res" where
  "login_ip_hash A client_ip =
     bind_res (derived_key (ap_settings A) ''leakcheck/admin-login-ip/v1'') (\<lambda>key.
     case ap_ip A client_ip of
       None \<Rightarrow> Inl LocalAuthenticationError
     | Some c \<Rightarrow> if isascii c then Inr (hmac_sha256 key (map word_of_nat c))
                 else Inl UnicodeEncodeError)"

definition load_ip_limit :: "bytes \<Rightarrow> datetime \<Rightarrow> db \<Rightarrow> (AdminLoginRateLimit \<times> db) res" where
  "load_ip_limit h now d =
     (let d = d\<lparr>admin_login_rate_limits :=
            insert_if_absent (\<lambda>r. rl_ip_hash r = h)
              \<lparr>rl_ip_hash = h, rl_window_started_at = now, rl_attempts = 0, rl_blocked_until = None\<rparr>
              (admin_login_rate_limits d)\<rparr>
      in case find (\<lambda>r. rl_ip_hash r = h) (admin_login_rate_limits d) of
           None \<Rightarrow> Inl (OtherError ''NoResultFound'')
         | Some rl \<Rightarrow> Inr (rl, d))"

definition set_ip_limit :: "bytes \<Rightarrow> (AdminLoginRateLimit \<Rightarrow> AdminLoginRateLimit) \<Rightarrow> db \<Rightarrow> db" where
  "set_ip_limit h f d =
     d\<lparr>admin_login_rate_limits := update_where (\<lambda>r. rl_ip_hash r = h) f (admin_login_rate_limits d)\<rparr>"

definition set_credential :: "uuid \<Rightarrow> (AdminCredential \<Rightarrow> AdminCredential) \<Rightarrow> db \<Rightarrow> db" where
  "set_credential i f d =
     d\<lparr>admin_credentials := update_where (\<lambda>c. cred_user_id c = i) f (admin_credentials d)\<rparr>"

definition set_user :: "uuid \<Rightarrow> (User \<Rightarrow> User) \<Rightarrow> db \<Rightarrow> db" where
  "set_user i f d = d\<lparr>users := update_where (\<lambda>u. u_id u = i) f (users d)\<rparr>"

section \<open>Authentication\<close>

text \<open>
  The verification against a dummy hash for accounts that do not exist spends time only; it has no
  effect and no result to model.
\<close>

definition totp_passes :: "app \<Rightarrow> AdminCredential \<Rightarrow> ustr option \<Rightarrow> datetime \<Rightarrow> bool" where
  "totp_passes A c code current =
     (case (cred_totp_enabled_at c, cred_totp_secret_enc c, code) of
        (None, _, _) \<Rightarrow> True
      | (Some _, Some enc, Some code) \<Rightarrow>
          (case decrypt_totp_secret A (cred_user_id c) enc of
             Inl e \<Rightarrow> False
           | Inr secret \<Rightarrow> verify_totp secret code current)
      | _ \<Rightarrow> False)"

definition credential_failure :: "Settings \<Rightarrow> datetime \<Rightarrow> AdminCredential \<Rightarrow> AdminCredential" where
  "credential_failure s current c =
     (let c = c\<lparr>cred_failed_attempts := cred_failed_attempts c + 1\<rparr>
      in if s_admin_login_max_failures s \<le> int (cred_failed_attempts c)
         then c\<lparr>cred_locked_until := Some (current + seconds (s_admin_login_lockout_seconds s))\<rparr>
         else c)"

definition locked :: "datetime \<Rightarrow> AdminCredential \<Rightarrow> bool" where
  "locked current c = (case cred_locked_until c of None \<Rightarrow> False | Some t \<Rightarrow> current < t)"

definition unlock :: "AdminCredential \<Rightarrow> AdminCredential" where
  "unlock c =
     (if cred_locked_until c = None then c else c\<lparr>cred_failed_attempts := 0, cred_locked_until := None\<rparr>)"

text \<open>The checks of one eligible account, once its address is not blocked.\<close>

definition check_account ::
  "app \<Rightarrow> User \<Rightarrow> AdminCredential \<Rightarrow> ustr \<Rightarrow> ustr option \<Rightarrow> bytes \<Rightarrow> datetime \<Rightarrow> db
   \<Rightarrow> (User option \<times> db) res" where
  "check_account A user credential password code h current d =
     (let s = ap_settings A; fail_ip = set_ip_limit h (record_ip_failure s current) in
      if locked current credential then Inr (None, fail_ip d)
      else
        let credential = unlock credential; d = set_credential (u_id user) unlock d in
        if \<not> argon2_verify (ap_argon2 A) (cred_password_hash credential) password \<or>
           \<not> totp_passes A credential code current
        then Inr (None, fail_ip (set_credential (u_id user) (credential_failure s current) d))
        else
          let d = set_credential (u_id user)
                    (\<lambda>c. c\<lparr>cred_failed_attempts := 0, cred_locked_until := None\<rparr>) d in
          bind_res
            (if argon2_needs_rehash (ap_argon2 A) (cred_password_hash credential)
             then bind_res (hash_password A password d) (\<lambda>(hash', d).
                    Inr (set_credential (u_id user) (\<lambda>c. c\<lparr>cred_password_hash := hash'\<rparr>) d))
             else Inr d) (\<lambda>d.
          Inr (Some (user\<lparr>u_last_login_at := Some current\<rparr>),
               set_user (u_id user) (\<lambda>u. u\<lparr>u_last_login_at := Some current\<rparr>) d)))"

definition authenticate ::
  "app \<Rightarrow> ustr \<Rightarrow> ustr \<Rightarrow> ustr option \<Rightarrow> ustr \<Rightarrow> py_datetime option \<Rightarrow> db \<Rightarrow> (User option \<times> db) res" where
  "authenticate A username password code client_ip now d =
     bind_res (utc_now (clock d) now) (\<lambda>current.
     case login_ip_hash A client_ip of
       Inl e \<Rightarrow> if e = LocalAuthenticationError then Inr (None, d) else Inl e
     | Inr h \<Rightarrow>
         bind_res (load_ip_limit h current d) (\<lambda>(rl, d).
         if (case rl_blocked_until rl of None \<Rightarrow> False | Some b \<Rightarrow> current < b) then Inr (None, d)
         else
           let s = ap_settings A;
               d = set_ip_limit h (reset_ip_limit s current) d;
               refuse = Inr (None, set_ip_limit h (record_ip_failure s current) d)
           in case normalise_login_email (ap_unidata A) username of
                None \<Rightarrow> refuse
              | Some email \<Rightarrow>
                  (case find (\<lambda>u. u_email u = email) (users d) of
                     None \<Rightarrow> refuse
                   | Some user \<Rightarrow>
                       (case find (\<lambda>c. cred_user_id c = u_id user) (admin_credentials d) of
                          None \<Rightarrow> refuse
                        | Some credential \<Rightarrow>
                            if \<not> u_is_active user \<or> u_role user \<noteq> UserRole.SUPER_ADMIN then refuse
                            else check_account A user credential password code h current d))))"

section \<open>Facts: base32 and TOTP\<close>

lemma be_bytes_from_bytes: "be_bytes (length bs) (from_bytes_big bs) = bs"
proof (induction bs rule: rev_induct)
  case (snoc x xs)
  have "(from_bytes_big xs * 256 + unat x) div 256 = from_bytes_big xs"
    and "(from_bytes_big xs * 256 + unat x) mod 256 = unat x"
    using unat_byte_lt [of x] by simp_all
  with snoc show ?case by (simp del: from_bytes_big.simps) simp
qed simp

lemma from_bytes_big_lt: "from_bytes_big bs < 256 ^ length bs"
proof (induction bs rule: rev_induct)
  case (snoc x xs)
  then show ?case using unat_byte_lt [of x] by simp
qed simp

lemma number32_append: "number32 (xs @ [x]) acc = number32 xs acc * 32 + x"
  by (induction xs arbitrary: acc) auto

lemma number32_digits32: "v < 32 ^ n \<Longrightarrow> number32 (digits32 n v) 0 = v"
proof (induction n arbitrary: v)
  case (Suc n)
  then have "v div 32 < 32 ^ n" by (simp add: less_mult_imp_div_less mult.commute)
  with Suc.IH show ?case by (simp add: number32_append)
qed simp

lemma length_digits32 [simp]: "length (digits32 n v) = n"
  by (induction n arbitrary: v) auto

lemma digits32_lt: "x \<in> set (digits32 n v) \<Longrightarrow> x < 32"
  by (induction n arbitrary: v) auto

lemma b32_groups_step:
  "length g = 5 \<Longrightarrow> b32_groups (g @ bs) = digits32 8 (from_bytes_big g) @ b32_groups bs"
  by (subst b32_groups.simps) (auto simp: Let_def simp del: from_bytes_big.simps)

lemma b32_ungroup_step:
  "length g = 8 \<Longrightarrow> b32_ungroup (g @ vs) = be_bytes 5 (number32 g 0) @ b32_ungroup vs"
  by (subst b32_ungroup.simps) (auto simp: Let_def)

lemma b32_group_digits:
  assumes "length g = 5" shows "be_bytes 5 (number32 (digits32 8 (from_bytes_big g)) 0) = g"
proof -
  have "from_bytes_big g < 32 ^ 8" using from_bytes_big_lt [of g] assms by simp
  then show ?thesis using be_bytes_from_bytes [of g] assms by (simp only: number32_digits32)
qed

lemma b32_groups_roundtrip:
  "length bs = 5 * n \<Longrightarrow>
   b32_ungroup (b32_groups bs) = bs \<and> length (b32_groups bs) = 8 * n \<and> (\<forall>v \<in> set (b32_groups bs). v < 32)"
proof (induction n arbitrary: bs)
  case 0
  then show ?case by (simp add: b32_groups.simps b32_ungroup.simps)
next
  case (Suc n)
  define g r where "g = take 5 bs" and "r = drop 5 bs"
  have bs: "bs = g @ r" and g: "length g = 5" and r: "length r = 5 * n"
    using Suc.prems by (simp_all add: g_def r_def)
  have "b32_groups bs = digits32 8 (from_bytes_big g) @ b32_groups r"
    unfolding bs by (rule b32_groups_step [OF g])
  moreover have "b32_ungroup (digits32 8 (from_bytes_big g) @ b32_groups r) =
      be_bytes 5 (number32 (digits32 8 (from_bytes_big g)) 0) @ b32_ungroup (b32_groups r)"
    by (rule b32_ungroup_step) simp
  ultimately show ?case
    using Suc.IH [OF r] digits32_lt b32_group_digits [OF g] bs
    by (auto simp del: from_bytes_big.simps digits32.simps be_bytes.simps)
qed

lemma b32_value_char [simp]: "v < 32 \<Longrightarrow> b32_value (b32_char v) = Some v"
  by (auto simp: b32_value_def b32_char_def)

lemma b32_char_range: "v < 32 \<Longrightarrow> b32_char v < 128 \<and> b32_char v \<noteq> 61"
  by (auto simp: b32_char_def)

text \<open>A generated seed is the text of a key of the right length.\<close>

lemma totp_key_b32encode:
  assumes "length bs = 20"
  shows "totp_key (b32encode bs) = Inr bs" and "rstrip_of (\<lambda>c. c = 61) (b32encode bs) = b32encode bs"
proof -
  have rt: "b32_ungroup (b32_groups bs) = bs" and len: "length (b32_groups bs) = 32"
    and lt: "\<And>v. v \<in> set (b32_groups bs) \<Longrightarrow> v < 32"
    using b32_groups_roundtrip [of bs 4] assms by auto
  have ne: "b32_groups bs \<noteq> []" using len by auto
  have "last (b32encode bs) \<noteq> 61"
    using b32_char_range [OF lt [OF last_in_set [OF ne]]] by (simp add: b32encode_def last_map ne)
  then show strip: "rstrip_of (\<lambda>c. c = 61) (b32encode bs) = b32encode bs"
    by (intro rstrip_of_last) auto
  have vals: "map (\<lambda>c. the (b32_value c)) (b32encode bs) = b32_groups bs"
    using lt by (simp add: b32encode_def o_def cong: map_cong)
  have ok: "list_all (\<lambda>c. b32_value c \<noteq> None) (b32encode bs)"
    using lt by (auto simp: b32encode_def list_all_iff)
  have "isascii (b32encode bs)"
    using lt b32_char_range by (auto simp: b32encode_def isascii_def list_all_iff)
  moreover have "length (b32encode bs) = 32" by (simp add: b32encode_def len)
  ultimately show "totp_key (b32encode bs) = Inr bs"
    using strip vals ok rt assms by (simp add: totp_key_def b32decode_def TOTP_SECRET_BYTES_def)
qed

lemma totp_code_digits:
  assumes "totp_code secret t = Inr code" shows "length code = 6 \<and> list_all is_digit_ascii code"
proof -
  have pd: "list_all is_digit_ascii (padded w v)" for w v
    by (induction w arbitrary: v) (auto simp: is_digit_ascii_def)
  then show ?thesis
    using assms pd by (auto simp: totp_code_def bind_res_Inr_iff TOTP_DIGITS_def Let_def split: if_splits)
qed

section \<open>Facts: the authenticator\<close>

lemma update_where_update_where:
  "(\<And>r. p (g r) = p r) \<Longrightarrow> update_where p f (update_where p g t) = update_where p (f \<circ> g) t"
  by (simp add: update_where_def)

lemma set_ip_limit_frame [frame_simps, simp]:
  "users (set_ip_limit h f d) = users d" "admin_credentials (set_ip_limit h f d) = admin_credentials d"
  "sessions (set_ip_limit h f d) = sessions d" "clock (set_ip_limit h f d) = clock d"
  by (simp_all add: set_ip_limit_def)

lemma set_credential_frame [frame_simps, simp]:
  "users (set_credential i f d) = users d"
  "admin_login_rate_limits (set_credential i f d) = admin_login_rate_limits d"
  "sessions (set_credential i f d) = sessions d"
  by (simp_all add: set_credential_def)

lemma set_user_frame [frame_simps, simp]:
  "admin_credentials (set_user i f d) = admin_credentials d"
  "admin_login_rate_limits (set_user i f d) = admin_login_rate_limits d"
  "sessions (set_user i f d) = sessions d"
  by (simp_all add: set_user_def)

lemma ip_limit_key [simp]:
  "rl_ip_hash (reset_ip_limit s t rl) = rl_ip_hash rl" "rl_ip_hash (record_ip_failure s t rl) = rl_ip_hash rl"
  by (simp_all add: reset_ip_limit_def record_ip_failure_def Let_def)

lemma credential_key [simp]:
  "cred_user_id (unlock c) = cred_user_id c" "cred_user_id (credential_failure s t c) = cred_user_id c"
  "cred_password_hash (unlock c) = cred_password_hash c"
  "cred_totp_enabled_at (unlock c) = cred_totp_enabled_at c"
  "cred_totp_secret_enc (unlock c) = cred_totp_secret_enc c"
  by (simp_all add: unlock_def credential_failure_def Let_def)

text \<open>Every way through the authenticator ends in one of these.\<close>

lemma authenticate_cases:
  assumes "authenticate A name pw code ip now d = Inr (x, d')"
  obtains (no_address) "x = None" "d' = d"
  | (blocked) t h rl d1 where "utc_now (clock d) now = Inr t" "load_ip_limit h t d = Inr (rl, d1)"
      "x = None" "d' = d1"
  | (refused) t h rl d1 where "utc_now (clock d) now = Inr t" "load_ip_limit h t d = Inr (rl, d1)"
      "x = None" "d' = set_ip_limit h (record_ip_failure (ap_settings A) t)
                        (set_ip_limit h (reset_ip_limit (ap_settings A) t) d1)"
  | (checked) t h rl d1 email u c where "utc_now (clock d) now = Inr t"
      "load_ip_limit h t d = Inr (rl, d1)" "rl_blocked_until rl = None \<or> the (rl_blocked_until rl) \<le> t"
      "normalise_login_email (ap_unidata A) name = Some email"
      "find (\<lambda>u. u_email u = email) (users d) = Some u"
      "find (\<lambda>c. cred_user_id c = u_id u) (admin_credentials d) = Some c"
      "u_is_active u" "u_role u = UserRole.SUPER_ADMIN"
      "check_account A u c pw code h t (set_ip_limit h (reset_ip_limit (ap_settings A) t) d1) = Inr (x, d')"
proof -
  obtain t where t: "utc_now (clock d) now = Inr t"
    using assms by (auto simp: authenticate_def bind_res_Inr_iff)
  show thesis
  proof (cases "login_ip_hash A ip")
    case (Inl e)
    then show ?thesis
      using assms t by (intro no_address) (auto simp: authenticate_def split: if_splits)
  next
    case (Inr h)
    then obtain rl d1 where ld: "load_ip_limit h t d = Inr (rl, d1)"
      using assms t by (auto simp: authenticate_def bind_res_Inr_iff)
    have fr: "users d1 = users d" "admin_credentials d1 = admin_credentials d"
      using ld by (auto simp: load_ip_limit_def Let_def split: option.splits)
    show ?thesis
    proof (cases "case rl_blocked_until rl of None \<Rightarrow> False | Some b \<Rightarrow> t < b")
      case True
      with assms t ld Inr show ?thesis by (intro blocked [OF t ld]) (auto simp: authenticate_def)
    next
      case open': False
      have op: "rl_blocked_until rl = None \<or> the (rl_blocked_until rl) \<le> t"
        using open' by (auto split: option.splits)
      let ?ref = "Inr (None, set_ip_limit h (record_ip_failure (ap_settings A) t)
          (set_ip_limit h (reset_ip_limit (ap_settings A) t) d1)) :: (User option \<times> db) res"
      have run: "(case normalise_login_email (ap_unidata A) name of
                None \<Rightarrow> ?ref
              | Some email \<Rightarrow>
                  (case find (\<lambda>u. u_email u = email) (users d) of
                     None \<Rightarrow> ?ref
                   | Some user \<Rightarrow>
                       (case find (\<lambda>c. cred_user_id c = u_id user) (admin_credentials d) of
                          None \<Rightarrow> ?ref
                        | Some credential \<Rightarrow>
                            if \<not> u_is_active user \<or> u_role user \<noteq> UserRole.SUPER_ADMIN then ?ref
                            else check_account A user credential pw code h t
                              (set_ip_limit h (reset_ip_limit (ap_settings A) t) d1)))) = Inr (x, d')"
        using assms t ld Inr open' by (simp add: authenticate_def Let_def fr cong: option.case_cong)
      show ?thesis
      proof (cases "?ref = Inr (x, d')")
        case True
        then show ?thesis by (intro refused [OF t ld]) auto
      next
        case False
        then show ?thesis
          using run by (auto split: option.splits if_splits intro: checked [OF t ld op])
      qed
    qed
  qed
qed

lemma load_ip_limit_frame:
  "load_ip_limit h t d = Inr (rl, d1) \<Longrightarrow> users d1 = users d \<and> admin_credentials d1 = admin_credentials d \<and>
     clock d1 = clock d \<and> sessions d1 = sessions d \<and> rl_ip_hash rl = h \<and>
     admin_login_rate_limits d1 = insert_if_absent (\<lambda>r. rl_ip_hash r = h)
       \<lparr>rl_ip_hash = h, rl_window_started_at = t, rl_attempts = 0, rl_blocked_until = None\<rparr>
       (admin_login_rate_limits d)"
  by (auto simp: load_ip_limit_def Let_def dest!: find_Some_mem split: option.splits)

text \<open>
  What the checks of an account do: refuse and count, or accept and clear. The credentials of other
  accounts keep their rows, and users change in their last sign-in only.
\<close>

lemma check_account_cases:
  assumes "check_account A u c pw code h t d = Inr (x, d')"
  obtains (locked) "locked t c" "x = None" "d' = set_ip_limit h (record_ip_failure (ap_settings A) t) d"
  | (refused) "x = None"
      "\<not> argon2_verify (ap_argon2 A) (cred_password_hash c) pw \<or> \<not> totp_passes A (unlock c) code t"
      "d' = set_ip_limit h (record_ip_failure (ap_settings A) t)
         (set_credential (u_id u) (credential_failure (ap_settings A) t)
           (set_credential (u_id u) unlock d))"
  | (accepted) g n where "\<not> locked t c" "x = Some (u\<lparr>u_last_login_at := Some t\<rparr>)"
      "argon2_verify (ap_argon2 A) (cred_password_hash c) pw" "totp_passes A (unlock c) code t"
      "\<And>c. cred_user_id (g c) = cred_user_id c \<and> cred_failed_attempts (g c) = 0 \<and>
        cred_locked_until (g c) = None"
      "d' = set_user (u_id u) (\<lambda>u. u\<lparr>u_last_login_at := Some t\<rparr>)
         (set_credential (u_id u) g (d\<lparr>drawn := n\<rparr>))"
proof -
  show thesis
  proof (cases "locked t c")
    case True
    with assms show ?thesis by (intro locked) (auto simp: check_account_def Let_def)
  next
    case nl: False
    show ?thesis
    proof (cases "\<not> argon2_verify (ap_argon2 A) (cred_password_hash c) pw \<or> \<not> totp_passes A (unlock c) code t")
      case True
      with assms nl show ?thesis by (intro refused) (auto simp: check_account_def Let_def)
    next
      case ok: False
      let ?clear = "\<lambda>c. c\<lparr>cred_failed_attempts := 0, cred_locked_until := None\<rparr>"
      let ?d = "set_credential (u_id u) ?clear (set_credential (u_id u) unlock d)"
      have comp: "set_credential i f (set_credential i g (d\<lparr>drawn := n\<rparr>)) =
          set_credential i (f \<circ> g) (d\<lparr>drawn := n\<rparr>)"
        if "\<And>c. cred_user_id (g c) = cred_user_id c" for i f g n and d :: db
        by (simp add: set_credential_def update_where_update_where that)
      have d: "?d = set_credential (u_id u) (?clear \<circ> unlock) (d\<lparr>drawn := drawn d\<rparr>)"
        using comp [of unlock "u_id u" ?clear "drawn d" d] by simp
      show ?thesis
      proof (cases "argon2_needs_rehash (ap_argon2 A) (cred_password_hash c)")
        case False
        with assms nl ok d show ?thesis
          by (intro accepted [of "?clear \<circ> unlock" "drawn d"]) (auto simp: check_account_def Let_def)
      next
        case True
        obtain salt where hp: "hash_password A pw ?d = Inr (argon2_hash (ap_argon2 A) pw salt, ?d\<lparr>drawn := drawn d + 16\<rparr>)"
          using assms nl ok True
          by (auto simp: check_account_def Let_def bind_res_Inr_iff hash_password_def token_bytes_eq
              set_credential_def)
        let ?h = "\<lambda>c. c\<lparr>cred_password_hash := argon2_hash (ap_argon2 A) pw salt\<rparr>"
        have "?d\<lparr>drawn := drawn d + 16\<rparr> = set_credential (u_id u) (?clear \<circ> unlock) (d\<lparr>drawn := drawn d + 16\<rparr>)"
          unfolding d by (simp add: set_credential_def)
        then have "set_credential (u_id u) ?h (?d\<lparr>drawn := drawn d + 16\<rparr>) =
            set_credential (u_id u) (?h \<circ> (?clear \<circ> unlock)) (d\<lparr>drawn := drawn d + 16\<rparr>)"
          by (simp add: comp)
        with assms nl ok True hp show ?thesis
          by (intro accepted [of "?h \<circ> (?clear \<circ> unlock)" "drawn d + 16"]) (auto simp: check_account_def Let_def)
      qed
    qed
  qed
qed

text \<open>AES-GCM appends its tag: a ciphertext is no shorter than its plaintext.\<close>

definition gcm_expands :: "aesgcm \<Rightarrow> bool" where
  "gcm_expands G \<longleftrightarrow> (\<forall>k n p a. length p \<le> length (gcm_encrypt G k n p a))"

lemma suffix_gcm_expands: "gcm_expands suffix_gcm"
  by (simp add: gcm_expands_def suffix_gcm_def)

section \<open>Contract\<close>

text \<open>
  A row that is not closed is below its limit; \<open>throttle_inv\<close> says so of both throttles, and
  \<open>account_closed\<close> that an account refuses everything until an instant.
\<close>

definition throttle_inv :: "Settings \<Rightarrow> db \<Rightarrow> bool" where
  "throttle_inv s d \<longleftrightarrow>
     (\<forall>c \<in> set (admin_credentials d). cred_locked_until c = None \<longrightarrow>
        int (cred_failed_attempts c) < s_admin_login_max_failures s) \<and>
     (\<forall>r \<in> set (admin_login_rate_limits d). rl_blocked_until r = None \<longrightarrow>
        int (rl_attempts r) < s_admin_login_ip_max_failures s)"

record login =
  lg_username :: ustr
  lg_password :: ustr
  lg_code :: "ustr option"
  lg_ip :: ustr
  lg_time :: datetime

definition login_once :: "app \<Rightarrow> login \<Rightarrow> db \<Rightarrow> (User option \<times> db) res" where
  "login_once A l d =
     authenticate A (lg_username l) (lg_password l) (lg_code l) (lg_ip l) (Some (Aware (lg_time l) 0)) d"

fun login_all :: "app \<Rightarrow> login list \<Rightarrow> db \<Rightarrow> db" where
  "login_all A [] d = d"
| "login_all A (l # ls) d =
     login_all A ls (case login_once A l d of Inl e \<Rightarrow> d | Inr (x, d') \<Rightarrow> d')"

lemma unlocked_below:
  "0 < s_admin_login_max_failures s \<Longrightarrow>
   (cred_locked_until c = None \<longrightarrow> int (cred_failed_attempts c) < s_admin_login_max_failures s) \<Longrightarrow>
   (cred_locked_until (unlock c) = None \<longrightarrow>
      int (cred_failed_attempts (unlock c)) < s_admin_login_max_failures s)"
  by (auto simp: unlock_def)

lemma failure_below:
  "cred_locked_until (credential_failure s t c) = None \<longrightarrow>
     int (cred_failed_attempts (credential_failure s t c)) < s_admin_login_max_failures s"
  by (auto simp: credential_failure_def Let_def)

lemma ip_below:
  "0 < s_admin_login_ip_max_failures s \<Longrightarrow>
   (rl_blocked_until r = None \<longrightarrow> int (rl_attempts r) < s_admin_login_ip_max_failures s) \<Longrightarrow>
   (rl_blocked_until (reset_ip_limit s t r) = None \<longrightarrow>
      int (rl_attempts (reset_ip_limit s t r)) < s_admin_login_ip_max_failures s)"
  "rl_blocked_until (record_ip_failure s t r) = None \<longrightarrow>
      int (rl_attempts (record_ip_failure s t r)) < s_admin_login_ip_max_failures s"
  by (auto simp: reset_ip_limit_def record_ip_failure_def Let_def)

lemma throttle_set_ip:
  assumes "throttle_inv s d"
    and "\<And>r. r \<in> set (admin_login_rate_limits d) \<Longrightarrow> rl_blocked_until (f r) = None \<longrightarrow>
      int (rl_attempts (f r)) < s_admin_login_ip_max_failures s"
  shows "throttle_inv s (set_ip_limit h f d)"
  using assms by (auto simp: throttle_inv_def set_ip_limit_def set_update_where)

lemma throttle_set_credential:
  assumes "throttle_inv s d"
    and "\<And>c. c \<in> set (admin_credentials d) \<Longrightarrow> cred_locked_until (f c) = None \<longrightarrow>
      int (cred_failed_attempts (f c)) < s_admin_login_max_failures s"
  shows "throttle_inv s (set_credential i f d)"
  using assms by (auto simp: throttle_inv_def set_credential_def set_update_where)

lemma throttle_keeps_ip_limits:
  assumes "throttle_inv s d" and "0 < s_admin_login_ip_max_failures s"
  shows "throttle_inv s (set_ip_limit h (reset_ip_limit s t) d)"
    and "throttle_inv s (set_ip_limit h (record_ip_failure s t) d)"
proof -
  show "throttle_inv s (set_ip_limit h (reset_ip_limit s t) d)"
    by (rule throttle_set_ip [OF assms(1)], rule ip_below(1) [OF assms(2)])
      (use assms(1) in \<open>auto simp: throttle_inv_def\<close>)
  show "throttle_inv s (set_ip_limit h (record_ip_failure s t) d)"
    by (rule throttle_set_ip [OF assms(1)], rule ip_below(2))
qed

lemma throttle_load:
  assumes "throttle_inv s d" and "0 < s_admin_login_ip_max_failures s" and "load_ip_limit h t d = Inr (rl, d1)"
  shows "throttle_inv s d1"
  using load_ip_limit_frame [OF assms(3)] assms(1,2)
  by (auto simp: throttle_inv_def set_insert_if_absent split: if_splits)

lemma authenticate_keeps_throttle:
  assumes inv: "throttle_inv (ap_settings A) d" and run: "authenticate A name pw code ip now d = Inr (x, d')"
    and pos: "0 < s_admin_login_max_failures (ap_settings A)" "0 < s_admin_login_ip_max_failures (ap_settings A)"
  shows "throttle_inv (ap_settings A) d'"
  using run
proof (cases rule: authenticate_cases)
  case (checked t h rl d1 email u c)
  let ?s = "ap_settings A" and ?d = "set_ip_limit h (reset_ip_limit (ap_settings A) t) d1"
  have d1: "throttle_inv ?s ?d"
    using throttle_keeps_ip_limits(1) throttle_load [OF inv pos(2) checked(2)] pos by blast
  from checked(9) show ?thesis
  proof (cases rule: check_account_cases)
    case locked
    with d1 pos show ?thesis by (simp add: throttle_keeps_ip_limits)
  next
    case refused
    have "throttle_inv ?s (set_credential (u_id u) unlock ?d)"
      using d1 pos unlocked_below by (intro throttle_set_credential) (auto simp: throttle_inv_def)
    then show ?thesis
      using refused pos failure_below throttle_set_credential throttle_keeps_ip_limits(2) by metis
  next
    case (accepted g n)
    have "throttle_inv ?s (?d\<lparr>drawn := n\<rparr>)" using d1 by (simp add: throttle_inv_def)
    then have "throttle_inv ?s (set_credential (u_id u) g (?d\<lparr>drawn := n\<rparr>))"
      using accepted pos by (intro throttle_set_credential) auto
    then show ?thesis by (simp add: accepted throttle_inv_def)
  qed
qed (use inv pos throttle_load throttle_keeps_ip_limits in \<open>auto dest!: throttle_load [OF inv pos(2)]\<close>)

text \<open>An account whose lock has not ended: nothing that happens before its end touches its row.\<close>

lemma authenticate_locked:
  assumes lk: "find (\<lambda>c. cred_user_id c = i) (admin_credentials d) = Some c" "cred_locked_until c = Some T"
    and uq: "unique_on u_id (users d)"
    and run: "authenticate A name pw code ip now d = Inr (x, d')" and t: "utc_now (clock d) now = Inr t" "t < T"
  shows "find (\<lambda>c. cred_user_id c = i) (admin_credentials d') = Some c"
    and "unique_on u_id (users d')" and "x \<noteq> None \<Longrightarrow> u_id (the x) \<noteq> i"
proof -
  have "find (\<lambda>c. cred_user_id c = i) (admin_credentials d') = Some c \<and> unique_on u_id (users d') \<and>
      (x \<noteq> None \<longrightarrow> u_id (the x) \<noteq> i)"
    using run
  proof (cases rule: authenticate_cases)
    case (checked t' h rl d1 email u c')
    have t': "t' = t" using checked(1) t by simp
    note fr = load_ip_limit_frame [OF checked(2)]
    from checked(9) show ?thesis
    proof (cases rule: check_account_cases)
      case locked
      then show ?thesis using lk uq fr by simp
    next
      case refused
      have ne: "u_id u \<noteq> i" if "\<not> locked t c'"
        using checked(6) lk that t by (auto simp: locked_def)
      show ?thesis
      proof (cases "u_id u = i")
        case True
        with checked(6) lk t t' have "locked t' c'" by (auto simp: locked_def)
        with checked(9) have "d' = set_ip_limit h (record_ip_failure (ap_settings A) t')
            (set_ip_limit h (reset_ip_limit (ap_settings A) t') d1) \<and> x = None"
          by (auto simp: check_account_def Let_def)
        then show ?thesis using lk uq fr by simp
      next
        case False
        then show ?thesis
          using refused lk uq fr by (simp add: set_credential_def find_update_where_other)
      qed
    next
      case (accepted g n)
      have "u_id u \<noteq> i"
        using checked(6) lk accepted(1) t t' by (auto simp: locked_def)
      then show ?thesis
        using accepted(2,5,6) lk uq fr
        by (auto simp: set_credential_def set_user_def find_update_where_other unique_on_update_where)
    qed
  qed (use lk uq in \<open>auto dest!: load_ip_limit_frame\<close>)
  then show "find (\<lambda>c. cred_user_id c = i) (admin_credentials d') = Some c"
    "unique_on u_id (users d')" "x \<noteq> None \<Longrightarrow> u_id (the x) \<noteq> i" by auto
qed

lemma login_all_locked:
  assumes "find (\<lambda>c. cred_user_id c = i) (admin_credentials d) = Some c" "cred_locked_until c = Some T"
    "unique_on u_id (users d)" "\<And>l. l \<in> set ls \<Longrightarrow> lg_time l < T"
  shows "find (\<lambda>c. cred_user_id c = i) (admin_credentials (login_all A ls d)) = Some c \<and>
    unique_on u_id (users (login_all A ls d))"
  using assms
proof (induction ls arbitrary: d)
  case (Cons l ls)
  show ?case
  proof (cases "login_once A l d")
    case (Inl e)
    with Cons show ?thesis by simp
  next
    case (Inr p)
    obtain x d1 where p: "p = (x, d1)" by (cases p)
    have "find (\<lambda>c. cred_user_id c = i) (admin_credentials d1) = Some c" "unique_on u_id (users d1)"
      using authenticate_locked [OF Cons.prems(1,2,3), of A "lg_username l" "lg_password l" "lg_code l"
          "lg_ip l" "Some (Aware (lg_time l) 0)" x d1 "lg_time l"] Inr p Cons.prems(4)
      by (auto simp: login_once_def)
    with Cons Inr p show ?thesis by simp
  qed
qed simp

lemma totp_passes_enabled:
  "totp_passes A c code t \<longleftrightarrow> cred_totp_enabled_at c = None \<or>
     (\<exists>enc code' secret. cred_totp_secret_enc c = Some enc \<and> code = Some code' \<and>
        decrypt_totp_secret A (cred_user_id c) enc = Inr secret \<and> verify_totp secret code' t)"
  by (auto simp: totp_passes_def split: option.splits sum.splits)

section \<open>Properties\<close>


text \<open>
  A generated seed survives storage: encrypted for its account it decrypts to itself, and it is a key
  of 20 octets.
\<close>

theorem totp_secret_roundtrip:
  assumes "gcm_ok (ap_gcm A)" and "data_key (ap_settings A) = Inr k" and "length k = 32"
    and "generate_totp_secret d = (secret, d1)" and "gcm_expands (ap_gcm A)"
  shows "\<exists>blob d2. encrypt_totp_secret A i secret d1 = Inr (blob, d2) \<and>
    decrypt_totp_secret A i blob = Inr secret \<and> (\<exists>key. totp_key secret = Inr key \<and> length key = 20)"
proof -
  let ?bs = "next_bytes 20 d"
  have secret: "secret = b32encode ?bs" and key: "totp_key secret = Inr ?bs"
    using assms(4) totp_key_b32encode [of ?bs]
    by (auto simp: generate_totp_secret_def token_bytes_eq TOTP_SECRET_BYTES_def)
  have asc: "isascii secret" using key by (auto simp: totp_key_def split: if_splits)
  let ?n = "next_bytes TOTP_NONCE_BYTES d1"
  let ?c = "gcm_encrypt (ap_gcm A) k ?n (map word_of_nat secret) (totp_aad i)"
  have n: "length ?n = 12" by (simp add: TOTP_NONCE_BYTES_def)
  have enc: "encrypt_totp_secret A i secret d1 = Inr (?n @ ?c, d1\<lparr>drawn := drawn d1 + TOTP_NONCE_BYTES\<rparr>)"
    using key assms(2) by (simp add: encrypt_totp_secret_def token_bytes_eq local_data_key_def)
  have dec: "gcm_decrypt (ap_gcm A) k ?n ?c (totp_aad i) = Some (map word_of_nat secret)"
    using assms(1,3) n by (simp add: gcm_ok_def)
  have rt: "map unat (map word_of_nat secret :: bytes) = secret"
    using asc by (intro unat_map_word_of_nat) (auto simp: isascii_def list_all_iff)
  have "list_all (\<lambda>c. c < 128) (map unat (map word_of_nat secret :: bytes))"
    using asc unfolding rt isascii_def .
  then have "decode_ascii (map word_of_nat secret) = Some secret"
    using rt by (simp add: decode_ascii_def list_all_iff)
  moreover have "length secret = 32"
    using totp_key_b32encode [of ?bs] b32_groups_roundtrip [of ?bs 4] by (simp add: secret b32encode_def)
  then have nonempty: "?c \<noteq> []"
    using assms(5) unfolding gcm_expands_def by (metis length_map le_zero_eq list.size(3) zero_neq_numeral)
  ultimately have "decrypt_totp_secret A i (?n @ ?c) = Inr secret"
    using dec n assms(2) key nonempty
    by (simp add: decrypt_totp_secret_def local_data_key_def TOTP_NONCE_BYTES_def)
  with enc key length_next_bytes [of 20 d] show ?thesis by blast
qed

text \<open>
  A local sign-in succeeds only for an active super-admin whose account is not locked, with the
  password of the stored hash and, once a seed is enabled, a code of the decrypted seed; it clears
  the failure count and records the time.
\<close>

theorem authenticate_sound:
  assumes "authenticate A name pw code ip now d = Inr (Some u', d')" and "utc_now (clock d) now = Inr t"
  shows "\<exists>u c. u \<in> set (users d) \<and> u_is_active u \<and> u_role u = UserRole.SUPER_ADMIN \<and>
    normalise_login_email (ap_unidata A) name = Some (u_email u) \<and>
    c \<in> set (admin_credentials d) \<and> cred_user_id c = u_id u \<and> \<not> locked t c \<and>
    argon2_verify (ap_argon2 A) (cred_password_hash c) pw \<and>
    (cred_totp_enabled_at c = None \<or> (\<exists>enc code' secret. cred_totp_secret_enc c = Some enc \<and>
       code = Some code' \<and> decrypt_totp_secret A (u_id u) enc = Inr secret \<and> verify_totp secret code' t)) \<and>
    u' = u\<lparr>u_last_login_at := Some t\<rparr> \<and>
    (\<forall>c' \<in> set (admin_credentials d'). cred_user_id c' = u_id u \<longrightarrow>
       cred_failed_attempts c' = 0 \<and> cred_locked_until c' = None)"
  using assms(1)
proof (cases rule: authenticate_cases)
  case (checked t' h rl d1 email u c)
  have t: "t' = t" using checked(1) assms(2) by simp
  from checked(9) show ?thesis
  proof (cases rule: check_account_cases)
    case (accepted g n)
    have row: "\<forall>c' \<in> set (admin_credentials d'). cred_user_id c' = u_id u \<longrightarrow>
        cred_failed_attempts c' = 0 \<and> cred_locked_until c' = None"
      using accepted(5) by (auto simp: accepted(6) set_credential_def set_update_where split: if_splits)
    show ?thesis
      using find_Some_mem [OF checked(5)] find_Some_mem [OF checked(6)] checked(4,7,8) accepted(1-4) t
      by (intro exI [of _ u] exI [of _ c]) (auto simp: totp_passes_enabled row)
  qed simp_all
qed simp_all

text \<open>
  The throttles are sound: whatever sign-ins are attempted, at whatever times, every credential that is
  not locked stays below the account limit and every address that is not blocked below its own.
\<close>

theorem throttles_hold:
  assumes "0 < s_admin_login_max_failures (ap_settings A)"
    and "0 < s_admin_login_ip_max_failures (ap_settings A)" and "throttle_inv (ap_settings A) d"
  shows "throttle_inv (ap_settings A) (login_all A ls d)"
  using assms(3)
proof (induction ls arbitrary: d)
  case (Cons l ls)
  then show ?case
    using authenticate_keeps_throttle assms(1,2)
    by (auto simp: login_once_def split: sum.splits)
qed simp

text \<open>
  C19. A locked account stays locked: after any sequence of sign-in attempts before its lock ends, by
  anyone and with any password, a further attempt before that time does not sign it in.
\<close>

theorem locked_account_refuses:
  assumes "find (\<lambda>c. cred_user_id c = i) (admin_credentials d) = Some c" and "cred_locked_until c = Some T"
    and "unique_on u_id (users d)" and "\<forall>l \<in> set (ls @ [l]). lg_time l < T"
    and "login_once A l (login_all A ls d) = Inr (Some u, d')"
  shows "u_id u \<noteq> i"
proof -
  have "find (\<lambda>c. cred_user_id c = i) (admin_credentials (login_all A ls d)) = Some c"
    "unique_on u_id (users (login_all A ls d))"
    using login_all_locked [OF assms(1-3), of ls A] assms(4) by auto
  from authenticate_locked(3) [OF this(1) assms(2) this(2) assms(5) [unfolded login_once_def]]
  show ?thesis using assms(4) by simp
qed

section \<open>Instances\<close>

text \<open>A super-admin whose password is the 15 octets of \<open>pw15\<close>, and one sign-in attempt.\<close>

definition pw15 :: ustr where
  "pw15 = uni ''correct horse b''"

definition admin_db :: "nat \<Rightarrow> datetime option \<Rightarrow> db" where
  "admin_db failed lock = db0\<lparr>users := [a_user 1 UserRole.SUPER_ADMIN],
     admin_credentials := [\<lparr>cred_user_id = 1, cred_password_hash = replicate 16 0 @ pw15,
       cred_totp_secret_enc = None, cred_totp_enabled_at = None, cred_failed_attempts = failed,
       cred_locked_until = lock\<rparr>]\<rparr>"

definition try_login :: "ustr \<Rightarrow> datetime \<Rightarrow> login" where
  "try_login pw t =
     \<lparr>lg_username = uni ''A@example.org'', lg_password = pw, lg_code = None,
      lg_ip = uni ''10.0.0.1'', lg_time = t\<rparr>"

lemma example_email: "normalise_login_email ascii_unidata (uni ''A@example.org'') = Some (uni ''a@example.org'')"
  by code_simp

lemma the_app_limits:
  "s_admin_login_max_failures (ap_settings the_app) = 5"
  "s_admin_login_ip_max_failures (ap_settings the_app) = 10"
  by (simp_all add: the_app_def the_settings_def runtime_settings_def)


theorem totp_secret_roundtrip_witness:
  "\<exists>secret blob d1 d2. generate_totp_secret db0 = (secret, d1) \<and>
     encrypt_totp_secret the_app 1 secret d1 = Inr (blob, d2) \<and> decrypt_totp_secret the_app 1 blob = Inr secret"
proof -
  obtain secret d1 where g: "generate_totp_secret db0 = (secret, d1)" by fastforce
  have app: "gcm_ok (ap_gcm the_app)" "data_key (ap_settings the_app) = Inr (replicate 32 1)"
      "gcm_expands (ap_gcm the_app)"
    by (simp_all add: the_app_def suffix_gcm_ok data_key_the_settings suffix_gcm_expands)
  show ?thesis
    using totp_secret_roundtrip [OF app(1,2) _ g app(3), of 1] g by auto
qed

lemma try_login_works:
  "\<exists>u d'. authenticate the_app (uni ''A@example.org'') pw15 None (uni ''10.0.0.1'') None (admin_db 0 None)
     = Inr (Some u, d')"
proof -
  have "isascii (uni ''10.0.0.1'')" by code_simp
  then show ?thesis
    using session_key_the_settings example_email
    by (simp add: authenticate_def login_ip_hash_def derived_key_def the_app_def load_ip_limit_def
        insert_if_absent_def set_ip_limit_def admin_db_def sample_defs reset_ip_limit_def update_where_def
        check_account_def locked_def unlock_def set_credential_def plain_argon2_def totp_passes_def Let_def)
qed

theorem authenticate_sound_witness:
  "\<exists>u \<in> set (users (admin_db 0 None)). u_is_active u \<and> u_role u = UserRole.SUPER_ADMIN"
proof -
  obtain u d' where "authenticate the_app (uni ''A@example.org'') pw15 None (uni ''10.0.0.1'') None
      (admin_db 0 None) = Inr (Some u, d')"
    using try_login_works by blast
  from authenticate_sound [OF this, of "seconds 1000000"] show ?thesis
    by (auto simp: admin_db_def sample_defs)
qed

theorem throttles_hold_witness:
  "throttle_inv (ap_settings the_app) (login_all the_app [try_login [] 0, try_login pw15 1] (admin_db 4 None))"
  by (rule throttles_hold) (simp_all add: the_app_limits throttle_inv_def admin_db_def sample_defs)

theorem locked_account_refuses_witness:
  "\<not> (\<exists>u d'. login_once the_app (try_login pw15 1)
        (login_all the_app [try_login pw15 0] (admin_db 5 (Some 2))) = Inr (Some u, d') \<and> u_id u = 1)"
  using locked_account_refuses [of 1 "admin_db 5 (Some 2)" _ 2 "[try_login pw15 0]" "try_login pw15 1" the_app]
  by (auto simp: admin_db_def sample_defs unique_on_def try_login_def)

end
