(* ===== verification/Portal.thy ===== *)
theory Portal
  imports Scheduling Retention LocalAuth
begin

text \<open>
  The components together: the database of the portal under the operations of the web process, the
  background scans and the workers, as a step relation, and what holds in every reachable state.
\<close>

section \<open>Steps\<close>

text \<open>
  A web request or a worker step that returns commits its changes; one that raises is rolled back and is
  no step. Time only advances.
\<close>

inductive portal_step :: "app \<Rightarrow> db \<Rightarrow> db \<Rightarrow> bool" for A where
  time: "clock d \<le> t \<Longrightarrow> portal_step A d (d\<lparr>clock := t, tx_now := t\<rparr>)"
| session: "session_run (ap_ip A) (ap_settings A) i d = Inr (x, d') \<Longrightarrow> portal_step A d d'"
| login: "login_once A l d = Inr (u, d') \<Longrightarrow> portal_step A d d'"
| scan: "portal_step A d (execute_scan C (ap_unidata A) (ingest_env_of A) i j q d)"
| remediate: "remediate_finding i a note now d = Inr (f, d') \<Longrightarrow> portal_step A d d'"
| reopen: "unremediate_finding i a now d = Inr (f, d') \<Longrightarrow> portal_step A d d'"
| batch: "create_batch (ap_unidata A) lo a ty v d = Inr (b, d') \<Longrightarrow> portal_step A d d'"
| alert: "portal_step A d (snd (dispatch_next_alert sinks t d))"
| work: "wk_app W = A \<Longrightarrow> worker_turn W leader client d = (e, client', d') \<Longrightarrow> portal_step A d d'"

inductive portal_reachable :: "app \<Rightarrow> db \<Rightarrow> db \<Rightarrow> bool" for A d0 where
  start: "portal_reachable A d0 d0"
| step: "portal_reachable A d0 d \<Longrightarrow> portal_step A d d' \<Longrightarrow> portal_reachable A d0 d'"

inductive_cases portal_stepE: "portal_step A d d'"

text \<open>
  The invariant: the findings tables agree with their history and constraints, sessions have digests of
  their own and never idle past their deadline, and a queue row is locked exactly while it is running.
\<close>

definition locks_ok :: "db \<Rightarrow> bool" where
  "locks_ok d \<longleftrightarrow> (\<forall>w \<in> set (scan_queue d). (q_locked_at w \<noteq> None) = (q_status w = QueueStatus.RUNNING))"

definition portal_ok :: "db \<Rightarrow> bool" where
  "portal_ok d \<longleftrightarrow> findings_ok d \<and> sessions_inv d \<and> locks_ok d"

section \<open>Frames\<close>

text \<open>The tables the invariant reads.\<close>

definition core :: "db \<Rightarrow> Finding list \<times> FindingEvent list \<times> Session list \<times> ScanQueue list" where
  "core d = (findings d, finding_events d, sessions d, scan_queue d)"

lemma portal_ok_core: "core d' = core d \<Longrightarrow> portal_ok d' = portal_ok d"
  using findings_ok_frame [of d' d] by (simp add: portal_ok_def core_def sessions_inv_def locks_ok_def)

lemma portal_ok_findings:
  "portal_ok d \<Longrightarrow> findings_ok d' \<Longrightarrow> sessions d' = sessions d \<Longrightarrow> scan_queue d' = scan_queue d \<Longrightarrow> portal_ok d'"
  by (simp add: portal_ok_def sessions_inv_def locks_ok_def)

lemma portal_ok_queue:
  "portal_ok d \<Longrightarrow> findings d' = findings d \<Longrightarrow> finding_events d' = finding_events d \<Longrightarrow>
   sessions d' = sessions d \<Longrightarrow> locks_ok d' \<Longrightarrow> portal_ok d'"
  using findings_ok_frame [of d' d] by (simp add: portal_ok_def sessions_inv_def)

lemma core_mail [simp]:
  "core (enqueue_notification u ids t d) = core d" "core (enqueue_new_findings s ids d) = core d"
  "core (enqueue_alert sink p scope d) = core d" "core (set_notification i f d) = core d"
  "core (set_alert i g d) = core d" "core (set_schedule i h d) = core d"
  by (simp_all add: core_def enqueue_notification_eq enqueue_new_findings_def enqueue_alert_eq
      set_notification_def set_alert_def set_schedule_def split: option.splits)

lemma core_fanout [simp]: "core (snd (fanout_watchlisted_findings s ids d)) = core d"
proof -
  have "core (snd (fold (fanout_finding s es) fs (n, d))) = core d" for es fs n d
  proof (induction fs arbitrary: n d)
    case (Cons f fs)
    obtain m d' where 1: "fanout_finding s es f (n, d) = (m, d')" by fastforce
    then have "core d' = core d" by (auto simp: fanout_finding_def split: if_splits)
    with Cons.IH [of m d'] 1 show ?case by simp
  qed simp
  from this [of "watching s d" "filter (\<lambda>f. fnd_id f \<in> set ids) (findings d)" 0 d] show ?thesis
    by (auto simp: fanout_watchlisted_findings_def Let_def split: prod.splits option.splits)
qed

lemma core_digest [simp]: "core (snd (enqueue_digest_notifications t d)) = core d"
proof -
  have "core (fold (\<lambda>(u, ids) d. enqueue_notification u ids x d) gs d) = core d" for gs x
    by (induction gs arbitrary: d) auto
  then show ?thesis by (simp add: enqueue_digest_notifications_def Let_def)
qed

lemma core_alert [simp]: "core (snd (dispatch_next_alert sinks t d)) = core d"
  by (simp add: dispatch_next_alert_def split: option.splits)

lemma core_deliver: "deliver_next A smtp sender None d = Inr (b, d') \<Longrightarrow> core d' = core d"
proof -
  have "deliver_next A smtp sender None d = deliver_next A smtp sender (Some (clock d)) d"
    by (simp add: deliver_next_def)
  then show "deliver_next A smtp sender None d = Inr (b, d') \<Longrightarrow> core d' = core d"
    by (auto elim!: deliver_next_Inr)
qed

lemma core_login: "login_once A l d = Inr (u, d') \<Longrightarrow> core d' = core d"
proof -
  have parts: "core (set_ip_limit h f d) = core d" "core (set_credential i g d) = core d" "core (set_user i k d) = core d"
    for h f i g k and d :: db
    by (simp_all add: core_def set_ip_limit_def set_credential_def set_user_def)
  have load: "core d2 = core d1" if "load_ip_limit h t d1 = Inr (rl, d2)" for h t rl d1 d2
    using that by (auto simp: load_ip_limit_def core_def Let_def split: option.splits if_splits)
  assume run: "login_once A l d = Inr (u, d')"
  from run [unfolded login_once_def] show "core d' = core d"
  proof (cases rule: authenticate_cases)
    case (checked t h rl d1 email us c)
    from checked(9) show ?thesis
    proof (cases rule: check_account_cases)
      case (accepted g n)
      have "core (x\<lparr>drawn := n\<rparr>) = core x" for x by (simp add: core_def)
      with accepted(6) load [OF checked(2)] show ?thesis by (simp add: parts)
    qed (simp_all add: parts load [OF checked(2)])
  qed (simp_all add: parts load)
qed

section \<open>Every step keeps the invariant\<close>

definition only_sessions :: "db \<Rightarrow> db \<Rightarrow> bool" where
  "only_sessions d d' \<longleftrightarrow>
     findings d' = findings d \<and> finding_events d' = finding_events d \<and> scan_queue d' = scan_queue d"

lemma session_run_frame: "session_run cip s i d = Inr (x, d') \<Longrightarrow> only_sessions d d'"
proof (cases i)
  case (Verify token now)
  assume run: "session_run cip s i d = Inr (x, d')"
  then obtain v where v: "verify_session s token now d = Inr (v, d')" by (auto simp: Verify bind_res_Inr_iff)
  show ?thesis
  proof (cases v)
    case None
    with v verify_session_None [of s token now d d'] show ?thesis by (simp add: only_sessions_def)
  next
    case (Some y)
    with v show ?thesis by (auto elim!: verify_session_Some simp: only_sessions_def)
  qed
next
  case (Revoke token now)
  assume "session_run cip s i d = Inr (x, d')"
  then obtain v where "revoke_session token now d = Inr (v, d')" by (auto simp: Revoke bind_res_Inr_iff)
  then consider "d' = d" | p t where "d' = d\<lparr>sessions := update_where p (\<lambda>r. r\<lparr>sess_revoked_at := Some t\<rparr>) (sessions d)\<rparr>"
    unfolding revoke_session_def bind_res_def by (auto split: option.split_asm sum.split_asm if_split_asm)
  then show ?thesis by cases (simp_all add: only_sessions_def)
qed (auto simp: bind_res_Inr_iff revoke_all_sessions_def only_sessions_def Let_def elim!: issue_session_Inr)

lemma scan_keeps:
  assumes ok: "portal_ok d"
  shows "portal_ok (execute_scan C U E i j q d)"
proof (cases "find (\<lambda>s. scan_id s = i) (scans d)")
  case (Some s)
  show ?thesis
  proof (cases "find (\<lambda>s. sub_id s = j) (subjects d)")
    case sub: (Some sub)
    let ?d = "begin_tx (start_scan i j (clock d) d)"
    have start: "core (begin_tx (start_scan x y t d)) = core d" "core (start_scan x y t d) = core d"
      "core (fail_scan x y e t d) = core d" "core (complete_scan x y r sm t d) = core d" for x y t e r sm d
      by (simp_all add: start_scan_eq begin_tx_def core_def fail_scan_def complete_scan_def set_scan_def
          set_subject_def)
    obtain x d1 where run: "run_scan C (sql_repository U) E s sub q None ?d = (x, d1)" by fastforce
    show ?thesis
      using run
    proof (cases rule: run_scan_cases)
      case (failed e)
      then have "core (execute_scan C U E i j q d) = core d"
        using Some sub run by (simp add: execute_scan_def Let_def start)
      with ok portal_ok_core show ?thesis by blast
    next
      case (succeeded r sm d2)
      have "core (start_scan (scan_id s) (sub_id sub) (clock ?d) ?d) = core d" by (simp add: start)
      then have ok0: "portal_ok (start_scan (scan_id s) (sub_id sub) (clock ?d) ?d)" using ok portal_ok_core by blast
      have "portal_ok d2"
      proof (rule portal_ok_findings [OF ok0])
        show "findings_ok d2" using ingest_records_keeps [OF _ succeeded(3)] ok0 by (simp add: portal_ok_def)
      qed (use ingest_records_reports [OF succeeded(3)] in \<open>simp_all add: only_ingest_def\<close>)
      moreover have "core (execute_scan C U E i j q d) = core d2"
        using Some sub run succeeded by (simp add: execute_scan_def Let_def start)
      ultimately show ?thesis using portal_ok_core by blast
    qed
  qed (simp add: execute_scan_def Some ok)
qed (simp add: execute_scan_def ok)

lemma remediation_frame:
  "remediate_finding i a note now d = Inr (f, d') \<Longrightarrow> sessions d' = sessions d \<and> scan_queue d' = scan_queue d"
  "unremediate_finding i a now d = Inr (f, d') \<Longrightarrow> sessions d' = sessions d \<and> scan_queue d' = scan_queue d"
  by (auto simp: remediate_finding_def unremediate_finding_def bind_res_Inr_iff add_event_def uuid4_eq
      set_finding_def Let_def split: if_splits)

lemma batch_keeps:
  assumes ok: "portal_ok d" and run: "create_batch U lo a ty v d = Inr (b, d')"
  shows "portal_ok d'"
proof -
  have one: "portal_ok (queue_user U i u d)" if "portal_ok d" for i u d
    by (rule portal_ok_queue [OF that])
      (use that in \<open>auto simp: queue_user_def uuid4_eq Let_def portal_ok_def locks_ok_def insert_if_absent_def
        split: prod.splits\<close>)
  have "portal_ok (fold (queue_user U i) us d)" if "portal_ok d" for i us d
    using that by (induction us arbitrary: d) (auto simp: one)
  moreover have "portal_ok (d\<lparr>drawn := n, scan_batches := bs\<rparr>)" for n bs
    using ok by (rule iffD2 [OF portal_ok_core, rotated]) (simp add: core_def)
  ultimately show ?thesis
    using run by (auto simp: create_batch_def bind_res_Inr_iff uuid4_eq Let_def split: if_splits)
qed

lemma locks_ok_queue: "scan_queue d' = scan_queue d \<Longrightarrow> locks_ok d' = locks_ok d"
  by (simp add: locks_ok_def)

lemma locks_ok_update:
  assumes "locks_ok d" and "\<And>w. (q_locked_at (f w) \<noteq> None) = (q_status (f w) = QueueStatus.RUNNING)"
  shows "locks_ok (d\<lparr>scan_queue := update_where p f (scan_queue d)\<rparr>)"
  unfolding locks_ok_def
proof
  fix w assume "w \<in> set (scan_queue (d\<lparr>scan_queue := update_where p f (scan_queue d)\<rparr>))"
  then obtain w0 where "w0 \<in> set (scan_queue d)" "w = (if p w0 then f w0 else w0)" by (auto simp: set_update_where)
  with assms show "(q_locked_at w \<noteq> None) = (q_status w = QueueStatus.RUNNING)" by (simp add: locks_ok_def)
qed

lemma claim_keeps:
  assumes ok: "portal_ok d" and run: "claim_next w d = Inr (r, d')"
  shows "portal_ok d'"
proof -
  from run obtain r0 d0 where st: "claim_statement w (clock d) d = (r0, d0)" and q: "scan_queue d' = scan_queue d0"
    by (cases rule: claim_next_Inr)
  have "findings d' = findings d \<and> finding_events d' = finding_events d \<and> sessions d' = sessions d"
    using run by (auto simp: claim_next_def claim_statement_def split: prod.splits option.splits list.splits)
  moreover have "locks_ok d'"
    using st ok locks_ok_queue [OF q] by (auto simp: portal_ok_def claim_statement_def locks_ok_update split: list.splits)
  ultimately show ?thesis using portal_ok_queue [OF ok] by blast
qed

lemma finish_keeps:
  assumes ok: "portal_ok d" shows "portal_ok (finish_work c b e d)"
proof (rule portal_ok_queue [OF ok])
  have "scan_queue (finish_work c b e d) = scan_queue (d\<lparr>scan_queue := update_where
      (\<lambda>r. q_id r = cw_queue_id c \<and> q_status r = QueueStatus.RUNNING) (settle_row b e (tx_now d)) (scan_queue d)\<rparr>)"
    by (simp add: finish_work_def Let_def)
  from locks_ok_queue [OF this] show "locks_ok (finish_work c b e d)"
    using ok by (simp add: portal_ok_def locks_ok_update settle_row_def)
qed (simp_all add: finish_work_def Let_def)

lemma purge_keeps:
  assumes ok: "portal_ok d" and run: "purge_expired_findings G U s now limit d = Inr (n, d')"
  shows "portal_ok d'"
proof (rule portal_ok_findings [OF ok])
  show "findings_ok d'" using purge.keeps [of d "(G, U, s, now, limit)" n d'] ok run by (simp add: portal_ok_def)
qed (use run in \<open>auto simp: purge_expired_findings_def delete_findings_def bind_res_Inr_iff Let_def split: if_splits\<close>)

lemma dispatch_keeps_portal:
  assumes ok: "portal_ok d" and run: "dispatch_due_schedules K U lo leader now d = Inr (n, d')"
  shows "portal_ok d'"
proof -
  have set': "portal_ok (set_schedule i f d) = portal_ok d" for i f d by (rule portal_ok_core) simp
  have work: "portal_ok d2" if "run_schedule U lo tick s d1 = Inr d2" "portal_ok d1" for tick s d1 d2
    using that batch_keeps portal_ok_core [OF core_digest]
    by (auto simp: run_schedule_def bind_res_Inr_iff set' split: if_splits)
  have one: "portal_ok d2" if "dispatch_schedule K U lo tick s (m, d1) = Inr (m', d2)" "portal_ok d1"
    for tick s m d1 m' d2
    using that work
    by (auto simp: dispatch_schedule_def bind_res_Inr_iff Let_def set' split: if_splits sum.splits)
  have "portal_ok d2" if "dispatch_each K U lo tick ss (m, d1) = Inr (m', d2)" "portal_ok d1" for tick ss m d1 m' d2
    using that
  proof (induction ss arbitrary: m d1)
    case (Cons s ss)
    then show ?case by (auto simp: bind_res_Inr_iff dest: one)
  qed simp
  then show ?thesis using run ok by (auto simp: dispatch_due_schedules_def Let_def split: if_splits)
qed

lemma work_item_keeps:
  assumes ok: "portal_ok d" and run: "work_item W c work d = Inr d'"
  shows "portal_ok d'"
proof -
  have frame: "portal_ok (d\<lparr>drawn := n, scans := ss\<rparr>)" "portal_ok (begin_tx d1)" if "portal_ok d1" for n ss d1
    using ok that portal_ok_core [of "d\<lparr>drawn := n, scans := ss\<rparr>" d] portal_ok_core [of "begin_tx d1" d1]
    by (simp_all add: core_def begin_tx_def)
  show ?thesis
    using run ok by (auto simp: work_item_def uuid4_eq Let_def frame finish_keeps scan_keeps split: option.splits)
qed

lemma worker_keeps:
  assumes ok: "portal_ok d" and run: "worker_turn W leader client d = (e, client', d')"
  shows "portal_ok d'"
proof -
  let ?A = "wk_app W"
  have d0: "portal_ok (begin_tx d)" using ok portal_ok_core [of "begin_tx d" d] by (simp add: core_def begin_tx_def)
  show ?thesis
  proof (cases "dispatch_due_schedules (wk_cron W) (ap_unidata ?A) (wk_lower W) leader None (begin_tx d)")
    case (Inl x)
    with run d0 show ?thesis by (simp add: worker_turn_def Let_def)
  next
    case (Inr p)
    then obtain n d1 where 1: "dispatch_due_schedules (wk_cron W) (ap_unidata ?A) (wk_lower W) leader None (begin_tx d) = Inr (n, d1)"
      by (cases p) auto
    have d1: "portal_ok d1" by (rule dispatch_keeps_portal [OF d0 1])
    show ?thesis
    proof (cases "deliver_next ?A (wk_smtp W) None None d1")
      case (Inl x)
      with run 1 d1 show ?thesis by (simp add: worker_turn_def Let_def)
    next
      case (Inr p)
      then obtain b d2 where 2: "deliver_next ?A (wk_smtp W) None None d1 = Inr (b, d2)" by (cases p) auto
      have d2: "portal_ok d2" using d1 portal_ok_core [OF core_deliver [OF 2]] by simp
      show ?thesis
      proof (cases "purge_expired_findings (ap_gcm ?A) (ap_unidata ?A) (ap_settings ?A) None 500 d2")
        case (Inl x)
        with run 1 2 d2 show ?thesis by (simp add: worker_turn_def Let_def)
      next
        case (Inr p)
        then obtain m d3 where 3: "purge_expired_findings (ap_gcm ?A) (ap_unidata ?A) (ap_settings ?A) None 500 d2 = Inr (m, d3)"
          by (cases p) auto
        have d3: "portal_ok d3" by (rule purge_keeps [OF d2 3])
        show ?thesis
        proof (cases "claim_next (wk_id W) d3")
          case (Inl x)
          with run 1 2 3 d3 show ?thesis by (simp add: worker_turn_def Let_def)
        next
          case (Inr p)
          then obtain r d4 where 4: "claim_next (wk_id W) d3 = Inr (r, d4)" by (cases p) auto
          have d4: "portal_ok d4" by (rule claim_keeps [OF d3 4])
          with run 1 2 3 4 show ?thesis
            by (auto simp: worker_turn_def Let_def dest: work_item_keeps split: option.splits sum.splits)
        qed
      qed
    qed
  qed
qed

lemma portal_step_keeps:
  assumes "portal_step A d d'" and ok: "portal_ok d" shows "portal_ok d'"
  using assms(1)
proof cases
  case (time t)
  then show ?thesis using ok portal_ok_core [of d' d] by (simp add: core_def)
next
  case (session i x)
  have "sessions_inv d'" using session_run_keeps [OF _ session] ok by (simp add: portal_ok_def)
  moreover have "findings_ok d'" "locks_ok d'"
    using session_run_frame [OF session] findings_ok_frame [of d' d] locks_ok_queue [of d' d] ok
    by (simp_all add: only_sessions_def portal_ok_def)
  ultimately show ?thesis by (simp add: portal_ok_def)
next
  case (login l u)
  then show ?thesis using ok portal_ok_core core_login by blast
next
  case (scan C i j q)
  then show ?thesis using ok scan_keeps by simp
next
  case (remediate i a nt now f)
  show ?thesis
    using portal_ok_findings [OF ok] remediate.keeps [of d "(i, a, nt, now)" f d'] remediation_frame(1) [OF remediate]
      remediate ok by (simp add: portal_ok_def)
next
  case (reopen i a now f)
  show ?thesis
    using portal_ok_findings [OF ok] unremediate.keeps [of d "(i, a, now)" f d'] remediation_frame(2) [OF reopen]
      reopen ok by (simp add: portal_ok_def)
next
  case (batch lo a ty v b)
  then show ?thesis using ok batch_keeps by blast
next
  case (alert sinks t)
  then show ?thesis using ok portal_ok_core [OF core_alert] by simp
next
  case (work W leader client e client')
  then show ?thesis using ok worker_keeps by blast
qed

section \<open>Properties\<close>

text \<open>
  C4. Every reachable state of the portal is well formed: whatever requests, sign-ins, scans, remediations,
  batches, alerts and worker turns run, in whatever order, findings keep their keys, constraints and
  references and show what their history says, sessions keep digests of their own and idle deadlines within
  their absolute one, and queue rows are locked exactly while they run.
\<close>

theorem portal_reachable_ok:
  assumes "portal_reachable A d0 d" and "portal_ok d0"
  shows "findings_ok d \<and> sessions_inv d \<and> locks_ok d"
proof -
  have "portal_ok d" using assms by (induction rule: portal_reachable.induct) (auto dest: portal_step_keeps)
  then show ?thesis by (simp add: portal_ok_def)
qed

theorem portal_reachable_ok_witness:
  "findings_ok (execute_scan one_record ascii_unidata (ingest_env_of the_app) 4 5 (uni ''a@b.c'') (scan_db\<lparr>clock := 9, tx_now := 9\<rparr>))"
proof -
  have "portal_ok (scan_db\<lparr>clock := 9, tx_now := 9\<rparr>)"
    by (simp add: portal_ok_def findings_ok_def findings_inv_def trail_ok_def events_fk_def superseded_fk_def
        sessions_inv_def locks_ok_def unique_on_def scan_db_def db0_def empty_db_def)
  moreover have "portal_reachable the_app (scan_db\<lparr>clock := 9, tx_now := 9\<rparr>)
      (execute_scan one_record ascii_unidata (ingest_env_of the_app) 4 5 (uni ''a@b.c'') (scan_db\<lparr>clock := 9, tx_now := 9\<rparr>))"
    using portal_reachable.step [OF portal_reachable.start portal_step.scan, of the_app "scan_db\<lparr>clock := 9, tx_now := 9\<rparr>"]
    by (simp add: the_app_def)
  ultimately show ?thesis using portal_reachable_ok by blast
qed

end
