(* ===== verification/PyFormat.thy ===== *)
theory PyFormat
  imports Notifications FindingCrypto
begin

text \<open>
  How Python prints the values that reach a page, a CSV file or an audit entry: \<open>repr\<close> and \<open>str\<close> of
  JSON values, \<open>json.dumps\<close>, the title case of enumeration values, and the formats of dates and
  instants.
\<close>

section \<open>JSON values\<close>

definition int_str :: "int \<Rightarrow> ustr" where
  "int_str n = (if n < 0 then 45 # dec (nat (- n)) else dec (nat n))"

fun hex_of :: "nat \<Rightarrow> nat \<Rightarrow> ustr" where
  "hex_of 0 v = []"
| "hex_of (Suc w) v = hex_of w (v div 16) @ [hex_digit (v mod 16)]"

text \<open>\<open>repr\<close> of a string: the quote is double only when the string has single and no double quotes.\<close>

definition repr_char :: "unidata \<Rightarrow> nat \<Rightarrow> nat \<Rightarrow> ustr" where
  "repr_char U quote c =
     (if c = quote \<or> c = 92 then [92, c]
      else if c = 9 then [92, 116] else if c = 10 then [92, 110] else if c = 13 then [92, 114]
      else if isprintable U c then [c]
      else if c < 256 then [92, 120] @ hex_of 2 c
      else if c < 65536 then [92, 117] @ hex_of 4 c
      else [92, 85] @ hex_of 8 c)"

definition str_repr :: "unidata \<Rightarrow> ustr \<Rightarrow> ustr" where
  "str_repr U s =
     (let quote = (if 39 \<in> set s \<and> 34 \<notin> set s then 34 else 39)
      in quote # concat (map (repr_char U quote) s) @ [quote])"

fun py_repr :: "unidata \<Rightarrow> json \<Rightarrow> ustr" where
  "py_repr U JNull = uni ''None''"
| "py_repr U (JBool b) = (if b then uni ''True'' else uni ''False'')"
| "py_repr U (JInt n) = int_str n"
| "py_repr U (JFloat s) = uni s"
| "py_repr U (JStr s) = str_repr U s"
| "py_repr U (JList vs) = [91] @ join_with (uni '', '') (map (py_repr U) vs) @ [93]"
| "py_repr U (JObj o') =
     [123] @ join_with (uni '', '') (map (\<lambda>(k, v). str_repr U k @ uni '': '' @ py_repr U v) o') @ [125]"

fun py_str :: "unidata \<Rightarrow> json \<Rightarrow> ustr" where
  "py_str U (JStr s) = s"
| "py_str U v = py_repr U v"

text \<open>\<open>json.dumps(v, ensure_ascii=False, sort_keys=True)\<close>.\<close>

definition json_char :: "nat \<Rightarrow> ustr" where
  "json_char c =
     (if c = 34 \<or> c = 92 then [92, c]
      else if c = 10 then [92, 110] else if c = 13 then [92, 114] else if c = 9 then [92, 116]
      else if c = 12 then [92, 102] else if c = 8 then [92, 98]
      else if c < 32 then [92, 117] @ hex_of 4 c else [c])"

definition json_str :: "ustr \<Rightarrow> ustr" where
  "json_str s = [34] @ concat (map json_char s) @ [34]"

fun json_dumps :: "json \<Rightarrow> ustr" where
  "json_dumps JNull = uni ''null''"
| "json_dumps (JBool b) = (if b then uni ''true'' else uni ''false'')"
| "json_dumps (JInt n) = int_str n"
| "json_dumps (JFloat s) = uni s"
| "json_dumps (JStr s) = json_str s"
| "json_dumps (JList vs) = [91] @ join_with (uni '', '') (map json_dumps vs) @ [93]"
| "json_dumps (JObj o') =
     [123] @ join_with (uni '', '') (map snd (sort_key fst
       (map (\<lambda>(k, v). (k, json_str k @ uni '': '' @ json_dumps v)) o'))) @ [125]"

text \<open>The leaves of a value as one text: \<open>_raw_value_text\<close> of the analyst pages.\<close>

fun raw_value_text :: "unidata \<Rightarrow> json \<Rightarrow> ustr" where
  "raw_value_text U (JObj o') = join_with [32] (map (\<lambda>(k, v). raw_value_text U v) o')"
| "raw_value_text U (JList vs) = join_with [32] (map (raw_value_text U) vs)"
| "raw_value_text U JNull = []"
| "raw_value_text U v = py_str U v"

section \<open>Texts\<close>

text \<open>\<open>str.title()\<close>, of the ASCII values of enumerations only.\<close>

fun title_from :: "bool \<Rightarrow> ustr \<Rightarrow> ustr" where
  "title_from inside [] = []"
| "title_from inside (c # s) =
     (if is_upper_ascii c \<or> is_lower_ascii c
      then (if inside then lower_ascii c else if is_lower_ascii c then c - 32 else c) # title_from True s
      else c # title_from False s)"

definition title_case :: "string \<Rightarrow> ustr" where
  "title_case s = title_from False (uni s)"

definition spaces_for_underscores :: "string \<Rightarrow> string" where
  "spaces_for_underscores s = map (\<lambda>c. if c = CHR ''_'' then CHR '' '' else c) s"

section \<open>Dates and instants\<close>

definition date_dmy :: "date \<Rightarrow> ustr" where
  "date_dmy d = (case d of (y, m, k) \<Rightarrow> padded 2 k @ [45] @ padded 2 m @ [45] @ padded 4 y)"

definition time_of_day :: "datetime \<Rightarrow> nat \<times> nat \<times> nat" where
  "time_of_day t = (let s = t mod 86400000000 div 1000000 in (nat (s div 3600), nat (s div 60 mod 60), nat (s mod 60)))"

definition clock_text :: "datetime \<Rightarrow> ustr" where
  "clock_text t = (case time_of_day t of (h, m, s) \<Rightarrow> padded 2 h @ [58] @ padded 2 m @ [58] @ padded 2 s)"

text \<open>\<open>isoformat(sep, timespec="seconds")\<close> and \<open>strftime("%d-%m-%Y %H:%M")\<close> of an aware UTC instant.\<close>

definition iso_seconds :: "nat \<Rightarrow> datetime \<Rightarrow> ustr" where
  "iso_seconds sep t = isoformat (utc_date t) @ [sep] @ clock_text t @ uni ''+00:00''"

definition day_and_time :: "datetime \<Rightarrow> ustr" where
  "day_and_time t =
     (case time_of_day t of (h, m, s) \<Rightarrow> date_dmy (utc_date t) @ [32] @ padded 2 h @ [58] @ padded 2 m)"

text \<open>
  \<open>str(t.timestamp())\<close>: between 1970 and 2106 the shortest decimal that denotes the double is that of
  the microseconds, without trailing zeros but with at least one digit of the fraction.
\<close>

definition timestamp_text :: "datetime \<Rightarrow> ustr" where
  "timestamp_text t =
     (let us = nat t; f = us mod 1000000 in
      dec (us div 1000000) @ [46] @
        (if f = 0 then [48] else rstrip_of (\<lambda>c. c = 48) (padded 6 f)))"

section \<open>Query strings\<close>

text \<open>\<open>urllib.parse.quote_plus\<close> of a text without surrogates, and \<open>urlencode\<close>.\<close>

definition upper_hex :: "nat \<Rightarrow> nat" where
  "upper_hex v = (if v < 10 then v + 48 else v + 55)"

definition quote_octet :: "nat \<Rightarrow> ustr" where
  "quote_octet c =
     (if is_alnum_ascii c \<or> c = 95 \<or> c = 46 \<or> c = 45 \<or> c = 126 then [c]
      else if c = 32 then [43] else [37, upper_hex (c div 16), upper_hex (c mod 16)])"

definition quote_plus :: "ustr \<Rightarrow> ustr" where
  "quote_plus s = concat (map quote_octet (concat (map utf8_char s)))"

definition urlencode :: "(string \<times> ustr) list \<Rightarrow> ustr" where
  "urlencode ps = join_with [38] (map (\<lambda>(k, v). quote_plus (uni k) @ [61] @ quote_plus v) ps)"

end
