(* ===== verification/Html.thy ===== *)
theory Html
  imports PyFormat
begin

text \<open>
  The HTML shell of every signed-in page (\<open>src/app/layout.py\<close>) and what escaping guarantees: the
  characters that delimit tags and attributes, \<open>markup\<close>, never come from an escaped value.
\<close>

section \<open>Escaping\<close>

text \<open>\<open>html.escape(str(value), quote=True)\<close>.\<close>

definition escape_char :: "nat \<Rightarrow> ustr" where
  "escape_char c =
     (if c = 38 then uni ''&amp;'' else if c = 60 then uni ''&lt;'' else if c = 62 then uni ''&gt;''
      else if c = 34 then uni ''&quot;'' else if c = 39 then uni ''&#x27;'' else [c])"

definition esc :: "ustr \<Rightarrow> ustr" where
  "esc v = concat (map escape_char v)"

definition esc_opt :: "ustr option \<Rightarrow> ustr" where
  "esc_opt v = esc (case v of None \<Rightarrow> uni ''None'' | Some t \<Rightarrow> t)"

text \<open>\<open>bool(value)\<close>, \<open>value or text\<close> and \<open>esc(value)\<close> for a JSON value.\<close>

fun truthy :: "json \<Rightarrow> bool" where
  "truthy JNull \<longleftrightarrow> False"
| "truthy (JBool b) \<longleftrightarrow> b"
| "truthy (JInt n) \<longleftrightarrow> n \<noteq> 0"
| "truthy (JFloat s) \<longleftrightarrow> s \<noteq> ''0.0'' \<and> s \<noteq> ''-0.0''"
| "truthy (JStr s) \<longleftrightarrow> s \<noteq> []"
| "truthy (JList vs) \<longleftrightarrow> vs \<noteq> []"
| "truthy (JObj o') \<longleftrightarrow> o' \<noteq> []"

definition json_or :: "json \<Rightarrow> string \<Rightarrow> json" where
  "json_or v alternative = (if truthy v then v else JStr (uni alternative))"

definition esc_json :: "unidata \<Rightarrow> json \<Rightarrow> ustr" where
  "esc_json U v = esc (py_str U v)"

definition is_markup :: "nat \<Rightarrow> bool" where
  "is_markup c \<longleftrightarrow> c = 60 \<or> c = 62 \<or> c = 34 \<or> c = 39"

definition markup :: "ustr \<Rightarrow> ustr" where
  "markup s = filter is_markup s"

named_theorems markup_simps "what is left of a page when only its markup is kept"

lemma markup_Nil [markup_simps]: "markup [] = []"
  by (simp add: markup_def)

lemma markup_Cons [markup_simps]: "markup (c # s) = (if is_markup c then c # markup s else markup s)"
  by (simp add: markup_def)

lemma markup_append [markup_simps]: "markup (s @ t) = markup s @ markup t"
  by (simp add: markup_def)

lemma markup_concat [markup_simps]: "markup (concat ss) = concat (map markup ss)"
  by (induction ss) (simp_all add: markup_def)

lemma markup_escape_char: "markup (escape_char c) = []"
  by (auto simp: escape_char_def markup_def is_markup_def uni_def)

lemma markup_esc [markup_simps, simp]: "markup (esc v) = []"
  by (induction v) (simp_all add: esc_def markup_append markup_escape_char markup_Nil)

lemma markup_esc_opt [markup_simps, simp]: "markup (esc_opt v) = []"
  by (simp add: esc_opt_def)

lemma markup_esc_json [markup_simps, simp]: "markup (esc_json U v) = []"
  by (simp add: esc_json_def)

lemma markup_none: "(\<And>c. c \<in> set s \<Longrightarrow> \<not> is_markup c) \<Longrightarrow> markup s = []"
  by (simp add: markup_def filter_empty_conv)

section \<open>The shell\<close>

definition STYLESHEET :: ustr where
  "STYLESHEET = uni ''/static/analyst.css?v=9''"

definition SCRIPT :: ustr where
  "SCRIPT = uni ''/static/analyst.js?v=7''"

definition navigation :: "User \<Rightarrow> ustr" where
  "navigation user =
     (if u_role user = UserRole.USER then []
      else uni ''<nav aria-label=\"Primary\">'' @ uni ''<a href=\"/analyst\">Scan</a>'' @
        (if u_role user = UserRole.SUPER_ADMIN
         then uni ''<a href=\"/admin/settings\">Settings</a>'' @ uni ''<a href=\"/admin/audit\">Audit</a>'' @
              uni ''<a href=\"/account/profile\">Profile</a>''
         else []) @
        uni ''<a href=\"/analyst/schedules\">Schedule</a>'' @ uni ''</nav>'')"

definition html_page :: "ustr \<Rightarrow> ustr \<Rightarrow> User \<Rightarrow> ustr list \<Rightarrow> ustr list \<Rightarrow> ustr" where
  "html_page title content user extra_styles extra_scripts =
     (let is_user = (u_role user = UserRole.USER);
          home = (if is_user then uni ''/portal'' else uni ''/analyst'');
          subtitle = (if is_user then uni ''private account''
            else map (\<lambda>c. if c = 95 then 32 else c) (uni (UserRole_value (u_role user))));
          footer = (if is_user then uni ''Your signed-in identity defines every result on this page''
            else (uni ''Controlled exposure intelligence '' @ [183] @ uni '' Cleartext credentials are reveal-only''));
          styles = concat (map (\<lambda>p. uni ''<link rel=\"stylesheet\" href=\"'' @ esc p @ uni ''\">'') extra_styles);
          scripts = concat (map (\<lambda>p. uni ''<script src=\"'' @ esc p @ uni ''\" defer></script>'') extra_scripts)
      in concat
        [uni ''<!doctype html><html lang=\"en\"><head><meta charset=\"utf-8\">'',
         uni ''<meta name=\"viewport\" content=\"width=device-width,initial-scale=1\">'',
         (uni ''<meta name=\"htmx-config\" content='' @ [39]),
         uni ''{\"includeIndicatorStyles\":false,\"allowEval\":false,\"allowScriptTags\":false}'',
         ([39] @ uni ''>''),
         uni ''<title>'', esc title, (uni '' '' @ [183] @ uni '' LeakCheck Hub</title>''),
         uni ''<link rel=\"stylesheet\" href=\"'', STYLESHEET, uni ''\">'',
         styles,
         uni ''<script src=\"/static/htmx-2.0.10.min.js\" defer></script>'',
         uni ''<script src=\"'', SCRIPT, uni ''\" defer></script>'',
         scripts,
         uni ''</head><body>'',
         uni ''<header class=\"topbar\"><a class=\"brand\" href=\"'', home, uni ''\">'',
         uni ''<span class=\"brand-mark\" aria-hidden=\"true\">L</span><span>LeakCheck Hub</span></a>'',
         navigation user,
         uni ''<div class=\"user-chip\"><span>'',
         esc (u_email user),
         uni ''</span><small>'',
         esc subtitle,
         uni ''</small></div>'',
         uni ''<button type=\"button\" id=\"sign-out\" class=\"signout\">Sign out</button>'',
         uni ''</header><main>'',
         content,
         uni ''</main><footer>'', footer, uni ''</footer>'',
         uni ''</body></html>''])"

text \<open>The shell's own markup depends on the reader's role and on its assets only.\<close>

lemma markup_html_page:
  "u_role u = u_role v \<Longrightarrow> markup c = markup c' \<Longrightarrow>
   markup (html_page t c u st sc) = markup (html_page t' c' v st sc)"
  by (simp add: html_page_def navigation_def Let_def markup_simps)

end
