(* ===== verification/UserPortal.thy ===== *)
theory UserPortal
  imports Html Scheduling
begin

text \<open>
  The self-service portal of ordinary users: the masked projection of a finding and its serializer
  (\<open>src/app/user_views.py\<close>), its pages (\<open>src/app/user_ui.py\<close>) and its routes
  (\<open>src/app/routers/user.py\<close>). Every result is selected by the e-mail address of the signed-in user. A
  route that starts a scan returns, beside its response, the background task that runs after the commit.
  Path parameters arrive as the UUIDs the framework has parsed.
\<close>

section \<open>Projection and serializer\<close>

record UserFindingProjection =
  ufp_id :: uuid
  ufp_source :: ustr
  ufp_breach_date :: "date option"
  ufp_fields :: "ustr list"
  ufp_origin :: "ustr option"
  ufp_password_mask :: "ustr option"
  ufp_remediated_at :: "datetime option"
  ufp_re_leaked :: bool
  ufp_first_seen_at :: datetime
  ufp_last_seen_at :: datetime

definition remediation_guidance :: "unidata \<Rightarrow> UserFindingProjection \<Rightarrow> ustr" where
  "remediation_guidance U item =
     (if ufp_password_mask item \<noteq> None \<and> ufp_password_mask item \<noteq> Some []
      then uni ''Change this password anywhere it was reused, enable MFA, then mark the exposure fixed.''
      else if \<exists>field \<in> set (ufp_fields item).
                casefold U field \<in> {uni ''email'', uni ''phone'', uni ''address'', uni ''name''}
      then uni ''Treat unexpected messages as suspicious and verify requests through a known channel.''
      else (uni ''Review the exposed fields and follow your security team'' @ [39] @ uni ''s remediation guidance.''))"

definition serialize_user_finding :: "unidata \<Rightarrow> UserFindingProjection \<Rightarrow> (ustr \<times> json) list" where
  "serialize_user_finding U item =
     [(uni ''id'', JStr (uuid_str (ufp_id item))),
      (uni ''source'', JStr (ufp_source item)),
      (uni ''breach_date'', json_text (map_option isoformat (ufp_breach_date item))),
      (uni ''fields'', JList (map JStr (ufp_fields item))),
      (uni ''origin'', json_text (ufp_origin item)),
      (uni ''password_mask'', json_text (ufp_password_mask item)),
      (uni ''remediated'', JBool (ufp_remediated_at item \<noteq> None)),
      (uni ''re_leaked'', JBool (ufp_re_leaked item)),
      (uni ''first_seen_at'', JStr (iso_seconds 84 (ufp_first_seen_at item))),
      (uni ''last_seen_at'', JStr (iso_seconds 84 (ufp_last_seen_at item))),
      (uni ''guidance'', JStr (remediation_guidance U item))]"

section \<open>Pages\<close>

definition user_finding_card :: "unidata \<Rightarrow> (ustr \<times> json) list \<Rightarrow> ustr" where
  "user_finding_card U item =
     (let get = (\<lambda>k. jget item (uni k));
          finding_id = esc_json U (get ''id'');
          state = (if truthy (get ''remediated'') then uni ''<span class=\"badge success\">Fixed</span>''
                   else uni ''<span class=\"badge warning\">Action needed</span>'');
          releak = (if truthy (get ''re_leaked'') then uni ''<span class=\"badge danger\">Re-leaked</span>'' else []);
          action = (if truthy (get ''remediated'') then []
            else concat [uni ''<div class=\"remediation-control\">'',
              uni ''<button type=\"button\" hx-post=\"/portal/findings/'', finding_id, uni ''/remediate\" '',
              uni ''hx-target=\"closest .remediation-control\" hx-swap=\"outerHTML\">'',
              uni ''I have fixed this</button></div>'']);
          field_items = (case get ''fields'' of JList vs \<Rightarrow> vs | _ \<Rightarrow> []);
          joined = join_with (uni '', '') (map (esc_json U) field_items);
          fields = (if joined = [] then uni ''Not specified'' else joined)
      in concat
        [uni ''<article class=\"panel user-finding\"><header><div><p class=\"eyebrow\">'',
         esc_json U (json_or (get ''breach_date'') ''Unknown date''),
         uni ''</p><h2>'',
         esc_json U (get ''source''),
         uni ''</h2></div><div>'',
         state,
         releak,
         uni ''</div></header><dl><div><dt>Exposed fields</dt><dd>'',
         fields,
         uni ''</dd></div><div><dt>Service origin</dt><dd>'',
         esc_json U (json_or (get ''origin'') ''Not provided''),
         uni ''</dd></div><div><dt>Password hint</dt><dd>'',
         esc_json U (json_or (get ''password_mask'') ''No password in this record''),
         uni ''</dd></div></dl><p class=\"guidance\">'',
         esc_json U (get ''guidance''),
         uni ''</p>'',
         action,
         uni ''</article>''])"

definition dashboard_page :: "unidata \<Rightarrow> User \<Rightarrow> (ustr \<times> json) list list \<Rightarrow> bool \<Rightarrow> ustr" where
  "dashboard_page U user items can_check =
     (let joined = concat (map (user_finding_card U) items);
          cards = (if joined = [] then
              uni ''<section class=\"panel empty-state\"><h2>No known exposures</h2>'' @
              uni ''<p>Your portal has no stored findings for this email address.</p></section>''
            else joined);
          button = (if can_check then uni ''<button type=\"submit\">Scan now</button>''
            else uni ''<button type=\"button\" disabled>Scan available after cooldown</button>'');
          content = concat
            [uni ''<section class=\"hero user-portal-hero\"><p class=\"eyebrow\">Signed in as</p><h1>'',
             esc (u_email user),
             uni ''</h1><p>Results are limited to this email address. '',
             uni ''Passwords are always masked here.</p>'',
             uni ''<form action=\"/portal/check\" method=\"post\" hx-post=\"/portal/check\" '',
             uni ''hx-target=\"#self-check-message\" hx-swap=\"innerHTML\">'',
             button,
             uni ''<output id=\"self-check-message\" class=\"form-error\" aria-live=\"polite\"></output>'',
             uni ''</form></section><section class=\"user-findings\">'',
             cards,
             uni ''</section>'']
      in html_page (uni ''My exposure dashboard'') content user [] [])"

definition progress_fragment :: "Scan \<Rightarrow> ustr" where
  "progress_fragment scan =
     (if scan_status scan = ScanStatus.SUCCEEDED
      then (uni ''<p class=\"scan-state success-text\">Complete. Loading your results'' @ [8230] @ uni ''</p>'')
      else if scan_status scan = ScanStatus.FAILED
      then concat [uni ''<div class=\"scan-state\"><span class=\"badge danger\">Failed</span>'',
        uni ''<h2>The check could not be completed</h2>'',
        uni ''<p>No credential or vendor error detail was retained.</p>'',
        uni ''<a class=\"button secondary\" href=\"/portal\">Back to dashboard</a></div>'']
      else
        (let label = (if scan_status scan = ScanStatus.RUNNING then uni ''Running'' else uni ''Queued'') in
         concat [uni ''<div class=\"scan-state\" hx-get=\"/portal/scans/'', uuid_str (scan_id scan), uni ''/status\" '',
          uni ''hx-trigger=\"load delay:1s\" hx-swap=\"outerHTML\"><span class=\"pulse\" '',
          uni ''aria-hidden=\"true\"></span>'',
          uni ''<h2>'', esc label, uni '' private check</h2>'',
          uni ''<p>This page will update when the bounded scan finishes.</p></div>'']))"

definition progress_page :: "User \<Rightarrow> Scan \<Rightarrow> ustr" where
  "progress_page user scan =
     html_page (uni ''Self-check progress'')
       (concat
        [uni ''<section class=\"hero compact\"><p class=\"eyebrow\">Private self-check</p>'',
         uni ''<h1>Checking your work email</h1><p>The submitted identifier came from your '',
         uni ''signed-in '',
         uni ''account and is not accepted from page parameters.</p></section>'',
         uni ''<section class=\"panel\" aria-live=\"polite\">'',
         progress_fragment scan,
         uni ''</section>''])
       user [] []"

definition remediation_complete :: "ustr \<Rightarrow> ustr" where
  "remediation_complete finding_id =
     uni ''<div class=\"remediation-control\"><span class=\"badge success\">Marked fixed</span>'' @
     uni ''<span class=\"sr-only\">Finding '' @ esc finding_id @ uni ''</span></div>''"

section \<open>Queries\<close>

definition DEFAULT_COOLDOWN_SECONDS :: int where
  "DEFAULT_COOLDOWN_SECONDS = 24 * 60 * 60"

definition MAX_COOLDOWN_SECONDS :: int where
  "MAX_COOLDOWN_SECONDS = 30 * 24 * 60 * 60"

text \<open>An e-mail address never reaches the parser of origins, so the IPv6 check is of no consequence.\<close>

definition current_subject :: "app \<Rightarrow> User \<Rightarrow> NormalizedSubject res" where
  "current_subject A user = normalize_subject (ap_unidata A) (\<lambda>_. False) SubjectKind.EMAIL (u_email user)"

definition own_subject :: "NormalizedSubject \<Rightarrow> Subject \<Rightarrow> bool" where
  "own_subject normalized s \<longleftrightarrow>
     sub_kind s = SubjectKind.EMAIL \<and> sub_value_norm s = ns_value_norm normalized"

definition projection :: "Finding \<Rightarrow> BreachSource \<Rightarrow> UserFindingProjection" where
  "projection f b =
     \<lparr>ufp_id = fnd_id f, ufp_source = src_name b, ufp_breach_date = src_breach_date b,
      ufp_fields = fnd_fields f, ufp_origin = fnd_origin f, ufp_password_mask = fnd_password_mask f,
      ufp_remediated_at = fnd_remediated_at f, ufp_re_leaked = (fnd_severity f = FindingSeverity.HIGH),
      ufp_first_seen_at = fnd_first_seen_at f, ufp_last_seen_at = fnd_last_seen_at f\<rparr>"

definition joined_rows :: "NormalizedSubject \<Rightarrow> db \<Rightarrow> Finding \<Rightarrow> UserFindingProjection list" where
  "joined_rows normalized d f =
     concat (map (\<lambda>s. if sub_id s = fnd_subject_id f \<and> own_subject normalized s
       then map (projection f) (filter (\<lambda>b. src_id b = fnd_source_id f) (breach_sources d))
       else []) (subjects d))"

definition user_findings :: "NormalizedSubject \<Rightarrow> db \<Rightarrow> UserFindingProjection list" where
  "user_findings normalized d =
     take 1000 (sort_key (\<lambda>p. - ufp_first_seen_at p) (concat (map (joined_rows normalized d) (findings d))))"

definition owns_finding :: "NormalizedSubject \<Rightarrow> uuid \<Rightarrow> db \<Rightarrow> bool" where
  "owns_finding normalized i d \<longleftrightarrow>
     (\<exists>f \<in> set (findings d). fnd_id f = i \<and>
        (\<exists>s \<in> set (subjects d). sub_id s = fnd_subject_id f \<and> own_subject normalized s))"

definition self_scan_of :: "uuid \<Rightarrow> Scan \<Rightarrow> bool" where
  "self_scan_of user_id s \<longleftrightarrow> scan_requested_by s = Some user_id \<and> scan_trigger s = ScanTrigger.SELF"

definition latest_self_scan :: "uuid \<Rightarrow> db \<Rightarrow> Scan option" where
  "latest_self_scan user_id d =
     (case sort_key (\<lambda>s. - the (scan_started_at s))
             (filter (\<lambda>s. self_scan_of user_id s \<and> scan_started_at s \<noteq> None) (scans d)) of
        [] \<Rightarrow> None
      | s # _ \<Rightarrow> Some s)"

definition scan_open :: "Scan \<Rightarrow> bool" where
  "scan_open s \<longleftrightarrow> scan_status s = ScanStatus.PENDING \<or> scan_status s = ScanStatus.RUNNING"

definition active_self_scan :: "uuid \<Rightarrow> db \<Rightarrow> Scan option" where
  "active_self_scan user_id d = find (\<lambda>s. self_scan_of user_id s \<and> scan_open s) (scans d)"

definition owned_scan_or_404 :: "uuid \<Rightarrow> uuid \<Rightarrow> db \<Rightarrow> Scan res" where
  "owned_scan_or_404 i user_id d =
     of_option (HTTPException 404) (find (\<lambda>s. scan_id s = i \<and> self_scan_of user_id s) (scans d))"

definition cooldown_seconds :: "app \<Rightarrow> db \<Rightarrow> int res" where
  "cooldown_seconds A d =
     bind_res (read_setting (ap_gcm A) (ap_settings A) SELF_CHECK_COOLDOWN_SECONDS d) (\<lambda>raw.
     bind_res (case raw of None \<Rightarrow> Inr DEFAULT_COOLDOWN_SECONDS
               | Some v \<Rightarrow> of_option (HTTPException 503) (py_int (ap_unidata A) v)) (\<lambda>n.
     if \<not> (60 \<le> n \<and> n \<le> MAX_COOLDOWN_SECONDS) then Inl (HTTPException 503) else Inr n))"

definition cooldown_remaining :: "Scan option \<Rightarrow> int \<Rightarrow> datetime \<Rightarrow> int" where
  "cooldown_remaining scan cooldown current =
     (case scan of None \<Rightarrow> 0
      | Some s \<Rightarrow> (case scan_started_at s of None \<Rightarrow> 0
          | Some started \<Rightarrow>
              (let elapsed = max 0 ((current - started) div 1000000) in max 0 (cooldown - elapsed))))"

section \<open>Routes\<close>

definition PORTAL_ROLES :: "UserRole list" where
  "PORTAL_ROLES = [UserRole.USER, UserRole.ANALYST, UserRole.SUPER_ADMIN]"

definition user_dashboard :: "app \<Rightarrow> handler" where
  "user_dashboard A = guarded PORTAL_ROLES A (\<lambda>u r d.
     bind_res (current_subject A u) (\<lambda>normalized.
     let items = user_findings normalized d in
     bind_res (cooldown_seconds A d) (\<lambda>cooldown.
     let can_check = (active_self_scan (u_id u) d = None \<and>
                      cooldown_remaining (latest_self_scan (u_id u) d) cooldown (clock d) = 0)
     in Inr (html_no_store 200 (dashboard_page (ap_unidata A) u
               (map (serialize_user_finding (ap_unidata A)) items) can_check), d))))"

text \<open>The task a route leaves to run after its commit, and a new scan row.\<close>

record scan_task =
  task_client :: LeakCheckClient
  task_scan :: uuid
  task_subject :: uuid
  task_query :: ustr

definition new_scan :: "uuid \<Rightarrow> uuid \<Rightarrow> uuid \<Rightarrow> ScanTrigger \<Rightarrow> Scan" where
  "new_scan i subject requested_by trigger =
     \<lparr>scan_id = i, scan_subject_id = subject, scan_requested_by = Some requested_by, scan_trigger = trigger,
      scan_status = ScanStatus.PENDING, scan_started_at = None, scan_finished_at = None,
      scan_result_count = 0, scan_new_count = 0, scan_quota = None, scan_truncated = False,
      scan_error = None\<rparr>"

text \<open>Where a started scan sends the browser: a header for HTMX, a redirect otherwise.\<close>

definition scan_location :: "http_request \<Rightarrow> ustr \<Rightarrow> http_response" where
  "scan_location r location =
     (if header r ''hx-request'' = Some (uni ''true'')
      then with_header (''hx-redirect'', location) (html_no_store 200 [])
      else with_header no_store (redirect_to location))"

definition client_unusable :: "exn \<Rightarrow> bool" where
  "client_unusable e \<longleftrightarrow> e \<in> {PlatformSettingError, LeakCheckConfigurationError} \<or> is_value_error e"

type_synonym scan_outcome = "((http_response \<times> scan_task option) \<times> db) res \<times> client_cache"

text \<open>
  The second half of a scan request: the client, the pending row and its audit event. \<open>rejected\<close> and
  \<open>requested\<close> are the audit entries of the route, \<open>path\<close> its progress page.
\<close>

definition start_scan_request ::
  "app \<Rightarrow> rat \<Rightarrow> client_cache \<Rightarrow> User \<Rightarrow> http_request \<Rightarrow> Subject \<Rightarrow> ScanTrigger \<Rightarrow> ustr
   \<Rightarrow> (string \<times> string \<times> uuid \<times> (ustr \<times> json) list) \<Rightarrow> ustr \<Rightarrow> (string \<times> (ustr \<times> json) list) \<Rightarrow> string
   \<Rightarrow> db \<Rightarrow> scan_outcome" where
  "start_scan_request A time cache u r subject trigger q rejected unavailable requested path d =
     (case configured_client (ap_gcm A) (ap_unidata A) (ap_settings A) time d cache of
        Inl e \<Rightarrow>
          (if client_unusable e then
             (case rejected of (action, target_type, target, meta) \<Rightarrow>
              bind_res (audit_event A r action (Some (u_id u)) (Some target_type)
                 (Some (uuid_str target)) (meta @ [(uni ''reason'', JStr (uni (exn_name e)))]) d) (\<lambda>d.
              Inr ((html_no_store 503 unavailable, None), d)))
           else Inl e, cache)
      | Inr (client, cache) \<Rightarrow>
          (let (i, d) = uuid4 d;
               d = d\<lparr>scans := scans d @ [new_scan i (sub_id subject) (u_id u) trigger]\<rparr>
           in bind_res (audit_event A r (fst requested) (Some (u_id u)) (Some ''scan'') (Some (uuid_str i))
                 (snd requested) d) (\<lambda>d.
              Inr ((scan_location r (uni path @ uuid_str i),
                    Some \<lparr>task_client = client, task_scan = i, task_subject = sub_id subject, task_query = q\<rparr>), d)),
           cache))"

definition self_check_as :: "app \<Rightarrow> rat \<Rightarrow> client_cache \<Rightarrow> User \<Rightarrow> http_request \<Rightarrow> db \<Rightarrow> scan_outcome" where
  "self_check_as A time cache u r d =
     (case current_subject A u of
        Inl e \<Rightarrow> (Inl e, cache)
      | Inr normalized \<Rightarrow>
          (let active = active_self_scan (u_id u) d; latest = latest_self_scan (u_id u) d in
           case cooldown_seconds A d of
             Inl e \<Rightarrow> (Inl e, cache)
           | Inr cooldown \<Rightarrow>
               (let remaining = cooldown_remaining latest cooldown (clock d) in
                if active \<noteq> None
                then (Inr ((html_no_store 409 (uni ''Your existing self-check is still in progress.''), None), d), cache)
                else if remaining > 0
                then (Inr ((with_header (''retry-after'', int_str remaining) (html_no_store 429
                        (uni ''Your self-check is in cooldown. Existing findings remain available below.'')),
                      None), d), cache)
                else let (subject, d) = resolve_subject normalized (Some (u_id u)) d in
                  start_scan_request A time cache u r subject ScanTrigger.SELF (u_email u)
                    (''self.scan_rejected'', ''user'', u_id u, [])
                    (uni ''Self-check is not configured. Contact your security team.'')
                    (''self.scan_requested'', [(uni ''kind'', JStr (uni (SubjectKind_value SubjectKind.EMAIL)))])
                    ''/portal/scans/'' d)))"

text \<open>A guarded route that may leave a task: the guard first, as in \<open>guarded\<close>.\<close>

definition guarded_scan ::
  "UserRole list \<Rightarrow> app \<Rightarrow> client_cache \<Rightarrow> (User \<Rightarrow> http_request \<Rightarrow> db \<Rightarrow> scan_outcome)
   \<Rightarrow> http_request \<Rightarrow> db \<Rightarrow> scan_outcome" where
  "guarded_scan allowed A cache h r d =
     (case bind_res (require_role allowed) (\<lambda>guard. guard A r d) of
        Inl e \<Rightarrow> (Inl e, cache)
      | Inr (u, d) \<Rightarrow> h u r d)"

definition self_check :: "app \<Rightarrow> rat \<Rightarrow> client_cache \<Rightarrow> http_request \<Rightarrow> db \<Rightarrow> scan_outcome" where
  "self_check A time cache = guarded_scan PORTAL_ROLES A cache (self_check_as A time cache)"

text \<open>A scan request end to end: its transaction, then the background task.\<close>

definition scan_request ::
  "app \<Rightarrow> (LeakCheckClient \<Rightarrow> query_client) \<Rightarrow> (http_request \<Rightarrow> db \<Rightarrow> scan_outcome) \<Rightarrow> http_request \<Rightarrow> db
   \<Rightarrow> http_response \<times> client_cache \<times> db" where
  "scan_request A clients h r d =
     (case h r d of
        (Inl e, cache) \<Rightarrow> (error_response e, cache, d)
      | (Inr ((rs, task), d), cache) \<Rightarrow>
          (rs, cache, case task of None \<Rightarrow> d
             | Some t \<Rightarrow> execute_scan (clients (task_client t)) (ap_unidata A) (ingest_env_of A) (task_scan t)
                          (task_subject t) (task_query t) (begin_tx d)))"

definition self_scan_progress :: "app \<Rightarrow> uuid \<Rightarrow> handler" where
  "self_scan_progress A i = guarded PORTAL_ROLES A (\<lambda>u r d.
     bind_res (owned_scan_or_404 i (u_id u) d) (\<lambda>scan.
     if scan_status scan = ScanStatus.SUCCEEDED
     then Inr (with_header no_store (redirect_to (uni ''/portal'')), d)
     else Inr (html_no_store 200 (progress_page u scan), d)))"

definition self_scan_status :: "app \<Rightarrow> uuid \<Rightarrow> handler" where
  "self_scan_status A i = guarded PORTAL_ROLES A (\<lambda>u r d.
     bind_res (owned_scan_or_404 i (u_id u) d) (\<lambda>scan.
     if scan_status scan = ScanStatus.SUCCEEDED
     then Inr (with_header (''hx-redirect'', uni ''/portal'') (html_no_store 200 []), d)
     else Inr (html_no_store 200 (progress_fragment scan), d)))"

definition found :: "'a res \<Rightarrow> 'a res" where
  "found m = (case m of Inl FindingNotFoundError \<Rightarrow> Inl (HTTPException 404) | _ \<Rightarrow> m)"

definition self_remediate :: "app \<Rightarrow> uuid \<Rightarrow> handler" where
  "self_remediate A i = guarded PORTAL_ROLES A (\<lambda>u r d.
     bind_res (current_subject A u) (\<lambda>normalized.
     if \<not> owns_finding normalized i d then Inl (HTTPException 404)
     else
       bind_res (found (remediate_finding i (u_id u) (Some (uni ''Marked fixed by the affected user'')) None d))
         (\<lambda>(finding, d).
       bind_res (audit_event A r ''self.finding_remediated'' (Some (u_id u)) (Some ''finding'')
         (Some (uuid_str (fnd_id finding))) [] d) (\<lambda>d.
       Inr (html_no_store 200 (remediation_complete (uuid_str (fnd_id finding))), d)))))"

section \<open>Facts\<close>

lemma get_current_user_frame:
  "get_current_user A r d = Inr (u, d') \<Longrightarrow> \<exists>ss. d' = d\<lparr>sessions := ss\<rparr>"
proof -
  have "d = d\<lparr>sessions := sessions d\<rparr>" by simp
  then show "get_current_user A r d = Inr (u, d') \<Longrightarrow> \<exists>ss. d' = d\<lparr>sessions := ss\<rparr>"
    by (auto simp: get_current_user_def verify_session_def bind_res_Inr_iff
        split: option.splits if_splits)
qed

text \<open>Who the current user is does not depend on the findings.\<close>

lemma get_current_user_findings:
  "get_current_user A r (d\<lparr>findings := fs\<rparr>) =
   map_sum id (map_prod id (\<lambda>d. d\<lparr>findings := fs\<rparr>)) (get_current_user A r d)"
  by (auto simp: get_current_user_def verify_session_def bind_res_def
      split: option.splits if_splits sum.splits)

lemma guarded_scan_Inr:
  assumes "guarded_scan allowed A cache h r d = (Inr y, cache')"
  obtains u d1 where "get_current_user A r d = Inr (u, d1)" "u_role u \<in> set allowed"
    "h u r d1 = (Inr y, cache')"
proof -
  obtain z where z: "bind_res (require_role allowed) (\<lambda>guard. guard A r d) = Inr z" "h (fst z) r (snd z) = (Inr y, cache')"
    using assms by (auto simp: guarded_scan_def split: sum.splits)
  then show thesis
    by (cases z) (auto simp: require_role_def bind_res_Inr_iff split: if_splits intro: that)
qed

lemma latest_self_scan_latest:
  assumes "s \<in> set (scans d)" and "self_scan_of i s" and "scan_started_at s = Some t"
  obtains l t' where "latest_self_scan i d = Some l" "scan_started_at l = Some t'" "t \<le> t'"
proof -
  let ?xs = "sort_key (\<lambda>s. - the (scan_started_at s))
    (filter (\<lambda>s. self_scan_of i s \<and> scan_started_at s \<noteq> None) (scans d))"
  have mem: "s \<in> set ?xs" using assms by simp
  then have "?xs \<noteq> []" by (metis empty_iff list.set(1))
  then obtain l ls where xs: "?xs = l # ls" by (meson neq_Nil_conv)
  have "sorted (map (\<lambda>s. - the (scan_started_at s)) ?xs)" by (rule sorted_sort_key)
  then have "- the (scan_started_at l) \<le> - the (scan_started_at s)"
    using mem unfolding xs by auto
  moreover have "l \<in> set ?xs" unfolding xs by simp
  then obtain t' where "scan_started_at l = Some t'" by auto
  ultimately show thesis
    using that [of l t'] xs assms(3) by (simp add: latest_self_scan_def)
qed

lemma cooldown_remaining_0:
  "cooldown_remaining (Some s) c t = 0 \<Longrightarrow> 0 < c \<Longrightarrow> scan_started_at s = Some t0 \<Longrightarrow> t0 + seconds c \<le> t"
  by (auto simp: cooldown_remaining_def Let_def seconds_def max_def split: if_splits)

lemma cooldown_seconds_bounds:
  "cooldown_seconds A d = Inr c \<Longrightarrow> 60 \<le> c \<and> c \<le> MAX_COOLDOWN_SECONDS"
  by (auto simp: cooldown_seconds_def bind_res_Inr_iff split: if_splits)

lemma start_scan_request_task:
  assumes "start_scan_request A time cache u r subject trigger q rejected unavailable requested path d =
    (Inr ((rs, Some t), d'), cache')"
  shows "scans d' = scans d @ [new_scan (task_scan t) (sub_id subject) (u_id u) trigger]"
    and "task_subject t = sub_id subject" "task_query t = q" "subjects d' = subjects d"
    and "\<exists>e. audit_log d' = audit_log d @ [e] \<and> al_action e = fst requested \<and> al_actor_id e = Some (u_id u) \<and>
           al_target_id e = Some (uuid_str (task_scan t))"
proof -
  obtain client where client: "configured_client (ap_gcm A) (ap_unidata A) (ap_settings A) time d cache = Inr (client, cache')"
    and t: "t = \<lparr>task_client = client, task_scan = next_uuid d, task_subject = sub_id subject, task_query = q\<rparr>"
    and run: "audit_event A r (fst requested) (Some (u_id u)) (Some ''scan'') (Some (uuid_str (next_uuid d)))
      (snd requested) (d\<lparr>drawn := drawn d + 16,
        scans := scans d @ [new_scan (next_uuid d) (sub_id subject) (u_id u) trigger]\<rparr>) = Inr d'"
    using assms
    by (auto simp: start_scan_request_def bind_res_Inr_iff uuid4_eq Let_def
        split: sum.splits prod.splits if_splits)
  note frame = audit_event_frame [OF run]
  show "scans d' = scans d @ [new_scan (task_scan t) (sub_id subject) (u_id u) trigger]"
    "task_subject t = sub_id subject" "task_query t = q" "subjects d' = subjects d"
    "\<exists>e. audit_log d' = audit_log d @ [e] \<and> al_action e = fst requested \<and> al_actor_id e = Some (u_id u) \<and>
       al_target_id e = Some (uuid_str (task_scan t))"
    using frame by (auto simp: t)
qed

lemma start_scan_request_works:
  assumes "configured_client (ap_gcm A) (ap_unidata A) (ap_settings A) time d cache = Inr (c, cache')"
    and "session_key (ap_settings A) = Inr k"
  shows "\<exists>rs t d'. start_scan_request A time cache u r subject trigger q rejected unavailable requested path d =
    (Inr ((rs, Some t), d'), cache')"
proof -
  obtain d' where "audit_event A r (fst requested) (Some (u_id u)) (Some ''scan'') (Some (uuid_str (next_uuid d)))
      (snd requested) (d\<lparr>drawn := drawn d + 16,
        scans := scans d @ [new_scan (next_uuid d) (sub_id subject) (u_id u) trigger]\<rparr>) = Inr d'"
    using audit_event_works [OF assms(2)] by blast
  with assms(1) show ?thesis by (simp add: start_scan_request_def uuid4_eq)
qed

lemma resolve_subject_frame:
  "resolve_subject n linked d = (s, d') \<Longrightarrow>
   s \<in> set (subjects d') \<and> (\<exists>i t. d' = d\<lparr>drawn := i, subjects := t\<rparr>) \<and>
   sub_kind s = ns_kind n \<and> sub_value_norm s = ns_value_norm n \<and>
   (linked \<noteq> None \<longrightarrow> sub_linked_user_id s = linked)"
  by (auto simp: resolve_subject_def uuid4_eq Let_def upsert_def set_update_where
      split: option.splits dest!: find_Some_mem)

lemma current_subject_kind: "current_subject A u = Inr n \<Longrightarrow> ns_kind n = SubjectKind.EMAIL"
  by (auto simp: current_subject_def normalize_subject_def bind_res_Inr_iff plain_subject_def)

lemma remediate_finding_closes:
  assumes "remediate_finding i a note now d = Inr (f, d')"
  shows "fnd_id f = i" "audit_log d' = audit_log d"
    "unique_on fnd_id (findings d) \<Longrightarrow> h \<in> set (findings d') \<Longrightarrow> fnd_id h = i \<Longrightarrow> fnd_remediated_at h \<noteq> None"
    "filter (\<lambda>f. fnd_id f \<noteq> i) (findings d') = filter (\<lambda>f. fnd_id f \<noteq> i) (findings d)"
proof -
  obtain g where g: "locked_finding d i = Inr g" using assms by (auto simp: remediate_finding_def bind_res_Inr_iff)
  note mem = locked_finding_Inr [OF g]
  have "fnd_id f = i \<and> audit_log d' = audit_log d \<and>
    (unique_on fnd_id (findings d) \<longrightarrow> h \<in> set (findings d') \<longrightarrow> fnd_id h = i \<longrightarrow> fnd_remediated_at h \<noteq> None) \<and>
    filter (\<lambda>f. fnd_id f \<noteq> i) (findings d') = filter (\<lambda>f. fnd_id f \<noteq> i) (findings d)"
  proof (cases "fnd_remediated_at g = None")
    case True
    with assms g obtain t where "f = g\<lparr>fnd_remediated_at := Some t, fnd_remediated_by := Some a, fnd_remediation_note := note\<rparr>"
      "d' = add_event i FindingEventType.REMEDIATED a t (set_finding i
        (\<lambda>f. f\<lparr>fnd_remediated_at := Some t, fnd_remediated_by := Some a, fnd_remediation_note := note\<rparr>) d)"
      by (auto simp: remediate_finding_def bind_res_Inr_iff Let_def)
    with mem show ?thesis
      by (auto simp: add_event_def uuid4_eq set_finding_def set_update_where intro!: filter_update_where)
  next
    case False
    with assms g mem show ?thesis
      by (auto simp: remediate_finding_def dest: unique_on_eq)
  qed
  then show "fnd_id f = i" "audit_log d' = audit_log d"
    "unique_on fnd_id (findings d) \<Longrightarrow> h \<in> set (findings d') \<Longrightarrow> fnd_id h = i \<Longrightarrow> fnd_remediated_at h \<noteq> None"
    "filter (\<lambda>f. fnd_id f \<noteq> i) (findings d') = filter (\<lambda>f. fnd_id f \<noteq> i) (findings d)"
    by blast+
qed

section \<open>Properties\<close>



text \<open>
  C23. A user closes own findings only: when the route returns, the finding belongs to the subject of the
  signed-in user's address and is closed, no other finding has changed, and the audit log names the user.
\<close>

theorem self_remediate_owns:
  assumes "self_remediate A i r d = Inr (rs, d')" and "unique_on fnd_id (findings d)"
  shows "\<exists>u d1 n e. get_current_user A r d = Inr (u, d1) \<and> current_subject A u = Inr n \<and>
    owns_finding n i d \<and>
    (\<forall>f \<in> set (findings d'). fnd_id f = i \<longrightarrow> fnd_remediated_at f \<noteq> None) \<and>
    filter (\<lambda>f. fnd_id f \<noteq> i) (findings d') = filter (\<lambda>f. fnd_id f \<noteq> i) (findings d) \<and>
    audit_log d' = audit_log d @ [e] \<and> al_actor_id e = Some (u_id u) \<and> al_target_id e = Some (uuid_str i)"
proof -
  obtain u d1 where u: "get_current_user A r d = Inr (u, d1)"
    and run: "bind_res (current_subject A u) (\<lambda>normalized.
       if \<not> owns_finding normalized i d1 then Inl (HTTPException 404)
       else
         bind_res (found (remediate_finding i (u_id u) (Some (uni ''Marked fixed by the affected user'')) None d1))
           (\<lambda>(finding, d).
         bind_res (audit_event A r ''self.finding_remediated'' (Some (u_id u)) (Some ''finding'')
           (Some (uuid_str (fnd_id finding))) [] d) (\<lambda>d.
         Inr (html_no_store 200 (remediation_complete (uuid_str (fnd_id finding))), d)))) = Inr (rs, d')"
    using assms(1) unfolding self_remediate_def by (rule guarded_Inr)
  obtain ss where d1: "d1 = d\<lparr>sessions := ss\<rparr>" using get_current_user_frame [OF u] by blast
  obtain n f d2 where n: "current_subject A u = Inr n" "owns_finding n i d1"
    and close: "remediate_finding i (u_id u) (Some (uni ''Marked fixed by the affected user'')) None d1 = Inr (f, d2)"
    and audit: "audit_event A r ''self.finding_remediated'' (Some (u_id u)) (Some ''finding'')
           (Some (uuid_str (fnd_id f))) [] d2 = Inr d'"
    using run by (auto simp: bind_res_Inr_iff found_def split: if_splits sum.splits exn.splits)
  note closed = remediate_finding_closes [OF close]
  note logged = audit_event_frame [OF audit]
  have "unique_on fnd_id (findings d1)" using assms(2) d1 by simp
  with closed logged d1 u n show ?thesis
    by (intro exI [of _ u] exI [of _ d1] exI [of _ n]) (auto simp: owns_finding_def)
qed

section \<open>Sample requests\<close>

text \<open>A signed-in user of a given role on top of any database, at the time the sample session was issued.\<close>

definition signed :: "UserRole \<Rightarrow> db \<Rightarrow> db" where
  "signed role d =
     d\<lparr>sessions := sessions (snd first_session), users := [a_user 1 role], clock := seconds 1000000\<rparr>"

lemma signed_user:
  obtains ss where "get_current_user the_app first_request (signed role d) =
    Inr (a_user 1 role, (signed role d)\<lparr>sessions := ss\<rparr>)"
proof -
  let ?t = "iss_token (fst first_session)"
  have "validated_token_hash (Some ?t) = Some (token_hash ?t)"
    using first_session(3) by (simp add: validated_token_hash_def)
  then have "\<exists>d'. get_current_user the_app first_request (signed role d) = Inr (a_user 1 role, d')"
    by (simp add: get_current_user_def the_app_def first_request_def post_request_def cookie_def verify_session_def
        signed_def first_session(4) session_usable_def a_user_def seconds_def)
  then show thesis
    using get_current_user_frame that by blast
qed

lemma a_user_role [simp]: "u_role (a_user i role) = role"
  by (simp add: a_user_def)

lemma a_user_subject: "current_subject the_app (a_user 1 role) = Inr (plain_subject SubjectKind.EMAIL (uni ''a@example.org''))"
proof -
  have "normalize_subject ascii_unidata (\<lambda>_. False) SubjectKind.EMAIL (uni ''a@example.org'') =
    Inr (plain_subject SubjectKind.EMAIL (uni ''a@example.org''))"
    by code_simp
  then show ?thesis by (simp add: current_subject_def the_app_def a_user_def)
qed

definition portal_settings :: "(SettingKey \<times> string) list" where
  "portal_settings = [(LEAKCHECK_API_KEY, ''key'')]"

definition portal_db :: db where
  "portal_db = signed UserRole.USER (db0\<lparr>platform_settings := map stored portal_settings,
     subjects := [a_subject 5 SubjectKind.EMAIL ''a@example.org'', a_subject 6 SubjectKind.EMAIL ''b@example.org''],
     breach_sources := [\<lparr>src_id = 0, src_name = uni ''Breach'', src_name_norm = uni ''breach'', src_breach_date = None,
       src_breach_date_norm = (1, 1, 1), src_unverified = None, src_passwordless = None,
       src_compilation = None, src_extra = []\<rparr>],
     findings := [a_finding 7 5 None, a_finding 8 6 None]\<rparr>)"

lemma portal_db_simps:
  "platform_settings portal_db = map stored portal_settings" "scans portal_db = []"
  "subjects portal_db = [a_subject 5 SubjectKind.EMAIL ''a@example.org'', a_subject 6 SubjectKind.EMAIL ''b@example.org'']"
  "findings portal_db = [a_finding 7 5 None, a_finding 8 6 None]" "clock portal_db = seconds 1000000"
  by (simp_all add: portal_db_def signed_def db0_def empty_db_def)

lemma read_portal_setting:
  "platform_settings d = map stored portal_settings \<Longrightarrow>
   read_setting suffix_gcm the_settings key d = Inr (if key = LEAKCHECK_API_KEY then Some (uni ''key'') else None)"
  by (subst read_stored [where vs = portal_settings]) (auto simp: portal_settings_def)

lemma portal_client:
  assumes "platform_settings d = map stored portal_settings"
  shows "\<exists>c cache. configured_client suffix_gcm ascii_unidata the_settings 0 d \<lparr>cc_client = None, cc_digest = None\<rparr> = Inr (c, cache)"
proof -
  let ?vs = "[(LEAKCHECK_API_KEY, uni ''key'')]"
  have read: "read_many suffix_gcm the_settings CLIENT_KEYS d = Inr ?vs"
    by (simp add: CLIENT_KEYS_def read_portal_setting [OF assms])
  have "encode_utf8 (setting_or ?vs k []) = Inr (if k = LEAKCHECK_API_KEY then octets ''key'' else [])" for k
    by (auto simp: setting_or_def uni_def octets_def encode_utf8_ascii)
  then obtain m where "client_config_parts ?vs CLIENT_KEYS = Inr m"
    by (auto simp: CLIENT_KEYS_def to_bytes_big_def)
  then have digest: "client_config_digest ?vs = Inr (sha256 m)"
    by (simp add: client_config_digest_def)
  obtain c where "client_from_platform_values ascii_unidata 0 ?vs = Inr c"
    by (simp add: client_from_platform_values_def setting_int_def setting_or_def new_client_def uni_def)
  then show ?thesis
    by (simp add: configured_client_def read digest)
qed



theorem self_remediate_owns_witness:
  "\<exists>rs d'. self_remediate the_app 7 first_request portal_db = Inr (rs, d') \<and> a_finding 8 6 None \<in> set (findings d')"
proof -
  obtain ss where u: "get_current_user the_app first_request portal_db = Inr (a_user 1 UserRole.USER, portal_db\<lparr>sessions := ss\<rparr>)"
    unfolding portal_db_def by (rule signed_user)
  let ?d = "portal_db\<lparr>sessions := ss\<rparr>"
  have owns: "owns_finding (plain_subject SubjectKind.EMAIL (uni ''a@example.org'')) 7 ?d"
    by (simp add: owns_finding_def portal_db_simps own_subject_def plain_subject_def a_subject_def a_finding_def)
  have g: "locked_finding ?d 7 = Inr (a_finding 7 5 None)"
    by (simp add: locked_finding_def portal_db_simps a_finding_def)
  obtain f d2 where f: "remediate_finding 7 1 (Some (uni ''Marked fixed by the affected user'')) None ?d = Inr (f, d2)"
    by (simp add: remediate_finding_def g) (simp add: a_finding_def)
  obtain d3 where d3: "audit_event the_app first_request ''self.finding_remediated'' (Some 1) (Some ''finding'')
      (Some (uuid_str (fnd_id f))) [] d2 = Inr d3"
    using audit_event_works [of the_app "[]"] session_key_the_settings by (fastforce simp: the_app_def)
  have "\<exists>rs. self_remediate the_app 7 first_request portal_db = Inr (rs, d3)"
    unfolding self_remediate_def
    by (subst guarded_eq [OF u])
      (simp_all add: PORTAL_ROLES_def a_user_subject owns f found_def d3)
  then obtain rs where run: "self_remediate the_app 7 first_request portal_db = Inr (rs, d3)" by blast
  have "unique_on fnd_id (findings portal_db)"
    by (simp add: unique_on_def portal_db_simps a_finding_def)
  from self_remediate_owns [OF run this]
  have "filter (\<lambda>f. fnd_id f \<noteq> 7) (findings d3) = filter (\<lambda>f. fnd_id f \<noteq> 7) (findings portal_db)" by blast
  moreover have "a_finding 8 6 None \<in> set (filter (\<lambda>f. fnd_id f \<noteq> 7) (findings portal_db))"
    by (simp add: portal_db_simps) (simp add: a_finding_def)
  ultimately have "a_finding 8 6 None \<in> set (findings d3)"
    by (metis filter_is_subset subset_iff)
  with run show ?thesis by blast
qed

end
