(* ===== verification/Operations.thy ===== *)
theory Operations
  imports UserPortal
begin

text \<open>
  Analyst operations: the JSON remediation API (\<open>src/app/routers/findings.py\<close>), the watchlist
  (\<open>src/app/routers/watchlist.py\<close>, \<open>src/app/watchlist_ui.py\<close>) and recurring schedules
  (\<open>src/app/routers/schedules.py\<close>, \<open>src/app/schedule_ui.py\<close>).
\<close>

section \<open>Requests\<close>

definition ANALYST_ROLES :: "UserRole list" where
  "ANALYST_ROLES = [UserRole.ANALYST, UserRole.SUPER_ADMIN]"

text \<open>A form: the first value of each field; \<open>parse_qs\<close> yields no empty list of values.\<close>

definition first_value :: "ustr list \<Rightarrow> ustr" where
  "first_value vs = (case vs of [] \<Rightarrow> [] | v # _ \<Rightarrow> v)"

definition form_fields :: "app \<Rightarrow> nat \<Rightarrow> http_request \<Rightarrow> (ustr \<times> ustr) list res" where
  "form_fields A limit r =
     (if length (rq_body r) > limit then Inl (HTTPException 413)
      else case decode_utf8 (rq_body r) of
        Inl e \<Rightarrow> Inl (HTTPException 422)
      | Inr s \<Rightarrow> Inr (map (\<lambda>(k, vs). (k, first_value vs)) (ap_parse_qs A s)))"

definition field :: "(ustr \<times> ustr) list \<Rightarrow> string \<Rightarrow> ustr option" where
  "field form k = map_of form (uni k)"

definition field_or :: "(ustr \<times> ustr) list \<Rightarrow> string \<Rightarrow> ustr \<Rightarrow> ustr" where
  "field_or form k absent = (case field form k of None \<Rightarrow> absent | Some v \<Rightarrow> v)"

text \<open>
  The JSON body of a request: text that is no JSON is refused before the guard runs, a body of the wrong
  shape after it.
\<close>

definition json_body :: "app \<Rightarrow> http_request \<Rightarrow> json option res" where
  "json_body A r =
     (if rq_body r = [] then Inr None
      else case ap_json_loads A (rq_body r) of None \<Rightarrow> Inl (HTTPException 422) | Some v \<Rightarrow> Inr (Some v))"

definition json_object :: "json option \<Rightarrow> (ustr \<times> json) list res" where
  "json_object v = (case v of Some (JObj o') \<Rightarrow> Inr o' | _ \<Rightarrow> Inl (HTTPException 422))"

section \<open>Remediation API\<close>

definition remediation_request :: "json option \<Rightarrow> ustr option res" where
  "remediation_request v =
     bind_res (json_object v) (\<lambda>o'.
     case jget o' (uni ''note'') of
       JNull \<Rightarrow> Inr None
     | JStr note \<Rightarrow> if length note \<le> 2000 then Inr (Some note) else Inl (HTTPException 422)
     | _ \<Rightarrow> Inl (HTTPException 422))"

definition finding_state :: "Finding \<Rightarrow> string \<Rightarrow> http_response" where
  "finding_state f state =
     respond 200 (Json (JObj [(uni ''id'', JStr (uuid_str (fnd_id f))), (uni ''state'', JStr (uni state))]))"

definition remediate :: "app \<Rightarrow> uuid \<Rightarrow> handler" where
  "remediate A finding_id r d =
     bind_res (json_body A r) (\<lambda>payload.
     guarded ANALYST_ROLES A (\<lambda>u r d.
       bind_res (remediation_request payload) (\<lambda>note.
       bind_res (found (remediate_finding finding_id (u_id u) note None d)) (\<lambda>(finding, d).
       bind_res (audit_event A r ''finding.remediated'' (Some (u_id u)) (Some ''finding'')
         (Some (uuid_str (fnd_id finding))) [] d) (\<lambda>d.
       Inr (finding_state finding ''remediated'', d))))) r d)"

definition unremediate :: "app \<Rightarrow> uuid \<Rightarrow> handler" where
  "unremediate A finding_id = guarded ANALYST_ROLES A (\<lambda>u r d.
     bind_res (found (unremediate_finding finding_id (u_id u) None d)) (\<lambda>(finding, d).
     bind_res (audit_event A r ''finding.unremediated'' (Some (u_id u)) (Some ''finding'')
       (Some (uuid_str (fnd_id finding))) [] d) (\<lambda>d.
     Inr (finding_state finding ''unremediated'', d))))"

section \<open>Watchlist: pages\<close>

record WatchlistView =
  wv_entry :: WatchlistEntry
  wv_target_label :: ustr

definition toggle_cell :: "uuid \<Rightarrow> string \<Rightarrow> bool \<Rightarrow> ustr" where
  "toggle_cell entry_id channel v =
     uni ''<td><form method=\"post\" action=\"/analyst/watchlist/'' @
     uuid_str entry_id @ uni ''/toggle/'' @ uni channel @
     uni ''\"><button type=\"submit\" class=\"link-button\">'' @
     (if v then uni ''yes'' else uni ''no'') @
     uni ''</button></form></td>''"

definition watchlist_row :: "WatchlistView \<Rightarrow> ustr" where
  "watchlist_row view =
     (let entry = wv_entry view;
          cells = concat (map (\<lambda>(channel, v). toggle_cell (wl_id entry) channel v)
            [(''alert_soc'', wl_alert_soc entry), (''alert_user'', wl_alert_user entry),
             (''alert_wazuh'', wl_alert_wazuh entry), (''alert_iris'', wl_alert_iris entry),
             (''enabled'', wl_enabled entry)])
      in concat [uni ''<tr><td>'', esc (wv_target_label view), uni ''</td>'', cells, uni ''<td>'',
        uni ''<form method=\"post\" action=\"/analyst/watchlist/'', uuid_str (wl_id entry), uni ''/delete\">'',
        uni ''<button type=\"submit\" class=\"secondary\">Remove</button></form></td></tr>''])"

definition checkbox :: "string \<Rightarrow> string \<Rightarrow> bool \<Rightarrow> ustr" where
  "checkbox name label checked =
     concat [uni ''<label><input type=\"checkbox\" name=\"'', uni name, uni ''\" value=\"true\"'',
       (if checked then uni '' checked'' else []), uni ''> '', esc (uni label), uni ''</label>'']"

definition watchlist_page :: "User \<Rightarrow> WatchlistView list \<Rightarrow> ustr" where
  "watchlist_page user entries =
     (let joined = concat (map watchlist_row entries);
          rows = (if joined = []
            then uni ''<tr><td colspan=\"7\" class=\"empty\">No watchlist entries.</td></tr>'' else joined);
          content = concat
            [uni ''<section class=\"hero compact\"><p class=\"eyebrow\">High-value identities</p>'',
             uni ''<h1>Watchlist</h1><p>New and re-leaked findings are copied to the durable '',
             uni ''alert outbox. SIEM adapters remain inactive until their live contracts are '',
             uni ''verified.</p>'',
             uni ''</section><section class=\"panel\"><h2>Add entry</h2>'',
             uni ''<form method=\"post\" action=\"/analyst/watchlist\">'',
             uni ''<label>Target type<select name=\"target_type\"><option value=\"user\">User email</option>'',
             uni ''<option value=\"subject\">Subject UUID</option></select></label>'',
             uni ''<label>Target<input name=\"target\" maxlength=\"320\" required></label>'',
             checkbox ''alert_soc'' ''SOC email'' True,
             checkbox ''alert_user'' ''User email'' True,
             checkbox ''alert_wazuh'' ''Wazuh'' True,
             checkbox ''alert_iris'' ''DFIR-IRIS'' True,
             uni ''<button type=\"submit\">Add to watchlist</button></form></section>'',
             uni ''<section class=\"panel\"><h2>Entries</h2><div class=\"table-wrap\"><table>'',
             uni ''<thead><tr><th>Target</th><th>SOC</th><th>User</th><th>Wazuh</th>'',
             uni ''<th>IRIS</th><th>Enabled</th><th>Action</th></tr></thead><tbody>'', rows, uni ''</tbody>'',
             uni ''</table></div></section>'']
      in html_page (uni ''Watchlist'') content user [] [])"

section \<open>Watchlist: routes\<close>

definition CHANNELS :: "(string \<times> (WatchlistEntry \<Rightarrow> WatchlistEntry)) list" where
  "CHANNELS =
     [(''alert_soc'', \<lambda>e. e\<lparr>wl_alert_soc := \<not> wl_alert_soc e\<rparr>),
      (''alert_user'', \<lambda>e. e\<lparr>wl_alert_user := \<not> wl_alert_user e\<rparr>),
      (''alert_wazuh'', \<lambda>e. e\<lparr>wl_alert_wazuh := \<not> wl_alert_wazuh e\<rparr>),
      (''alert_iris'', \<lambda>e. e\<lparr>wl_alert_iris := \<not> wl_alert_iris e\<rparr>),
      (''enabled'', \<lambda>e. e\<lparr>wl_enabled := \<not> wl_enabled e\<rparr>)]"

definition label_or_id :: "ustr option \<Rightarrow> uuid option \<Rightarrow> ustr" where
  "label_or_id target i =
     (if target \<noteq> None \<and> target \<noteq> Some [] then the target
      else case i of None \<Rightarrow> uni ''None'' | Some i \<Rightarrow> uuid_str i)"

definition watchlist_view :: "db \<Rightarrow> WatchlistEntry \<Rightarrow> WatchlistView" where
  "watchlist_view d entry =
     \<lparr>wv_entry = entry, wv_target_label =
       (case wl_user_id entry of
          Some i \<Rightarrow> label_or_id (map_option u_email (find (\<lambda>u. u_id u = i) (users d))) (Some i)
        | None \<Rightarrow> label_or_id (map_option sub_value_display
            (find (\<lambda>s. Some (sub_id s) = wl_subject_id entry) (subjects d))) (wl_subject_id entry))\<rparr>"

definition list_watchlist :: "app \<Rightarrow> handler" where
  "list_watchlist A = guarded ANALYST_ROLES A (\<lambda>u r d.
     Inr (html_no_store 200 (watchlist_page u
       (map (watchlist_view d) (sort_key wl_created_at (watchlist d)))), d))"

definition watchlist_audit ::
  "app \<Rightarrow> http_request \<Rightarrow> User \<Rightarrow> uuid \<Rightarrow> string \<Rightarrow> string option \<Rightarrow> db \<Rightarrow> db res" where
  "watchlist_audit A r actor entry_id action channel d =
     audit_event A r action (Some (u_id actor)) (Some ''watchlist'') (Some (uuid_str entry_id))
       (case channel of None \<Rightarrow> [] | Some c \<Rightarrow> if c = '''' then [] else [(uni ''channel'', JStr (uni c))]) d"

text \<open>The user or the subject a form names.\<close>

definition watchlist_target ::
  "app \<Rightarrow> (ustr \<times> ustr) list \<Rightarrow> db \<Rightarrow> (uuid option \<times> uuid option) res" where
  "watchlist_target A form d =
     (let target_type = field_or form ''target_type'' [];
          target = strip (ap_unidata A) (field_or form ''target'' []) in
      if target_type = uni ''user'' then
        (case normalize_email (ap_unidata A) target of
           Inl e \<Rightarrow> if e = NormalizationError then Inl (HTTPException 422) else Inl e
         | Inr email \<Rightarrow>
             bind_res (of_option (HTTPException 404) (find (\<lambda>u. u_email u = email) (users d))) (\<lambda>u.
             Inr (Some (u_id u), None)))
      else if target_type = uni ''subject'' then
        bind_res (of_option (HTTPException 422) (ap_uuid A target)) (\<lambda>i.
        if i \<notin> sub_id ` set (subjects d) then Inl (HTTPException 404) else Inr (None, Some i))
      else Inl (HTTPException 422))"

definition new_entry ::
  "uuid \<Rightarrow> uuid option \<Rightarrow> uuid option \<Rightarrow> (ustr \<times> ustr) list \<Rightarrow> User \<Rightarrow> db \<Rightarrow> WatchlistEntry" where
  "new_entry i user_id subject_id form u d =
     \<lparr>wl_id = i, wl_subject_id = subject_id, wl_user_id = user_id,
      wl_alert_soc = (field form ''alert_soc'' \<noteq> None),
      wl_alert_user = (field form ''alert_user'' \<noteq> None),
      wl_alert_wazuh = (field form ''alert_wazuh'' \<noteq> None),
      wl_alert_iris = (field form ''alert_iris'' \<noteq> None),
      wl_enabled = True, wl_created_by = u_id u, wl_created_at = tx_now d\<rparr>"

definition add_watchlist_entry :: "app \<Rightarrow> handler" where
  "add_watchlist_entry A = guarded ANALYST_ROLES A (\<lambda>u r d.
     bind_res (form_fields A (8 * 1024) r) (\<lambda>form.
     bind_res (watchlist_target A form d) (\<lambda>(user_id, subject_id).
     if \<exists>e \<in> set (watchlist d).
          (if user_id \<noteq> None then wl_user_id e = user_id else wl_subject_id e = subject_id)
     then Inl (HTTPException 409)
     else
       let (i, d) = uuid4 d;
           entry = new_entry i user_id subject_id form u d;
           d = d\<lparr>watchlist := watchlist d @ [entry]\<rparr>
       in bind_res (watchlist_audit A r u i ''watchlist.created'' None d) (\<lambda>d.
          Inr (redirect_to (uni ''/analyst/watchlist''), d)))))"

definition remove_watchlist_entry :: "app \<Rightarrow> uuid \<Rightarrow> handler" where
  "remove_watchlist_entry A entry_id = guarded ANALYST_ROLES A (\<lambda>u r d.
     if entry_id \<notin> wl_id ` set (watchlist d) then Inl (HTTPException 404)
     else bind_res (watchlist_audit A r u entry_id ''watchlist.deleted'' None d) (\<lambda>d.
       Inr (redirect_to (uni ''/analyst/watchlist''),
            d\<lparr>watchlist := delete_where (\<lambda>e. wl_id e = entry_id) (watchlist d)\<rparr>)))"

definition toggle_watchlist_channel :: "app \<Rightarrow> uuid \<Rightarrow> string \<Rightarrow> handler" where
  "toggle_watchlist_channel A entry_id channel = guarded ANALYST_ROLES A (\<lambda>u r d.
     case map_of CHANNELS channel of
       None \<Rightarrow> Inl (HTTPException 404)
     | Some flip \<Rightarrow>
         bind_res (of_option (HTTPException 404) (find (\<lambda>e. wl_id e = entry_id) (watchlist d))) (\<lambda>entry.
         let d = d\<lparr>watchlist := update_where (\<lambda>e. wl_id e = entry_id) flip (watchlist d)\<rparr> in
         bind_res (watchlist_audit A r u (wl_id entry) ''watchlist.channel_toggled'' (Some channel) d) (\<lambda>d.
         Inr (redirect_to (uni ''/analyst/watchlist''), d))))"

section \<open>Schedules: pages\<close>

definition preview_fragment :: "datetime \<Rightarrow> ustr" where
  "preview_fragment next_run = uni ''Next run: <strong>'' @ esc (datetime_iso next_run) @ uni ''</strong>''"

definition schedule_row :: "Schedule \<Rightarrow> ustr" where
  "schedule_row s =
     (let action = (if sched_enabled s then uni ''Disable'' else uni ''Enable'');
          error = (case sched_last_error s of
              None \<Rightarrow> []
            | Some e \<Rightarrow> if e = '''' then [] else uni ''<br><small>'' @ esc (uni e) @ uni ''</small>'');
          latest = (case sched_last_batch_id s of
              Some i \<Rightarrow> uni ''<a href=\"/analyst/batches/'' @ uuid_str i @ uni ''\">View latest results</a>''
            | None \<Rightarrow> uni ''Not run yet'')
      in concat
        [uni ''<tr><td>'', esc (uni (ScheduleKind_value (sched_kind s))), uni ''</td><td>'', esc (sched_target s), uni ''</td>'',
         uni ''<td><code>'', esc (sched_cron s), uni ''</code></td><td>'', esc (sched_timezone s), uni ''</td>'',
         uni ''<td>'', esc (datetime_iso (sched_next_run_at s)), error, uni ''</td>'',
         uni ''<td>'', latest, uni ''</td><td>'', (if sched_enabled s then uni ''enabled'' else uni ''disabled''), uni ''</td><td>'',
         uni ''<form method=\"post\" action=\"/analyst/schedules/'', uuid_str (sched_id s), uni ''/toggle\">'',
         uni ''<button type=\"submit\">'', action, uni ''</button></form>'',
         uni ''<form method=\"post\" action=\"/analyst/schedules/'', uuid_str (sched_id s), uni ''/delete\">'',
         uni ''<button type=\"submit\" class=\"secondary\">Delete</button></form></td></tr>''])"

definition schedules_page :: "User \<Rightarrow> Schedule list \<Rightarrow> ustr" where
  "schedules_page user listed =
     (let joined = concat (map schedule_row listed);
          rows = (if joined = []
            then uni ''<tr><td colspan=\"8\" class=\"empty\">No schedules configured.</td></tr>'' else joined);
          content = concat
            [uni ''<section class=\"hero compact\"><p class=\"eyebrow\">Recurring operations</p>'',
             uni ''<h1>Schedules</h1><p>Cron times use the selected IANA timezone. '',
             uni ''Runs are persisted and dispatched by one advisory-lock leader.</p></section>'',
             uni ''<section class=\"panel\"><h2>Create schedule</h2>'',
             uni ''<form method=\"post\" action=\"/analyst/schedules\">'',
             uni ''<label>Kind<select name=\"kind\"><option value=\"scan_ou\">OU scan</option>'',
             uni ''<option value=\"scan_domain\">Domain scan</option>'',
             uni ''<option value=\"digest\">Unremediated findings digest</option></select></label>'',
             uni ''<label>OU path or domain<input name=\"target\" maxlength=\"1024\" required></label>'',
             uni ''<label>Cron<input name=\"cron\" value=\"0 2 * * *\" maxlength=\"255\" required></label>'',
             uni ''<label>Timezone<input name=\"timezone\" value=\"UTC\" maxlength=\"255\" required '',
             uni ''hx-get=\"/analyst/schedules/preview\" hx-trigger=\"change delay:300ms\" '',
             uni ''hx-include=\"closest form\" hx-target=\"#next-preview\"></label>'',
             uni ''<label>Misfire grace (seconds)<input type=\"number\" name=\"misfire_grace_seconds\" '',
             uni ''value=\"300\" min=\"0\" max=\"86400\"></label>'',
             uni ''<p id=\"next-preview\">Enter a valid cron and timezone to preview the next run.</p>'',
             uni ''<button type=\"submit\">Create schedule</button></form></section>'',
             uni ''<section class=\"panel\"><h2>Configured schedules</h2><div class=\"table-wrap\">'',
             uni ''<table><thead><tr><th>Kind</th><th>Target</th><th>Cron</th><th>Timezone</th>'',
             uni ''<th>Next run</th><th>Latest results</th><th>Status</th><th>Actions</th></tr></thead>'',
             uni ''<tbody>'', rows, uni ''</tbody></table></div></section>'']
      in html_page (uni ''Schedules'') content user [] [])"

section \<open>Schedules: routes\<close>

definition list_schedules :: "app \<Rightarrow> handler" where
  "list_schedules A = guarded ANALYST_ROLES A (\<lambda>u r d.
     Inr (html_no_store 200 (schedules_page u (sort_key (\<lambda>s. - sched_created_at s) (schedules d))), d))"

text \<open>The message of a \<open>ScheduleValidationError\<close> tells which check failed.\<close>

definition schedule_error :: "cron_answer \<Rightarrow> ustr" where
  "schedule_error answer =
     (case answer of InvalidCron \<Rightarrow> uni ''invalid cron expression or timezone''
      | _ \<Rightarrow> uni ''schedule has no future occurrence'')"

definition preview_schedule :: "cron \<Rightarrow> app \<Rightarrow> handler" where
  "preview_schedule K A = guarded ANALYST_ROLES A (\<lambda>u r d.
     let expression = query_param r ''cron'' []; zone = query_param r ''timezone'' [] in
     case next_fire_time K expression zone (clock d) of
       Inl e \<Rightarrow> Inr (html_no_store 422 (schedule_error (K expression zone (clock d + 1))), d)
     | Inr next_run \<Rightarrow> Inr (html_no_store 200 (preview_fragment next_run), d))"

text \<open>What \<open>except (KeyError, ValueError, ScheduleValidationError)\<close> leaves of the form.\<close>

definition schedule_form ::
  "cron \<Rightarrow> unidata \<Rightarrow> datetime \<Rightarrow> (ustr \<times> ustr) list
   \<Rightarrow> (ScheduleKind \<times> ustr \<times> ustr \<times> ustr \<times> int \<times> datetime) res" where
  "schedule_form K U now form =
     bind_res (of_option KeyError (field form ''kind'')) (\<lambda>kind.
     bind_res (of_option ValueError (enum_member ScheduleKind_value kind)) (\<lambda>kind.
     bind_res (of_option KeyError (field form ''target'')) (\<lambda>target.
     bind_res (of_option KeyError (field form ''cron'')) (\<lambda>expression.
     bind_res (of_option KeyError (field form ''timezone'')) (\<lambda>zone.
     bind_res (of_option ValueError (py_int U (field_or form ''misfire_grace_seconds'' (uni ''300'')))) (\<lambda>grace.
     let target = strip U target; expression = strip U expression; zone = strip U zone in
     if target = [] \<or> length target > 1024 \<or> \<not> (0 \<le> grace \<and> grace \<le> 86400) then Inl ValueError
     else bind_res (next_fire_time K expression zone now) (\<lambda>next_run.
       Inr (kind, target, expression, zone, grace, next_run))))))))"

definition schedule_audit :: "app \<Rightarrow> http_request \<Rightarrow> User \<Rightarrow> Schedule \<Rightarrow> string \<Rightarrow> db \<Rightarrow> db res" where
  "schedule_audit A r actor s action d =
     audit_event A r action (Some (u_id actor)) (Some ''schedule'') (Some (uuid_str (sched_id s)))
       [(uni ''kind'', JStr (uni (ScheduleKind_value (sched_kind s))))] d"

definition new_schedule ::
  "uuid \<Rightarrow> ScheduleKind \<Rightarrow> ustr \<Rightarrow> ustr \<Rightarrow> ustr \<Rightarrow> int \<Rightarrow> datetime \<Rightarrow> User \<Rightarrow> db \<Rightarrow> Schedule" where
  "new_schedule i kind target expression zone grace next_run u d =
     \<lparr>sched_id = i, sched_kind = kind, sched_target = target, sched_cron = expression,
      sched_timezone = zone, sched_enabled = True, sched_misfire_grace_seconds = nat grace,
      sched_last_run_at = None, sched_last_batch_id = None, sched_next_run_at = next_run,
      sched_last_error = None, sched_created_by = u_id u, sched_created_at = tx_now d\<rparr>"

definition create_schedule :: "cron \<Rightarrow> app \<Rightarrow> handler" where
  "create_schedule K A = guarded ANALYST_ROLES A (\<lambda>u r d.
     bind_res (form_fields A (8 * 1024) r) (\<lambda>form.
     case schedule_form K (ap_unidata A) (clock d) form of
       Inl e \<Rightarrow> if e = KeyError \<or> is_value_error e then Inl (HTTPException 422) else Inl e
     | Inr (kind, target, expression, zone, grace, next_run) \<Rightarrow>
         let (i, d) = uuid4 d;
             s = new_schedule i kind target expression zone grace next_run u d
         in bind_res (schedule_audit A r u s ''schedule.created'' (d\<lparr>schedules := schedules d @ [s]\<rparr>)) (\<lambda>d.
            Inr (redirect_to (uni ''/analyst/schedules''), d))))"

definition schedule_or_404 :: "uuid \<Rightarrow> db \<Rightarrow> Schedule res" where
  "schedule_or_404 i d = of_option (HTTPException 404) (find (\<lambda>s. sched_id s = i) (schedules d))"

definition toggle_schedule :: "cron \<Rightarrow> app \<Rightarrow> uuid \<Rightarrow> handler" where
  "toggle_schedule K A schedule_id = guarded ANALYST_ROLES A (\<lambda>u r d.
     bind_res (schedule_or_404 schedule_id d) (\<lambda>s.
     let s = s\<lparr>sched_enabled := \<not> sched_enabled s\<rparr> in
     bind_res (if sched_enabled s
               then bind_res (next_fire_time K (sched_cron s) (sched_timezone s) (clock d)) (\<lambda>next.
                      Inr (s\<lparr>sched_next_run_at := next\<rparr>))
               else Inr s) (\<lambda>s.
     bind_res (schedule_audit A r u s ''schedule.toggled'' (set_schedule schedule_id (\<lambda>_. s) d)) (\<lambda>d.
     Inr (redirect_to (uni ''/analyst/schedules''), d)))))"

definition remove_schedule :: "app \<Rightarrow> uuid \<Rightarrow> handler" where
  "remove_schedule A schedule_id = guarded ANALYST_ROLES A (\<lambda>u r d.
     bind_res (schedule_or_404 schedule_id d) (\<lambda>s.
     bind_res (schedule_audit A r u s ''schedule.deleted'' d) (\<lambda>d.
     Inr (redirect_to (uni ''/analyst/schedules''),
          d\<lparr>schedules := delete_where (\<lambda>x. sched_id x = sched_id s) (schedules d)\<rparr>))))"

section \<open>Invariants of a group of routes\<close>

text \<open>
  Routes that keep an invariant of the database keep it over any sequence of requests, each in its own
  transaction: one that raises is rolled back.
\<close>

locale kept_by_routes =
  fixes route :: "'c \<Rightarrow> handler"
    and inv :: "db \<Rightarrow> bool"
  assumes keeps: "inv d \<Longrightarrow> route c r d = Inr (rs, d') \<Longrightarrow> inv d'"
begin

lemma served: "inv d \<Longrightarrow> inv (snd (in_transaction (route c) r d))"
  using keeps by (auto simp: in_transaction_def split: sum.splits prod.splits)

lemma served_along:
  "inv d \<Longrightarrow> inv (fold (\<lambda>(c, r) d. snd (in_transaction (route c) r d)) requests d)"
  using served by (induction requests arbitrary: d) auto

end

text \<open>A route that only reads changes nothing but the session's deadline.\<close>

lemma guarded_read:
  "guarded allowed A (\<lambda>u r d. Inr (f u r d, d)) r d = Inr (rs, d') \<Longrightarrow> \<exists>u. get_current_user A r d = Inr (u, d')"
  by (erule guarded_Inr) auto

datatype watchlist_call = ListWatchlist | AddEntry | RemoveEntry uuid | ToggleChannel uuid string

fun watchlist_route :: "app \<Rightarrow> watchlist_call \<Rightarrow> handler" where
  "watchlist_route A ListWatchlist = list_watchlist A"
| "watchlist_route A AddEntry = add_watchlist_entry A"
| "watchlist_route A (RemoveEntry i) = remove_watchlist_entry A i"
| "watchlist_route A (ToggleChannel i channel) = toggle_watchlist_channel A i channel"

text \<open>Every entry names a user or a subject, and no target is listed twice.\<close>

definition watch_target :: "WatchlistEntry \<Rightarrow> uuid option \<times> uuid option" where
  "watch_target e = (wl_user_id e, wl_subject_id e)"

definition watchlist_inv :: "db \<Rightarrow> bool" where
  "watchlist_inv d \<longleftrightarrow> list_all watchlist_ok (watchlist d) \<and> unique_on watch_target (watchlist d)"

lemma watchlist_inv_cong: "watchlist d' = watchlist d \<Longrightarrow> watchlist_inv d' = watchlist_inv d"
  by (simp add: watchlist_inv_def)

lemma watchlist_audit_frame: "watchlist_audit A r u i act c d = Inr d' \<Longrightarrow> watchlist d' = watchlist d"
  unfolding watchlist_audit_def by (rule audit_event_frame)

lemma watchlist_target_one:
  "watchlist_target A form d = Inr (user_id, subject_id) \<Longrightarrow> (subject_id \<noteq> None) \<noteq> (user_id \<noteq> None)"
  by (auto simp: watchlist_target_def bind_res_Inr_iff Let_def split: if_splits sum.splits)

lemma flip_keeps: "map_of CHANNELS channel = Some flip \<Longrightarrow> watch_target (flip e) = watch_target e \<and> wl_id (flip e) = wl_id e"
  by (auto simp: CHANNELS_def watch_target_def split: if_splits)

lemma watchlist_ok_target: "watchlist_ok e \<longleftrightarrow> (snd (watch_target e) \<noteq> None) \<noteq> (fst (watch_target e) \<noteq> None)"
  by (simp add: watchlist_ok_def watch_target_def)

lemma add_entry_keeps:
  assumes inv: "watchlist_inv d" and run: "add_watchlist_entry A r d = Inr (rs, d')"
  shows "watchlist_inv d'"
proof -
  obtain u d1 form user_id subject_id where 1: "get_current_user A r d = Inr (u, d1)"
    "watchlist_target A form d1 = Inr (user_id, subject_id)"
    and rest: "(if \<exists>e \<in> set (watchlist d1).
          (if user_id \<noteq> None then wl_user_id e = user_id else wl_subject_id e = subject_id)
     then Inl (HTTPException 409)
     else
       let (i, d) = uuid4 d1;
           entry = new_entry i user_id subject_id form u d;
           d = d\<lparr>watchlist := watchlist d @ [entry]\<rparr>
       in bind_res (watchlist_audit A r u i ''watchlist.created'' None d) (\<lambda>d.
          Inr (redirect_to (uni ''/analyst/watchlist''), d))) = Inr (rs, d')"
    using run unfolding add_watchlist_entry_def
    by (rule guarded_Inr) (auto simp: bind_res_Inr_iff)
  then obtain e where none: "\<not> (\<exists>e \<in> set (watchlist d1).
          (if user_id \<noteq> None then wl_user_id e = user_id else wl_subject_id e = subject_id))"
    and e: "wl_user_id e = user_id" "wl_subject_id e = subject_id"
    and d': "watchlist_audit A r u (next_uuid d1) ''watchlist.created'' None
      (d1\<lparr>drawn := drawn d1 + 16, watchlist := watchlist d1 @ [e]\<rparr>) = Inr d'"
    using that [of "new_entry (next_uuid d1) user_id subject_id form u (d1\<lparr>drawn := drawn d1 + 16\<rparr>)"]
    by (auto simp: uuid4_eq bind_res_Inr_iff Let_def new_entry_def split: if_splits)
  have d1: "watchlist d1 = watchlist d" using get_current_user_frame [OF 1(1)] by auto
  have "watch_target e \<notin> watch_target ` set (watchlist d)"
    using none e d1 by (auto simp: watch_target_def split: if_splits)
  moreover have "watchlist_ok e" using watchlist_target_one [OF 1(2)] e by (simp add: watchlist_ok_def)
  ultimately show ?thesis
    using inv watchlist_audit_frame [OF d'] d1 by (simp add: watchlist_inv_def unique_on_append1)
qed

lemma toggle_keeps:
  assumes inv: "watchlist_inv d" and run: "toggle_watchlist_channel A i channel r d = Inr (rs, d')"
  shows "watchlist_inv d'"
proof -
  obtain u d1 flip j where 1: "get_current_user A r d = Inr (u, d1)" "map_of CHANNELS channel = Some flip"
    and d': "watchlist_audit A r u j ''watchlist.channel_toggled'' (Some channel)
      (d1\<lparr>watchlist := update_where (\<lambda>e. wl_id e = i) flip (watchlist d1)\<rparr>) = Inr d'"
    using run unfolding toggle_watchlist_channel_def
    by (elim guarded_Inr) (auto simp: bind_res_Inr_iff Let_def split: option.splits)
  have d1: "watchlist d1 = watchlist d" using get_current_user_frame [OF 1(1)] by auto
  have "list_all watchlist_ok (update_where (\<lambda>e. wl_id e = i) flip (watchlist d))"
    using inv flip_keeps [OF 1(2)]
    by (auto simp: watchlist_inv_def list_all_iff set_update_where watchlist_ok_target)
  then show ?thesis
    using inv watchlist_audit_frame [OF d'] d1 flip_keeps [OF 1(2)]
    by (simp add: watchlist_inv_def unique_on_update_where)
qed

lemma remove_keeps:
  assumes inv: "watchlist_inv d" and run: "remove_watchlist_entry A i r d = Inr (rs, d')"
  shows "watchlist_inv d'"
proof -
  obtain u d1 d2 where 1: "get_current_user A r d = Inr (u, d1)"
    and d2: "watchlist_audit A r u i ''watchlist.deleted'' None d1 = Inr d2"
    and d': "d' = d2\<lparr>watchlist := delete_where (\<lambda>e. wl_id e = i) (watchlist d2)\<rparr>"
    using run unfolding remove_watchlist_entry_def
    by (elim guarded_Inr) (auto simp: bind_res_Inr_iff split: if_splits)
  have "watchlist d2 = watchlist d"
    using get_current_user_frame [OF 1] watchlist_audit_frame [OF d2] by auto
  with inv show ?thesis
    by (auto simp: watchlist_inv_def d' list_all_iff set_delete_where intro: unique_on_delete_where)
qed

interpretation watching_routes: kept_by_routes "watchlist_route A" watchlist_inv
proof
  fix d c r rs d'
  assume "watchlist_inv d" "watchlist_route A c r d = Inr (rs, d')"
  then show "watchlist_inv d'"
  proof (cases c)
    case ListWatchlist
    with \<open>watchlist_route A c r d = Inr (rs, d')\<close> have "list_watchlist A r d = Inr (rs, d')" by simp
    then obtain u where "get_current_user A r d = Inr (u, d')"
      unfolding list_watchlist_def by (elim exE [OF guarded_read])
    then have "\<exists>ss. d' = d\<lparr>sessions := ss\<rparr>" by (rule get_current_user_frame)
    then have "watchlist d' = watchlist d" by auto
    with \<open>watchlist_inv d\<close> show ?thesis using watchlist_inv_cong by blast
  qed (auto intro: add_entry_keeps toggle_keeps remove_keeps)
qed

section \<open>Schedule routes\<close>

lemma schedule_form_ok:
  assumes "cron_ok K" and "schedule_form K U now form = Inr (kind, target, expression, zone, grace, next_run)"
  shows "now < next_run \<and> target \<noteq> [] \<and> length target \<le> 1024 \<and> 0 \<le> grace \<and> grace \<le> 86400"
  using assms(2) next_fire_time_later [OF assms(1)]
  by (auto simp: schedule_form_def bind_res_Inr_iff Let_def split: if_splits)

lemma schedule_audit_frame: "schedule_audit A r u s act d = Inr d' \<Longrightarrow> schedules d' = schedules d"
  unfolding schedule_audit_def by (rule audit_event_frame)

lemma create_schedule_Inr:
  assumes "create_schedule K A r d = Inr (rs, d')"
  obtains u d1 form x where "get_current_user A r d = Inr (u, d1)"
    "schedule_form K (ap_unidata A) (clock d1) form = Inr (sched_kind x, sched_target x, sched_cron x, sched_timezone x,
       int (sched_misfire_grace_seconds x), sched_next_run_at x)"
    "schedules d' = schedules d1 @ [x]"
proof -
  obtain u d1 where u: "get_current_user A r d = Inr (u, d1)"
    and run: "bind_res (form_fields A (8 * 1024) r) (\<lambda>form.
     case schedule_form K (ap_unidata A) (clock d1) form of
       Inl e \<Rightarrow> if e = KeyError \<or> is_value_error e then Inl (HTTPException 422) else Inl e
     | Inr (kind, target, expression, zone, grace, next_run) \<Rightarrow>
         let (i, d) = uuid4 d1; s = new_schedule i kind target expression zone grace next_run u d
         in bind_res (schedule_audit A r u s ''schedule.created'' (d\<lparr>schedules := schedules d @ [s]\<rparr>)) (\<lambda>d.
            Inr (redirect_to (uni ''/analyst/schedules''), d))) = Inr (rs, d')"
    using assms unfolding create_schedule_def by (rule guarded_Inr)
  let ?new = "\<lambda>kind target expression zone grace next_run.
    new_schedule (next_uuid d1) kind target expression zone grace next_run u (d1\<lparr>drawn := drawn d1 + 16\<rparr>)"
  from run obtain form where run2: "(case schedule_form K (ap_unidata A) (clock d1) form of
       Inl e \<Rightarrow> if e = KeyError \<or> is_value_error e then Inl (HTTPException 422) else Inl e
     | Inr (kind, target, expression, zone, grace, next_run) \<Rightarrow>
         bind_res (schedule_audit A r u (?new kind target expression zone grace next_run) ''schedule.created''
           (d1\<lparr>drawn := drawn d1 + 16, schedules := schedules (d1\<lparr>drawn := drawn d1 + 16\<rparr>) @
             [?new kind target expression zone grace next_run]\<rparr>)) (\<lambda>d. Inr (redirect_to (uni ''/analyst/schedules''), d))) = Inr (rs, d')"
    unfolding uuid4_eq Let_def prod.case bind_res_Inr_iff [of "form_fields A (8 * 1024) r"] by blast
  then obtain p where p: "schedule_form K (ap_unidata A) (clock d1) form = Inr p"
    by (cases "schedule_form K (ap_unidata A) (clock d1) form") (auto split: if_splits)
  obtain kind target expression zone grace next_run where q: "p = (kind, target, expression, zone, grace, next_run)"
    by (cases p)
  note form = p [unfolded q]
  have log: "schedule_audit A r u (?new kind target expression zone grace next_run) ''schedule.created''
      (d1\<lparr>drawn := drawn d1 + 16, schedules := schedules d1 @ [?new kind target expression zone grace next_run]\<rparr>) = Inr d'"
    using run2 form by (auto simp: bind_res_Inr_iff)
  have "0 \<le> grace"
    using form by (auto simp: schedule_form_def bind_res_Inr_iff Let_def split: if_splits)
  with form schedule_audit_frame [OF log] show thesis
    by (intro that [OF u, of form "?new kind target expression zone grace next_run"]) (simp_all add: new_schedule_def)
qed

lemma toggle_schedule_Inr:
  assumes "toggle_schedule K A i r d = Inr (rs, d')"
  obtains u d1 x y where "get_current_user A r d = Inr (u, d1)" "schedule_or_404 i d1 = Inr x"
    "sched_target y = sched_target x" "sched_misfire_grace_seconds y = sched_misfire_grace_seconds x"
    "sched_enabled y \<longrightarrow> next_fire_time K (sched_cron x) (sched_timezone x) (clock d1) = Inr (sched_next_run_at y)"
    "schedules d' = update_where (\<lambda>s. sched_id s = i) (\<lambda>_. y) (schedules d1)"
proof -
  obtain u d1 where u: "get_current_user A r d = Inr (u, d1)"
    and run: "bind_res (schedule_or_404 i d1) (\<lambda>s.
     let s = s\<lparr>sched_enabled := \<not> sched_enabled s\<rparr> in
     bind_res (if sched_enabled s
               then bind_res (next_fire_time K (sched_cron s) (sched_timezone s) (clock d1)) (\<lambda>next.
                      Inr (s\<lparr>sched_next_run_at := next\<rparr>))
               else Inr s) (\<lambda>s.
     bind_res (schedule_audit A r u s ''schedule.toggled'' (set_schedule i (\<lambda>_. s) d1)) (\<lambda>d.
     Inr (redirect_to (uni ''/analyst/schedules''), d)))) = Inr (rs, d')"
    using assms unfolding toggle_schedule_def by (rule guarded_Inr)
  then obtain x y where x: "schedule_or_404 i d1 = Inr x"
    and y: "(if sched_enabled (x\<lparr>sched_enabled := \<not> sched_enabled x\<rparr>)
               then bind_res (next_fire_time K (sched_cron (x\<lparr>sched_enabled := \<not> sched_enabled x\<rparr>))
                      (sched_timezone (x\<lparr>sched_enabled := \<not> sched_enabled x\<rparr>)) (clock d1)) (\<lambda>next.
                      Inr (x\<lparr>sched_enabled := \<not> sched_enabled x, sched_next_run_at := next\<rparr>))
               else Inr (x\<lparr>sched_enabled := \<not> sched_enabled x\<rparr>)) = Inr y"
    and log: "schedule_audit A r u y ''schedule.toggled'' (set_schedule i (\<lambda>_. y) d1) = Inr d'"
    unfolding Let_def bind_res_Inr_iff by blast
  show thesis
    by (rule that [OF u x, of y])
      (use y schedule_audit_frame [OF log] in
        \<open>auto simp: bind_res_Inr_iff set_schedule_def split: if_splits\<close>)
qed

section \<open>Properties\<close>

text \<open>
  Whatever watchlist requests are served, in any order and by anybody, every entry keeps naming exactly
  one user or subject and no target is ever listed twice.
\<close>

theorem watchlist_stays_consistent:
  assumes "watchlist_inv d"
  shows "watchlist_inv (fold (\<lambda>(call, r) d. snd (in_transaction (watchlist_route A call) r d)) requests d)"
  using assms by (rule watching_routes.served_along)


text \<open>
  A schedule that a request creates or switches on fires in the future, whatever the form says: its next
  run is later than the request, its target is present and bounded and its grace period at most a day.
\<close>

theorem scheduled_ahead:
  assumes "cron_ok K" and "create_schedule K A r d = Inr (rs, d') \<or> toggle_schedule K A i r d = Inr (rs, d')"
    and "s \<in> set (schedules d')" and "s \<notin> set (schedules d)" and "sched_enabled s"
    and "\<forall>x \<in> set (schedules d). sched_target x \<noteq> [] \<and> length (sched_target x) \<le> 1024 \<and>
           sched_misfire_grace_seconds x \<le> 86400"
  shows "clock d < sched_next_run_at s \<and> sched_target s \<noteq> [] \<and> length (sched_target s) \<le> 1024 \<and>
    sched_misfire_grace_seconds s \<le> 86400"
  using assms(2)
proof
  assume run: "create_schedule K A r d = Inr (rs, d')"
  obtain u d1 form x where 1: "get_current_user A r d = Inr (u, d1)"
    "schedule_form K (ap_unidata A) (clock d1) form = Inr (sched_kind x, sched_target x, sched_cron x, sched_timezone x,
       int (sched_misfire_grace_seconds x), sched_next_run_at x)"
    and d': "schedules d' = schedules d1 @ [x]"
    by (rule create_schedule_Inr [OF run])
  have "x = s" using assms(3,4) get_current_user_frame [OF 1(1)] d' by auto
  with schedule_form_ok [OF assms(1) 1(2)] get_current_user_frame [OF 1(1)] show ?thesis by auto
next
  assume run: "toggle_schedule K A i r d = Inr (rs, d')"
  obtain u d1 x y where 1: "get_current_user A r d = Inr (u, d1)" "schedule_or_404 i d1 = Inr x"
    and y: "sched_target y = sched_target x" "sched_misfire_grace_seconds y = sched_misfire_grace_seconds x"
      "sched_enabled y \<longrightarrow> next_fire_time K (sched_cron x) (sched_timezone x) (clock d1) = Inr (sched_next_run_at y)"
    and d': "schedules d' = update_where (\<lambda>s. sched_id s = i) (\<lambda>_. y) (schedules d1)"
    by (rule toggle_schedule_Inr [OF run])
  have d1: "schedules d1 = schedules d" "clock d1 = clock d" using get_current_user_frame [OF 1(1)] by auto
  have "s = y" using assms(3,4) d' d1 by (auto simp: set_update_where split: if_splits)
  moreover have "x \<in> set (schedules d)"
    using 1(2) d1 by (auto simp: schedule_or_404_def dest: find_Some_mem)
  ultimately show ?thesis
    using y next_fire_time_later [OF assms(1) y(3) [rule_format]] assms(5,6) d1 by auto
qed

section \<open>Sample requests\<close>

definition a_watch :: "uuid \<Rightarrow> uuid option \<Rightarrow> uuid option \<Rightarrow> WatchlistEntry" where
  "a_watch i user subject =
     \<lparr>wl_id = i, wl_subject_id = subject, wl_user_id = user, wl_alert_soc = True, wl_alert_user = True,
      wl_alert_wazuh = True, wl_alert_iris = True, wl_enabled = True, wl_created_by = 1, wl_created_at = 0\<rparr>"

theorem watchlist_stays_consistent_witness:
  "watchlist_inv (fold (\<lambda>(call, r) d. snd (in_transaction (watchlist_route the_app call) r d))
     [(ToggleChannel 3 ''enabled'', first_request), (AddEntry, first_request), (RemoveEntry 4, first_request)]
     (signed UserRole.ANALYST (db0\<lparr>watchlist := [a_watch 3 (Some 1) None, a_watch 4 None (Some 5)]\<rparr>)))"
  by (rule watchlist_stays_consistent)
    (simp add: watchlist_inv_def signed_def a_watch_def watchlist_ok_def watch_target_def unique_on_def)

theorem scheduled_ahead_witness:
  "\<exists>rs d' s. toggle_schedule (\<lambda>e z r. Occurs (r + 60)) the_app (sched_id a_schedule) first_request
       (signed UserRole.ANALYST (db0\<lparr>schedules := [a_schedule\<lparr>sched_enabled := False\<rparr>]\<rparr>)) = Inr (rs, d') \<and>
     s \<in> set (schedules d') \<and> seconds 1000000 < sched_next_run_at s"
proof -
  let ?K = "\<lambda>e z r. Occurs (r + 60)" and ?s = "a_schedule\<lparr>sched_enabled := False\<rparr>"
  let ?d = "signed UserRole.ANALYST (db0\<lparr>schedules := [?s]\<rparr>)"
  obtain ss where u: "get_current_user the_app first_request ?d = Inr (a_user 1 UserRole.ANALYST, ?d\<lparr>sessions := ss\<rparr>)"
    by (rule signed_user)
  have rows: "schedules ?d = [?s]" "clock ?d = seconds 1000000" by (simp_all add: signed_def)
  have one: "schedule_or_404 (sched_id a_schedule) (?d\<lparr>sessions := ss\<rparr>) = Inr ?s"
    by (simp add: schedule_or_404_def rows)
  let ?t = "?s\<lparr>sched_enabled := True, sched_next_run_at := 61 + seconds 1000000\<rparr>"
  obtain d' where d': "schedule_audit the_app first_request (a_user 1 UserRole.ANALYST) ?t ''schedule.toggled''
      (set_schedule (sched_id a_schedule) (\<lambda>_. ?t) (?d\<lparr>sessions := ss\<rparr>)) = Inr d'"
    using audit_event_works [of the_app "[]"] session_key_the_settings
    unfolding schedule_audit_def by (fastforce simp: the_app_def)
  have run: "\<exists>rs. toggle_schedule ?K the_app (sched_id a_schedule) first_request ?d = Inr (rs, d')"
    unfolding toggle_schedule_def
    by (subst guarded_eq [OF u]) (simp_all add: ANALYST_ROLES_def one next_fire_time_def rows d' [simplified] Let_def)
  have d'_rows: "schedules d' = [?t]"
    using schedule_audit_frame [OF d'] by (simp add: set_schedule_def rows update_where_def)
  have "cron_ok ?K" by (simp add: cron_ok_def)
  then have "clock ?d < sched_next_run_at ?t"
    using run d'_rows rows scheduled_ahead [of ?K the_app first_request ?d _ d' "sched_id a_schedule" ?t]
    by (auto simp: a_schedule_def)
  with run d'_rows rows show ?thesis by auto
qed

end
