(* ===== verification/Administration.thy ===== *)
theory Administration
  imports Operations LocalAuth Alerts
begin

text \<open>
  Administration: the organisation's name and logo (\<open>src/app/branding.py\<close>), the accounts, sessions,
  branding and test alerts of the super-admin screens (\<open>src/app/routers/admin.py\<close>) and the audit log
  viewer (\<open>src/app/routers/audit.py\<close>). Bodies are validated by pydantic, whose lax conversions of
  numbers and booleans are the parameter \<open>coercions\<close>; a failed validation outside an \<open>except\<close> clause is an
  uncaught \<open>ValidationError\<close>.
\<close>

section \<open>Branding\<close>

definition MAX_LOGO_BYTES :: nat where
  "MAX_LOGO_BYTES = 1024 * 1024"

definition SIGNATURES :: "(bytes \<times> nat \<times> string) list" where
  "SIGNATURES =
     [([137, 80, 78, 71, 13, 10, 26, 10], 0, ''image/png''),
      ([255, 216, 255], 0, ''image/jpeg''),
      (octets ''GIF87a'', 0, ''image/gif''),
      (octets ''GIF89a'', 0, ''image/gif''),
      (octets ''WEBP'', 8, ''image/webp'')]"

record OrganisationBranding =
  ob_name :: "ustr option"
  ob_has_logo :: bool
  ob_logo_sha256 :: "ustr option"

definition brand_display_name :: "OrganisationBranding \<Rightarrow> ustr" where
  "brand_display_name b = (case ob_name b of None \<Rightarrow> uni ''LeakCheck Hub'' | Some n \<Rightarrow> if n = [] then uni ''LeakCheck Hub'' else n)"

definition detect_content_type :: "bytes \<Rightarrow> string res" where
  "detect_content_type data =
     (if data = [] then Inl LogoRejected
      else if length data > MAX_LOGO_BYTES then Inl LogoRejected
      else case find (\<lambda>(prefix, offset, _). take (length prefix) (drop offset data) = prefix) SIGNATURES of
          Some (_, _, content_type) \<Rightarrow> Inr content_type
        | None \<Rightarrow> Inl LogoRejected)"

definition brand_row :: "db \<Rightarrow> Branding option" where
  "brand_row d = find (\<lambda>b. br_id b = 1) (branding d)"

definition load_branding :: "db \<Rightarrow> OrganisationBranding" where
  "load_branding d =
     (case brand_row d of
        None \<Rightarrow> \<lparr>ob_name = None, ob_has_logo = False, ob_logo_sha256 = None\<rparr>
      | Some row \<Rightarrow> \<lparr>ob_name = br_organization_name row, ob_has_logo = (br_logo row \<noteq> None),
          ob_logo_sha256 = br_logo_sha256 row\<rparr>)"

definition load_logo :: "db \<Rightarrow> (bytes \<times> ustr \<times> ustr) option" where
  "load_logo d =
     (case brand_row d of
        None \<Rightarrow> None
      | Some row \<Rightarrow>
          (case br_logo row of
             None \<Rightarrow> None
           | Some logo \<Rightarrow>
               Some (logo,
                 (case br_logo_content_type row of None \<Rightarrow> uni ''application/octet-stream''
                  | Some t \<Rightarrow> if t = [] then uni ''application/octet-stream'' else t),
                 (case br_logo_sha256 row of None \<Rightarrow> [] | Some h \<Rightarrow> h))))"

text \<open>The row is created when there is none, then changed; \<open>updated_at\<close> has only its insert default.\<close>

definition change_branding :: "(Branding \<Rightarrow> Branding) \<Rightarrow> db \<Rightarrow> db" where
  "change_branding f d =
     (case brand_row d of
        Some _ \<Rightarrow> d\<lparr>branding := update_where (\<lambda>b. br_id b = 1) f (branding d)\<rparr>
      | None \<Rightarrow> d\<lparr>branding := branding d @
          [f \<lparr>br_id = 1, br_organization_name = None, br_logo = None, br_logo_content_type = None,
             br_logo_sha256 = None, br_updated_at = tx_now d\<rparr>]\<rparr>)"

definition set_brand_name :: "unidata \<Rightarrow> ustr option \<Rightarrow> db \<Rightarrow> db" where
  "set_brand_name U name d =
     (let cleaned = strip U (case name of None \<Rightarrow> [] | Some n \<Rightarrow> n) in
      change_branding (\<lambda>row. row\<lparr>br_organization_name := (if cleaned = [] then None else Some cleaned)\<rparr>) d)"

definition set_logo :: "bytes \<Rightarrow> db \<Rightarrow> (string \<times> db) res" where
  "set_logo data d =
     bind_res (detect_content_type data) (\<lambda>content_type.
     Inr (content_type, change_branding (\<lambda>row. row\<lparr>br_logo := Some data,
       br_logo_content_type := Some (uni content_type), br_logo_sha256 := Some (hexdigest (sha256 data))\<rparr>) d))"

definition clear_logo :: "db \<Rightarrow> db" where
  "clear_logo d =
     change_branding (\<lambda>row. row\<lparr>br_logo := None, br_logo_content_type := None, br_logo_sha256 := None\<rparr>) d"

section \<open>Request bodies\<close>

text \<open>Pydantic: text without surrogates and within its bounds; conversions to \<open>int\<close> and \<open>bool\<close> are parameters.\<close>

record coercions =
  co_int :: "json \<Rightarrow> int option"
  co_bool :: "json \<Rightarrow> bool option"

abbreviation ValidationError :: exn where
  "ValidationError \<equiv> OtherError ''ValidationError''"

definition text_field :: "nat \<Rightarrow> nat \<Rightarrow> json \<Rightarrow> ustr res" where
  "text_field least most v =
     (case v of
        JStr s \<Rightarrow> if list_all scalar s \<and> least \<le> length s \<and> length s \<le> most then Inr s else Inl ValidationError
      | _ \<Rightarrow> Inl ValidationError)"

definition optional_field :: "(json \<Rightarrow> 'a res) \<Rightarrow> json \<Rightarrow> 'a option res" where
  "optional_field f v = (if v = JNull then Inr None else bind_res (f v) (\<lambda>x. Inr (Some x)))"

definition role_field :: "json \<Rightarrow> UserRole res" where
  "role_field v = (case v of JStr s \<Rightarrow> of_option ValidationError (enum_member UserRole_value s) | _ \<Rightarrow> Inl ValidationError)"

definition bool_field :: "coercions \<Rightarrow> json \<Rightarrow> bool res" where
  "bool_field Y v = of_option ValidationError (co_bool Y v)"

definition object_of :: "json \<Rightarrow> (ustr \<times> json) list res" where
  "object_of v = (case v of JObj o' \<Rightarrow> Inr o' | _ \<Rightarrow> Inl ValidationError)"

definition MAX_BODY_BYTES :: nat where
  "MAX_BODY_BYTES = 32 * 1024"

definition MAX_LOGO_BODY_BYTES :: nat where
  "MAX_LOGO_BODY_BYTES = 2 * 1024 * 1024"

definition admin_json_body :: "app \<Rightarrow> nat \<Rightarrow> http_request \<Rightarrow> json res" where
  "admin_json_body A limit r =
     bind_res (case header r ''content-length'' of
         None \<Rightarrow> Inr ()
       | Some v \<Rightarrow> (case py_int (ap_unidata A) v of
             None \<Rightarrow> Inl (HTTPException 400)
           | Some n \<Rightarrow> if n > int limit then Inl (HTTPException 413) else Inr ())) (\<lambda>_.
     if length (rq_body r) > limit then Inl (HTTPException 413)
     else of_option (HTTPException 400) (ap_json_loads A (rq_body r)))"

section \<open>Accounts\<close>

definition ADMIN_ROLES :: "UserRole list" where
  "ADMIN_ROLES = [UserRole.SUPER_ADMIN]"

record UserCreate =
  uc_email :: ustr
  uc_display_name :: ustr
  uc_role :: UserRole

definition user_create :: "json \<Rightarrow> UserCreate res" where
  "user_create v =
     bind_res (object_of v) (\<lambda>o'.
     bind_res (text_field 3 255 (jget o' (uni ''email''))) (\<lambda>email.
     bind_res (text_field 1 255 (jget o' (uni ''display_name''))) (\<lambda>name.
     bind_res (case map_of o' (uni ''role'') of None \<Rightarrow> Inr UserRole.USER | Some x \<Rightarrow> role_field x) (\<lambda>role.
     Inr \<lparr>uc_email = email, uc_display_name = name, uc_role = role\<rparr>))))"

record UserUpdate =
  uu_display_name :: "ustr option"
  uu_role :: "UserRole option"
  uu_is_active :: "bool option"

definition user_update :: "coercions \<Rightarrow> json \<Rightarrow> UserUpdate res" where
  "user_update Y v =
     bind_res (object_of v) (\<lambda>o'.
     bind_res (optional_field (text_field 1 255) (jget o' (uni ''display_name''))) (\<lambda>name.
     bind_res (optional_field role_field (jget o' (uni ''role''))) (\<lambda>role.
     bind_res (optional_field (bool_field Y) (jget o' (uni ''is_active''))) (\<lambda>active.
     Inr \<lparr>uu_display_name = name, uu_role = role, uu_is_active = active\<rparr>))))"

text \<open>A pre-provisioned account; local credentials are not created here.\<close>

definition create_user :: "app \<Rightarrow> handler" where
  "create_user A = guarded ADMIN_ROLES A (\<lambda>actor r d.
     bind_res (admin_json_body A MAX_BODY_BYTES r) (\<lambda>body.
     bind_res (user_create body) (\<lambda>payload.
     bind_res (normalise_admin_email (ap_unidata A) (uc_email payload)) (\<lambda>email.
     bind_res (normalise_display_name (ap_unidata A) (uc_display_name payload)) (\<lambda>name.
     if \<exists>u \<in> set (users d). u_email u = email then Inl (HTTPException 409)
     else let (i, d) = uuid4 d;
         user = \<lparr>u_id = i, u_email = email, u_google_sub = None, u_display_name = name, u_ou_path = None,
           u_role = uc_role payload, u_is_active = True, u_source = UserSource.MANUAL, u_created_at = tx_now d,
           u_last_login_at = None\<rparr>
       in bind_res (audit_event A r ''admin.user_created'' (Some (u_id actor)) (Some ''user'') (Some (uuid_str i))
            [(uni ''role'', JStr (uni (UserRole_value (u_role user))))] (d\<lparr>users := users d @ [user]\<rparr>)) (\<lambda>d.
          Inr (respond 201 (Json (JObj [(uni ''id'', JStr (uuid_str i)), (uni ''email'', JStr email),
                 (uni ''role'', JStr (uni (UserRole_value (u_role user))))])), d)))))))"

definition remaining_super_admins :: "uuid \<Rightarrow> db \<Rightarrow> nat" where
  "remaining_super_admins excluding d =
     length (filter (\<lambda>u. u_role u = UserRole.SUPER_ADMIN \<and> u_is_active u \<and> u_id u \<noteq> excluding) (users d))"

definition account_meta :: "User \<Rightarrow> json" where
  "account_meta u =
     JObj [(uni ''display_name'', JStr (u_display_name u)), (uni ''role'', JStr (uni (UserRole_value (u_role u)))),
           (uni ''active'', JBool (u_is_active u))]"

definition changed_account :: "app \<Rightarrow> UserUpdate \<Rightarrow> User \<Rightarrow> User res" where
  "changed_account A payload u =
     bind_res (case uu_display_name payload of None \<Rightarrow> Inr u
       | Some n \<Rightarrow> bind_res (normalise_display_name (ap_unidata A) n) (\<lambda>name. Inr (u\<lparr>u_display_name := name\<rparr>))) (\<lambda>u.
     let u = (case uu_role payload of None \<Rightarrow> u | Some role \<Rightarrow> u\<lparr>u_role := role\<rparr>);
         u = (case uu_is_active payload of None \<Rightarrow> u | Some active \<Rightarrow> u\<lparr>u_is_active := active\<rparr>)
     in Inr u)"

definition update_user :: "coercions \<Rightarrow> app \<Rightarrow> uuid \<Rightarrow> handler" where
  "update_user Y A user_id = guarded ADMIN_ROLES A (\<lambda>actor r d.
     bind_res (admin_json_body A MAX_BODY_BYTES r) (\<lambda>body.
     bind_res (user_update Y body) (\<lambda>payload.
     bind_res (of_option (HTTPException 404) (find (\<lambda>u. u_id u = user_id) (users d))) (\<lambda>user.
     let demoted = (uu_role payload \<noteq> None \<and> uu_role payload \<noteq> Some UserRole.SUPER_ADMIN);
         deactivated = (uu_is_active payload = Some False)
     in if u_id user = u_id actor \<and> (demoted \<or> deactivated) then Inl (HTTPException 409)
     else if u_role user = UserRole.SUPER_ADMIN \<and> (demoted \<or> deactivated) \<and>
         remaining_super_admins (u_id user) d = 0 then Inl (HTTPException 409)
     else
       bind_res (changed_account A payload user) (\<lambda>changed.
       bind_res (audit_event A r ''admin.user_updated'' (Some (u_id actor)) (Some ''user'') (Some (uuid_str (u_id user)))
         [(uni ''before'', account_meta user), (uni ''after'', account_meta changed)]
         (d\<lparr>users := update_where (\<lambda>u. u_id u = u_id user) (\<lambda>_. changed) (users d)\<rparr>)) (\<lambda>d.
       Inr (respond 200 (Json (JObj [(uni ''id'', JStr (uuid_str (u_id user))),
              (uni ''role'', JStr (uni (UserRole_value (u_role changed)))), (uni ''is_active'', JBool (u_is_active changed))])),
            d)))))))"

definition revoke_user_sessions :: "app \<Rightarrow> uuid \<Rightarrow> handler" where
  "revoke_user_sessions A user_id = guarded ADMIN_ROLES A (\<lambda>actor r d.
     bind_res (of_option (HTTPException 404) (find (\<lambda>u. u_id u = user_id) (users d))) (\<lambda>user.
     bind_res (revoke_all_sessions (u_id user) None d) (\<lambda>(revoked, d).
     bind_res (audit_event A r ''admin.sessions_revoked'' (Some (u_id actor)) (Some ''user'') (Some (uuid_str (u_id user)))
       [(uni ''revoked'', JInt (int revoked))] d) (\<lambda>d.
     Inr (respond 200 (Json (JObj [(uni ''revoked'', JInt (int revoked))])), d)))))"

definition queue_test_alert :: "app \<Rightarrow> AlertSinkName \<Rightarrow> handler" where
  "queue_test_alert A sink = guarded ADMIN_ROLES A (\<lambda>actor r d.
     bind_res (audit_event A r ''admin.test_alert_queued'' (Some (u_id actor)) (Some ''alert_sink'')
       (Some (uni (AlertSinkName_value sink))) [] (enqueue_test_alert sink d)) (\<lambda>d.
     Inr (respond 202 (Json (JObj [(uni ''queued'', JStr (uni (AlertSinkName_value sink)))])), d)))"

section \<open>Changing the branding\<close>

text \<open>\<open>base64.b64decode(s, validate=True)\<close>: the standard alphabet only.\<close>

definition b64decode :: "ustr \<Rightarrow> bytes option" where
  "b64decode s = (if 45 \<in> set s \<or> 95 \<in> set s then None else b64decode_strict s)"

record BrandingUpdate =
  bu_organization_name :: "ustr option"
  bu_logo_base64 :: "ustr option"
  bu_clear_logo :: bool

definition branding_update :: "coercions \<Rightarrow> json \<Rightarrow> BrandingUpdate res" where
  "branding_update Y v =
     bind_res (object_of v) (\<lambda>o'.
     bind_res (optional_field (text_field 0 120) (jget o' (uni ''organization_name''))) (\<lambda>name.
     bind_res (optional_field (text_field 0 (2 * 1024 * 1024)) (jget o' (uni ''logo_base64''))) (\<lambda>logo.
     bind_res (case map_of o' (uni ''clear_logo'') of None \<Rightarrow> Inr False | Some x \<Rightarrow> bool_field Y x) (\<lambda>clear.
     Inr \<lparr>bu_organization_name = name, bu_logo_base64 = logo, bu_clear_logo = clear\<rparr>))))"

definition changed_logo :: "BrandingUpdate \<Rightarrow> db \<Rightarrow> (ustr list \<times> db) res" where
  "changed_logo payload d =
     (if bu_clear_logo payload then Inr ([uni ''logo_cleared''], clear_logo d)
      else case bu_logo_base64 payload of
          None \<Rightarrow> Inr ([], d)
        | Some encoded \<Rightarrow>
            (if encoded = [] then Inr ([], d)
             else bind_res (of_option (HTTPException 422) (b64decode encoded)) (\<lambda>raw.
               case set_logo raw d of
                 Inl e \<Rightarrow> Inl (if e = LogoRejected then HTTPException 422 else e)
               | Inr (_, d) \<Rightarrow> Inr ([uni ''logo''], d))))"

definition update_branding :: "coercions \<Rightarrow> app \<Rightarrow> handler" where
  "update_branding Y A = guarded ADMIN_ROLES A (\<lambda>actor r d.
     bind_res (admin_json_body A MAX_LOGO_BODY_BYTES r) (\<lambda>body.
     bind_res (branding_update Y body) (\<lambda>payload.
     let (named, d) = (case bu_organization_name payload of None \<Rightarrow> ([], d)
           | Some name \<Rightarrow> ([uni ''organization_name''], set_brand_name (ap_unidata A) (Some name) d))
     in bind_res (changed_logo payload d) (\<lambda>(logo, d).
     let changed = named @ logo in
     if changed = [] then Inl (HTTPException 422)
     else bind_res (audit_event A r ''admin.branding_updated'' (Some (u_id actor)) (Some ''branding'') None
         [(uni ''changed'', JList (map JStr changed))] d) (\<lambda>d.
       let current = load_branding d in
       Inr (respond 200 (Json (JObj [(uni ''changed'', JList (map JStr changed)),
              (uni ''organization_name'', json_text (ob_name current)), (uni ''has_logo'', JBool (ob_has_logo current)),
              (uni ''logo_sha256'', json_text (ob_logo_sha256 current))])), d))))))"

section \<open>Audit log viewer\<close>

definition PAGE_SIZE :: nat where
  "PAGE_SIZE = 50"

text \<open>
  The filters of a request, as the framework has parsed them. A local time without an offset is an instant of
  the container's zone, UTC.
\<close>

record audit_query =
  aq_action :: "ustr option"
  aq_actor :: "ustr option"
  aq_since :: "py_datetime option"
  aq_until :: "py_datetime option"
  aq_page :: nat

fun instant_of :: "py_datetime \<Rightarrow> datetime" where
  "instant_of (Naive t) = t"
| "instant_of (Aware local off) = local - off"

text \<open>\<open>v.ilike(f"%{needle}%")\<close>: the needle is a pattern, its wildcards are not escaped.\<close>

definition ilike_within :: "(ustr \<Rightarrow> ustr) \<Rightarrow> ustr \<Rightarrow> ustr \<Rightarrow> bool" where
  "ilike_within lo needle v \<longleftrightarrow> sql_like (lo ([37] @ needle @ [37])) (lo v)"

definition actor_email :: "db \<Rightarrow> AuditLog \<Rightarrow> ustr option" where
  "actor_email d e =
     (case al_actor_id e of None \<Rightarrow> None | Some i \<Rightarrow> map_option u_email (find (\<lambda>u. u_id u = i) (users d)))"

text \<open>\<open>if value\<close> for an optional text.\<close>

definition text_or_none :: "ustr option \<Rightarrow> ustr option" where
  "text_or_none v = (if v = Some [] then None else v)"

definition audit_matches :: "(ustr \<Rightarrow> ustr) \<Rightarrow> audit_query \<Rightarrow> db \<Rightarrow> AuditLog \<Rightarrow> bool" where
  "audit_matches lo q d e \<longleftrightarrow>
     (text_or_none (aq_action q) \<noteq> None \<longrightarrow> ilike_within lo (the (aq_action q)) (uni (al_action e))) \<and>
     (text_or_none (aq_actor q) \<noteq> None \<longrightarrow>
        (case actor_email d e of None \<Rightarrow> False | Some email \<Rightarrow> ilike_within lo (the (aq_actor q)) email)) \<and>
     (case aq_since q of None \<Rightarrow> True | Some t \<Rightarrow> instant_of t \<le> al_at e) \<and>
     (case aq_until q of None \<Rightarrow> True | Some t \<Rightarrow> al_at e \<le> instant_of t)"

definition found_entries :: "(ustr \<Rightarrow> ustr) \<Rightarrow> audit_query \<Rightarrow> db \<Rightarrow> AuditLog list" where
  "found_entries lo q d =
     take (PAGE_SIZE + 1) (drop ((aq_page q - 1) * PAGE_SIZE)
       (sort_key (\<lambda>e. - al_at e) (filter (audit_matches lo q d) (audit_log d))))"

definition summarise :: "unidata \<Rightarrow> (ustr \<times> json) list \<Rightarrow> ustr" where
  "summarise U meta =
     (if meta = [] then uni ''-''
      else
        (let rendered = join_with (uni '', '') (map (\<lambda>(k, v). k @ uni ''='' @ py_repr U v) (sort_key fst meta))
         in if length rendered \<le> 300 then rendered else take 297 rendered @ uni ''...''))"

definition audit_row :: "unidata \<Rightarrow> db \<Rightarrow> AuditLog \<Rightarrow> ustr" where
  "audit_row U d e =
     (let target = join_with [32] (filter (\<lambda>p. p \<noteq> [])
            [(case al_target_type e of None \<Rightarrow> [] | Some t \<Rightarrow> uni t), (case al_target_id e of None \<Rightarrow> [] | Some t \<Rightarrow> t)]);
          email = (case text_or_none (actor_email d e) of None \<Rightarrow> uni ''system'' | Some t \<Rightarrow> t)
      in concat
        [uni ''<tr><td>'', esc (iso_seconds 32 (al_at e)), uni ''</td><td>'', esc email, uni ''</td><td>'', esc (uni (al_action e)),
         uni ''</td><td>'', esc (if target = [] then uni ''-'' else target), uni ''</td><td><code>'', esc (summarise U (al_meta e)),
         uni ''</code></td></tr>''])"

definition audit_rows :: "unidata \<Rightarrow> db \<Rightarrow> AuditLog list \<Rightarrow> ustr" where
  "audit_rows U d entries =
     (if entries = [] then uni ''<tr><td colspan=\"5\">No audit entries match these filters.</td></tr>''
      else concat (map (audit_row U d) entries))"

text \<open>\<open>isoformat(timespec="minutes")\<close>.\<close>

definition offset_text :: "int \<Rightarrow> ustr" where
  "offset_text off =
     (let m = nat (\<bar>off\<bar> div 60000000) in
      (if off < 0 then [45] else [43]) @ padded 2 (m div 60) @ [58] @ padded 2 (m mod 60))"

definition iso_minutes :: "datetime \<Rightarrow> ustr" where
  "iso_minutes t =
     isoformat (utc_date t) @ [84] @ (case time_of_day t of (h, m, s) \<Rightarrow> padded 2 h @ [58] @ padded 2 m)"

fun minutes_text :: "py_datetime \<Rightarrow> ustr" where
  "minutes_text (Naive t) = iso_minutes t"
| "minutes_text (Aware local off) = iso_minutes local @ offset_text off"

definition set_param :: "string \<Rightarrow> ustr \<Rightarrow> (string \<times> ustr) list \<Rightarrow> (string \<times> ustr) list" where
  "set_param k v params =
     (if k \<in> fst ` set params then map (\<lambda>(j, w). if j = k then (j, v) else (j, w)) params else params @ [(k, v)])"

text \<open>The parameters are escaped for HTML, not for a URL.\<close>

definition pager_link :: "http_request \<Rightarrow> nat \<Rightarrow> ustr \<Rightarrow> ustr" where
  "pager_link r target label =
     (let params = set_param ''page'' (dec target) (rq_query r) in
      concat [uni ''<a href=\"/admin/audit?'',
        join_with (uni ''&'') (map (\<lambda>(k, v). esc (uni k) @ uni ''='' @ esc v) params), uni ''\">'', label, uni ''</a>''])"

definition pager :: "nat \<Rightarrow> bool \<Rightarrow> http_request \<Rightarrow> ustr" where
  "pager page_number has_more r =
     concat [uni ''<p class=\"pager\">'',
       join_with [32]
         ((if page_number > 1 then [pager_link r (page_number - 1) (uni ''Previous'')] else []) @
          [uni ''<span>Page '' @ dec page_number @ uni ''</span>''] @
          (if has_more then [pager_link r (page_number + 1) (uni ''Next'')] else [])),
       uni ''</p>'']"

definition audit_content :: "unidata \<Rightarrow> db \<Rightarrow> audit_query \<Rightarrow> http_request \<Rightarrow> AuditLog list \<Rightarrow> bool \<Rightarrow> ustr" where
  "audit_content U d q r entries has_more =
     concat
       [uni ''<section class=\"hero compact\"><p class=\"eyebrow\">Administration</p>'',
        uni ''<h1>Audit log</h1><p>Every human action and authentication event, newest first. '',
        uni ''Client addresses are stored only as a keyed hash and are never shown.</p></section>'',
        uni ''<form class=\"panel\" method=\"get\" action=\"/admin/audit\">'',
        uni ''<label>Action <input name=\"action\" value=\"'',
        esc (case aq_action q of None \<Rightarrow> [] | Some v \<Rightarrow> v),
        uni ''\"></label>'',
        uni ''<label>Actor email <input name=\"actor\" value=\"'',
        esc (case aq_actor q of None \<Rightarrow> [] | Some v \<Rightarrow> v),
        uni ''\"></label>'',
        uni ''<label>From <input type=\"datetime-local\" name=\"since\" value=\"'',
        esc (case aq_since q of None \<Rightarrow> [] | Some t \<Rightarrow> minutes_text t),
        uni ''\"></label>'',
        uni ''<label>To <input type=\"datetime-local\" name=\"until\" value=\"'',
        esc (case aq_until q of None \<Rightarrow> [] | Some t \<Rightarrow> minutes_text t),
        uni ''\"></label>'',
        uni ''<button type=\"submit\">Filter</button> '',
        uni ''<a href=\"/admin/audit\">Clear</a></form>'',
        uni ''<section class=\"panel\"><div class=\"table-wrap\"><table><thead><tr>'',
        uni ''<th>When</th><th>Actor</th><th>Action</th><th>Target</th><th>Detail</th>'',
        uni ''</tr></thead><tbody>'',
        audit_rows U d entries,
        uni ''</tbody></table></div>'',
        pager (aq_page q) has_more r,
        uni ''</section>'']"

definition audit_page :: "(ustr \<Rightarrow> ustr) \<Rightarrow> app \<Rightarrow> audit_query \<Rightarrow> handler" where
  "audit_page lo A q = guarded ADMIN_ROLES A (\<lambda>u r d.
     let entries = found_entries lo q d; has_more = length entries > PAGE_SIZE in
     Inr (html_no_store 200 (html_page (uni ''Audit log'')
            (audit_content (ap_unidata A) d q r (take PAGE_SIZE entries) has_more) u
            [uni ''/static/admin-settings.css?v=7''] []), d))"

section \<open>Facts\<close>

text \<open>The signed-in user is the row its session names, and is active.\<close>

lemma get_current_user_row:
  assumes "get_current_user A r d = Inr (u, d1)"
  shows "find (\<lambda>x. u_id x = u_id u) (users d) = Some u \<and> u_is_active u"
proof -
  obtain v where "verify_session (ap_settings A) (cookie r SESSION_COOKIE_NAME) None d = Inr (Some v, d1)" "u = ver_user v"
    using assms by (rule get_current_user_Inr)
  then have "\<exists>s :: Session. find (\<lambda>u. u_id u = sess_user_id s) (users d) = Some u \<and> u_is_active u"
    by (auto simp: verify_session_def bind_res_Inr_iff session_usable_def split: option.splits if_splits)
  then obtain s :: Session where f: "find (\<lambda>u. u_id u = sess_user_id s) (users d) = Some u" "u_is_active u" by blast
  then have "u_id u = sess_user_id s" using find_Some_mem by fastforce
  with f show ?thesis by simp
qed

definition an_admin :: "User list \<Rightarrow> bool" where
  "an_admin us \<longleftrightarrow> (\<exists>u \<in> set us. u_role u = UserRole.SUPER_ADMIN \<and> u_is_active u)"

text \<open>The stored logo is a raster image of bounded size, described as what it is.\<close>

definition logo_ok :: "db \<Rightarrow> bool" where
  "logo_ok d \<longleftrightarrow> (\<forall>b \<in> set (branding d). br_id b = 1 \<longrightarrow> (\<forall>logo. br_logo b = Some logo \<longrightarrow>
     (\<exists>t. detect_content_type logo = Inr t \<and> br_logo_content_type b = Some (uni t)) \<and>
     br_logo_sha256 b = Some (hexdigest (sha256 logo))))"

definition admin_inv :: "db \<Rightarrow> bool" where
  "admin_inv d \<longleftrightarrow> an_admin (users d) \<and> logo_ok d"

lemma admin_inv_frame: "admin_inv d \<Longrightarrow> users d' = users d \<Longrightarrow> branding d' = branding d \<Longrightarrow> admin_inv d'"
  by (simp add: admin_inv_def logo_ok_def)

lemma create_user_keeps:
  assumes "admin_inv d" and run: "create_user A r d = Inr (rs, d')"
  shows "admin_inv d'"
proof -
  obtain u d1 where u: "get_current_user A r d = Inr (u, d1)"
    and "\<exists>x. users d' = users d1 @ [x] \<and> branding d' = branding d1"
    using run unfolding create_user_def
    by (elim guarded_Inr) (auto simp: bind_res_Inr_iff Let_def uuid4_eq audit_event_frame(1,17) split: if_splits)
  moreover obtain ss where "d1 = d\<lparr>sessions := ss\<rparr>" using get_current_user_frame [OF u] by blast
  ultimately show ?thesis
    using assms(1) by (auto simp: admin_inv_def an_admin_def logo_ok_def)
qed

lemma changed_account_keeps:
  assumes "changed_account A p u = Inr u'"
  shows "u_id u' = u_id u \<and> u_email u' = u_email u \<and> u_google_sub u' = u_google_sub u \<and>
    u_role u' = (case uu_role p of None \<Rightarrow> u_role u | Some x \<Rightarrow> x) \<and>
    u_is_active u' = (case uu_is_active p of None \<Rightarrow> u_is_active u | Some x \<Rightarrow> x)"
proof -
  obtain v where v: "v = u \<or> (\<exists>n. v = u\<lparr>u_display_name := n\<rparr>)"
    and u': "u' = (let u = (case uu_role p of None \<Rightarrow> v | Some role \<Rightarrow> v\<lparr>u_role := role\<rparr>) in
      case uu_is_active p of None \<Rightarrow> u | Some active \<Rightarrow> u\<lparr>u_is_active := active\<rparr>)"
    using assms unfolding changed_account_def Let_def bind_res_Inr_iff
    by (cases "uu_display_name p") (auto simp: bind_res_Inr_iff)
  show ?thesis
    using v unfolding u' Let_def by (cases "uu_role p"; cases "uu_is_active p") auto
qed

lemma update_user_Inr:
  assumes "update_user Y A i r d = Inr (rs, d')"
  obtains actor d1 p u u' d2 where "get_current_user A r d = Inr (actor, d1)" "u_role actor = UserRole.SUPER_ADMIN"
    "find (\<lambda>u. u_id u = i) (users d) = Some u" "changed_account A p u = Inr u'"
    "u_id u = u_id actor \<longrightarrow> (uu_role p = None \<or> uu_role p = Some UserRole.SUPER_ADMIN) \<and> uu_is_active p \<noteq> Some False"
    "d2 = d1\<lparr>users := update_where (\<lambda>x. u_id x = i) (\<lambda>_. u') (users d)\<rparr>"
    "audit_event A r ''admin.user_updated'' (Some (u_id actor)) (Some ''user'') (Some (uuid_str i))
       [(uni ''before'', account_meta u), (uni ''after'', account_meta u')] d2 = Inr d'"
proof -
  obtain actor d1 where actor: "get_current_user A r d = Inr (actor, d1)" "u_role actor \<in> set ADMIN_ROLES"
    and run: "bind_res (admin_json_body A MAX_BODY_BYTES r) (\<lambda>body.
     bind_res (user_update Y body) (\<lambda>payload.
     bind_res (of_option (HTTPException 404) (find (\<lambda>u. u_id u = i) (users d1))) (\<lambda>user.
     let demoted = (uu_role payload \<noteq> None \<and> uu_role payload \<noteq> Some UserRole.SUPER_ADMIN);
         deactivated = (uu_is_active payload = Some False)
     in if u_id user = u_id actor \<and> (demoted \<or> deactivated) then Inl (HTTPException 409)
     else if u_role user = UserRole.SUPER_ADMIN \<and> (demoted \<or> deactivated) \<and>
         remaining_super_admins (u_id user) d1 = 0 then Inl (HTTPException 409)
     else
       bind_res (changed_account A payload user) (\<lambda>changed.
       bind_res (audit_event A r ''admin.user_updated'' (Some (u_id actor)) (Some ''user'') (Some (uuid_str (u_id user)))
         [(uni ''before'', account_meta user), (uni ''after'', account_meta changed)]
         (d1\<lparr>users := update_where (\<lambda>u. u_id u = u_id user) (\<lambda>_. changed) (users d1)\<rparr>)) (\<lambda>d.
       Inr (respond 200 (Json (JObj [(uni ''id'', JStr (uuid_str (u_id user))),
              (uni ''role'', JStr (uni (UserRole_value (u_role changed)))), (uni ''is_active'', JBool (u_is_active changed))])),
            d)))))) = Inr (rs, d')"
    using assms unfolding update_user_def by (rule guarded_Inr)
  obtain ss where d1: "d1 = d\<lparr>sessions := ss\<rparr>" using get_current_user_frame [OF actor(1)] by blast
  have same: "users d1 = users d" by (simp add: d1)
  obtain p u u' where f: "find (\<lambda>u. u_id u = i) (users d) = Some u" and c: "changed_account A p u = Inr u'"
    and self: "u_id u = u_id actor \<longrightarrow> (uu_role p = None \<or> uu_role p = Some UserRole.SUPER_ADMIN) \<and> uu_is_active p \<noteq> Some False"
    and log: "audit_event A r ''admin.user_updated'' (Some (u_id actor)) (Some ''user'') (Some (uuid_str (u_id u)))
         [(uni ''before'', account_meta u), (uni ''after'', account_meta u')]
         (d1\<lparr>users := update_where (\<lambda>x. u_id x = u_id u) (\<lambda>_. u') (users d1)\<rparr>) = Inr d'"
    using run unfolding Let_def same by (auto simp: bind_res_Inr_iff split: if_splits)
  have "u_id u = i" using find_Some_mem [OF f] by simp
  then show thesis
    using that [OF actor(1) _ f c self refl] log actor(2) by (simp add: ADMIN_ROLES_def same)
qed

lemma update_user_keeps_actor:
  assumes "update_user Y A i r d = Inr (rs, d')"
  shows "an_admin (users d')"
proof -
  obtain actor d1 p u u' d2 where a: "get_current_user A r d = Inr (actor, d1)" "u_role actor = UserRole.SUPER_ADMIN"
    and f: "find (\<lambda>u. u_id u = i) (users d) = Some u" and c: "changed_account A p u = Inr u'"
    and self: "u_id u = u_id actor \<longrightarrow> (uu_role p = None \<or> uu_role p = Some UserRole.SUPER_ADMIN) \<and> uu_is_active p \<noteq> Some False"
    and d2: "d2 = d1\<lparr>users := update_where (\<lambda>x. u_id x = i) (\<lambda>_. u') (users d)\<rparr>"
    and log: "audit_event A r ''admin.user_updated'' (Some (u_id actor)) (Some ''user'') (Some (uuid_str i))
       [(uni ''before'', account_meta u), (uni ''after'', account_meta u')] d2 = Inr d'"
    using assms by (rule update_user_Inr)
  note row = get_current_user_row [OF a(1)]
  have mem: "actor \<in> set (users d)" using row find_Some_mem by fastforce
  have us: "users d' = update_where (\<lambda>x. u_id x = i) (\<lambda>_. u') (users d)"
    using audit_event_frame(1) [OF log] d2 by simp
  show ?thesis
  proof (cases "u_id actor = i")
    case True
    with f row have "u = actor" by simp
    then have "u_role u' = UserRole.SUPER_ADMIN \<and> u_is_active u'"
      using self changed_account_keeps [OF c] a(2) row by (auto split: option.splits)
    moreover have "u' \<in> set (users d')"
      using mem True by (auto simp: us set_update_where)
    ultimately show ?thesis by (auto simp: an_admin_def)
  next
    case False
    then have "actor \<in> set (users d')"
      using mem by (auto simp: us set_update_where)
    then show ?thesis using a(2) row by (auto simp: an_admin_def)
  qed
qed

lemma update_user_keeps:
  assumes "admin_inv d" and run: "update_user Y A i r d = Inr (rs, d')"
  shows "admin_inv d'"
proof -
  obtain actor d1 p u u' d2 where a: "get_current_user A r d = Inr (actor, d1)"
    and d2: "d2 = d1\<lparr>users := update_where (\<lambda>x. u_id x = i) (\<lambda>_. u') (users d)\<rparr>"
    and log: "audit_event A r ''admin.user_updated'' (Some (u_id actor)) (Some ''user'') (Some (uuid_str i))
       [(uni ''before'', account_meta u), (uni ''after'', account_meta u')] d2 = Inr d'"
    using run by (rule update_user_Inr)
  have "branding d' = branding d"
    using audit_event_frame(17) [OF log] d2 get_current_user_frame [OF a] by auto
  with assms(1) update_user_keeps_actor [OF run] show ?thesis
    by (simp add: admin_inv_def logo_ok_def)
qed

lemma logo_ok_change:
  assumes "logo_ok d"
    and "\<And>b. (\<forall>logo. br_logo b = Some logo \<longrightarrow>
        (\<exists>t. detect_content_type logo = Inr t \<and> br_logo_content_type b = Some (uni t)) \<and>
        br_logo_sha256 b = Some (hexdigest (sha256 logo))) \<Longrightarrow>
      (\<forall>logo. br_logo (f b) = Some logo \<longrightarrow>
        (\<exists>t. detect_content_type logo = Inr t \<and> br_logo_content_type (f b) = Some (uni t)) \<and>
        br_logo_sha256 (f b) = Some (hexdigest (sha256 logo)))"
  shows "logo_ok (change_branding f d)"
proof (cases "brand_row d")
  case None
  with assms show ?thesis by (auto simp: logo_ok_def change_branding_def)
next
  case (Some b)
  with assms show ?thesis by (fastforce simp: logo_ok_def change_branding_def set_update_where)
qed

lemma change_branding_users [simp]: "users (change_branding f d) = users d"
  by (simp add: change_branding_def split: option.split)

lemma changed_logo_keeps:
  assumes "logo_ok d" and "changed_logo p d = Inr (ks, d')"
  shows "logo_ok d' \<and> users d' = users d"
proof (cases "bu_clear_logo p \<or> bu_logo_base64 p = None \<or> bu_logo_base64 p = Some []")
  case True
  then have "d' = d \<or> d' = clear_logo d"
    using assms(2) by (auto simp: changed_logo_def split: if_splits)
  with assms(1) show ?thesis by (auto simp: clear_logo_def intro!: logo_ok_change)
next
  case False
  then obtain raw where raw: "(case set_logo raw d of Inl e \<Rightarrow> Inl (if e = LogoRejected then HTTPException 422 else e)
      | Inr (_, d) \<Rightarrow> Inr ([uni ''logo''], d)) = Inr (ks, d')"
    using assms(2) by (auto simp: changed_logo_def bind_res_Inr_iff)
  then obtain t where t: "detect_content_type raw = Inr t"
    by (cases "detect_content_type raw") (auto simp: set_logo_def)
  with raw have d': "d' = change_branding (\<lambda>row. row\<lparr>br_logo := Some raw, br_logo_content_type := Some (uni t),
        br_logo_sha256 := Some (hexdigest (sha256 raw))\<rparr>) d"
    by (simp add: set_logo_def)
  have "logo_ok d'"
    unfolding d' using assms(1) by (rule logo_ok_change) (simp add: t)
  with d' show ?thesis by simp
qed

lemma update_branding_keeps:
  assumes "admin_inv d" and run: "update_branding Y A r d = Inr (rs, d')"
  shows "admin_inv d'"
proof -
  obtain u d1 p d2 d3 ks where u: "get_current_user A r d = Inr (u, d1)"
    and d2: "d2 = d1 \<or> d2 = set_brand_name (ap_unidata A) p d1"
    and d3: "\<exists>q. changed_logo q d2 = Inr (ks, d3)" and d': "users d' = users d3" "branding d' = branding d3"
    using run unfolding update_branding_def
    by (elim guarded_Inr)
      (fastforce simp: bind_res_Inr_iff Let_def audit_event_frame(1,17) split: option.splits if_splits)
  have "logo_ok d1" "users d1 = users d"
    using get_current_user_frame [OF u] assms(1) by (auto simp: admin_inv_def logo_ok_def)
  then have "logo_ok d2" "users d2 = users d"
    using d2 by (auto simp: set_brand_name_def Let_def intro!: logo_ok_change)
  then have "logo_ok d3" "users d3 = users d"
    using d3 changed_logo_keeps by metis+
  with assms(1) d' show ?thesis by (simp add: admin_inv_def logo_ok_def)
qed

datatype admin_call =
    CreateUser | UpdateUser uuid | RevokeSessions uuid | ChangeBranding | TestAlert AlertSinkName
  | ViewAudit audit_query

fun admin_route :: "coercions \<Rightarrow> (ustr \<Rightarrow> ustr) \<Rightarrow> app \<Rightarrow> admin_call \<Rightarrow> handler" where
  "admin_route Y lo A CreateUser = create_user A"
| "admin_route Y lo A (UpdateUser i) = update_user Y A i"
| "admin_route Y lo A (RevokeSessions i) = revoke_user_sessions A i"
| "admin_route Y lo A ChangeBranding = update_branding Y A"
| "admin_route Y lo A (TestAlert sink) = queue_test_alert A sink"
| "admin_route Y lo A (ViewAudit q) = audit_page lo A q"

lemma revoke_user_sessions_frame:
  assumes "revoke_user_sessions A i r d = Inr (rs, d')"
  shows "users d' = users d \<and> branding d' = branding d"
proof -
  obtain u d1 where u: "get_current_user A r d = Inr (u, d1)"
    and "users d' = users d1 \<and> branding d' = branding d1"
    using assms unfolding revoke_user_sessions_def
    by (elim guarded_Inr) (auto simp: bind_res_Inr_iff revoke_all_sessions_def Let_def audit_event_frame(1,17))
  then show ?thesis using get_current_user_frame [OF u] by auto
qed

lemma queue_test_alert_frame:
  assumes "queue_test_alert A sink r d = Inr (rs, d')"
  shows "users d' = users d \<and> branding d' = branding d"
proof -
  obtain u d1 where u: "get_current_user A r d = Inr (u, d1)"
    and "users d' = users d1 \<and> branding d' = branding d1"
    using assms unfolding queue_test_alert_def
    by (elim guarded_Inr)
      (auto simp: bind_res_Inr_iff enqueue_test_alert_def enqueue_alert_eq uuid4_eq audit_event_frame(1,17))
  then show ?thesis using get_current_user_frame [OF u] by auto
qed

interpretation admin_routes: kept_by_routes "admin_route Y lo A" admin_inv for Y lo A
proof
  fix d c r rs d'
  assume inv: "admin_inv d" and run: "admin_route Y lo A c r d = Inr (rs, d')"
  show "admin_inv d'"
  proof (cases c)
    case (ViewAudit q)
    with run obtain u where "get_current_user A r d = Inr (u, d')"
      by (auto simp: audit_page_def Let_def elim!: guarded_Inr)
    with inv get_current_user_frame show ?thesis by (fastforce intro: admin_inv_frame)
  next
    case (RevokeSessions i)
    with inv run revoke_user_sessions_frame show ?thesis by (fastforce intro: admin_inv_frame)
  next
    case (TestAlert s)
    with inv run queue_test_alert_frame show ?thesis by (fastforce intro: admin_inv_frame)
  qed (use inv run in \<open>auto intro: create_user_keeps update_user_keeps update_branding_keeps\<close>)
qed


definition demoting_app :: app where
  "demoting_app = the_app\<lparr>ap_json_loads := (\<lambda>_. Some (JObj [(uni ''role'', JStr (uni ''user''))]))\<rparr>"


text \<open>
  C28. An account is changed by a signed-in super-admin only, never the own access of that super-admin; its
  address and identity stay, other accounts are untouched, and the audit log holds the state before and after.
\<close>

theorem update_user_sound:
  assumes "update_user Y A i r d = Inr (rs, d')"
  shows "\<exists>actor u u' e. actor \<in> set (users d) \<and> u_role actor = UserRole.SUPER_ADMIN \<and> u_is_active actor \<and>
    find (\<lambda>x. u_id x = i) (users d) = Some u \<and>
    u_id u' = i \<and> u_email u' = u_email u \<and> u_google_sub u' = u_google_sub u \<and>
    (i = u_id actor \<longrightarrow> u_role u' = UserRole.SUPER_ADMIN \<and> u_is_active u') \<and>
    users d' = update_where (\<lambda>x. u_id x = i) (\<lambda>_. u') (users d) \<and>
    audit_log d' = audit_log d @ [e] \<and> al_actor_id e = Some (u_id actor) \<and> al_target_id e = Some (uuid_str i) \<and>
    al_meta e = [(uni ''before'', account_meta u), (uni ''after'', account_meta u')]"
proof -
  obtain actor d1 p u u' d2 where a: "get_current_user A r d = Inr (actor, d1)" "u_role actor = UserRole.SUPER_ADMIN"
    and f: "find (\<lambda>u. u_id u = i) (users d) = Some u" and c: "changed_account A p u = Inr u'"
    and self: "u_id u = u_id actor \<longrightarrow> (uu_role p = None \<or> uu_role p = Some UserRole.SUPER_ADMIN) \<and> uu_is_active p \<noteq> Some False"
    and d2: "d2 = d1\<lparr>users := update_where (\<lambda>x. u_id x = i) (\<lambda>_. u') (users d)\<rparr>"
    and log: "audit_event A r ''admin.user_updated'' (Some (u_id actor)) (Some ''user'') (Some (uuid_str i))
       [(uni ''before'', account_meta u), (uni ''after'', account_meta u')] d2 = Inr d'"
    using assms by (rule update_user_Inr)
  note row = get_current_user_row [OF a(1)]
  note c = changed_account_keeps [OF c]
  have i: "u_id u = i" using find_Some_mem [OF f] by simp
  have "i = u_id actor \<longrightarrow> u = actor" using f row by auto
  then have own: "i = u_id actor \<longrightarrow> u_role u' = UserRole.SUPER_ADMIN \<and> u_is_active u'"
    using i self c a(2) row by (auto split: option.splits)
  obtain k j where "d' = d2\<lparr>drawn := drawn d2 + 16, audit_log := audit_log d2 @
       [\<lparr>al_id = j, al_actor_id = Some (u_id actor), al_action = ''admin.user_updated'', al_target_type = Some ''user'',
         al_target_id = Some (uuid_str i), al_ip_hash = hmac_sha256 k (audit_ip A r), al_at = tx_now d2,
         al_meta = [(uni ''before'', account_meta u), (uni ''after'', account_meta u')]\<rparr>]\<rparr>"
    using log by (rule audit_event_Inr)
  moreover have "audit_log d1 = audit_log d" using get_current_user_frame [OF a(1)] by auto
  ultimately show ?thesis
    using own i c f a(2) row find_Some_mem [OF conjunct1 [OF row]]
    by (intro exI [of _ actor] exI [of _ u] exI [of _ u']) (simp add: d2)
qed

theorem update_user_sound_witness:
  "\<exists>rs d'. update_user \<lparr>co_int = (\<lambda>_. None), co_bool = (\<lambda>_. None)\<rparr> demoting_app 2 first_request
     ((signed UserRole.SUPER_ADMIN db0)\<lparr>users := [a_user 1 UserRole.SUPER_ADMIN, a_user 2 UserRole.SUPER_ADMIN]\<rparr>) =
     Inr (rs, d') \<and> a_user 1 UserRole.SUPER_ADMIN \<in> set (users d')"
proof -
  let ?d = "(signed UserRole.SUPER_ADMIN db0)\<lparr>users := [a_user 1 UserRole.SUPER_ADMIN, a_user 2 UserRole.SUPER_ADMIN]\<rparr>"
  let ?Y = "\<lparr>co_int = (\<lambda>_. None), co_bool = (\<lambda>_. None)\<rparr>"
  let ?t = "iss_token (fst first_session)"
  have "validated_token_hash (Some ?t) = Some (token_hash ?t)"
    using first_session(3) by (simp add: validated_token_hash_def)
  then have "\<exists>d1. get_current_user demoting_app first_request ?d = Inr (a_user 1 UserRole.SUPER_ADMIN, d1)"
    by (simp add: get_current_user_def the_app_def demoting_app_def first_request_def post_request_def cookie_def
        verify_session_def signed_def first_session(4) session_usable_def a_user_def seconds_def)
  then obtain d1 where u: "get_current_user demoting_app first_request ?d = Inr (a_user 1 UserRole.SUPER_ADMIN, d1)" by blast
  then have us: "users d1 = [a_user 1 UserRole.SUPER_ADMIN, a_user 2 UserRole.SUPER_ADMIN]"
    using get_current_user_frame by fastforce
  have body: "admin_json_body demoting_app MAX_BODY_BYTES first_request = Inr (JObj [(uni ''role'', JStr (uni ''user''))])"
    by (simp add: admin_json_body_def first_request_def post_request_def header_def demoting_app_def MAX_BODY_BYTES_def)
  have member: "enum_member UserRole_value (uni ''user'') = Some UserRole.USER" by code_simp
  have p: "user_update ?Y (JObj [(uni ''role'', JStr (uni ''user''))]) =
      Inr \<lparr>uu_display_name = None, uu_role = Some UserRole.USER, uu_is_active = None\<rparr>"
    by (simp add: user_update_def object_of_def jget_def optional_field_def role_field_def member)
  have c: "changed_account demoting_app \<lparr>uu_display_name = None, uu_role = Some UserRole.USER, uu_is_active = None\<rparr>
      (a_user 2 UserRole.SUPER_ADMIN) = Inr ((a_user 2 UserRole.SUPER_ADMIN)\<lparr>u_role := UserRole.USER\<rparr>)"
    by (simp add: changed_account_def)
  have ids: "u_id (a_user i role) = i" "u_is_active (a_user i role)" for i role by (simp_all add: a_user_def)
  have left: "remaining_super_admins 2 d1 = 1"
    by (simp add: remaining_super_admins_def us ids)
  obtain d3 where d3: "audit_event demoting_app first_request ''admin.user_updated'' (Some 1) (Some ''user'') (Some (uuid_str 2))
      [(uni ''before'', account_meta (a_user 2 UserRole.SUPER_ADMIN)),
       (uni ''after'', account_meta ((a_user 2 UserRole.SUPER_ADMIN)\<lparr>u_role := UserRole.USER\<rparr>))]
      (d1\<lparr>users := update_where (\<lambda>x. u_id x = 2) (\<lambda>_. (a_user 2 UserRole.SUPER_ADMIN)\<lparr>u_role := UserRole.USER\<rparr>) (users d1)\<rparr>) = Inr d3"
    using audit_event_works [of demoting_app] session_key_the_settings by (fastforce simp: the_app_def demoting_app_def)
  have "\<exists>rs. update_user ?Y demoting_app 2 first_request ?d = Inr (rs, d3)"
    unfolding update_user_def
    by (subst guarded_eq [OF u]) (use d3 in \<open>simp_all add: ADMIN_ROLES_def body p us ids c left\<close>)
  then obtain rs where run: "update_user ?Y demoting_app 2 first_request ?d = Inr (rs, d3)" by blast
  from update_user_sound [OF run] obtain actor u' where
    "users d3 = update_where (\<lambda>x. u_id x = 2) (\<lambda>_. u') (users ?d)" by blast
  then have "a_user 1 UserRole.SUPER_ADMIN \<in> set (users d3)"
    by (simp add: update_where_Cons ids)
  with run show ?thesis by blast
qed

text \<open>
  The type of a logo is read off its first octets, and that of WebP off the octets 8 to 11 alone: an SVG
  document that holds the word there is stored and served as an image.
\<close>

theorem svg_passes_as_webp:
  "detect_content_type (octets ''<svg a='' @ [39] @ octets ''WEBP'' @ [39] @ octets ''/>'') = Inr ''image/webp''"
  by (simp add: detect_content_type_def MAX_LOGO_BYTES_def SIGNATURES_def octets_def)

end
