(* ===== verification/Workspace.thy ===== *)
theory Workspace
  imports Administration
begin

text \<open>
  The read-only Google Workspace Directory client and the identity sync
  (\<open>src/app/google_workspace.py\<close>), and the route that runs it (\<open>sync_workspace\<close> of
  \<open>src/app/routers/admin.py\<close>). The network, the clock, JSON decoding, the RS256 signature and the value of a
  floating point number are parameters.
\<close>

section \<open>Data\<close>

record WorkspaceOrgUnit =
  ou_unit_path :: ustr
  ou_unit_name :: ustr

record WorkspaceUser =
  wu_external_id :: ustr
  wu_email :: ustr
  wu_display_name :: ustr
  wu_ou_path :: ustr
  wu_suspended :: bool

record SyncResult =
  sr_seen :: nat
  sr_deactivated :: nat

text \<open>What the client sends, and what it reads of an answer: status, size and decoded body.\<close>

datatype workspace_request =
    TokenRequest ustr ustr
  | DirectoryGet ustr "(string \<times> ustr) list" ustr

record workspace_response =
  wr_status :: nat
  wr_length :: nat
  wr_json :: "json option"

text \<open>
  \<open>wn_answer\<close> sees every request so far, the last one included, and raises what the transport raises;
  \<open>wn_time\<close> is \<open>time.time()\<close> after a number of requests; \<open>wn_sign\<close> fails for a text that is no RSA key;
  \<open>wn_float\<close> is \<open>int\<close> of a float.
\<close>

record workspace_net =
  wn_answer :: "workspace_request list \<Rightarrow> workspace_response res"
  wn_time :: "nat \<Rightarrow> rat"
  wn_loads :: "ustr \<Rightarrow> json option"
  wn_sign :: "ustr \<Rightarrow> bytes \<Rightarrow> bytes option"
  wn_float :: "string \<Rightarrow> int res"

record GoogleWorkspaceClient =
  gw_client_email :: ustr
  gw_private_key :: ustr
  gw_private_key_id :: ustr
  gw_token_uri :: ustr
  gw_subject :: ustr
  gw_access_token :: "ustr option"
  gw_expires_at :: rat
  gw_sent :: "workspace_request list"

section \<open>The client\<close>

text \<open>\<open>info[key]\<close> and \<open>str(...)\<close>.\<close>

definition required_text :: "unidata \<Rightarrow> (ustr \<times> json) list \<Rightarrow> string \<Rightarrow> ustr res" where
  "required_text U o' k = (case map_of o' (uni k) of None \<Rightarrow> Inl KeyError | Some v \<Rightarrow> Inr (py_str U v))"

definition https_prefix :: "ustr \<Rightarrow> bool" where
  "https_prefix s \<longleftrightarrow> take 8 s = uni ''https://''"

definition workspace_client :: "unidata \<Rightarrow> workspace_net \<Rightarrow> ustr \<Rightarrow> ustr \<Rightarrow> GoogleWorkspaceClient res" where
  "workspace_client U N service_account_json delegated_admin =
     (case wn_loads N service_account_json of
        Some (JObj info) \<Rightarrow>
          (case bind_res (required_text U info ''client_email'') (\<lambda>email.
                bind_res (required_text U info ''private_key'') (\<lambda>key.
                bind_res (required_text U info ''private_key_id'') (\<lambda>key_id.
                Inr (email, key, key_id)))) of
             Inl e \<Rightarrow> Inl WorkspaceConfigurationError
           | Inr (email, key, key_id) \<Rightarrow>
               (let uri = (case map_of info (uni ''token_uri'') of None \<Rightarrow> uni ''https://oauth2.googleapis.com/token''
                           | Some v \<Rightarrow> py_str U v)
                in if strip U delegated_admin = [] \<or> \<not> https_prefix uri then Inl WorkspaceConfigurationError
                   else Inr \<lparr>gw_client_email = email, gw_private_key = key, gw_private_key_id = key_id,
                     gw_token_uri = uri, gw_subject = casefold U (strip U delegated_admin),
                     gw_access_token = None, gw_expires_at = 0, gw_sent = []\<rparr>))
      | _ \<Rightarrow> Inl WorkspaceConfigurationError)"

text \<open>\<open>json.dumps(v, separators=(",", ":"), sort_keys=True)\<close>: ASCII only, other characters as UTF-16 escapes.\<close>

definition ascii_json_char :: "nat \<Rightarrow> ustr" where
  "ascii_json_char c =
     (if c = 34 \<or> c = 92 then [92, c]
      else if c = 10 then [92, 110] else if c = 13 then [92, 114] else if c = 9 then [92, 116]
      else if c = 12 then [92, 102] else if c = 8 then [92, 98]
      else if 32 \<le> c \<and> c < 127 then [c]
      else if c < 65536 then [92, 117] @ hex_of 4 c
      else [92, 117] @ hex_of 4 (55296 + (c - 65536) div 1024) @ [92, 117] @ hex_of 4 (56320 + (c - 65536) mod 1024))"

definition ascii_json_str :: "ustr \<Rightarrow> ustr" where
  "ascii_json_str s = [34] @ concat (map ascii_json_char s) @ [34]"

fun compact_json :: "json \<Rightarrow> ustr" where
  "compact_json JNull = uni ''null''"
| "compact_json (JBool b) = (if b then uni ''true'' else uni ''false'')"
| "compact_json (JInt n) = int_str n"
| "compact_json (JFloat s) = uni s"
| "compact_json (JStr s) = ascii_json_str s"
| "compact_json (JList vs) = [91] @ join_with [44] (map compact_json vs) @ [93]"
| "compact_json (JObj o') =
     [123] @ join_with [44] (map snd (sort_key fst
       (map (\<lambda>(k, v). (k, ascii_json_str k @ [58] @ compact_json v)) o'))) @ [125]"

definition b64_json :: "json \<Rightarrow> ustr" where
  "b64_json v = base64url (map word_of_nat (compact_json v))"

definition SCOPES :: ustr where
  "SCOPES = uni ''https://www.googleapis.com/auth/admin.directory.user.readonly '' @
     uni ''https://www.googleapis.com/auth/admin.directory.orgunit.readonly''"

definition jwt_assertion :: "workspace_net \<Rightarrow> GoogleWorkspaceClient \<Rightarrow> int \<Rightarrow> ustr res" where
  "jwt_assertion N c now =
     (let head = JObj [(uni ''alg'', JStr (uni ''RS256'')), (uni ''typ'', JStr (uni ''JWT'')), (uni ''kid'', JStr (gw_private_key_id c))];
          claims = JObj [(uni ''iss'', JStr (gw_client_email c)), (uni ''sub'', JStr (gw_subject c)),
            (uni ''aud'', JStr (gw_token_uri c)), (uni ''iat'', JInt now), (uni ''exp'', JInt (now + 3600)), (uni ''scope'', JStr SCOPES)];
          unsigned = b64_json head @ [46] @ b64_json claims
      in case wn_sign N (gw_private_key c) (map word_of_nat unsigned) of
           None \<Rightarrow> Inl WorkspaceConfigurationError
         | Some signature \<Rightarrow> Inr (unsigned @ [46] @ base64url signature))"

definition exchange :: "workspace_net \<Rightarrow> workspace_request \<Rightarrow> GoogleWorkspaceClient
    \<Rightarrow> workspace_response res \<times> GoogleWorkspaceClient" where
  "exchange N q c =
     (let sent = gw_sent c @ [q] in (wn_answer N sent, c\<lparr>gw_sent := sent\<rparr>))"

text \<open>\<open>int(value)\<close> of a JSON value; the other types raise \<open>TypeError\<close>.\<close>

definition json_int :: "unidata \<Rightarrow> workspace_net \<Rightarrow> json \<Rightarrow> int res" where
  "json_int U N v =
     (case v of
        JInt n \<Rightarrow> Inr n
      | JBool b \<Rightarrow> Inr (if b then 1 else 0)
      | JStr s \<Rightarrow> of_option ValueError (py_int U s)
      | JFloat s \<Rightarrow> wn_float N s
      | _ \<Rightarrow> Inl (OtherError ''TypeError''))"

definition token_answer :: "unidata \<Rightarrow> workspace_net \<Rightarrow> workspace_response \<Rightarrow> (ustr \<times> int) res" where
  "token_answer U N a =
     (if wr_status a \<noteq> 200 \<or> wr_length a > 64 * 1024 then Inl WorkspaceAPIError
      else case wr_json a of
          Some (JObj o') \<Rightarrow>
            (case map_of o' (uni ''access_token'') of
               None \<Rightarrow> Inl WorkspaceAPIError
             | Some token \<Rightarrow>
                 (case json_int U N (case map_of o' (uni ''expires_in'') of None \<Rightarrow> JInt 3600 | Some v \<Rightarrow> v) of
                    Inl e \<Rightarrow> Inl (if e = OtherError ''TypeError'' \<or> is_value_error e then WorkspaceAPIError else e)
                  | Inr expires_in \<Rightarrow>
                      (case token of JStr t \<Rightarrow> if t = [] then Inl WorkspaceAPIError else Inr (t, expires_in)
                       | _ \<Rightarrow> Inl WorkspaceAPIError)))
        | _ \<Rightarrow> Inl WorkspaceAPIError)"

definition fresh_token :: "unidata \<Rightarrow> workspace_net \<Rightarrow> rat \<Rightarrow> GoogleWorkspaceClient
    \<Rightarrow> ustr res \<times> GoogleWorkspaceClient" where
  "fresh_token U N now c =
     (case jwt_assertion N c (\<lfloor>now\<rfloor>) of
        Inl e \<Rightarrow> (Inl e, c)
      | Inr assertion \<Rightarrow>
          (let (a, c) = exchange N (TokenRequest (gw_token_uri c) assertion) c in
           case bind_res a (token_answer U N) of
             Inl e \<Rightarrow> (Inl e, c)
           | Inr (token, expires_in) \<Rightarrow>
               (Inr token, c\<lparr>gw_access_token := Some token,
                             gw_expires_at := now + of_int (max 60 (min expires_in 3600))\<rparr>)))"

definition access_token :: "unidata \<Rightarrow> workspace_net \<Rightarrow> GoogleWorkspaceClient
    \<Rightarrow> ustr res \<times> GoogleWorkspaceClient" where
  "access_token U N c =
     (let now = wn_time N (length (gw_sent c)) in
      case gw_access_token c of
        Some t \<Rightarrow> if now < gw_expires_at c - 60 then (Inr t, c) else fresh_token U N now c
      | None \<Rightarrow> fresh_token U N now c)"

definition DIRECTORY_ROOT :: ustr where
  "DIRECTORY_ROOT = uni ''https://admin.googleapis.com/admin/directory/v1''"

definition MAX_DIRECTORY_BYTES :: nat where
  "MAX_DIRECTORY_BYTES = 8 * 1024 * 1024"

definition get_json :: "unidata \<Rightarrow> workspace_net \<Rightarrow> ustr \<Rightarrow> (string \<times> ustr) list \<Rightarrow> GoogleWorkspaceClient
    \<Rightarrow> (ustr \<times> json) list res \<times> GoogleWorkspaceClient" where
  "get_json U N url params c =
     (case access_token U N c of
        (Inl e, c) \<Rightarrow> (Inl e, c)
      | (Inr token, c) \<Rightarrow>
          (let (a, c) = exchange N (DirectoryGet url params token) c in
           (bind_res a (\<lambda>a.
              if wr_status a \<noteq> 200 then Inl WorkspaceAPIError
              else if wr_length a > MAX_DIRECTORY_BYTES then Inl WorkspaceAPIError
              else case wr_json a of Some (JObj o') \<Rightarrow> Inr o' | _ \<Rightarrow> Inl WorkspaceAPIError), c)))"

definition org_unit :: "unidata \<Rightarrow> json \<Rightarrow> WorkspaceOrgUnit list" where
  "org_unit U raw =
     (case raw of
        JObj o' \<Rightarrow>
          (case jget o' (uni ''orgUnitPath'') of
             JStr path \<Rightarrow> [\<lparr>ou_unit_path = path,
               ou_unit_name = (case map_of o' (uni ''name'') of None \<Rightarrow> [] | Some v \<Rightarrow> py_str U v)\<rparr>]
           | _ \<Rightarrow> [])
      | _ \<Rightarrow> [])"

definition list_org_units :: "unidata \<Rightarrow> workspace_net \<Rightarrow> ustr \<Rightarrow> GoogleWorkspaceClient
    \<Rightarrow> WorkspaceOrgUnit list res \<times> GoogleWorkspaceClient" where
  "list_org_units U N customer c =
     (let (data, c) = get_json U N (DIRECTORY_ROOT @ uni ''/customer/'' @ customer @ uni ''/orgunits'') [(''type'', uni ''ALL'')] c in
      (bind_res data (\<lambda>data.
         case map_of data (uni ''organizationUnits'') of
           None \<Rightarrow> Inr []
         | Some (JList raw_units) \<Rightarrow> Inr (concat (map (org_unit U) raw_units))
         | _ \<Rightarrow> Inl WorkspaceAPIError), c))"

definition parse_workspace_user :: "unidata \<Rightarrow> json \<Rightarrow> WorkspaceUser option" where
  "parse_workspace_user U raw =
     (case raw of
        JObj o' \<Rightarrow>
          (case (jget o' (uni ''id''), jget o' (uni ''primaryEmail'')) of
             (JStr external_id, JStr email) \<Rightarrow>
               (let display = (case jget o' (uni ''name'') of JObj n \<Rightarrow> jget n (uni ''fullName'') | _ \<Rightarrow> JNull) in
                case normalize_email U email of
                  Inl e \<Rightarrow> None
                | Inr normalized_email \<Rightarrow>
                    Some \<lparr>wu_external_id = external_id, wu_email = normalized_email,
                      wu_display_name = (case display of JStr s \<Rightarrow> if s = [] then email else s | _ \<Rightarrow> email),
                      wu_ou_path = (case map_of o' (uni ''orgUnitPath'') of None \<Rightarrow> uni ''/'' | Some v \<Rightarrow> py_str U v),
                      wu_suspended = (jget o' (uni ''suspended'') = JBool True)\<rparr>)
           | _ \<Rightarrow> None)
      | _ \<Rightarrow> None)"

definition page_params :: "ustr \<Rightarrow> ustr option \<Rightarrow> (string \<times> ustr) list" where
  "page_params customer page_token =
     [(''customer'', customer), (''maxResults'', uni ''500''), (''orderBy'', uni ''email''), (''projection'', uni ''basic''),
      (''viewType'', uni ''admin_view'')] @
     (case page_token of None \<Rightarrow> [] | Some t \<Rightarrow> if t = [] then [] else [(''pageToken'', t)])"

definition users_page :: "unidata \<Rightarrow> (ustr \<times> json) list \<Rightarrow> ustr option \<Rightarrow> (WorkspaceUser list \<times> ustr option) res" where
  "users_page U data page_token =
     bind_res (case map_of data (uni ''users'') of None \<Rightarrow> Inr [] | Some (JList vs) \<Rightarrow> Inr vs | _ \<Rightarrow> Inl WorkspaceAPIError)
       (\<lambda>raw_users.
     let us = concat (map (\<lambda>raw. case parse_workspace_user U raw of None \<Rightarrow> [] | Some w \<Rightarrow> [w]) raw_users) in
     case jget data (uni ''nextPageToken'') of
       JNull \<Rightarrow> Inr (us, None)
     | JStr t \<Rightarrow> if t = [] \<or> Some t = page_token then Inl WorkspaceAPIError else Inr (us, Some t)
     | _ \<Rightarrow> Inl WorkspaceAPIError)"

fun list_pages :: "unidata \<Rightarrow> workspace_net \<Rightarrow> ustr \<Rightarrow> nat \<Rightarrow> ustr option \<Rightarrow> WorkspaceUser list
    \<Rightarrow> GoogleWorkspaceClient \<Rightarrow> WorkspaceUser list res \<times> GoogleWorkspaceClient" where
  "list_pages U N customer 0 page_token acc c = (Inl WorkspaceAPIError, c)"
| "list_pages U N customer (Suc n) page_token acc c =
     (let (data, c) = get_json U N (DIRECTORY_ROOT @ uni ''/users'') (page_params customer page_token) c in
      case bind_res data (\<lambda>data. users_page U data page_token) of
        Inl e \<Rightarrow> (Inl e, c)
      | Inr (us, None) \<Rightarrow> (Inr (acc @ us), c)
      | Inr (us, Some t) \<Rightarrow> list_pages U N customer n (Some t) (acc @ us) c)"

definition MAX_PAGES :: nat where
  "MAX_PAGES = 10000"

definition list_users :: "unidata \<Rightarrow> workspace_net \<Rightarrow> ustr \<Rightarrow> GoogleWorkspaceClient
    \<Rightarrow> WorkspaceUser list res \<times> GoogleWorkspaceClient" where
  "list_users U N customer c = list_pages U N customer MAX_PAGES None [] c"

definition configured_workspace_client :: "app \<Rightarrow> workspace_net \<Rightarrow> db \<Rightarrow> GoogleWorkspaceClient res" where
  "configured_workspace_client A N d =
     bind_res (read_many (ap_gcm A) (ap_settings A)
       [GOOGLE_WORKSPACE_SERVICE_ACCOUNT_JSON, GOOGLE_WORKSPACE_DELEGATED_ADMIN] d) (\<lambda>vs.
     case (map_of vs GOOGLE_WORKSPACE_SERVICE_ACCOUNT_JSON, map_of vs GOOGLE_WORKSPACE_DELEGATED_ADMIN) of
       (Some service_account, Some delegated_admin) \<Rightarrow>
         if service_account = [] \<or> delegated_admin = [] then Inl PlatformSettingError
         else workspace_client (ap_unidata A) N service_account delegated_admin
     | _ \<Rightarrow> Inl PlatformSettingError)"

section \<open>The sync\<close>

text \<open>
  One upsert: the address decides which row it is, and \<open>google_sub\<close> is unique over all rows, so a row of
  another address that holds the identity makes the statement fail.
\<close>

definition sync_user :: "unidata \<Rightarrow> WorkspaceUser \<Rightarrow> db \<Rightarrow> db res" where
  "sync_user U item d =
     (let email = casefold U (wu_email item);
          (i, d) = uuid4 d;
          (t, row, is_new) = upsert (\<lambda>u. u_email u = email)
            (\<lambda>u. u\<lparr>u_display_name := wu_display_name item, u_ou_path := Some (wu_ou_path item),
                   u_is_active := \<not> wu_suspended item, u_google_sub := Some (wu_external_id item)\<rparr>)
            \<lparr>u_id = i, u_email = email, u_google_sub = Some (wu_external_id item),
             u_display_name = wu_display_name item, u_ou_path = Some (wu_ou_path item), u_role = UserRole.USER,
             u_is_active = (\<not> wu_suspended item), u_source = UserSource.WORKSPACE_SYNC,
             u_created_at = tx_now d, u_last_login_at = None\<rparr>
            (users d)
      in if \<exists>u \<in> set t. u_google_sub u = Some (wu_external_id item) \<and> u_email u \<noteq> email
         then Inl IntegrityError else Inr (d\<lparr>users := t\<rparr>))"

fun sync_users :: "unidata \<Rightarrow> WorkspaceUser list \<Rightarrow> db \<Rightarrow> db res" where
  "sync_users U [] d = Inr d"
| "sync_users U (item # items) d = bind_res (sync_user U item d) (sync_users U items)"

definition departed :: "ustr set \<Rightarrow> User \<Rightarrow> bool" where
  "departed active_emails u \<longleftrightarrow>
     u_source u = UserSource.WORKSPACE_SYNC \<and> u_is_active u \<and> u_email u \<notin> active_emails"

definition sync_workspace_users :: "unidata \<Rightarrow> WorkspaceUser list \<Rightarrow> db \<Rightarrow> (SyncResult \<times> db) res" where
  "sync_workspace_users U items d =
     bind_res (sync_users U items d) (\<lambda>d.
     let gone = departed (set (map (\<lambda>w. casefold U (wu_email w)) items)) in
     Inr (\<lparr>sr_seen = length items, sr_deactivated = rowcount gone (users d)\<rparr>,
          d\<lparr>users := update_where gone (\<lambda>u. u\<lparr>u_is_active := False\<rparr>) (users d)\<rparr>))"

text \<open>A failed sync is written to the audit log of a transaction the raised exception then rolls back.\<close>

definition workspace_failure :: "exn \<Rightarrow> bool" where
  "workspace_failure e \<longleftrightarrow> e \<in> {PlatformSettingError, WorkspaceAPIError, WorkspaceConfigurationError}"

definition sync_workspace :: "workspace_net \<Rightarrow> app \<Rightarrow> handler" where
  "sync_workspace N A = guarded ADMIN_ROLES A (\<lambda>actor r d.
     case bind_res (configured_workspace_client A N d) (\<lambda>c. fst (list_users (ap_unidata A) N (uni ''my_customer'') c)) of
       Inl e \<Rightarrow>
         if workspace_failure e
         then bind_res (audit_event A r ''admin.workspace_sync_failed'' (Some (u_id actor)) (Some ''workspace'') None
                [(uni ''reason'', JStr (uni (exn_name e)))] d) (\<lambda>d. Inl (HTTPException 502))
         else Inl e
     | Inr items \<Rightarrow>
         bind_res (sync_workspace_users (ap_unidata A) items d) (\<lambda>(result, d).
         bind_res (audit_event A r ''admin.workspace_synced'' (Some (u_id actor)) (Some ''workspace'') None
           [(uni ''seen'', JInt (int (sr_seen result))), (uni ''deactivated'', JInt (int (sr_deactivated result)))] d) (\<lambda>d.
         Inr (respond 200 (Json (JObj [(uni ''seen'', JInt (int (sr_seen result))),
                (uni ''deactivated'', JInt (int (sr_deactivated result)))])), d))))"

section \<open>What a sync does\<close>

text \<open>The same account: nothing a sync may not change has changed.\<close>

definition same_account :: "User \<Rightarrow> User \<Rightarrow> bool" where
  "same_account u v \<longleftrightarrow> u_id u = u_id v \<and> u_email u = u_email v \<and> u_role u = u_role v \<and> u_source u = u_source v \<and>
     u_created_at u = u_created_at v \<and> u_last_login_at u = u_last_login_at v"

definition listed :: "unidata \<Rightarrow> WorkspaceUser list \<Rightarrow> ustr set" where
  "listed U items = (\<lambda>w. casefold U (wu_email w)) ` set items"

definition as_listed :: "unidata \<Rightarrow> WorkspaceUser list \<Rightarrow> User \<Rightarrow> bool" where
  "as_listed U items u \<longleftrightarrow> (\<exists>w \<in> set items. u_email u = casefold U (wu_email w) \<and>
     u_is_active u = (\<not> wu_suspended w) \<and> u_google_sub u = Some (wu_external_id w) \<and>
     u_display_name u = wu_display_name w \<and> u_ou_path u = Some (wu_ou_path w))"

definition synced :: "unidata \<Rightarrow> WorkspaceUser list \<Rightarrow> User list \<Rightarrow> User list \<Rightarrow> bool" where
  "synced U items us vs \<longleftrightarrow>
     (\<forall>u \<in> set us. \<exists>v \<in> set vs. same_account u v \<and> (u_email u \<notin> listed U items \<longrightarrow> v = u)) \<and>
     (\<forall>v \<in> set vs. (\<exists>u \<in> set us. same_account u v \<and> (u_email u \<notin> listed U items \<longrightarrow> v = u)) \<or>
        (u_role v = UserRole.USER \<and> u_source v = UserSource.WORKSPACE_SYNC \<and> u_email v \<in> listed U items)) \<and>
     (\<forall>v \<in> set vs. u_email v \<in> listed U items \<longrightarrow> as_listed U items v) \<and>
     listed U items \<subseteq> u_email ` set vs"

lemma synced_parts:
  assumes "synced U items us vs"
  shows synced_old: "u \<in> set us \<Longrightarrow> \<exists>v \<in> set vs. same_account u v \<and> (u_email u \<notin> listed U items \<longrightarrow> v = u)"
    and synced_new: "v \<in> set vs \<Longrightarrow> (\<exists>u \<in> set us. same_account u v \<and> (u_email u \<notin> listed U items \<longrightarrow> v = u)) \<or>
      (u_role v = UserRole.USER \<and> u_source v = UserSource.WORKSPACE_SYNC \<and> u_email v \<in> listed U items)"
    and synced_as: "v \<in> set vs \<Longrightarrow> u_email v \<in> listed U items \<Longrightarrow> as_listed U items v"
    and synced_all: "e \<in> listed U items \<Longrightarrow> \<exists>v \<in> set vs. u_email v = e"
  using assms by (auto simp: synced_def)

lemma same_account_refl [simp]: "same_account u u"
  by (simp add: same_account_def)

lemma same_account_trans: "same_account u v \<Longrightarrow> same_account v w \<Longrightarrow> same_account u w"
  by (simp add: same_account_def)

lemma sync_user_Inr:
  assumes "sync_user U w d = Inr d'"
  shows "synced U [w] (users d) (users d')"
proof -
  let ?e = "casefold U (wu_email w)"
  let ?f = "\<lambda>u. u\<lparr>u_display_name := wu_display_name w, u_ou_path := Some (wu_ou_path w),
    u_is_active := \<not> wu_suspended w, u_google_sub := Some (wu_external_id w)\<rparr>"
  show ?thesis
  proof (cases "find (\<lambda>u. u_email u = ?e) (users d)")
    case None
    then have new: "\<And>u. u \<in> set (users d) \<Longrightarrow> u_email u \<noteq> ?e" by (simp add: find_None)
    let ?x = "\<lparr>u_id = next_uuid d, u_email = ?e, u_google_sub = Some (wu_external_id w),
       u_display_name = wu_display_name w, u_ou_path = Some (wu_ou_path w), u_role = UserRole.USER,
       u_is_active = (\<not> wu_suspended w), u_source = UserSource.WORKSPACE_SYNC,
       u_created_at = tx_now d, u_last_login_at = None\<rparr>"
    have "users d' = users d @ [?x]"
      using assms None by (auto simp: sync_user_def upsert_def uuid4_eq Let_def split: if_splits)
    with new show ?thesis by (auto simp: synced_def listed_def as_listed_def)
  next
    case (Some r)
    then have "users d' = update_where (\<lambda>u. u_email u = ?e) ?f (users d)" "r \<in> set (users d)" "u_email r = ?e"
      using assms Some find_Some_mem [OF Some] by (auto simp: sync_user_def upsert_def uuid4_eq Let_def split: if_splits)
    then have mem: "set (users d') = (\<lambda>u. if u_email u = ?e then ?f u else u) ` set (users d)"
      and r: "r \<in> set (users d)" "u_email r = ?e"
      by (simp_all add: set_update_where)
    have l: "listed U [w] = {?e}" by (simp add: listed_def)
    let ?g = "\<lambda>u. if u_email u = ?e then ?f u else u"
    have g: "same_account u (?g u) \<and> (u_email u \<notin> {?e} \<longrightarrow> ?g u = u)" for u
      by (simp add: same_account_def)
    have "as_listed U [w] (?g u)" if "u_email (?g u) \<in> {?e}" for u
      using that by (auto simp: as_listed_def split: if_splits)
    moreover have "?e \<in> u_email ` ?g ` set (users d)"
      using imageI [OF imageI [OF r(1), of ?g], of u_email] r(2) by simp
    ultimately show ?thesis
      using g unfolding synced_def l mem by blast
  qed
qed

lemma synced_Cons:
  assumes 1: "synced U [w] us vs" and 2: "synced U ws vs xs"
  shows "synced U (w # ws) us xs"
proof -
  have l: "listed U (w # ws) = insert (casefold U (wu_email w)) (listed U ws)" "listed U [w] = {casefold U (wu_email w)}"
    by (simp_all add: listed_def)
  have al: "as_listed U [w] u \<Longrightarrow> as_listed U (w # ws) u" "as_listed U ws u \<Longrightarrow> as_listed U (w # ws) u" for u
    by (auto simp: as_listed_def)
  have em: "same_account u v \<Longrightarrow> u_email u = u_email v" for u v by (simp add: same_account_def)
  have "\<exists>x \<in> set xs. same_account u x \<and> (u_email u \<notin> listed U (w # ws) \<longrightarrow> x = u)" if "u \<in> set us" for u
  proof -
    obtain v where v: "v \<in> set vs" "same_account u v" "u_email u \<notin> listed U [w] \<longrightarrow> v = u"
      using synced_old [OF 1 \<open>u \<in> set us\<close>] by blast
    obtain x where x: "x \<in> set xs" "same_account v x" "u_email v \<notin> listed U ws \<longrightarrow> x = v"
      using synced_old [OF 2 v(1)] by blast
    have "u_email u \<notin> listed U (w # ws) \<longrightarrow> x = u"
      unfolding l(1) using v(3) x(3) em [OF v(2)] l(2) by simp
    with x(1) same_account_trans [OF v(2) x(2)] show ?thesis by blast
  qed
  moreover have "(\<exists>u \<in> set us. same_account u x \<and> (u_email u \<notin> listed U (w # ws) \<longrightarrow> x = u)) \<or>
      (u_role x = UserRole.USER \<and> u_source x = UserSource.WORKSPACE_SYNC \<and> u_email x \<in> listed U (w # ws))"
    if "x \<in> set xs" for x
  proof (cases "u_role x = UserRole.USER \<and> u_source x = UserSource.WORKSPACE_SYNC \<and> u_email x \<in> listed U (w # ws)")
    case False
    then obtain v where v: "v \<in> set vs" "same_account v x" "u_email v \<notin> listed U ws \<longrightarrow> x = v"
      using synced_new [OF 2 \<open>x \<in> set xs\<close>] l by blast
    then have "\<not> (u_role v = UserRole.USER \<and> u_source v = UserSource.WORKSPACE_SYNC \<and> u_email v \<in> listed U [w])"
      using False l by (auto simp: same_account_def)
    then obtain u where u: "u \<in> set us" "same_account u v" "u_email u \<notin> listed U [w] \<longrightarrow> v = u"
      using synced_new [OF 1 v(1)] by blast
    have "u_email u \<notin> listed U (w # ws) \<longrightarrow> x = u"
      unfolding l(1) using u(3) v(3) em [OF u(2)] l(2) by simp
    with u(1) same_account_trans [OF u(2) v(2)] show ?thesis by blast
  qed simp
  moreover have "as_listed U (w # ws) x" if x: "x \<in> set xs" "u_email x \<in> listed U (w # ws)" for x
  proof (cases "u_email x \<in> listed U ws")
    case True
    with synced_as [OF 2 x(1)] al show ?thesis by blast
  next
    case False
    then obtain v where "v \<in> set vs" "same_account v x" "u_email v \<notin> listed U ws \<longrightarrow> x = v"
      using synced_new [OF 2 x(1)] by blast
    with False em have "x \<in> set vs" by metis
    moreover have "u_email x \<in> listed U [w]" using x(2) False l by auto
    ultimately show ?thesis using synced_as [OF 1] al by blast
  qed
  moreover have "listed U (w # ws) \<subseteq> u_email ` set xs"
  proof -
    obtain v where v: "v \<in> set vs" "u_email v = casefold U (wu_email w)"
      using synced_all [OF 1, of "casefold U (wu_email w)"] l by auto
    then obtain x where "x \<in> set xs" "u_email x = casefold U (wu_email w)"
      using synced_old [OF 2 v(1)] em by metis
    then have "casefold U (wu_email w) \<in> u_email ` set xs" by (metis imageI)
    moreover have "listed U ws \<subseteq> u_email ` set xs" using 2 by (simp add: synced_def)
    ultimately show ?thesis by (simp add: l(1))
  qed
  ultimately show ?thesis unfolding synced_def by blast
qed

lemma sync_users_synced: "sync_users U items d = Inr d' \<Longrightarrow> synced U items (users d) (users d')"
proof (induction items arbitrary: d)
  case Nil
  then show ?case by (auto simp: synced_def listed_def)
next
  case (Cons w ws)
  then obtain d1 where "sync_user U w d = Inr d1" "sync_users U ws d1 = Inr d'"
    by (auto simp: bind_res_Inr_iff)
  with Cons.IH sync_user_Inr synced_Cons show ?case by blast
qed

text \<open>
  C31. A sync never deletes an account and never changes a role, an address or an origin. Listed accounts
  end up as the directory describes them, new ones as ordinary users; accounts the sync created and the
  directory no longer lists are deactivated; every other account is left exactly as it was.
\<close>

theorem sync_is_additive:
  assumes "sync_workspace_users U items d = Inr (res, d')"
  shows "(\<forall>u \<in> set (users d). \<exists>v \<in> set (users d'). same_account u v) \<and>
    (\<forall>u \<in> set (users d). u_email u \<notin> listed U items \<and> u_source u \<noteq> UserSource.WORKSPACE_SYNC \<longrightarrow> u \<in> set (users d')) \<and>
    (\<forall>v \<in> set (users d'). u_email v \<in> listed U items \<longrightarrow> as_listed U items v) \<and>
    (\<forall>v \<in> set (users d'). u_email v \<notin> listed U items \<and> u_source v = UserSource.WORKSPACE_SYNC \<longrightarrow> \<not> u_is_active v) \<and>
    (\<forall>v \<in> set (users d'). (\<exists>u \<in> set (users d). same_account u v) \<or> u_role v = UserRole.USER) \<and>
    listed U items \<subseteq> u_email ` set (users d') \<and> sr_seen res = length items"
proof -
  let ?gone = "departed (listed U items)"
  obtain d1 where run: "sync_users U items d = Inr d1" and res: "sr_seen res = length items"
    and us: "users d' = update_where ?gone (\<lambda>u. u\<lparr>u_is_active := False\<rparr>) (users d1)"
    using assms by (auto simp: sync_workspace_users_def bind_res_Inr_iff Let_def listed_def)
  note s = synced_parts [OF sync_users_synced [OF run]]
  have mem: "set (users d') = (\<lambda>v. if ?gone v then v\<lparr>u_is_active := False\<rparr> else v) ` set (users d1)"
    by (simp add: us set_update_where)
  have same: "same_account u v \<Longrightarrow> same_account u (if ?gone v then v\<lparr>u_is_active := False\<rparr> else v)" for u v
    by (simp add: same_account_def)
  have "\<exists>v \<in> set (users d'). same_account u v" if "u \<in> set (users d)" for u
  proof -
    obtain v where "v \<in> set (users d1)" "same_account u v" using s(1) [OF \<open>u \<in> set (users d)\<close>] by blast
    with same show ?thesis unfolding mem by blast
  qed
  moreover have "u \<in> set (users d')"
    if "u \<in> set (users d)" "u_email u \<notin> listed U items" "u_source u \<noteq> UserSource.WORKSPACE_SYNC" for u
  proof -
    have "u \<in> set (users d1)" "\<not> ?gone u" using s(1) [OF that(1)] that by (auto simp: departed_def)
    then show ?thesis by (force simp: mem)
  qed
  moreover have "as_listed U items v" if "v \<in> set (users d')" "u_email v \<in> listed U items" for v
  proof -
    obtain x where "x \<in> set (users d1)" "v = (if ?gone x then x\<lparr>u_is_active := False\<rparr> else x)"
      using \<open>v \<in> set (users d')\<close> unfolding mem by blast
    with that(2) s(3) show ?thesis by (auto simp: departed_def split: if_splits)
  qed
  moreover have "\<not> u_is_active v"
    if "v \<in> set (users d')" "u_email v \<notin> listed U items" "u_source v = UserSource.WORKSPACE_SYNC" for v
    using that by (auto simp: mem departed_def split: if_splits)
  moreover have "(\<exists>u \<in> set (users d). same_account u v) \<or> u_role v = UserRole.USER" if "v \<in> set (users d')" for v
  proof -
    obtain x where x: "x \<in> set (users d1)" "same_account x v" using \<open>v \<in> set (users d')\<close> same [OF same_account_refl] unfolding mem by blast
    from s(2) [OF x(1)] show ?thesis
    proof
      assume "\<exists>u \<in> set (users d). same_account u x \<and> (u_email u \<notin> listed U items \<longrightarrow> x = u)"
      with x(2) same_account_trans show ?thesis by blast
    qed (use x(2) in \<open>simp add: same_account_def\<close>)
  qed
  moreover have "listed U items \<subseteq> u_email ` set (users d')"
  proof
    fix e assume "e \<in> listed U items"
    then obtain v where v: "v \<in> set (users d1)" "u_email v = e" using s(4) by blast
    with same [OF same_account_refl, of v] have "u_email (if ?gone v then v\<lparr>u_is_active := False\<rparr> else v) = e"
      by (simp add: same_account_def)
    with v(1) show "e \<in> u_email ` set (users d')" unfolding mem by blast
  qed
  ultimately show ?thesis using res by blast
qed

text \<open>
  When the directory lists a known identity under a new address, the statement violates the uniqueness of
  identities and the whole sync fails: nothing is deactivated.
\<close>

theorem renamed_account_fails_sync:
  assumes "u \<in> set (users d)" and "u_google_sub u = Some (wu_external_id w)"
    and "u_email u \<noteq> casefold U (wu_email w)"
  shows "sync_workspace_users U (w # items) d = Inl IntegrityError"
proof -
  have "\<exists>x \<in> set (fst (upsert (\<lambda>u. u_email u = casefold U (wu_email w)) f new (users d))).
      u_google_sub x = Some (wu_external_id w) \<and> u_email x \<noteq> casefold U (wu_email w)" for f new
    using assms by (intro bexI [of _ u]) (auto simp: upsert_def set_update_where split: option.split)
  then have "sync_user U w d = Inl IntegrityError"
    by (simp add: sync_user_def Let_def uuid4_eq split: prod.split) (metis fst_conv)
  then show ?thesis by (simp add: sync_workspace_users_def)
qed

text \<open>
  A sync that fails is answered with 502, and the audit entry written for it is lost: the transaction
  is rolled back with it.
\<close>

theorem failed_sync_leaves_no_trace:
  assumes "bind_res (configured_workspace_client A N d1) (\<lambda>c. fst (list_users (ap_unidata A) N (uni ''my_customer'') c)) = Inl e"
    and "workspace_failure e" and "get_current_user A r d = Inr (u, d1)" and "u_role u = UserRole.SUPER_ADMIN"
    and "session_key (ap_settings A) = Inr k"
  shows "in_transaction (sync_workspace N A) r d = (error_response (HTTPException 502), d)"
proof -
  obtain d2 where "audit_event A r ''admin.workspace_sync_failed'' (Some (u_id u)) (Some ''workspace'') None
      [(uni ''reason'', JStr (uni (exn_name e)))] d1 = Inr d2"
    using audit_event_works [OF assms(5)] by blast
  moreover have "u_role u \<in> set ADMIN_ROLES" using assms(4) by (simp add: ADMIN_ROLES_def)
  ultimately have "sync_workspace N A r d = Inl (HTTPException 502)"
    using assms(1,2) by (simp add: sync_workspace_def guarded_eq [OF assms(3)])
  then show ?thesis by (simp add: in_transaction_def)
qed

section \<open>Sample syncs\<close>

definition a_member :: WorkspaceUser where
  "a_member = \<lparr>wu_external_id = uni ''77'', wu_email = uni ''new@example.org'', wu_display_name = uni ''New'',
     wu_ou_path = uni ''/'', wu_suspended = False\<rparr>"

lemma a_member_email: "casefold ascii_unidata (wu_email a_member) = uni ''new@example.org''"
  by code_simp

lemma a_user_email: "u_email (a_user i role) = uni ''a@example.org''" "u_google_sub (a_user i role) = None"
  by (simp_all add: a_user_def)

theorem sync_is_additive_witness:
  "\<exists>res d'. sync_workspace_users ascii_unidata [a_member] (db0\<lparr>users := [a_user 1 UserRole.SUPER_ADMIN]\<rparr>) = Inr (res, d') \<and>
     a_user 1 UserRole.SUPER_ADMIN \<in> set (users d')"
proof -
  let ?d = "db0\<lparr>users := [a_user 1 UserRole.SUPER_ADMIN]\<rparr>"
  obtain x where x: "sync_workspace_users ascii_unidata [a_member] ?d = Inr x"
    by (simp add: sync_workspace_users_def sync_user_def upsert_def uuid4_eq a_member_email a_user_email Let_def)
  then obtain res d' where run: "sync_workspace_users ascii_unidata [a_member] ?d = Inr (res, d')" by (cases x) auto
  have "u_email (a_user 1 UserRole.SUPER_ADMIN) \<notin> listed ascii_unidata [a_member]"
    by (simp add: listed_def a_member_email a_user_email)
  moreover have "u_source (a_user 1 UserRole.SUPER_ADMIN) \<noteq> UserSource.WORKSPACE_SYNC" by (simp add: a_user_def)
  ultimately have "a_user 1 UserRole.SUPER_ADMIN \<in> set (users d')"
    using sync_is_additive [OF run] by simp
  with run show ?thesis by blast
qed

theorem renamed_account_fails_sync_witness:
  "sync_workspace_users ascii_unidata [a_member]
     (db0\<lparr>users := [(a_user 1 UserRole.USER)\<lparr>u_google_sub := Some (uni ''77'')\<rparr>]\<rparr>) = Inl IntegrityError"
  by (rule renamed_account_fails_sync [of "(a_user 1 UserRole.USER)\<lparr>u_google_sub := Some (uni ''77'')\<rparr>"])
    (simp_all add: a_member_email a_user_email, simp add: a_member_def)

definition dead_net :: workspace_net where
  "dead_net = \<lparr>wn_answer = (\<lambda>_. Inl WorkspaceAPIError), wn_time = (\<lambda>_. 0), wn_loads = (\<lambda>_. None),
     wn_sign = (\<lambda>_ _. None), wn_float = (\<lambda>_. Inl ValueError)\<rparr>"

theorem failed_sync_leaves_no_trace_witness:
  "in_transaction (sync_workspace dead_net the_app) first_request (signed UserRole.SUPER_ADMIN db0) =
     (error_response (HTTPException 502), signed UserRole.SUPER_ADMIN db0)"
proof -
  obtain ss where u: "get_current_user the_app first_request (signed UserRole.SUPER_ADMIN db0) =
      Inr (a_user 1 UserRole.SUPER_ADMIN, (signed UserRole.SUPER_ADMIN db0)\<lparr>sessions := ss\<rparr>)"
    by (rule signed_user)
  show ?thesis
    by (rule failed_sync_leaves_no_trace [OF _ _ u, of dead_net PlatformSettingError])
      (use session_key_the_settings in \<open>auto simp: configured_workspace_client_def read_setting_def signed_def db0_def
        empty_db_def workspace_failure_def the_app_def\<close>)
qed

end
