(* ===== verification/AnalystViews.thy ===== *)
theory AnalystViews
  imports Operations
begin

text \<open>
  The pages of the analyst workflow (\<open>src/app/analyst_ui.py\<close>): the dashboard, the progress of a scan, and
  the history of a subject with its findings and events. The markup of the history does not depend on what
  the vendor or a user wrote.
\<close>

section \<open>Views\<close>

record FindingView =
  fv_id :: uuid
  fv_source :: ustr
  fv_breach_date :: "date option"
  fv_breach_date_text :: "ustr option"
  fv_collected_date :: "date option"
  fv_fields :: "ustr list"
  fv_email :: "ustr option"
  fv_username :: "ustr option"
  fv_phone :: "ustr option"
  fv_origin :: "ustr option"
  fv_url :: "ustr option"
  fv_password_mask :: "ustr option"
  fv_has_password :: bool
  fv_remediated_at :: "datetime option"
  fv_re_leaked :: bool
  fv_first_seen_at :: datetime
  fv_last_seen_at :: datetime
  fv_raw :: "(ustr \<times> json) list"

record EventView =
  evv_event :: FindingEventType
  evv_at :: datetime
  evv_actor :: "ustr option"
  evv_meta :: "(ustr \<times> json) list"

record RecentSubject =
  rec_subject :: Subject
  rec_actor :: "ustr option"
  rec_trigger :: "ScanTrigger option"

text \<open>\<open>value or ""\<close> for an optional text.\<close>

definition text_or_empty :: "ustr option \<Rightarrow> ustr" where
  "text_or_empty v = (case v of None \<Rightarrow> [] | Some t \<Rightarrow> t)"

definition attribution :: "RecentSubject \<Rightarrow> ustr" where
  "attribution item =
     (if text_or_empty (rec_actor item) \<noteq> [] then text_or_empty (rec_actor item)
      else if rec_trigger item = Some ScanTrigger.SCHEDULED then uni ''scheduled scan''
      else if rec_trigger item = Some ScanTrigger.BATCH then uni ''batch scan''
      else if rec_trigger item = Some ScanTrigger.SELF then uni ''self-check''
      else uni ''unknown'')"

section \<open>Dashboard\<close>

definition KINDS :: "SubjectKind list" where
  "KINDS = [SubjectKind.DOMAIN, SubjectKind.EMAIL, SubjectKind.PASSWORD, SubjectKind.USERNAME,
     SubjectKind.ORIGIN, SubjectKind.PHONE]"

fun check_description :: "SubjectKind \<Rightarrow> ustr" where
  "check_description SubjectKind.DOMAIN = uni ''Review exposure across a company domain.''"
| "check_description SubjectKind.EMAIL = uni ''Investigate one exact mailbox identity.''"
| "check_description SubjectKind.PASSWORD =
     uni ''Search a credential without storing the query. The cleartext is sent to LeakCheck; '' @
     uni ''use their phash workflow instead when you already have a hash.''"
| "check_description SubjectKind.USERNAME = uni ''Find reused handles across breach sources.''"
| "check_description SubjectKind.ORIGIN = uni ''Trace records associated with a service origin.''"
| "check_description SubjectKind.PHONE = uni ''Check an international E.164 telephone number.''"

fun check_placeholder :: "SubjectKind \<Rightarrow> ustr" where
  "check_placeholder SubjectKind.DOMAIN = uni ''example.com''"
| "check_placeholder SubjectKind.EMAIL = uni ''person@example.com''"
| "check_placeholder SubjectKind.PASSWORD = uni ''Enter password''"
| "check_placeholder SubjectKind.USERNAME = uni ''username''"
| "check_placeholder SubjectKind.ORIGIN = uni ''https://service.example.com''"
| "check_placeholder SubjectKind.PHONE = uni ''+85512345678''"

definition check_card :: "SubjectKind \<Rightarrow> ustr" where
  "check_card kind =
     (let input_type = (if kind = SubjectKind.PASSWORD then uni ''password'' else uni ''text'');
          autocomplete = (if kind = SubjectKind.PASSWORD then uni ''new-password'' else uni ''off'');
          v = uni (SubjectKind_value kind);
          label = title_case (SubjectKind_value kind)
      in concat
        [uni ''<article class=\"check-card\"><div><span class=\"kind\">'',
         esc v,
         uni ''</span><h2>'', esc label, uni ''</h2><p>'', esc (check_description kind), uni ''</p></div>'',
         uni ''<form action=\"/analyst/scans/'', v, uni ''\" method=\"post\" '',
         uni ''hx-post=\"/analyst/scans/'', v, uni ''\" hx-target=\"find .form-error\" '',
         uni ''hx-swap=\"innerHTML\" hx-indicator=\"closest article\">'',
         uni ''<label for=\"query-'', v, uni ''\">'', esc label, uni '' value</label>'',
         uni ''<input id=\"query-'', v, uni ''\" name=\"query\" type=\"'', input_type, uni ''\" '',
         uni ''placeholder=\"'', esc (check_placeholder kind), uni ''\" autocomplete=\"'', autocomplete, uni ''\" '',
         uni ''required maxlength=\"4096\">'',
         (uni ''<button type=\"submit\">Run check</button><span class=\"htmx-indicator\">Checking'' @ [8230] @ uni ''</span>''),
         uni ''<output class=\"form-error\" aria-live=\"polite\"></output></form></article>''])"

definition recent_item :: "RecentSubject \<Rightarrow> ustr" where
  "recent_item item =
     concat
       [uni ''<li><a href=\"/analyst/subjects/'', uuid_str (sub_id (rec_subject item)), uni ''\"><span class=\"kind\">'',
        esc (uni (SubjectKind_value (sub_kind (rec_subject item)))),
        uni ''</span> '',
        esc (sub_value_display (rec_subject item)),
        uni ''</a><span class=\"searched-by\">searched by '',
        esc (attribution item),
        uni ''</span></li>'']"

definition analyst_dashboard :: "User \<Rightarrow> RecentSubject list \<Rightarrow> ustr" where
  "analyst_dashboard user recent_subjects =
     (let cards = concat (map check_card KINDS);
          items = concat (map recent_item recent_subjects);
          recent = (if items = [] then uni ''<li class=\"empty\">No scans have been run yet.</li>'' else items);
          content = concat
            [uni ''<section class=\"hero\"><p class=\"eyebrow\">Exposure intelligence</p>'',
             uni ''<h1>Run a controlled check</h1>'',
             uni ''<p>Choose an identifier type. Queries are normalized before scanning, and searched '',
             uni ''passwords are never stored in cleartext.</p></section>'',
             uni ''<section class=\"check-grid\" aria-label=\"Leak checks\">'',
             cards,
             uni ''</section>'',
             uni ''<section class=\"panel recent\"><div class=\"section-heading\"><div>'',
             uni ''<p class=\"eyebrow\">Investigation trail</p><h2>Recent subjects</h2></div></div>'',
             uni ''<ul class=\"recent-list\">'', recent, uni ''</ul></section>'']
      in html_page (uni ''Analyst checks'') content user [] [])"

section \<open>Progress of a scan\<close>

definition scan_status_fragment :: "Scan \<Rightarrow> ustr" where
  "scan_status_fragment scan =
     (if scan_status scan = ScanStatus.SUCCEEDED
      then (uni ''<p class=\"scan-state success-text\">Complete. Loading findings'' @ [8230] @ uni ''</p>'')
      else if scan_status scan = ScanStatus.FAILED
      then concat
        [uni ''<div class=\"scan-state\"><span class=\"badge danger\">Failed</span>'',
         uni ''<h2>The check could not be completed</h2>'',
         uni ''<p>No query value or vendor response was retained. Return to checks and '',
         uni ''try again.</p>'',
         uni ''<a class=\"button secondary\" href=\"/analyst\">Back to checks</a></div>'']
      else
        (let label = (if scan_status scan = ScanStatus.RUNNING then uni ''Running'' else uni ''Queued'') in
         concat
          [uni ''<div class=\"scan-state\" hx-get=\"/analyst/scans/'', uuid_str (scan_id scan), uni ''/status\" '',
           uni ''hx-trigger=\"load delay:1s\" hx-swap=\"outerHTML\">'',
           uni ''<span class=\"pulse\" aria-hidden=\"true\"></span>'',
           uni ''<h2>'', esc label, uni '' controlled check</h2>'',
           (uni ''<p>Waiting for the bounded LeakCheck request and local ingest to finish'' @ [8230] @ uni ''</p></div>'')]))"

definition scan_progress_page :: "User \<Rightarrow> Scan \<Rightarrow> Subject \<Rightarrow> ustr" where
  "scan_progress_page user scan subject =
     html_page (uni ''Scan progress'')
       (concat
         [uni ''<section class=\"hero compact\"><p class=\"eyebrow\">Scan in progress</p><h1>'',
          esc (sub_value_display subject),
          uni ''</h1><p>Large lookups can take up to two minutes. This page updates without '',
          uni ''holding the original request open.</p></section>'',
          uni ''<section class=\"panel\" aria-live=\"polite\">'',
          scan_status_fragment scan,
          uni ''</section>''])
       user [] []"

section \<open>History of a subject\<close>

definition remediation_markup :: "uuid \<Rightarrow> bool \<Rightarrow> ustr" where
  "remediation_markup finding_id remediated =
     (if remediated
      then concat
        [uni ''<div class=\"remediation-control\"><span class=\"badge success\">Remediated</span>'',
         uni ''<button type=\"button\" class=\"link-button\" '',
         uni ''hx-post=\"/analyst/findings/'', uuid_str finding_id, uni ''/unremediate\" '',
         uni ''hx-target=\"closest .remediation-control\" hx-swap=\"outerHTML\">'',
         uni ''Reopen</button></div>'']
      else concat
        [uni ''<div class=\"remediation-control\"><span class=\"badge warning\">Open</span>'',
         uni ''<button type=\"button\" class=\"link-button\" '',
         uni ''hx-post=\"/analyst/findings/'', uuid_str finding_id, uni ''/remediate\" '',
         uni ''hx-target=\"closest .remediation-control\" hx-swap=\"outerHTML\">'',
         uni ''Mark remediated</button></div>''])"

definition remediation_control :: "FindingView \<Rightarrow> ustr" where
  "remediation_control item = remediation_markup (fv_id item) (fv_remediated_at item \<noteq> None)"

definition sort_header :: "string \<Rightarrow> nat \<Rightarrow> string \<Rightarrow> ustr" where
  "sort_header label column kind =
     concat
       [uni ''<th><button type=\"button\" class=\"sort-button\" data-sort-column=\"'', dec column, uni ''\" '',
        uni ''data-sort-kind=\"'', esc (uni kind), uni ''\">'', esc (uni label), (uni '' <span aria-hidden=\"true\">'' @ [8597] @ uni ''</span></button>''),
        uni ''<span class=\"column-resizer\" data-resize-handle aria-hidden=\"true\"></span></th>'']"

definition COLUMNS :: "string list" where
  "COLUMNS = [''Source'', ''Breached'', ''Collected'', ''Identity'', ''Fields'', ''Origin'', ''URL'',
     ''Password'', ''First / last seen'', ''Status'', ''Actions'']"

definition column_picker :: ustr where
  "column_picker =
     (let controls = concat (map (\<lambda>(index, label). concat
            [uni ''<label><input type=\"checkbox\" value=\"'', dec index, uni ''\" data-column-toggle checked> '',
             esc (uni label), uni ''</label>'']) (enumerate 0 COLUMNS))
      in concat
        [uni ''<details class=\"column-picker\"><summary class=\"button secondary\">Columns</summary>'',
         uni ''<fieldset><legend>Show columns</legend>'', controls, uni ''</fieldset></details>''])"

definition copy_value :: "ustr \<Rightarrow> string \<Rightarrow> ustr" where
  "copy_value v label =
     concat
       [uni ''<button type=\"button\" class=\"copy-value\" data-copy-value=\"'', esc v, uni ''\" '',
        uni ''title=\"Copy '', map lower_ascii (uni label), uni ''\">'', esc v, uni ''</button>'']"

definition identity_value :: "string \<Rightarrow> bool \<Rightarrow> ustr \<Rightarrow> ustr" where
  "identity_value label copy v =
     concat
       [uni ''<span><strong>'', esc (uni label), uni ''</strong> '',
        (if copy then copy_value v label else esc v), uni ''</span>'']"

definition identity_sort :: "unidata \<Rightarrow> FindingView \<Rightarrow> ustr" where
  "identity_sort U item =
     casefold U (join_with [32] (filter (\<lambda>v. v \<noteq> [])
       (map text_or_empty [fv_email item, fv_username item, fv_phone item])))"

definition date_cell :: "date option \<Rightarrow> ustr" where
  "date_cell v =
     concat
       [uni ''<td data-sort-value=\"'', (case v of None \<Rightarrow> [] | Some d \<Rightarrow> isoformat d), uni ''\">'',
        (case v of None \<Rightarrow> uni ''Unknown'' | Some d \<Rightarrow> date_dmy d), uni ''</td>'']"

definition breach_date_cell :: "FindingView \<Rightarrow> ustr" where
  "breach_date_cell item =
     (case fv_breach_date item of
        Some d \<Rightarrow> date_cell (Some d)
      | None \<Rightarrow>
          (case fv_breach_date_text item of
             None \<Rightarrow> date_cell None
           | Some v \<Rightarrow>
               (let parts = split_on 45 v;
                    display = (if length parts = 2 then parts ! 1 @ [45] @ parts ! 0 else v)
                in concat [uni ''<td data-sort-value=\"'', esc v, uni ''\">'', esc display, uni ''</td>''])))"

definition status_sort :: "FindingView \<Rightarrow> ustr" where
  "status_sort item =
     (if fv_re_leaked item then uni ''re-leaked''
      else if fv_remediated_at item \<noteq> None then uni ''remediated'' else uni ''open'')"

definition dash :: ustr where
  "dash = [8212]"

definition or_dash :: "ustr \<Rightarrow> ustr" where
  "or_dash s = (if s = [] then dash else s)"

text \<open>\<open>f(value) if value else "-"\<close>.\<close>

definition shown :: "(ustr \<Rightarrow> ustr) \<Rightarrow> ustr option \<Rightarrow> ustr" where
  "shown f v = (if text_or_empty v = [] then dash else f (text_or_empty v))"

definition identity_cell :: "FindingView \<Rightarrow> ustr" where
  "identity_cell item =
     or_dash (join_with (uni ''<br>'') (concat (map
       (\<lambda>(label, copy, v). case v of None \<Rightarrow> [] | Some t \<Rightarrow> [identity_value label copy t])
       [(''Email'', True, fv_email item), (''User'', False, fv_username item), (''Phone'', False, fv_phone item)])))"

definition password_cell :: "FindingView \<Rightarrow> ustr" where
  "password_cell item =
     (case fv_password_mask item of None \<Rightarrow> dash | Some m \<Rightarrow> esc m) @
     (if fv_has_password item
      then concat
        [uni ''<div id=\"password-'', uuid_str (fv_id item), uni ''\" class=\"password-slot\">'',
         uni ''<button type=\"button\" class=\"link-button\" '',
         uni ''hx-post=\"/analyst/findings/'', uuid_str (fv_id item), uni ''/reveal\" '',
         uni ''hx-target=\"#password-'', uuid_str (fv_id item), uni ''\" hx-swap=\"innerHTML\">Reveal once</button></div>'']
      else [])"

definition finding_row :: "unidata \<Rightarrow> FindingView \<Rightarrow> ustr" where
  "finding_row U item =
     (let fields = or_dash (join_with (uni '', '') (map esc (fv_fields item)));
          raw = esc (json_dumps (JObj (fv_raw item)));
          search_values = esc (casefold U (raw_value_text U (JObj (fv_raw item))))
      in concat
        [uni ''<tr class=\"'', (if fv_re_leaked item then uni ''releaked'' else []), uni ''\" data-search-values=\"'', search_values, uni ''\">'',
         uni ''<td data-sort-value=\"'', esc (casefold U (fv_source item)), uni ''\"><strong>'',
         esc (fv_source item), uni ''</strong>'',
         (if fv_re_leaked item then uni ''<span class=\"badge danger\">Re-leaked</span>'' else []), uni ''</td>'',
         breach_date_cell item,
         date_cell (fv_collected_date item),
         uni ''<td data-sort-value=\"'', esc (identity_sort U item), uni ''\">'', identity_cell item, uni ''</td>'',
         uni ''<td data-sort-value=\"'', esc (casefold U (join_with (uni '', '') (fv_fields item))), uni ''\">'', fields,
         uni ''<details><summary>Raw fields</summary><pre>'', raw, uni ''</pre></details></td>'',
         uni ''<td data-sort-value=\"'', esc (casefold U (text_or_empty (fv_origin item))), uni ''\">'',
         shown esc (fv_origin item), uni ''</td>'',
         uni ''<td data-sort-value=\"'', esc (casefold U (text_or_empty (fv_url item))), uni ''\">'',
         shown (\<lambda>v. copy_value v ''URL'') (fv_url item), uni ''</td>'',
         uni ''<td class=\"password-cell\" data-sort-value=\"'', esc (text_or_empty (fv_password_mask item)), uni ''\">'',
         password_cell item, uni ''</td>'',
         uni ''<td data-sort-value=\"'', timestamp_text (fv_first_seen_at item), uni ''\">'',
         uni ''<span class=\"seen-label\">First</span> '', esc (day_and_time (fv_first_seen_at item)), uni ''<br>'',
         uni ''<span class=\"seen-label\">Last</span> '', esc (day_and_time (fv_last_seen_at item)), uni ''</td>'',
         uni ''<td class=\"status-cell\" data-sort-value=\"'', status_sort item, uni ''\">'',
         remediation_control item, uni ''</td><td><a href=\"#events\">Event trail</a></td></tr>''])"

definition event_item :: "EventView \<Rightarrow> ustr" where
  "event_item event =
     concat
       [uni ''<li><span class=\"event-dot\" aria-hidden=\"true\"></span><div>'',
        uni ''<strong>'', esc (title_case (spaces_for_underscores (FindingEventType_value (evv_event event)))), uni ''</strong>'',
        (if text_or_empty (evv_actor event) = [] then [] else uni '' by '' @ esc (text_or_empty (evv_actor event))),
        uni ''<time>'', esc (day_and_time (evv_at event)), uni ''</time>'',
        uni ''<details><summary>Metadata</summary><pre>'', esc (json_dumps (JObj (evv_meta event))),
        uni ''</pre></details></div></li>'']"

definition export_url :: "uuid \<Rightarrow> ustr \<Rightarrow> ustr \<Rightarrow> ustr \<Rightarrow> ustr \<Rightarrow> ustr" where
  "export_url subject_id state source date_from date_to =
     esc (concat [uni ''/analyst/subjects/'', uuid_str subject_id, uni ''/export.csv?'',
       urlencode [(''state'', state), (''source'', source), (''date_from'', date_from), (''date_to'', date_to)]])"

definition html_option :: "string \<Rightarrow> string \<Rightarrow> ustr \<Rightarrow> ustr" where
  "html_option v label selected =
     concat [uni ''<option value=\"'', esc (uni v), uni ''\"'', (if uni v = selected then uni '' selected'' else []), uni ''>'',
       esc (uni label), uni ''</option>'']"

definition filter_form :: "uuid \<Rightarrow> ustr \<Rightarrow> ustr \<Rightarrow> ustr \<Rightarrow> ustr \<Rightarrow> ustr" where
  "filter_form subject_id state source date_from date_to =
     concat
       [uni ''<form class=\"filters\" method=\"get\">'',
        uni ''<label>State<select name=\"state\">'',
        html_option ''all'' ''All'' state,
        html_option ''unremediated'' ''Unremediated'' state,
        html_option ''remediated'' ''Remediated'' state,
        html_option ''releaked'' ''Re-leaked'' state,
        uni ''</select></label>'',
        uni ''<label>Search raw values<input type=\"search\" id=\"result-search\" name=\"source\" value=\"'',
        esc source,
        (uni ''\" maxlength=\"1024\" placeholder=\"Email, origin, date, source'' @ [8230] @ uni ''\"></label>''),
        uni ''<label>From<input type=\"date\" name=\"date_from\" value=\"'',
        esc date_from,
        uni ''\"></label><label>To<input type=\"date\" name=\"date_to\" value=\"'',
        esc date_to,
        uni ''\"></label><button type=\"submit\">Apply filters</button>'',
        uni ''<a class=\"button secondary\" href=\"'',
        export_url subject_id state source date_from date_to,
        uni ''\">Export CSV</a></form>'']"

definition findings_table :: "ustr \<Rightarrow> ustr" where
  "findings_table rows =
     concat
       [uni ''<div class=\"table-tools\"><div class=\"table-config\"><label>Rows per page'',
        uni ''<select id=\"findings-page-size\">'',
        uni ''<option value=\"10\" selected>10</option><option value=\"20\">20</option>'',
        uni ''<option value=\"50\">50</option><option value=\"100\">100</option>'',
        uni ''<option value=\"all\">All</option></select></label>'',
        column_picker,
        uni ''</div><div class=\"pagination\">'',
        uni ''<button type=\"button\" id=\"findings-prev\" class=\"button secondary\">Previous</button>'',
        uni ''<span id=\"findings-page-status\">Page 1 of 1</span>'',
        uni ''<button type=\"button\" id=\"findings-next\" class=\"button secondary\">Next</button>'',
        uni ''</div></div><div class=\"table-wrap\"><table id=\"findings-table\" '',
        uni ''class=\"resizable-table\"><colgroup>'',
        uni ''<col style=\"width:11rem\"><col style=\"width:8rem\"><col style=\"width:8rem\">'',
        uni ''<col style=\"width:18rem\"><col style=\"width:15rem\"><col style=\"width:12rem\">'',
        uni ''<col style=\"width:18rem\"><col style=\"width:12rem\"><col style=\"width:14rem\">'',
        uni ''<col style=\"width:10rem\"><col style=\"width:7rem\"></colgroup><thead><tr>'',
        sort_header ''Source'' 0 ''text'',
        sort_header ''Breached'' 1 ''date'',
        sort_header ''Collected'' 2 ''date'',
        sort_header ''Identity'' 3 ''text'',
        sort_header ''Fields'' 4 ''text'',
        sort_header ''Origin'' 5 ''text'',
        sort_header ''URL'' 6 ''text'',
        sort_header ''Password'' 7 ''text'',
        sort_header ''First / last seen'' 8 ''date'',
        sort_header ''Status'' 9 ''text'',
        uni ''<th>Actions<span class=\"column-resizer\" data-resize-handle aria-hidden=\"true\"></span>'',
        uni ''</th></tr></thead><tbody data-findings-body>'',
        rows,
        uni ''</tbody></table></div></section>'']"

definition subject_history_page ::
  "unidata \<Rightarrow> User \<Rightarrow> Subject \<Rightarrow> FindingView list \<Rightarrow> EventView list \<Rightarrow> ustr \<Rightarrow> ustr \<Rightarrow> ustr \<Rightarrow> ustr \<Rightarrow> ustr" where
  "subject_history_page U user subject fs events state source date_from date_to =
     (let rows = (if fs = []
            then uni ''<tr><td colspan=\"11\" class=\"empty\">No findings match these filters.</td></tr>''
            else concat (map (finding_row U) fs));
          event_items = (if events = [] then uni ''<li class=\"empty\">No recorded finding events.</li>''
            else concat (map event_item events));
          content = concat
            [uni ''<header class=\"subject-header\"><div><p class=\"eyebrow\">'',
             esc (uni (SubjectKind_value (sub_kind subject))),
             uni '' investigation</p><h1>'',
             esc (sub_value_display subject),
             uni ''</h1></div><a class=\"button secondary\" href=\"/analyst\">New check</a></header>'',
             uni ''<section class=\"panel\"><div class=\"section-heading\"><div><p class=\"eyebrow\">'',
             uni ''Evidence</p><h2>Findings</h2></div><span class=\"count\" id=\"findings-count\" '',
             uni ''data-total=\"'',
             dec (length fs),
             uni ''\">'',
             dec (length fs),
             uni '' shown</span></div>'',
             filter_form (sub_id subject) state source date_from date_to,
             findings_table rows,
             uni ''<section id=\"events\" class=\"panel timeline\"><div class=\"section-heading\"><div>'',
             uni ''<p class=\"eyebrow\">Immutable history</p><h2>Event trail</h2></div></div>'',
             uni ''<ol class=\"event-list\">'', event_items, uni ''</ol></section>'']
      in html_page ((uni ''History '' @ [183] @ uni '' '') @ sub_value_display subject) content user [] [])"

section \<open>The markup of the history\<close>

lemma markup_dec [markup_simps, simp]: "markup (dec n) = []"
  by (rule markup_none) (auto simp: is_markup_def dest: dec_digits)

lemma markup_padded [markup_simps, simp]: "markup (padded w v) = []"
  by (induction w arbitrary: v) (auto simp: markup_simps is_markup_def)

lemma markup_replicate: "\<not> is_markup c \<Longrightarrow> markup (replicate n c) = []"
  by (rule markup_none) auto

lemma markup_isoformat [markup_simps, simp]: "markup (isoformat d) = []"
  by (cases d) (simp add: isoformat_def zfill_def markup_simps is_markup_def markup_replicate)

lemma markup_date_dmy [markup_simps, simp]: "markup (date_dmy d) = []"
  by (cases d) (simp add: date_dmy_def markup_simps is_markup_def)

lemma hex_digit_text: "\<not> is_markup (hex_digit n)" if "n < 16"
  using that by (auto simp: hex_digit_def is_markup_def)

lemma markup_hexdigest [markup_simps, simp]: "markup (hexdigest bs) = []"
proof -
  have "markup (hex_byte b) = []" for b
  proof -
    have "unat b div 16 < 16" "unat b mod 16 < 16" using unat_byte_lt [of b] by auto
    then show ?thesis by (simp add: hex_byte_def markup_simps hex_digit_text)
  qed
  then show ?thesis by (induction bs) (simp_all add: hexdigest_def markup_simps)
qed

lemma markup_subset: "markup s = [] \<Longrightarrow> set t \<subseteq> set s \<Longrightarrow> markup t = []"
  by (auto simp: markup_def filter_empty_conv)

lemma markup_uuid_str [markup_simps, simp]: "markup (uuid_str i) = []"
proof -
  have "markup (take n (drop m (hexdigest bs))) = []" for n m bs
    by (rule markup_subset [OF markup_hexdigest [of bs]]) (meson set_drop_subset set_take_subset order_trans)
  moreover have "markup (drop m (hexdigest bs)) = []" for m bs
    by (rule markup_subset [OF markup_hexdigest [of bs] set_drop_subset])
  ultimately show ?thesis
    using markup_subset [OF markup_hexdigest set_take_subset]
    by (simp add: uuid_str_def Let_def markup_simps is_markup_def)
qed

lemma markup_timestamp_text [markup_simps, simp]: "markup (timestamp_text t) = []"
proof -
  have "markup (rstrip_of (\<lambda>c. c = 48) (padded 6 f)) = []" for f
    by (rule markup_subset [OF markup_padded [of 6 f]])
      (auto simp: rstrip_of_def dest: set_dropWhileD)
  then show ?thesis
    by (simp add: timestamp_text_def Let_def markup_simps is_markup_def)
qed

text \<open>Two views have the same layout when the same parts of a row are present.\<close>

definition same_layout :: "FindingView \<Rightarrow> FindingView \<Rightarrow> bool" where
  "same_layout v w \<longleftrightarrow>
     fv_re_leaked v = fv_re_leaked w \<and> fv_has_password v = fv_has_password w \<and>
     (fv_remediated_at v = None) = (fv_remediated_at w = None) \<and>
     (fv_email v = None) = (fv_email w = None) \<and> (fv_username v = None) = (fv_username w = None) \<and>
     (fv_phone v = None) = (fv_phone w = None) \<and>
     (text_or_empty (fv_url v) = []) = (text_or_empty (fv_url w) = [])"

lemma markup_dash [markup_simps]: "markup dash = []"
  by (simp add: dash_def markup_simps is_markup_def)

lemma markup_join_esc: "markup (join_with (uni '', '') (map esc vs)) = []"
proof (induction vs)
  case (Cons v vs)
  then show ?case by (cases vs) (simp_all add: markup_simps is_markup_def uni_def)
qed (simp add: markup_simps)

lemma markup_finding_row:
  assumes "same_layout v w"
  shows "markup (finding_row U v) = markup (finding_row U w)"
proof -
  have "markup (uni ''Unknown'') = []" by (simp add: uni_def markup_simps is_markup_def)
  then have 1: "markup (breach_date_cell v) = markup (breach_date_cell w)"
    by (simp add: breach_date_cell_def date_cell_def Let_def markup_simps split: option.split)
  have 2: "markup (date_cell x) = markup (date_cell y)" for x y
    using \<open>markup (uni ''Unknown'') = []\<close> by (simp add: date_cell_def markup_simps split: option.split)
  have same: "markup (identity_value l c x) = markup (identity_value l c [])" if "NO_MATCH [] x" for l c x
    by (simp add: identity_value_def copy_value_def markup_concat del: concat.simps)
  have some: "identity_value l c x \<noteq> []" for l c x
    by (simp add: identity_value_def)
  have 3: "markup (identity_cell v) = markup (identity_cell w)"
    using assms unfolding same_layout_def identity_cell_def or_dash_def
    by (cases "fv_email v"; cases "fv_email w"; cases "fv_username v"; cases "fv_username w";
        cases "fv_phone v"; cases "fv_phone w") (simp_all add: some markup_append same)
  have 4: "markup (password_cell v) = markup (password_cell w)"
    using assms by (simp add: same_layout_def password_cell_def markup_simps split: option.split)
  have 5: "markup (remediation_control v) = markup (remediation_control w)"
    using assms by (simp add: same_layout_def remediation_control_def remediation_markup_def markup_simps)
  have 6: "markup (shown (\<lambda>v. copy_value v ''URL'') (fv_url v)) = markup (shown (\<lambda>v. copy_value v ''URL'') (fv_url w))"
    using assms by (simp add: same_layout_def shown_def copy_value_def markup_simps)
  have 7: "markup (shown esc x) = []" for x
    by (simp add: shown_def markup_simps)
  have 8: "markup (or_dash (join_with (uni '', '') (map esc x))) = []" for x
    by (simp add: or_dash_def markup_join_esc markup_simps)
  have 9: "markup (status_sort x) = []" for x
    by (simp add: status_sort_def markup_simps is_markup_def uni_def)
  have "fv_re_leaked v = fv_re_leaked w" using assms by (simp add: same_layout_def)
  then show ?thesis
    unfolding finding_row_def Let_def markup_concat
    by (simp only: list.map markup_append markup_esc markup_timestamp_text 1 3 4 5 6 7 8 9
        2 [of "fv_collected_date v" "fv_collected_date w"])
qed

lemma markup_concat_map2:
  "list_all2 (\<lambda>x y. markup (f x) = markup (f y)) xs ys \<Longrightarrow> markup (concat (map f xs)) = markup (concat (map f ys))"
  by (induction rule: list_all2_induct) (simp_all add: markup_append)


definition sample_view :: "ustr \<Rightarrow> FindingView" where
  "sample_view s =
     \<lparr>fv_id = 1, fv_source = s, fv_breach_date = None, fv_breach_date_text = Some s, fv_collected_date = None,
      fv_fields = [s], fv_email = Some s, fv_username = None, fv_phone = None, fv_origin = Some s, fv_url = None,
      fv_password_mask = Some s, fv_has_password = True, fv_remediated_at = None, fv_re_leaked = False,
      fv_first_seen_at = 0, fv_last_seen_at = 0, fv_raw = [(s, JStr s)]\<rparr>"


end
