(* ===== verification/Analyst.thy ===== *)
theory Analyst
  imports AnalystViews
begin

text \<open>
  The routes of the analyst workflow (\<open>src/app/routers/analyst.py\<close>): the dashboard, starting and following
  a scan, the filtered history of a subject, revealing a password, closing and reopening a finding, and the
  CSV export. The text of a rejected query is the message of an exception, which the model leaves empty.
\<close>

section \<open>Filters\<close>

definition MAX_FORM_BYTES :: nat where
  "MAX_FORM_BYTES = 8 * 1024"

definition MAX_RESULTS :: nat where
  "MAX_RESULTS = 2000"

record FindingFilters =
  ff_state :: ustr
  ff_source :: ustr
  ff_date_from :: "date option"
  ff_date_to :: "date option"

definition parse_filter_date :: "app \<Rightarrow> ustr \<Rightarrow> date option res" where
  "parse_filter_date A v =
     (if v = [] then Inr None
      else case ap_fromisoformat A v of None \<Rightarrow> Inl (HTTPException 422) | Some d \<Rightarrow> Inr (Some d))"

definition FILTER_STATES :: "ustr list" where
  "FILTER_STATES = [uni ''all'', uni ''unremediated'', uni ''remediated'', uni ''releaked'']"

definition from_request :: "app \<Rightarrow> http_request \<Rightarrow> FindingFilters res" where
  "from_request A r =
     (let state = query_param r ''state'' (uni ''all'');
          source = strip (ap_unidata A) (query_param r ''source'' [])
      in if state \<notin> set FILTER_STATES then Inl (HTTPException 422)
      else if length source > 1024 \<or> \<not> list_all (isprintable (ap_unidata A)) source then Inl (HTTPException 422)
      else
        bind_res (parse_filter_date A (query_param r ''date_from'' [])) (\<lambda>date_from.
        bind_res (parse_filter_date A (query_param r ''date_to'' [])) (\<lambda>date_to.
        if date_from \<noteq> None \<and> date_to \<noteq> None \<and> the date_from > the date_to then Inl (HTTPException 422)
        else Inr \<lparr>ff_state = state, ff_source = source, ff_date_from = date_from, ff_date_to = date_to\<rparr>)))"

definition filter_meta :: "FindingFilters \<Rightarrow> (ustr \<times> json) list" where
  "filter_meta f =
     [(uni ''state'', JStr (ff_state f)), (uni ''source'', JStr (ff_source f)),
      (uni ''date_from'', json_text (map_option isoformat (ff_date_from f))),
      (uni ''date_to'', json_text (map_option isoformat (ff_date_to f)))]"

text \<open>The \<open>WHERE\<close> clause of the filters; a comparison with a missing date is not true.\<close>

definition apply_filters :: "FindingFilters \<Rightarrow> Finding \<Rightarrow> BreachSource \<Rightarrow> bool" where
  "apply_filters filters f b \<longleftrightarrow>
     (if ff_state filters = uni ''unremediated'' then fnd_remediated_at f = None
      else if ff_state filters = uni ''remediated'' then fnd_remediated_at f \<noteq> None
      else if ff_state filters = uni ''releaked'' then fnd_severity f = FindingSeverity.HIGH
      else True) \<and>
     (case ff_date_from filters of None \<Rightarrow> True
      | Some t \<Rightarrow> (case src_breach_date b of None \<Rightarrow> False | Some d \<Rightarrow> t \<le> d)) \<and>
     (case ff_date_to filters of None \<Rightarrow> True
      | Some t \<Rightarrow> (case src_breach_date b of None \<Rightarrow> False | Some d \<Rightarrow> d \<le> t))"

section \<open>What the vendor wrote\<close>

definition raw_origin :: "unidata \<Rightarrow> json \<Rightarrow> ustr option" where
  "raw_origin U v =
     (case v of
        JStr s \<Rightarrow> Some s
      | JList items \<Rightarrow>
          (let origins = filter (\<lambda>s. s \<noteq> []) (concat (map (\<lambda>i. case i of JStr s \<Rightarrow> [strip U s] | _ \<Rightarrow> []) items));
               joined = join_with (uni '', '') origins
           in if joined = [] then None else Some joined)
      | _ \<Rightarrow> None)"

definition raw_url :: "unidata \<Rightarrow> (ustr \<times> json) list \<Rightarrow> ustr option" where
  "raw_url U raw =
     (let first = raw_origin U (jget raw (uni ''url''));
          second = raw_origin U (jget raw (uni ''URL''))
      in if text_or_empty first \<noteq> [] then first
         else if text_or_empty second \<noteq> [] then second else None)"

definition raw_date :: "app \<Rightarrow> json \<Rightarrow> date option" where
  "raw_date A v = (case v of JStr s \<Rightarrow> ap_fromisoformat A (take 10 s) | _ \<Rightarrow> None)"

text \<open>A year, a year and a month, or a complete date, as \<open>date\<close> and \<open>date.fromisoformat\<close> accept them.\<close>

definition year_ok :: "unidata \<Rightarrow> ustr \<Rightarrow> bool" where
  "year_ok U s = (case py_int U s of None \<Rightarrow> False | Some y \<Rightarrow> 1 \<le> y \<and> y \<le> 9999)"

definition month_ok :: "unidata \<Rightarrow> ustr \<Rightarrow> bool" where
  "month_ok U s = (case py_int U s of None \<Rightarrow> False | Some m \<Rightarrow> 1 \<le> m \<and> m \<le> 12)"

definition breach_date_text :: "app \<Rightarrow> ustr \<Rightarrow> bool" where
  "breach_date_text A s =
     (case split_on 45 s of
        [y] \<Rightarrow> length y = 4 \<and> year_ok (ap_unidata A) y
      | [y, m] \<Rightarrow> length y = 4 \<and> length m = 2 \<and> year_ok (ap_unidata A) y \<and> month_ok (ap_unidata A) m
      | [y, m, k] \<Rightarrow> ap_fromisoformat A s \<noteq> None
      | _ \<Rightarrow> False)"

definition raw_breach_date :: "app \<Rightarrow> (ustr \<times> json) list \<Rightarrow> (ustr \<times> json) list \<Rightarrow> ustr option" where
  "raw_breach_date A raw extra =
     (let raw_value = (case jget raw (uni ''source'') of JObj o' \<Rightarrow> jget o' (uni ''breach_date'') | _ \<Rightarrow> JNull);
          texts = concat (map (\<lambda>v. case v of JStr s \<Rightarrow> [s] | _ \<Rightarrow> []) [raw_value, jget extra (uni ''vendor_breach_date'')])
      in find (breach_date_text A) texts)"

section \<open>Queries\<close>

definition subject_or_404 :: "uuid \<Rightarrow> db \<Rightarrow> Subject res" where
  "subject_or_404 i d = of_option (HTTPException 404) (find (\<lambda>s. sub_id s = i) (subjects d))"

definition scan_or_404 :: "uuid \<Rightarrow> db \<Rightarrow> (Scan \<times> Subject) res" where
  "scan_or_404 i d =
     bind_res (of_option (HTTPException 404) (find (\<lambda>s. scan_id s = i) (scans d))) (\<lambda>scan.
     bind_res (of_option (HTTPException 404) (find (\<lambda>s. sub_id s = scan_subject_id scan) (subjects d))) (\<lambda>subject.
     Inr (scan, subject)))"

definition finding_view :: "app \<Rightarrow> Finding \<Rightarrow> BreachSource \<Rightarrow> FindingView" where
  "finding_view A f b =
     \<lparr>fv_id = fnd_id f,
      fv_source = src_name b,
      fv_breach_date = src_breach_date b,
      fv_breach_date_text = raw_breach_date A (fnd_raw f) (src_extra b),
      fv_collected_date = raw_date A (jget (fnd_raw f) (uni ''collected'')),
      fv_fields = fnd_fields f,
      fv_email = fnd_email f,
      fv_username = fnd_username f,
      fv_phone = fnd_phone f,
      fv_origin = (if text_or_empty (fnd_origin f) \<noteq> [] then fnd_origin f
                   else raw_origin (ap_unidata A) (jget (fnd_raw f) (uni ''origin''))),
      fv_url = raw_url (ap_unidata A) (fnd_raw f),
      fv_password_mask = fnd_password_mask f,
      fv_has_password = (fnd_password_sha256 f \<noteq> None),
      fv_remediated_at = fnd_remediated_at f,
      fv_re_leaked = (fnd_severity f = FindingSeverity.HIGH),
      fv_first_seen_at = fnd_first_seen_at f,
      fv_last_seen_at = fnd_last_seen_at f,
      fv_raw = fnd_raw f\<rparr>"

text \<open>Latest breach first, unknown breach dates last, then the finding seen first most recently.\<close>

definition history_order :: "Finding \<times> BreachSource \<Rightarrow> nat \<times> int \<times> int" where
  "history_order = (\<lambda>(f, b).
     case src_breach_date b of
       None \<Rightarrow> (1, 0, - fnd_first_seen_at f)
     | Some (y, m, k) \<Rightarrow> (0, - int (y * 10000 + m * 100 + k), - fnd_first_seen_at f))"

definition history_rows :: "uuid \<Rightarrow> FindingFilters \<Rightarrow> db \<Rightarrow> (Finding \<times> BreachSource) list" where
  "history_rows subject_id filters d =
     take MAX_RESULTS (sort_key history_order
       (filter (\<lambda>(f, b). fnd_subject_id f = subject_id \<and> src_id b = fnd_source_id f \<and> apply_filters filters f b)
         (List.product (findings d) (breach_sources d))))"

definition finding_views :: "app \<Rightarrow> uuid \<Rightarrow> FindingFilters \<Rightarrow> db \<Rightarrow> FindingView list" where
  "finding_views A subject_id filters d =
     (let U = ap_unidata A;
          views = map (\<lambda>(f, b). finding_view A f b) (history_rows subject_id filters d)
      in if ff_source filters = [] then views
         else filter (\<lambda>item. contains (casefold U (ff_source filters)) (casefold U (raw_value_text U (JObj (fv_raw item))))) views)"

definition event_view :: "db \<Rightarrow> FindingEvent \<Rightarrow> EventView" where
  "event_view d e =
     \<lparr>evv_event = ev_event e, evv_at = ev_at e,
      evv_actor = (case ev_actor_id e of None \<Rightarrow> None
                   | Some i \<Rightarrow> map_option u_display_name (find (\<lambda>u. u_id u = i) (users d))),
      evv_meta = ev_meta e\<rparr>"

definition event_views :: "uuid \<Rightarrow> db \<Rightarrow> EventView list" where
  "event_views subject_id d =
     map (event_view d) (sort_key (\<lambda>e. - ev_at e)
       (filter (\<lambda>e. \<exists>f \<in> set (findings d). fnd_id f = ev_finding_id e \<and> fnd_subject_id f = subject_id)
         (finding_events d)))"

text \<open>\<open>DISTINCT ON (subject_id) ... ORDER BY subject_id, started_at DESC\<close>: a scan without a start comes first.\<close>

definition latest_scan :: "uuid \<Rightarrow> db \<Rightarrow> Scan option" where
  "latest_scan subject_id d =
     (case sort_key (\<lambda>s. case scan_started_at s of None \<Rightarrow> (0::nat, 0) | Some t \<Rightarrow> (1, - t))
             (filter (\<lambda>s. scan_subject_id s = subject_id) (scans d)) of
        [] \<Rightarrow> None
      | s # _ \<Rightarrow> Some s)"

definition recent_subject :: "db \<Rightarrow> Subject \<Rightarrow> RecentSubject" where
  "recent_subject d s =
     \<lparr>rec_subject = s,
      rec_actor = (case latest_scan (sub_id s) d of None \<Rightarrow> None
        | Some scan \<Rightarrow> (case scan_requested_by scan of None \<Rightarrow> None
            | Some i \<Rightarrow> map_option u_email (find (\<lambda>u. u_id u = i) (users d)))),
      rec_trigger = map_option scan_trigger (latest_scan (sub_id s) d)\<rparr>"

definition recent_subjects :: "db \<Rightarrow> RecentSubject list" where
  "recent_subjects d =
     map (recent_subject d) (take 20 (sort_key
       (\<lambda>s. case sub_last_scanned_at s of None \<Rightarrow> (1::nat, 0) | Some t \<Rightarrow> (0, - t)) (subjects d)))"

section \<open>Routes\<close>

definition dashboard :: "app \<Rightarrow> handler" where
  "dashboard A = guarded ANALYST_ROLES A (\<lambda>u r d.
     Inr (html_no_store 200 (analyst_dashboard u (recent_subjects d)), d))"

definition media_type :: "ustr option \<Rightarrow> ustr" where
  "media_type v = fst (partition_on 59 (text_or_empty v))"

definition query_from_form :: "app \<Rightarrow> http_request \<Rightarrow> ustr res" where
  "query_from_form A r =
     (let U = ap_unidata A; content_length = text_or_empty (header r ''content-length'') in
      if strip U (media_type (header r ''content-type'')) \<noteq> uni ''application/x-www-form-urlencoded''
      then Inl (HTTPException 415)
      else
        bind_res (if content_length = [] then Inr ()
          else case py_int U content_length of None \<Rightarrow> Inl (HTTPException 400)
            | Some n \<Rightarrow> if n > int MAX_FORM_BYTES then Inl (HTTPException 413) else Inr ()) (\<lambda>_.
        if length (rq_body r) > MAX_FORM_BYTES then Inl (HTTPException 413)
        else case decode_utf8 (rq_body r) of
            Inl e \<Rightarrow> Inl (HTTPException 400)
          | Inr body \<Rightarrow>
              (case ap_parse_qs_strict A body of
                 None \<Rightarrow> Inl (HTTPException 400)
               | Some form \<Rightarrow>
                   (case map_of form (uni ''query'') of
                      Some [q] \<Rightarrow> Inr q
                    | _ \<Rightarrow> Inl (HTTPException 422)))))"

definition ipv6_text :: "app \<Rightarrow> ustr \<Rightarrow> bool" where
  "ipv6_text A h = (case ap_ip A h of None \<Rightarrow> False | Some c \<Rightarrow> 58 \<in> set c)"

definition active_scan :: "uuid \<Rightarrow> db \<Rightarrow> Scan option" where
  "active_scan user_id d = find (\<lambda>s. scan_requested_by s = Some user_id \<and> scan_open s) (scans d)"

definition run_analyst_scan_as ::
  "app \<Rightarrow> rat \<Rightarrow> client_cache \<Rightarrow> SubjectKind \<Rightarrow> User \<Rightarrow> http_request \<Rightarrow> db \<Rightarrow> scan_outcome" where
  "run_analyst_scan_as A time cache kind u r d =
     (case query_from_form A r of
        Inl e \<Rightarrow> (Inl e, cache)
      | Inr q \<Rightarrow>
          (case normalize_subject (ap_unidata A) (ipv6_text A) kind q of
             Inl e \<Rightarrow> (if e = NormalizationError then Inr ((html_no_store 422 [], None), d) else Inl e, cache)
           | Inr normalized \<Rightarrow>
               if active_scan (u_id u) d \<noteq> None
               then (Inr ((html_no_store 409 (uni ''You already have a check in progress.''), None), d), cache)
               else let (subject, d) = resolve_subject normalized None d in
                 start_scan_request A time cache u r subject ScanTrigger.MANUAL q
                   (''analyst.scan_rejected'', ''subject'', sub_id subject,
                    [(uni ''kind'', JStr (uni (SubjectKind_value kind)))])
                   (uni ''LeakCheck is not configured. Ask a super-admin to review Platform settings.'')
                   (''analyst.scan_requested'', [(uni ''kind'', JStr (uni (SubjectKind_value kind)))])
                   ''/analyst/scans/'' d))"

definition run_analyst_scan ::
  "app \<Rightarrow> rat \<Rightarrow> client_cache \<Rightarrow> SubjectKind \<Rightarrow> http_request \<Rightarrow> db \<Rightarrow> scan_outcome" where
  "run_analyst_scan A time cache kind = guarded_scan ANALYST_ROLES A cache (run_analyst_scan_as A time cache kind)"

definition scan_progress :: "app \<Rightarrow> uuid \<Rightarrow> handler" where
  "scan_progress A i = guarded ANALYST_ROLES A (\<lambda>u r d.
     bind_res (scan_or_404 i d) (\<lambda>(scan, subject).
     if scan_status scan = ScanStatus.SUCCEEDED
     then Inr (with_header no_store (redirect_to (uni ''/analyst/subjects/'' @ uuid_str (sub_id subject))), d)
     else Inr (html_no_store 200 (scan_progress_page u scan subject), d)))"

definition scan_progress_status :: "app \<Rightarrow> uuid \<Rightarrow> handler" where
  "scan_progress_status A i = guarded ANALYST_ROLES A (\<lambda>u r d.
     bind_res (scan_or_404 i d) (\<lambda>(scan, subject).
     if scan_status scan = ScanStatus.SUCCEEDED
     then Inr (with_header (''hx-redirect'', uni ''/analyst/subjects/'' @ uuid_str (sub_id subject)) (html_no_store 200 []), d)
     else Inr (html_no_store 200 (scan_status_fragment scan), d)))"

definition subject_history :: "app \<Rightarrow> uuid \<Rightarrow> handler" where
  "subject_history A i = guarded ANALYST_ROLES A (\<lambda>u r d.
     bind_res (subject_or_404 i d) (\<lambda>subject.
     bind_res (from_request A r) (\<lambda>filters.
     Inr (html_no_store 200 (subject_history_page (ap_unidata A) u subject (finding_views A i filters d)
            (event_views i d) (ff_state filters) (ff_source filters)
            (text_or_empty (map_option isoformat (ff_date_from filters)))
            (text_or_empty (map_option isoformat (ff_date_to filters)))), d))))"

definition revealed :: "ustr \<Rightarrow> ustr" where
  "revealed password =
     uni ''<button type=\"button\" class=\"revealed-password copy-value\" data-copy-value=\"'' @ esc password @
     uni ''\" title=\"Copy password\">'' @ esc password @ uni ''</button>''"

definition reveal_finding_password :: "app \<Rightarrow> uuid \<Rightarrow> handler" where
  "reveal_finding_password A i = guarded ANALYST_ROLES A (\<lambda>u r d.
     case find (\<lambda>f. fnd_id f = i) (findings d) of
       None \<Rightarrow> Inl (HTTPException 404)
     | Some finding \<Rightarrow>
         (case (fnd_password_ciphertext finding, fnd_password_nonce finding) of
            (Some ciphertext, Some nonce) \<Rightarrow>
              bind_res (case reveal_password (ap_gcm A) (ap_settings A) (fnd_id finding) ciphertext nonce of
                  Inl e \<Rightarrow> Inl (if e = FindingCryptoError then HTTPException 409 else e)
                | Inr password \<Rightarrow> Inr password) (\<lambda>password.
              let d = add_event (fnd_id finding) FindingEventType.PASSWORD_VIEWED (u_id u) (clock d) d in
              bind_res (audit_event A r ''finding.password_viewed'' (Some (u_id u)) (Some ''finding'')
                (Some (uuid_str (fnd_id finding))) [] d) (\<lambda>d.
              Inr (with_header (''pragma'', uni ''no-cache'') (html_no_store 200 (revealed password)), d)))
          | _ \<Rightarrow> Inl (HTTPException 404)))"

definition mark_remediated :: "app \<Rightarrow> uuid \<Rightarrow> handler" where
  "mark_remediated A i = guarded ANALYST_ROLES A (\<lambda>u r d.
     bind_res (found (remediate_finding i (u_id u) None None d)) (\<lambda>(finding, d).
     bind_res (audit_event A r ''finding.remediated'' (Some (u_id u)) (Some ''finding'')
       (Some (uuid_str (fnd_id finding))) [] d) (\<lambda>d.
     Inr (html_no_store 200 (remediation_markup (fnd_id finding) True), d))))"

definition mark_unremediated :: "app \<Rightarrow> uuid \<Rightarrow> handler" where
  "mark_unremediated A i = guarded ANALYST_ROLES A (\<lambda>u r d.
     bind_res (found (unremediate_finding i (u_id u) None d)) (\<lambda>(finding, d).
     bind_res (audit_event A r ''finding.unremediated'' (Some (u_id u)) (Some ''finding'')
       (Some (uuid_str (fnd_id finding))) [] d) (\<lambda>d.
     Inr (html_no_store 200 (remediation_markup (fnd_id finding) False), d))))"

section \<open>CSV export\<close>

text \<open>\<open>csv.writer\<close> with its default dialect and the line end CR LF.\<close>

definition csv_quoted :: "ustr \<Rightarrow> bool" where
  "csv_quoted s \<longleftrightarrow> (\<exists>c \<in> set s. c = 44 \<or> c = 34 \<or> c = 10 \<or> c = 13)"

definition csv_field :: "ustr \<Rightarrow> ustr" where
  "csv_field s = (if csv_quoted s then [34] @ concat (map (\<lambda>c. if c = 34 then [34, 34] else [c]) s) @ [34] else s)"

definition csv_row :: "ustr list \<Rightarrow> ustr" where
  "csv_row cells = join_with [44] (map csv_field cells) @ [13, 10]"

definition formula_start :: "ustr \<Rightarrow> bool" where
  "formula_start v \<longleftrightarrow> v \<noteq> [] \<and> hd v \<in> {61, 43, 45, 64, 9, 13}"

definition csv_cell :: "ustr \<Rightarrow> ustr" where
  "csv_cell v = (if formula_start v then 39 # v else v)"

definition CSV_HEADER :: "ustr list" where
  "CSV_HEADER =
     [uni ''source'', uni ''breach_date'', uni ''collected_date'', uni ''email'', uni ''username'', uni ''phone'', uni ''origin'', uni ''url'', uni ''fields'',
      uni ''password_mask'', uni ''state'', uni ''re_leaked'', uni ''first_seen_at'', uni ''last_seen_at'']"

definition export_row :: "FindingView \<Rightarrow> ustr list" where
  "export_row item =
     map csv_cell
       [fv_source item,
        (case fv_breach_date item of Some d \<Rightarrow> isoformat d | None \<Rightarrow> text_or_empty (fv_breach_date_text item)),
        text_or_empty (map_option isoformat (fv_collected_date item)),
        text_or_empty (fv_email item),
        text_or_empty (fv_username item),
        text_or_empty (fv_phone item),
        text_or_empty (fv_origin item),
        text_or_empty (fv_url item),
        join_with (uni '', '') (fv_fields item),
        text_or_empty (fv_password_mask item),
        (if fv_remediated_at item \<noteq> None then uni ''remediated'' else uni ''unremediated''),
        (if fv_re_leaked item then uni ''true'' else uni ''false''),
        datetime_iso (fv_first_seen_at item),
        datetime_iso (fv_last_seen_at item)]"

definition export_text :: "FindingView list \<Rightarrow> ustr" where
  "export_text views = concat (map csv_row (CSV_HEADER # map export_row views))"

definition export_subject_csv :: "app \<Rightarrow> uuid \<Rightarrow> handler" where
  "export_subject_csv A i = guarded ANALYST_ROLES A (\<lambda>u r d.
     bind_res (subject_or_404 i d) (\<lambda>subject.
     bind_res (from_request A r) (\<lambda>filters.
     let views = finding_views A i filters d in
     bind_res (audit_event A r ''findings.csv_exported'' (Some (u_id u)) (Some ''subject'') (Some (uuid_str (sub_id subject)))
       (filter_meta filters @ [(uni ''row_count'', JInt (int (length views)))]) d) (\<lambda>d.
     Inr (with_header (''content-type'', uni ''text/csv; charset=utf-8'') (with_header no_store
           (with_header (''content-disposition'', uni ''attachment; filename=\"leakcheck-'' @
              uni (SubjectKind_value (sub_kind subject)) @ uni ''-findings.csv\"'')
           (with_header (''x-content-type-options'', uni ''nosniff'') (respond 200 (PlainText (export_text views)))))), d)))))"

section \<open>Reading the export\<close>

text \<open>\<open>csv.reader\<close> in its default dialect: quotes are doubled inside quoted fields, CR LF ends a row, and a CR
  without its LF is an error, where this reader stops.\<close>

datatype csv_state = FieldStart | Unquoted | Quoted | QuoteInQuoted | EatLF

fun csv_read :: "csv_state \<Rightarrow> ustr \<Rightarrow> ustr list \<Rightarrow> ustr \<Rightarrow> ustr list list" where
  "csv_read st acc row [] = (if st = EatLF \<or> (st = FieldStart \<and> row = []) then [] else [row @ [acc]])"
| "csv_read Quoted acc row (c # s) =
     (if c = 34 then csv_read QuoteInQuoted acc row s else csv_read Quoted (acc @ [c]) row s)"
| "csv_read QuoteInQuoted acc row (c # s) =
     (if c = 34 then csv_read Quoted (acc @ [34]) row s
      else if c = 44 then csv_read FieldStart [] (row @ [acc]) s
      else if c = 13 then (row @ [acc]) # csv_read EatLF [] [] s
      else csv_read Unquoted (acc @ [c]) row s)"
| "csv_read EatLF acc row (c # s) = (if c = 10 then csv_read FieldStart [] [] s else [])"
| "csv_read FieldStart acc row (c # s) =
     (if c = 34 then csv_read Quoted [] row s
      else if c = 44 then csv_read FieldStart [] (row @ [[]]) s
      else if c = 13 then (row @ [[]]) # csv_read EatLF [] [] s
      else csv_read Unquoted [c] row s)"
| "csv_read Unquoted acc row (c # s) =
     (if c = 44 then csv_read FieldStart [] (row @ [acc]) s
      else if c = 13 then (row @ [acc]) # csv_read EatLF [] [] s
      else csv_read Unquoted (acc @ [c]) row s)"

lemma csv_read_quoted:
  "csv_read Quoted acc row (concat (map (\<lambda>c. if c = 34 then [34, 34] else [c]) v) @ 34 # s) =
   csv_read QuoteInQuoted (acc @ v) row s"
  by (induction v arbitrary: acc) simp_all

lemma csv_read_unquoted:
  "\<not> csv_quoted v \<Longrightarrow> csv_read Unquoted acc row (v @ s) = csv_read Unquoted (acc @ v) row s"
  by (induction v arbitrary: acc) (auto simp: csv_quoted_def)

text \<open>A field ends at a comma or at the end of its row.\<close>

lemma csv_read_comma: "csv_read FieldStart [] row (csv_field v @ 44 # s) = csv_read FieldStart [] (row @ [v]) s"
proof (cases "csv_quoted v")
  case True
  then show ?thesis by (simp add: csv_field_def csv_read_quoted)
next
  case False
  then show ?thesis
    using csv_read_unquoted [of "tl v" "[hd v]" row "44 # s"]
    by (cases v) (auto simp: csv_field_def csv_quoted_def)
qed

lemma csv_read_end:
  "csv_read FieldStart [] row (csv_field v @ 13 # 10 # s) = (row @ [v]) # csv_read FieldStart [] [] s"
proof (cases "csv_quoted v")
  case True
  then show ?thesis by (simp add: csv_field_def csv_read_quoted)
next
  case False
  then show ?thesis
    using csv_read_unquoted [of "tl v" "[hd v]" row "13 # 10 # s"]
    by (cases v) (auto simp: csv_field_def csv_quoted_def)
qed

lemma csv_read_row:
  "vs \<noteq> [] \<Longrightarrow> csv_read FieldStart [] row (csv_row vs @ s) = (row @ vs) # csv_read FieldStart [] [] s"
proof (induction vs arbitrary: row)
  case (Cons v vs)
  then show ?case
    using csv_read_end [of row v s]
    by (cases vs) (simp_all add: csv_row_def csv_read_comma)
qed simp

lemma csv_read_rows:
  "[] \<notin> set rows \<Longrightarrow> csv_read FieldStart [] [] (concat (map csv_row rows)) = rows"
  by (induction rows) (auto simp: csv_read_row)

lemma csv_cell_inert: "\<not> formula_start (csv_cell v)"
  by (auto simp: csv_cell_def formula_start_def)

text \<open>
  C26. Whatever the vendor wrote, the export reads back as its header and one row of fourteen cells for each
  finding, and a spreadsheet finds no formula in any cell.
\<close>

theorem export_reads_back:
  "csv_read FieldStart [] [] (export_text views) = CSV_HEADER # map export_row views \<and>
   (\<forall>row \<in> set (map export_row views). length row = 14 \<and> (\<forall>cell \<in> set row. \<not> formula_start cell))"
proof
  have "[] \<notin> set (CSV_HEADER # map export_row views)"
    by (auto simp: CSV_HEADER_def export_row_def)
  then show "csv_read FieldStart [] [] (export_text views) = CSV_HEADER # map export_row views"
    unfolding export_text_def by (rule csv_read_rows)
  show "\<forall>row \<in> set (map export_row views). length row = 14 \<and> (\<forall>cell \<in> set row. \<not> formula_start cell)"
    by (simp add: export_row_def csv_cell_inert)
qed

theorem export_reads_back_witness:
  "csv_read FieldStart [] [] (export_text [sample_view (uni ''=1,2'')]) = [CSV_HEADER, export_row (sample_view (uni ''=1,2''))] \<and>
   list_all (\<lambda>cell. \<not> formula_start cell) (export_row (sample_view (uni ''=1,2'')))"
  using export_reads_back [of "[sample_view (uni ''=1,2'')]"] by (simp add: list_all_iff)

section \<open>Revealing\<close>

text \<open>
  C24. A password is shown only to a signed-in analyst or super-admin, only when the stored ciphertext is
  authentic for the finding, and never without a trace: the response is not cached, the finding's history
  and the audit log both name the reader, neither holds the password, and no finding changes.
\<close>

theorem reveal_audited:
  assumes "reveal_finding_password A i r d = Inr (rs, d')"
  shows "\<exists>u d1 f c n p e v. get_current_user A r d = Inr (u, d1) \<and> u_role u \<in> set ANALYST_ROLES \<and>
    f \<in> set (findings d) \<and> fnd_id f = i \<and> fnd_password_ciphertext f = Some c \<and> fnd_password_nonce f = Some n \<and>
    reveal_password (ap_gcm A) (ap_settings A) i c n = Inr p \<and>
    rs_body rs = Html (revealed p) \<and> no_store \<in> set (rs_headers rs) \<and>
    finding_events d' = finding_events d @ [v] \<and> ev_finding_id v = i \<and> ev_event v = FindingEventType.PASSWORD_VIEWED \<and>
    ev_actor_id v = Some (u_id u) \<and> ev_at v = clock d \<and> ev_meta v = [] \<and>
    audit_log d' = audit_log d @ [e] \<and> al_actor_id e = Some (u_id u) \<and> al_action e = ''finding.password_viewed'' \<and>
    al_target_id e = Some (uuid_str i) \<and> al_meta e = [] \<and> findings d' = findings d"
proof -
  obtain u d1 where u: "get_current_user A r d = Inr (u, d1)" "u_role u \<in> set ANALYST_ROLES"
    and run: "(case find (\<lambda>f. fnd_id f = i) (findings d1) of
       None \<Rightarrow> Inl (HTTPException 404)
     | Some finding \<Rightarrow>
         (case (fnd_password_ciphertext finding, fnd_password_nonce finding) of
            (Some ciphertext, Some nonce) \<Rightarrow>
              bind_res (case reveal_password (ap_gcm A) (ap_settings A) (fnd_id finding) ciphertext nonce of
                  Inl e \<Rightarrow> Inl (if e = FindingCryptoError then HTTPException 409 else e)
                | Inr password \<Rightarrow> Inr password) (\<lambda>password.
              let d = add_event (fnd_id finding) FindingEventType.PASSWORD_VIEWED (u_id u) (clock d1) d1 in
              bind_res (audit_event A r ''finding.password_viewed'' (Some (u_id u)) (Some ''finding'')
                (Some (uuid_str (fnd_id finding))) [] d) (\<lambda>d.
              Inr (with_header (''pragma'', uni ''no-cache'') (html_no_store 200 (revealed password)), d)))
          | _ \<Rightarrow> Inl (HTTPException 404))) = Inr (rs, d')"
    using assms unfolding reveal_finding_password_def by (rule guarded_Inr)
  obtain ss where d1: "d1 = d\<lparr>sessions := ss\<rparr>" using get_current_user_frame [OF u(1)] by blast
  obtain f c n p where f: "find (\<lambda>f. fnd_id f = i) (findings d) = Some f"
    and c: "fnd_password_ciphertext f = Some c" "fnd_password_nonce f = Some n"
    and p: "reveal_password (ap_gcm A) (ap_settings A) (fnd_id f) c n = Inr p"
    and log: "audit_event A r ''finding.password_viewed'' (Some (u_id u)) (Some ''finding'')
        (Some (uuid_str (fnd_id f))) [] (add_event (fnd_id f) FindingEventType.PASSWORD_VIEWED (u_id u) (clock d1) d1) = Inr d'"
    and rs: "rs = with_header (''pragma'', uni ''no-cache'') (html_no_store 200 (revealed p))"
    using run d1 by (auto simp: bind_res_Inr_iff Let_def split: option.splits sum.splits)
  have f': "f \<in> set (findings d)" "fnd_id f = i" using find_Some_mem [OF f] by auto
  obtain k j where d': "d' = add_event (fnd_id f) FindingEventType.PASSWORD_VIEWED (u_id u) (clock d1) d1
    \<lparr>drawn := drawn (add_event (fnd_id f) FindingEventType.PASSWORD_VIEWED (u_id u) (clock d1) d1) + 16,
      audit_log := audit_log (add_event (fnd_id f) FindingEventType.PASSWORD_VIEWED (u_id u) (clock d1) d1) @
       [\<lparr>al_id = j, al_actor_id = Some (u_id u), al_action = ''finding.password_viewed'',
         al_target_type = Some ''finding'', al_target_id = Some (uuid_str (fnd_id f)),
         al_ip_hash = hmac_sha256 k (audit_ip A r),
         al_at = tx_now (add_event (fnd_id f) FindingEventType.PASSWORD_VIEWED (u_id u) (clock d1) d1),
         al_meta = []\<rparr>]\<rparr>"
    using log by (rule audit_event_Inr)
  show ?thesis
    using u c p f' rs
    by (intro exI [of _ u] exI [of _ d1] exI [of _ f])
      (auto simp: d' add_event_def uuid4_eq d1 with_header_def html_no_store_def respond_def no_store_def)
qed

definition sealed_finding :: Finding where
  "sealed_finding = (a_finding 7 5 None)\<lparr>fnd_password_ciphertext := Some (octets ''abc'' @ aad 7),
     fnd_password_nonce := Some (replicate NONCE_BYTES 0)\<rparr>"

theorem reveal_audited_witness:
  "\<exists>rs d'. reveal_finding_password the_app 7 first_request (signed UserRole.ANALYST (db0\<lparr>findings := [sealed_finding]\<rparr>)) =
     Inr (rs, d') \<and> rs_body rs = Html (revealed (uni ''abc'')) \<and> length (audit_log d') = 1"
proof -
  let ?d = "signed UserRole.ANALYST (db0\<lparr>findings := [sealed_finding]\<rparr>)"
  obtain ss where u: "get_current_user the_app first_request ?d = Inr (a_user 1 UserRole.ANALYST, ?d\<lparr>sessions := ss\<rparr>)"
    by (rule signed_user)
  have "decode_utf8 (octets ''abc'') = Inr (uni ''abc'')" by code_simp
  then have p: "reveal_password (ap_gcm the_app) (ap_settings the_app) 7 (octets ''abc'' @ aad 7) (replicate NONCE_BYTES 0) =
      Inr (uni ''abc'')"
    by (simp add: reveal_password_def the_app_def data_key_the_settings suffix_gcm_def)
  let ?e = "add_event 7 FindingEventType.PASSWORD_VIEWED 1 (clock ?d) (?d\<lparr>sessions := ss\<rparr>)"
  obtain d2 where d2: "audit_event the_app first_request ''finding.password_viewed'' (Some 1) (Some ''finding'')
      (Some (uuid_str 7)) [] ?e = Inr d2"
    using audit_event_works [of the_app] session_key_the_settings by (fastforce simp: the_app_def)
  have f: "findings (?d\<lparr>sessions := ss\<rparr>) = [sealed_finding]" by (simp add: signed_def)
  have one: "fnd_id sealed_finding = 7" "fnd_password_ciphertext sealed_finding = Some (octets ''abc'' @ aad 7)"
    "fnd_password_nonce sealed_finding = Some (replicate NONCE_BYTES 0)"
    by (simp_all add: sealed_finding_def a_finding_def)
  have run: "\<exists>rs. reveal_finding_password the_app 7 first_request ?d = Inr (rs, d2)"
    unfolding reveal_finding_password_def
    by (subst guarded_eq [OF u]) (simp_all add: ANALYST_ROLES_def f one p d2)
  then obtain rs where run: "reveal_finding_password the_app 7 first_request ?d = Inr (rs, d2)" by blast
  from reveal_audited [OF run] obtain f' c n q e where
    "f' \<in> set (findings ?d)" "fnd_password_ciphertext f' = Some c" "fnd_password_nonce f' = Some n"
    "reveal_password (ap_gcm the_app) (ap_settings the_app) 7 c n = Inr q" "rs_body rs = Html (revealed q)"
    "audit_log d2 = audit_log ?d @ [e]"
    by blast
  then have "rs_body rs = Html (revealed (uni ''abc''))" "length (audit_log d2) = 1"
    using p one f by (auto simp: signed_def db0_def empty_db_def)
  with run show ?thesis by blast
qed

end
