(* ===== verification/GoogleLogin.thy ===== *)
theory GoogleLogin
  imports AdminSettings
begin

text \<open>
  The Google OpenID Connect login (\<open>src/app/auth/google.py\<close>): the signed browser state of one attempt,
  discovery and signing keys with their caches, the code exchange, the checks of an ID token and its claims,
  and the provisioning of an account. The network, the clock and \<open>jwt\<close> are parameters.
\<close>

section \<open>Data\<close>

definition GOOGLE_DISCOVERY_URL :: ustr where
  "GOOGLE_DISCOVERY_URL = uni ''https://accounts.google.com/.well-known/openid-configuration''"

definition GOOGLE_ISSUERS :: "ustr list" where
  "GOOGLE_ISSUERS = [uni ''https://accounts.google.com'', uni ''accounts.google.com'']"

definition GOOGLE_ENDPOINT_HOSTS :: "ustr list" where
  "GOOGLE_ENDPOINT_HOSTS = [uni ''accounts.google.com'', uni ''oauth2.googleapis.com'', uni ''www.googleapis.com'']"

definition OAUTH_TRANSACTION_COOKIE_NAME :: string where
  "OAUTH_TRANSACTION_COOKIE_NAME = ''__Host-leakcheck-oidc''"

definition OAUTH_TRANSACTION_TTL :: int where
  "OAUTH_TRANSACTION_TTL = seconds (10 * 60)"

definition ID_TOKEN_MAX_LENGTH :: nat where
  "ID_TOKEN_MAX_LENGTH = 16 * 1024"

record ProviderMetadata =
  pm_issuer :: ustr
  pm_authorization_endpoint :: ustr
  pm_token_endpoint :: ustr
  pm_jwks_uri :: ustr

record GoogleIdentity =
  gi_subject :: ustr
  gi_email :: ustr
  gi_display_name :: ustr
  gi_hosted_domain :: ustr

record GoogleOIDCConfiguration =
  oc_client_id :: ustr
  oc_client_secret :: ustr
  oc_redirect_uri :: ustr
  oc_allowed_domains :: "ustr list"

record OAuthTransaction =
  ot_state :: ustr
  ot_nonce :: ustr
  ot_code_verifier :: ustr
  ot_expires_at :: int

text \<open>
  The network: an answer to the requests so far, the last one included; \<open>OtherError ''HTTPError''\<close> stands for
  the exceptions of \<open>httpx\<close>, and the decoded body for a value or the exception of \<open>response.json()\<close>. \<open>on_now\<close>
  is the clock after a number of requests.
\<close>

datatype oidc_request = OidcGet ustr | OidcPost ustr "(string \<times> ustr) list"

record oidc_response =
  or_status :: nat
  or_cache_control :: "ustr option"
  or_json :: "json res"

text \<open>What \<open>jwt.decode\<close> is asked to check besides the signature under a key.\<close>

record jwt_demand =
  jd_algorithms :: "string list"
  jd_audience :: ustr
  jd_issuers :: "ustr list"
  jd_leeway :: nat
  jd_require :: "string list"

record oidc_net =
  on_answer :: "oidc_request list \<Rightarrow> oidc_response res"
  on_now :: "nat \<Rightarrow> datetime"
  on_header :: "ustr \<Rightarrow> (ustr \<times> json) list res"
  on_decode :: "(ustr \<times> json) list \<Rightarrow> jwt_demand \<Rightarrow> ustr \<Rightarrow> (ustr \<times> json) list res"

record GoogleOIDC =
  go_client_id :: ustr
  go_client_secret :: ustr
  go_redirect_uri :: ustr
  go_allowed_domains :: "ustr set"
  go_transaction_key :: bytes
  go_metadata_cache :: "(ProviderMetadata \<times> datetime) option"
  go_jwks_cache :: "((ustr \<times> (ustr \<times> json) list) list \<times> datetime) option"
  go_sent :: "oidc_request list"

section \<open>Checks of texts\<close>

definition is_urlsafe_token :: "ustr \<Rightarrow> nat \<Rightarrow> bool" where
  "is_urlsafe_token s expected \<longleftrightarrow> length s = expected \<and> list_all is_urlsafe s"

definition trusted_google_endpoint :: "app \<Rightarrow> ustr \<Rightarrow> bool" where
  "trusted_google_endpoint A v =
     (case urlsplit (ap_unidata A) (ipv6_text A) v of
        Inl e \<Rightarrow> False
      | Inr parsed \<Rightarrow>
          url_scheme parsed = uni ''https'' \<and> url_hostname (ap_unidata A) parsed \<in> Some ` set GOOGLE_ENDPOINT_HOSTS \<and>
          url_userinfo parsed = (None, None) \<and> url_query parsed = [] \<and> url_fragment v = [])"

definition valid_email :: "unidata \<Rightarrow> ustr \<Rightarrow> bool" where
  "valid_email U v \<longleftrightarrow> 3 \<le> length v \<and> length v \<le> 320 \<and> count_list v 64 = 1 \<and>
     list_all (\<lambda>c. \<not> isspace U c \<and> isprintable U c) v"

text \<open>\<open>int(t.timestamp())\<close>\<close>

definition unix_seconds :: "datetime \<Rightarrow> int" where
  "unix_seconds t = (if 0 \<le> t then t div 1000000 else - (- t div 1000000))"

text \<open>
  \<open>base64.urlsafe_b64decode\<close> discards characters outside the alphabet and stops at the padding that
  completes a group; a group left incomplete is a \<open>binascii.Error\<close>. The arguments are the sextets read and
  the padding characters seen since the last one.
\<close>

fun lenient_sextets :: "nat list \<Rightarrow> nat \<Rightarrow> ustr \<Rightarrow> nat list option" where
  "lenient_sextets acc pads [] = (if length acc mod 4 = 0 then Some acc else None)"
| "lenient_sextets acc pads (c # s) =
     (if c = 61 then
        (if 2 \<le> length acc mod 4 \<and> 4 \<le> length acc mod 4 + Suc pads then Some acc
         else lenient_sextets acc (if 2 \<le> length acc mod 4 then Suc pads else pads) s)
      else (case b64_value c of
              None \<Rightarrow> lenient_sextets acc pads s
            | Some v \<Rightarrow> lenient_sextets (acc @ [v]) 0 s))"

definition base64url_decode :: "ustr \<Rightarrow> bytes option" where
  "base64url_decode v =
     (case lenient_sextets [] 0 (v @ replicate (pad_len (length v)) 61) of
        None \<Rightarrow> None
      | Some vs \<Rightarrow> map_option (map word_of_nat) (sextets_bytes vs))"

text \<open>
  The first \<open>max-age\<close> directive of a \<open>Cache-Control\<close> header: what stands between two commas must be it and
  nothing else.
\<close>

definition max_age_digits :: "unidata \<Rightarrow> ustr \<Rightarrow> ustr option" where
  "max_age_digits U piece =
     (let t = lstrip_of (isspace U) piece; v = rstrip_of (isspace U) (drop 8 t) in
      if map lower_ascii (take 8 t) = uni ''max-age='' \<and> v \<noteq> [] \<and> list_all (\<lambda>c. digit_value U c \<noteq> None) v
      then Some v else None)"

definition cache_expiry :: "app \<Rightarrow> oidc_response \<Rightarrow> int \<Rightarrow> datetime \<Rightarrow> datetime res" where
  "cache_expiry A a default_seconds now =
     (let pieces = split_on 44 (case or_cache_control a of None \<Rightarrow> [] | Some v \<Rightarrow> v) in
      bind_res (case List.map_filter (max_age_digits (ap_unidata A)) pieces of
          [] \<Rightarrow> Inr default_seconds
        | v # _ \<Rightarrow> of_option ValueError (py_int (ap_unidata A) v)) (\<lambda>n.
      Inr (now + seconds (min (max n 0) (24 * 60 * 60)))))"

section \<open>The transaction\<close>

definition begin_transaction :: "datetime \<Rightarrow> db \<Rightarrow> OAuthTransaction \<times> db" where
  "begin_transaction current d =
     (let (state, d) = token_urlsafe 32 d; (nonce, d) = token_urlsafe 32 d; (verifier, d) = token_urlsafe 64 d in
      (\<lparr>ot_state = state, ot_nonce = nonce, ot_code_verifier = verifier,
        ot_expires_at = unix_seconds (current + OAUTH_TRANSACTION_TTL)\<rparr>, d))"

definition code_challenge :: "OAuthTransaction \<Rightarrow> ustr" where
  "code_challenge t = base64url (sha256 (map word_of_nat (ot_code_verifier t)))"

definition transaction_fields :: "OAuthTransaction \<Rightarrow> (ustr \<times> json) list" where
  "transaction_fields t =
     [(uni ''code_verifier'', JStr (ot_code_verifier t)), (uni ''expires_at'', JInt (ot_expires_at t)),
      (uni ''nonce'', JStr (ot_nonce t)), (uni ''state'', JStr (ot_state t))]"

definition serialize :: "bytes \<Rightarrow> OAuthTransaction \<Rightarrow> ustr" where
  "serialize key t =
     (let encoded = base64url (map word_of_nat (compact_json (JObj (transaction_fields t))))
      in encoded @ [46] @ base64url (hmac_sha256 key (map word_of_nat encoded)))"

text \<open>\<open>isinstance(v, int)\<close> holds of the booleans too.\<close>

definition int_value :: "json \<Rightarrow> int option" where
  "int_value v = (case v of JInt n \<Rightarrow> Some n | JBool b \<Rightarrow> Some (if b then 1 else 0) | _ \<Rightarrow> None)"

definition parse_transaction :: "(ustr \<times> json) list \<Rightarrow> datetime \<Rightarrow> OAuthTransaction option" where
  "parse_transaction payload current =
     (case (jget payload (uni ''state''), jget payload (uni ''nonce''), jget payload (uni ''code_verifier''),
            int_value (jget payload (uni ''expires_at''))) of
        (JStr state, JStr nonce, JStr verifier, Some expires_at) \<Rightarrow>
          if \<not> is_urlsafe_token state 43 \<or> \<not> is_urlsafe_token nonce 43 \<or> \<not> is_urlsafe_token verifier 86 \<or>
             unix_seconds current \<ge> expires_at
          then None
          else Some \<lparr>ot_state = state, ot_nonce = nonce, ot_code_verifier = verifier, ot_expires_at = expires_at\<rparr>
      | _ \<Rightarrow> None)"

definition deserialize :: "app \<Rightarrow> bytes \<Rightarrow> datetime \<Rightarrow> ustr option \<Rightarrow> OAuthTransaction option" where
  "deserialize A key current cookie_value =
     (case cookie_value of
        None \<Rightarrow> None
      | Some v \<Rightarrow>
          if count_list v 46 \<noteq> 1 \<or> length v > 2048 then None
          else
            let (encoded, _, supplied) = partition_on 46 v in
            if \<not> isascii encoded \<or> \<not> isascii supplied then None
            else if supplied \<noteq> base64url (hmac_sha256 key (map word_of_nat encoded)) then None
            else (case base64url_decode encoded of
                    None \<Rightarrow> None
                  | Some bs \<Rightarrow>
                      (case ap_json_loads A bs of
                         Some (JObj payload) \<Rightarrow> parse_transaction payload current
                       | _ \<Rightarrow> None)))"

section \<open>The provider\<close>

definition google_oidc :: "app \<Rightarrow> GoogleOIDCConfiguration \<Rightarrow> GoogleOIDC res" where
  "google_oidc A c =
     bind_res (derived_key (ap_settings A) ''leakcheck/google-oidc-transaction/v1'') (\<lambda>key.
     Inr \<lparr>go_client_id = oc_client_id c, go_client_secret = oc_client_secret c, go_redirect_uri = oc_redirect_uri c,
       go_allowed_domains = set (oc_allowed_domains c), go_transaction_key = key, go_metadata_cache = None,
       go_jwks_cache = None, go_sent = []\<rparr>)"

text \<open>A request sent through the client: \<open>raise_for_status\<close> accepts the statuses of success only.\<close>

type_synonym 'a call = "GoogleOIDC \<Rightarrow> 'a res \<times> GoogleOIDC"

definition pure_call :: "'a res \<Rightarrow> 'a call" where
  "pure_call x = (\<lambda>g. (x, g))"

definition then_call :: "'a call \<Rightarrow> ('a \<Rightarrow> 'b call) \<Rightarrow> 'b call" where
  "then_call m f = (\<lambda>g. case m g of (Inl e, g) \<Rightarrow> (Inl e, g) | (Inr x, g) \<Rightarrow> f x g)"

definition oidc_send :: "oidc_net \<Rightarrow> oidc_request \<Rightarrow> oidc_response call" where
  "oidc_send N q g =
     (let sent = go_sent g @ [q]; g = g\<lparr>go_sent := sent\<rparr> in
      (case on_answer N sent of
         Inl e \<Rightarrow> Inl (if e = OtherError ''HTTPError'' then GoogleOIDCError else e)
       | Inr a \<Rightarrow> if 200 \<le> or_status a \<and> or_status a < 300 then Inr a else Inl GoogleOIDCError, g))"

definition json_payload :: "oidc_response \<Rightarrow> json res" where
  "json_payload a =
     (case or_json a of Inl e \<Rightarrow> Inl (if e = OtherError ''JSONDecodeError'' then GoogleOIDCError else e) | Inr v \<Rightarrow> Inr v)"

definition oidc_now :: "oidc_net \<Rightarrow> GoogleOIDC \<Rightarrow> datetime" where
  "oidc_now N g = on_now N (length (go_sent g))"

definition metadata_from_payload :: "app \<Rightarrow> json \<Rightarrow> ProviderMetadata res" where
  "metadata_from_payload A v =
     (case v of
        JObj payload \<Rightarrow>
          (case (jget payload (uni ''issuer''), jget payload (uni ''authorization_endpoint''),
                 jget payload (uni ''token_endpoint''), jget payload (uni ''jwks_uri'')) of
             (JStr issuer, JStr authorization, JStr token, JStr jwks) \<Rightarrow>
               if issuer \<notin> set GOOGLE_ISSUERS \<or> \<not> list_all (trusted_google_endpoint A) [authorization, token, jwks]
               then Inl GoogleOIDCError
               else Inr \<lparr>pm_issuer = issuer, pm_authorization_endpoint = authorization,
                      pm_token_endpoint = token, pm_jwks_uri = jwks\<rparr>
           | _ \<Rightarrow> Inl GoogleOIDCError)
      | _ \<Rightarrow> Inl GoogleOIDCError)"

definition fetch_metadata :: "app \<Rightarrow> oidc_net \<Rightarrow> ProviderMetadata call" where
  "fetch_metadata A N =
     then_call (oidc_send N (OidcGet GOOGLE_DISCOVERY_URL)) (\<lambda>a g.
       (case bind_res (json_payload a) (\<lambda>payload. bind_res (metadata_from_payload A payload) (\<lambda>m.
               bind_res (cache_expiry A a 3600 (oidc_now N g)) (\<lambda>t. Inr (m, t)))) of
          Inl e \<Rightarrow> (Inl e, g)
        | Inr (m, t) \<Rightarrow> (Inr m, g\<lparr>go_metadata_cache := Some (m, t)\<rparr>)))"

definition provider_metadata :: "app \<Rightarrow> oidc_net \<Rightarrow> ProviderMetadata call" where
  "provider_metadata A N g =
     (case go_metadata_cache g of
        Some (m, t) \<Rightarrow> if oidc_now N g < t then (Inr m, g) else fetch_metadata A N g
      | None \<Rightarrow> fetch_metadata A N g)"

definition authorization_url :: "app \<Rightarrow> oidc_net \<Rightarrow> OAuthTransaction \<Rightarrow> ustr call" where
  "authorization_url A N t =
     then_call (provider_metadata A N) (\<lambda>m g.
       (Inr (pm_authorization_endpoint m @ [63] @ urlencode
          ([(''client_id'', go_client_id g), (''code_challenge'', code_challenge t), (''code_challenge_method'', uni ''S256''),
            (''nonce'', ot_nonce t), (''redirect_uri'', go_redirect_uri g), (''response_type'', uni ''code''),
            (''scope'', uni ''openid email profile''), (''state'', ot_state t)] @
           (if card (go_allowed_domains g) = 1 then [(''hd'', the_elem (go_allowed_domains g))] else []))), g))"

definition token_exchange :: "oidc_net \<Rightarrow> ProviderMetadata \<Rightarrow> ustr \<Rightarrow> ustr \<Rightarrow> (ustr \<times> json) list call" where
  "token_exchange N m code verifier g =
     then_call (oidc_send N (OidcPost (pm_token_endpoint m)
         [(''client_id'', go_client_id g), (''client_secret'', go_client_secret g), (''code'', code),
          (''code_verifier'', verifier), (''grant_type'', uni ''authorization_code''), (''redirect_uri'', go_redirect_uri g)]))
       (\<lambda>a. pure_call (bind_res (json_payload a) (\<lambda>v. case v of JObj payload \<Rightarrow> Inr payload | _ \<Rightarrow> Inl GoogleOIDCError))) g"

section \<open>Signing keys\<close>

text \<open>The usable keys of a key set; of two with one identifier the later stays.\<close>

definition signing_key :: "json \<Rightarrow> (ustr \<times> (ustr \<times> json) list) list" where
  "signing_key v =
     (case v of
        JObj o' \<Rightarrow>
          (case jget o' (uni ''kid'') of
             JStr kid \<Rightarrow>
               if jget o' (uni ''kty'') = JStr (uni ''RSA'') \<and> jget o' (uni ''use'') = JStr (uni ''sig'') \<and> jget o' (uni ''alg'') = JStr (uni ''RS256'')
               then [(kid, o')] else []
           | _ \<Rightarrow> [])
      | _ \<Rightarrow> [])"

definition signing_keys :: "json \<Rightarrow> (ustr \<times> (ustr \<times> json) list) list res" where
  "signing_keys v =
     (case v of
        JObj payload \<Rightarrow>
          (case jget payload (uni ''keys'') of
             JList vs \<Rightarrow>
               (let keys = rev (concat (map signing_key vs)) in
                if keys = [] then Inl GoogleOIDCError else Inr keys)
           | _ \<Rightarrow> Inl GoogleOIDCError)
      | _ \<Rightarrow> Inl GoogleOIDCError)"

definition fetch_jwks :: "app \<Rightarrow> oidc_net \<Rightarrow> (ustr \<times> (ustr \<times> json) list) list call" where
  "fetch_jwks A N =
     then_call (provider_metadata A N) (\<lambda>m. then_call (oidc_send N (OidcGet (pm_jwks_uri m))) (\<lambda>a g.
       (case bind_res (json_payload a) (\<lambda>payload. bind_res (signing_keys payload) (\<lambda>keys.
               bind_res (cache_expiry A a 300 (oidc_now N g)) (\<lambda>t. Inr (keys, t)))) of
          Inl e \<Rightarrow> (Inl e, g)
        | Inr (keys, t) \<Rightarrow> (Inr keys, g\<lparr>go_jwks_cache := Some (keys, t)\<rparr>))))"

definition provider_jwks :: "app \<Rightarrow> oidc_net \<Rightarrow> (ustr \<times> (ustr \<times> json) list) list call" where
  "provider_jwks A N g =
     (case go_jwks_cache g of
        Some (keys, t) \<Rightarrow> if oidc_now N g < t then (Inr keys, g) else fetch_jwks A N g
      | None \<Rightarrow> fetch_jwks A N g)"

text \<open>An unknown key identifier drops the cache and asks once more.\<close>

definition find_jwk :: "app \<Rightarrow> oidc_net \<Rightarrow> ustr \<Rightarrow> (ustr \<times> json) list call" where
  "find_jwk A N kid =
     then_call (provider_jwks A N) (\<lambda>keys.
       case map_of keys kid of
         Some key \<Rightarrow> pure_call (Inr key)
       | None \<Rightarrow> (\<lambda>g. then_call (provider_jwks A N) (\<lambda>keys. pure_call (of_option GoogleOIDCError (map_of keys kid)))
                     (g\<lparr>go_jwks_cache := None\<rparr>)))"

section \<open>The ID token\<close>

definition token_demand :: "ustr \<Rightarrow> jwt_demand" where
  "token_demand client_id =
     \<lparr>jd_algorithms = [''RS256''], jd_audience = client_id, jd_issuers = GOOGLE_ISSUERS, jd_leeway = 60,
      jd_require = [''aud'', ''exp'', ''iss'', ''nonce'', ''sub'']\<rparr>"

definition token_error :: "exn \<Rightarrow> bool" where
  "token_error e \<longleftrightarrow> e = OtherError ''InvalidTokenError'' \<or> e = OtherError ''TypeError'' \<or> is_value_error e"

text \<open>\<open>hmac.compare_digest\<close> of texts accepts ASCII only.\<close>

definition compare_digest :: "ustr \<Rightarrow> ustr \<Rightarrow> bool res" where
  "compare_digest a b = (if isascii a \<and> isascii b then Inr (a = b) else Inl (OtherError ''TypeError''))"

definition check_claims :: "ustr \<Rightarrow> ustr \<Rightarrow> (ustr \<times> json) list \<Rightarrow> (ustr \<times> json) list res" where
  "check_claims client_id nonce claims =
     (case jget claims (uni ''nonce'') of
        JStr token_nonce \<Rightarrow>
          if \<not> isascii token_nonce then Inl GoogleOIDCError
          else bind_res (compare_digest token_nonce nonce) (\<lambda>same.
            if \<not> same then Inl GoogleOIDCError
            else (case jget claims (uni ''aud'') of
                    JList _ \<Rightarrow>
                      (case jget claims (uni ''azp'') of
                         JStr azp \<Rightarrow> bind_res (compare_digest azp client_id) (\<lambda>same.
                           if same then Inr claims else Inl GoogleOIDCError)
                       | _ \<Rightarrow> Inl GoogleOIDCError)
                  | _ \<Rightarrow> Inr claims))
      | _ \<Rightarrow> Inl GoogleOIDCError)"

definition verify_id_token :: "app \<Rightarrow> oidc_net \<Rightarrow> ustr \<Rightarrow> ustr \<Rightarrow> (ustr \<times> json) list call" where
  "verify_id_token A N id_token nonce =
     then_call (pure_call (case on_header N id_token of
         Inl e \<Rightarrow> Inl (if e = OtherError ''InvalidTokenError'' then GoogleOIDCError else e)
       | Inr head \<Rightarrow>
           (case jget head (uni ''kid'') of
              JStr kid \<Rightarrow>
                if jget head (uni ''alg'') \<noteq> JStr (uni ''RS256'') \<or> kid = [] \<or> length kid > 128 then Inl GoogleOIDCError
                else Inr kid
            | _ \<Rightarrow> Inl GoogleOIDCError))) (\<lambda>kid.
     then_call (find_jwk A N kid) (\<lambda>jwk g.
       (bind_res (case on_decode N jwk (token_demand (go_client_id g)) id_token of
            Inl e \<Rightarrow> Inl (if token_error e then GoogleOIDCError else e)
          | Inr claims \<Rightarrow> Inr claims)
        (check_claims (go_client_id g) nonce), g)))"

text \<open>\<open>domain.casefold().rstrip(".")\<close>\<close>

definition claimed_domain :: "unidata \<Rightarrow> ustr \<Rightarrow> ustr" where
  "claimed_domain U hd' = rstrip_of (\<lambda>c. c = 46) (casefold U hd')"

definition claimed_name :: "unidata \<Rightarrow> ustr \<Rightarrow> json \<Rightarrow> ustr" where
  "claimed_name U email name =
     (case name of
        JStr s \<Rightarrow> if strip U s \<noteq> [] then strip U s else fst (partition_on 64 email)
      | _ \<Rightarrow> fst (partition_on 64 email))"

definition identity_from_claims :: "unidata \<Rightarrow> ustr set \<Rightarrow> (ustr \<times> json) list \<Rightarrow> GoogleIdentity res" where
  "identity_from_claims U allowed claims =
     (case (jget claims (uni ''sub''), jget claims (uni ''email''), jget claims (uni ''hd'')) of
        (JStr subject, JStr email, JStr hosted_domain) \<Rightarrow>
          if subject = [] \<or> length subject > 255 \<or> \<not> valid_email U email \<or>
             jget claims (uni ''email_verified'') \<noteq> JBool True \<or> claimed_domain U hosted_domain \<notin> allowed
          then Inl GoogleOIDCError
          else
            let display_name = claimed_name U email (jget claims (uni ''name'')) in
            if length display_name > 255 then Inl GoogleOIDCError
            else Inr \<lparr>gi_subject = subject, gi_email = casefold U email, gi_display_name = display_name,
                   gi_hosted_domain = claimed_domain U hosted_domain\<rparr>
      | _ \<Rightarrow> Inl GoogleOIDCError)"

definition exchange_and_verify :: "app \<Rightarrow> oidc_net \<Rightarrow> ustr \<Rightarrow> OAuthTransaction \<Rightarrow> GoogleIdentity call" where
  "exchange_and_verify A N code t =
     (if code = [] \<or> length code > 2048 then pure_call (Inl GoogleOIDCError)
      else
        then_call (provider_metadata A N) (\<lambda>m.
        then_call (token_exchange N m code (ot_code_verifier t)) (\<lambda>payload.
        case jget payload (uni ''id_token'') of
          JStr id_token \<Rightarrow>
            if id_token = [] \<or> length id_token > ID_TOKEN_MAX_LENGTH then pure_call (Inl GoogleOIDCError)
            else then_call (verify_id_token A N id_token (ot_nonce t)) (\<lambda>claims g.
              (identity_from_claims (ap_unidata A) (go_allowed_domains g) claims, g))
        | _ \<Rightarrow> pure_call (Inl GoogleOIDCError))))"

section \<open>Accounts\<close>

definition provision_google_user :: "GoogleIdentity \<Rightarrow> db \<Rightarrow> (User \<times> db) res" where
  "provision_google_user identity d =
     (let email_user = find (\<lambda>u. u_email u = gi_email identity) (users d) in
      case find (\<lambda>u. u_google_sub u = Some (gi_subject identity)) (users d) of
        Some user \<Rightarrow>
          if (case email_user of None \<Rightarrow> False | Some e \<Rightarrow> u_id e \<noteq> u_id user) then Inl GoogleOIDCError
          else
            let f = (\<lambda>u. u\<lparr>u_email := gi_email identity, u_display_name := gi_display_name identity\<rparr>)
            in Inr (f user, set_user (u_id user) f d)
      | None \<Rightarrow>
          (case email_user of
             Some user \<Rightarrow>
               if u_google_sub user \<noteq> None \<and> u_google_sub user \<noteq> Some (gi_subject identity) then Inl GoogleOIDCError
               else
                 let f = (\<lambda>u. u\<lparr>u_google_sub := Some (gi_subject identity), u_display_name := gi_display_name identity\<rparr>)
                 in Inr (f user, set_user (u_id user) f d)
           | None \<Rightarrow>
               let (i, d) = uuid4 d;
                   user = \<lparr>u_id = i, u_email = gi_email identity, u_google_sub = Some (gi_subject identity),
                     u_display_name = gi_display_name identity, u_ou_path = None, u_role = UserRole.USER,
                     u_is_active = True, u_source = UserSource.GOOGLE, u_created_at = tx_now d,
                     u_last_login_at = None\<rparr>
               in Inr (user, d\<lparr>users := users d @ [user]\<rparr>)))"

section \<open>Facts\<close>

text \<open>Calls change the caches and the requests sent, never the configuration.\<close>

definition same_config :: "GoogleOIDC \<Rightarrow> GoogleOIDC \<Rightarrow> bool" where
  "same_config g g' \<longleftrightarrow> go_client_id g' = go_client_id g \<and> go_allowed_domains g' = go_allowed_domains g \<and>
     go_transaction_key g' = go_transaction_key g"

definition keeps_config :: "'a call \<Rightarrow> bool" where
  "keeps_config m \<longleftrightarrow> (\<forall>g. same_config g (snd (m g)))"

named_theorems call_intros \<open>rules for calls that keep the configuration\<close>

lemma same_config_trans: "same_config g h \<Longrightarrow> same_config h k \<Longrightarrow> same_config g k"
  by (simp add: same_config_def)

lemma keeps_configD: "keeps_config m \<Longrightarrow> m g = (x, g') \<Longrightarrow> same_config g g'"
  by (metis keeps_config_def snd_conv)

lemma keeps_then [call_intros]:
  assumes "keeps_config m" and "\<And>x. keeps_config (f x)"
  shows "keeps_config (then_call m f)"
  unfolding keeps_config_def
proof
  fix g
  obtain x h where m: "m g = (x, h)" by (cases "m g") simp
  have "same_config g h" using keeps_configD [OF assms(1) m] .
  moreover have "same_config h (snd (f y h))" for y using assms(2) by (simp add: keeps_config_def)
  ultimately show "same_config g (snd (then_call m f g))"
    by (cases x) (auto simp: then_call_def m intro: same_config_trans)
qed

lemma keeps_pure [call_intros]: "keeps_config (pure_call x)"
  by (simp add: keeps_config_def pure_call_def same_config_def)

lemma keeps_send [call_intros]: "keeps_config (oidc_send N q)"
  by (simp add: keeps_config_def oidc_send_def same_config_def Let_def)

lemma keeps_metadata [call_intros]: "keeps_config (provider_metadata A N)"
proof -
  have "keeps_config (fetch_metadata A N)"
    unfolding fetch_metadata_def
    by (intro call_intros) (auto simp: keeps_config_def same_config_def split: sum.split)
  then show ?thesis
    by (auto simp: keeps_config_def provider_metadata_def same_config_def split: option.split)
qed

lemma keeps_jwks [call_intros]: "keeps_config (provider_jwks A N)"
proof -
  have "keeps_config (fetch_jwks A N)"
    unfolding fetch_jwks_def
    by (intro call_intros) (auto simp: keeps_config_def same_config_def split: sum.split)
  then show ?thesis
    by (auto simp: keeps_config_def provider_jwks_def same_config_def split: option.split)
qed

lemma keeps_dropped: "keeps_config m \<Longrightarrow> keeps_config (\<lambda>g. m (g\<lparr>go_jwks_cache := None\<rparr>))"
  by (simp add: keeps_config_def same_config_def)

lemma keeps_find [call_intros]: "keeps_config (find_jwk A N kid)"
  unfolding find_jwk_def
proof (rule keeps_then [OF keeps_jwks])
  fix keys :: "(ustr \<times> (ustr \<times> json) list) list"
  have "keeps_config (\<lambda>g. then_call (provider_jwks A N) (\<lambda>keys. pure_call (of_option GoogleOIDCError (map_of keys kid)))
      (g\<lparr>go_jwks_cache := None\<rparr>))"
    by (rule keeps_dropped) (intro call_intros)
  then show "keeps_config (case map_of keys kid of
         Some key \<Rightarrow> pure_call (Inr key)
       | None \<Rightarrow> (\<lambda>g. then_call (provider_jwks A N) (\<lambda>keys. pure_call (of_option GoogleOIDCError (map_of keys kid)))
                     (g\<lparr>go_jwks_cache := None\<rparr>)))"
    using keeps_pure by (cases "map_of keys kid") simp_all
qed

lemma keeps_exchange [call_intros]: "keeps_config (token_exchange N m code v)"
proof -
  have "keeps_config (then_call (oidc_send N q) (\<lambda>a. pure_call (f a)))" for q and f :: "oidc_response \<Rightarrow> (ustr \<times> json) list res"
    by (intro call_intros)
  then show ?thesis by (simp add: keeps_config_def token_exchange_def)
qed

lemma then_call_Inr:
  assumes "then_call m f g = (Inr y, g')"
  obtains x g1 where "m g = (Inr x, g1)" "f x g1 = (Inr y, g')"
  using assms by (auto simp: then_call_def split: prod.splits sum.splits)

lemma check_claims_Inr:
  assumes "check_claims client_id nonce claims = Inr c"
  shows "c = claims \<and> jget claims (uni ''nonce'') = JStr nonce \<and>
    (case jget claims (uni ''aud'') of JList _ \<Rightarrow> jget claims (uni ''azp'') = JStr client_id | _ \<Rightarrow> True)"
  using assms by (auto simp: check_claims_def compare_digest_def bind_res_Inr_iff split: json.splits if_splits)

text \<open>The claims an identity was made of.\<close>

definition vouched :: "unidata \<Rightarrow> ustr set \<Rightarrow> (ustr \<times> json) list \<Rightarrow> GoogleIdentity \<Rightarrow> bool" where
  "vouched U allowed claims i \<longleftrightarrow>
     jget claims (uni ''sub'') = JStr (gi_subject i) \<and> gi_subject i \<noteq> [] \<and> jget claims (uni ''email_verified'') = JBool True \<and>
     (\<exists>email. jget claims (uni ''email'') = JStr email \<and> gi_email i = casefold U email) \<and>
     (\<exists>h. jget claims (uni ''hd'') = JStr h \<and> gi_hosted_domain i = claimed_domain U h) \<and> gi_hosted_domain i \<in> allowed"

lemma identity_from_claims_vouched: "identity_from_claims U allowed claims = Inr i \<Longrightarrow> vouched U allowed claims i"
  by (auto simp: identity_from_claims_def vouched_def Let_def split: json.splits if_splits)

lemma verify_id_token_Inr:
  assumes "verify_id_token A N id_token nonce g = (Inr claims, g')"
  obtains jwk where "on_decode N jwk (token_demand (go_client_id g)) id_token = Inr claims"
    "jget claims (uni ''nonce'') = JStr nonce" "same_config g g'"
proof -
  obtain kid g1 jwk g2 where 1: "find_jwk A N kid g = (Inr jwk, g2)"
    and 2: "bind_res (case on_decode N jwk (token_demand (go_client_id g2)) id_token of
            Inl e \<Rightarrow> Inl (if token_error e then GoogleOIDCError else e)
          | Inr claims \<Rightarrow> Inr claims) (check_claims (go_client_id g2) nonce) = Inr claims" "g' = g2"
    using assms unfolding verify_id_token_def by (elim then_call_Inr) (auto simp: pure_call_def)
  have same: "same_config g g2" using keeps_configD [OF keeps_find 1] .
  then have id: "go_client_id g2 = go_client_id g" by (simp add: same_config_def)
  have "on_decode N jwk (token_demand (go_client_id g)) id_token = Inr claims \<and> jget claims (uni ''nonce'') = JStr nonce"
    using 2(1) check_claims_Inr unfolding id by (auto simp: bind_res_Inr_iff split: sum.splits)
  then show thesis using that same 2(2) by blast
qed

lemma exchange_and_verify_Inr:
  assumes "exchange_and_verify A N code t g = (Inr i, g')"
  obtains jwk id_token claims where "on_decode N jwk (token_demand (go_client_id g)) id_token = Inr claims"
    "jget claims (uni ''nonce'') = JStr (ot_nonce t)" "vouched (ap_unidata A) (go_allowed_domains g) claims i" "same_config g g'"
proof -
  let ?checked = "\<lambda>payload. case jget payload (uni ''id_token'') of
          JStr id_token \<Rightarrow>
            if id_token = [] \<or> length id_token > ID_TOKEN_MAX_LENGTH then pure_call (Inl GoogleOIDCError)
            else then_call (verify_id_token A N id_token (ot_nonce t)) (\<lambda>claims g.
              (identity_from_claims (ap_unidata A) (go_allowed_domains g) claims, g))
        | _ \<Rightarrow> pure_call (Inl GoogleOIDCError)"
  have ok: "\<not> (code = [] \<or> length code > 2048)"
    using assms by (auto simp: exchange_and_verify_def pure_call_def)
  have "then_call (provider_metadata A N) (\<lambda>m. then_call (token_exchange N m code (ot_code_verifier t)) ?checked) g = (Inr i, g')"
    using assms unfolding exchange_and_verify_def if_not_P [OF ok] .
  then obtain m g1 where 1: "provider_metadata A N g = (Inr m, g1)"
    and "then_call (token_exchange N m code (ot_code_verifier t)) ?checked g1 = (Inr i, g')"
    by (rule then_call_Inr)
  from this(2) obtain payload g2 where 2: "token_exchange N m code (ot_code_verifier t) g1 = (Inr payload, g2)"
    and 3: "?checked payload g2 = (Inr i, g')"
    by (rule then_call_Inr)
  have same: "same_config g g2"
    using keeps_configD [OF keeps_metadata 1] keeps_configD [OF keeps_exchange 2] by (simp add: same_config_def)
  from 3 obtain id_token where "then_call (verify_id_token A N id_token (ot_nonce t)) (\<lambda>claims g.
              (identity_from_claims (ap_unidata A) (go_allowed_domains g) claims, g)) g2 = (Inr i, g')"
    by (auto simp: pure_call_def split: json.splits if_splits)
  then obtain claims g3 where v: "verify_id_token A N id_token (ot_nonce t) g2 = (Inr claims, g3)"
    and "(identity_from_claims (ap_unidata A) (go_allowed_domains g3) claims, g3) = (Inr i, g')"
    by (rule then_call_Inr)
  note pair = iffD1 [OF prod.inject this(2)]
  note i = conjunct1 [OF pair] conjunct2 [OF pair]
  from v obtain jwk where d: "on_decode N jwk (token_demand (go_client_id g2)) id_token = Inr claims"
    "jget claims (uni ''nonce'') = JStr (ot_nonce t)" "same_config g2 g3"
    by (rule verify_id_token_Inr)
  have "go_client_id g2 = go_client_id g" "go_allowed_domains g3 = go_allowed_domains g" "same_config g g'"
    using same d(3) unfolding i(2) by (auto simp: same_config_def)
  then show thesis
    using that d(1,2) identity_from_claims_vouched [OF i(1)] unfolding i(2) by simp
qed

lemma count_list_split:
  assumes "count_list v c = 1"
  shows "\<exists>a b. v = a @ [c] @ b \<and> partition_on c v = (a, True, b)"
proof -
  have "c \<in> set v" using assms by (metis count_notin zero_neq_one)
  then have "v = takeWhile (\<lambda>x. x \<noteq> c) v @ [c] @ drop 1 (dropWhile (\<lambda>x. x \<noteq> c) v)"
    by (induction v) auto
  then show ?thesis using \<open>c \<in> set v\<close> by (auto simp: partition_on_def)
qed

lemma parse_transaction_Some:
  "parse_transaction payload current = Some t \<Longrightarrow>
   unix_seconds current < ot_expires_at t \<and> is_urlsafe_token (ot_state t) 43 \<and> is_urlsafe_token (ot_nonce t) 43 \<and>
   is_urlsafe_token (ot_code_verifier t) 86"
  by (auto simp: parse_transaction_def split: json.splits option.splits if_splits)

text \<open>A cookie that is read was signed with the server's key, and is fresh.\<close>

lemma deserialize_Some:
  assumes "deserialize A key current v = Some t"
  shows "\<exists>encoded. v = Some (encoded @ [46] @ base64url (hmac_sha256 key (map word_of_nat encoded))) \<and>
    unix_seconds current < ot_expires_at t \<and> is_urlsafe_token (ot_state t) 43 \<and> is_urlsafe_token (ot_nonce t) 43 \<and>
    is_urlsafe_token (ot_code_verifier t) 86"
proof -
  obtain w where w: "v = Some w" "count_list w 46 = 1"
    using assms by (auto simp: deserialize_def split: option.splits if_splits)
  obtain a b where ab: "w = a @ [46] @ b" "partition_on 46 w = (a, True, b)"
    using count_list_split [OF w(2)] by blast
  have "b = base64url (hmac_sha256 key (map word_of_nat a))" "\<exists>payload. parse_transaction payload current = Some t"
    using assms by (auto simp: deserialize_def w ab(2) split: option.splits json.splits if_splits)
  then show ?thesis using parse_transaction_Some w(1) ab(1) by blast
qed

section \<open>Properties\<close>

text \<open>
  C0. Signing in with Google grants nothing. Whichever identity is provisioned, every account keeps its
  identifier, role, state and source, and its Google identity if it has one; other accounts are untouched; a new account has the least role.
\<close>

definition same_rights :: "User \<Rightarrow> User \<Rightarrow> bool" where
  "same_rights u v \<longleftrightarrow> u_id v = u_id u \<and> u_role v = u_role u \<and> u_is_active v = u_is_active u \<and> u_source v = u_source u \<and>
     (u_google_sub u \<noteq> None \<longrightarrow> u_google_sub v = u_google_sub u)"

lemma set_update_one:
  assumes "unique_on u_id us" and "u0 \<in> set us"
  shows "set (update_where (\<lambda>u. u_id u = u_id u0) f us) = insert (f u0) (set us - {u0})"
proof -
  have "u_id u = u_id u0 \<longleftrightarrow> u = u0" if "u \<in> set us" for u
    using assms that by (auto simp: unique_on_def inj_on_def distinct_map)
  then show ?thesis using assms(2) by (force simp: set_update_where)
qed

theorem provision_grants_nothing:
  assumes "provision_google_user identity d = Inr (user, d')" and "unique_on u_id (users d)"
  shows "u_google_sub user = Some (gi_subject identity) \<and> u_email user = gi_email identity \<and> user \<in> set (users d') \<and>
    (\<forall>u \<in> set (users d). \<exists>v \<in> set (users d'). same_rights u v) \<and>
    (\<forall>v \<in> set (users d'). v = user \<or> v \<in> set (users d)) \<and>
    ((\<exists>u \<in> set (users d). same_rights u user) \<or>
     u_role user = UserRole.USER \<and> users d' = users d @ [user] \<and> u_email user \<notin> u_email ` set (users d))"
proof -
  have refl: "same_rights u u" for u by (simp add: same_rights_def)
  have one: ?thesis if "u0 \<in> set (users d)" "user = f u0" "users d' = update_where (\<lambda>u. u_id u = u_id u0) f (users d)"
    "same_rights u0 user" "u_google_sub user = Some (gi_subject identity)" "u_email user = gi_email identity" for u0 f
    using that refl set_update_one [OF assms(2) that(1), of f] by auto
  let ?sub = "find (\<lambda>u. u_google_sub u = Some (gi_subject identity)) (users d)"
  let ?email = "find (\<lambda>u. u_email u = gi_email identity) (users d)"
  show ?thesis
  proof (cases ?sub)
    case (Some u0)
    from assms(1) Some find_Some_mem [OF Some] show ?thesis
      by (intro one [of u0 "\<lambda>u. u\<lparr>u_email := gi_email identity, u_display_name := gi_display_name identity\<rparr>"])
        (auto simp: provision_google_user_def Let_def set_user_def same_rights_def split: option.splits if_splits)
  next
    case sub: None
    show ?thesis
    proof (cases ?email)
      case (Some u0)
      from assms(1) sub Some find_Some_mem [OF Some] show ?thesis
        by (intro one [of u0 "\<lambda>u. u\<lparr>u_google_sub := Some (gi_subject identity), u_display_name := gi_display_name identity\<rparr>"])
          (auto simp: provision_google_user_def Let_def set_user_def same_rights_def split: if_splits)
    next
      case None
      then have free: "gi_email identity \<notin> u_email ` set (users d)"
        by (auto simp: find_None_iff)
      from assms(1) sub None have "users d' = users d @ [user]" "u_role user = UserRole.USER"
        "u_google_sub user = Some (gi_subject identity)" "u_email user = gi_email identity"
        by (auto simp: provision_google_user_def Let_def uuid4_eq)
      with free show ?thesis using refl by auto
    qed
  qed
qed

text \<open>A text of the alphabet is decoded whole, whatever the length of its last group.\<close>

lemma lenient_sextets_append:
  "list_all (\<lambda>c. b64_value c \<noteq> None \<and> c \<noteq> 61) s \<Longrightarrow>
   lenient_sextets acc 0 (s @ r) = lenient_sextets (acc @ map (\<lambda>c. the (b64_value c)) s) 0 r"
  by (induction s arbitrary: acc) auto

lemma b64_sextets_groups: "length (b64_sextets xs) mod 4 \<in> {0, 2, 3}"
  by (induction xs rule: b64_sextets.induct) auto

lemma lenient_padding:
  assumes "length vs mod 4 \<in> {0, 2, 3}"
  shows "lenient_sextets vs 0 (replicate (pad_len (length vs)) 61) = Some vs"
  using assms by (auto simp: pad_len_def numeral_2_eq_2)

lemma base64url_decode_base64url: "base64url_decode (base64url bs) = Some bs"
proof -
  let ?s = "b64_sextets (map unat bs)"
  have lt: "i < 64" if "i \<in> set ?s" for i
    using that by (rule b64_sextets_lt [rotated]) (auto intro: unat_byte_lt)
  have "list_all (\<lambda>c. b64_value c \<noteq> None \<and> c \<noteq> 61) (base64url bs)"
    using lt b64_char_not_pad by (auto simp: base64url_def b64_value_char list_all_iff)
  moreover have "map (\<lambda>c. the (b64_value c)) (base64url bs) = ?s"
    using lt by (auto simp: base64url_def b64_value_char intro!: map_idI)
  moreover have "length (base64url bs) = length ?s" by (simp add: base64url_def)
  ultimately have "lenient_sextets [] 0 (base64url bs @ replicate (pad_len (length (base64url bs))) 61) = Some ?s"
    using lenient_padding [OF b64_sextets_groups, of "map unat bs"] by (simp add: lenient_sextets_append)
  moreover have "sextets_bytes ?s = Some (map unat bs)"
    by (rule sextets_bytes_sextets) (auto intro: unat_byte_lt)
  ultimately show ?thesis by (simp add: base64url_decode_def o_def)
qed

text \<open>The bytes of a transaction and their number.\<close>

lemma urlsafe_plain: "is_urlsafe c \<Longrightarrow> ascii_json_char c = [c]"
  by (auto simp: is_urlsafe_def ascii_json_char_def)

lemma ascii_json_str_urlsafe:
  assumes "list_all is_urlsafe s" shows "ascii_json_str s = [34] @ s @ [34]"
proof -
  have "concat (map ascii_json_char s) = s" using assms by (induction s) (auto simp: urlsafe_plain)
  then show ?thesis by (simp add: ascii_json_str_def)
qed

lemma compact_transaction:
  assumes "list_all is_urlsafe (ot_state t)" "list_all is_urlsafe (ot_nonce t)" "list_all is_urlsafe (ot_code_verifier t)"
  shows "compact_json (JObj (transaction_fields t)) =
    uni ''{\"code_verifier\":\"'' @ ot_code_verifier t @ uni ''\",\"expires_at\":'' @ int_str (ot_expires_at t) @
    uni '',\"nonce\":\"'' @ ot_nonce t @ uni ''\",\"state\":\"'' @ ot_state t @ uni ''\"}''"
proof -
  have keys: "ascii_json_str (uni ''code_verifier'') = [34] @ uni ''code_verifier'' @ [34]"
    "ascii_json_str (uni ''expires_at'') = [34] @ uni ''expires_at'' @ [34]"
    "ascii_json_str (uni ''nonce'') = [34] @ uni ''nonce'' @ [34]" "ascii_json_str (uni ''state'') = [34] @ uni ''state'' @ [34]"
    by (rule ascii_json_str_urlsafe, simp add: uni_def is_urlsafe_def ascii_defs)+
  have order: "uni ''code_verifier'' \<le> uni ''expires_at''" "uni ''expires_at'' \<le> uni ''nonce''" "uni ''nonce'' \<le> uni ''state''"
    by (simp_all add: uni_def)
  have "sort_key fst [(uni ''code_verifier'', a), (uni ''expires_at'', b), (uni ''nonce'', c), (uni ''state'', e)] =
      [(uni ''code_verifier'', a), (uni ''expires_at'', b), (uni ''nonce'', c), (uni ''state'', e)]" for a b c e :: ustr
    using order order_trans by (intro sort_key_id_if_sorted) fastforce
  then show ?thesis
    using assms by (simp add: transaction_fields_def keys ascii_json_str_urlsafe) (simp add: uni_def)
qed

text \<open>What the server signed it reads back, as long as it has not expired.\<close>

lemma deserialize_serialize:
  assumes tokens: "is_urlsafe_token (ot_state t) 43" "is_urlsafe_token (ot_nonce t) 43" "is_urlsafe_token (ot_code_verifier t) 86"
    and "0 \<le> ot_expires_at t" "nat (ot_expires_at t) < 10 ^ 20" "unix_seconds now < ot_expires_at t"
    and "ap_json_loads A (map word_of_nat (compact_json (JObj (transaction_fields t)))) = Some (JObj (transaction_fields t))"
  shows "deserialize A key now (Some (serialize key t)) = Some t"
proof -
  have digits: "length (int_str (ot_expires_at t)) \<le> 20"
    using assms(4,5) length_dec [of "nat (ot_expires_at t)" 20] by (simp add: int_str_def)
  define encoded where "encoded = base64url (map word_of_nat (compact_json (JObj (transaction_fields t))))"
  have urlsafe: "list_all is_urlsafe encoded" "list_all is_urlsafe (base64url (hmac_sha256 key (map word_of_nat encoded)))"
    by (simp_all add: encoded_def base64url_urlsafe)
  have plain: "c \<noteq> 46 \<and> c < 128" if "is_urlsafe c" for c
    using that by (auto simp: is_urlsafe_def ascii_defs)
  have no_dot: "46 \<notin> set s" "isascii s" if "list_all is_urlsafe s" for s
    using that plain by (auto simp: list_all_iff isascii_def)
  define signature where "signature = base64url (hmac_sha256 key (map word_of_nat encoded))"
  have sig: "list_all is_urlsafe signature" "length signature = 43"
    using urlsafe(2) by (simp_all add: signature_def length_base64url)
  have v: "serialize key t = encoded @ [46] @ signature"
    by (simp only: serialize_def encoded_def signature_def Let_def)
  have "length (compact_json (JObj (transaction_fields t))) \<le> 300"
    using tokens digits unfolding is_urlsafe_token_def
    by (subst compact_transaction) (simp_all add: uni_def)
  then have "length encoded \<le> 402" by (simp add: encoded_def length_base64url)
  then have "length (serialize key t) \<le> 2048" using sig(2) by (simp add: v)
  moreover have "count_list (serialize key t) 46 = 1"
    using no_dot urlsafe(1) sig(1) by (simp add: v count_notin)
  moreover have "partition_on 46 (serialize key t) = (encoded, True, signature)"
    using no_dot(1) [OF urlsafe(1)] by (auto simp: v partition_on_def takeWhile_append dropWhile_append)
  moreover have "parse_transaction (transaction_fields t) now = Some t"
    using tokens assms(6) by (simp add: parse_transaction_def transaction_fields_def jget_def int_value_def uni_def)
  ultimately show ?thesis
    using no_dot(2) [OF urlsafe(1)] no_dot(2) [OF sig(1)] assms(7)
    by (simp add: deserialize_def base64url_decode_base64url encoded_def [symmetric] signature_def [symmetric])
      (simp add: encoded_def base64url_decode_base64url)
qed

lemma begun_transaction:
  assumes "begin_transaction c d = (t, d')" and "0 \<le> c" and "c \<le> 10 ^ 18"
  shows "is_urlsafe_token (ot_state t) 43" "is_urlsafe_token (ot_nonce t) 43" "is_urlsafe_token (ot_code_verifier t) 86"
    "0 \<le> ot_expires_at t" "nat (ot_expires_at t) < 10 ^ 20" "ot_expires_at t = unix_seconds (c + OAUTH_TRANSACTION_TTL)"
proof -
  show "is_urlsafe_token (ot_state t) 43" "is_urlsafe_token (ot_nonce t) 43" "is_urlsafe_token (ot_code_verifier t) 86"
    and e: "ot_expires_at t = unix_seconds (c + OAUTH_TRANSACTION_TTL)"
    using assms(1) by (auto simp: begin_transaction_def is_urlsafe_token_def token_urlsafe_eq base64url_urlsafe length_base64url)
  show "0 \<le> ot_expires_at t" "nat (ot_expires_at t) < 10 ^ 20"
    using assms(2,3) by (auto simp: e unix_seconds_def OAUTH_TRANSACTION_TTL_def seconds_def)
qed

text \<open>
  An authentication attempt that was begun is recognised by the callback: for ten minutes (up to the second
  it is in) the cookie set for it reads back as the same state, nonce and code verifier.
\<close>

theorem transaction_roundtrip:
  assumes "begin_transaction c d = (t, d')" and "0 \<le> c" and "c \<le> 10 ^ 18"
    and "0 \<le> now" and "now \<le> c + OAUTH_TRANSACTION_TTL - seconds 1"
    and "ap_json_loads A (map word_of_nat (compact_json (JObj (transaction_fields t)))) = Some (JObj (transaction_fields t))"
  shows "deserialize A key now (Some (serialize key t)) = Some t"
proof -
  note begun = begun_transaction [OF assms(1-3)]
  have "unix_seconds now < ot_expires_at t"
    using assms(4,5) by (simp add: begun(6) unix_seconds_def OAUTH_TRANSACTION_TTL_def seconds_def)
  then show ?thesis by (rule deserialize_serialize [OF begun(1-5) _ assms(6)])
qed

text \<open>The first attempt of all, and a super-admin's first sign-in with Google.\<close>

definition first_transaction :: OAuthTransaction where
  "first_transaction = fst (begin_transaction 0 db0)"

theorem transaction_roundtrip_witness:
  "deserialize (the_app\<lparr>ap_json_loads := \<lambda>_. Some (JObj (transaction_fields first_transaction))\<rparr>) [] 0
     (Some (serialize [] first_transaction)) = Some first_transaction"
proof (rule transaction_roundtrip)
  show "begin_transaction 0 db0 = (first_transaction, snd (begin_transaction 0 db0))"
    by (simp add: first_transaction_def)
qed (simp_all add: OAUTH_TRANSACTION_TTL_def seconds_def)

definition an_identity :: GoogleIdentity where
  "an_identity = \<lparr>gi_subject = uni ''77'', gi_email = uni ''a@example.org'', gi_display_name = uni ''A'', gi_hosted_domain = uni ''example.org''\<rparr>"

theorem provision_grants_nothing_witness:
  "\<exists>user d'. provision_google_user an_identity (db0\<lparr>users := [a_user 1 UserRole.SUPER_ADMIN]\<rparr>) = Inr (user, d') \<and>
     (\<exists>v \<in> set (users d'). same_rights (a_user 1 UserRole.SUPER_ADMIN) v)"
proof -
  let ?d = "db0\<lparr>users := [a_user 1 UserRole.SUPER_ADMIN]\<rparr>"
  have "\<exists>user d'. provision_google_user an_identity ?d = Inr (user, d')"
    by (simp add: provision_google_user_def an_identity_def a_user_def)
  then obtain user d' where run: "provision_google_user an_identity ?d = Inr (user, d')" by blast
  have "unique_on u_id (users ?d)" by (simp add: unique_on_def)
  with run provision_grants_nothing [OF run] show ?thesis by auto
qed

end
