(* ===== verification/KeyRotation.thy ===== *)
theory KeyRotation
  imports GoogleLogin
begin

text \<open>
  Two operator commands. \<open>src/app/reencrypt.py\<close> rotates the data key: every ciphertext of the three
  encrypted stores is decrypted with the old and encrypted with the new key, in one transaction.
  \<open>src/app/create_superadmin.py\<close> creates the first administrator. A command takes what its user types
  at the prompts and leaves an exit status and the lines it printed.
\<close>

section \<open>The report\<close>

record RotationReport =
  rep_findings :: nat
  rep_settings :: nat
  rep_totp_secrets :: nat
  rep_failures :: "ustr list"

definition empty_report :: RotationReport where
  "empty_report = \<lparr>rep_findings = 0, rep_settings = 0, rep_totp_secrets = 0, rep_failures = []\<rparr>"

definition report_summary :: "RotationReport \<Rightarrow> ustr" where
  "report_summary rep = concat
     [uni ''findings='', dec (rep_findings rep), uni '' settings='', dec (rep_settings rep),
      uni '' totp_secrets='', dec (rep_totp_secrets rep), uni '' failures='', dec (length (rep_failures rep))]"

definition fail_with :: "ustr \<Rightarrow> RotationReport \<Rightarrow> RotationReport" where
  "fail_with label rep = rep\<lparr>rep_failures := rep_failures rep @ [label]\<rparr>"

section \<open>Rotation\<close>

definition decode_rotation_key :: "ustr \<Rightarrow> bytes res" where
  "decode_rotation_key v =
     (if \<not> isascii v then Inl ValueError
      else case base64url_decode v of
          None \<Rightarrow> Inl ValueError
        | Some raw \<Rightarrow> if length raw \<noteq> 32 then Inl ValueError else Inr raw)"

text \<open>\<open>None\<close> is \<open>InvalidTag\<close>.\<close>

definition recrypt :: "aesgcm \<Rightarrow> bytes \<Rightarrow> bytes \<Rightarrow> bytes \<Rightarrow> bytes \<Rightarrow> bytes \<Rightarrow> bytes option" where
  "recrypt G old new nonce ciphertext a =
     map_option (\<lambda>plaintext. gcm_encrypt G new nonce plaintext a) (gcm_decrypt G old nonce ciphertext a)"

definition rotate_finding ::
  "aesgcm \<Rightarrow> bytes \<Rightarrow> bytes \<Rightarrow> Finding \<Rightarrow> RotationReport \<Rightarrow> (Finding \<times> RotationReport) res" where
  "rotate_finding G old new f rep =
     (case (fnd_password_ciphertext f, fnd_password_nonce f) of
        (Some ciphertext, Some nonce) \<Rightarrow>
          (case recrypt G old new nonce ciphertext (aad (fnd_id f)) of
             None \<Rightarrow> Inr (f, fail_with (uni ''finding:'' @ uuid_str (fnd_id f)) rep)
           | Some c \<Rightarrow> Inr (f\<lparr>fnd_password_ciphertext := Some c\<rparr>, rep\<lparr>rep_findings := rep_findings rep + 1\<rparr>))
      | _ \<Rightarrow> Inr (f, rep))"

text \<open>\<open>SettingKey(row.key)\<close> raises \<open>ValueError\<close> for a text that is no key.\<close>

definition setting_of_text :: "ustr \<Rightarrow> SettingKey res" where
  "setting_of_text v = of_option ValueError (find (\<lambda>k. key_text k = v) all_setting_keys)"

definition rotate_setting ::
  "aesgcm \<Rightarrow> bytes \<Rightarrow> bytes \<Rightarrow> PlatformSetting \<Rightarrow> RotationReport \<Rightarrow> (PlatformSetting \<times> RotationReport) res" where
  "rotate_setting G old new row rep =
     bind_res (setting_of_text (ps_key row)) (\<lambda>key.
     case recrypt G old new (ps_nonce row) (ps_ciphertext row) (setting_aad key (ps_schema_version row)) of
       None \<Rightarrow> Inr (row, fail_with (uni ''platform_setting:'' @ ps_key row) rep)
     | Some c \<Rightarrow> Inr (row\<lparr>ps_ciphertext := c\<rparr>, rep\<lparr>rep_settings := rep_settings rep + 1\<rparr>))"

definition rotate_credential ::
  "aesgcm \<Rightarrow> bytes \<Rightarrow> bytes \<Rightarrow> AdminCredential \<Rightarrow> RotationReport \<Rightarrow> (AdminCredential \<times> RotationReport) res" where
  "rotate_credential G old new c rep =
     (case cred_totp_secret_enc c of
        None \<Rightarrow> Inr (c, rep)
      | Some blob \<Rightarrow>
          if length blob \<le> TOTP_NONCE_BYTES then Inr (c, rep)
          else
            let nonce = take TOTP_NONCE_BYTES blob in
            (case recrypt G old new nonce (drop TOTP_NONCE_BYTES blob) (totp_aad (cred_user_id c)) of
               None \<Rightarrow> Inr (c, fail_with (uni ''admin_credential:'' @ uuid_str (cred_user_id c)) rep)
             | Some e \<Rightarrow> Inr (c\<lparr>cred_totp_secret_enc := Some (nonce @ e)\<rparr>,
                              rep\<lparr>rep_totp_secrets := rep_totp_secrets rep + 1\<rparr>)))"

fun rotate_rows ::
  "('a \<Rightarrow> RotationReport \<Rightarrow> ('a \<times> RotationReport) res) \<Rightarrow> 'a list \<Rightarrow> RotationReport \<Rightarrow> ('a list \<times> RotationReport) res" where
  "rotate_rows step [] rep = Inr ([], rep)"
| "rotate_rows step (x # xs) rep =
     bind_res (step x rep) (\<lambda>(y, rep).
     bind_res (rotate_rows step xs rep) (\<lambda>(ys, rep).
     Inr (y # ys, rep)))"

definition rotate_keys :: "aesgcm \<Rightarrow> bytes \<Rightarrow> bytes \<Rightarrow> db \<Rightarrow> (RotationReport \<times> db) res" where
  "rotate_keys G old new d =
     bind_res (rotate_rows (rotate_finding G old new) (findings d) empty_report) (\<lambda>(fs, rep).
     bind_res (rotate_rows (rotate_setting G old new) (platform_settings d) rep) (\<lambda>(ss, rep).
     bind_res (rotate_rows (rotate_credential G old new) (admin_credentials d) rep) (\<lambda>(cs, rep).
     Inr (rep, d\<lparr>findings := fs, platform_settings := ss, admin_credentials := cs\<rparr>))))"

definition run_rotation :: "aesgcm \<Rightarrow> Settings \<Rightarrow> ustr \<Rightarrow> bool \<Rightarrow> db \<Rightarrow> (RotationReport \<times> db) res" where
  "run_rotation G s new_key_value dry_run d =
     bind_res (decode_rotation_key (s_data_key s)) (\<lambda>old.
     bind_res (decode_rotation_key new_key_value) (\<lambda>new.
     if old = new then Inl (OtherError ''SystemExit'')
     else
       bind_res (rotate_keys G old new d) (\<lambda>(rep, d').
       Inr (rep, if rep_failures rep \<noteq> [] \<or> dry_run then d else d'))))"

definition generate_key :: "db \<Rightarrow> ustr \<times> db" where
  "generate_key d = (let (bs, d) = token_bytes 32 d in (base64url bs, d))"

section \<open>The commands\<close>

record console =
  exit_status :: nat
  stdout :: "ustr list"
  stderr :: "ustr list"

definition exits :: "nat \<Rightarrow> ustr list \<Rightarrow> console" where
  "exits status lines = \<lparr>exit_status = status, stdout = [], stderr = lines\<rparr>"

definition prints :: "ustr list \<Rightarrow> console" where
  "prints lines = \<lparr>exit_status = 0, stdout = lines, stderr = []\<rparr>"

definition rotation_report :: "bool \<Rightarrow> RotationReport \<Rightarrow> console" where
  "rotation_report dry_run rep =
     (if rep_failures rep \<noteq> []
      then exits 1 (uni ''rotation aborted; nothing was written'' #
             map (\<lambda>l. uni ''  could not decrypt '' @ l) (take 20 (rep_failures rep)))
      else prints (((if dry_run then uni ''would rotate'' else uni ''rotated'') @ uni '': '' @ report_summary rep) #
             (if dry_run then [] else [uni ''Update LC_DATA_KEY (or the data-key bootstrap secret) before restarting the app.''])))"

definition rotation_command ::
  "aesgcm \<Rightarrow> unidata \<Rightarrow> Settings \<Rightarrow> bool \<Rightarrow> bool \<Rightarrow> ustr \<Rightarrow> ustr \<Rightarrow> db \<Rightarrow> (console \<times> db) res" where
  "rotation_command G U s generate dry_run typed confirmed d =
     (if generate then (let (key, d) = generate_key d in Inr (prints [key], d))
      else
        let new_key_value = strip U typed in
        if new_key_value = [] then Inr (exits 1 [uni ''no key supplied''], d)
        else if strip U confirmed \<noteq> new_key_value then Inr (exits 1 [uni ''the two keys did not match''], d)
        else
          (case run_rotation G s new_key_value dry_run d of
             Inl e \<Rightarrow>
               if e = OtherError ''SystemExit''
               then Inr (exits 1 [uni ''the new data key is identical to the current one''], d) else Inl e
           | Inr (rep, d) \<Rightarrow> Inr (rotation_report dry_run rep, d)))"

text \<open>\<open>None\<close> is an interrupted prompt; any exception of the creation rolls its transaction back.\<close>

definition create_command ::
  "app \<Rightarrow> ustr option \<Rightarrow> ustr option \<Rightarrow> ustr option \<Rightarrow> ustr option \<Rightarrow> db \<Rightarrow> (console \<times> db) res" where
  "create_command A email display_name password confirmation d =
     (case (email, display_name, password, confirmation) of
        (Some email, Some display_name, Some password, Some confirmation) \<Rightarrow>
          if password \<noteq> confirmation then Inr (exits 1 [uni ''Passwords did not match; no account was created.''], d)
          else
            (case create_superadmin A email display_name password d of
               Inl e \<Rightarrow>
                 if e = LocalAuthenticationError
                 then Inr (exits 1 [uni ''Invalid account details or password; no account was created.''], d)
                 else if e = SuperAdminAlreadyExistsError
                 then Inr (exits 1 [uni ''An account with that email already exists; no account was changed.''], d)
                 else Inl e
             | Inr (user, d) \<Rightarrow>
                 Inr (prints [uni ''Created super-admin account for '' @ u_email user @ [46],
                              uni ''Sign in with the password, then enroll MFA from Account security.''], d))
      | _ \<Rightarrow> Inr (exits 1 [uni ''Super-admin creation cancelled.''], d))"

section \<open>Facts\<close>

text \<open>The strict decoding of the configuration and the lenient one here agree where the former succeeds.\<close>

lemma sextets_bytes_length: "sextets_bytes vs = Some bs \<Longrightarrow> length vs mod 4 \<noteq> 1"
  by (induction vs arbitrary: bs rule: sextets_bytes.induct) auto

lemma strict_lenient:
  assumes "decode_key v = Some k"
  shows "base64url_decode v = Some k" and "isascii v"
proof -
  let ?s = "v @ replicate (pad_len (length v)) 61"
  let ?cs = "takeWhile (\<lambda>c. c \<noteq> 61) ?s" and ?ps = "dropWhile (\<lambda>c. c \<noteq> 61) ?s"
  let ?vs = "map (\<lambda>c. the (b64_value c)) ?cs"
  have ok: "list_all (\<lambda>c. b64_value c \<noteq> None) ?cs" and ps: "?ps = replicate (pad_len (length ?cs)) 61"
    and k: "map_option (map word_of_nat) (sextets_bytes ?vs) = Some k"
    using assms by (auto simp: decode_key_def b64decode_strict_def Let_def split: if_splits)
  have split: "?s = ?cs @ ?ps" by simp
  have "list_all (\<lambda>c. b64_value c \<noteq> None \<and> c \<noteq> 61) ?cs"
    using ok by (auto simp: list_all_iff b64_value_def split: if_splits)
  note chars = lenient_sextets_append [OF this, of "[]" ?ps]
  have "length ?vs mod 4 \<noteq> 1" using k sextets_bytes_length by blast
  moreover have "length ?vs mod 4 < 4" by simp
  ultimately have "length ?vs mod 4 \<in> {0, 2, 3}" by auto
  note pads = lenient_padding [OF this]
  have "lenient_sextets [] 0 ?s = lenient_sextets [] 0 (?cs @ ?ps)" by (subst split) (rule refl)
  also have "\<dots> = lenient_sextets ?vs 0 (replicate (pad_len (length ?vs)) 61)"
    unfolding chars unfolding ps by simp
  also have "\<dots> = Some ?vs" by (rule pads)
  finally show "base64url_decode v = Some k" using k by (simp add: base64url_decode_def)
  have "c < 128" if "c \<in> set ?s" for c
  proof -
    have "c \<in> set ?cs \<or> c = 61" using that ps by (metis UnE split in_set_replicate set_append)
    then show ?thesis using ok by (auto simp: list_all_iff b64_value_def split: if_splits)
  qed
  then show "isascii v" by (simp add: isascii_def list_all_iff)
qed

lemma decode_rotation_key_strict:
  "data_key s = Inr k \<Longrightarrow> length k = 32 \<Longrightarrow> decode_rotation_key (s_data_key s) = Inr k"
  by (auto simp: decode_rotation_key_def data_key_def strict_lenient split: option.splits)

lemma decode_rotation_key_length: "decode_rotation_key v = Inr k \<Longrightarrow> length k = 32"
  by (auto simp: decode_rotation_key_def split: if_splits option.splits)

lemma recrypt_back:
  assumes "gcm_ok G" "length old = 32" "length new = 32" "length n = 12" "recrypt G old new n c a = Some c'"
  shows "recrypt G new old n c' a = Some c" and "gcm_decrypt G new n c' a = gcm_decrypt G old n c a"
proof -
  obtain p where p: "gcm_decrypt G old n c a = Some p" "c' = gcm_encrypt G new n p a"
    using assms(5) by (auto simp: recrypt_def)
  moreover from this have "c = gcm_encrypt G old n p a" "gcm_decrypt G new n c' a = Some p"
    using assms(1-4) by (simp_all add: gcm_ok_def)
  ultimately show "recrypt G new old n c' a = Some c" "gcm_decrypt G new n c' a = gcm_decrypt G old n c a"
    by (simp_all add: recrypt_def)
qed

lemma setting_of_key_text [simp]: "setting_of_text (key_text key) = Inr key"
  by (cases key) (simp_all add: setting_of_text_def all_setting_keys_def)

text \<open>
  A rotated table: without a failure every row is turned, and a table all of whose rows can be turned is
  rotated without a failure.
\<close>

locale rotation_store =
  fixes step :: "'a \<Rightarrow> RotationReport \<Rightarrow> ('a \<times> RotationReport) res"
    and turned :: "'a \<Rightarrow> 'a \<Rightarrow> bool"
  assumes step_turned: "step x rep = Inr (y, rep') \<Longrightarrow>
      \<exists>ls. rep_failures rep' = rep_failures rep @ ls \<and> (ls = [] \<longrightarrow> turned x y)"
    and turned_step: "turned x y \<Longrightarrow> \<exists>rep'. step x rep = Inr (y, rep') \<and> rep_failures rep' = rep_failures rep"
begin

lemma rows_turned:
  "rotate_rows step xs rep = Inr (ys, rep') \<Longrightarrow>
   \<exists>ls. rep_failures rep' = rep_failures rep @ ls \<and> (ls = [] \<longrightarrow> list_all2 turned xs ys)"
proof (induction xs arbitrary: ys rep)
  case (Cons x xs)
  then obtain y zs r where y: "step x rep = Inr (y, r)" and zs: "rotate_rows step xs r = Inr (zs, rep')"
    and ys: "ys = y # zs"
    by (auto simp: bind_res_Inr_iff)
  obtain l where l: "rep_failures r = rep_failures rep @ l" "l = [] \<longrightarrow> turned x y" using step_turned [OF y] by blast
  obtain ls where ls: "rep_failures rep' = rep_failures r @ ls" "ls = [] \<longrightarrow> list_all2 turned xs zs"
    using Cons.IH [OF zs] by blast
  then show ?case using l ys by (intro exI [of _ "l @ ls"]) simp
qed simp

lemma turned_rows:
  "list_all2 turned xs ys \<Longrightarrow> \<exists>rep'. rotate_rows step xs rep = Inr (ys, rep') \<and> rep_failures rep' = rep_failures rep"
proof (induction xs ys arbitrary: rep rule: list_all2_induct)
  case (Cons x xs y ys)
  obtain r where r: "step x rep = Inr (y, r)" "rep_failures r = rep_failures rep"
    using turned_step [OF Cons.hyps(1)] by blast
  obtain q where "rotate_rows step xs r = Inr (ys, q)" "rep_failures q = rep_failures r"
    using Cons.IH by blast
  with r show ?case by simp
qed simp

lemma rows_failures:
  assumes "rotate_rows step xs rep = Inr (ys, rep')"
  shows "set (rep_failures rep) \<subseteq> set (rep_failures rep')"
proof -
  obtain ls where "rep_failures rep' = rep_failures rep @ ls" using rows_turned [OF assms] by blast
  then show ?thesis by simp
qed

lemma rows_refused:
  "rotate_rows step xs rep = Inr (ys, rep') \<Longrightarrow> x \<in> set xs \<Longrightarrow> (\<And>rep. step x rep = Inr (x, fail_with l rep)) \<Longrightarrow>
   l \<in> set (rep_failures rep')"
proof (induction xs arbitrary: ys rep)
  case (Cons z xs)
  then obtain y zs r where y: "step z rep = Inr (y, r)" and zs: "rotate_rows step xs r = Inr (zs, rep')"
    by (auto simp: bind_res_Inr_iff)
  show ?case
  proof (cases "x = z")
    case True
    with y Cons.prems(3) have "l \<in> set (rep_failures r)" by (auto simp: fail_with_def)
    with rows_failures [OF zs] show ?thesis by blast
  next
    case False
    with Cons.prems show ?thesis by (intro Cons.IH [OF zs]) auto
  qed
qed simp

end

definition finding_turned :: "aesgcm \<Rightarrow> bytes \<Rightarrow> bytes \<Rightarrow> Finding \<Rightarrow> Finding \<Rightarrow> bool" where
  "finding_turned G old new f f' =
     (case (fnd_password_ciphertext f, fnd_password_nonce f) of
        (Some c, Some n) \<Rightarrow>
          (case recrypt G old new n c (aad (fnd_id f)) of
             None \<Rightarrow> False | Some c' \<Rightarrow> f' = f\<lparr>fnd_password_ciphertext := Some c'\<rparr>)
      | _ \<Rightarrow> f' = f)"

definition setting_turned :: "aesgcm \<Rightarrow> bytes \<Rightarrow> bytes \<Rightarrow> PlatformSetting \<Rightarrow> PlatformSetting \<Rightarrow> bool" where
  "setting_turned G old new r r' =
     (case setting_of_text (ps_key r) of
        Inl e \<Rightarrow> False
      | Inr key \<Rightarrow>
          (case recrypt G old new (ps_nonce r) (ps_ciphertext r) (setting_aad key (ps_schema_version r)) of
             None \<Rightarrow> False | Some c \<Rightarrow> r' = r\<lparr>ps_ciphertext := c\<rparr>))"

definition credential_turned :: "aesgcm \<Rightarrow> bytes \<Rightarrow> bytes \<Rightarrow> AdminCredential \<Rightarrow> AdminCredential \<Rightarrow> bool" where
  "credential_turned G old new c c' =
     (case cred_totp_secret_enc c of
        Some blob \<Rightarrow>
          if length blob \<le> TOTP_NONCE_BYTES then c' = c
          else
            (case recrypt G old new (take TOTP_NONCE_BYTES blob) (drop TOTP_NONCE_BYTES blob) (totp_aad (cred_user_id c)) of
               None \<Rightarrow> False
             | Some e \<Rightarrow> c' = c\<lparr>cred_totp_secret_enc := Some (take TOTP_NONCE_BYTES blob @ e)\<rparr>)
      | None \<Rightarrow> c' = c)"

interpretation finding_store: rotation_store "rotate_finding G old new" "finding_turned G old new" for G old new
  by unfold_locales (auto simp: rotate_finding_def finding_turned_def fail_with_def split: option.splits)

interpretation setting_store: rotation_store "rotate_setting G old new" "setting_turned G old new" for G old new
proof
  fix x rep y rep'
  assume "rotate_setting G old new x rep = Inr (y, rep')"
  then show "\<exists>ls. rep_failures rep' = rep_failures rep @ ls \<and> (ls = [] \<longrightarrow> setting_turned G old new x y)"
    by (auto simp: rotate_setting_def setting_turned_def fail_with_def bind_res_Inr_iff split: option.splits)
next
  fix x y rep
  assume "setting_turned G old new x y"
  then show "\<exists>rep'. rotate_setting G old new x rep = Inr (y, rep') \<and> rep_failures rep' = rep_failures rep"
    by (auto simp: rotate_setting_def setting_turned_def split: option.splits sum.splits)
qed

interpretation credential_store: rotation_store "rotate_credential G old new" "credential_turned G old new" for G old new
  by unfold_locales
    (auto simp: rotate_credential_def credential_turned_def fail_with_def Let_def split: option.splits if_splits)

definition all_turned :: "aesgcm \<Rightarrow> bytes \<Rightarrow> bytes \<Rightarrow> db \<Rightarrow> db \<Rightarrow> bool" where
  "all_turned G old new d d' \<longleftrightarrow>
     list_all2 (finding_turned G old new) (findings d) (findings d') \<and>
     list_all2 (setting_turned G old new) (platform_settings d) (platform_settings d') \<and>
     list_all2 (credential_turned G old new) (admin_credentials d) (admin_credentials d') \<and>
     d' = d\<lparr>findings := findings d', platform_settings := platform_settings d', admin_credentials := admin_credentials d'\<rparr>"

lemma rotate_keys_turned:
  assumes "rotate_keys G old new d = Inr (rep, d')" and "rep_failures rep = []"
  shows "all_turned G old new d d'"
proof -
  obtain fs r1 ss r2 cs where rows: "rotate_rows (rotate_finding G old new) (findings d) empty_report = Inr (fs, r1)"
      "rotate_rows (rotate_setting G old new) (platform_settings d) r1 = Inr (ss, r2)"
      "rotate_rows (rotate_credential G old new) (admin_credentials d) r2 = Inr (cs, rep)"
    and d': "d' = d\<lparr>findings := fs, platform_settings := ss, admin_credentials := cs\<rparr>"
    using assms(1) by (auto simp: rotate_keys_def bind_res_Inr_iff)
  show ?thesis
    using finding_store.rows_turned [OF rows(1)] setting_store.rows_turned [OF rows(2)]
      credential_store.rows_turned [OF rows(3)] assms(2)
    by (auto simp: d' all_turned_def)
qed

lemma turned_rotate_keys:
  assumes "all_turned G old new d d'"
  shows "\<exists>rep. rotate_keys G old new d = Inr (rep, d') \<and> rep_failures rep = []"
proof -
  note t = assms [unfolded all_turned_def]
  obtain r1 where 1: "rotate_rows (rotate_finding G old new) (findings d) empty_report = Inr (findings d', r1)"
      "rep_failures r1 = []"
    using finding_store.turned_rows t by (metis empty_report_def RotationReport.select_convs(4))
  obtain r2 where 2: "rotate_rows (rotate_setting G old new) (platform_settings d) r1 = Inr (platform_settings d', r2)"
      "rep_failures r2 = []"
    using setting_store.turned_rows t 1(2) by metis
  obtain rep where 3: "rotate_rows (rotate_credential G old new) (admin_credentials d) r2 = Inr (admin_credentials d', rep)"
      "rep_failures rep = []"
    using credential_store.turned_rows t 2(2) by metis
  have "d\<lparr>findings := findings d', platform_settings := platform_settings d', admin_credentials := admin_credentials d'\<rparr> = d'"
    using t by simp
  then show ?thesis using 1 2 3 by (simp add: rotate_keys_def)
qed

text \<open>Under the law of the cipher a turned row can be turned back, and reads as before.\<close>

definition nonces_fit :: "db \<Rightarrow> bool" where
  "nonces_fit d \<longleftrightarrow> list_all finding_ok (findings d) \<and> list_all (\<lambda>r. length (ps_nonce r) = 12) (platform_settings d)"

text \<open>The length of a ciphertext does not depend on the key.\<close>

definition gcm_sized :: "aesgcm \<Rightarrow> bool" where
  "gcm_sized G \<longleftrightarrow> (\<forall>k k' n p a. length (gcm_encrypt G k n p a) = length (gcm_encrypt G k' n p a))"

lemma suffix_gcm_sized: "gcm_sized suffix_gcm"
  by (simp add: gcm_sized_def suffix_gcm_def)

lemma finding_turned_back:
  assumes "gcm_ok G" "length old = 32" "length new = 32" "finding_ok f" "finding_turned G old new f f'"
  shows "finding_turned G new old f' f" and "finding_ok f'"
  using assms recrypt_back(1) [OF assms(1-3)]
  by (auto simp: finding_turned_def finding_ok_def split: option.splits)

lemma setting_turned_back:
  assumes "gcm_ok G" "length old = 32" "length new = 32" "length (ps_nonce r) = 12" "setting_turned G old new r r'"
  shows "setting_turned G new old r' r" and "length (ps_nonce r') = 12"
  using assms recrypt_back(1) [OF assms(1-3)]
  by (auto simp: setting_turned_def split: option.splits sum.splits)

text \<open>A sealed seed is longer than its nonce, under either key.\<close>

lemma credential_turned_cases:
  assumes "gcm_ok G" "gcm_sized G" "length old = 32" "length new = 32" "credential_turned G old new c c'"
  obtains "c' = c" "\<And>blob. cred_totp_secret_enc c = Some blob \<Longrightarrow> length blob \<le> 12"
  | n e e' where "length n = 12" "e \<noteq> []" "e' \<noteq> []" "cred_totp_secret_enc c = Some (n @ e)"
      "c' = c\<lparr>cred_totp_secret_enc := Some (n @ e')\<rparr>"
      "recrypt G old new n e (totp_aad (cred_user_id c)) = Some e'"
proof (cases "\<exists>blob. cred_totp_secret_enc c = Some blob \<and> 12 < length blob")
  case True
  then obtain blob where blob: "cred_totp_secret_enc c = Some blob" "12 < length blob" by blast
  let ?n = "take 12 blob" and ?e = "drop 12 blob"
  obtain e' where e': "recrypt G old new ?n ?e (totp_aad (cred_user_id c)) = Some e'"
      "c' = c\<lparr>cred_totp_secret_enc := Some (?n @ e')\<rparr>"
    using assms(5) blob by (auto simp: credential_turned_def TOTP_NONCE_BYTES_def split: option.splits)
  have n: "length ?n = 12" "?e \<noteq> []" using blob(2) by simp_all
  obtain p where "?e = gcm_encrypt G old ?n p (totp_aad (cred_user_id c))" "e' = gcm_encrypt G new ?n p (totp_aad (cred_user_id c))"
    using e'(1) assms(1,3) n(1) by (auto simp: recrypt_def gcm_ok_def)
  then have "length e' = length ?e" using assms(2) unfolding gcm_sized_def by metis
  then have "e' \<noteq> []" using n(2) by auto
  with that(2) [of ?n ?e e'] blob(1) e' n show thesis by simp
next
  case False
  then have "c' = c" using assms(5) by (auto simp: credential_turned_def TOTP_NONCE_BYTES_def split: option.splits if_splits)
  with False that(1) show thesis by (meson not_le)
qed

lemma credential_turned_back:
  assumes "gcm_ok G" "gcm_sized G" "length old = 32" "length new = 32" "credential_turned G old new c c'"
  shows "credential_turned G new old c' c"
  using assms
proof (cases rule: credential_turned_cases)
  case 1
  then show ?thesis by (auto simp: credential_turned_def TOTP_NONCE_BYTES_def split: option.splits)
next
  case (2 n e e')
  with recrypt_back(1) [OF assms(1,3,4) 2(1,6)] show ?thesis
    by (simp add: credential_turned_def TOTP_NONCE_BYTES_def)
qed

lemma all_turned_back:
  assumes "gcm_ok G" "gcm_sized G" "length old = 32" "length new = 32" "nonces_fit d" "all_turned G old new d d'"
  shows "all_turned G new old d' d"
proof -
  note t = assms(6) [unfolded all_turned_def]
  have "list_all2 (finding_turned G new old) (findings d') (findings d)"
    using t assms(5) finding_turned_back(1) [OF assms(1,3,4)]
    by (auto simp: list_all2_conv_all_nth list_all_iff nonces_fit_def)
  moreover have "list_all2 (setting_turned G new old) (platform_settings d') (platform_settings d)"
    using t assms(5) setting_turned_back(1) [OF assms(1,3,4)]
    by (auto simp: list_all2_conv_all_nth list_all_iff nonces_fit_def)
  moreover have "list_all2 (credential_turned G new old) (admin_credentials d') (admin_credentials d)"
    using t credential_turned_back [OF assms(1-4)] by (auto simp: list_all2_conv_all_nth)
  moreover have "d = d'\<lparr>findings := findings d, platform_settings := platform_settings d,
      admin_credentials := admin_credentials d\<rparr>"
  proof -
    obtain fs ss cs where "d' = d\<lparr>findings := fs, platform_settings := ss, admin_credentials := cs\<rparr>"
      using t by blast
    then show ?thesis by simp
  qed
  ultimately show ?thesis by (simp add: all_turned_def)
qed

text \<open>A turned row reads as before.\<close>

definition rekeyed :: "Settings \<Rightarrow> ustr \<Rightarrow> Settings" where
  "rekeyed s v = s\<lparr>s_data_key := v\<rparr>"

lemma finding_turned_reads:
  assumes "gcm_ok G" "data_key s = Inr old" "length old = 32" "data_key s' = Inr new" "length new = 32"
    and "finding_turned G old new f f'" and "fnd_password_ciphertext f = Some c" and "fnd_password_nonce f = Some n"
  shows "\<exists>c'. f' = f\<lparr>fnd_password_ciphertext := Some c'\<rparr> \<and>
    reveal_password G s' (fnd_id f) c' n = reveal_password G s (fnd_id f) c n"
proof -
  obtain c' where c': "recrypt G old new n c (aad (fnd_id f)) = Some c'" "f' = f\<lparr>fnd_password_ciphertext := Some c'\<rparr>"
    using assms(6-8) by (auto simp: finding_turned_def split: option.splits)
  have "reveal_password G s' (fnd_id f) c' n = reveal_password G s (fnd_id f) c n"
    using recrypt_back(2) [OF assms(1,3,5) _ c'(1)] assms(2,4) by (simp add: reveal_password_def NONCE_BYTES_def)
  with c'(2) show ?thesis by blast
qed

lemma find_list_all2:
  "list_all2 R xs ys \<Longrightarrow> (\<And>x y. R x y \<Longrightarrow> P y = P x) \<Longrightarrow> rel_option R (find P xs) (find P ys)"
  by (induction rule: list_all2_induct) auto

lemma settings_turned_read:
  assumes "gcm_ok G" "data_key s = Inr old" "length old = 32" "data_key s' = Inr new" "length new = 32"
    and "list_all2 (setting_turned G old new) (platform_settings d) (platform_settings d')"
    and "list_all (\<lambda>r. length (ps_nonce r) = 12) (platform_settings d)"
  shows "read_setting G s' key d' = read_setting G s key d"
proof -
  have "ps_key r' = ps_key r" if "setting_turned G old new r r'" for r r'
    using that by (auto simp: setting_turned_def split: sum.splits option.splits)
  then have rel: "rel_option (setting_turned G old new) (find (\<lambda>r. ps_key r = key_text key) (platform_settings d))
      (find (\<lambda>r. ps_key r = key_text key) (platform_settings d'))"
    by (intro find_list_all2 [OF assms(6)]) simp
  show ?thesis
  proof (cases "find (\<lambda>r. ps_key r = key_text key) (platform_settings d)")
    case None
    with rel show ?thesis by (auto simp: read_setting_def)
  next
    case (Some r)
    with rel obtain r' where r': "find (\<lambda>r. ps_key r = key_text key) (platform_settings d') = Some r'"
        "setting_turned G old new r r'"
      by (auto simp: option_rel_Some1)
    have r: "ps_key r = key_text key" "length (ps_nonce r) = 12"
      using Some assms(7) by (auto simp: list_all_iff dest: find_Some_mem)
    obtain c where c: "recrypt G old new (ps_nonce r) (ps_ciphertext r) (setting_aad key (ps_schema_version r)) = Some c"
        "r' = r\<lparr>ps_ciphertext := c\<rparr>"
      using r'(2) r(1) by (auto simp: setting_turned_def split: option.splits)
    with recrypt_back(2) [OF assms(1,3,5) r(2) c(1)] show ?thesis
      using Some r'(1) assms(2,4) by (simp add: read_setting_def)
  qed
qed

lemma credential_turned_reads:
  assumes "gcm_ok (ap_gcm A)" "gcm_sized (ap_gcm A)" "data_key (ap_settings A) = Inr old" "length old = 32"
    and "data_key (ap_settings B) = Inr new" "length new = 32" "ap_gcm B = ap_gcm A"
    and "credential_turned (ap_gcm A) old new c c'" and "cred_totp_secret_enc c = Some blob"
  shows "\<exists>blob'. c' = c\<lparr>cred_totp_secret_enc := Some blob'\<rparr> \<and>
    decrypt_totp_secret B (cred_user_id c) blob' = decrypt_totp_secret A (cred_user_id c) blob"
  using assms(1,2,4,6,8)
proof (cases rule: credential_turned_cases)
  case 1
  then have "length blob \<le> 12" using assms(9) by blast
  then have "decrypt_totp_secret B (cred_user_id c) blob = decrypt_totp_secret A (cred_user_id c) blob"
    by (simp add: decrypt_totp_secret_def TOTP_NONCE_BYTES_def)
  moreover have "c' = c\<lparr>cred_totp_secret_enc := Some blob\<rparr>" using 1(1) assms(9) by simp
  ultimately show ?thesis by blast
next
  case (2 n e e')
  have "decrypt_totp_secret B (cred_user_id c) (n @ e') = decrypt_totp_secret A (cred_user_id c) (n @ e)"
    using 2 recrypt_back(2) [OF assms(1,4,6) 2(1,6)] assms(3,5,7)
    by (simp add: decrypt_totp_secret_def TOTP_NONCE_BYTES_def local_data_key_def)
  with 2(4,5) assms(9) show ?thesis by auto
qed

lemma finding_turned_alike:
  assumes "gcm_ok G" "data_key s = Inr old" "length old = 32" "data_key s' = Inr new" "length new = 32"
    and "finding_turned G old new f f'"
  shows "f' = f\<lparr>fnd_password_ciphertext := fnd_password_ciphertext f'\<rparr> \<and>
      (\<forall>c n. fnd_password_ciphertext f = Some c \<longrightarrow> fnd_password_nonce f = Some n \<longrightarrow>
        (\<exists>c'. fnd_password_ciphertext f' = Some c' \<and> reveal_password G s' (fnd_id f) c' n = reveal_password G s (fnd_id f) c n))"
proof (intro conjI allI impI)
  show "f' = f\<lparr>fnd_password_ciphertext := fnd_password_ciphertext f'\<rparr>"
    using assms(6) by (auto simp: finding_turned_def split: option.splits)
  fix c n
  assume ft: "fnd_password_ciphertext f = Some c" "fnd_password_nonce f = Some n"
  show "\<exists>c'. fnd_password_ciphertext f' = Some c' \<and> reveal_password G s' (fnd_id f) c' n = reveal_password G s (fnd_id f) c n"
    using finding_turned_reads [OF assms ft] by auto
qed

lemma credential_turned_alike:
  assumes "gcm_ok (ap_gcm A)" "gcm_sized (ap_gcm A)" "data_key (ap_settings A) = Inr old" "length old = 32"
    and "data_key (ap_settings B) = Inr new" "length new = 32" "ap_gcm B = ap_gcm A"
    and "credential_turned (ap_gcm A) old new c c'"
  shows "c' = c\<lparr>cred_totp_secret_enc := cred_totp_secret_enc c'\<rparr> \<and>
      (\<forall>blob. cred_totp_secret_enc c = Some blob \<longrightarrow> (\<exists>blob'. cred_totp_secret_enc c' = Some blob' \<and>
        decrypt_totp_secret B (cred_user_id c) blob' = decrypt_totp_secret A (cred_user_id c) blob))"
proof (intro conjI allI impI)
  show "c' = c\<lparr>cred_totp_secret_enc := cred_totp_secret_enc c'\<rparr>"
    using assms(8) by (auto simp: credential_turned_def split: option.splits if_splits)
  fix blob
  assume "cred_totp_secret_enc c = Some blob"
  then show "\<exists>blob'. cred_totp_secret_enc c' = Some blob' \<and>
      decrypt_totp_secret B (cred_user_id c) blob' = decrypt_totp_secret A (cred_user_id c) blob"
    using credential_turned_reads [OF assms] by fastforce
qed

lemma run_rotation_Inr:
  assumes "run_rotation G s v dry d = Inr (rep, d')"
  obtains old new d1 where "decode_rotation_key (s_data_key s) = Inr old" "decode_rotation_key v = Inr new" "old \<noteq> new"
    "rotate_keys G old new d = Inr (rep, d1)" "d' = (if rep_failures rep \<noteq> [] \<or> dry then d else d1)"
  using assms by (auto simp: run_rotation_def bind_res_Inr_iff split: if_splits)

lemma rotated_turned:
  assumes "run_rotation G s v False d = Inr (rep, d')" and "rep_failures rep = []" and "data_key s = Inr old" "length old = 32"
    and "data_key (rekeyed s v) = Inr new" "length new = 32"
  shows "all_turned G old new d d'"
proof -
  have "decode_rotation_key v = Inr new"
    using decode_rotation_key_strict [OF assms(5,6)] by (simp add: rekeyed_def)
  then show ?thesis
    using assms(1,2) decode_rotation_key_strict [OF assms(3,4)] rotate_keys_turned
    by (elim run_rotation_Inr) (auto split: if_splits)
qed

section \<open>Properties\<close>


text \<open>
  Rotating back to the former key restores the database exactly.
\<close>

theorem rotation_restores:
  assumes "gcm_ok G" and "gcm_sized G" and "run_rotation G s v False d = Inr (rep, d')" and "rep_failures rep = []"
    and "nonces_fit d"
  shows "\<exists>rep'. run_rotation G (rekeyed s v) (s_data_key s) False d' = Inr (rep', d) \<and> rep_failures rep' = []"
  using assms(3)
proof (rule run_rotation_Inr)
  fix old new d1
  assume keys: "decode_rotation_key (s_data_key s) = Inr old" "decode_rotation_key v = Inr new" "old \<noteq> new"
    and run: "rotate_keys G old new d = Inr (rep, d1)" and d': "d' = (if rep_failures rep \<noteq> [] \<or> False then d else d1)"
  have "all_turned G old new d d'" using rotate_keys_turned [OF run] d' assms(4) by simp
  then have "all_turned G new old d' d"
    using all_turned_back assms(1,2,5) keys(1,2) decode_rotation_key_length by blast
  then obtain rep' where "rotate_keys G new old d' = Inr (rep', d)" "rep_failures rep' = []"
    using turned_rotate_keys by blast
  with keys show ?thesis by (auto simp: run_rotation_def rekeyed_def)
qed

text \<open>
  One password that the current key does not open stops the whole rotation: the report names the
  finding and the database is as it was.
\<close>

theorem rotation_all_or_nothing:
  assumes "run_rotation G s v dry d = Inr (rep, d')" and "f \<in> set (findings d)"
    and "fnd_password_ciphertext f = Some c" and "fnd_password_nonce f = Some n"
    and "decode_rotation_key (s_data_key s) = Inr k" and "gcm_decrypt G k n c (aad (fnd_id f)) = None"
  shows "d' = d \<and> uni ''finding:'' @ uuid_str (fnd_id f) \<in> set (rep_failures rep)"
  using assms(1)
proof (rule run_rotation_Inr)
  fix old new d1
  assume keys: "decode_rotation_key (s_data_key s) = Inr old"
    and run: "rotate_keys G old new d = Inr (rep, d1)" and d': "d' = (if rep_failures rep \<noteq> [] \<or> dry then d else d1)"
  have refused: "rotate_finding G old new f r = Inr (f, fail_with (uni ''finding:'' @ uuid_str (fnd_id f)) r)" for r
    using assms(3-6) keys by (simp add: rotate_finding_def recrypt_def)
  obtain fs r1 ss r2 cs where rows: "rotate_rows (rotate_finding G old new) (findings d) empty_report = Inr (fs, r1)"
      "rotate_rows (rotate_setting G old new) (platform_settings d) r1 = Inr (ss, r2)"
      "rotate_rows (rotate_credential G old new) (admin_credentials d) r2 = Inr (cs, rep)"
    using run by (auto simp: rotate_keys_def bind_res_Inr_iff)
  have "uni ''finding:'' @ uuid_str (fnd_id f) \<in> set (rep_failures rep)"
    using finding_store.rows_refused [OF rows(1) assms(2) refused] setting_store.rows_failures [OF rows(2)]
      credential_store.rows_failures [OF rows(3)] by blast
  then show ?thesis by (auto simp: d')
qed

text \<open>
  The rotation decodes its new key leniently where the configuration is strict: it accepts a key text
  with which the application will not start.
\<close>

lemma rotation_accepts_invalid_key:
  assumes "length bs = 32"
  shows "decode_rotation_key (uni ''!!!!'' @ base64url bs) = Inr bs"
    and "data_key_must_be_aes_256_key U (uni ''!!!!'' @ base64url bs) \<noteq> Inr ()"
proof -
  have skip: "lenient_sextets [] 0 (uni ''!!!!'' @ r) = lenient_sextets [] 0 r" for r
    by (simp add: uni_def b64_value_def)
  have "base64url_decode (uni ''!!!!'' @ base64url bs) = base64url_decode (base64url bs)"
    using skip by (simp add: base64url_decode_def pad_len_def uni_def)
  moreover have "isascii (base64url bs)"
    by (rule strict_lenient(2) [OF decode_key_base64url])
  ultimately show "decode_rotation_key (uni ''!!!!'' @ base64url bs) = Inr bs"
    using assms base64url_decode_base64url [of bs] by (simp add: decode_rotation_key_def isascii_def uni_def)
  have "decode_key (uni ''!!!!'' @ s) = None" for s
    by (simp add: decode_key_def b64decode_strict_def uni_def b64_value_def Let_def)
  then show "data_key_must_be_aes_256_key U (uni ''!!!!'' @ base64url bs) \<noteq> Inr ()"
    by (simp add: data_key_must_be_aes_256_key_def)
qed

text \<open>
  The command creates an account or leaves the database alone, and its exit status says which. A new
  account is an active super-admin without a second factor whose password is the one typed twice.
\<close>

theorem create_command_sound:
  assumes "create_command A email display_name password confirmation d = Inr (out, d')"
  shows "(exit_status out = 1 \<and> stdout out = [] \<and> d' = d) \<or>
    (\<exists>u c pw e n. exit_status out = 0 \<and> password = Some pw \<and> confirmation = Some pw \<and> email = Some e \<and> display_name = Some n \<and>
       normalise_admin_email (ap_unidata A) e = Inr (u_email u) \<and> u_email u \<notin> u_email ` set (users d) \<and>
       u_role u = UserRole.SUPER_ADMIN \<and> u_is_active u \<and> validate_new_password pw = Inr () \<and>
       users d' = users d @ [u] \<and> admin_credentials d' = admin_credentials d @ [c] \<and> cred_user_id c = u_id u \<and>
       cred_totp_enabled_at c = None \<and> (\<exists>salt. length salt = 16 \<and> cred_password_hash c = argon2_hash (ap_argon2 A) pw salt))"
proof (cases "exit_status out = 0")
  case True
  obtain e n pw where typed: "email = Some e" "display_name = Some n" "password = Some pw" "confirmation = Some pw"
    using assms True by (auto simp: create_command_def exits_def split: option.splits if_splits)
  obtain u where run: "create_superadmin A e n pw d = Inr (u, d')"
    using assms True unfolding typed by (auto simp: create_command_def exits_def split: sum.splits if_splits)
  obtain addr name where addr: "normalise_admin_email (ap_unidata A) e = Inr addr"
    and name: "normalise_display_name (ap_unidata A) n = Inr name"
    and none: "find (\<lambda>u. u_email u = addr) (users d) = None"
    using run by (auto simp: create_superadmin_def bind_res_Inr_iff split: if_splits)
  obtain i d1 where i: "uuid4 d = (i, d1)" by fastforce
  then have d1: "users d1 = users d" "admin_credentials d1 = admin_credentials d"
    by (auto simp: uuid4_def token_bytes_eq)
  obtain h d2 where h: "hash_password A pw d1 = Inr (h, d2)"
    and u: "u_role u = UserRole.SUPER_ADMIN" "u_is_active u" "u_email u = addr" "u_id u = i"
      "users d' = users d2 @ [u]"
      "admin_credentials d' = admin_credentials d2 @ [\<lparr>cred_user_id = i, cred_password_hash = h, cred_totp_secret_enc = None,
         cred_totp_enabled_at = None, cred_failed_attempts = 0, cred_locked_until = None\<rparr>]"
    using run unfolding create_superadmin_def addr name
    by (auto simp: none i bind_res_Inr_iff Let_def)
  have hd: "validate_new_password pw = Inr ()" "h = argon2_hash (ap_argon2 A) pw (next_bytes 16 d1)"
    "users d2 = users d" "admin_credentials d2 = admin_credentials d"
    using h by (auto simp: hash_password_def bind_res_Inr_iff token_bytes_eq d1)
  have salt: "\<exists>salt. length salt = 16 \<and> h = argon2_hash (ap_argon2 A) pw salt"
    by (rule exI [of _ "next_bytes 16 d1"]) (simp add: hd(2))
  have "addr \<notin> u_email ` set (users d)" using none by (auto simp: find_None_iff)
  then show ?thesis using addr typed True u hd(1,3,4) salt by auto
next
  case False
  then show ?thesis
    using assms by (auto simp: create_command_def exits_def prints_def split: option.splits if_splits sum.splits)
qed

section \<open>Witnesses\<close>

definition second_key :: ustr where
  "second_key = base64url (replicate 32 2)"

definition sealed_row :: Finding where
  "sealed_row = (a_finding 7 5 None)\<lparr>fnd_password_ciphertext := Some (octets ''abc'' @ aad 7),
     fnd_password_nonce := Some (replicate 12 0)\<rparr>"

definition rotation_db :: db where
  "rotation_db = db0\<lparr>findings := [sealed_row],
     platform_settings := [\<lparr>ps_key = key_text SMTP_HOST, ps_ciphertext = octets ''mail'' @ setting_aad SMTP_HOST 1,
       ps_nonce = replicate 12 0, ps_schema_version = 1, ps_updated_at = 0, ps_updated_by = 1\<rparr>]\<rparr>"

lemma recrypt_suffix: "recrypt suffix_gcm old new n (p @ a) a = Some (p @ a)"
  by (simp add: recrypt_def suffix_gcm_def)

lemma rotation_db:
  "nonces_fit rotation_db" "all_turned suffix_gcm old new rotation_db rotation_db"
  by (simp_all add: nonces_fit_def all_turned_def rotation_db_def sealed_row_def db0_def empty_db_def a_finding_def
      finding_ok_def finding_turned_def setting_turned_def recrypt_suffix)

lemma second_key:
  "decode_rotation_key second_key = Inr (replicate 32 2)" "data_key (rekeyed s second_key) = Inr (replicate 32 2)"
proof -
  show "data_key (rekeyed s second_key) = Inr (replicate 32 2)"
    by (simp add: data_key_def rekeyed_def second_key_def decode_key_base64url)
  then show "decode_rotation_key second_key = Inr (replicate 32 2)"
    using decode_rotation_key_strict by (fastforce simp: rekeyed_def)
qed

lemma rotation_runs:
  "\<exists>rep. run_rotation suffix_gcm the_settings second_key False rotation_db = Inr (rep, rotation_db) \<and> rep_failures rep = []"
proof -
  obtain rep where "rotate_keys suffix_gcm (replicate 32 1) (replicate 32 2) rotation_db = Inr (rep, rotation_db)"
      "rep_failures rep = []"
    using turned_rotate_keys [OF rotation_db(2)] by blast
  moreover have "decode_rotation_key (s_data_key the_settings) = Inr (replicate 32 1)"
    by (rule decode_rotation_key_strict [OF data_key_the_settings]) simp
  moreover have "replicate 32 1 \<noteq> (replicate 32 2 :: bytes)" by simp
  ultimately show ?thesis by (simp add: run_rotation_def second_key)
qed


theorem rotation_restores_witness:
  "\<exists>rep. run_rotation suffix_gcm (rekeyed the_settings second_key) (s_data_key the_settings) False rotation_db =
     Inr (rep, rotation_db)"
proof -
  obtain rep where run: "run_rotation suffix_gcm the_settings second_key False rotation_db = Inr (rep, rotation_db)"
    "rep_failures rep = []" using rotation_runs by blast
  show ?thesis
    using rotation_restores [OF suffix_gcm_ok suffix_gcm_sized run rotation_db(1)] by blast
qed

text \<open>A finding sealed for another one stops the rotation of the same database.\<close>

definition foreign_row :: Finding where
  "foreign_row = sealed_row\<lparr>fnd_id := 8\<rparr>"

theorem rotation_all_or_nothing_witness:
  "\<exists>rep. run_rotation suffix_gcm the_settings second_key False (rotation_db\<lparr>findings := [foreign_row]\<rparr>) =
      Inr (rep, rotation_db\<lparr>findings := [foreign_row]\<rparr>) \<and> uni ''finding:'' @ uuid_str 8 \<in> set (rep_failures rep)"
proof -
  let ?d = "rotation_db\<lparr>findings := [foreign_row]\<rparr>" and ?k = "replicate 32 1 :: bytes" and ?l = "replicate 32 2 :: bytes"
  have k: "decode_rotation_key (s_data_key the_settings) = Inr ?k"
    by (rule decode_rotation_key_strict [OF data_key_the_settings]) simp
  have len: "length (aad i) = 46" for i by (simp add: aad_def octets_def)
  have closed: "gcm_decrypt suffix_gcm ?k (replicate 12 0) (octets ''abc'' @ aad 7) (aad 8) = None"
    by (simp add: suffix_gcm_def len octets_def)
  then have "rotate_finding suffix_gcm ?k ?l foreign_row r = Inr (foreign_row, fail_with (uni ''finding:'' @ uuid_str 8) r)" for r
    by (simp add: rotate_finding_def recrypt_def foreign_row_def sealed_row_def a_finding_def)
  then have "\<exists>rep d1. rotate_keys suffix_gcm ?k ?l ?d = Inr (rep, d1)"
    by (simp add: rotate_keys_def rotate_setting_def rotation_db_def recrypt_suffix db0_def empty_db_def)
  then have "\<exists>rep d'. run_rotation suffix_gcm the_settings second_key False ?d = Inr (rep, d')"
    using k by (auto simp: run_rotation_def second_key)
  then obtain rep d' where run: "run_rotation suffix_gcm the_settings second_key False ?d = Inr (rep, d')" by blast
  have row: "fnd_password_ciphertext foreign_row = Some (octets ''abc'' @ aad 7)" "fnd_password_nonce foreign_row = Some (replicate 12 0)"
    "fnd_id foreign_row = 8"
    by (simp_all add: foreign_row_def sealed_row_def)
  show ?thesis
    using rotation_all_or_nothing [OF run _ row(1,2) k] closed row(3) run by simp
qed

theorem create_command_sound_witness:
  "\<exists>out d' u. create_command the_app (Some (uni ''A@example.org'')) (Some (uni ''A'')) (Some pw15) (Some pw15) db0 = Inr (out, d') \<and>
     exit_status out = 0 \<and> users d' = [u] \<and> u_role u = UserRole.SUPER_ADMIN"
proof -
  have utf8: "encode_utf8 pw15 = Inr (octets ''correct horse b'')"
    by (simp add: pw15_def encode_utf8_ascii uni_def octets_def)
  have email: "normalise_admin_email ascii_unidata (uni ''A@example.org'') = Inr (uni ''a@example.org'')"
    using example_email by (auto simp: normalise_login_email_def split: sum.splits)
  have name: "normalise_display_name ascii_unidata (uni ''A'') = Inr (uni ''A'')" by code_simp
  have "\<exists>u d'. create_superadmin the_app (uni ''A@example.org'') (uni ''A'') pw15 db0 = Inr (u, d')"
    using utf8 email name
    by (simp add: create_superadmin_def the_app_def db0_def empty_db_def uuid4_def token_bytes_eq hash_password_def
        validate_new_password_def guard_res_def octets_def Let_def)
  then obtain u d' where "create_superadmin the_app (uni ''A@example.org'') (uni ''A'') pw15 db0 = Inr (u, d')" by blast
  then have "\<exists>out. create_command the_app (Some (uni ''A@example.org'')) (Some (uni ''A'')) (Some pw15) (Some pw15) db0 = Inr (out, d') \<and>
      exit_status out = 0"
    by (simp add: create_command_def prints_def)
  then obtain out where run: "create_command the_app (Some (uni ''A@example.org'')) (Some (uni ''A'')) (Some pw15) (Some pw15) db0 = Inr (out, d')"
    "exit_status out = 0" by blast
  from create_command_sound [OF run(1)] run(2) obtain w :: User where "users d' = users db0 @ [w]" "u_role w = UserRole.SUPER_ADMIN"
    by auto
  with run show ?thesis by (auto simp: db0_def empty_db_def)
qed

end
