(* ===== verification/Campaigns.thy ===== *)
theory Campaigns
  imports Operations
begin

text \<open>
  Analyst batches and mail campaigns: \<open>src/app/routers/batches.py\<close>, \<open>src/app/batch_ui.py\<close>,
  \<open>src/app/routers/notifications.py\<close> and \<open>src/app/notification_ui.py\<close>.
\<close>

section \<open>Batches: pages\<close>

definition batch_row :: "unidata \<Rightarrow> ScanBatch \<Rightarrow> ustr" where
  "batch_row U b =
     uni ''<tr><td><a href=\"/analyst/batches/'' @
     uuid_str (batch_id b) @
     uni ''\">'' @
     esc (uni (BatchTarget_value (batch_target_type b))) @
     uni ''</a></td><td>'' @
     esc (py_repr U (JObj (batch_target b))) @
     uni ''</td><td>'' @
     esc (uni (BatchStatus_value (batch_status b))) @
     uni ''</td><td>'' @
     dec (batch_completed_count b + batch_failed_count b) @ uni '' / '' @ dec (batch_total_count b) @
     uni ''</td></tr>''"

definition batch_builder_page :: "unidata \<Rightarrow> User \<Rightarrow> ScanBatch list \<Rightarrow> ustr" where
  "batch_builder_page U user batches =
     (let joined = concat (map (batch_row U) batches);
          rows = (if joined = [] then uni ''<tr><td colspan=\"4\" class=\"empty\">No batches yet.</td></tr>'' else joined);
          content = concat
            [uni ''<section class=\"hero compact\"><p class=\"eyebrow\">Background operations</p>'',
             uni ''<h1>Workspace batch scans</h1><p>Targets are resolved from active synced users. '',
             uni ''The worker processes each email under the platform rate limit.</p></section>'',
             uni ''<section class=\"panel\"><h2>Create batch</h2>'',
             uni ''<form method=\"post\" action=\"/analyst/batches\">'',
             uni ''<label>Target type<select name=\"target_type\">'',
             uni ''<option value=\"ou\">Organizational unit</option>'',
             uni ''<option value=\"domain\">Domain</option>'',
             uni ''<option value=\"selection\">Selected user UUIDs</option></select></label>'',
             uni ''<label>OU path, domain, or comma-separated user UUIDs'',
             uni ''<input name=\"target\" maxlength=\"8192\" required></label>'',
             uni ''<button type=\"submit\">Queue background batch</button></form></section>'',
             uni ''<section class=\"panel\"><h2>Recent batches</h2><div class=\"table-wrap\">'',
             uni ''<table><thead><tr><th>Type</th><th>Target</th><th>Status</th>'',
             uni ''<th>Progress</th></tr></thead><tbody>'', rows, uni ''</tbody></table></div></section>'']
      in html_page (uni ''Batch scans'') content user [] [])"

definition batch_progress_fragment :: "ScanBatch \<Rightarrow> ustr" where
  "batch_progress_fragment b =
     (let finished = batch_completed_count b + batch_failed_count b;
          terminal = (batch_status b \<in> {BatchStatus.SUCCEEDED, BatchStatus.PARTIAL, BatchStatus.FAILED});
          polling = (if terminal then []
            else uni '' hx-get=\"/analyst/batches/'' @ uuid_str (batch_id b) @ uni ''/status\" '' @
                 uni ''hx-trigger=\"load delay:2s\" hx-swap=\"outerHTML\"'')
      in uni ''<div class=\"scan-state\"'' @ polling @ uni ''><h2>'' @ esc (title_case (BatchStatus_value (batch_status b))) @
         uni ''</h2>'' @
         uni ''<p>'' @ dec finished @ uni '' of '' @ dec (batch_total_count b) @ uni '' processed; '' @
         dec (batch_failed_count b) @ uni '' failed.</p>'' @
         uni ''<progress value=\"'' @ dec finished @ uni ''\" max=\"'' @ dec (max (batch_total_count b) 1) @ uni ''\">'' @
         dec finished @ uni ''</progress></div>'')"

definition batch_progress_page :: "User \<Rightarrow> ScanBatch \<Rightarrow> ustr" where
  "batch_progress_page user b =
     html_page (uni ''Batch progress'')
       (uni ''<section class=\"hero compact\"><p class=\"eyebrow\">Durable background batch</p><h1>'' @
        esc (uni (BatchTarget_value (batch_target_type b))) @
        uni '' scan</h1></section><section class=\"panel\" aria-live=\"polite\">'' @
        batch_progress_fragment b @
        uni ''</section>'')
       user [] []"

section \<open>Batches: routes\<close>

definition list_batches :: "app \<Rightarrow> handler" where
  "list_batches A = guarded ANALYST_ROLES A (\<lambda>u r d.
     Inr (html_no_store 200 (batch_builder_page (ap_unidata A) u
       (take 50 (sort_key (\<lambda>b. - batch_created_at b) (scan_batches d)))), d))"

definition first_of :: "(ustr \<times> ustr list) list \<Rightarrow> string \<Rightarrow> ustr" where
  "first_of form k = (case map_of form (uni k) of None \<Rightarrow> [] | Some vs \<Rightarrow> first_value vs)"

text \<open>The UUIDs of a comma-separated list, blank items skipped.\<close>

definition uuid_items :: "app \<Rightarrow> ustr \<Rightarrow> uuid list res" where
  "uuid_items A s =
     map_res (\<lambda>item. of_option ValueError (ap_uuid A (strip (ap_unidata A) item)))
       (filter (\<lambda>item. strip (ap_unidata A) item \<noteq> []) (split_on 44 s))"

definition batch_form :: "app \<Rightarrow> (ustr \<times> ustr list) list \<Rightarrow> (BatchTarget \<times> target_value) res" where
  "batch_form A form =
     bind_res (of_option ValueError (enum_member BatchTarget_value (first_of form ''target_type''))) (\<lambda>target_type.
     let raw_target = strip (ap_unidata A) (first_of form ''target'') in
     if target_type = BatchTarget.SELECTION
     then bind_res (uuid_items A raw_target) (\<lambda>ids.
            if ids = [] then Inl ValueError else Inr (target_type, TargetUsers ids))
     else if raw_target = [] then Inl ValueError else Inr (target_type, TargetText raw_target))"

definition caught :: "(exn \<Rightarrow> bool) \<Rightarrow> nat \<Rightarrow> 'a res \<Rightarrow> 'a res" where
  "caught p status m = (case m of Inl e \<Rightarrow> Inl (if p e then HTTPException status else e) | Inr x \<Rightarrow> Inr x)"

text \<open>The body is decoded outside the \<open>try\<close> that catches \<open>UnicodeDecodeError\<close>.\<close>

definition add_batch :: "(ustr \<Rightarrow> ustr) \<Rightarrow> app \<Rightarrow> handler" where
  "add_batch lo A = guarded ANALYST_ROLES A (\<lambda>u r d.
     if length (rq_body r) > 12 * 1024 then Inl (HTTPException 413)
     else bind_res (decode_utf8 (rq_body r)) (\<lambda>body.
       bind_res (caught is_value_error 422 (batch_form A (ap_parse_qs A body))) (\<lambda>(target_type, target).
       bind_res (caught is_value_error 422 (create_batch (ap_unidata A) lo (u_id u) target_type target d)) (\<lambda>(batch, d).
       bind_res (audit_event A r ''batch.created'' (Some (u_id u)) (Some ''scan_batch'') (Some (uuid_str (batch_id batch)))
         [(uni ''target_type'', JStr (uni (BatchTarget_value target_type))),
          (uni ''total_count'', JInt (int (batch_total_count batch)))] d) (\<lambda>d.
       Inr (redirect_to (uni ''/analyst/batches/'' @ uuid_str (batch_id batch)), d))))))"

definition batch_or_404 :: "uuid \<Rightarrow> db \<Rightarrow> ScanBatch res" where
  "batch_or_404 i d = of_option (HTTPException 404) (find (\<lambda>b. batch_id b = i) (scan_batches d))"

definition batch_progress :: "app \<Rightarrow> uuid \<Rightarrow> handler" where
  "batch_progress A i = guarded ANALYST_ROLES A (\<lambda>u r d.
     bind_res (batch_or_404 i d) (\<lambda>b. Inr (html_no_store 200 (batch_progress_page u b), d)))"

definition batch_status_fragment :: "app \<Rightarrow> uuid \<Rightarrow> handler" where
  "batch_status_fragment A i = guarded ANALYST_ROLES A (\<lambda>u r d.
     bind_res (batch_or_404 i d) (\<lambda>b. Inr (html_no_store 200 (batch_progress_fragment b), d)))"

section \<open>Campaigns: pages\<close>

definition notification_row :: "Notification \<Rightarrow> ustr" where
  "notification_row n =
     uni ''<tr><td>'' @ datetime_iso (ntf_created_at n) @ uni ''</td><td>'' @ esc (uni (ntf_template n)) @ uni ''</td>'' @
     uni ''<td>'' @ esc (uni (NotificationStatus_value (ntf_status n))) @ uni ''</td><td>'' @
     dec (length (ntf_finding_ids n)) @ uni ''</td></tr>''"

definition notifications_page :: "User \<Rightarrow> Notification list \<Rightarrow> ustr" where
  "notifications_page user listed =
     (let joined = concat (map notification_row listed);
          rows = (if joined = []
            then uni ''<tr><td colspan=\"4\" class=\"empty\">No notification attempts.</td></tr>'' else joined);
          content = concat
            [uni ''<section class=\"hero compact\"><p class=\"eyebrow\">Safe outreach</p>'',
             uni ''<h1>User notifications</h1><p>Messages contain only a portal link. '',
             uni ''Dry-run is enabled unless a super-admin explicitly disables it.</p></section>'',
             uni ''<section class=\"panel\"><h2>Prepare campaign</h2>'',
             uni ''<form method=\"post\" action=\"/analyst/notifications/preview\">'',
             uni ''<label>Target type<select name=\"target_type\"><option value=\"user\">User email</option>'',
             uni ''<option value=\"ou\">Organizational unit</option>'',
             uni ''<option value=\"domain\">Domain</option>'',
             uni ''<option value=\"selection\">Selected user UUIDs</option></select></label>'',
             uni ''<label>Email, OU path, domain, or comma-separated UUIDs'',
             uni ''<input name=\"target\" maxlength=\"8192\" required></label>'',
             uni ''<button type=\"submit\">Preview recipients</button></form></section>'',
             uni ''<section class=\"panel\"><h2>Recent attempts</h2><div class=\"table-wrap\">'',
             uni ''<table><thead><tr><th>Created</th><th>Template</th><th>Status</th>'',
             uni ''<th>Findings</th></tr></thead><tbody>'', rows, uni ''</tbody></table></div></section>'']
      in html_page (uni ''Notifications'') content user [] [])"

definition confirmation_page :: "User \<Rightarrow> ustr \<Rightarrow> ustr \<Rightarrow> nat \<Rightarrow> ustr" where
  "confirmation_page user target_type target recipient_count =
     html_page (uni ''Confirm notifications'')
       (concat
        [uni ''<section class=\"hero compact\"><p class=\"eyebrow\">Explicit confirmation</p>'',
         uni ''<h1>Confirm notification campaign</h1></section><section class=\"panel\">'',
         uni ''<p><strong>'', dec recipient_count, uni ''</strong> active users with open findings '',
         uni ''match this target.</p>'',
         uni ''<p>Email bodies will contain only a link to the authenticated portal.</p>'',
         uni ''<form method=\"post\" action=\"/analyst/notifications/confirm\">'',
         uni ''<input type=\"hidden\" name=\"target_type\" value=\"'', esc target_type, uni ''\">'',
         uni ''<input type=\"hidden\" name=\"target\" value=\"'', esc target, uni ''\">'',
         uni ''<button type=\"submit\">Confirm and queue</button>'',
         uni ''<a class=\"button secondary\" href=\"/analyst/notifications\">Cancel</a></form></section>''])
       user [] []"

section \<open>Campaigns: routes\<close>

definition TARGET_TYPES :: "string list" where
  "TARGET_TYPES = [''user'', ''ou'', ''domain'', ''selection'']"

definition target_form :: "app \<Rightarrow> http_request \<Rightarrow> (ustr \<times> ustr) res" where
  "target_form A r =
     (if length (rq_body r) > 12 * 1024 then Inl (HTTPException 413)
      else bind_res (caught (\<lambda>e. e = UnicodeDecodeError) 422 (decode_utf8 (rq_body r))) (\<lambda>body.
        let form = ap_parse_qs A body; target_type = first_of form ''target_type'';
            target = strip (ap_unidata A) (first_of form ''target'')
        in if target_type \<notin> set (map uni TARGET_TYPES) \<or> target = [] then Inl (HTTPException 422)
           else Inr (target_type, target)))"

definition recipient_filter :: "app \<Rightarrow> (ustr \<Rightarrow> ustr) \<Rightarrow> ustr \<Rightarrow> ustr \<Rightarrow> (User \<Rightarrow> bool) res" where
  "recipient_filter A lo target_type target =
     (let U = ap_unidata A in
      if target_type = uni ''user'' then Inr (\<lambda>u. u_email u = casefold U target)
      else if target_type = uni ''ou'' then
        Inr (\<lambda>u. case u_ou_path u of None \<Rightarrow> False
             | Some ou \<Rightarrow> ou = target \<or> sql_like (escaped_ou_prefix target) ou)
      else if target_type = uni ''domain'' then
        (let domain = escape_like (lstrip_of (\<lambda>c. c = 64) (casefold U target)) in
         Inr (\<lambda>u. sql_like (lo ([37, 64] @ domain)) (lo (u_email u))))
      else bind_res (caught is_value_error 422 (uuid_items A target)) (\<lambda>ids. Inr (\<lambda>u. u_id u \<in> set ids)))"

definition recipient_rows :: "(User \<Rightarrow> bool) \<Rightarrow> db \<Rightarrow> (uuid \<times> uuid) list" where
  "recipient_rows p d = sort (concat (map (\<lambda>u. concat (map (\<lambda>s.
       if sub_linked_user_id s = Some (u_id u)
       then map (\<lambda>f. (u_id u, fnd_id f))
              (filter (\<lambda>f. fnd_subject_id f = sub_id s \<and> fnd_remediated_at f = None) (findings d))
       else []) (subjects d))) (filter (\<lambda>u. u_is_active u \<and> p u) (users d))))"

definition recipient_findings ::
  "app \<Rightarrow> (ustr \<Rightarrow> ustr) \<Rightarrow> ustr \<Rightarrow> ustr \<Rightarrow> db \<Rightarrow> (uuid \<times> uuid list) list res" where
  "recipient_findings A lo target_type target d =
     bind_res (recipient_filter A lo target_type target) (\<lambda>p. Inr (group_rows (recipient_rows p d)))"

definition list_notifications :: "app \<Rightarrow> handler" where
  "list_notifications A = guarded ANALYST_ROLES A (\<lambda>u r d.
     Inr (html_no_store 200 (notifications_page u
       (take 100 (sort_key (\<lambda>n. - ntf_created_at n) (notifications d)))), d))"

definition preview_notifications :: "(ustr \<Rightarrow> ustr) \<Rightarrow> app \<Rightarrow> handler" where
  "preview_notifications lo A = guarded ANALYST_ROLES A (\<lambda>u r d.
     bind_res (target_form A r) (\<lambda>(target_type, target).
     bind_res (recipient_findings A lo target_type target d) (\<lambda>recipients.
     Inr (html_no_store 200 (confirmation_page u target_type target (length recipients)), d))))"

definition confirm_notifications :: "(ustr \<Rightarrow> ustr) \<Rightarrow> app \<Rightarrow> handler" where
  "confirm_notifications lo A = guarded ANALYST_ROLES A (\<lambda>u r d.
     bind_res (target_form A r) (\<lambda>(target_type, target).
     bind_res (recipient_findings A lo target_type target d) (\<lambda>recipients.
     let d = fold (\<lambda>(user_id, finding_ids). enqueue_notification user_id finding_ids TEMPLATE) recipients d in
     bind_res (audit_event A r ''notifications.campaign_queued'' (Some (u_id u)) (Some ''notification_campaign'') None
       [(uni ''target_type'', JStr target_type), (uni ''recipient_count'', JInt (int (length recipients)))] d) (\<lambda>d.
     Inr (redirect_to (uni ''/analyst/notifications''), d)))))"

section \<open>Facts\<close>

lemma group_rows_mem: "(u, ids) \<in> set (group_rows rows) \<Longrightarrow> ids = map snd (filter (\<lambda>r. fst r = u) rows) \<and> u \<in> fst ` set rows"
  by (auto simp: group_rows_def)

lemma group_rows_keys: "distinct (map fst (group_rows rows))" "fst ` set (group_rows rows) = fst ` set rows"
  by (auto simp: group_rows_def comp_def image_image)

lemma recipient_rows_iff:
  "(i, j) \<in> set (recipient_rows p d) \<longleftrightarrow>
     (\<exists>u \<in> set (users d). u_id u = i \<and> u_is_active u \<and> p u) \<and>
     (\<exists>f \<in> set (findings d). fnd_id f = j \<and> fnd_remediated_at f = None \<and>
        (\<exists>s \<in> set (subjects d). fnd_subject_id f = sub_id s \<and> sub_linked_user_id s = Some i))"
  by (auto simp: recipient_rows_def split: if_splits)

text \<open>Queueing a list of messages to different users adds only messages of that list.\<close>

lemma queue_messages:
  assumes "n \<in> set (notifications (fold (\<lambda>(user_id, finding_ids). enqueue_notification user_id finding_ids TEMPLATE) gs d))"
  shows "n \<in> set (notifications d) \<or> (\<exists>(i, ids) \<in> set gs. ntf_user_id n = i \<and> ntf_template n = TEMPLATE \<and>
    ntf_finding_ids n = sorted_ids ids \<and> ntf_status n = NotificationStatus.PENDING)"
  using assms
proof (induction gs arbitrary: d)
  case (Cons g gs)
  obtain i ids where g: "g = (i, ids)" by fastforce
  have "notifications (enqueue_notification i ids TEMPLATE d) = notifications d \<or>
    (\<exists>x. notifications (enqueue_notification i ids TEMPLATE d) = notifications d @ [x] \<and> ntf_user_id x = i \<and>
       ntf_template x = TEMPLATE \<and> ntf_finding_ids x = sorted_ids ids \<and> ntf_status x = NotificationStatus.PENDING)"
    by (auto simp: enqueue_notification_def Let_def uuid4_eq insert_if_absent_def)
  with Cons.IH [of "enqueue_notification i ids TEMPLATE d"] Cons.prems show ?case by (auto simp: g)
qed simp

lemma enqueue_notification_fields [simp]:
  "users (enqueue_notification u ids t d) = users d" "audit_log (enqueue_notification u ids t d) = audit_log d"
  by (simp_all add: enqueue_notification_def Let_def uuid4_eq)

lemma queue_messages_frame:
  "users (fold (\<lambda>(user_id, finding_ids). enqueue_notification user_id finding_ids TEMPLATE) gs d) = users d"
  "audit_log (fold (\<lambda>(user_id, finding_ids). enqueue_notification user_id finding_ids TEMPLATE) gs d) = audit_log d"
  by (induction gs arbitrary: d) auto

section \<open>Properties\<close>

text \<open>
  C32. A confirmed campaign mails nobody it should not: every message it adds is pending, goes to an active user
  the target selects, and names exactly that user's open findings; the audit log keeps the number of
  recipients, which is the number the preview of the same form shows.
\<close>

theorem campaign_selects:
  assumes "confirm_notifications lo A r d = Inr (rs, d')"
    and "n \<in> set (notifications d')" and "n \<notin> set (notifications d)"
  shows "\<exists>target_type target p u. target_form A r = Inr (target_type, target) \<and>
    recipient_filter A lo target_type target = Inr p \<and> u \<in> set (users d) \<and> u_is_active u \<and> p u \<and>
    ntf_user_id n = u_id u \<and> ntf_template n = TEMPLATE \<and> ntf_status n = NotificationStatus.PENDING \<and>
    set (ntf_finding_ids n) = {uuid_str (fnd_id f) | f. f \<in> set (findings d) \<and> fnd_remediated_at f = None \<and>
      (\<exists>s \<in> set (subjects d). fnd_subject_id f = sub_id s \<and> sub_linked_user_id s = Some (u_id u))} \<and>
    (\<exists>e. audit_log d' = audit_log d @ [e] \<and> al_action e = ''notifications.campaign_queued'' \<and>
      al_meta e = [(uni ''target_type'', JStr target_type),
                   (uni ''recipient_count'', JInt (int (length (group_rows (recipient_rows p d)))))])"
proof -
  obtain a d1 where u: "get_current_user A r d = Inr (a, d1)"
    and run: "bind_res (target_form A r) (\<lambda>(target_type, target).
     bind_res (recipient_findings A lo target_type target d1) (\<lambda>recipients.
     let d = fold (\<lambda>(user_id, finding_ids). enqueue_notification user_id finding_ids TEMPLATE) recipients d1 in
     bind_res (audit_event A r ''notifications.campaign_queued'' (Some (u_id a)) (Some ''notification_campaign'') None
       [(uni ''target_type'', JStr target_type), (uni ''recipient_count'', JInt (int (length recipients)))] d) (\<lambda>d.
     Inr (redirect_to (uni ''/analyst/notifications''), d)))) = Inr (rs, d')"
    using assms(1) unfolding confirm_notifications_def by (rule guarded_Inr)
  obtain ss where d1: "d1 = d\<lparr>sessions := ss\<rparr>" using get_current_user_frame [OF u] by blast
  obtain target_type target p where target: "target_form A r = Inr (target_type, target)"
    "recipient_filter A lo target_type target = Inr p"
    and log: "audit_event A r ''notifications.campaign_queued'' (Some (u_id a)) (Some ''notification_campaign'') None
       [(uni ''target_type'', JStr target_type),
        (uni ''recipient_count'', JInt (int (length (group_rows (recipient_rows p d1)))))]
       (fold (\<lambda>(user_id, finding_ids). enqueue_notification user_id finding_ids TEMPLATE)
         (group_rows (recipient_rows p d1)) d1) = Inr d'"
    using run by (auto simp: bind_res_Inr_iff recipient_findings_def Let_def)
  have rows: "recipient_rows p d1 = recipient_rows p d" by (simp add: recipient_rows_def d1 cong: if_cong)
  obtain i ids where g: "(i, ids) \<in> set (group_rows (recipient_rows p d))" and n: "ntf_user_id n = i" "ntf_template n = TEMPLATE"
    "ntf_finding_ids n = sorted_ids ids" "ntf_status n = NotificationStatus.PENDING"
    using queue_messages [of n "group_rows (recipient_rows p d)" d1] assms(2,3) audit_event_frame(14) [OF log]
    unfolding rows by (auto simp: d1)
  note g' = group_rows_mem [OF g]
  then obtain j where "(i, j) \<in> set (recipient_rows p d)" by force
  then obtain u where "u \<in> set (users d)" "u_id u = i" "u_is_active u" "p u"
    unfolding recipient_rows_iff by blast
  moreover have "set ids = {fnd_id f | f. f \<in> set (findings d) \<and> fnd_remediated_at f = None \<and>
      (\<exists>s \<in> set (subjects d). fnd_subject_id f = sub_id s \<and> sub_linked_user_id s = Some i)}"
    using g' \<open>(i, j) \<in> set (recipient_rows p d)\<close> recipient_rows_iff [of i _ p d]
    by (force simp: image_iff)
  then have "set (ntf_finding_ids n) = {uuid_str (fnd_id f) | f. f \<in> set (findings d) \<and> fnd_remediated_at f = None \<and>
      (\<exists>s \<in> set (subjects d). fnd_subject_id f = sub_id s \<and> sub_linked_user_id s = Some i)}"
    using n by (auto simp: sorted_ids_def)
  moreover have "\<exists>e. audit_log d' = audit_log d @ [e] \<and> al_action e = ''notifications.campaign_queued'' \<and>
      al_meta e = [(uni ''target_type'', JStr target_type),
                   (uni ''recipient_count'', JInt (int (length (group_rows (recipient_rows p d)))))]"
    using log by (auto elim!: audit_event_Inr simp: queue_messages_frame d1 rows [unfolded d1])
  ultimately show ?thesis
    using target n by (intro exI [of _ target_type] exI [of _ target] exI [of _ p] exI [of _ u]) simp
qed

section \<open>A sample campaign\<close>

definition campaign_app :: app where
  "campaign_app = the_app\<lparr>ap_parse_qs := (\<lambda>s. [(uni ''target_type'', [uni ''user'']), (uni ''target'', [uni ''a@example.org''])])\<rparr>"

definition campaign_db :: db where
  "campaign_db = signed UserRole.ANALYST (db0\<lparr>
     subjects := [(a_subject 5 SubjectKind.EMAIL ''a@example.org'')\<lparr>sub_linked_user_id := Some 1\<rparr>],
     findings := [a_finding 7 5 None]\<rparr>)"

lemma campaign_app_user: "get_current_user campaign_app r d = get_current_user the_app r d"
  by (simp add: get_current_user_def campaign_app_def the_app_def)

lemma campaign_form:
  "target_form campaign_app first_request = Inr (uni ''user'', uni ''a@example.org'')"
  "recipient_filter campaign_app lo (uni ''user'') (uni ''a@example.org'') = Inr (\<lambda>u. u_email u = uni ''a@example.org'')"
proof -
  have "strip ascii_unidata (uni ''a@example.org'') = uni ''a@example.org''"
    "casefold ascii_unidata (uni ''a@example.org'') = uni ''a@example.org''" "decode_utf8 [] = Inr []"
    by code_simp+
  then show "target_form campaign_app first_request = Inr (uni ''user'', uni ''a@example.org'')"
    "recipient_filter campaign_app lo (uni ''user'') (uni ''a@example.org'') = Inr (\<lambda>u. u_email u = uni ''a@example.org'')"
    by (simp_all add: target_form_def recipient_filter_def campaign_app_def the_app_def first_request_def post_request_def
        first_of_def first_value_def caught_def TARGET_TYPES_def)
qed

theorem campaign_selects_witness:
  "\<exists>rs d' n. confirm_notifications (\<lambda>s. s) campaign_app first_request campaign_db = Inr (rs, d') \<and>
     n \<in> set (notifications d') \<and> set (ntf_finding_ids n) = {uuid_str 7}"
proof -
  obtain ss where u: "get_current_user campaign_app first_request campaign_db =
      Inr (a_user 1 UserRole.ANALYST, campaign_db\<lparr>sessions := ss\<rparr>)"
    unfolding campaign_app_user campaign_db_def by (rule signed_user)
  let ?d = "campaign_db\<lparr>sessions := ss\<rparr>"
  let ?p = "\<lambda>u. u_email u = uni ''a@example.org''"
  have tables: "users campaign_db = [a_user 1 UserRole.ANALYST]" "findings campaign_db = [a_finding 7 5 None]"
    "subjects campaign_db = [(a_subject 5 SubjectKind.EMAIL ''a@example.org'')\<lparr>sub_linked_user_id := Some 1\<rparr>]"
    "notifications campaign_db = []"
    by (simp_all add: campaign_db_def signed_def db0_def empty_db_def)
  have rows: "recipient_rows ?p ?d = [(1, 7)]"
    by (simp add: recipient_rows_def tables) (simp add: a_user_def a_subject_def a_finding_def)
  have groups: "group_rows [(1, 7)] = [(1, [7])]" by (simp add: group_rows_def)
  obtain d' where d': "audit_event campaign_app first_request ''notifications.campaign_queued'' (Some 1)
      (Some ''notification_campaign'') None
      [(uni ''target_type'', JStr (uni ''user'')), (uni ''recipient_count'', JInt (int (length [(1 :: uuid, [7 :: uuid])])))]
      (enqueue_notification 1 [7] TEMPLATE ?d) = Inr d'"
    using audit_event_works [of campaign_app "[]"] session_key_the_settings
    by (fastforce simp: campaign_app_def the_app_def)
  have "\<exists>rs. confirm_notifications (\<lambda>s. s) campaign_app first_request campaign_db = Inr (rs, d')"
    unfolding confirm_notifications_def using d'
    by (subst guarded_eq [OF u])
      (simp_all add: ANALYST_ROLES_def campaign_form recipient_findings_def rows groups Let_def)
  then obtain rs where run: "confirm_notifications (\<lambda>s. s) campaign_app first_request campaign_db = Inr (rs, d')" by blast
  have "notifications d' \<noteq> []"
    using audit_event_frame(14) [OF d']
    by (simp add: enqueue_notification_def sorted_ids_def uuid4_eq insert_if_absent_def tables Let_def)
  then obtain n where n: "n \<in> set (notifications d')" by (cases "notifications d'") auto
  from campaign_selects [OF run n] tables(4) obtain v where v: "v \<in> set (users campaign_db)"
    "set (ntf_finding_ids n) = {uuid_str (fnd_id f) | f. f \<in> set (findings campaign_db) \<and> fnd_remediated_at f = None \<and>
      (\<exists>s \<in> set (subjects campaign_db). fnd_subject_id f = sub_id s \<and> sub_linked_user_id s = Some (u_id v))}"
    by auto
  have "v = a_user 1 UserRole.ANALYST" using v(1) tables(1) by simp
  then have "set (ntf_finding_ids n) = {uuid_str 7}"
    unfolding v(2) tables by (simp add: a_finding_def a_subject_def a_user_def)
  with run n show ?thesis by blast
qed

end
