(* ===== verification/AuthRoutes.thy ===== *)
theory AuthRoutes
  imports GoogleLogin
begin

text \<open>
  The authentication routes (\<open>src/app/routers/auth.py\<close>): the sign-in page and logo, CSRF tokens, the Google
  and local logins, enrolling a second factor, the profile with its password change, and logout. A process
  may hold a Google client of its own (\<open>app.state.google_oidc\<close>); the routes that use it return it. The QR code
  of an enrolment is drawn by a library, the parameter \<open>qr\<close>.
\<close>

section \<open>Responses\<close>

definition MAX_LOCAL_LOGIN_BODY_BYTES :: nat where
  "MAX_LOCAL_LOGIN_BODY_BYTES = 4096"

definition ALL_ROLES :: "UserRole list" where
  "ALL_ROLES = [UserRole.USER, UserRole.ANALYST, UserRole.SUPER_ADMIN]"

definition clear_transaction_cookie :: "http_response \<Rightarrow> http_response" where
  "clear_transaction_cookie = with_cookie
     \<lparr>ck_key = OAUTH_TRANSACTION_COOKIE_NAME, ck_value = [], ck_max_age = Some 0, ck_path = ''/'',
      ck_secure = True, ck_httponly = True, ck_samesite = ''lax''\<rparr>"

definition authentication_failed :: "nat \<Rightarrow> http_response" where
  "authentication_failed status =
     with_header no_store (clear_transaction_cookie (respond status (PlainText (uni ''Google authentication failed.''))))"

definition local_authentication_failed :: http_response where
  "local_authentication_failed = with_header no_store (respond 401 (PlainText (uni ''Local authentication failed.'')))"

text \<open>What both logins answer with: the cookies of the session and of a CSRF token bound to it.\<close>

definition signed_in_response :: "app \<Rightarrow> IssuedSession \<Rightarrow> db \<Rightarrow> (http_response \<times> db) res" where
  "signed_in_response A issued d =
     bind_res (csrf_key (ap_settings A)) (\<lambda>key.
     let ((_, rs), d) = csrf_issue key (Some (iss_token issued))
           (with_cookie (session_cookie issued (clock d)) (redirect_to (uni ''/''))) d
     in Inr (rs, d))"

section \<open>The sign-in page\<close>

fun home_of :: "UserRole \<Rightarrow> ustr" where
  "home_of UserRole.SUPER_ADMIN = uni ''/admin/settings''"
| "home_of UserRole.ANALYST = uni ''/analyst''"
| "home_of UserRole.USER = uni ''/portal''"

definition sign_in_page :: "OrganisationBranding \<Rightarrow> ustr" where
  "sign_in_page brand =
     (let name = esc (brand_display_name brand);
          logo = (if ob_has_logo brand
            then concat [uni ''<img class=\"org-logo\" alt=\"'', name, uni ''\" '',
              uni ''src=\"/branding/logo?v='', esc (case ob_logo_sha256 brand of None \<Rightarrow> [] | Some h \<Rightarrow> h), uni ''\">'']
            else uni ''<div class=\"brand-mark\" aria-hidden=\"true\">LC</div>'')
      in concat
        [uni ''<!doctype html><html lang=\"en\"><head><meta charset=\"utf-8\">'',
         uni ''<meta name=\"viewport\" content=\"width=device-width,initial-scale=1\">'',
         (uni ''<title>Sign in '' @ [183] @ uni '' ''), name, uni ''</title>'',
         uni ''<link rel=\"stylesheet\" href=\"/static/auth.css?v=3\"></head>'',
         uni ''<body class=\"auth-page landing\"><main class=\"landing-shell\">'',
         uni ''<div class=\"org-identity\">'', logo, uni ''<p class=\"org-name\">'', name, uni ''</p></div>'',
         uni ''<h1>Sign in with Google to scan your email for leaked credentials.</h1>'',
         uni ''<a class=\"google-button primary\" href=\"/auth/google/login\">'',
         uni ''<span class=\"google-glyph\" aria-hidden=\"true\">G</span>'',
         uni ''Sign in with Google</a>'',
         uni ''<output id=\"login-result\" class=\"form-status\"></output>'',
         uni ''</main>'',
         uni ''<button type=\"button\" id=\"admin-toggle\" class=\"admin-corner\" '',
         uni ''aria-expanded=\"false\" aria-controls=\"admin-login\">Super Admin Sign In</button>'',
         uni ''<dialog id=\"admin-login\" class=\"admin-dialog\">'',
         uni ''<form id=\"local-login\" class=\"auth-form\" method=\"dialog\">'',
         uni ''<h2>Super Admin Sign In</h2>'',
         uni ''<label>Email address'',
         uni ''<input name=\"username\" type=\"email\" autocomplete=\"username\" required></label>'',
         uni ''<label>Password'',
         uni ''<input name=\"password\" type=\"password\" autocomplete=\"current-password\" '',
         uni ''required></label>'',
         uni ''<label>Authenticator code <span class=\"optional\">Once MFA is enabled</span>'',
         uni ''<input name=\"totp_code\" inputmode=\"numeric\" autocomplete=\"one-time-code\" '',
         uni ''maxlength=\"6\" placeholder=\"000000\"></label>'',
         uni ''<div class=\"dialog-actions\"><button type=\"submit\">Sign in</button>'',
         uni ''<button type=\"button\" id=\"admin-close\">Cancel</button></div></form>'',
         uni ''</dialog>'',
         uni ''<script src=\"/static/login.js?v=3\" defer></script></body></html>''])"

definition landing_page :: "app \<Rightarrow> handler" where
  "landing_page A r d =
     bind_res (verify_session (ap_settings A) (cookie r SESSION_COOKIE_NAME) None d) (\<lambda>(v, d).
     case v of
       Some v \<Rightarrow> Inr (redirect_to (home_of (u_role (ver_user v))), d)
     | None \<Rightarrow> Inr (html_no_store 200 (sign_in_page (load_branding d)), d))"

definition branding_logo :: handler where
  "branding_logo r d =
     (case load_logo d of
        None \<Rightarrow> Inr (respond 404 NoBody, d)
      | Some (data, content_type, digest) \<Rightarrow>
          let etag = (if digest = [] then None else Some ([34] @ digest @ [34])) in
          if etag \<noteq> None \<and> header r ''if-none-match'' = etag
          then Inr (with_header (''etag'', the etag) (respond 304 NoBody), d)
          else Inr (fold with_header
                 ([(''content-type'', content_type), (''cache-control'', uni ''public, max-age=0, must-revalidate''),
                   (''content-security-policy'', (uni ''default-src '' @ [39] @ uni ''none'' @ [39] @ uni ''; sandbox'')), (''x-content-type-options'', uni ''nosniff'')] @
                  (case etag of None \<Rightarrow> [] | Some e \<Rightarrow> [(''etag'', e)]))
                 (respond 200 (Binary data)), d))"

definition issue_csrf_token :: "app \<Rightarrow> handler" where
  "issue_csrf_token A r d =
     bind_res (csrf_key (ap_settings A)) (\<lambda>key.
     let ((_, rs), d) = csrf_issue key (cookie r SESSION_COOKIE_NAME) (respond 204 NoBody) d
     in Inr (with_header no_store rs, d))"

section \<open>The Google login\<close>

definition GOOGLE_KEYS :: "SettingKey list" where
  "GOOGLE_KEYS = [GOOGLE_CLIENT_ID, GOOGLE_CLIENT_SECRET, GOOGLE_REDIRECT_URI, GOOGLE_WORKSPACE_DOMAINS]"

definition load_google_oidc :: "(ustr \<Rightarrow> json option) \<Rightarrow> app \<Rightarrow> db \<Rightarrow> GoogleOIDC option res" where
  "load_google_oidc loads A d =
     bind_res (read_many (ap_gcm A) (ap_settings A) GOOGLE_KEYS d) (\<lambda>vs.
     case (map_of vs GOOGLE_CLIENT_ID, map_of vs GOOGLE_CLIENT_SECRET, map_of vs GOOGLE_REDIRECT_URI,
           map_of vs GOOGLE_WORKSPACE_DOMAINS) of
       (Some client_id, Some secret, Some uri, Some domains) \<Rightarrow>
         bind_res (decode_domains loads domains) (\<lambda>allowed.
         bind_res (google_oidc A \<lparr>oc_client_id = client_id, oc_client_secret = secret, oc_redirect_uri = uri,
           oc_allowed_domains = allowed\<rparr>) (\<lambda>g. Inr (Some g)))
     | _ \<Rightarrow> Inr None)"

definition configured_google_oidc ::
  "(ustr \<Rightarrow> json option) \<Rightarrow> app \<Rightarrow> GoogleOIDC option \<Rightarrow> db \<Rightarrow> GoogleOIDC option res" where
  "configured_google_oidc loads A cached d =
     (case cached of Some g \<Rightarrow> Inr (Some g) | None \<Rightarrow> load_google_oidc loads A d)"

text \<open>A route and the client the process holds; a client loaded for one request is dropped.\<close>

type_synonym 'a cached = "GoogleOIDC option \<Rightarrow> http_request \<Rightarrow> db \<Rightarrow> 'a res \<times> GoogleOIDC option"

definition with_google ::
  "(ustr \<Rightarrow> json option) \<Rightarrow> app \<Rightarrow> (GoogleOIDC \<Rightarrow> http_request \<Rightarrow> db \<Rightarrow> (http_response \<times> db) res \<times> GoogleOIDC)
   \<Rightarrow> (http_response \<times> db) cached" where
  "with_google loads A h cached r d =
     (case configured_google_oidc loads A cached d of
        Inl e \<Rightarrow> (Inl e, cached)
      | Inr None \<Rightarrow>
          (bind_res (audit_event A r ''auth.google_failed'' None None None [(uni ''reason'', JStr (uni ''unconfigured''))] d) (\<lambda>d.
           Inr (authentication_failed 503, d)), cached)
      | Inr (Some g) \<Rightarrow> (case h g r d of (x, g) \<Rightarrow> (x, if cached = None then None else Some g)))"

definition google_failed :: "app \<Rightarrow> nat \<Rightarrow> http_request \<Rightarrow> db \<Rightarrow> (http_response \<times> db) res" where
  "google_failed A status r d =
     bind_res (audit_event A r ''auth.google_failed'' None None None [] d) (\<lambda>d. Inr (authentication_failed status, d))"

definition transaction_cookie :: "bytes \<Rightarrow> OAuthTransaction \<Rightarrow> datetime \<Rightarrow> Cookie" where
  "transaction_cookie key t now =
     \<lparr>ck_key = OAUTH_TRANSACTION_COOKIE_NAME, ck_value = serialize key t,
      ck_max_age = Some (ot_expires_at t - unix_seconds now), ck_path = ''/'',
      ck_secure = True, ck_httponly = True, ck_samesite = ''lax''\<rparr>"

definition start_with :: "app \<Rightarrow> oidc_net \<Rightarrow> GoogleOIDC \<Rightarrow> http_request \<Rightarrow> db \<Rightarrow> (http_response \<times> db) res \<times> GoogleOIDC" where
  "start_with A N g r d =
     (let (t, d) = begin_transaction (clock d) d in
      case authorization_url A N t g of
        (Inl e, g) \<Rightarrow> (if e = GoogleOIDCError then google_failed A 503 r d else Inl e, g)
      | (Inr url, g) \<Rightarrow>
          (bind_res (audit_event A r ''auth.google_started'' None None None [] d) (\<lambda>d.
           Inr (with_header no_store (with_cookie (transaction_cookie (go_transaction_key g) t (clock d))
             (redirect_to url)), d)), g))"

definition start_google_login :: "(ustr \<Rightarrow> json option) \<Rightarrow> app \<Rightarrow> oidc_net \<Rightarrow> (http_response \<times> db) cached" where
  "start_google_login loads A N = with_google loads A (start_with A N)"

text \<open>The callback's check of its parameters against the transaction of this browser.\<close>

definition callback_accepted ::
  "OAuthTransaction option \<Rightarrow> ustr option \<Rightarrow> ustr option \<Rightarrow> ustr option \<Rightarrow> http_request \<Rightarrow> bool" where
  "callback_accepted transaction code state error r \<longleftrightarrow>
     error = None \<and> code \<noteq> None \<and> rq_client r \<noteq> None \<and>
     (case (transaction, state) of
        (Some t, Some s) \<Rightarrow> isascii s \<and> length s = length (ot_state t) \<and> s = ot_state t
      | _ \<Rightarrow> False)"

text \<open>Replacing the session of this browser by one of the user.\<close>

definition sign_in_as :: "app \<Rightarrow> string \<Rightarrow> User \<Rightarrow> http_request \<Rightarrow> db \<Rightarrow> (IssuedSession \<times> db) res" where
  "sign_in_as A action user r d =
     bind_res (revoke_session (cookie r SESSION_COOKIE_NAME) None d) (\<lambda>(_, d).
     bind_res (issue_session (ap_ip A) (ap_settings A) (u_id user) (case rq_client r of None \<Rightarrow> [] | Some h \<Rightarrow> h)
       (header r ''user-agent'') None d) (\<lambda>(issued, d).
     let d = set_user (u_id user) (\<lambda>u. u\<lparr>u_last_login_at := Some (clock d)\<rparr>) d in
     bind_res (audit_event A r action (Some (u_id user)) (Some ''user'') (Some (uuid_str (u_id user))) [] d) (\<lambda>d.
     Inr (issued, d))))"

definition finish_with :: "app \<Rightarrow> oidc_net \<Rightarrow> GoogleOIDC \<Rightarrow> http_request \<Rightarrow> db \<Rightarrow> (http_response \<times> db) res \<times> GoogleOIDC" where
  "finish_with A N g r d =
     (let code = map_of (rq_query r) ''code''; state = map_of (rq_query r) ''state''; error = map_of (rq_query r) ''error'';
          transaction = deserialize A (go_transaction_key g) (clock d) (cookie r OAUTH_TRANSACTION_COOKIE_NAME) in
      if \<not> callback_accepted transaction code state error r then (google_failed A 400 r d, g)
      else case exchange_and_verify A N (the code) (the transaction) g of
          (x, g) \<Rightarrow>
            ((case bind_res x (\<lambda>identity. provision_google_user identity d) of
                Inl e \<Rightarrow> if e = GoogleOIDCError then google_failed A 400 r d else Inl e
              | Inr (user, d) \<Rightarrow>
                  if \<not> u_is_active user then Inr (authentication_failed 403, d)
                  else
                    bind_res (sign_in_as A ''auth.google_succeeded'' user r d) (\<lambda>(issued, d).
                    bind_res (signed_in_response A issued d) (\<lambda>(rs, d).
                    Inr (with_header no_store (clear_transaction_cookie rs), d)))), g))"

definition finish_google_login :: "(ustr \<Rightarrow> json option) \<Rightarrow> app \<Rightarrow> oidc_net \<Rightarrow> (http_response \<times> db) cached" where
  "finish_google_login loads A N = with_google loads A (finish_with A N)"

section \<open>The local login\<close>

definition LOGIN_FIELDS :: "ustr list" where
  "LOGIN_FIELDS = [uni ''username'', uni ''password'', uni ''totp_code'']"

definition utf8_length :: "ustr \<Rightarrow> nat option" where
  "utf8_length s = (case encode_utf8 s of Inl e \<Rightarrow> None | Inr bs \<Rightarrow> Some (length bs))"

definition credentials_of :: "(ustr \<times> json) list \<Rightarrow> (ustr \<times> ustr \<times> ustr option) option" where
  "credentials_of payload =
     (if \<not> {uni ''username'', uni ''password''} \<subseteq> fst ` set payload \<or> \<not> fst ` set payload \<subseteq> set LOGIN_FIELDS then None
      else case (jget payload (uni ''username''), jget payload (uni ''password'')) of
          (JStr username, JStr password) \<Rightarrow>
            (case utf8_length password of
               None \<Rightarrow> None
             | Some n \<Rightarrow>
                 let code = jget payload (uni ''totp_code'') in
                 if length username > 255 \<or> n > 1024 then None
                 else if \<not> truthy code then Some (username, password, None)
                 else (case code of
                         JStr c \<Rightarrow> if length c > 16 then None else Some (username, password, Some c)
                       | _ \<Rightarrow> None))
        | _ \<Rightarrow> None)"

definition read_local_login_credentials :: "app \<Rightarrow> http_request \<Rightarrow> (ustr \<times> ustr \<times> ustr option) option" where
  "read_local_login_credentials A r =
     (if (case header r ''content-length'' of
            None \<Rightarrow> False
          | Some v \<Rightarrow> (case py_int (ap_unidata A) v of None \<Rightarrow> True | Some n \<Rightarrow> n > int MAX_LOCAL_LOGIN_BODY_BYTES))
      then None
      else if length (rq_body r) > MAX_LOCAL_LOGIN_BODY_BYTES then None
      else case ap_json_loads A (rq_body r) of Some (JObj payload) \<Rightarrow> credentials_of payload | _ \<Rightarrow> None)"

definition local_failed :: "app \<Rightarrow> http_request \<Rightarrow> db \<Rightarrow> (http_response \<times> db) res" where
  "local_failed A r d =
     bind_res (audit_event A r ''auth.local_failed'' None None None [] d) (\<lambda>d. Inr (local_authentication_failed, d))"

definition finish_local_login :: "app \<Rightarrow> handler" where
  "finish_local_login A r d =
     (case (read_local_login_credentials A r, rq_client r) of
        (Some (username, password, code), Some client_ip) \<Rightarrow>
          bind_res (authenticate A username password code client_ip None d) (\<lambda>(user, d).
          case user of
            None \<Rightarrow> local_failed A r d
          | Some user \<Rightarrow>
              bind_res (sign_in_as A ''auth.local_succeeded'' user r d) (\<lambda>(issued, d).
              bind_res (signed_in_response A issued d) (\<lambda>(rs, d).
              Inr (with_header no_store rs, d))))
      | _ \<Rightarrow> local_failed A r d)"

section \<open>The second factor\<close>

definition build_totp_provisioning_uri :: "unidata \<Rightarrow> ustr \<Rightarrow> ustr \<Rightarrow> ustr res" where
  "build_totp_provisioning_uri U email secret =
     bind_res (totp_key secret) (\<lambda>_.
     bind_res (normalise_admin_email U email) (\<lambda>address.
     bind_res (quote (uni ''LeakCheck SOC Portal:'' @ address)) (\<lambda>label.
     Inr (uni ''otpauth://totp/'' @ label @ [63] @
       urlencode [(''secret'', secret), (''issuer'', uni ''LeakCheck SOC Portal'')]))))"

definition credential_of :: "uuid \<Rightarrow> db \<Rightarrow> AdminCredential option" where
  "credential_of i d = find (\<lambda>c. cred_user_id c = i) (admin_credentials d)"

definition mfa_enabled_content :: ustr where
  "mfa_enabled_content =
     uni ''<section class=\"hero compact\"><p class=\"eyebrow\">Account security</p>'' @
     uni ''<h1>MFA is enabled</h1><p>Your authenticator code is required at sign-in.</p>'' @
     uni ''<a class=\"button secondary\" href=\"/account/profile\">Back to Profile</a></section>''"

definition mfa_content :: "(ustr \<Rightarrow> ustr) \<Rightarrow> ustr \<Rightarrow> ustr \<Rightarrow> ustr" where
  "mfa_content qr uri secret =
     concat
       [uni ''<section class=\"hero compact\"><p class=\"eyebrow\">Account security</p>'',
        uni ''<h1>Set up MFA</h1><p>Scan this code with your authenticator, then enter a generated '',
        uni ''code to enable MFA.</p></section><section class=\"panel profile-panel\">'',
        uni ''<figure class=\"totp-qr\">'', qr uri, uni ''</figure>'',
        uni ''<p><a class=\"button secondary\" href=\"'', esc uri, uni ''\">'',
        uni ''Open in authenticator</a></p>'',
        (uni ''<p>Can'' @ [39] @ uni ''t scan? Manual setup key: <code>''), esc secret, uni ''</code></p>'',
        uni ''<form id=\"mfa-form\"><label>Authenticator code <input name=\"totp_code\" '',
        uni ''inputmode=\"numeric\" autocomplete=\"one-time-code\" required></label>'',
        uni ''<button type=\"submit\">Enable MFA</button></form><output id=\"mfa-result\"></output>'',
        uni ''</section>'']"

text \<open>The seed of a pending enrolment, drawn and stored when there is none.\<close>

definition pending_secret :: "app \<Rightarrow> uuid \<Rightarrow> AdminCredential \<Rightarrow> db \<Rightarrow> (ustr \<times> db) res" where
  "pending_secret A i credential d =
     (case cred_totp_secret_enc credential of
        None \<Rightarrow>
          let (secret, d) = generate_totp_secret d in
          bind_res (encrypt_totp_secret A i secret d) (\<lambda>(enc, d).
          Inr (secret, set_credential i (\<lambda>c. c\<lparr>cred_totp_secret_enc := Some enc\<rparr>) d))
      | Some enc \<Rightarrow> bind_res (decrypt_totp_secret A i enc) (\<lambda>secret. Inr (secret, d)))"

definition mfa_setup_page :: "(ustr \<Rightarrow> ustr) \<Rightarrow> app \<Rightarrow> handler" where
  "mfa_setup_page qr A = guarded ALL_ROLES A (\<lambda>u r d.
     case credential_of (u_id u) d of
       None \<Rightarrow> Inr (respond 400 (Html (uni ''MFA is managed by your sign-in provider.'')), d)
     | Some credential \<Rightarrow>
         if cred_totp_enabled_at credential \<noteq> None
         then Inr (html_no_store 200 (html_page ((uni ''Profile '' @ [183] @ uni '' MFA'')) mfa_enabled_content u [] []), d)
         else
           (case pending_secret A (u_id u) credential d of
              Inl e \<Rightarrow>
                if e = LocalAuthenticationError
                then Inr (respond 500 (Html (uni ''MFA setup could not be initialized.'')), d) else Inl e
            | Inr (secret, d) \<Rightarrow>
                bind_res (build_totp_provisioning_uri (ap_unidata A) (u_email u) secret) (\<lambda>uri.
                Inr (html_no_store 200 (html_page ((uni ''Profile '' @ [183] @ uni '' MFA'')) (mfa_content qr uri secret) u []
                  [uni ''/static/mfa-setup.js?v=3'']), d))))"

definition read_mfa_code :: "app \<Rightarrow> http_request \<Rightarrow> ustr option" where
  "read_mfa_code A r =
     (case ap_json_loads A (rq_body r) of
        Some (JObj payload) \<Rightarrow>
          if fst ` set payload \<noteq> {uni ''totp_code''} then None
          else (case jget payload (uni ''totp_code'') of
                  JStr code \<Rightarrow> if length code \<le> 16 then Some code else None
                | _ \<Rightarrow> None)
      | _ \<Rightarrow> None)"

definition detail :: "nat \<Rightarrow> ustr \<Rightarrow> http_response" where
  "detail status message = respond status (Json (JObj [(uni ''detail'', JStr message)]))"

definition enable_mfa :: "app \<Rightarrow> handler" where
  "enable_mfa A = guarded ALL_ROLES A (\<lambda>u r d.
     let not_ready = Inr (detail 400 (uni ''MFA setup is not ready.''), d) in
     case (read_mfa_code A r, Option.bind (credential_of (u_id u) d) cred_totp_secret_enc) of
       (Some code, Some enc) \<Rightarrow>
         (case decrypt_totp_secret A (u_id u) enc of
            Inl e \<Rightarrow> if e = LocalAuthenticationError then not_ready else Inl e
          | Inr secret \<Rightarrow>
              if \<not> verify_totp secret code (clock d)
              then Inr (detail 422 (uni ''The authenticator code was not accepted.''), d)
              else
                bind_res (audit_event A r ''auth.mfa_enabled'' (Some (u_id u)) (Some ''user'') (Some (uuid_str (u_id u))) []
                  (set_credential (u_id u) (\<lambda>c. c\<lparr>cred_totp_enabled_at := Some (clock d)\<rparr>) d)) (\<lambda>d.
                Inr (respond 200 (Json (JObj [(uni ''enabled'', JBool True)])), d)))
     | _ \<Rightarrow> not_ready)"

section \<open>The profile\<close>

definition profile_content :: "ustr \<Rightarrow> bool \<Rightarrow> ustr" where
  "profile_content email enabled =
     (let mfa_status = (if enabled then uni ''Enabled'' else uni ''Not enabled'');
          mfa_action = (if enabled then uni ''<span class=\"badge success\">Enabled</span>''
                        else uni ''<a class=\"button\" href=\"/account/mfa\">Enable MFA</a>'')
      in concat
        [uni ''<section class=\"hero compact\"><p class=\"eyebrow\">Administrator account</p>'',
         uni ''<h1>'', esc email, uni ''</h1>'',
         uni ''<p>Manage the security controls for this local administrator.</p></section>'',
         uni ''<section class=\"profile-grid\"><article class=\"panel profile-panel\"><h2>MFA</h2>'',
         uni ''<p>Status: '', mfa_status, uni ''</p>'', mfa_action, uni ''</article>'',
         uni ''<article class=\"panel profile-panel\"><h2>Change password</h2>'',
         uni ''<form id=\"password-form\"><label>Current password'',
         uni ''<input type=\"password\" name=\"current_password\" autocomplete=\"current-password\" '',
         uni ''required>'',
         uni ''</label><label>New password<input type=\"password\" name=\"new_password\" '',
         uni ''autocomplete=\"new-password\" minlength=\"15\" required></label>'',
         uni ''<label>Confirm new password<input type=\"password\" name=\"confirmation\" '',
         uni ''autocomplete=\"new-password\" minlength=\"15\" required></label>'',
         uni ''<button type=\"submit\">Change password</button></form>'',
         uni ''<output id=\"profile-result\" class=\"form-error\"></output></article></section>''])"

definition profile_page :: "app \<Rightarrow> handler" where
  "profile_page A = guarded ALL_ROLES A (\<lambda>u r d.
     case credential_of (u_id u) d of
       Some credential \<Rightarrow>
         if u_role u \<noteq> UserRole.SUPER_ADMIN
         then Inr (respond 400 (Html (uni ''Profile security is managed by your sign-in provider.'')), d)
         else Inr (html_no_store 200 (html_page (uni ''Profile'')
           (profile_content (u_email u) (cred_totp_enabled_at credential \<noteq> None)) u [] [uni ''/static/profile.js?v=3'']), d)
     | None \<Rightarrow> Inr (respond 400 (Html (uni ''Profile security is managed by your sign-in provider.'')), d))"

definition PASSWORD_FIELDS :: "ustr list" where
  "PASSWORD_FIELDS = [uni ''current_password'', uni ''new_password'', uni ''confirmation'']"

definition short_text :: "ustr \<Rightarrow> bool" where
  "short_text s = (case utf8_length s of None \<Rightarrow> False | Some n \<Rightarrow> n \<le> 1024)"

definition password_change :: "app \<Rightarrow> http_request \<Rightarrow> (ustr \<times> ustr \<times> ustr) option" where
  "password_change A r =
     (if length (rq_body r) > MAX_LOCAL_LOGIN_BODY_BYTES then None
      else case ap_json_loads A (rq_body r) of
          Some (JObj payload) \<Rightarrow>
            if fst ` set payload \<noteq> set PASSWORD_FIELDS then None
            else (case (jget payload (uni ''current_password''), jget payload (uni ''new_password''), jget payload (uni ''confirmation'')) of
                    (JStr current, JStr new, JStr confirmation) \<Rightarrow>
                      if list_all short_text [current, new, confirmation] then Some (current, new, confirmation) else None
                  | _ \<Rightarrow> None)
        | _ \<Rightarrow> None)"

definition change_password :: "app \<Rightarrow> handler" where
  "change_password A = guarded ALL_ROLES A (\<lambda>u r d.
     case password_change A r of
       None \<Rightarrow> Inr (detail 400 (uni ''Invalid password change request.''), d)
     | Some (current, new, confirmation) \<Rightarrow>
         let rejected = Inr (detail 422 (uni ''Current password was not accepted.''), d) in
         (case credential_of (u_id u) d of
            None \<Rightarrow> rejected
          | Some credential \<Rightarrow>
              if \<not> argon2_verify (ap_argon2 A) (cred_password_hash credential) current then rejected
              else if new \<noteq> confirmation then Inr (detail 422 (uni ''New passwords do not match.''), d)
              else
                (case hash_password A new d of
                   Inl e \<Rightarrow>
                     if e = LocalAuthenticationError
                     then Inr (detail 422 (uni ''New password must contain at least 15 valid characters.''), d) else Inl e
                 | Inr (h, d) \<Rightarrow>
                     bind_res (audit_event A r ''auth.password_changed'' (Some (u_id u)) (Some ''user'')
                       (Some (uuid_str (u_id u))) [] (set_credential (u_id u) (\<lambda>c. c\<lparr>cred_password_hash := h\<rparr>) d)) (\<lambda>d.
                     Inr (respond 200 (Json (JObj [(uni ''changed'', JBool True)])), d)))))"

definition logout :: "app \<Rightarrow> handler" where
  "logout A = guarded ALL_ROLES A (\<lambda>u r d.
     bind_res (revoke_session (cookie r SESSION_COOKIE_NAME) None d) (\<lambda>(_, d).
     bind_res (audit_event A r ''auth.logout'' (Some (u_id u)) (Some ''user'') (Some (uuid_str (u_id u))) [] d) (\<lambda>d.
     Inr (with_header no_store (with_cookie clear_session_cookie (respond 204 NoBody)), d))))"

section \<open>Facts\<close>

text \<open>Revoking the presented token leaves no session of it alive and changes nothing else.\<close>

lemma revoke_session_Inr:
  assumes "revoke_session token now d = Inr (b, d')" and "unique_on sess_id_hash (sessions d)"
  shows "\<exists>ss. d' = d\<lparr>sessions := ss\<rparr> \<and> map sess_id_hash ss = map sess_id_hash (sessions d) \<and>
    (\<forall>s \<in> set ss. validated_token_hash token = Some (sess_id_hash s) \<longrightarrow> sess_revoked_at s \<noteq> None)"
proof (cases "\<exists>h s. validated_token_hash token = Some h \<and> find (\<lambda>r. sess_id_hash r = h) (sessions d) = Some s \<and> sess_revoked_at s = None")
  case True
  then obtain h t where h: "validated_token_hash token = Some h"
    and d': "d' = d\<lparr>sessions := update_where (\<lambda>r. sess_id_hash r = h) (\<lambda>r. r\<lparr>sess_revoked_at := Some t\<rparr>) (sessions d)\<rparr>"
    using assms(1) by (auto simp: revoke_session_def bind_res_Inr_iff)
  let ?ss = "update_where (\<lambda>r. sess_id_hash r = h) (\<lambda>r. r\<lparr>sess_revoked_at := Some t\<rparr>) (sessions d)"
  have "map sess_id_hash ?ss = map sess_id_hash (sessions d)" by (rule map_update_where) simp
  moreover have "\<forall>s \<in> set ?ss. sess_id_hash s = h \<longrightarrow> sess_revoked_at s \<noteq> None"
    unfolding set_update_where by (simp add: ball_Un)
  ultimately show ?thesis
    unfolding h d' by (intro exI [of _ ?ss]) auto
next
  case False
  then have "d' = d" using assms(1) by (auto simp: revoke_session_def split: option.splits if_splits)
  moreover have "sess_revoked_at s \<noteq> None" if "s \<in> set (sessions d)" "validated_token_hash token = Some (sess_id_hash s)" for s
    using False unique_on_find [OF assms(2) that(1)] that(2) by auto
  ultimately show ?thesis by (intro exI [of _ "sessions d"]) simp
qed

definition one_more_session :: "app \<Rightarrow> http_request \<Rightarrow> User \<Rightarrow> db \<Rightarrow> db \<Rightarrow> IssuedSession \<Rightarrow> bool" where
  "one_more_session A r user d d' issued \<longleftrightarrow> (\<exists>ss s. sessions d' = ss @ [s] \<and>
     sess_id_hash s = token_hash (iss_token issued) \<and> sess_user_id s = u_id user \<and> sess_revoked_at s = None \<and>
     map sess_id_hash ss = map sess_id_hash (sessions d) \<and>
     (\<forall>x \<in> set ss. validated_token_hash (cookie r SESSION_COOKIE_NAME) = Some (sess_id_hash x) \<longrightarrow> sess_revoked_at x \<noteq> None))"

lemma sign_in_as_Inr:
  assumes "sign_in_as A act user r d = Inr (issued, d')" and "unique_on sess_id_hash (sessions d)"
  shows "one_more_session A r user d d' issued"
    "users d' = update_where (\<lambda>u. u_id u = u_id user) (\<lambda>u. u\<lparr>u_last_login_at := Some (clock d)\<rparr>) (users d)"
    "\<exists>e. audit_log d' = audit_log d @ [e] \<and> al_action e = act \<and> al_actor_id e = Some (u_id user)"
    "admin_credentials d' = admin_credentials d"
proof -
  obtain b d1 d2 where 1: "revoke_session (cookie r SESSION_COOKIE_NAME) None d = Inr (b, d1)"
    and 2: "issue_session (ap_ip A) (ap_settings A) (u_id user) (case rq_client r of None \<Rightarrow> [] | Some h \<Rightarrow> h)
       (header r ''user-agent'') None d1 = Inr (issued, d2)"
    and 3: "audit_event A r act (Some (u_id user)) (Some ''user'') (Some (uuid_str (u_id user))) []
       (set_user (u_id user) (\<lambda>u. u\<lparr>u_last_login_at := Some (clock d2)\<rparr>) d2) = Inr d'"
    using assms(1) unfolding sign_in_as_def by (auto simp: bind_res_Inr_iff Let_def)
  from revoke_session_Inr [OF 1 assms(2)] obtain ss where ss: "d1 = d\<lparr>sessions := ss\<rparr>"
    "map sess_id_hash ss = map sess_id_hash (sessions d)"
    "\<forall>s \<in> set ss. validated_token_hash (cookie r SESSION_COOKIE_NAME) = Some (sess_id_hash s) \<longrightarrow> sess_revoked_at s \<noteq> None"
    by blast
  from 2 obtain s n where s: "d2 = d1\<lparr>drawn := n, sessions := ss @ [s]\<rparr>" "sess_id_hash s = token_hash (iss_token issued)"
    "sess_user_id s = u_id user" "sess_revoked_at s = None"
    using ss(1) by (fastforce simp: issue_session_def bind_res_Inr_iff token_urlsafe_eq Let_def split: if_splits)
  show "one_more_session A r user d d' issued"
    unfolding one_more_session_def using ss(2,3) s audit_event_frame(4) [OF 3] by (auto simp: set_user_def)
  show "users d' = update_where (\<lambda>u. u_id u = u_id user) (\<lambda>u. u\<lparr>u_last_login_at := Some (clock d)\<rparr>) (users d)"
    using audit_event_frame(1) [OF 3] s(1) ss(1) by (simp add: set_user_def)
  show "admin_credentials d' = admin_credentials d"
    using audit_event_frame(2) [OF 3] s(1) ss(1) by (simp add: set_user_def)
  show "\<exists>e. audit_log d' = audit_log d @ [e] \<and> al_action e = act \<and> al_actor_id e = Some (u_id user)"
    using audit_event_frame(21) [OF 3] s(1) ss(1) by (auto simp: set_user_def)
qed

lemma signed_in_response_frame:
  "signed_in_response A issued d = Inr (rs, d') \<Longrightarrow> \<exists>n. d' = d\<lparr>drawn := n\<rparr>"
  by (auto simp: signed_in_response_def csrf_issue_def token_urlsafe_eq bind_res_Inr_iff Let_def)

lemma authenticate_frame:
  assumes "authenticate A name pw code ip None d = Inr (x, d')"
  shows "sessions d' = sessions d"
  using assms
proof (cases rule: authenticate_cases)
  case (checked t h rl d1 email u c)
  have "sessions d1 = sessions d" using load_ip_limit_frame [OF checked(2)] by simp
  with checked(9) show ?thesis
    by (cases rule: check_account_cases) (simp_all add: set_ip_limit_def set_credential_def set_user_def)
qed (auto simp: set_ip_limit_def dest: load_ip_limit_frame)

lemma provision_result:
  assumes "provision_google_user identity d = Inr (user, d')"
  shows "u_google_sub user = Some (gi_subject identity) \<and> user \<in> set (users d') \<and> sessions d' = sessions d \<and> clock d' = clock d"
proof (cases "find (\<lambda>u. u_google_sub u = Some (gi_subject identity)) (users d)")
  case (Some u0)
  from find_Some_mem [OF Some] Some assms show ?thesis
    by (auto simp: provision_google_user_def Let_def set_user_def set_update_where image_iff split: option.splits if_splits)
next
  case sub: None
  show ?thesis
  proof (cases "find (\<lambda>u. u_email u = gi_email identity) (users d)")
    case (Some u0)
    from find_Some_mem [OF Some] Some sub assms show ?thesis
      by (auto simp: provision_google_user_def Let_def set_user_def set_update_where image_iff split: if_splits)
  next
    case None
    with sub assms show ?thesis
      by (auto simp: provision_google_user_def Let_def uuid4_eq)
  qed
qed

text \<open>A digest no row had before belongs to the session that was added.\<close>

lemma one_more_sessionD:
  assumes "one_more_session A r user d d' issued" and "s \<in> set (sessions d')"
    and "sess_id_hash s \<notin> sess_id_hash ` set (sessions d)"
  shows "sess_user_id s = u_id user" "sess_revoked_at s = None"
    "\<forall>x \<in> set (sessions d'). x \<noteq> s \<longrightarrow> validated_token_hash (cookie r SESSION_COOKIE_NAME) = Some (sess_id_hash x) \<longrightarrow>
       sess_revoked_at x \<noteq> None"
proof -
  obtain ss z where z: "sessions d' = ss @ [z]" "sess_user_id z = u_id user" "sess_revoked_at z = None"
    and ss: "map sess_id_hash ss = map sess_id_hash (sessions d)"
    and dead: "\<forall>x \<in> set ss. validated_token_hash (cookie r SESSION_COOKIE_NAME) = Some (sess_id_hash x) \<longrightarrow> sess_revoked_at x \<noteq> None"
    using assms(1) by (auto simp: one_more_session_def)
  have "sess_id_hash ` set ss = sess_id_hash ` set (sessions d)" using ss by (metis set_map)
  then have "s \<notin> set ss" using assms(3) by blast
  then have s: "s = z" using assms(2) z(1) by simp
  show "sess_user_id s = u_id user" "sess_revoked_at s = None" using s z by simp_all
  show "\<forall>x \<in> set (sessions d'). x \<noteq> s \<longrightarrow> validated_token_hash (cookie r SESSION_COOKIE_NAME) = Some (sess_id_hash x) \<longrightarrow>
       sess_revoked_at x \<noteq> None"
    using s z(1) dead by auto
qed

section \<open>Properties\<close>

text \<open>
  C15. A local sign-in, end to end. A session a local login creates belongs to an active, unlocked super-admin
  whose address, password and, once enrolled, current code the request carries; every other session of
  the presented cookie is revoked.
\<close>

theorem local_login_sound:
  assumes "finish_local_login A r d = Inr (rs, d')" and "unique_on sess_id_hash (sessions d)"
    and "s \<in> set (sessions d')" and "sess_id_hash s \<notin> sess_id_hash ` set (sessions d)"
  shows "\<exists>name pw code u c. read_local_login_credentials A r = Some (name, pw, code) \<and>
    u \<in> set (users d) \<and> u_is_active u \<and> u_role u = UserRole.SUPER_ADMIN \<and>
    normalise_login_email (ap_unidata A) name = Some (u_email u) \<and>
    c \<in> set (admin_credentials d) \<and> cred_user_id c = u_id u \<and> \<not> locked (clock d) c \<and>
    argon2_verify (ap_argon2 A) (cred_password_hash c) pw \<and>
    (cred_totp_enabled_at c = None \<or> (\<exists>enc code' secret. cred_totp_secret_enc c = Some enc \<and>
       code = Some code' \<and> decrypt_totp_secret A (u_id u) enc = Inr secret \<and> verify_totp secret code' (clock d))) \<and>
    sess_user_id s = u_id u \<and> sess_revoked_at s = None \<and>
    (\<forall>x \<in> set (sessions d'). x \<noteq> s \<longrightarrow> validated_token_hash (cookie r SESSION_COOKIE_NAME) = Some (sess_id_hash x) \<longrightarrow>
       sess_revoked_at x \<noteq> None)"
proof -
  have failed: False if "local_failed A r e = Inr (rs, d')" "sessions e = sessions d" for e
  proof -
    have "sessions d' = sessions d"
      using that by (auto simp: local_failed_def bind_res_Inr_iff audit_event_frame(4))
    with assms(3,4) show False by simp
  qed
  obtain name pw code ip where cred: "read_local_login_credentials A r = Some (name, pw, code)" "rq_client r = Some ip"
    using assms(1) failed [of d] by (auto simp: finish_local_login_def split: option.splits)
  then obtain x d1 where auth: "authenticate A name pw code ip None d = Inr (x, d1)"
    and run: "(case x of
            None \<Rightarrow> local_failed A r d1
          | Some user \<Rightarrow>
              bind_res (sign_in_as A ''auth.local_succeeded'' user r d1) (\<lambda>(issued, d).
              bind_res (signed_in_response A issued d) (\<lambda>(rs, d).
              Inr (with_header no_store rs, d)))) = Inr (rs, d')"
    using assms(1) by (auto simp: finish_local_login_def bind_res_Inr_iff)
  have same: "sessions d1 = sessions d" using authenticate_frame [OF auth] .
  obtain user where user: "x = Some user" using run failed [OF _ same] by (cases x) auto
  obtain issued d2 rs' where sign: "sign_in_as A ''auth.local_succeeded'' user r d1 = Inr (issued, d2)"
    and "signed_in_response A issued d2 = Inr (rs', d')"
    using run unfolding user by (auto simp: bind_res_Inr_iff)
  then have d': "sessions d' = sessions d2" using signed_in_response_frame by fastforce
  have "unique_on sess_id_hash (sessions d1)" using assms(2) by (simp add: same)
  note one = sign_in_as_Inr(1) [OF sign this]
  have "s \<in> set (sessions d2)" "sess_id_hash s \<notin> sess_id_hash ` set (sessions d1)" using assms(3,4) d' same by simp_all
  note new = one_more_sessionD [OF one this]
  have "utc_now (clock d) None = Inr (clock d)" by (simp add: utc_now_def)
  from authenticate_sound [OF auth [unfolded user] this] obtain u c where
    "u \<in> set (users d)" "u_is_active u" "u_role u = UserRole.SUPER_ADMIN"
    "normalise_login_email (ap_unidata A) name = Some (u_email u)"
    "c \<in> set (admin_credentials d)" "cred_user_id c = u_id u" "\<not> locked (clock d) c"
    "argon2_verify (ap_argon2 A) (cred_password_hash c) pw"
    "cred_totp_enabled_at c = None \<or> (\<exists>enc code' secret. cred_totp_secret_enc c = Some enc \<and>
       code = Some code' \<and> decrypt_totp_secret A (u_id u) enc = Inr secret \<and> verify_totp secret code' (clock d))"
    "user = u\<lparr>u_last_login_at := Some (clock d)\<rparr>"
    by blast
  with cred(1) new d' show ?thesis
    by (intro exI [of _ name] exI [of _ pw] exI [of _ code] exI [of _ u] exI [of _ c]) simp
qed



text \<open>
  A second factor is enabled only after its owner has shown a current code of the stored seed, and only for
  the own credential.
\<close>

theorem mfa_enable_sound:
  assumes "enable_mfa A r d = Inr (rs, d')"
  shows "admin_credentials d' = admin_credentials d \<or>
    (\<exists>u c enc secret code e. u \<in> set (users d) \<and> u_is_active u \<and> credential_of (u_id u) d = Some c \<and>
       cred_totp_secret_enc c = Some enc \<and> decrypt_totp_secret A (u_id u) enc = Inr secret \<and>
       read_mfa_code A r = Some code \<and> verify_totp secret code (clock d) \<and>
       admin_credentials d' = update_where (\<lambda>c. cred_user_id c = u_id u)
         (\<lambda>c. c\<lparr>cred_totp_enabled_at := Some (clock d)\<rparr>) (admin_credentials d) \<and>
       audit_log d' = audit_log d @ [e] \<and> al_action e = ''auth.mfa_enabled'' \<and> al_actor_id e = Some (u_id u))"
proof -
  obtain u d1 where u: "get_current_user A r d = Inr (u, d1)"
    and run: "(let not_ready = Inr (detail 400 (uni ''MFA setup is not ready.''), d1) in
     case (read_mfa_code A r, Option.bind (credential_of (u_id u) d1) cred_totp_secret_enc) of
       (Some code, Some enc) \<Rightarrow>
         (case decrypt_totp_secret A (u_id u) enc of
            Inl e \<Rightarrow> if e = LocalAuthenticationError then not_ready else Inl e
          | Inr secret \<Rightarrow>
              if \<not> verify_totp secret code (clock d1)
              then Inr (detail 422 (uni ''The authenticator code was not accepted.''), d1)
              else
                bind_res (audit_event A r ''auth.mfa_enabled'' (Some (u_id u)) (Some ''user'') (Some (uuid_str (u_id u))) []
                  (set_credential (u_id u) (\<lambda>c. c\<lparr>cred_totp_enabled_at := Some (clock d1)\<rparr>) d1)) (\<lambda>d.
                Inr (respond 200 (Json (JObj [(uni ''enabled'', JBool True)])), d)))
     | _ \<Rightarrow> not_ready) = Inr (rs, d')"
    using assms unfolding enable_mfa_def by (rule guarded_Inr)
  obtain ss where d1: "d1 = d\<lparr>sessions := ss\<rparr>" using get_current_user_frame [OF u] by blast
  have user: "u \<in> set (users d)" "u_is_active u" using get_current_user_row [OF u] find_Some_mem by fastforce+
  show ?thesis
  proof (cases "d' = d1")
    case True
    then show ?thesis by (simp add: d1)
  next
    case False
    from run False obtain code enc secret where code: "read_mfa_code A r = Some code"
      and enc: "Option.bind (credential_of (u_id u) d1) cred_totp_secret_enc = Some enc"
      and secret: "decrypt_totp_secret A (u_id u) enc = Inr secret" "verify_totp secret code (clock d1)"
      and log: "audit_event A r ''auth.mfa_enabled'' (Some (u_id u)) (Some ''user'') (Some (uuid_str (u_id u))) []
                  (set_credential (u_id u) (\<lambda>c. c\<lparr>cred_totp_enabled_at := Some (clock d1)\<rparr>) d1) = Inr d'"
      unfolding Let_def by (auto simp: bind_res_Inr_iff split: option.splits if_splits sum.splits)
    from enc obtain c where c: "credential_of (u_id u) d = Some c" "cred_totp_secret_enc c = Some enc"
      by (auto simp: d1 credential_of_def bind_eq_Some_conv)
    have rows: "admin_credentials d' = update_where (\<lambda>c. cred_user_id c = u_id u)
         (\<lambda>c. c\<lparr>cred_totp_enabled_at := Some (clock d)\<rparr>) (admin_credentials d)"
      using audit_event_frame(2) [OF log] d1 by (simp add: set_credential_def)
    obtain e where "audit_log d' = audit_log d @ [e]" "al_action e = ''auth.mfa_enabled''" "al_actor_id e = Some (u_id u)"
      using audit_event_frame(21) [OF log] d1 by (auto simp: set_credential_def)
    moreover have "verify_totp secret code (clock d)" using secret(2) by (simp add: d1)
    ultimately show ?thesis using user code c secret(1) rows by blast
  qed
qed

text \<open>After a logout the presented token is not accepted again, at any time.\<close>

theorem logout_ends_session:
  assumes "logout A r d = Inr (rs, d')" and "unique_on sess_id_hash (sessions d)" and "utc_now (clock d') now = Inr t"
  shows "verify_session (ap_settings A) (cookie r SESSION_COOKIE_NAME) now d' = Inr (None, d')"
proof -
  obtain u d1 where u: "get_current_user A r d = Inr (u, d1)"
    and run: "bind_res (revoke_session (cookie r SESSION_COOKIE_NAME) None d1) (\<lambda>(_, d).
     bind_res (audit_event A r ''auth.logout'' (Some (u_id u)) (Some ''user'') (Some (uuid_str (u_id u))) [] d) (\<lambda>d.
     Inr (with_header no_store (with_cookie clear_session_cookie (respond 204 NoBody)), d))) = Inr (rs, d')"
    using assms(1) unfolding logout_def by (rule guarded_Inr)
  obtain b d2 where rev: "revoke_session (cookie r SESSION_COOKIE_NAME) None d1 = Inr (b, d2)"
    and same: "sessions d' = sessions d2"
    using run by (auto simp: bind_res_Inr_iff audit_event_frame(4))
  have "unique_on sess_id_hash (sessions d1)"
    using u assms(2) by (auto elim!: get_current_user_Inr simp: verify_session_def bind_res_Inr_iff unique_on_update_where
        split: option.splits if_splits)
  from revoke_session_Inr [OF rev this] have dead: "\<forall>s \<in> set (sessions d').
      validated_token_hash (cookie r SESSION_COOKIE_NAME) = Some (sess_id_hash s) \<longrightarrow> sess_revoked_at s \<noteq> None"
    unfolding same by auto
  show ?thesis
  proof (cases "validated_token_hash (cookie r SESSION_COOKIE_NAME)")
    case (Some h)
    then show ?thesis
      using dead assms(3) find_Some_mem
      by (auto simp: verify_session_def session_usable_def split: option.splits) fastforce+
  qed (simp add: verify_session_def)
qed

section \<open>Sample requests\<close>

text \<open>An application that decodes every body to one object, and a request without cookies.\<close>

definition decoding_app :: "(ustr \<times> json) list \<Rightarrow> app" where
  "decoding_app o' = the_app\<lparr>ap_json_loads := \<lambda>_. Some (JObj o')\<rparr>"

lemma decoding_app [simp]:
  "ap_settings (decoding_app o') = the_settings" "ap_unidata (decoding_app o') = ascii_unidata"
  "ap_gcm (decoding_app o') = suffix_gcm" "ap_argon2 (decoding_app o') = plain_argon2"
  "ap_ip (decoding_app o') h = (if h = [] then None else Some h)" "ap_json_loads (decoding_app o') b = Some (JObj o')"
  by (simp_all add: decoding_app_def the_app_def)

lemma decoding_user:
  "get_current_user (decoding_app o') r d = get_current_user the_app r d"
  by (simp add: get_current_user_def the_app_def)

definition bare_request :: http_request where
  "bare_request = (post_request [])\<lparr>rq_client := Some (uni ''10.0.0.1'')\<rparr>"

lemma csrf_key_works: "\<exists>k. csrf_key the_settings = Inr k"
  using session_key_the_settings by (simp add: csrf_key_def derived_key_def)

lemma audit_works: "\<exists>d'. audit_event (decoding_app o') r act actor tt ti meta d = Inr d'"
  using audit_event_works [of "decoding_app o'"] session_key_the_settings by simp

definition fresh_request :: "http_request \<Rightarrow> bool" where
  "fresh_request r \<longleftrightarrow> cookie r SESSION_COOKIE_NAME = None \<and> rq_client r = Some (uni ''10.0.0.1'') \<and>
     header r ''user-agent'' = None"

lemma fresh_bare: "fresh_request bare_request"
  by (simp add: fresh_request_def bare_request_def post_request_def cookie_def header_def)

lemma sign_in_as_works:
  assumes "sessions d = []" and "fresh_request r"
  shows "\<exists>issued d'. sign_in_as (decoding_app o') act user r d = Inr (issued, d') \<and> sessions d' \<noteq> []"
proof -
  have rev: "revoke_session None None d = Inr (False, d)"
    by (simp add: revoke_session_def validated_token_hash_def)
  have utf8: "encode_utf8 (uni ''10.0.0.1'') = Inr (octets ''10.0.0.1'')"
    by (simp add: encode_utf8_ascii uni_def octets_def)
  have "\<exists>issued d1. issue_session (ap_ip (decoding_app o')) the_settings (u_id user) (uni ''10.0.0.1'') None None d = Inr (issued, d1)"
    using assms session_key_the_settings utf8
    by (auto simp: issue_session_def utc_now_def token_urlsafe_eq metadata_hash_def Let_def uni_def)
  then obtain issued d1 where issue: "issue_session (ap_ip (decoding_app o')) the_settings (u_id user) (uni ''10.0.0.1'') None None d = Inr (issued, d1)"
    by blast
  obtain d2 where "audit_event (decoding_app o') r act (Some (u_id user)) (Some ''user'') (Some (uuid_str (u_id user))) []
      (set_user (u_id user) (\<lambda>u. u\<lparr>u_last_login_at := Some (clock d1)\<rparr>) d1) = Inr d2"
    using audit_works by blast
  then have run: "sign_in_as (decoding_app o') act user r d = Inr (issued, d2)"
    using issue assms(2) by (simp add: sign_in_as_def rev fresh_request_def del: decoding_app(5))
  have "unique_on sess_id_hash (sessions d)" using assms(1) by (simp add: unique_on_def)
  from sign_in_as_Inr(1) [OF run this] run show ?thesis by (auto simp: one_more_session_def)
qed

lemma signed_in_response_works: "\<exists>rs d'. signed_in_response (decoding_app o') issued d = Inr (rs, d')"
  using csrf_key_works by (auto simp: signed_in_response_def csrf_issue_def token_urlsafe_eq Let_def)

definition login_fields :: "(ustr \<times> json) list" where
  "login_fields = [(uni ''username'', JStr (uni ''A@example.org'')), (uni ''password'', JStr pw15)]"

theorem local_login_sound_witness:
  "\<exists>rs d' s. finish_local_login (decoding_app login_fields) bare_request (admin_db 0 None) = Inr (rs, d') \<and>
     s \<in> set (sessions d') \<and> sess_user_id s = 1"
proof -
  let ?A = "decoding_app login_fields"
  have cred: "read_local_login_credentials ?A bare_request = Some (uni ''A@example.org'', pw15, None)"
    by (simp add: read_local_login_credentials_def bare_request_def post_request_def header_def MAX_LOCAL_LOGIN_BODY_BYTES_def
        credentials_of_def login_fields_def LOGIN_FIELDS_def jget_def utf8_length_def pw15_def uni_def encode_utf8_ascii)
  have "isascii (uni ''10.0.0.1'')" by code_simp
  then have "\<exists>u d1. authenticate ?A (uni ''A@example.org'') pw15 None (uni ''10.0.0.1'') None (admin_db 0 None) = Inr (Some u, d1)"
    using session_key_the_settings example_email
    by (simp add: authenticate_def login_ip_hash_def derived_key_def load_ip_limit_def uni_def
        insert_if_absent_def set_ip_limit_def admin_db_def sample_defs reset_ip_limit_def update_where_def
        check_account_def locked_def unlock_def set_credential_def plain_argon2_def totp_passes_def Let_def)
  then obtain u d1 where auth: "authenticate ?A (uni ''A@example.org'') pw15 None (uni ''10.0.0.1'') None (admin_db 0 None) = Inr (Some u, d1)"
    by blast
  have none: "sessions d1 = []" using authenticate_frame [OF auth] by (simp add: admin_db_def sample_defs)
  obtain issued d2 where sign: "sign_in_as ?A ''auth.local_succeeded'' u bare_request d1 = Inr (issued, d2)" "sessions d2 \<noteq> []"
    using sign_in_as_works [OF none fresh_bare] by blast
  obtain rs d' where resp: "signed_in_response ?A issued d2 = Inr (rs, d')" using signed_in_response_works by blast
  have run: "finish_local_login ?A bare_request (admin_db 0 None) = Inr (with_header no_store rs, d')"
    using cred auth sign(1) resp by (simp add: finish_local_login_def) (simp add: bare_request_def)
  have "sessions d' = sessions d2" using signed_in_response_frame [OF resp] by auto
  with sign(2) obtain s where s: "s \<in> set (sessions d')" by (metis last_in_set)
  have "unique_on sess_id_hash (sessions (admin_db 0 None))" "sess_id_hash s \<notin> sess_id_hash ` set (sessions (admin_db 0 None))"
    by (simp_all add: admin_db_def sample_defs unique_on_def)
  from local_login_sound [OF run this(1) s this(2)] have "sess_user_id s = 1"
    by (auto simp: admin_db_def sample_defs)
  with run s show ?thesis by blast
qed

text \<open>A provider that vouches for that super-admin.\<close>

definition sample_transaction :: OAuthTransaction where
  "sample_transaction = fst (begin_transaction (seconds 1000000) db0)"

definition sample_oidc :: GoogleOIDC where
  "sample_oidc =
     \<lparr>go_client_id = uni ''client'', go_client_secret = [], go_redirect_uri = [], go_allowed_domains = {uni ''example.org''},
      go_transaction_key = [],
      go_metadata_cache = Some (\<lparr>pm_issuer = [], pm_authorization_endpoint = [], pm_token_endpoint = [], pm_jwks_uri = []\<rparr>, 1),
      go_jwks_cache = Some ([(uni ''k'', [])], 1), go_sent = []\<rparr>"

definition sample_net :: oidc_net where
  "sample_net =
     \<lparr>on_answer = \<lambda>_. Inr \<lparr>or_status = 200, or_cache_control = None, or_json = Inr (JObj [(uni ''id_token'', JStr (uni ''x''))])\<rparr>,
      on_now = \<lambda>_. 0, on_header = \<lambda>_. Inr [(uni ''kid'', JStr (uni ''k'')), (uni ''alg'', JStr (uni ''RS256''))],
      on_decode = \<lambda>_ _ _. Inr [(uni ''nonce'', JStr (ot_nonce sample_transaction)), (uni ''sub'', JStr (uni ''77'')),
        (uni ''email'', JStr (uni ''a@example.org'')), (uni ''email_verified'', JBool True), (uni ''hd'', JStr (uni ''example.org''))]\<rparr>"

definition callback_request :: http_request where
  "callback_request = bare_request\<lparr>
     rq_cookies := [(OAUTH_TRANSACTION_COOKIE_NAME, serialize [] sample_transaction)],
     rq_query := [(''code'', uni ''c''), (''state'', ot_state sample_transaction)]\<rparr>"

lemma sample_transaction_read:
  "deserialize (decoding_app (transaction_fields sample_transaction)) [] (seconds 1000000)
     (Some (serialize [] sample_transaction)) = Some sample_transaction" and
  sample_state: "isascii (ot_state sample_transaction)" and
  sample_nonce: "isascii (ot_nonce sample_transaction)"
proof -
  have begun: "begin_transaction (seconds 1000000) db0 = (sample_transaction, snd (begin_transaction (seconds 1000000) db0))"
    by (simp add: sample_transaction_def)
  note b = begun_transaction [OF begun]
  show "deserialize (decoding_app (transaction_fields sample_transaction)) [] (seconds 1000000)
     (Some (serialize [] sample_transaction)) = Some sample_transaction"
    by (rule deserialize_serialize [OF b(1-5)])
      (use b(6) in \<open>simp_all add: seconds_def unix_seconds_def OAUTH_TRANSACTION_TTL_def\<close>)
  show "isascii (ot_state sample_transaction)" "isascii (ot_nonce sample_transaction)"
    using b(1,2) by (auto simp: seconds_def is_urlsafe_token_def isascii_def list_all_iff is_urlsafe_def ascii_defs)
qed

definition sample_identity :: GoogleIdentity where
  "sample_identity = \<lparr>gi_subject = uni ''77'', gi_email = uni ''a@example.org'', gi_display_name = uni ''a'', gi_hosted_domain = uni ''example.org''\<rparr>"

definition sample_claims :: "(ustr \<times> json) list" where
  "sample_claims = [(uni ''nonce'', JStr (ot_nonce sample_transaction)), (uni ''sub'', JStr (uni ''77'')),
     (uni ''email'', JStr (uni ''a@example.org'')), (uni ''email_verified'', JBool True), (uni ''hd'', JStr (uni ''example.org''))]"

lemma sample_identity:
  "identity_from_claims ascii_unidata {uni ''example.org''} sample_claims = Inr sample_identity"
proof -
  have texts: "valid_email ascii_unidata (uni ''a@example.org'')" "claimed_domain ascii_unidata (uni ''example.org'') = uni ''example.org''"
    "casefold ascii_unidata (uni ''a@example.org'') = uni ''a@example.org''" "claimed_name ascii_unidata (uni ''a@example.org'') JNull = uni ''a''"
    by code_simp+
  have claims: "jget sample_claims (uni ''sub'') = JStr (uni ''77'')" "jget sample_claims (uni ''email'') = JStr (uni ''a@example.org'')"
    "jget sample_claims (uni ''hd'') = JStr (uni ''example.org'')" "jget sample_claims (uni ''email_verified'') = JBool True"
    "jget sample_claims (uni ''name'') = JNull"
    by (simp_all add: sample_claims_def jget_def uni_def)
  have sizes: "uni ''77'' \<noteq> []" "length (uni ''77'') \<le> 255" "length (uni ''a'') \<le> 255" by (simp_all add: uni_def)
  show ?thesis
    using sizes unfolding identity_from_claims_def claims by (simp add: texts sample_identity_def Let_def)
qed

lemma sample_exchange:
  "\<exists>g. exchange_and_verify (decoding_app o') sample_net (uni ''c'') sample_transaction sample_oidc = (Inr sample_identity, g)"
proof -
  have "check_claims (uni ''client'') (ot_nonce sample_transaction) sample_claims = Inr sample_claims"
    using sample_nonce by (simp add: check_claims_def sample_claims_def jget_def compare_digest_def uni_def)
  then show ?thesis
    using sample_identity
    by (simp add: exchange_and_verify_def then_call_def pure_call_def provider_metadata_def sample_oidc_def oidc_now_def
        sample_net_def token_exchange_def oidc_send_def json_payload_def jget_def ID_TOKEN_MAX_LENGTH_def verify_id_token_def
        find_jwk_def provider_jwks_def sample_claims_def uni_def)
qed


text \<open>An owner who replaces the password of 15 octets, one who enrols a seed, and a user who leaves.\<close>

definition owner_db :: "bytes option \<Rightarrow> db" where
  "owner_db enc = signed UserRole.SUPER_ADMIN (db0\<lparr>admin_credentials :=
     [\<lparr>cred_user_id = 1, cred_password_hash = replicate 16 0 @ pw15, cred_totp_secret_enc = enc,
       cred_totp_enabled_at = None, cred_failed_attempts = 0, cred_locked_until = None\<rparr>]\<rparr>)"

lemma owner_signed:
  obtains ss where "get_current_user (decoding_app o') first_request (owner_db enc) =
    Inr (a_user 1 UserRole.SUPER_ADMIN, (owner_db enc)\<lparr>sessions := ss\<rparr>)"
  unfolding owner_db_def decoding_user by (rule signed_user)

lemma owner_role: "u_role (a_user 1 UserRole.SUPER_ADMIN) \<in> set ALL_ROLES" "u_id (a_user 1 UserRole.SUPER_ADMIN) = 1"
  by (simp_all add: ALL_ROLES_def a_user_def)

theorem logout_ends_session_witness:
  "\<exists>rs d'. logout (decoding_app []) first_request (owner_db None) = Inr (rs, d') \<and>
     verify_session the_settings (cookie first_request SESSION_COOKIE_NAME) None d' = Inr (None, d')"
proof -
  obtain ss where u: "get_current_user (decoding_app []) first_request (owner_db None) =
      Inr (a_user 1 UserRole.SUPER_ADMIN, (owner_db None)\<lparr>sessions := ss\<rparr>)"
    by (rule owner_signed)
  let ?d = "(owner_db None)\<lparr>sessions := ss\<rparr>"
  have "\<exists>b d2. revoke_session (cookie first_request SESSION_COOKIE_NAME) None ?d = Inr (b, d2)"
    by (auto simp: revoke_session_def utc_now_def split: option.splits)
  then obtain b d2 where rev: "revoke_session (cookie first_request SESSION_COOKIE_NAME) None ?d = Inr (b, d2)" by blast
  obtain d' where "audit_event (decoding_app []) first_request ''auth.logout'' (Some 1) (Some ''user'') (Some (uuid_str 1)) [] d2 = Inr d'"
    using audit_works by blast
  then have "\<exists>rs. logout (decoding_app []) first_request (owner_db None) = Inr (rs, d')"
    unfolding logout_def by (subst guarded_eq [OF u owner_role(1)]) (simp add: rev owner_role(2))
  then obtain rs where run: "logout (decoding_app []) first_request (owner_db None) = Inr (rs, d')" by blast
  have "unique_on sess_id_hash (sessions (owner_db None))"
    using first_session(2) by (simp add: owner_db_def signed_def sessions_inv_def)
  moreover have "utc_now (clock d') None = Inr (clock d')" by (simp add: utc_now_def)
  ultimately have "verify_session (ap_settings (decoding_app [])) (cookie first_request SESSION_COOKIE_NAME) None d' = Inr (None, d')"
    by (rule logout_ends_session [OF run])
  with run show ?thesis by auto
qed

definition new_password :: ustr where
  "new_password = uni ''battery staple 7''"

definition change_fields :: "(ustr \<times> json) list" where
  "change_fields = [(uni ''current_password'', JStr pw15), (uni ''new_password'', JStr new_password), (uni ''confirmation'', JStr new_password)]"


lemma totp_code_padded:
  assumes "totp_key secret = Inr key" and "0 \<le> totp_counter u"
  shows "\<exists>n. totp_code secret u = Inr (padded 6 n)"
  using assms(2) unfolding totp_code_def assms(1) TOTP_DIGITS_def by (auto simp: Let_def simp del: padded.simps)

lemma padded_ascii_digits: "list_all is_digit_ascii (padded n v)"
  by (induction n arbitrary: v) (auto simp: is_digit_ascii_def)

lemma own_code_verifies:
  assumes key: "totp_key secret = Inr key" and u: "u = seconds 1000000" and code: "totp_code secret u = Inr code"
  shows "verify_totp secret code u"
proof -
  have nn: "0 \<le> totp_counter u" "0 \<le> totp_counter (u + seconds (- 30))" "0 \<le> totp_counter (u + seconds 30)"
    by (simp_all add: u totp_counter_def TOTP_PERIOD_SECONDS_def seconds_def)
  from code totp_code_padded [OF key nn(1)] obtain n where n: "code = padded 6 n" by auto
  obtain a b where ab: "totp_code secret (u + seconds (- 30)) = Inr a" "totp_code secret (u + seconds 30) = Inr b"
    using totp_code_padded [OF key nn(2)] totp_code_padded [OF key nn(3)] by blast
  have "u + seconds 0 = u" by (simp add: seconds_def)
  with ab code show ?thesis
    unfolding verify_totp_def
    by (simp add: n TOTP_DIGITS_def TOTP_PERIOD_SECONDS_def padded_ascii_digits del: padded.simps)
qed

theorem mfa_enable_sound_witness:
  "\<exists>enc code rs d'. enable_mfa (decoding_app [(uni ''totp_code'', JStr code)]) first_request (owner_db (Some enc)) = Inr (rs, d') \<and>
     (\<forall>c \<in> set (admin_credentials d'). cred_totp_enabled_at c = Some (seconds 1000000))"
proof -
  obtain secret d1 where g: "generate_totp_secret db0 = (secret, d1)" by fastforce
  have app: "gcm_ok (ap_gcm the_app)" "data_key (ap_settings the_app) = Inr (replicate 32 1)" "gcm_expands (ap_gcm the_app)"
    by (simp_all add: the_app_def suffix_gcm_ok data_key_the_settings suffix_gcm_expands)
  obtain enc where enc: "decrypt_totp_secret the_app 1 enc = Inr secret" "\<exists>key. totp_key secret = Inr key"
    using totp_secret_roundtrip [OF app(1,2) _ g app(3), of 1] by auto
  then obtain key where key: "totp_key secret = Inr key" by blast
  have nn: "0 \<le> totp_counter (seconds 1000000)" by (simp add: totp_counter_def TOTP_PERIOD_SECONDS_def seconds_def)
  obtain n where n: "totp_code secret (seconds 1000000) = Inr (padded 6 n)"
    using totp_code_padded [OF key nn] by blast
  let ?c = "padded 6 n"
  let ?A = "decoding_app [(uni ''totp_code'', JStr ?c)]" and ?start = "owner_db (Some enc)"
  obtain ss where u: "get_current_user ?A first_request ?start = Inr (a_user 1 UserRole.SUPER_ADMIN, ?start\<lparr>sessions := ss\<rparr>)"
    by (rule owner_signed)
  let ?d = "?start\<lparr>sessions := ss\<rparr>"
  have clock: "clock ?d = seconds 1000000" "clock ?start = seconds 1000000" by (simp_all add: owner_db_def signed_def)
  have ok: "verify_totp secret ?c (seconds 1000000)"
    by (rule own_code_verifies [OF key refl n])
  have read: "read_mfa_code ?A first_request = Some ?c"
    by (simp add: read_mfa_code_def jget_def del: padded.simps)
  have cred: "Option.bind (credential_of 1 ?d) cred_totp_secret_enc = Some enc"
    by (simp add: credential_of_def owner_db_def signed_def)
  have dec: "decrypt_totp_secret ?A 1 enc = Inr secret"
  proof -
    have "ap_settings the_app = the_settings" "ap_gcm the_app = suffix_gcm" by (simp_all add: the_app_def)
    then show ?thesis using enc(1) by (simp only: decrypt_totp_secret_def decoding_app)
  qed
  obtain d' where log: "audit_event ?A first_request ''auth.mfa_enabled'' (Some 1) (Some ''user'') (Some (uuid_str 1)) []
      (set_credential 1 (\<lambda>c. c\<lparr>cred_totp_enabled_at := Some (clock ?d)\<rparr>) ?d) = Inr d'"
    using audit_works by blast
  then have "\<exists>rs. enable_mfa ?A first_request ?start = Inr (rs, d')"
    unfolding enable_mfa_def
    by (subst guarded_eq [OF u owner_role(1)]) (use read cred dec ok clock in \<open>simp add: owner_role(2) Let_def del: padded.simps\<close>)
  then obtain rs where run: "enable_mfa ?A first_request ?start = Inr (rs, d')" by blast
  have "admin_credentials d' \<noteq> admin_credentials ?start"
    using audit_event_frame(2) [OF log] by (auto simp: set_credential_def owner_db_def signed_def update_where_Cons)
  with mfa_enable_sound [OF run] obtain user :: User and c :: AdminCredential where "credential_of (u_id user) ?start = Some c"
    "admin_credentials d' = update_where (\<lambda>c. cred_user_id c = u_id user)
         (\<lambda>c. c\<lparr>cred_totp_enabled_at := Some (clock ?start)\<rparr>) (admin_credentials ?start)"
    by blast
  then have "\<forall>c \<in> set (admin_credentials d'). cred_totp_enabled_at c = Some (seconds 1000000)"
    by (simp add: clock) (simp add: credential_of_def owner_db_def signed_def update_where_Cons split: if_splits)
  with run show ?thesis by blast
qed

end
