(* ===== verification/Application.thy ===== *)
theory Application
  imports Campaigns AdminSettings AuthRoutes
begin

text \<open>
  The web application as \<open>src/app/main.py\<close> puts it together: the routes of every router with their paths
  and methods, and the stack of middleware around them. Of the framework it states what its documentation
  says: the first route whose path and method match answers; a path without the method is 405, any other
  404; a path parameter that does not parse is 422, after the guards; an exception that is no
  \<open>HTTPException\<close> leaves the stack of middleware and is answered outside of it. The redirect between a
  path and the one with a trailing slash is left out: such a path is 404 here.
\<close>

section \<open>The process\<close>

text \<open>
  What the routes take from outside: the application object, the coercions of pydantic, JSON decoding of
  texts, the two networks, the cron library, the case mapping of \<open>ILIKE\<close>, the drawing of a QR code, the
  query parameters of the audit page (\<open>None\<close> when they do not validate), the answer of
  \<open>TrustedHostMiddleware\<close> to a host it refuses, and the static files.
\<close>

record env =
  en_app :: app
  en_coercions :: coercions
  en_loads :: "ustr \<Rightarrow> json option"
  en_workspace :: workspace_net
  en_oidc :: oidc_net
  en_cron :: cron
  en_like :: "ustr \<Rightarrow> ustr"
  en_qr :: "ustr \<Rightarrow> ustr"
  en_audit_query :: "http_request \<Rightarrow> audit_query option"
  en_refused_host :: "ustr list \<Rightarrow> http_request \<Rightarrow> http_response option"
  en_static :: "ustr list \<Rightarrow> http_response"

text \<open>What \<open>app.state\<close> keeps between requests, and the background tasks started so far.\<close>

record process =
  pr_google :: "GoogleOIDC option"
  pr_client :: client_cache
  pr_tasks :: "scan_task list"

definition fresh_process :: process where
  "fresh_process = \<lparr>pr_google = None, pr_client = \<lparr>cc_client = None, cc_digest = None\<rparr>, pr_tasks = []\<rparr>"

section \<open>Endpoints\<close>

datatype auth_endpoint =
    LandingPage | BrandingLogo | IssueCsrfToken | StartGoogleLogin | FinishGoogleLogin | FinishLocalLogin
  | MfaSetupPage | EnableMfa | ProfilePage | ChangePassword | Logout

datatype admin_endpoint =
    SettingsPage | UpdateSettings | CreateUser | UpdateUser uuid | UpdateBranding
  | RevokeUserSessions uuid | SyncWorkspace | QueueTestAlert AlertSinkName | AuditPage

datatype analyst_endpoint =
    AnalystDashboard | RunAnalystScan SubjectKind | ScanProgress uuid | ScanProgressStatus uuid
  | SubjectHistory uuid | RevealFindingPassword uuid | MarkRemediated uuid | MarkUnremediated uuid
  | ExportSubjectCsv uuid | Remediate uuid | Unremediate uuid

datatype operations_endpoint =
    ListBatches | AddBatch | BatchProgress uuid | BatchStatusFragment uuid | ListSchedules
  | PreviewSchedule | CreateSchedule | ToggleSchedule uuid | RemoveSchedule uuid | ListNotifications
  | PreviewNotifications | ConfirmNotifications | ListWatchlist | AddWatchlistEntry
  | RemoveWatchlistEntry uuid | ToggleWatchlistChannel uuid string

datatype portal_endpoint =
    UserDashboard | SelfCheck | SelfScanProgress uuid | SelfScanStatus uuid | SelfRemediate uuid

datatype endpoint =
    OnAuth auth_endpoint | OnAdmin admin_endpoint | OnAnalyst analyst_endpoint
  | OnOperations operations_endpoint | OnPortal portal_endpoint | Healthz | StaticFile "ustr list"

text \<open>The roles each route asks for; \<open>None\<close> is a route without a guard.\<close>

primrec auth_roles :: "auth_endpoint \<Rightarrow> UserRole list option" where
  "auth_roles LandingPage = None"
| "auth_roles BrandingLogo = None"
| "auth_roles IssueCsrfToken = None"
| "auth_roles StartGoogleLogin = None"
| "auth_roles FinishGoogleLogin = None"
| "auth_roles FinishLocalLogin = None"
| "auth_roles MfaSetupPage = Some ALL_ROLES"
| "auth_roles EnableMfa = Some ALL_ROLES"
| "auth_roles ProfilePage = Some ALL_ROLES"
| "auth_roles ChangePassword = Some ALL_ROLES"
| "auth_roles Logout = Some ALL_ROLES"

primrec allowed_roles :: "endpoint \<Rightarrow> UserRole list option" where
  "allowed_roles (OnAuth e) = auth_roles e"
| "allowed_roles (OnAdmin e) = Some ADMIN_ROLES"
| "allowed_roles (OnAnalyst e) = Some ANALYST_ROLES"
| "allowed_roles (OnOperations e) = Some ANALYST_ROLES"
| "allowed_roles (OnPortal e) = Some PORTAL_ROLES"
| "allowed_roles Healthz = None"
| "allowed_roles (StaticFile path) = None"

definition healthz :: handler where
  "healthz r d = Inr (respond 200 (Json (JObj [(uni ''status'', JStr (uni ''ok''))])), d)"

definition audit_page_with :: "env \<Rightarrow> handler" where
  "audit_page_with V r =
     (case en_audit_query V r of
        Some q \<Rightarrow> audit_page (en_like V) (en_app V) q r
      | None \<Rightarrow> guarded ADMIN_ROLES (en_app V) (\<lambda>u r d. Inl (HTTPException 422)) r)"

text \<open>Three ways to answer: leaving the process alone, with the Google client, with a scan that may start.\<close>

type_synonym served = "(http_response \<times> db) res \<times> process"

definition plain :: "handler \<Rightarrow> process \<Rightarrow> http_request \<Rightarrow> db \<Rightarrow> served" where
  "plain h p r d = (h r d, p)"

definition through_google :: "(http_response \<times> db) cached \<Rightarrow> process \<Rightarrow> http_request \<Rightarrow> db \<Rightarrow> served" where
  "through_google h p r d = (case h (pr_google p) r d of (x, g) \<Rightarrow> (x, p\<lparr>pr_google := g\<rparr>))"

definition starting_scan ::
  "(client_cache \<Rightarrow> http_request \<Rightarrow> db \<Rightarrow> scan_outcome) \<Rightarrow> process \<Rightarrow> http_request \<Rightarrow> db \<Rightarrow> served" where
  "starting_scan h p r d =
     (case h (pr_client p) r d of
        (Inl e, c) \<Rightarrow> (Inl e, p\<lparr>pr_client := c\<rparr>)
      | (Inr ((rs, task), d), c) \<Rightarrow>
          (Inr (rs, d), p\<lparr>pr_client := c, pr_tasks := pr_tasks p @ (case task of None \<Rightarrow> [] | Some t \<Rightarrow> [t])\<rparr>))"

primrec serve_auth :: "auth_endpoint \<Rightarrow> env \<Rightarrow> rat \<Rightarrow> process \<Rightarrow> http_request \<Rightarrow> db \<Rightarrow> served" where
  "serve_auth LandingPage V t = plain (landing_page (en_app V))"
| "serve_auth BrandingLogo V t = plain branding_logo"
| "serve_auth IssueCsrfToken V t = plain (issue_csrf_token (en_app V))"
| "serve_auth StartGoogleLogin V t = through_google (start_google_login (en_loads V) (en_app V) (en_oidc V))"
| "serve_auth FinishGoogleLogin V t = through_google (finish_google_login (en_loads V) (en_app V) (en_oidc V))"
| "serve_auth FinishLocalLogin V t = plain (finish_local_login (en_app V))"
| "serve_auth MfaSetupPage V t = plain (mfa_setup_page (en_qr V) (en_app V))"
| "serve_auth EnableMfa V t = plain (enable_mfa (en_app V))"
| "serve_auth ProfilePage V t = plain (profile_page (en_app V))"
| "serve_auth ChangePassword V t = plain (change_password (en_app V))"
| "serve_auth Logout V t = plain (logout (en_app V))"

primrec serve_admin :: "admin_endpoint \<Rightarrow> env \<Rightarrow> rat \<Rightarrow> process \<Rightarrow> http_request \<Rightarrow> db \<Rightarrow> served" where
  "serve_admin SettingsPage V t = plain (settings_page (en_app V))"
| "serve_admin UpdateSettings V t = plain (update_settings (en_coercions V) (en_loads V) (en_app V))"
| "serve_admin CreateUser V t = plain (create_user (en_app V))"
| "serve_admin (UpdateUser i) V t = plain (update_user (en_coercions V) (en_app V) i)"
| "serve_admin UpdateBranding V t = plain (update_branding (en_coercions V) (en_app V))"
| "serve_admin (RevokeUserSessions i) V t = plain (revoke_user_sessions (en_app V) i)"
| "serve_admin SyncWorkspace V t = plain (sync_workspace (en_workspace V) (en_app V))"
| "serve_admin (QueueTestAlert sink) V t = plain (queue_test_alert (en_app V) sink)"
| "serve_admin AuditPage V t = plain (audit_page_with V)"

primrec serve_analyst :: "analyst_endpoint \<Rightarrow> env \<Rightarrow> rat \<Rightarrow> process \<Rightarrow> http_request \<Rightarrow> db \<Rightarrow> served" where
  "serve_analyst AnalystDashboard V t = plain (dashboard (en_app V))"
| "serve_analyst (RunAnalystScan kind) V t = starting_scan (\<lambda>c. run_analyst_scan (en_app V) t c kind)"
| "serve_analyst (ScanProgress i) V t = plain (scan_progress (en_app V) i)"
| "serve_analyst (ScanProgressStatus i) V t = plain (scan_progress_status (en_app V) i)"
| "serve_analyst (SubjectHistory i) V t = plain (subject_history (en_app V) i)"
| "serve_analyst (RevealFindingPassword i) V t = plain (reveal_finding_password (en_app V) i)"
| "serve_analyst (MarkRemediated i) V t = plain (mark_remediated (en_app V) i)"
| "serve_analyst (MarkUnremediated i) V t = plain (mark_unremediated (en_app V) i)"
| "serve_analyst (ExportSubjectCsv i) V t = plain (export_subject_csv (en_app V) i)"
| "serve_analyst (Remediate i) V t = plain (remediate (en_app V) i)"
| "serve_analyst (Unremediate i) V t = plain (unremediate (en_app V) i)"

primrec serve_operations :: "operations_endpoint \<Rightarrow> env \<Rightarrow> rat \<Rightarrow> process \<Rightarrow> http_request \<Rightarrow> db \<Rightarrow> served" where
  "serve_operations ListBatches V t = plain (list_batches (en_app V))"
| "serve_operations AddBatch V t = plain (add_batch (en_like V) (en_app V))"
| "serve_operations (BatchProgress i) V t = plain (batch_progress (en_app V) i)"
| "serve_operations (BatchStatusFragment i) V t = plain (batch_status_fragment (en_app V) i)"
| "serve_operations ListSchedules V t = plain (list_schedules (en_app V))"
| "serve_operations PreviewSchedule V t = plain (preview_schedule (en_cron V) (en_app V))"
| "serve_operations CreateSchedule V t = plain (create_schedule (en_cron V) (en_app V))"
| "serve_operations (ToggleSchedule i) V t = plain (toggle_schedule (en_cron V) (en_app V) i)"
| "serve_operations (RemoveSchedule i) V t = plain (remove_schedule (en_app V) i)"
| "serve_operations ListNotifications V t = plain (list_notifications (en_app V))"
| "serve_operations PreviewNotifications V t = plain (preview_notifications (en_like V) (en_app V))"
| "serve_operations ConfirmNotifications V t = plain (confirm_notifications (en_like V) (en_app V))"
| "serve_operations ListWatchlist V t = plain (list_watchlist (en_app V))"
| "serve_operations AddWatchlistEntry V t = plain (add_watchlist_entry (en_app V))"
| "serve_operations (RemoveWatchlistEntry i) V t = plain (remove_watchlist_entry (en_app V) i)"
| "serve_operations (ToggleWatchlistChannel i channel) V t = plain (toggle_watchlist_channel (en_app V) i channel)"

primrec serve_portal :: "portal_endpoint \<Rightarrow> env \<Rightarrow> rat \<Rightarrow> process \<Rightarrow> http_request \<Rightarrow> db \<Rightarrow> served" where
  "serve_portal UserDashboard V t = plain (user_dashboard (en_app V))"
| "serve_portal SelfCheck V t = starting_scan (self_check (en_app V) t)"
| "serve_portal (SelfScanProgress i) V t = plain (self_scan_progress (en_app V) i)"
| "serve_portal (SelfScanStatus i) V t = plain (self_scan_status (en_app V) i)"
| "serve_portal (SelfRemediate i) V t = plain (self_remediate (en_app V) i)"

primrec serve :: "endpoint \<Rightarrow> env \<Rightarrow> rat \<Rightarrow> process \<Rightarrow> http_request \<Rightarrow> db \<Rightarrow> served" where
  "serve (OnAuth e) = serve_auth e"
| "serve (OnAdmin e) = serve_admin e"
| "serve (OnAnalyst e) = serve_analyst e"
| "serve (OnOperations e) = serve_operations e"
| "serve (OnPortal e) = serve_portal e"
| "serve Healthz = (\<lambda>V t. plain healthz)"
| "serve (StaticFile path) = (\<lambda>V t. plain (\<lambda>r d. Inr (en_static V path, d)))"

section \<open>Routing\<close>

datatype piece = Lit string | Par

datatype target =
    Fixed endpoint
  | ById "uuid \<Rightarrow> endpoint"
  | ByKind "SubjectKind \<Rightarrow> endpoint"
  | BySink "AlertSinkName \<Rightarrow> endpoint"
  | ByIdAndText "uuid \<Rightarrow> ustr \<Rightarrow> endpoint"

text \<open>Only the names of channels matter: any other text is a channel that does not exist.\<close>

definition channel_of :: "ustr \<Rightarrow> string" where
  "channel_of s = (case find (\<lambda>c. uni c = s) (map fst CHANNELS) of Some c \<Rightarrow> c | None \<Rightarrow> [])"

text \<open>The routes in the order of registration.\<close>

definition routes :: "(string \<times> piece list \<times> target) list" where
  "routes = [
     (''GET'', [Lit ''''], Fixed (OnAuth LandingPage)),
     (''GET'', [Lit ''branding'', Lit ''logo''], Fixed (OnAuth BrandingLogo)),
     (''GET'', [Lit ''auth'', Lit ''csrf''], Fixed (OnAuth IssueCsrfToken)),
     (''GET'', [Lit ''auth'', Lit ''google'', Lit ''login''], Fixed (OnAuth StartGoogleLogin)),
     (''GET'', [Lit ''auth'', Lit ''google'', Lit ''callback''], Fixed (OnAuth FinishGoogleLogin)),
     (''POST'', [Lit ''auth'', Lit ''local'', Lit ''login''], Fixed (OnAuth FinishLocalLogin)),
     (''GET'', [Lit ''account'', Lit ''mfa''], Fixed (OnAuth MfaSetupPage)),
     (''POST'', [Lit ''account'', Lit ''mfa'', Lit ''enable''], Fixed (OnAuth EnableMfa)),
     (''GET'', [Lit ''account'', Lit ''profile''], Fixed (OnAuth ProfilePage)),
     (''POST'', [Lit ''account'', Lit ''profile'', Lit ''password''], Fixed (OnAuth ChangePassword)),
     (''POST'', [Lit ''auth'', Lit ''logout''], Fixed (OnAuth Logout)),
     (''GET'', [Lit ''admin'', Lit ''settings''], Fixed (OnAdmin SettingsPage)),
     (''POST'', [Lit ''admin'', Lit ''settings''], Fixed (OnAdmin UpdateSettings)),
     (''POST'', [Lit ''admin'', Lit ''users''], Fixed (OnAdmin CreateUser)),
     (''POST'', [Lit ''admin'', Lit ''users'', Par], ById (OnAdmin \<circ> UpdateUser)),
     (''POST'', [Lit ''admin'', Lit ''branding''], Fixed (OnAdmin UpdateBranding)),
     (''POST'', [Lit ''admin'', Lit ''users'', Par, Lit ''sessions'', Lit ''revoke''], ById (OnAdmin \<circ> RevokeUserSessions)),
     (''POST'', [Lit ''admin'', Lit ''workspace'', Lit ''sync''], Fixed (OnAdmin SyncWorkspace)),
     (''POST'', [Lit ''admin'', Lit ''alerts'', Lit ''test'', Par], BySink (OnAdmin \<circ> QueueTestAlert)),
     (''GET'', [Lit ''admin'', Lit ''audit''], Fixed (OnAdmin AuditPage)),
     (''GET'', [Lit ''analyst''], Fixed (OnAnalyst AnalystDashboard)),
     (''POST'', [Lit ''analyst'', Lit ''scans'', Par], ByKind (OnAnalyst \<circ> RunAnalystScan)),
     (''GET'', [Lit ''analyst'', Lit ''scans'', Par], ById (OnAnalyst \<circ> ScanProgress)),
     (''GET'', [Lit ''analyst'', Lit ''scans'', Par, Lit ''status''], ById (OnAnalyst \<circ> ScanProgressStatus)),
     (''GET'', [Lit ''analyst'', Lit ''subjects'', Par], ById (OnAnalyst \<circ> SubjectHistory)),
     (''POST'', [Lit ''analyst'', Lit ''findings'', Par, Lit ''reveal''], ById (OnAnalyst \<circ> RevealFindingPassword)),
     (''POST'', [Lit ''analyst'', Lit ''findings'', Par, Lit ''remediate''], ById (OnAnalyst \<circ> MarkRemediated)),
     (''POST'', [Lit ''analyst'', Lit ''findings'', Par, Lit ''unremediate''], ById (OnAnalyst \<circ> MarkUnremediated)),
     (''GET'', [Lit ''analyst'', Lit ''subjects'', Par, Lit ''export.csv''], ById (OnAnalyst \<circ> ExportSubjectCsv)),
     (''GET'', [Lit ''analyst'', Lit ''batches''], Fixed (OnOperations ListBatches)),
     (''POST'', [Lit ''analyst'', Lit ''batches''], Fixed (OnOperations AddBatch)),
     (''GET'', [Lit ''analyst'', Lit ''batches'', Par], ById (OnOperations \<circ> BatchProgress)),
     (''GET'', [Lit ''analyst'', Lit ''batches'', Par, Lit ''status''], ById (OnOperations \<circ> BatchStatusFragment)),
     (''GET'', [Lit ''analyst'', Lit ''schedules''], Fixed (OnOperations ListSchedules)),
     (''GET'', [Lit ''analyst'', Lit ''schedules'', Lit ''preview''], Fixed (OnOperations PreviewSchedule)),
     (''POST'', [Lit ''analyst'', Lit ''schedules''], Fixed (OnOperations CreateSchedule)),
     (''POST'', [Lit ''analyst'', Lit ''schedules'', Par, Lit ''toggle''], ById (OnOperations \<circ> ToggleSchedule)),
     (''POST'', [Lit ''analyst'', Lit ''schedules'', Par, Lit ''delete''], ById (OnOperations \<circ> RemoveSchedule)),
     (''GET'', [Lit ''analyst'', Lit ''notifications''], Fixed (OnOperations ListNotifications)),
     (''POST'', [Lit ''analyst'', Lit ''notifications'', Lit ''preview''], Fixed (OnOperations PreviewNotifications)),
     (''POST'', [Lit ''analyst'', Lit ''notifications'', Lit ''confirm''], Fixed (OnOperations ConfirmNotifications)),
     (''GET'', [Lit ''analyst'', Lit ''watchlist''], Fixed (OnOperations ListWatchlist)),
     (''POST'', [Lit ''analyst'', Lit ''watchlist''], Fixed (OnOperations AddWatchlistEntry)),
     (''POST'', [Lit ''analyst'', Lit ''watchlist'', Par, Lit ''delete''], ById (OnOperations \<circ> RemoveWatchlistEntry)),
     (''POST'', [Lit ''analyst'', Lit ''watchlist'', Par, Lit ''toggle'', Par], ByIdAndText (\<lambda>i s. OnOperations (ToggleWatchlistChannel i (channel_of s)))),
     (''POST'', [Lit ''api'', Lit ''findings'', Par, Lit ''remediate''], ById (OnAnalyst \<circ> Remediate)),
     (''POST'', [Lit ''api'', Lit ''findings'', Par, Lit ''unremediate''], ById (OnAnalyst \<circ> Unremediate)),
     (''GET'', [Lit ''portal''], Fixed (OnPortal UserDashboard)),
     (''POST'', [Lit ''portal'', Lit ''check''], Fixed (OnPortal SelfCheck)),
     (''GET'', [Lit ''portal'', Lit ''scans'', Par], ById (OnPortal \<circ> SelfScanProgress)),
     (''GET'', [Lit ''portal'', Lit ''scans'', Par, Lit ''status''], ById (OnPortal \<circ> SelfScanStatus)),
     (''POST'', [Lit ''portal'', Lit ''findings'', Par, Lit ''remediate''], ById (OnPortal \<circ> SelfRemediate)),
     (''GET'', [Lit ''healthz''], Fixed Healthz)]"

text \<open>A parameter is one segment that is not empty.\<close>

fun matched :: "piece list \<Rightarrow> ustr list \<Rightarrow> ustr list option" where
  "matched [] [] = Some []"
| "matched (Lit l # ps) (s # ss) = (if s = uni l then matched ps ss else None)"
| "matched (Par # ps) (s # ss) = (if s = [] then None else map_option ((#) s) (matched ps ss))"
| "matched _ _ = None"

datatype routed = Found endpoint | BadParameter "UserRole list option" | MethodNotAllowed | NotFound

definition by_id :: "app \<Rightarrow> (uuid \<Rightarrow> endpoint) \<Rightarrow> ustr list \<Rightarrow> routed" where
  "by_id A c ps = (case ap_uuid A (hd ps) of Some i \<Rightarrow> Found (c i) | None \<Rightarrow> BadParameter (allowed_roles (c 0)))"

fun endpoint_at :: "app \<Rightarrow> target \<Rightarrow> ustr list \<Rightarrow> routed" where
  "endpoint_at A (Fixed e) ps = Found e"
| "endpoint_at A (ById c) ps = by_id A c ps"
| "endpoint_at A (ByIdAndText c) ps = by_id A (\<lambda>i. c i (ps ! 1)) ps"
| "endpoint_at A (ByKind c) ps =
     (case find (\<lambda>k. uni (SubjectKind_value k) = hd ps)
        [SubjectKind.EMAIL, SubjectKind.DOMAIN, SubjectKind.USERNAME, SubjectKind.PHONE, SubjectKind.ORIGIN, SubjectKind.PASSWORD] of
        Some k \<Rightarrow> Found (c k) | None \<Rightarrow> BadParameter (allowed_roles (c SubjectKind.EMAIL)))"
| "endpoint_at A (BySink c) ps =
     (case find (\<lambda>k. uni (AlertSinkName_value k) = hd ps) [AlertSinkName.WAZUH, AlertSinkName.DFIR_IRIS] of
        Some k \<Rightarrow> Found (c k) | None \<Rightarrow> BadParameter (allowed_roles (c AlertSinkName.WAZUH)))"

definition route :: "app \<Rightarrow> string \<Rightarrow> ustr \<Rightarrow> routed" where
  "route A verb path =
     (let segments = tl (split_on 47 path);
          here = List.map_filter (\<lambda>(m, ps, t). map_option (\<lambda>vs. (m, t, vs)) (matched ps segments)) routes in
      case find (\<lambda>(m, t, vs). m = verb) here of
        Some (m, t, vs) \<Rightarrow> endpoint_at A t vs
      | None \<Rightarrow>
          if here \<noteq> [] then MethodNotAllowed
          else if segments \<noteq> [] \<and> hd segments = uni ''static'' then (if verb \<in> {''GET'', ''HEAD''} then Found (StaticFile (tl segments)) else MethodNotAllowed)
          else NotFound)"

definition handle :: "env \<Rightarrow> rat \<Rightarrow> ustr \<Rightarrow> process \<Rightarrow> http_request \<Rightarrow> db \<Rightarrow> served" where
  "handle V t path p r d =
     (case route (en_app V) (rq_method r) path of
        Found e \<Rightarrow> serve e V t p r d
      | BadParameter None \<Rightarrow> (Inl (HTTPException 422), p)
      | BadParameter (Some roles) \<Rightarrow> (guarded roles (en_app V) (\<lambda>u r d. Inl (HTTPException 422)) r d, p)
      | MethodNotAllowed \<Rightarrow> (Inl (HTTPException 405), p)
      | NotFound \<Rightarrow> (Inl (HTTPException 404), p))"

section \<open>The application\<close>

text \<open>
  Hosts are checked innermost, then CSRF tokens, then the headers are added; all of it for HTTP requests.
  \<open>key\<close> is the one of the \<open>CSRFProtector\<close>.
\<close>

definition accepted_host :: "env \<Rightarrow> http_request \<Rightarrow> http_response option" where
  "accepted_host V r = en_refused_host V (s_trusted_hosts (ap_settings (en_app V))) r"

definition csrf_passes :: "bytes \<Rightarrow> http_request \<Rightarrow> bool" where
  "csrf_passes key r \<longleftrightarrow> \<not> rq_http r \<or> rq_method r \<in> set SAFE_METHODS \<or>
     csrf_valid key (cookie r SESSION_COOKIE_NAME) (cookie r CSRF_COOKIE_NAME) (header r CSRF_HEADER_NAME)"

definition admitted :: "env \<Rightarrow> bytes \<Rightarrow> http_request \<Rightarrow> bool" where
  "admitted V key r \<longleftrightarrow> csrf_passes key r \<and> accepted_host V r = None"

fun unhandled :: "exn \<Rightarrow> bool" where
  "unhandled (HTTPException n) = False"
| "unhandled _ = True"

definition host_middleware ::
  "env \<Rightarrow> (http_request \<Rightarrow> db \<Rightarrow> http_response \<times> db) \<Rightarrow> http_request \<Rightarrow> db \<Rightarrow> http_response \<times> db" where
  "host_middleware V inner r d = (case accepted_host V r of Some rs \<Rightarrow> (rs, d) | None \<Rightarrow> inner r d)"

definition stack :: "env \<Rightarrow> bytes \<Rightarrow> handler \<Rightarrow> http_request \<Rightarrow> db \<Rightarrow> http_response \<times> db" where
  "stack V key h =
     security_middleware (s_environment (ap_settings (en_app V)))
       (csrf_middleware key (host_middleware V (in_transaction h)))"

definition application ::
  "env \<Rightarrow> bytes \<Rightarrow> rat \<Rightarrow> ustr \<Rightarrow> process \<Rightarrow> http_request \<Rightarrow> db \<Rightarrow> (http_response \<times> db) \<times> process" where
  "application V key t path p r d =
     (if \<not> admitted V key r then (stack V key (\<lambda>r d. Inl (HTTPException 404)) r d, p)
      else case handle V t path p r d of
          (Inl e, p) \<Rightarrow>
            ((if unhandled e then (respond 500 (PlainText (uni ''Internal Server Error'')), d)
              else stack V key (\<lambda>r d. Inl e) r d), p)
        | (Inr (rs, d'), p) \<Rightarrow> (stack V key (\<lambda>r d. Inr (rs, d')) r d, p))"

section \<open>Guards\<close>

text \<open>A guard that refuses, whatever the route behind it does.\<close>

definition refuses :: "UserRole list \<Rightarrow> app \<Rightarrow> http_request \<Rightarrow> db \<Rightarrow> exn \<Rightarrow> bool" where
  "refuses roles A r d e \<longleftrightarrow> bind_res (require_role roles) (\<lambda>guard. guard A r d) = Inl e"

lemma guarded_refused [simp]: "refuses roles A r d e \<Longrightarrow> guarded roles A h r d = Inl e"
  by (auto simp: refuses_def guarded_def require_role_def bind_res_Inl_iff split: if_splits)

lemma guarded_scan_refused [simp]: "refuses roles A r d e \<Longrightarrow> guarded_scan roles A c h r d = (Inl e, c)"
  by (simp add: refuses_def guarded_scan_def)

definition authorized :: "UserRole list \<Rightarrow> app \<Rightarrow> http_request \<Rightarrow> db \<Rightarrow> bool" where
  "authorized roles A r d \<longleftrightarrow> (case get_current_user A r d of Inl e \<Rightarrow> False | Inr (u, d1) \<Rightarrow> u_role u \<in> set roles)"

definition refusal :: "exn \<Rightarrow> bool" where
  "refusal e \<longleftrightarrow> unhandled e \<or> e \<in> {HTTPException 401, HTTPException 403, HTTPException 422}"

lemma verify_session_Inl: "verify_session s token now d = Inl e \<Longrightarrow> unhandled e"
  by (auto simp: verify_session_def bind_res_Inl_iff utc_now_def split: option.splits if_splits py_datetime.splits)

lemma unauthorized_refuses:
  assumes "\<not> authorized roles A r d"
  obtains e where "refuses roles A r d e" "refusal e"
proof (cases "get_current_user A r d")
  case (Inl e)
  then have "refusal e"
    by (auto simp: get_current_user_def bind_res_Inl_iff refusal_def split: option.splits dest: verify_session_Inl)
  with Inl that show thesis
    by (cases "roles = []") (auto simp: refuses_def require_role_def refusal_def)
next
  case (Inr x)
  obtain u d1 where x: "x = (u, d1)" by fastforce
  have "u_role u \<notin> set roles" using assms by (simp add: authorized_def Inr x)
  with that Inr show thesis
    by (cases "roles = []") (auto simp: refuses_def require_role_def refusal_def x)
qed

lemmas guarded_routes =
  mfa_setup_page_def enable_mfa_def profile_page_def change_password_def logout_def
  settings_page_def update_settings_def create_user_def update_user_def update_branding_def revoke_user_sessions_def
  sync_workspace_def queue_test_alert_def audit_page_def
  dashboard_def run_analyst_scan_def scan_progress_def scan_progress_status_def subject_history_def
  reveal_finding_password_def mark_remediated_def mark_unremediated_def export_subject_csv_def unremediate_def
  list_batches_def add_batch_def batch_progress_def batch_status_fragment_def
  list_schedules_def preview_schedule_def create_schedule_def toggle_schedule_def remove_schedule_def
  list_notifications_def preview_notifications_def confirm_notifications_def
  list_watchlist_def add_watchlist_entry_def remove_watchlist_entry_def toggle_watchlist_channel_def
  user_dashboard_def self_check_def self_scan_progress_def self_scan_status_def self_remediate_def

lemma remediate_refused:
  "refuses ANALYST_ROLES A r d e \<Longrightarrow> refusal e \<Longrightarrow> \<exists>y. remediate A i r d = Inl y \<and> refusal y"
  by (auto simp: remediate_def json_body_def refusal_def split: option.splits)

text \<open>No route of the table answers without its guard, and a refused one leaves the process alone.\<close>

lemma serve_refused:
  assumes "allowed_roles e = Some roles" and "refuses roles (en_app V) r d x" and "refusal x"
  shows "\<exists>y. serve e V t p r d = (Inl y, p) \<and> refusal y"
proof (cases e)
  case (OnAuth a)
  then show ?thesis using assms by (cases a) (auto simp: plain_def guarded_routes)
next
  case (OnAdmin a)
  then show ?thesis using assms by (cases a) (auto simp: plain_def guarded_routes audit_page_with_def split: option.splits)
next
  case (OnAnalyst a)
  then show ?thesis
    using assms remediate_refused by (cases a) (auto simp: plain_def starting_scan_def guarded_routes)
next
  case (OnOperations a)
  then show ?thesis using assms by (cases a) (auto simp: plain_def guarded_routes)
next
  case (OnPortal a)
  then show ?thesis using assms by (cases a) (auto simp: plain_def starting_scan_def guarded_routes)
qed (use assms in simp_all)

section \<open>The stack\<close>

lemma with_header_status [simp]: "rs_status (with_header h rs) = rs_status rs"
  by (simp add: with_header_def)

lemma fold_with_header_status [simp]: "rs_status (fold with_header hs rs) = rs_status rs"
  by (induction hs arbitrary: rs) simp_all

lemma fold_with_header_keeps:
  "x \<in> set (rs_headers rs) \<Longrightarrow> fst x \<notin> fst ` set hs \<Longrightarrow> x \<in> set (rs_headers (fold with_header hs rs))"
proof (induction hs arbitrary: rs)
  case (Cons h hs)
  then have "x \<in> set (rs_headers (with_header h rs))" by (auto simp: with_header_def)
  with Cons show ?case by simp
qed simp

lemma fold_with_header_set:
  "distinct (map fst hs) \<Longrightarrow> set hs \<subseteq> set (rs_headers (fold with_header hs rs))"
proof (induction hs arbitrary: rs)
  case (Cons h hs)
  have "h \<in> set (rs_headers (fold with_header hs (with_header h rs)))"
    using Cons.prems by (intro fold_with_header_keeps) (auto simp: with_header_def)
  with Cons show ?case by simp
qed simp

lemma distinct_security_headers: "distinct (map fst (security_headers e))"
  by (simp add: security_headers_def)

text \<open>What the stack makes of a handler's result.\<close>

lemma stack_refused:
  "\<not> admitted V key r \<Longrightarrow> snd (stack V key h r d) = d"
  by (auto simp: stack_def security_middleware_def csrf_middleware_def host_middleware_def admitted_def csrf_passes_def
      Let_def split: option.splits prod.splits)

lemma stack_csrf:
  "\<not> csrf_passes key r \<Longrightarrow> snd (stack V key h r d) = d \<and> rs_status (fst (stack V key h r d)) = 403"
  by (auto simp: stack_def security_middleware_def csrf_middleware_def csrf_passes_def Let_def respond_def with_header_def)

lemma stack_admitted:
  "admitted V key r \<Longrightarrow> snd (stack V key h r d) = snd (in_transaction h r d) \<and>
   rs_status (fst (stack V key h r d)) = rs_status (fst (in_transaction h r d))"
  by (auto simp: stack_def security_middleware_def csrf_middleware_def host_middleware_def admitted_def csrf_passes_def
      Let_def split: prod.splits)

lemma stack_headers:
  "rq_http r \<Longrightarrow> set (security_headers (s_environment (ap_settings (en_app V)))) \<subseteq> set (rs_headers (fst (stack V key h r d)))"
  using fold_with_header_set [OF distinct_security_headers]
  by (simp add: stack_def security_middleware_def split: prod.splits)

lemma application_cases:
  assumes "application V key t path p r d = ((rs, d'), p')"
  obtains (refused) "\<not> admitted V key r" "d' = d" "p' = p" "rs = fst (stack V key (\<lambda>r d. Inl (HTTPException 404)) r d)"
  | (unhandled) e where "admitted V key r" "handle V t path p r d = (Inl e, p')" "unhandled e" "d' = d" "rs_status rs = 500"
  | (raised) n where "admitted V key r" "handle V t path p r d = (Inl (HTTPException n), p')" "d' = d" "rs_status rs = n"
      "rs = fst (stack V key (\<lambda>r d. Inl (HTTPException n)) r d)"
  | (answered) rs0 where "admitted V key r" "handle V t path p r d = (Inr (rs0, d'), p')" "rs_status rs = rs_status rs0"
      "rs = fst (stack V key (\<lambda>r d. Inr (rs0, d')) r d)"
proof (cases "admitted V key r")
  case False
  with assms stack_refused [OF False, of "\<lambda>r d. Inl (HTTPException 404)" d] refused show thesis
    by (simp add: application_def)
next
  case True
  obtain x q where h: "handle V t path p r d = (x, q)" by fastforce
  show thesis
  proof (cases x)
    case (Inl e)
    show ?thesis
    proof (cases "unhandled e")
      case ue: True
      with assms True h Inl show ?thesis by (intro unhandled) (auto simp: application_def respond_def)
    next
      case False
      then obtain n where n: "e = HTTPException n" by (cases e) auto
      let ?s = "stack V key (\<lambda>r d. Inl (HTTPException n)) r d"
      have "?s = (rs, d')" "p' = q" using assms True h Inl n by (simp_all add: application_def)
      moreover have "snd ?s = d" "rs_status (fst ?s) = n"
        using stack_admitted [OF True, of "\<lambda>r d. Inl (HTTPException n)" d]
        by (simp_all add: in_transaction_def error_response_def respond_def)
      ultimately show ?thesis using True h Inl n by (intro raised [of n]) auto
    qed
  next
    case (Inr y)
    obtain rs0 d1 where y: "y = (rs0, d1)" by fastforce
    let ?s = "stack V key (\<lambda>r d. Inr (rs0, d1)) r d"
    have "?s = (rs, d')" "p' = q" using assms True h Inr y by (simp_all add: application_def)
    moreover have "snd ?s = d1" "rs_status (fst ?s) = rs_status rs0"
      using stack_admitted [OF True, of "\<lambda>r d. Inr (rs0, d1)" d] by (simp_all add: in_transaction_def)
    ultimately show ?thesis using True h Inr y by (intro answered [of rs0]) auto
  qed
qed

section \<open>What a request without a session can change\<close>

text \<open>The data of the portal, as opposed to the bookkeeping of sign-ins.\<close>

definition portal_data where
  "portal_data d = ((platform_settings d, branding d, subjects d, scans d, breach_sources d, findings d, finding_events d),
     (scan_batches d, scan_queue d, schedules d, notifications d, watchlist d, alert_outbox d))"

definition same_accounts :: "db \<Rightarrow> db \<Rightarrow> bool" where
  "same_accounts d d' \<longleftrightarrow>
     (\<forall>u \<in> set (users d). \<exists>v \<in> set (users d'). same_rights u v) \<and>
     (\<forall>v \<in> set (users d'). (\<exists>u \<in> set (users d). same_rights u v) \<or> u_role v = UserRole.USER)"

definition harmless :: "db \<Rightarrow> db \<Rightarrow> bool" where
  "harmless d d' \<longleftrightarrow> portal_data d' = portal_data d \<and> same_accounts d d'"

lemma same_rights_refl: "same_rights u u"
  by (simp add: same_rights_def)

lemma harmless_trans: "harmless d d1 \<Longrightarrow> harmless d1 d2 \<Longrightarrow> harmless d d2"
  unfolding harmless_def same_accounts_def
proof (intro conjI ballI; elim conjE)
  fix u
  assume "u \<in> set (users d)" "\<forall>u \<in> set (users d). \<exists>v \<in> set (users d1). same_rights u v"
    "\<forall>u \<in> set (users d1). \<exists>v \<in> set (users d2). same_rights u v"
  then show "\<exists>v \<in> set (users d2). same_rights u v" by (fastforce simp: same_rights_def)
next
  fix v
  assume "v \<in> set (users d2)" "\<forall>v \<in> set (users d2). (\<exists>u \<in> set (users d1). same_rights u v) \<or> u_role v = UserRole.USER"
    "\<forall>v \<in> set (users d1). (\<exists>u \<in> set (users d). same_rights u v) \<or> u_role v = UserRole.USER"
  then show "(\<exists>u \<in> set (users d). same_rights u v) \<or> u_role v = UserRole.USER" by (fastforce simp: same_rights_def)
qed simp

lemma harmless_same: "portal_data d' = portal_data d \<Longrightarrow> users d' = users d \<Longrightarrow> harmless d d'"
  using same_rights_refl by (auto simp: harmless_def same_accounts_def)

lemma harmless_simps [simp]:
  "harmless d d" "harmless d (d\<lparr>sessions := ss\<rparr>)" "harmless d (d\<lparr>drawn := n\<rparr>)" "harmless d (set_credential i g d)"
  "harmless d (set_ip_limit h k d)" "harmless d (d\<lparr>drawn := n, sessions := ss\<rparr>)"
  by (rule harmless_same; simp add: portal_data_def set_credential_def set_ip_limit_def)+

lemma harmless_set_user:
  assumes "\<And>u. same_rights u (f u)"
  shows "harmless d (set_user i f d)"
  using assms same_rights_refl
  by (auto simp: harmless_def same_accounts_def portal_data_def set_user_def set_update_where)

lemma harmless_audit: "audit_event A r act actor tt ti meta d = Inr d' \<Longrightarrow> harmless d d'"
  by (rule harmless_same) (simp_all add: portal_data_def audit_event_frame)

lemma harmless_revoke: "revoke_session token now d = Inr (b, d') \<Longrightarrow> harmless d d'"
  by (auto simp: revoke_session_def bind_res_Inr_iff split: option.splits if_splits)

lemma harmless_verify:
  assumes "verify_session s token now d = Inr (x, d')" shows "harmless d d'"
proof (cases x)
  case None
  with assms verify_session_None show ?thesis by fastforce
next
  case (Some v)
  with assms show ?thesis by (auto elim!: verify_session_Some)
qed

lemma harmless_sign_in:
  assumes "sign_in_as A act user r d = Inr (issued, d')"
  shows "harmless d d'"
proof -
  obtain b d1 where 1: "revoke_session (cookie r SESSION_COOKIE_NAME) None d = Inr (b, d1)"
    and rest: "bind_res (issue_session (ap_ip A) (ap_settings A) (u_id user) (case rq_client r of None \<Rightarrow> [] | Some h \<Rightarrow> h)
       (header r ''user-agent'') None d1) (\<lambda>(issued, d).
     let d = set_user (u_id user) (\<lambda>u. u\<lparr>u_last_login_at := Some (clock d)\<rparr>) d in
     bind_res (audit_event A r act (Some (u_id user)) (Some ''user'') (Some (uuid_str (u_id user))) [] d) (\<lambda>d.
     Inr (issued, d))) = Inr (issued, d')"
    using assms by (auto simp: sign_in_as_def bind_res_Inr_iff)
  obtain i d2 where 2: "issue_session (ap_ip A) (ap_settings A) (u_id user) (case rq_client r of None \<Rightarrow> [] | Some h \<Rightarrow> h)
       (header r ''user-agent'') None d1 = Inr (i, d2)"
    and 3: "audit_event A r act (Some (u_id user)) (Some ''user'') (Some (uuid_str (u_id user))) []
       (set_user (u_id user) (\<lambda>u. u\<lparr>u_last_login_at := Some (clock d2)\<rparr>) d2) = Inr d'"
    using rest by (auto simp: bind_res_Inr_iff)
  have "harmless d1 d2" using issue_session_Inr [OF 2] by fastforce
  moreover have "harmless d2 (set_user (u_id user) (\<lambda>u. u\<lparr>u_last_login_at := Some (clock d2)\<rparr>) d2)"
    by (rule harmless_set_user) (simp add: same_rights_def)
  ultimately show ?thesis
    using harmless_revoke [OF 1] harmless_audit [OF 3] harmless_trans by blast
qed

lemma harmless_response: "signed_in_response A issued d = Inr (rs, d') \<Longrightarrow> harmless d d'"
  using signed_in_response_frame by fastforce

lemma harmless_load: "load_ip_limit h t d = Inr (rl, d') \<Longrightarrow> harmless d d'"
  by (rule harmless_same) (auto simp: load_ip_limit_def portal_data_def Let_def split: option.splits)

lemma harmless_check:
  assumes "check_account A u c pw code h t d = Inr (x, d')"
  shows "harmless d d'"
  using assms
proof (cases rule: check_account_cases)
  case refused
  then show ?thesis by (metis harmless_simps(4,5) harmless_trans)
next
  case (accepted g n)
  have "harmless d (set_credential (u_id u) g (d\<lparr>drawn := n\<rparr>))" by (metis harmless_simps(3,4) harmless_trans)
  moreover have "harmless e (set_user (u_id u) (\<lambda>u. u\<lparr>u_last_login_at := Some t\<rparr>) e)" for e
    by (rule harmless_set_user) (simp add: same_rights_def)
  ultimately show ?thesis unfolding accepted(6) by (rule harmless_trans)
qed simp

lemma harmless_authenticate:
  assumes "authenticate A name pw code ip None d = Inr (x, d')"
  shows "harmless d d'"
  using assms
proof (cases rule: authenticate_cases)
  case (refused t h rl d1)
  then show ?thesis by (metis harmless_load harmless_simps(5) harmless_trans)
next
  case (checked t h rl d1 email u c)
  then show ?thesis by (metis harmless_load harmless_check harmless_simps(5) harmless_trans)
qed (auto dest: harmless_load)

lemma harmless_provision:
  assumes "provision_google_user identity d = Inr (user, d')" and "unique_on u_id (users d)"
  shows "harmless d d'"
proof -
  have "portal_data d' = portal_data d"
    using assms(1)
    by (auto simp: provision_google_user_def portal_data_def Let_def set_user_def uuid4_eq split: option.splits if_splits)
  moreover have "same_accounts d d'"
    unfolding same_accounts_def
  proof (intro conjI ballI)
    note known = provision_grants_nothing [OF assms]
    show "\<exists>v \<in> set (users d'). same_rights u v" if "u \<in> set (users d)" for u using known that by simp
    show "(\<exists>u \<in> set (users d). same_rights u v) \<or> u_role v = UserRole.USER" if "v \<in> set (users d')" for v
    proof (cases "v = user")
      case False
      then have "v \<in> set (users d)" using known that by metis
      then show ?thesis using same_rights_refl by (intro disjI1 bexI)
    qed (use known in auto)
  qed
  ultimately show ?thesis by (simp add: harmless_def)
qed

lemma harmless_google:
  assumes "with_google loads A h held r d = (Inr (rs, d'), held')"
    and "\<And>g g'. h g r d = (Inr (rs, d'), g') \<Longrightarrow> harmless d d'"
  shows "harmless d d'"
  using assms
  by (auto simp: with_google_def bind_res_Inr_iff split: sum.splits option.splits prod.splits dest: harmless_audit)

lemma harmless_failed: "google_failed A n r d = Inr (rs, d') \<Longrightarrow> harmless d d'" "local_failed A r d = Inr (rs, d') \<Longrightarrow> harmless d d'"
  by (auto simp: google_failed_def local_failed_def bind_res_Inr_iff dest: harmless_audit)

lemma harmless_start:
  assumes "start_with A N g r d = (Inr (rs, d'), g')" shows "harmless d d'"
proof -
  obtain t d1 where t: "begin_transaction (clock d) d = (t, d1)" by fastforce
  have "harmless d d1"
    using t by (auto simp: begin_transaction_def token_urlsafe_eq Let_def)
  moreover have "harmless d1 d'"
    using assms
    by (auto simp: start_with_def t bind_res_Inr_iff split: prod.splits sum.splits if_splits dest: harmless_failed harmless_audit)
  ultimately show ?thesis by (rule harmless_trans)
qed

lemma harmless_finish:
  assumes "finish_with A N g r d = (Inr (rs, d'), g')" and "unique_on u_id (users d)" shows "harmless d d'"
proof -
  let ?t = "deserialize A (go_transaction_key g) (clock d) (cookie r OAUTH_TRANSACTION_COOKIE_NAME)"
  show ?thesis
  proof (cases "callback_accepted ?t (map_of (rq_query r) ''code'') (map_of (rq_query r) ''state'') (map_of (rq_query r) ''error'') r")
    case False
    with assms(1) show ?thesis by (auto simp: finish_with_def intro: harmless_failed)
  next
    case True
    obtain x g1 where x: "exchange_and_verify A N (the (map_of (rq_query r) ''code'')) (the ?t) g = (x, g1)" by fastforce
    have run: "(case bind_res x (\<lambda>identity. provision_google_user identity d) of
                Inl e \<Rightarrow> if e = GoogleOIDCError then google_failed A 400 r d else Inl e
              | Inr (user, d) \<Rightarrow>
                  if \<not> u_is_active user then Inr (authentication_failed 403, d)
                  else
                    bind_res (sign_in_as A ''auth.google_succeeded'' user r d) (\<lambda>(issued, d).
                    bind_res (signed_in_response A issued d) (\<lambda>(rs, d).
                    Inr (with_header no_store (clear_transaction_cookie rs), d)))) = Inr (rs, d')"
      using assms(1) True x by (simp add: finish_with_def Let_def)
    show ?thesis
    proof (cases "bind_res x (\<lambda>identity. provision_google_user identity d)")
      case (Inl e)
      with run show ?thesis by (auto intro: harmless_failed split: if_splits)
    next
      case (Inr y)
      obtain user d1 where y: "y = (user, d1)" by fastforce
      then obtain identity where "provision_google_user identity d = Inr (user, d1)"
        using Inr by (auto simp: bind_res_Inr_iff)
      then have "harmless d d1" using assms(2) by (rule harmless_provision)
      moreover have "harmless d1 d'"
        using run unfolding Inr y
        by (auto simp: bind_res_Inr_iff split: if_splits intro: harmless_trans dest: harmless_sign_in harmless_response)
      ultimately show ?thesis by (rule harmless_trans)
    qed
  qed
qed

lemma harmless_local:
  assumes "finish_local_login A r d = Inr (rs, d')" shows "harmless d d'"
proof (cases "read_local_login_credentials A r = None \<or> rq_client r = None")
  case True
  with assms show ?thesis by (auto simp: finish_local_login_def intro: harmless_failed split: option.splits)
next
  case False
  then obtain name pw code ip where "read_local_login_credentials A r = Some (name, pw, code)" "rq_client r = Some ip"
    by auto
  with assms obtain x d1 where 1: "authenticate A name pw code ip None d = Inr (x, d1)"
    and rest: "(case x of
            None \<Rightarrow> local_failed A r d1
          | Some user \<Rightarrow>
              bind_res (sign_in_as A ''auth.local_succeeded'' user r d1) (\<lambda>(issued, d).
              bind_res (signed_in_response A issued d) (\<lambda>(rs, d).
              Inr (with_header no_store rs, d)))) = Inr (rs, d')"
    by (auto simp: finish_local_login_def bind_res_Inr_iff)
  have "harmless d1 d'"
    using rest
    by (auto simp: bind_res_Inr_iff split: option.splits intro: harmless_trans
        dest: harmless_sign_in harmless_response harmless_failed(2))
  then show ?thesis using harmless_authenticate [OF 1] harmless_trans by blast
qed

text \<open>The routes without a guard.\<close>

lemma serve_public:
  assumes "allowed_roles e = None" and "serve e V t p r d = (Inr (rs, d'), p')" and "unique_on u_id (users d)"
  shows "harmless d d' \<and> pr_client p' = pr_client p \<and> pr_tasks p' = pr_tasks p"
proof (cases e)
  case (OnAuth a)
  have google: "harmless d d' \<and> pr_client p' = pr_client p \<and> pr_tasks p' = pr_tasks p"
    if run: "through_google (with_google loads A h) p r d = (Inr (rs, d'), p')"
      and h: "\<And>g g'. h g r d = (Inr (rs, d'), g') \<Longrightarrow> harmless d d'" for loads A h
    using run by (auto simp: through_google_def split: prod.splits dest!: harmless_google [OF _ h])
  show ?thesis
  proof (cases a)
    case LandingPage
    with OnAuth assms show ?thesis
      by (auto simp: plain_def landing_page_def bind_res_Inr_iff split: option.splits dest: harmless_verify)
  next
    case BrandingLogo
    with OnAuth assms show ?thesis
      by (auto simp: plain_def branding_logo_def Let_def split: option.splits prod.splits if_splits)
  next
    case IssueCsrfToken
    with OnAuth assms show ?thesis
      by (auto simp: plain_def issue_csrf_token_def csrf_issue_def token_urlsafe_eq bind_res_Inr_iff Let_def)
  next
    case StartGoogleLogin
    with OnAuth assms(2) show ?thesis
      by (intro google [of "en_loads V" "en_app V" "start_with (en_app V) (en_oidc V)"] harmless_start)
        (simp_all add: start_google_login_def)
  next
    case FinishGoogleLogin
    with OnAuth assms(2) show ?thesis
      by (intro google [of "en_loads V" "en_app V" "finish_with (en_app V) (en_oidc V)"] harmless_finish [OF _ assms(3)])
        (simp_all add: finish_google_login_def)
  next
    case FinishLocalLogin
    with OnAuth assms(2) show ?thesis by (auto simp: plain_def dest: harmless_local)
  qed (use OnAuth assms(1) in simp_all)
qed (use assms in \<open>auto simp: plain_def healthz_def\<close>)

lemma serve_process: "serve e V t p r d = (Inl x, p') \<Longrightarrow> allowed_roles e = None \<Longrightarrow>
   pr_client p' = pr_client p \<and> pr_tasks p' = pr_tasks p"
proof (cases e)
  case (OnAuth a)
  assume "serve e V t p r d = (Inl x, p')" "allowed_roles e = None"
  with OnAuth show ?thesis by (cases a) (auto simp: plain_def through_google_def split: prod.splits)
qed (auto simp: plain_def)

lemma handle_anonymous:
  assumes "handle V t path p r d = (x, p')" and "get_current_user (en_app V) r d = Inl y" and "unique_on u_id (users d)"
  shows "(case x of Inl e \<Rightarrow> True | Inr (rs, d') \<Rightarrow> harmless d d') \<and> pr_client p' = pr_client p \<and> pr_tasks p' = pr_tasks p"
proof (cases "route (en_app V) (rq_method r) path")
  case (Found e)
  with assms(1) have run: "serve e V t p r d = (x, p')" by (simp add: handle_def)
  show ?thesis
  proof (cases "allowed_roles e")
    case None
    then show ?thesis
      using run serve_public [OF None _ assms(3)] serve_process by (cases x) (fastforce split: prod.splits)+
  next
    case (Some roles)
    have "\<not> authorized roles (en_app V) r d" using assms(2) by (simp add: authorized_def)
    then obtain z where "refuses roles (en_app V) r d z" "refusal z" using unauthorized_refuses by blast
    then obtain w where "serve e V t p r d = (Inl w, p)" using serve_refused [OF Some] by blast
    with run show ?thesis by auto
  qed
next
  case (BadParameter roles)
  have "\<not> authorized rs (en_app V) r d" for rs using assms(2) by (simp add: authorized_def)
  then have "\<exists>z. refuses rs (en_app V) r d z" for rs using unauthorized_refuses by metis
  then have "\<exists>z. guarded rs (en_app V) h r d = Inl z" for rs h by (metis guarded_refused)
  with assms(1) BadParameter show ?thesis
    by (auto simp: handle_def split: option.splits) (metis sum.case(1) sum.simps(5))
qed (use assms(1) in \<open>auto simp: handle_def\<close>)

section \<open>Properties\<close>

text \<open>
  C1. Access control, for every route of the application. A request to a guarded route without a session of a
  permitted role is answered with an error and changes nothing: neither the database nor the process.
\<close>

theorem unauthorized_requests_change_nothing:
  assumes "application V key t path p r d = ((rs, d'), p')"
    and "route (en_app V) (rq_method r) path = Found e" and "allowed_roles e = Some roles"
    and "\<not> authorized roles (en_app V) r d"
  shows "d' = d \<and> p' = p \<and> (accepted_host V r = None \<longrightarrow> 400 \<le> rs_status rs)"
proof -
  obtain x where "refuses roles (en_app V) r d x" "refusal x" using unauthorized_refuses [OF assms(4)] by blast
  then obtain y where "serve e V t p r d = (Inl y, p)" "refusal y" using serve_refused [OF assms(3)] by blast
  then have y: "handle V t path p r d = (Inl y, p)" "refusal y" by (simp_all add: handle_def assms(2))
  show ?thesis
    using assms(1)
  proof (cases rule: application_cases)
    case refused
    then show ?thesis using stack_csrf by (auto simp: admitted_def)
  qed (use y in \<open>auto simp: refusal_def\<close>)
qed

text \<open>
  C20. What surrounds every route. Every HTTP response carries all security headers, unless it is the answer
  to an exception no route handles, and an unsafe request without a CSRF token bound to its session is
  answered with 403 before any route sees it.
\<close>

theorem application_protected:
  assumes "application V key t path p r d = ((rs, d'), p')" and "rq_http r"
  shows "(set (security_headers (s_environment (ap_settings (en_app V)))) \<subseteq> set (rs_headers rs) \<or> rs_status rs = 500 \<and> d' = d) \<and>
    (rq_method r \<notin> set SAFE_METHODS \<longrightarrow>
       \<not> csrf_valid key (cookie r SESSION_COOKIE_NAME) (cookie r CSRF_COOKIE_NAME) (header r CSRF_HEADER_NAME) \<longrightarrow>
       rs_status rs = 403 \<and> d' = d \<and> p' = p)"
proof
  show "set (security_headers (s_environment (ap_settings (en_app V)))) \<subseteq> set (rs_headers rs) \<or> rs_status rs = 500 \<and> d' = d"
    using assms(1) by (cases rule: application_cases) (use stack_headers [OF assms(2)] in auto)
  show "rq_method r \<notin> set SAFE_METHODS \<longrightarrow>
       \<not> csrf_valid key (cookie r SESSION_COOKIE_NAME) (cookie r CSRF_COOKIE_NAME) (header r CSRF_HEADER_NAME) \<longrightarrow>
       rs_status rs = 403 \<and> d' = d \<and> p' = p"
    using assms(1)
    by (cases rule: application_cases) (use assms(2) stack_csrf in \<open>auto simp: admitted_def csrf_passes_def\<close>)
qed

text \<open>
  C9. What an outsider can do. A request without a session, whatever its path, method and body, leaves the
  data of the portal as it is (settings, subjects, scans, findings and their history, batches, schedules,
  messages, watchlist, alerts) and starts no scan. No account gains a role, an identity or its activity; an
  account it creates is a plain user.
\<close>

theorem anonymous_requests_touch_no_data:
  assumes "application V key t path p r d = ((rs, d'), p')"
    and "get_current_user (en_app V) r d = Inl x" and "unique_on u_id (users d)"
  shows "portal_data d' = portal_data d \<and> same_accounts d d' \<and> pr_client p' = pr_client p \<and> pr_tasks p' = pr_tasks p"
proof -
  have "harmless d d' \<and> pr_client p' = pr_client p \<and> pr_tasks p' = pr_tasks p"
    using assms(1)
  proof (cases rule: application_cases)
    case (unhandled e)
    then show ?thesis using handle_anonymous [OF unhandled(2) assms(2,3)] by simp
  next
    case (raised n)
    then show ?thesis using handle_anonymous [OF raised(2) assms(2,3)] by simp
  next
    case (answered rs0)
    then show ?thesis using handle_anonymous [OF answered(2) assms(2,3)] by simp
  qed simp
  then show ?thesis by (simp add: harmless_def)
qed

section \<open>Witnesses\<close>

definition the_env :: env where
  "the_env =
     \<lparr>en_app = the_app, en_coercions = no_coercions, en_loads = (\<lambda>_. None),
      en_workspace = dead_net,
      en_oidc = sample_net, en_cron = (\<lambda>_ _ t. Occurs t), en_like = id, en_qr = id, en_audit_query = (\<lambda>_. None),
      en_refused_host = (\<lambda>_ _. None), en_static = (\<lambda>_. respond 404 NoBody)\<rparr>"

definition get_request :: http_request where
  "get_request = (post_request [])\<lparr>rq_method := ''GET''\<rparr>"

lemma get_request_anonymous: "get_current_user (en_app the_env) get_request d = Inl (HTTPException 401)"
  by (simp add: get_current_user_def get_request_def post_request_def cookie_def verify_session_def validated_token_hash_def)

lemma dashboard_route: "route (en_app the_env) (rq_method get_request) (uni ''/portal'') = Found (OnPortal UserDashboard)"
  by code_simp

theorem unauthorized_requests_change_nothing_witness:
  "\<exists>rs. application the_env [] 0 (uni ''/portal'') fresh_process get_request db0 = ((rs, db0), fresh_process) \<and> 400 \<le> rs_status rs"
proof -
  obtain rs d' p' where run: "application the_env [] 0 (uni ''/portal'') fresh_process get_request db0 = ((rs, d'), p')"
    by (metis surj_pair)
  have "\<not> authorized PORTAL_ROLES (en_app the_env) get_request db0" by (simp add: authorized_def get_request_anonymous)
  moreover have "accepted_host the_env get_request = None" by (simp add: accepted_host_def the_env_def)
  ultimately show ?thesis
    using unauthorized_requests_change_nothing [OF run dashboard_route] run by simp
qed

theorem application_protected_witness:
  "\<exists>rs. application the_env [] 0 (uni ''/auth/logout'') fresh_process (post_request []) db0 = ((rs, db0), fresh_process) \<and>
     rs_status rs = 403"
proof -
  obtain rs d' p' where run: "application the_env [] 0 (uni ''/auth/logout'') fresh_process (post_request []) db0 = ((rs, d'), p')"
    by (metis surj_pair)
  have "rq_http (post_request [])" "rq_method (post_request []) \<notin> set SAFE_METHODS"
    "\<not> csrf_valid [] (cookie (post_request []) SESSION_COOKIE_NAME) (cookie (post_request []) CSRF_COOKIE_NAME)
       (header (post_request []) CSRF_HEADER_NAME)"
    by (simp_all add: post_request_def SAFE_METHODS_def csrf_valid_def cookie_def header_def)
  with application_protected [OF run] run show ?thesis by simp
qed

theorem anonymous_requests_touch_no_data_witness:
  "\<exists>rs d' p'. application the_env [] 0 (uni ''/'') fresh_process get_request db0 = ((rs, d'), p') \<and>
     portal_data d' = portal_data db0 \<and> same_accounts db0 d'"
proof -
  obtain rs d' p' where run: "application the_env [] 0 (uni ''/'') fresh_process get_request db0 = ((rs, d'), p')"
    by (metis surj_pair)
  have "unique_on u_id (users db0)" by (simp add: db0_def empty_db_def unique_on_def)
  with anonymous_requests_touch_no_data [OF run get_request_anonymous] run show ?thesis by simp
qed

end
