(* ===== verification/Schema.thy ===== *)
theory Schema
  imports Config
begin

text \<open>
  The database server as the migrations under \<open>src/migrations\<close> use it: roles with their passwords,
  privileges, extensions, enumerated types and tables with their columns, constraints and indexes. \<open>exec\<close>
  runs one statement as a role and fails as PostgreSQL documents it: on objects that exist already or do not
  exist, on what other objects still depend on, and without the privilege. The only rows a migration reads
  or changes are those of \<open>admin_credentials\<close>.
\<close>

section \<open>Catalog\<close>

datatype sql_type =
    UuidType | CitextType | StringType nat | TextType | BooleanType | IntegerType | DateTimeType | DateType
  | BinaryType | JsonbType | EnumType string

record column =
  col_name :: string
  col_type :: sql_type
  col_nullable :: bool
  col_default :: "string option"

datatype sql_constraint =
    PrimaryKey string "string list"
  | UniqueKey string "string list"
  | CheckThat string string
  | ForeignKey string "string list" string "string list" "string option"

record table =
  tbl_name :: string
  tbl_owner :: string
  tbl_columns :: "column list"
  tbl_constraints :: "sql_constraint list"
  tbl_indexes :: "(string \<times> string list) list"

record enum_type =
  enu_name :: string
  enu_owner :: string
  enu_values :: "string list"

datatype privilege = SELECT | INSERT | UPDATE | DELETE | TRUNCATE | CONNECT | CREATE | USAGE

datatype object = TheDatabase | PublicSchema | OnTable string

text \<open>The privileges granted are triples of object, privilege and grantee; \<open>PUBLIC\<close> stands for every role.\<close>

record schema =
  sc_name :: ustr
  sc_roles :: "(string \<times> ustr) list"
  sc_acl :: "(object \<times> privilege \<times> string) list"
  sc_extensions :: "string list"
  sc_enums :: "enum_type list"
  sc_tables :: "table list"
  sc_credentials :: "AdminCredential list"
  sc_now :: datetime

abbreviation SUPERUSER :: string where "SUPERUSER \<equiv> ''postgres''"

definition table_named :: "string \<Rightarrow> schema \<Rightarrow> table option" where
  "table_named t s = find (\<lambda>x. tbl_name x = t) (sc_tables s)"

definition enum_named :: "string \<Rightarrow> schema \<Rightarrow> enum_type option" where
  "enum_named e s = find (\<lambda>x. enu_name x = e) (sc_enums s)"

definition column_names :: "table \<Rightarrow> string list" where
  "column_names t = map col_name (tbl_columns t)"

fun constraint_name :: "sql_constraint \<Rightarrow> string" where
  "constraint_name (PrimaryKey n cs) = n"
| "constraint_name (UniqueKey n cs) = n"
| "constraint_name (CheckThat n e) = n"
| "constraint_name (ForeignKey n cs t rs od) = n"

fun constraint_columns :: "sql_constraint \<Rightarrow> string list" where
  "constraint_columns (PrimaryKey n cs) = cs"
| "constraint_columns (UniqueKey n cs) = cs"
| "constraint_columns (CheckThat n e) = []"
| "constraint_columns (ForeignKey n cs t rs od) = cs"

fun key_columns :: "sql_constraint \<Rightarrow> string list option" where
  "key_columns (PrimaryKey n cs) = Some cs"
| "key_columns (UniqueKey n cs) = Some cs"
| "key_columns _ = None"

fun referred_table :: "sql_constraint \<Rightarrow> string option" where
  "referred_table (ForeignKey n cs t rs od) = Some t"
| "referred_table _ = None"

fun referred_columns :: "sql_constraint \<Rightarrow> string list" where
  "referred_columns (ForeignKey n cs t rs od) = rs"
| "referred_columns _ = []"

definition refers_to :: "string \<Rightarrow> sql_constraint \<Rightarrow> bool" where
  "refers_to t k \<longleftrightarrow> referred_table k = Some t"

text \<open>Tables and indexes, those of keys included, share one name space.\<close>

definition relations_of :: "table \<Rightarrow> string list" where
  "relations_of t = tbl_name t # map fst (tbl_indexes t)
     @ map constraint_name (filter (\<lambda>c. key_columns c \<noteq> None) (tbl_constraints t))"

definition relation_names :: "schema \<Rightarrow> string list" where
  "relation_names s = concat (map relations_of (sc_tables s))"

section \<open>Privileges\<close>

text \<open>A superuser may do anything, an owner anything with the own object.\<close>

definition may :: "string \<Rightarrow> privilege \<Rightarrow> object \<Rightarrow> schema \<Rightarrow> bool" where
  "may r p x s \<longleftrightarrow> r = SUPERUSER \<or> (x, p, r) \<in> set (sc_acl s) \<or> (x, p, ''PUBLIC'') \<in> set (sc_acl s) \<or>
     (case x of OnTable t \<Rightarrow> (case table_named t s of Some y \<Rightarrow> tbl_owner y = r | None \<Rightarrow> False) | _ \<Rightarrow> False)"

definition owns_table :: "string \<Rightarrow> string \<Rightarrow> schema \<Rightarrow> bool" where
  "owns_table r t s \<longleftrightarrow> (case table_named t s of Some y \<Rightarrow> r \<in> {SUPERUSER, tbl_owner y} | None \<Rightarrow> False)"

definition object_exists :: "object \<Rightarrow> schema \<Rightarrow> bool" where
  "object_exists x s = (case x of OnTable t \<Rightarrow> table_named t s \<noteq> None | _ \<Rightarrow> True)"

definition may_grant :: "string \<Rightarrow> object \<Rightarrow> schema \<Rightarrow> bool" where
  "may_grant r x s \<longleftrightarrow> (case x of OnTable t \<Rightarrow> owns_table r t s | _ \<Rightarrow> r = SUPERUSER)"

definition role_exists :: "string \<Rightarrow> schema \<Rightarrow> bool" where
  "role_exists r s \<longleftrightarrow> r \<in> {SUPERUSER, ''PUBLIC''} \<or> r \<in> fst ` set (sc_roles s)"

text \<open>What keeps a role from being dropped.\<close>

definition depends_on_role :: "string \<Rightarrow> schema \<Rightarrow> bool" where
  "depends_on_role r s \<longleftrightarrow> r \<in> set (map (snd \<circ> snd) (sc_acl s)) \<or> r \<in> set (map tbl_owner (sc_tables s)) \<or>
     r \<in> set (map enu_owner (sc_enums s))"

section \<open>Statements\<close>

text \<open>
  \<open>CreateRole\<close> stands for the conditional in the \<open>DO\<close> block and carries the text between the quotes of the
  password literal, \<open>EnableStoredSeeds\<close> and \<open>RequireSeeds\<close> for the two statements of the tenth migration
  that touch rows.
\<close>

datatype ddl =
    CreateRole string ustr
  | DropRole string
  | Grant "privilege list" "object list" string
  | Revoke "privilege list" "object list" string
  | RevokeAll "object list" string
  | AlterOwner string string
  | CreateExtension string
  | CreateEnum string "string list"
  | AddEnumValue string string
  | DropEnum string
  | CreateTable string "column list" "sql_constraint list"
  | DropTable string
  | CreateIndex string string "string list"
  | DropIndex string string
  | AddColumn string column
  | DropColumn string string
  | AlterNullable string string bool
  | AddConstraint string sql_constraint
  | DropConstraint string string
  | EnableStoredSeeds
  | RequireSeeds

abbreviation ddl_error :: exn where "ddl_error \<equiv> OtherError ''ProgrammingError''"

text \<open>
  The value of a quoted literal inside \<open>DO $$ ... $$\<close>: a quote is written twice, and two dollar signs would
  end the block.
\<close>

fun unquoted :: "ustr \<Rightarrow> ustr option" where
  "unquoted [] = Some []"
| "unquoted (c # cs) =
     (if c = 39 then (case cs of x # ys \<Rightarrow> if x = 39 then map_option ((#) 39) (unquoted ys) else None | [] \<Rightarrow> None)
      else if c = 36 \<and> cs \<noteq> [] \<and> hd cs = 36 then None
      else map_option ((#) c) (unquoted cs))"

definition type_exists :: "sql_type \<Rightarrow> schema \<Rightarrow> bool" where
  "type_exists t s = (case t of EnumType e \<Rightarrow> enum_named e s \<noteq> None | CitextType \<Rightarrow> ''citext'' \<in> set (sc_extensions s) | _ \<Rightarrow> True)"

text \<open>A constraint of table \<open>t\<close>: its columns exist, and a foreign key refers to a key.\<close>

fun constraint_ok :: "table \<Rightarrow> schema \<Rightarrow> sql_constraint \<Rightarrow> bool" where
  "constraint_ok t s (ForeignKey n cs t' rs od) =
     (set cs \<subseteq> set (column_names t) \<and> length cs = length rs \<and>
      (case (if t' = tbl_name t then Some t else table_named t' s) of
         None \<Rightarrow> False
       | Some y \<Rightarrow> Some rs \<in> set (map key_columns (tbl_constraints y))))"
| "constraint_ok t s c = (set (constraint_columns c) \<subseteq> set (column_names t))"

definition table_with ::
  "string \<Rightarrow> string \<Rightarrow> column list \<Rightarrow> sql_constraint list \<Rightarrow> (string \<times> string list) list \<Rightarrow> table" where
  "table_with owner t cs ks ix =
     \<lparr>tbl_name = t, tbl_owner = owner, tbl_columns = cs, tbl_constraints = ks, tbl_indexes = ix\<rparr>"

definition new_table :: "string \<Rightarrow> string \<Rightarrow> column list \<Rightarrow> sql_constraint list \<Rightarrow> table" where
  "new_table owner t cs ks = table_with owner t cs ks []"

definition table_ok :: "table \<Rightarrow> schema \<Rightarrow> bool" where
  "table_ok t s \<longleftrightarrow> distinct (column_names t) \<and> list_all (\<lambda>c. type_exists (col_type c) s) (tbl_columns t) \<and>
     list_all (constraint_ok t s) (tbl_constraints t) \<and> distinct (map constraint_name (tbl_constraints t)) \<and>
     list_all (\<lambda>n. n \<notin> set (relation_names s)) (relations_of t)"

definition alter :: "string \<Rightarrow> (table \<Rightarrow> table) \<Rightarrow> schema \<Rightarrow> schema" where
  "alter t f s = s\<lparr>sc_tables := map (\<lambda>y. if tbl_name y = t then f y else y) (sc_tables s)\<rparr>"

definition set_nullable :: "string \<Rightarrow> bool \<Rightarrow> table \<Rightarrow> table" where
  "set_nullable c b t =
     t\<lparr>tbl_columns := map (\<lambda>x. if col_name x = c then x\<lparr>col_nullable := b\<rparr> else x) (tbl_columns t)\<rparr>"

text \<open>
  Dropping a column drops its indexes and constraints with it; a foreign key of another table keeps the
  columns it refers to and their key.
\<close>

definition kept_by_others :: "string \<Rightarrow> string list \<Rightarrow> schema \<Rightarrow> bool" where
  "kept_by_others t cs s \<longleftrightarrow>
     list_ex (\<lambda>y. tbl_name y \<noteq> t \<and> list_ex (\<lambda>k. refers_to t k \<and> set (referred_columns k) \<inter> set cs \<noteq> {}) (tbl_constraints y)) (sc_tables s)"

definition without_column :: "string \<Rightarrow> table \<Rightarrow> table" where
  "without_column c t =
     t\<lparr>tbl_columns := filter (\<lambda>x. col_name x \<noteq> c) (tbl_columns t),
       tbl_constraints := filter (\<lambda>k. c \<notin> set (constraint_columns k)) (tbl_constraints t),
       tbl_indexes := filter (\<lambda>(n, cs). c \<notin> set cs) (tbl_indexes t)\<rparr>"

definition seedless :: "schema \<Rightarrow> bool" where
  "seedless s \<longleftrightarrow> list_ex (\<lambda>c. cred_totp_secret_enc c = None) (sc_credentials s)"

text \<open>A new column is null in every row.\<close>

definition fill_column :: "string \<Rightarrow> string \<Rightarrow> schema \<Rightarrow> schema" where
  "fill_column t c s =
     (if t = ''admin_credentials'' \<and> c = ''totp_enabled_at''
      then s\<lparr>sc_credentials := map (\<lambda>x. x\<lparr>cred_totp_enabled_at := None\<rparr>) (sc_credentials s)\<rparr> else s)"

fun exec :: "string \<Rightarrow> ddl \<Rightarrow> schema \<Rightarrow> schema res" where
  "exec r (CreateRole x literal) s =
     (if r \<noteq> SUPERUSER then Inl ddl_error
      else if role_exists x s then (if unquoted literal = None then Inl ddl_error else Inr s)
      else (case unquoted literal of
              None \<Rightarrow> Inl ddl_error
            | Some pw \<Rightarrow> Inr (s\<lparr>sc_roles := sc_roles s @ [(x, pw)]\<rparr>)))"
| "exec r (DropRole x) s =
     (if r \<noteq> SUPERUSER then Inl ddl_error
      else if x \<notin> fst ` set (sc_roles s) then Inr s
      else if depends_on_role x s then Inl ddl_error
      else Inr (s\<lparr>sc_roles := filter (\<lambda>(y, pw). y \<noteq> x) (sc_roles s)\<rparr>))"
| "exec r (Grant ps xs g) s =
     (if \<not> role_exists g s \<or> \<not> list_all (\<lambda>x. object_exists x s \<and> may_grant r x s) xs then Inl ddl_error
      else Inr (s\<lparr>sc_acl := sc_acl s @ filter (\<lambda>e. e \<notin> set (sc_acl s)) [(x, p, g). x \<leftarrow> xs, p \<leftarrow> ps]\<rparr>))"
| "exec r (Revoke ps xs g) s =
     (if \<not> role_exists g s \<or> \<not> list_all (\<lambda>x. object_exists x s \<and> may_grant r x s) xs then Inl ddl_error
      else Inr (s\<lparr>sc_acl := filter (\<lambda>(x, p, g'). \<not> (x \<in> set xs \<and> p \<in> set ps \<and> g' = g)) (sc_acl s)\<rparr>))"
| "exec r (RevokeAll xs g) s =
     (if \<not> role_exists g s \<or> \<not> list_all (\<lambda>x. object_exists x s \<and> may_grant r x s) xs then Inl ddl_error
      else Inr (s\<lparr>sc_acl := filter (\<lambda>(x, p, g'). \<not> (x \<in> set xs \<and> g' = g)) (sc_acl s)\<rparr>))"
| "exec r (AlterOwner t x) s =
     (if \<not> owns_table r t s \<or> \<not> role_exists x s \<or> r \<noteq> SUPERUSER \<and> r \<noteq> x then Inl ddl_error
      else Inr (alter t (\<lambda>y. y\<lparr>tbl_owner := x\<rparr>) s))"
| "exec r (CreateExtension x) s =
     (if x \<in> set (sc_extensions s) then Inr s
      else if \<not> may r CREATE TheDatabase s then Inl ddl_error
      else Inr (s\<lparr>sc_extensions := sc_extensions s @ [x]\<rparr>))"
| "exec r (CreateEnum e vs) s =
     (if enum_named e s \<noteq> None then Inr s
      else if \<not> may r CREATE PublicSchema s then Inl ddl_error
      else Inr (s\<lparr>sc_enums := sc_enums s @ [\<lparr>enu_name = e, enu_owner = r, enu_values = vs\<rparr>]\<rparr>))"
| "exec r (AddEnumValue e v) s =
     (case enum_named e s of
        None \<Rightarrow> Inl ddl_error
      | Some y \<Rightarrow>
          if r \<notin> {SUPERUSER, enu_owner y} then Inl ddl_error
          else if v \<in> set (enu_values y) then Inr s
          else Inr (s\<lparr>sc_enums := map (\<lambda>x. if enu_name x = e then x\<lparr>enu_values := enu_values x @ [v]\<rparr> else x) (sc_enums s)\<rparr>))"
| "exec r (DropEnum e) s =
     (case enum_named e s of
        None \<Rightarrow> Inr s
      | Some y \<Rightarrow>
          if r \<notin> {SUPERUSER, enu_owner y} \<or> list_ex (\<lambda>t. list_ex (\<lambda>c. col_type c = EnumType e) (tbl_columns t)) (sc_tables s)
          then Inl ddl_error
          else Inr (s\<lparr>sc_enums := filter (\<lambda>x. enu_name x \<noteq> e) (sc_enums s)\<rparr>))"
| "exec r (CreateTable t cs ks) s =
     (if \<not> may r CREATE PublicSchema s \<or> \<not> table_ok (new_table r t cs ks) s then Inl ddl_error
      else Inr (s\<lparr>sc_tables := sc_tables s @ [new_table r t cs ks]\<rparr>))"
| "exec r (DropTable t) s =
     (if \<not> owns_table r t s \<or> list_ex (\<lambda>y. tbl_name y \<noteq> t \<and> list_ex (refers_to t) (tbl_constraints y)) (sc_tables s)
      then Inl ddl_error
      else Inr (s\<lparr>sc_tables := filter (\<lambda>y. tbl_name y \<noteq> t) (sc_tables s),
                  sc_acl := filter (\<lambda>(x, p, g). x \<noteq> OnTable t) (sc_acl s)\<rparr>))"
| "exec r (CreateIndex i t cs) s =
     (if \<not> owns_table r t s \<or> i \<in> set (relation_names s)
         \<or> (case table_named t s of Some y \<Rightarrow> \<not> set cs \<subseteq> set (column_names y) | None \<Rightarrow> True) then Inl ddl_error
      else Inr (alter t (\<lambda>y. y\<lparr>tbl_indexes := tbl_indexes y @ [(i, cs)]\<rparr>) s))"
| "exec r (DropIndex i t) s =
     (if \<not> owns_table r t s \<or> (case table_named t s of Some y \<Rightarrow> i \<notin> fst ` set (tbl_indexes y) | None \<Rightarrow> True) then Inl ddl_error
      else Inr (alter t (\<lambda>y. y\<lparr>tbl_indexes := filter (\<lambda>(n, cs). n \<noteq> i) (tbl_indexes y)\<rparr>) s))"
| "exec r (AddColumn t c) s =
     (if \<not> owns_table r t s \<or> \<not> type_exists (col_type c) s
         \<or> (case table_named t s of Some y \<Rightarrow> col_name c \<in> set (column_names y) | None \<Rightarrow> True) then Inl ddl_error
      else Inr (alter t (\<lambda>y. y\<lparr>tbl_columns := tbl_columns y @ [c]\<rparr>) (fill_column t (col_name c) s)))"
| "exec r (DropColumn t c) s =
     (if \<not> owns_table r t s \<or> (case table_named t s of Some y \<Rightarrow> c \<notin> set (column_names y) | None \<Rightarrow> True) \<or> kept_by_others t [c] s
      then Inl ddl_error
      else Inr (alter t (without_column c) s))"
| "exec r (AlterNullable t c b) s =
     (if \<not> owns_table r t s \<or> (case table_named t s of Some y \<Rightarrow> c \<notin> set (column_names y) | None \<Rightarrow> True) then Inl ddl_error
      else if \<not> b \<and> t = ''admin_credentials'' \<and> c = ''totp_secret_enc'' \<and> seedless s then Inl IntegrityError
      else Inr (alter t (set_nullable c b) s))"
| "exec r (AddConstraint t k) s =
     (if \<not> owns_table r t s
         \<or> (case table_named t s of
              Some y \<Rightarrow> \<not> constraint_ok y s k \<or> constraint_name k \<in> set (map constraint_name (tbl_constraints y))
            | None \<Rightarrow> True) then Inl ddl_error
      else Inr (alter t (\<lambda>y. y\<lparr>tbl_constraints := tbl_constraints y @ [k]\<rparr>) s))"
| "exec r (DropConstraint t n) s =
     (if \<not> owns_table r t s
         \<or> (case table_named t s of
              Some y \<Rightarrow> (case find (\<lambda>k. constraint_name k = n) (tbl_constraints y) of
                            None \<Rightarrow> True | Some k \<Rightarrow> key_columns k \<noteq> None \<and> kept_by_others t (constraint_columns k) s)
            | None \<Rightarrow> True) then Inl ddl_error
      else Inr (alter t (\<lambda>y. y\<lparr>tbl_constraints := filter (\<lambda>k. constraint_name k \<noteq> n) (tbl_constraints y)\<rparr>) s))"
| "exec r EnableStoredSeeds s =
     (if \<not> may r UPDATE (OnTable ''admin_credentials'') s then Inl ddl_error
      else Inr (s\<lparr>sc_credentials := map (\<lambda>c. if cred_totp_secret_enc c \<noteq> None then c\<lparr>cred_totp_enabled_at := Some (sc_now s)\<rparr> else c)
                    (sc_credentials s)\<rparr>))"
| "exec r RequireSeeds s =
     (if \<not> may r SELECT (OnTable ''admin_credentials'') s then Inl ddl_error
      else if seedless s then Inl (OtherError ''RuntimeError'')
      else Inr s)"

fun exec_all :: "string \<Rightarrow> ddl list \<Rightarrow> schema \<Rightarrow> schema res" where
  "exec_all r [] s = Inr s"
| "exec_all r (x # xs) s = bind_res (exec r x s) (exec_all r xs)"

lemma exec_all_append: "exec_all r (xs @ ys) s = bind_res (exec_all r xs s) (exec_all r ys)"
  by (induction xs arbitrary: s) (auto simp: bind_res_def split: sum.splits)

end
