(* ===== verification/Metadata.thy ===== *)
theory Metadata
  imports Schema
begin

text \<open>
  The tables as \<open>src/app/models.py\<close> declares them to SQLAlchemy (\<open>Base.metadata\<close>): columns with type,
  nullability and server default, keys, checks, foreign keys and indexes. A column is nullable when its
  annotation is optional and it is no primary key; \<open>index=True\<close> makes an index \<open>ix_<table>_<column>\<close>.
\<close>

section \<open>Columns\<close>

definition required :: "string \<Rightarrow> sql_type \<Rightarrow> column" where
  "required n t = \<lparr>col_name = n, col_type = t, col_nullable = False, col_default = None\<rparr>"

definition optional :: "string \<Rightarrow> sql_type \<Rightarrow> column" where
  "optional n t = \<lparr>col_name = n, col_type = t, col_nullable = True, col_default = None\<rparr>"

definition defaulted :: "string \<Rightarrow> sql_type \<Rightarrow> string \<Rightarrow> column" where
  "defaulted n t d = \<lparr>col_name = n, col_type = t, col_nullable = False, col_default = Some d\<rparr>"

text \<open>The metadata names neither owner nor primary key.\<close>

definition orm_table ::
  "string \<Rightarrow> column list \<Rightarrow> string list \<Rightarrow> sql_constraint list \<Rightarrow> (string \<times> string list) list \<Rightarrow> table" where
  "orm_table t cs pk ks ix =
     \<lparr>tbl_name = t, tbl_owner = [], tbl_columns = cs, tbl_constraints = PrimaryKey [] pk # ks, tbl_indexes = ix\<rparr>"

section \<open>Tables\<close>

definition orm_users :: table where
  "orm_users = orm_table ''users''
     [required ''id'' UuidType,
      required ''email'' CitextType,
      optional ''google_sub'' (StringType 255),
      required ''display_name'' (StringType 255),
      optional ''ou_path'' (StringType 1024),
      defaulted ''role'' (EnumType ''user_role'') ''user'',
      defaulted ''is_active'' BooleanType ''true'',
      required ''source'' (EnumType ''user_source''),
      defaulted ''created_at'' DateTimeType ''now()'',
      optional ''last_login_at'' DateTimeType]
     [''id'']
     [UniqueKey ''uq_users_email'' [''email''],
      UniqueKey ''uq_users_google_sub'' [''google_sub'']]
     []"

definition orm_admin_credentials :: table where
  "orm_admin_credentials = orm_table ''admin_credentials''
     [required ''user_id'' UuidType,
      required ''password_hash'' TextType,
      optional ''totp_secret_enc'' BinaryType,
      optional ''totp_enabled_at'' DateTimeType,
      defaulted ''failed_attempts'' IntegerType ''0'',
      optional ''locked_until'' DateTimeType]
     [''user_id'']
     [CheckThat ''ck_admin_credentials_attempts'' ''failed_attempts >= 0'',
      ForeignKey ''fk_admin_credentials_user_id'' [''user_id''] ''users'' [''id''] None]
     []"

definition orm_admin_login_rate_limits :: table where
  "orm_admin_login_rate_limits = orm_table ''admin_login_rate_limits''
     [required ''ip_hash'' BinaryType,
      required ''window_started_at'' DateTimeType,
      defaulted ''attempts'' IntegerType ''0'',
      optional ''blocked_until'' DateTimeType]
     [''ip_hash'']
     [CheckThat ''ck_admin_login_rate_limits_attempts'' ''attempts >= 0'',
      CheckThat ''ck_admin_login_rate_limits_ip_hash_length'' ''octet_length(ip_hash) = 32'']
     []"

definition orm_sessions :: table where
  "orm_sessions = orm_table ''sessions''
     [required ''id_hash'' BinaryType,
      required ''user_id'' UuidType,
      defaulted ''created_at'' DateTimeType ''now()'',
      required ''expires_at'' DateTimeType,
      defaulted ''last_seen_at'' DateTimeType ''now()'',
      required ''idle_expires_at'' DateTimeType,
      required ''ip_hash'' BinaryType,
      required ''ua_hash'' BinaryType,
      optional ''revoked_at'' DateTimeType]
     [''id_hash'']
     [CheckThat ''ck_sessions_expires_after_created'' ''expires_at > created_at'',
      CheckThat ''ck_sessions_idle_expires_after_created'' ''idle_expires_at > created_at'',
      CheckThat ''ck_sessions_id_hash_length'' ''octet_length(id_hash) = 32'',
      CheckThat ''ck_sessions_ip_hash_length'' ''octet_length(ip_hash) = 32'',
      CheckThat ''ck_sessions_ua_hash_length'' ''octet_length(ua_hash) = 32'',
      ForeignKey ''fk_sessions_user_id'' [''user_id''] ''users'' [''id''] None]
     [(''ix_sessions_user_id'', [''user_id''])]"

definition orm_platform_settings :: table where
  "orm_platform_settings = orm_table ''platform_settings''
     [required ''key'' (StringType 64),
      required ''ciphertext'' BinaryType,
      required ''nonce'' BinaryType,
      defaulted ''schema_version'' IntegerType ''1'',
      defaulted ''updated_at'' DateTimeType ''now()'',
      required ''updated_by'' UuidType]
     [''key'']
     [CheckThat ''ck_platform_settings_nonce_length'' ''octet_length(nonce) = 12'',
      CheckThat ''ck_platform_settings_schema_version'' ''schema_version > 0'',
      ForeignKey ''fk_platform_settings_updated_by'' [''updated_by''] ''users'' [''id''] None]
     []"

definition orm_audit_log :: table where
  "orm_audit_log = orm_table ''audit_log''
     [required ''id'' UuidType,
      optional ''actor_id'' UuidType,
      required ''action'' (StringType 128),
      optional ''target_type'' (StringType 64),
      optional ''target_id'' (StringType 255),
      required ''ip_hash'' BinaryType,
      defaulted ''at'' DateTimeType ''now()'',
      defaulted ''meta'' JsonbType ''{}'']
     [''id'']
     [CheckThat ''ck_audit_log_ip_hash_length'' ''octet_length(ip_hash) = 32'',
      ForeignKey ''fk_audit_log_actor_id'' [''actor_id''] ''users'' [''id''] None]
     [(''ix_audit_log_actor_id'', [''actor_id'']), (''ix_audit_log_action'', [''action''])]"

definition orm_subjects :: table where
  "orm_subjects = orm_table ''subjects''
     [required ''id'' UuidType,
      required ''kind'' (EnumType ''subject_kind''),
      required ''value_norm'' (StringType 4096),
      required ''value_display'' (StringType 4096),
      optional ''first_scanned_at'' DateTimeType,
      optional ''last_scanned_at'' DateTimeType,
      optional ''linked_user_id'' UuidType]
     [''id'']
     [UniqueKey ''uq_subjects_kind_value_norm'' [''kind'', ''value_norm''],
      ForeignKey ''fk_subjects_linked_user_id'' [''linked_user_id''] ''users'' [''id''] None]
     [(''ix_subjects_linked_user_id'', [''linked_user_id''])]"

definition orm_scans :: table where
  "orm_scans = orm_table ''scans''
     [required ''id'' UuidType,
      required ''subject_id'' UuidType,
      optional ''requested_by'' UuidType,
      required ''trigger'' (EnumType ''scan_trigger''),
      defaulted ''status'' (EnumType ''scan_status'') ''pending'',
      optional ''started_at'' DateTimeType,
      optional ''finished_at'' DateTimeType,
      defaulted ''result_count'' IntegerType ''0'',
      defaulted ''new_count'' IntegerType ''0'',
      optional ''quota'' IntegerType,
      defaulted ''truncated'' BooleanType ''false'',
      optional ''error'' TextType]
     [''id'']
     [CheckThat ''ck_scans_result_count'' ''result_count >= 0'',
      CheckThat ''ck_scans_new_count'' ''new_count >= 0'',
      CheckThat ''ck_scans_quota'' ''quota IS NULL OR quota >= 0'',
      ForeignKey ''fk_scans_subject_id'' [''subject_id''] ''subjects'' [''id''] None,
      ForeignKey ''fk_scans_requested_by'' [''requested_by''] ''users'' [''id''] None]
     [(''ix_scans_subject_id'', [''subject_id'']), (''ix_scans_requested_by'', [''requested_by''])]"

definition orm_breach_sources :: table where
  "orm_breach_sources = orm_table ''breach_sources''
     [required ''id'' UuidType,
      required ''name'' (StringType 1024),
      required ''name_norm'' (StringType 1024),
      optional ''breach_date'' DateType,
      required ''breach_date_norm'' DateType,
      optional ''unverified'' BooleanType,
      optional ''passwordless'' BooleanType,
      optional ''compilation'' BooleanType,
      defaulted ''extra'' JsonbType ''{}'']
     [''id'']
     [UniqueKey ''uq_breach_sources_identity'' [''name_norm'', ''breach_date_norm'']]
     []"

definition orm_findings :: table where
  "orm_findings = orm_table ''findings''
     [required ''id'' UuidType,
      required ''subject_id'' UuidType,
      required ''source_id'' UuidType,
      optional ''email'' (StringType 320),
      optional ''username'' (StringType 1024),
      optional ''phone'' (StringType 64),
      optional ''origin'' (StringType 4096),
      optional ''identity_key'' BinaryType,
      optional ''password_ciphertext'' BinaryType,
      optional ''password_nonce'' BinaryType,
      optional ''password_sha256'' BinaryType,
      optional ''password_mask'' (StringType 1024),
      optional ''password_len'' IntegerType,
      optional ''password_charset'' (StringType 255),
      defaulted ''fields'' JsonbType ''[]'',
      defaulted ''raw'' JsonbType ''{}'',
      required ''fingerprint'' BinaryType,
      defaulted ''severity'' (EnumType ''finding_severity'') ''medium'',
      defaulted ''first_seen_at'' DateTimeType ''now()'',
      defaulted ''last_seen_at'' DateTimeType ''now()'',
      optional ''remediated_at'' DateTimeType,
      optional ''remediated_by'' UuidType,
      optional ''remediation_note'' TextType,
      optional ''superseded_by_id'' UuidType,
      optional ''notified_at'' DateTimeType]
     [''id'']
     [UniqueKey ''uq_findings_fingerprint'' [''fingerprint''],
      CheckThat ''ck_findings_fingerprint_length'' ''octet_length(fingerprint) = 32'',
      CheckThat ''ck_findings_identity_key_length'' ''identity_key IS NULL OR octet_length(identity_key) = 32'',
      CheckThat ''ck_findings_password_sha256_length'' ''password_sha256 IS NULL OR octet_length(password_sha256) = 32'',
      CheckThat ''ck_findings_password_nonce_length'' ''password_nonce IS NULL OR octet_length(password_nonce) = 12'',
      CheckThat ''ck_findings_password_len'' ''password_len IS NULL OR password_len >= 0'',
      ForeignKey ''fk_findings_subject_id'' [''subject_id''] ''subjects'' [''id''] None,
      ForeignKey ''fk_findings_source_id'' [''source_id''] ''breach_sources'' [''id''] None,
      ForeignKey ''fk_findings_remediated_by'' [''remediated_by''] ''users'' [''id''] None,
      ForeignKey ''fk_findings_superseded_by_id'' [''superseded_by_id''] ''findings'' [''id''] None]
     [(''ix_findings_subject_id'', [''subject_id'']), (''ix_findings_source_id'', [''source_id'']), (''ix_findings_subject_remediation'', [''subject_id'', ''remediated_at''])]"

definition orm_finding_events :: table where
  "orm_finding_events = orm_table ''finding_events''
     [required ''id'' UuidType,
      required ''finding_id'' UuidType,
      required ''event'' (EnumType ''finding_event_type''),
      optional ''actor_id'' UuidType,
      defaulted ''at'' DateTimeType ''now()'',
      defaulted ''meta'' JsonbType ''{}'']
     [''id'']
     [ForeignKey ''fk_finding_events_finding_id'' [''finding_id''] ''findings'' [''id''] None,
      ForeignKey ''fk_finding_events_actor_id'' [''actor_id''] ''users'' [''id''] None]
     [(''ix_finding_events_finding_id'', [''finding_id''])]"

definition orm_scan_batches :: table where
  "orm_scan_batches = orm_table ''scan_batches''
     [required ''id'' UuidType,
      required ''target_type'' (EnumType ''batch_target''),
      required ''target'' JsonbType,
      defaulted ''status'' (EnumType ''batch_status'') ''pending'',
      required ''created_by'' UuidType,
      defaulted ''total_count'' IntegerType ''0'',
      defaulted ''completed_count'' IntegerType ''0'',
      defaulted ''failed_count'' IntegerType ''0'',
      defaulted ''created_at'' DateTimeType ''now()'',
      optional ''started_at'' DateTimeType,
      optional ''finished_at'' DateTimeType]
     [''id'']
     [CheckThat ''ck_scan_batches_total_count'' ''total_count >= 0'',
      CheckThat ''ck_scan_batches_completed_count'' ''completed_count >= 0'',
      CheckThat ''ck_scan_batches_failed_count'' ''failed_count >= 0'',
      ForeignKey ''fk_scan_batches_created_by'' [''created_by''] ''users'' [''id''] None]
     [(''ix_scan_batches_created_by'', [''created_by''])]"

definition orm_scan_queue :: table where
  "orm_scan_queue = orm_table ''scan_queue''
     [required ''id'' UuidType,
      required ''batch_id'' UuidType,
      required ''subject_id'' UuidType,
      defaulted ''status'' (EnumType ''queue_status'') ''queued'',
      defaulted ''attempts'' IntegerType ''0'',
      optional ''locked_by'' (StringType 255),
      optional ''locked_at'' DateTimeType,
      optional ''last_error'' (StringType 255),
      defaulted ''created_at'' DateTimeType ''now()'',
      optional ''finished_at'' DateTimeType]
     [''id'']
     [UniqueKey ''uq_scan_queue_batch_subject'' [''batch_id'', ''subject_id''],
      CheckThat ''ck_scan_queue_attempts'' ''attempts >= 0'',
      ForeignKey ''fk_scan_queue_batch_id'' [''batch_id''] ''scan_batches'' [''id''] None,
      ForeignKey ''fk_scan_queue_subject_id'' [''subject_id''] ''subjects'' [''id''] None]
     [(''ix_scan_queue_batch_id'', [''batch_id'']), (''ix_scan_queue_subject_id'', [''subject_id'']), (''ix_scan_queue_claim'', [''status'', ''created_at''])]"

definition orm_schedules :: table where
  "orm_schedules = orm_table ''schedules''
     [required ''id'' UuidType,
      required ''kind'' (EnumType ''schedule_kind''),
      required ''target'' (StringType 1024),
      required ''cron'' (StringType 255),
      required ''timezone'' (StringType 255),
      defaulted ''enabled'' BooleanType ''true'',
      defaulted ''misfire_grace_seconds'' IntegerType ''300'',
      optional ''last_run_at'' DateTimeType,
      optional ''last_batch_id'' UuidType,
      required ''next_run_at'' DateTimeType,
      optional ''last_error'' (StringType 255),
      required ''created_by'' UuidType,
      defaulted ''created_at'' DateTimeType ''now()'']
     [''id'']
     [CheckThat ''ck_schedules_misfire_grace'' ''misfire_grace_seconds >= 0'',
      ForeignKey ''fk_schedules_last_batch_id'' [''last_batch_id''] ''scan_batches'' [''id''] (Some ''SET NULL''),
      ForeignKey ''fk_schedules_created_by'' [''created_by''] ''users'' [''id''] None]
     [(''ix_schedules_last_batch_id'', [''last_batch_id'']), (''ix_schedules_created_by'', [''created_by'']), (''ix_schedules_due'', [''enabled'', ''next_run_at''])]"

definition orm_notifications :: table where
  "orm_notifications = orm_table ''notifications''
     [required ''id'' UuidType,
      required ''user_id'' UuidType,
      required ''template'' (StringType 64),
      required ''finding_ids'' JsonbType,
      defaulted ''status'' (EnumType ''notification_status'') ''pending'',
      required ''dedupe_key'' BinaryType,
      defaulted ''attempts'' IntegerType ''0'',
      optional ''error'' (StringType 255),
      defaulted ''created_at'' DateTimeType ''now()'',
      optional ''sent_at'' DateTimeType]
     [''id'']
     [UniqueKey ''uq_notifications_dedupe_key'' [''dedupe_key''],
      CheckThat ''ck_notifications_dedupe_key'' ''octet_length(dedupe_key) = 32'',
      CheckThat ''ck_notifications_attempts'' ''attempts >= 0'',
      ForeignKey ''fk_notifications_user_id'' [''user_id''] ''users'' [''id''] None]
     [(''ix_notifications_user_id'', [''user_id'']), (''ix_notifications_claim'', [''status'', ''created_at'']), (''ix_notifications_user_sent'', [''user_id'', ''sent_at''])]"

definition orm_watchlist :: table where
  "orm_watchlist = orm_table ''watchlist''
     [required ''id'' UuidType,
      optional ''subject_id'' UuidType,
      optional ''user_id'' UuidType,
      defaulted ''alert_soc'' BooleanType ''true'',
      defaulted ''alert_user'' BooleanType ''true'',
      defaulted ''alert_wazuh'' BooleanType ''true'',
      defaulted ''alert_iris'' BooleanType ''true'',
      defaulted ''enabled'' BooleanType ''true'',
      required ''created_by'' UuidType,
      defaulted ''created_at'' DateTimeType ''now()'']
     [''id'']
     [CheckThat ''ck_watchlist_exactly_one_target'' ''(subject_id IS NOT NULL) <> (user_id IS NOT NULL)'',
      UniqueKey ''uq_watchlist_subject_id'' [''subject_id''],
      UniqueKey ''uq_watchlist_user_id'' [''user_id''],
      ForeignKey ''fk_watchlist_subject_id'' [''subject_id''] ''subjects'' [''id''] None,
      ForeignKey ''fk_watchlist_user_id'' [''user_id''] ''users'' [''id''] None,
      ForeignKey ''fk_watchlist_created_by'' [''created_by''] ''users'' [''id''] None]
     [(''ix_watchlist_created_by'', [''created_by''])]"

definition orm_alert_outbox :: table where
  "orm_alert_outbox = orm_table ''alert_outbox''
     [required ''id'' UuidType,
      required ''sink'' (EnumType ''alert_sink_name''),
      required ''payload'' JsonbType,
      defaulted ''status'' (EnumType ''alert_outbox_status'') ''pending'',
      required ''dedupe_key'' BinaryType,
      defaulted ''attempts'' IntegerType ''0'',
      defaulted ''next_attempt_at'' DateTimeType ''now()'',
      optional ''last_error'' (StringType 255),
      defaulted ''created_at'' DateTimeType ''now()'',
      optional ''delivered_at'' DateTimeType]
     [''id'']
     [UniqueKey ''uq_alert_outbox_dedupe_key'' [''dedupe_key''],
      CheckThat ''ck_alert_outbox_dedupe_key'' ''octet_length(dedupe_key) = 32'',
      CheckThat ''ck_alert_outbox_attempts'' ''attempts >= 0'']
     [(''ix_alert_outbox_due'', [''status'', ''next_attempt_at''])]"

definition orm_branding :: table where
  "orm_branding = orm_table ''branding''
     [required ''id'' IntegerType,
      optional ''organization_name'' (StringType 120),
      optional ''logo'' BinaryType,
      optional ''logo_content_type'' (StringType 64),
      optional ''logo_sha256'' (StringType 64),
      defaulted ''updated_at'' DateTimeType ''now()'']
     [''id'']
     [CheckThat ''ck_branding_single_row'' ''id = 1'',
      CheckThat ''ck_branding_logo_size'' ''logo IS NULL OR octet_length(logo) <= 1048576'']
     []"

definition metadata :: "table list" where
  "metadata = [orm_users, orm_admin_credentials, orm_admin_login_rate_limits, orm_sessions, orm_platform_settings, orm_audit_log, orm_subjects, orm_scans, orm_breach_sources, orm_findings, orm_finding_events, orm_scan_batches, orm_scan_queue, orm_schedules, orm_notifications, orm_watchlist, orm_alert_outbox, orm_branding]"

definition metadata_enums :: "(string \<times> string list) list" where
  "metadata_enums = [
     (''user_role'', [''user'', ''analyst'', ''super_admin'']),
     (''user_source'', [''google'', ''workspace_sync'', ''manual'']),
     (''subject_kind'', [''email'', ''domain'', ''username'', ''phone'', ''origin'', ''password'']),
     (''scan_trigger'', [''manual'', ''self'', ''batch'', ''scheduled'']),
     (''scan_status'', [''pending'', ''running'', ''succeeded'', ''failed'']),
     (''finding_severity'', [''low'', ''medium'', ''high'']),
     (''finding_event_type'', [''discovered'', ''remediated'', ''unremediated'', ''re_leaked'', ''password_viewed'', ''notified'', ''alerted'']),
     (''batch_target'', [''ou'', ''domain'', ''selection'']),
     (''batch_status'', [''pending'', ''running'', ''succeeded'', ''partial'', ''failed'']),
     (''queue_status'', [''queued'', ''running'', ''succeeded'', ''failed'']),
     (''schedule_kind'', [''scan_ou'', ''scan_domain'', ''digest'']),
     (''notification_status'', [''pending'', ''dry_run'', ''sent'', ''suppressed'', ''failed'']),
     (''alert_sink_name'', [''wazuh'', ''dfir_iris'']),
     (''alert_outbox_status'', [''pending'', ''delivered'', ''dead_letter''])]"

end
