(* ===== verification/Migrations.thy ===== *)
theory Migrations
  imports Metadata
begin

text \<open>
  The migrations of the database, \<open>src/migrations/versions\<close>, as lists of statements, and how Alembic and
  \<open>src/migrations/env.py\<close> run them: along the chain of \<open>down_revision\<close>, in one transaction, with the
  revision kept in \<open>alembic_version\<close>. \<open>upgrade_N\<close> and \<open>downgrade_N\<close> are the functions of revision N.
\<close>

section \<open>Bootstrap of the roles\<close>

abbreviation MIGRATOR :: string where "MIGRATOR \<equiv> ''leakcheck_migrator''"

abbreviation RUNTIME :: string where "RUNTIME \<equiv> ''leakcheck_runtime''"

type_synonym environ = "string \<rightharpoonup> ustr"

abbreviation runtime_error :: exn where "runtime_error \<equiv> OtherError ''RuntimeError''"

definition doubled_quotes :: "ustr \<Rightarrow> ustr" where
  "doubled_quotes v = concat (map (\<lambda>c. if c = 39 then [39, 39] else [c]) v)"

definition bootstrap_password :: "environ \<Rightarrow> string \<Rightarrow> ustr res" where
  "bootstrap_password E name =
     (case E name of
        None \<Rightarrow> Inl runtime_error
      | Some v \<Rightarrow>
          if length v < 32 \<or> startswith ''replace-with-'' v then Inl runtime_error
          else Inr (doubled_quotes v))"

text \<open>\<open>[A-Za-z_][A-Za-z0-9_]*\<close>\<close>

definition word_start :: "nat \<Rightarrow> bool" where
  "word_start c \<longleftrightarrow> 65 \<le> c \<and> c \<le> 90 \<or> 97 \<le> c \<and> c \<le> 122 \<or> c = 95"

definition plain_identifier :: "ustr \<Rightarrow> bool" where
  "plain_identifier v \<longleftrightarrow> v \<noteq> [] \<and> word_start (hd v) \<and> list_all (\<lambda>c. word_start c \<or> 48 \<le> c \<and> c \<le> 57) (tl v)"

definition upgrade_0001 :: "environ \<Rightarrow> ustr \<Rightarrow> ddl list res" where
  "upgrade_0001 E database_name =
     bind_res (guard_res (plain_identifier database_name) runtime_error) (\<lambda>_.
     bind_res (bootstrap_password E ''LC_MIGRATOR_DB_PASSWORD'') (\<lambda>migrator_password.
     bind_res (bootstrap_password E ''LC_RUNTIME_DB_PASSWORD'') (\<lambda>runtime_password.
     Inr [
       CreateRole MIGRATOR migrator_password,
       CreateRole RUNTIME runtime_password,
       Grant [CONNECT] [TheDatabase] MIGRATOR,
       Grant [CREATE] [TheDatabase] MIGRATOR,
       Grant [CONNECT] [TheDatabase] RUNTIME,
       Revoke [CREATE] [PublicSchema] ''PUBLIC'',
       Grant [USAGE, CREATE] [PublicSchema] MIGRATOR,
       Grant [USAGE] [PublicSchema] RUNTIME,
       AlterOwner ''alembic_version'' MIGRATOR,
       Grant [SELECT] [OnTable ''alembic_version''] RUNTIME])))"

definition downgrade_0001 :: "ddl list" where
  "downgrade_0001 = [DropRole RUNTIME, DropRole MIGRATOR]"

section \<open>The later revisions\<close>

definition users_columns :: "column list" where
  "users_columns = [
     required ''id'' UuidType,
     required ''email'' CitextType,
     optional ''google_sub'' (StringType 255),
     required ''display_name'' (StringType 255),
     optional ''ou_path'' (StringType 1024),
     defaulted ''role'' (EnumType ''user_role'') ''user'',
     defaulted ''is_active'' BooleanType ''true'',
     required ''source'' (EnumType ''user_source''),
     defaulted ''created_at'' DateTimeType ''now()'',
     optional ''last_login_at'' DateTimeType]"

definition users_keys :: "sql_constraint list" where
  "users_keys = [
     PrimaryKey ''pk_users'' [''id''],
     UniqueKey ''uq_users_email'' [''email''],
     UniqueKey ''uq_users_google_sub'' [''google_sub'']]"

definition admin_credentials_columns :: "column list" where
  "admin_credentials_columns = [
     required ''user_id'' UuidType,
     required ''password_hash'' TextType,
     required ''totp_secret_enc'' BinaryType,
     defaulted ''failed_attempts'' IntegerType ''0'',
     optional ''locked_until'' DateTimeType]"

definition admin_credentials_keys :: "sql_constraint list" where
  "admin_credentials_keys = [
     CheckThat ''ck_admin_credentials_attempts'' ''failed_attempts >= 0'',
     ForeignKey ''fk_admin_credentials_user_id'' [''user_id''] ''users'' [''id''] None,
     PrimaryKey ''pk_admin_credentials'' [''user_id'']]"

definition sessions_columns :: "column list" where
  "sessions_columns = [
     required ''id_hash'' BinaryType,
     required ''user_id'' UuidType,
     defaulted ''created_at'' DateTimeType ''now()'',
     required ''expires_at'' DateTimeType,
     defaulted ''last_seen_at'' DateTimeType ''now()'',
     required ''idle_expires_at'' DateTimeType,
     required ''ip_hash'' BinaryType,
     required ''ua_hash'' BinaryType,
     optional ''revoked_at'' DateTimeType]"

definition sessions_keys :: "sql_constraint list" where
  "sessions_keys = [
     CheckThat ''ck_sessions_expires_after_created'' ''expires_at > created_at'',
     CheckThat ''ck_sessions_idle_expires_after_created'' ''idle_expires_at > created_at'',
     CheckThat ''ck_sessions_id_hash_length'' ''octet_length(id_hash) = 32'',
     CheckThat ''ck_sessions_ip_hash_length'' ''octet_length(ip_hash) = 32'',
     CheckThat ''ck_sessions_ua_hash_length'' ''octet_length(ua_hash) = 32'',
     ForeignKey ''fk_sessions_user_id'' [''user_id''] ''users'' [''id''] None,
     PrimaryKey ''pk_sessions'' [''id_hash'']]"

definition upgrade_0002 :: "ddl list" where
  "upgrade_0002 = [
     CreateExtension ''citext'',
     CreateEnum ''user_role'' [''user'', ''analyst'', ''super_admin''],
     CreateEnum ''user_source'' [''google'', ''workspace_sync'', ''manual''],
     CreateTable ''users'' users_columns users_keys,
     CreateTable ''admin_credentials'' admin_credentials_columns admin_credentials_keys,
     CreateTable ''sessions'' sessions_columns sessions_keys,
     CreateIndex ''ix_sessions_user_id'' ''sessions'' [''user_id''],
     Grant [SELECT, INSERT, UPDATE] [OnTable ''users''] RUNTIME,
     Grant [SELECT, INSERT, UPDATE] [OnTable ''admin_credentials''] RUNTIME,
     Grant [SELECT, INSERT, UPDATE] [OnTable ''sessions''] RUNTIME]"

definition downgrade_0002 :: "ddl list" where
  "downgrade_0002 = [
     RevokeAll [OnTable ''sessions''] RUNTIME,
     RevokeAll [OnTable ''admin_credentials''] RUNTIME,
     RevokeAll [OnTable ''users''] RUNTIME,
     DropIndex ''ix_sessions_user_id'' ''sessions'',
     DropTable ''sessions'',
     DropTable ''admin_credentials'',
     DropTable ''users'',
     DropEnum ''user_source'',
     DropEnum ''user_role'']"

definition admin_login_rate_limits_columns :: "column list" where
  "admin_login_rate_limits_columns = [
     required ''ip_hash'' BinaryType,
     required ''window_started_at'' DateTimeType,
     defaulted ''attempts'' IntegerType ''0'',
     optional ''blocked_until'' DateTimeType]"

definition admin_login_rate_limits_keys :: "sql_constraint list" where
  "admin_login_rate_limits_keys = [
     CheckThat ''ck_admin_login_rate_limits_attempts'' ''attempts >= 0'',
     CheckThat ''ck_admin_login_rate_limits_ip_hash_length'' ''octet_length(ip_hash) = 32'',
     PrimaryKey ''pk_admin_login_rate_limits'' [''ip_hash'']]"

definition upgrade_0003 :: "ddl list" where
  "upgrade_0003 = [
     CreateTable ''admin_login_rate_limits'' admin_login_rate_limits_columns admin_login_rate_limits_keys,
     Grant [SELECT, INSERT, UPDATE] [OnTable ''admin_login_rate_limits''] RUNTIME]"

definition downgrade_0003 :: "ddl list" where
  "downgrade_0003 = [
     RevokeAll [OnTable ''admin_login_rate_limits''] RUNTIME,
     DropTable ''admin_login_rate_limits'']"

definition platform_settings_columns :: "column list" where
  "platform_settings_columns = [
     required ''key'' (StringType 64),
     required ''ciphertext'' BinaryType,
     required ''nonce'' BinaryType,
     defaulted ''schema_version'' IntegerType ''1'',
     defaulted ''updated_at'' DateTimeType ''now()'',
     required ''updated_by'' UuidType]"

definition platform_settings_keys :: "sql_constraint list" where
  "platform_settings_keys = [
     CheckThat ''ck_platform_settings_nonce_length'' ''octet_length(nonce) = 12'',
     CheckThat ''ck_platform_settings_schema_version'' ''schema_version > 0'',
     ForeignKey ''fk_platform_settings_updated_by'' [''updated_by''] ''users'' [''id''] None,
     PrimaryKey ''pk_platform_settings'' [''key'']]"

definition audit_log_columns :: "column list" where
  "audit_log_columns = [
     required ''id'' UuidType,
     optional ''actor_id'' UuidType,
     required ''action'' (StringType 128),
     optional ''target_type'' (StringType 64),
     optional ''target_id'' (StringType 255),
     required ''ip_hash'' BinaryType,
     defaulted ''at'' DateTimeType ''now()'',
     defaulted ''meta'' JsonbType ''{}'']"

definition audit_log_keys :: "sql_constraint list" where
  "audit_log_keys = [
     CheckThat ''ck_audit_log_ip_hash_length'' ''octet_length(ip_hash) = 32'',
     ForeignKey ''fk_audit_log_actor_id'' [''actor_id''] ''users'' [''id''] None,
     PrimaryKey ''pk_audit_log'' [''id'']]"

definition upgrade_0004 :: "ddl list" where
  "upgrade_0004 = [
     CreateTable ''platform_settings'' platform_settings_columns platform_settings_keys,
     CreateTable ''audit_log'' audit_log_columns audit_log_keys,
     CreateIndex ''ix_audit_log_action'' ''audit_log'' [''action''],
     CreateIndex ''ix_audit_log_actor_id'' ''audit_log'' [''actor_id''],
     Grant [SELECT, INSERT, UPDATE] [OnTable ''platform_settings''] RUNTIME,
     Grant [SELECT, INSERT] [OnTable ''audit_log''] RUNTIME,
     Revoke [UPDATE, DELETE, TRUNCATE] [OnTable ''audit_log''] RUNTIME]"

definition downgrade_0004 :: "ddl list" where
  "downgrade_0004 = [
     RevokeAll [OnTable ''audit_log''] RUNTIME,
     RevokeAll [OnTable ''platform_settings''] RUNTIME,
     DropIndex ''ix_audit_log_actor_id'' ''audit_log'',
     DropIndex ''ix_audit_log_action'' ''audit_log'',
     DropTable ''audit_log'',
     DropTable ''platform_settings'']"

definition subjects_columns :: "column list" where
  "subjects_columns = [
     required ''id'' UuidType,
     required ''kind'' (EnumType ''subject_kind''),
     required ''value_norm'' (StringType 4096),
     required ''value_display'' (StringType 4096),
     optional ''first_scanned_at'' DateTimeType,
     optional ''last_scanned_at'' DateTimeType,
     optional ''linked_user_id'' UuidType]"

definition subjects_keys :: "sql_constraint list" where
  "subjects_keys = [
     ForeignKey ''fk_subjects_linked_user_id'' [''linked_user_id''] ''users'' [''id''] None,
     PrimaryKey ''pk_subjects'' [''id''],
     UniqueKey ''uq_subjects_kind_value_norm'' [''kind'', ''value_norm'']]"

definition scans_columns :: "column list" where
  "scans_columns = [
     required ''id'' UuidType,
     required ''subject_id'' UuidType,
     optional ''requested_by'' UuidType,
     required ''trigger'' (EnumType ''scan_trigger''),
     defaulted ''status'' (EnumType ''scan_status'') ''pending'',
     optional ''started_at'' DateTimeType,
     optional ''finished_at'' DateTimeType,
     defaulted ''result_count'' IntegerType ''0'',
     defaulted ''new_count'' IntegerType ''0'',
     optional ''quota'' IntegerType,
     defaulted ''truncated'' BooleanType ''false'',
     optional ''error'' TextType]"

definition scans_keys :: "sql_constraint list" where
  "scans_keys = [
     CheckThat ''ck_scans_result_count'' ''result_count >= 0'',
     CheckThat ''ck_scans_new_count'' ''new_count >= 0'',
     CheckThat ''ck_scans_quota'' ''quota IS NULL OR quota >= 0'',
     ForeignKey ''fk_scans_requested_by'' [''requested_by''] ''users'' [''id''] None,
     ForeignKey ''fk_scans_subject_id'' [''subject_id''] ''subjects'' [''id''] None,
     PrimaryKey ''pk_scans'' [''id'']]"

definition breach_sources_columns :: "column list" where
  "breach_sources_columns = [
     required ''id'' UuidType,
     required ''name'' (StringType 1024),
     required ''name_norm'' (StringType 1024),
     optional ''breach_date'' DateType,
     required ''breach_date_norm'' DateType,
     optional ''unverified'' BooleanType,
     optional ''passwordless'' BooleanType,
     optional ''compilation'' BooleanType,
     defaulted ''extra'' JsonbType ''{}'']"

definition breach_sources_keys :: "sql_constraint list" where
  "breach_sources_keys = [
     PrimaryKey ''pk_breach_sources'' [''id''],
     UniqueKey ''uq_breach_sources_identity'' [''name_norm'', ''breach_date_norm'']]"

definition findings_columns :: "column list" where
  "findings_columns = [
     required ''id'' UuidType,
     required ''subject_id'' UuidType,
     required ''source_id'' UuidType,
     optional ''email'' (StringType 320),
     optional ''username'' (StringType 1024),
     optional ''phone'' (StringType 64),
     optional ''origin'' (StringType 4096),
     optional ''identity_key'' BinaryType,
     optional ''password_ciphertext'' BinaryType,
     optional ''password_nonce'' BinaryType,
     optional ''password_sha256'' BinaryType,
     optional ''password_mask'' (StringType 1024),
     optional ''password_len'' IntegerType,
     optional ''password_charset'' (StringType 255),
     defaulted ''fields'' JsonbType ''[]'',
     defaulted ''raw'' JsonbType ''{}'',
     required ''fingerprint'' BinaryType,
     defaulted ''severity'' (EnumType ''finding_severity'') ''medium'',
     defaulted ''first_seen_at'' DateTimeType ''now()'',
     defaulted ''last_seen_at'' DateTimeType ''now()'',
     optional ''remediated_at'' DateTimeType,
     optional ''remediated_by'' UuidType,
     optional ''remediation_note'' TextType,
     optional ''superseded_by_id'' UuidType,
     optional ''notified_at'' DateTimeType]"

definition findings_keys :: "sql_constraint list" where
  "findings_keys = [
     CheckThat ''ck_findings_fingerprint_length'' ''octet_length(fingerprint) = 32'',
     CheckThat ''ck_findings_identity_key_length'' ''identity_key IS NULL OR octet_length(identity_key) = 32'',
     CheckThat ''ck_findings_password_sha256_length'' ''password_sha256 IS NULL OR octet_length(password_sha256) = 32'',
     CheckThat ''ck_findings_password_nonce_length'' ''password_nonce IS NULL OR octet_length(password_nonce) = 12'',
     CheckThat ''ck_findings_password_len'' ''password_len IS NULL OR password_len >= 0'',
     ForeignKey ''fk_findings_remediated_by'' [''remediated_by''] ''users'' [''id''] None,
     ForeignKey ''fk_findings_source_id'' [''source_id''] ''breach_sources'' [''id''] None,
     ForeignKey ''fk_findings_subject_id'' [''subject_id''] ''subjects'' [''id''] None,
     ForeignKey ''fk_findings_superseded_by_id'' [''superseded_by_id''] ''findings'' [''id''] None,
     PrimaryKey ''pk_findings'' [''id''],
     UniqueKey ''uq_findings_fingerprint'' [''fingerprint'']]"

definition finding_events_columns :: "column list" where
  "finding_events_columns = [
     required ''id'' UuidType,
     required ''finding_id'' UuidType,
     required ''event'' (EnumType ''finding_event_type''),
     optional ''actor_id'' UuidType,
     defaulted ''at'' DateTimeType ''now()'',
     defaulted ''meta'' JsonbType ''{}'']"

definition finding_events_keys :: "sql_constraint list" where
  "finding_events_keys = [
     ForeignKey ''fk_finding_events_actor_id'' [''actor_id''] ''users'' [''id''] None,
     ForeignKey ''fk_finding_events_finding_id'' [''finding_id''] ''findings'' [''id''] None,
     PrimaryKey ''pk_finding_events'' [''id'']]"

definition upgrade_0005 :: "ddl list" where
  "upgrade_0005 = [
     CreateEnum ''subject_kind'' [''email'', ''domain'', ''username'', ''phone'', ''origin'', ''password''],
     CreateEnum ''scan_trigger'' [''manual'', ''self'', ''batch'', ''scheduled''],
     CreateEnum ''scan_status'' [''pending'', ''running'', ''succeeded'', ''failed''],
     CreateEnum ''finding_severity'' [''low'', ''medium'', ''high''],
     CreateEnum ''finding_event_type'' [''discovered'', ''remediated'', ''unremediated'', ''re_leaked'', ''password_viewed'', ''notified'', ''alerted''],
     CreateTable ''subjects'' subjects_columns subjects_keys,
     CreateIndex ''ix_subjects_linked_user_id'' ''subjects'' [''linked_user_id''],
     CreateTable ''scans'' scans_columns scans_keys,
     CreateIndex ''ix_scans_requested_by'' ''scans'' [''requested_by''],
     CreateIndex ''ix_scans_subject_id'' ''scans'' [''subject_id''],
     CreateTable ''breach_sources'' breach_sources_columns breach_sources_keys,
     CreateTable ''findings'' findings_columns findings_keys,
     CreateIndex ''ix_findings_source_id'' ''findings'' [''source_id''],
     CreateIndex ''ix_findings_subject_id'' ''findings'' [''subject_id''],
     CreateIndex ''ix_findings_subject_remediation'' ''findings'' [''subject_id'', ''remediated_at''],
     CreateTable ''finding_events'' finding_events_columns finding_events_keys,
     CreateIndex ''ix_finding_events_finding_id'' ''finding_events'' [''finding_id''],
     Grant [SELECT, INSERT, UPDATE] [OnTable ''subjects''] RUNTIME,
     Grant [SELECT, INSERT, UPDATE] [OnTable ''scans''] RUNTIME,
     Grant [SELECT, INSERT, UPDATE] [OnTable ''breach_sources''] RUNTIME,
     Grant [SELECT, INSERT, UPDATE] [OnTable ''findings''] RUNTIME,
     Grant [SELECT, INSERT] [OnTable ''finding_events''] RUNTIME,
     Revoke [UPDATE, DELETE, TRUNCATE] [OnTable ''finding_events''] RUNTIME]"

definition downgrade_0005 :: "ddl list" where
  "downgrade_0005 = [
     RevokeAll [OnTable ''finding_events''] RUNTIME,
     RevokeAll [OnTable ''findings''] RUNTIME,
     RevokeAll [OnTable ''breach_sources''] RUNTIME,
     RevokeAll [OnTable ''scans''] RUNTIME,
     RevokeAll [OnTable ''subjects''] RUNTIME,
     DropIndex ''ix_finding_events_finding_id'' ''finding_events'',
     DropTable ''finding_events'',
     DropIndex ''ix_findings_subject_remediation'' ''findings'',
     DropIndex ''ix_findings_subject_id'' ''findings'',
     DropIndex ''ix_findings_source_id'' ''findings'',
     DropTable ''findings'',
     DropTable ''breach_sources'',
     DropIndex ''ix_scans_subject_id'' ''scans'',
     DropIndex ''ix_scans_requested_by'' ''scans'',
     DropTable ''scans'',
     DropIndex ''ix_subjects_linked_user_id'' ''subjects'',
     DropTable ''subjects'',
     DropEnum ''finding_event_type'',
     DropEnum ''finding_severity'',
     DropEnum ''scan_status'',
     DropEnum ''scan_trigger'',
     DropEnum ''subject_kind'']"

definition scan_batches_columns :: "column list" where
  "scan_batches_columns = [
     required ''id'' UuidType,
     required ''target_type'' (EnumType ''batch_target''),
     required ''target'' JsonbType,
     defaulted ''status'' (EnumType ''batch_status'') ''pending'',
     required ''created_by'' UuidType,
     defaulted ''total_count'' IntegerType ''0'',
     defaulted ''completed_count'' IntegerType ''0'',
     defaulted ''failed_count'' IntegerType ''0'',
     defaulted ''created_at'' DateTimeType ''now()'',
     optional ''started_at'' DateTimeType,
     optional ''finished_at'' DateTimeType]"

definition scan_batches_keys :: "sql_constraint list" where
  "scan_batches_keys = [
     CheckThat ''ck_scan_batches_total_count'' ''total_count >= 0'',
     CheckThat ''ck_scan_batches_completed_count'' ''completed_count >= 0'',
     CheckThat ''ck_scan_batches_failed_count'' ''failed_count >= 0'',
     ForeignKey ''fk_scan_batches_created_by'' [''created_by''] ''users'' [''id''] None,
     PrimaryKey ''pk_scan_batches'' [''id'']]"

definition scan_queue_columns :: "column list" where
  "scan_queue_columns = [
     required ''id'' UuidType,
     required ''batch_id'' UuidType,
     required ''subject_id'' UuidType,
     defaulted ''status'' (EnumType ''queue_status'') ''queued'',
     defaulted ''attempts'' IntegerType ''0'',
     optional ''locked_by'' (StringType 255),
     optional ''locked_at'' DateTimeType,
     optional ''last_error'' (StringType 255),
     defaulted ''created_at'' DateTimeType ''now()'',
     optional ''finished_at'' DateTimeType]"

definition scan_queue_keys :: "sql_constraint list" where
  "scan_queue_keys = [
     CheckThat ''ck_scan_queue_attempts'' ''attempts >= 0'',
     ForeignKey ''fk_scan_queue_batch_id'' [''batch_id''] ''scan_batches'' [''id''] None,
     ForeignKey ''fk_scan_queue_subject_id'' [''subject_id''] ''subjects'' [''id''] None,
     PrimaryKey ''pk_scan_queue'' [''id''],
     UniqueKey ''uq_scan_queue_batch_subject'' [''batch_id'', ''subject_id'']]"

definition upgrade_0006 :: "ddl list" where
  "upgrade_0006 = [
     CreateEnum ''batch_target'' [''ou'', ''domain'', ''selection''],
     CreateEnum ''batch_status'' [''pending'', ''running'', ''succeeded'', ''partial'', ''failed''],
     CreateEnum ''queue_status'' [''queued'', ''running'', ''succeeded'', ''failed''],
     CreateTable ''scan_batches'' scan_batches_columns scan_batches_keys,
     CreateIndex ''ix_scan_batches_created_by'' ''scan_batches'' [''created_by''],
     CreateTable ''scan_queue'' scan_queue_columns scan_queue_keys,
     CreateIndex ''ix_scan_queue_batch_id'' ''scan_queue'' [''batch_id''],
     CreateIndex ''ix_scan_queue_subject_id'' ''scan_queue'' [''subject_id''],
     CreateIndex ''ix_scan_queue_claim'' ''scan_queue'' [''status'', ''created_at''],
     Grant [SELECT, INSERT, UPDATE] [OnTable ''scan_batches'', OnTable ''scan_queue''] RUNTIME]"

definition downgrade_0006 :: "ddl list" where
  "downgrade_0006 = [
     RevokeAll [OnTable ''scan_queue'', OnTable ''scan_batches''] RUNTIME,
     DropIndex ''ix_scan_queue_claim'' ''scan_queue'',
     DropIndex ''ix_scan_queue_subject_id'' ''scan_queue'',
     DropIndex ''ix_scan_queue_batch_id'' ''scan_queue'',
     DropTable ''scan_queue'',
     DropIndex ''ix_scan_batches_created_by'' ''scan_batches'',
     DropTable ''scan_batches'',
     DropEnum ''queue_status'',
     DropEnum ''batch_status'',
     DropEnum ''batch_target'']"

definition schedules_columns :: "column list" where
  "schedules_columns = [
     required ''id'' UuidType,
     required ''kind'' (EnumType ''schedule_kind''),
     required ''target'' (StringType 1024),
     required ''cron'' (StringType 255),
     required ''timezone'' (StringType 255),
     defaulted ''enabled'' BooleanType ''true'',
     defaulted ''misfire_grace_seconds'' IntegerType ''300'',
     optional ''last_run_at'' DateTimeType,
     required ''next_run_at'' DateTimeType,
     optional ''last_error'' (StringType 255),
     required ''created_by'' UuidType,
     defaulted ''created_at'' DateTimeType ''now()'']"

definition schedules_keys :: "sql_constraint list" where
  "schedules_keys = [
     CheckThat ''ck_schedules_misfire_grace'' ''misfire_grace_seconds >= 0'',
     ForeignKey ''fk_schedules_created_by'' [''created_by''] ''users'' [''id''] None,
     PrimaryKey ''pk_schedules'' [''id'']]"

definition upgrade_0007 :: "ddl list" where
  "upgrade_0007 = [
     CreateEnum ''schedule_kind'' [''scan_ou'', ''scan_domain''],
     CreateTable ''schedules'' schedules_columns schedules_keys,
     CreateIndex ''ix_schedules_created_by'' ''schedules'' [''created_by''],
     CreateIndex ''ix_schedules_due'' ''schedules'' [''enabled'', ''next_run_at''],
     Grant [SELECT, INSERT, UPDATE, DELETE] [OnTable ''schedules''] RUNTIME]"

definition downgrade_0007 :: "ddl list" where
  "downgrade_0007 = [
     RevokeAll [OnTable ''schedules''] RUNTIME,
     DropIndex ''ix_schedules_due'' ''schedules'',
     DropIndex ''ix_schedules_created_by'' ''schedules'',
     DropTable ''schedules'',
     DropEnum ''schedule_kind'']"

definition notifications_columns :: "column list" where
  "notifications_columns = [
     required ''id'' UuidType,
     required ''user_id'' UuidType,
     required ''template'' (StringType 64),
     defaulted ''finding_ids'' JsonbType ''[]'',
     defaulted ''status'' (EnumType ''notification_status'') ''pending'',
     required ''dedupe_key'' BinaryType,
     defaulted ''attempts'' IntegerType ''0'',
     optional ''error'' (StringType 255),
     defaulted ''created_at'' DateTimeType ''now()'',
     optional ''sent_at'' DateTimeType]"

definition notifications_keys :: "sql_constraint list" where
  "notifications_keys = [
     CheckThat ''ck_notifications_dedupe_key'' ''octet_length(dedupe_key) = 32'',
     CheckThat ''ck_notifications_attempts'' ''attempts >= 0'',
     ForeignKey ''fk_notifications_user_id'' [''user_id''] ''users'' [''id''] None,
     PrimaryKey ''pk_notifications'' [''id''],
     UniqueKey ''uq_notifications_dedupe_key'' [''dedupe_key'']]"

definition upgrade_0008 :: "ddl list" where
  "upgrade_0008 = [
     AddEnumValue ''schedule_kind'' ''digest'',
     CreateEnum ''notification_status'' [''pending'', ''dry_run'', ''sent'', ''suppressed'', ''failed''],
     CreateTable ''notifications'' notifications_columns notifications_keys,
     CreateIndex ''ix_notifications_user_id'' ''notifications'' [''user_id''],
     CreateIndex ''ix_notifications_claim'' ''notifications'' [''status'', ''created_at''],
     CreateIndex ''ix_notifications_user_sent'' ''notifications'' [''user_id'', ''sent_at''],
     Grant [SELECT, INSERT, UPDATE] [OnTable ''notifications''] RUNTIME]"

definition downgrade_0008 :: "ddl list" where
  "downgrade_0008 = [
     RevokeAll [OnTable ''notifications''] RUNTIME,
     DropIndex ''ix_notifications_user_sent'' ''notifications'',
     DropIndex ''ix_notifications_claim'' ''notifications'',
     DropIndex ''ix_notifications_user_id'' ''notifications'',
     DropTable ''notifications'',
     DropEnum ''notification_status'']"

definition watchlist_columns :: "column list" where
  "watchlist_columns = [
     required ''id'' UuidType,
     optional ''subject_id'' UuidType,
     optional ''user_id'' UuidType,
     defaulted ''alert_soc'' BooleanType ''true'',
     defaulted ''alert_user'' BooleanType ''true'',
     defaulted ''alert_wazuh'' BooleanType ''true'',
     defaulted ''alert_iris'' BooleanType ''true'',
     defaulted ''enabled'' BooleanType ''true'',
     required ''created_by'' UuidType,
     defaulted ''created_at'' DateTimeType ''now()'']"

definition watchlist_keys :: "sql_constraint list" where
  "watchlist_keys = [
     CheckThat ''ck_watchlist_exactly_one_target'' ''(subject_id IS NOT NULL) <> (user_id IS NOT NULL)'',
     ForeignKey ''fk_watchlist_subject_id'' [''subject_id''] ''subjects'' [''id''] None,
     ForeignKey ''fk_watchlist_user_id'' [''user_id''] ''users'' [''id''] None,
     ForeignKey ''fk_watchlist_created_by'' [''created_by''] ''users'' [''id''] None,
     PrimaryKey ''pk_watchlist'' [''id''],
     UniqueKey ''uq_watchlist_subject_id'' [''subject_id''],
     UniqueKey ''uq_watchlist_user_id'' [''user_id'']]"

definition alert_outbox_columns :: "column list" where
  "alert_outbox_columns = [
     required ''id'' UuidType,
     required ''sink'' (EnumType ''alert_sink_name''),
     required ''payload'' JsonbType,
     defaulted ''status'' (EnumType ''alert_outbox_status'') ''pending'',
     required ''dedupe_key'' BinaryType,
     defaulted ''attempts'' IntegerType ''0'',
     defaulted ''next_attempt_at'' DateTimeType ''now()'',
     optional ''last_error'' (StringType 255),
     defaulted ''created_at'' DateTimeType ''now()'',
     optional ''delivered_at'' DateTimeType]"

definition alert_outbox_keys :: "sql_constraint list" where
  "alert_outbox_keys = [
     CheckThat ''ck_alert_outbox_dedupe_key'' ''octet_length(dedupe_key) = 32'',
     CheckThat ''ck_alert_outbox_attempts'' ''attempts >= 0'',
     PrimaryKey ''pk_alert_outbox'' [''id''],
     UniqueKey ''uq_alert_outbox_dedupe_key'' [''dedupe_key'']]"

definition upgrade_0009 :: "ddl list" where
  "upgrade_0009 = [
     CreateEnum ''alert_sink_name'' [''wazuh'', ''dfir_iris''],
     CreateEnum ''alert_outbox_status'' [''pending'', ''delivered'', ''dead_letter''],
     CreateTable ''watchlist'' watchlist_columns watchlist_keys,
     CreateIndex ''ix_watchlist_created_by'' ''watchlist'' [''created_by''],
     CreateTable ''alert_outbox'' alert_outbox_columns alert_outbox_keys,
     CreateIndex ''ix_alert_outbox_due'' ''alert_outbox'' [''status'', ''next_attempt_at''],
     Grant [SELECT, INSERT, UPDATE, DELETE] [OnTable ''watchlist''] RUNTIME,
     Grant [SELECT, INSERT, UPDATE] [OnTable ''alert_outbox''] RUNTIME]"

definition downgrade_0009 :: "ddl list" where
  "downgrade_0009 = [
     RevokeAll [OnTable ''alert_outbox'', OnTable ''watchlist''] RUNTIME,
     DropIndex ''ix_alert_outbox_due'' ''alert_outbox'',
     DropTable ''alert_outbox'',
     DropIndex ''ix_watchlist_created_by'' ''watchlist'',
     DropTable ''watchlist'',
     DropEnum ''alert_outbox_status'',
     DropEnum ''alert_sink_name'']"

definition upgrade_0010 :: "ddl list" where
  "upgrade_0010 = [
     AddColumn ''admin_credentials'' (optional ''totp_enabled_at'' DateTimeType),
     EnableStoredSeeds,
     AlterNullable ''admin_credentials'' ''totp_secret_enc'' True]"

definition downgrade_0010 :: "ddl list" where
  "downgrade_0010 = [
     RequireSeeds,
     AlterNullable ''admin_credentials'' ''totp_secret_enc'' False,
     DropColumn ''admin_credentials'' ''totp_enabled_at'']"

definition upgrade_0011 :: "ddl list" where
  "upgrade_0011 = [
     AddColumn ''schedules'' (optional ''last_batch_id'' UuidType),
     AddConstraint ''schedules'' (ForeignKey ''fk_schedules_last_batch_id'' [''last_batch_id''] ''scan_batches'' [''id''] (Some ''SET NULL'')),
     CreateIndex ''ix_schedules_last_batch_id'' ''schedules'' [''last_batch_id'']]"

definition downgrade_0011 :: "ddl list" where
  "downgrade_0011 = [
     DropIndex ''ix_schedules_last_batch_id'' ''schedules'',
     DropConstraint ''schedules'' ''fk_schedules_last_batch_id'',
     DropColumn ''schedules'' ''last_batch_id'']"

definition branding_columns :: "column list" where
  "branding_columns = [
     required ''id'' IntegerType,
     optional ''organization_name'' (StringType 120),
     optional ''logo'' BinaryType,
     optional ''logo_content_type'' (StringType 64),
     optional ''logo_sha256'' (StringType 64),
     defaulted ''updated_at'' DateTimeType ''now()'']"

definition branding_keys :: "sql_constraint list" where
  "branding_keys = [
     PrimaryKey ''pk_branding'' [''id''],
     CheckThat ''ck_branding_single_row'' ''id = 1'',
     CheckThat ''ck_branding_logo_size'' ''logo IS NULL OR octet_length(logo) <= 1048576'']"

definition upgrade_0012 :: "ddl list" where
  "upgrade_0012 = [
     CreateTable ''branding'' branding_columns branding_keys]"

definition downgrade_0012 :: "ddl list" where
  "downgrade_0012 = [
     DropTable ''branding'']"

definition upgrade_0013 :: "ddl list" where
  "upgrade_0013 = [
     Grant [SELECT, INSERT, UPDATE] [OnTable ''branding''] RUNTIME,
     Grant [DELETE] [OnTable ''findings''] RUNTIME,
     Grant [DELETE] [OnTable ''finding_events''] RUNTIME]"

definition downgrade_0013 :: "ddl list" where
  "downgrade_0013 = [
     Revoke [DELETE] [OnTable ''finding_events''] RUNTIME,
     Revoke [DELETE] [OnTable ''findings''] RUNTIME,
     Revoke [SELECT, INSERT, UPDATE] [OnTable ''branding''] RUNTIME]"

section \<open>Alembic\<close>

record script =
  sr_revision :: string
  sr_down :: "string option"
  sr_upgrade :: "environ \<Rightarrow> ustr \<Rightarrow> ddl list res"
  sr_downgrade :: "ddl list"

definition scripts :: "script list" where
  "scripts = [
     \<lparr>sr_revision = ''0001_bootstrap_roles'', sr_down = None,
       sr_upgrade = upgrade_0001, sr_downgrade = downgrade_0001\<rparr>,
     \<lparr>sr_revision = ''0002_auth_models'', sr_down = Some ''0001_bootstrap_roles'',
       sr_upgrade = (\<lambda>_ _. Inr upgrade_0002), sr_downgrade = downgrade_0002\<rparr>,
     \<lparr>sr_revision = ''0003_admin_login_rate_limits'', sr_down = Some ''0002_auth_models'',
       sr_upgrade = (\<lambda>_ _. Inr upgrade_0003), sr_downgrade = downgrade_0003\<rparr>,
     \<lparr>sr_revision = ''0004_platform_settings_audit'', sr_down = Some ''0003_admin_login_rate_limits'',
       sr_upgrade = (\<lambda>_ _. Inr upgrade_0004), sr_downgrade = downgrade_0004\<rparr>,
     \<lparr>sr_revision = ''0005_ingest_core'', sr_down = Some ''0004_platform_settings_audit'',
       sr_upgrade = (\<lambda>_ _. Inr upgrade_0005), sr_downgrade = downgrade_0005\<rparr>,
     \<lparr>sr_revision = ''0006_workspace_batches'', sr_down = Some ''0005_ingest_core'',
       sr_upgrade = (\<lambda>_ _. Inr upgrade_0006), sr_downgrade = downgrade_0006\<rparr>,
     \<lparr>sr_revision = ''0007_scheduling'', sr_down = Some ''0006_workspace_batches'',
       sr_upgrade = (\<lambda>_ _. Inr upgrade_0007), sr_downgrade = downgrade_0007\<rparr>,
     \<lparr>sr_revision = ''0008_notifications'', sr_down = Some ''0007_scheduling'',
       sr_upgrade = (\<lambda>_ _. Inr upgrade_0008), sr_downgrade = downgrade_0008\<rparr>,
     \<lparr>sr_revision = ''0009_alert_foundation'', sr_down = Some ''0008_notifications'',
       sr_upgrade = (\<lambda>_ _. Inr upgrade_0009), sr_downgrade = downgrade_0009\<rparr>,
     \<lparr>sr_revision = ''0010_optional_mfa_enrollment'', sr_down = Some ''0009_alert_foundation'',
       sr_upgrade = (\<lambda>_ _. Inr upgrade_0010), sr_downgrade = downgrade_0010\<rparr>,
     \<lparr>sr_revision = ''0011_schedule_latest_batch'', sr_down = Some ''0010_optional_mfa_enrollment'',
       sr_upgrade = (\<lambda>_ _. Inr upgrade_0011), sr_downgrade = downgrade_0011\<rparr>,
     \<lparr>sr_revision = ''0012_branding'', sr_down = Some ''0011_schedule_latest_batch'',
       sr_upgrade = (\<lambda>_ _. Inr upgrade_0012), sr_downgrade = downgrade_0012\<rparr>,
     \<lparr>sr_revision = ''0013_branding_grants'', sr_down = Some ''0012_branding'',
       sr_upgrade = (\<lambda>_ _. Inr upgrade_0013), sr_downgrade = downgrade_0013\<rparr>]"

text \<open>The revisions from the base to a given one, and the only one nothing follows.\<close>

fun lineage :: "nat \<Rightarrow> script list \<Rightarrow> string option \<Rightarrow> script list option" where
  "lineage n ss None = Some []"
| "lineage 0 ss (Some r) = None"
| "lineage (Suc n) ss (Some r) =
     (case find (\<lambda>x. sr_revision x = r) ss of
        None \<Rightarrow> None
      | Some x \<Rightarrow> map_option (\<lambda>l. l @ [x]) (lineage n ss (sr_down x)))"

definition lineage_of :: "string option \<Rightarrow> script list option" where
  "lineage_of r = lineage (length scripts) scripts r"

definition head_revisions :: "string list" where
  "head_revisions = filter (\<lambda>r. Some r \<notin> set (map sr_down scripts)) (map sr_revision scripts)"

record server =
  sv_schema :: schema
  sv_version :: "string option"

abbreviation command_error :: exn where "command_error \<equiv> OtherError ''CommandError''"

definition VERSION_TABLE :: string where
  "VERSION_TABLE = ''alembic_version''"

definition ensure_version_table :: "string \<Rightarrow> server \<Rightarrow> server res" where
  "ensure_version_table r sv =
     (if table_named VERSION_TABLE (sv_schema sv) \<noteq> None then Inr sv
      else bind_res (exec r (CreateTable VERSION_TABLE [required ''version_num'' (StringType 32)]
                 [PrimaryKey ''alembic_version_pkc'' [''version_num'']]) (sv_schema sv)) (\<lambda>s.
           Inr (sv\<lparr>sv_schema := s\<rparr>)))"

text \<open>The version row is inserted, updated or, below the first revision, deleted; it holds 32 characters.\<close>

definition stamp :: "string \<Rightarrow> string option \<Rightarrow> server \<Rightarrow> server res" where
  "stamp r v sv =
     (let p = (if v = None then DELETE else if sv_version sv = None then INSERT else UPDATE) in
      if \<not> may r p (OnTable VERSION_TABLE) (sv_schema sv) then Inl ddl_error
      else if (case v of Some x \<Rightarrow> 32 < length x | None \<Rightarrow> False) then Inl ddl_error
      else Inr (sv\<lparr>sv_version := v\<rparr>))"

definition upgrade_step :: "environ \<Rightarrow> string \<Rightarrow> script \<Rightarrow> server \<Rightarrow> server res" where
  "upgrade_step E r x sv =
     bind_res (sr_upgrade x E (sc_name (sv_schema sv))) (\<lambda>stmts.
     bind_res (exec_all r stmts (sv_schema sv)) (\<lambda>s.
     stamp r (Some (sr_revision x)) (sv\<lparr>sv_schema := s\<rparr>)))"

definition downgrade_step :: "string \<Rightarrow> script \<Rightarrow> server \<Rightarrow> server res" where
  "downgrade_step r x sv =
     bind_res (exec_all r (sr_downgrade x) (sv_schema sv)) (\<lambda>s.
     stamp r (sr_down x) (sv\<lparr>sv_schema := s\<rparr>))"

fun each_step :: "(script \<Rightarrow> server \<Rightarrow> server res) \<Rightarrow> script list \<Rightarrow> server \<Rightarrow> server res" where
  "each_step f [] sv = Inr sv"
| "each_step f (x # xs) sv = bind_res (f x sv) (each_step f xs)"

text \<open>\<open>command.upgrade\<close>: the revisions up to the target that the database lacks, in one transaction.\<close>

definition command_upgrade :: "environ \<Rightarrow> string \<Rightarrow> string \<Rightarrow> server \<Rightarrow> server res" where
  "command_upgrade E r target sv =
     (case (lineage_of (Some target), lineage_of (sv_version sv)) of
        (Some want, Some have) \<Rightarrow>
          bind_res (ensure_version_table r sv)
            (each_step (upgrade_step E r) (filter (\<lambda>x. sr_revision x \<notin> sr_revision ` set have) want))
      | _ \<Rightarrow> Inl command_error)"

definition command_upgrade_head :: "environ \<Rightarrow> string \<Rightarrow> server \<Rightarrow> server res" where
  "command_upgrade_head E r sv =
     (case head_revisions of [h] \<Rightarrow> command_upgrade E r h sv | _ \<Rightarrow> Inl command_error)"

section \<open>Connecting\<close>

definition postgres_url :: "string \<Rightarrow> ustr \<Rightarrow> ustr" where
  "postgres_url username password =
     uni ''postgresql+asyncpg://'' @ uni username @ uni '':'' @ password @ uni ''@postgres:5432/leakcheck''"

text \<open>
  The role a URL logs in as. A URL shows a password of letters and digits as it is; any other would have to
  be quoted in it, which the code does not do.
\<close>

definition login_role :: "ustr \<Rightarrow> schema \<Rightarrow> string res" where
  "login_role url s =
     (case find (\<lambda>(x, pw). list_all (\<lambda>c. word_start c \<or> 48 \<le> c \<and> c \<le> 57) pw \<and> postgres_url x pw = url) (sc_roles s) of
        Some (x, pw) \<Rightarrow> Inr x
      | None \<Rightarrow> Inl (OtherError ''OperationalError''))"

text \<open>\<open>_migration_url\<close> of \<open>env.py\<close> and of \<open>bootstrap_database.py\<close>.\<close>

definition MIGRATION_URL :: string where
  "MIGRATION_URL = ''LC_MIGRATION_DATABASE_URL''"

definition env_migration_url :: "environ \<Rightarrow> ustr res" where
  "env_migration_url E =
     (case E MIGRATION_URL of
        None \<Rightarrow> Inl runtime_error
      | Some url \<Rightarrow>
          if url = [] then Inl runtime_error
          else if \<not> startswith ''postgresql+asyncpg://'' url then Inl runtime_error
          else Inr url)"

definition run_migrations_online :: "environ \<Rightarrow> (string \<Rightarrow> server \<Rightarrow> server res) \<Rightarrow> server \<Rightarrow> server res" where
  "run_migrations_online E run sv =
     bind_res (env_migration_url E) (\<lambda>url.
     bind_res (login_role url (sv_schema sv)) (\<lambda>r. run r sv))"

section \<open>Bootstrapping the database\<close>

definition bootstrap_migration_url :: "environ \<Rightarrow> ustr res" where
  "bootstrap_migration_url E =
     (let url = (case E MIGRATION_URL of Some url \<Rightarrow> url | None \<Rightarrow> []) in
      if startswith ''postgresql+asyncpg://'' url then Inr url else Inl runtime_error)"

definition bootstrap_required :: "string \<Rightarrow> server \<Rightarrow> bool res" where
  "bootstrap_required r sv =
     (if table_named VERSION_TABLE (sv_schema sv) = None then Inr True
      else if \<not> may r SELECT (OnTable VERSION_TABLE) (sv_schema sv) then Inl ddl_error
      else Inr (sv_version sv = None))"

definition database_needs_bootstrap :: "ustr \<Rightarrow> server \<Rightarrow> bool res" where
  "database_needs_bootstrap url sv =
     bind_res (login_role url (sv_schema sv)) (\<lambda>r. bootstrap_required r sv)"

definition bootstrap_database :: "environ \<Rightarrow> server \<Rightarrow> server res" where
  "bootstrap_database E sv =
     bind_res (bootstrap_migration_url E) (\<lambda>url.
     bind_res (database_needs_bootstrap url sv) (\<lambda>needed.
     if \<not> needed then Inr sv
     else run_migrations_online E (\<lambda>r. command_upgrade E r ''0001_bootstrap_roles'') sv))"

definition migrate_database :: "environ \<Rightarrow> server \<Rightarrow> server res" where
  "migrate_database E sv = run_migrations_online E (command_upgrade_head E) sv"

end
