(* ===== verification/MigrationChain.thy ===== *)
theory MigrationChain
  imports Migrations
begin

text \<open>
  What the migrations make of a new database, computed from their statements: \<open>tables_N\<close>, \<open>acl_N\<close> and
  \<open>enums_N\<close> are the tables, privileges and enumerations revision N adds to any schema that does not use
  their names yet.
\<close>

named_theorems table_facts
named_theorems grow_simps

section \<open>What a new table needs\<close>

definition enum_needs :: "column list \<Rightarrow> string list" where
  "enum_needs cs = List.map_filter (\<lambda>c. case col_type c of EnumType e \<Rightarrow> Some e | _ \<Rightarrow> None) cs"

definition needs_citext :: "column list \<Rightarrow> bool" where
  "needs_citext cs \<longleftrightarrow> list_ex (\<lambda>c. col_type c = CitextType) cs"

fun foreign_need :: "string \<Rightarrow> sql_constraint \<Rightarrow> (string \<times> string list) option" where
  "foreign_need t (ForeignKey n cs t' rs od) = (if t' = t then None else Some (t', rs))"
| "foreign_need t _ = None"

definition foreign_needs :: "string \<Rightarrow> sql_constraint list \<Rightarrow> (string \<times> string list) list" where
  "foreign_needs t ks = List.map_filter (foreign_need t) ks"

definition key_names :: "sql_constraint list \<Rightarrow> string list" where
  "key_names ks = map constraint_name (filter (\<lambda>k. key_columns k \<noteq> None) ks)"

definition key_sets :: "sql_constraint list \<Rightarrow> string list list" where
  "key_sets ks = List.map_filter key_columns ks"

fun static_constraint :: "string \<Rightarrow> column list \<Rightarrow> sql_constraint list \<Rightarrow> sql_constraint \<Rightarrow> bool" where
  "static_constraint t cs ks (ForeignKey n xs t' rs od) =
     (set xs \<subseteq> set (map col_name cs) \<and> length xs = length rs \<and> (t' = t \<longrightarrow> Some rs \<in> set (map key_columns ks)))"
| "static_constraint t cs ks k = (set (constraint_columns k) \<subseteq> set (map col_name cs))"

definition static_ok :: "string \<Rightarrow> column list \<Rightarrow> sql_constraint list \<Rightarrow> bool" where
  "static_ok t cs ks \<longleftrightarrow> distinct (map col_name cs) \<and> list_all (static_constraint t cs ks) ks \<and> distinct (map constraint_name ks)"

definition has_key :: "(string \<times> string list) \<Rightarrow> table list \<Rightarrow> bool" where
  "has_key x T \<longleftrightarrow> (case find (\<lambda>y. tbl_name y = fst x) T of None \<Rightarrow> False | Some y \<Rightarrow> snd x \<in> set (key_sets (tbl_constraints y)))"

lemma Some_in_map_filter: "Some x \<in> set (map f xs) \<longleftrightarrow> x \<in> set (List.map_filter f xs)"
  by (induction xs) (auto simp: List.map_filter_simps split: option.splits)

lemma types_exist:
  "list_all (\<lambda>c. type_exists (col_type c) s) cs \<longleftrightarrow>
     list_all (\<lambda>e. enum_named e s \<noteq> None) (enum_needs cs) \<and> (needs_citext cs \<longrightarrow> ''citext'' \<in> set (sc_extensions s))"
  by (induction cs) (auto simp: type_exists_def enum_needs_def needs_citext_def List.map_filter_simps split: sql_type.splits)

lemma constraint_ok_new:
  "list_all (constraint_ok (new_table r t cs ks) s) js \<longleftrightarrow>
     list_all (static_constraint t cs ks) js \<and> list_all (\<lambda>x. has_key x (sc_tables s)) (foreign_needs t js)"
proof (induction js)
  case (Cons j js)
  have "constraint_ok (new_table r t cs ks) s j \<longleftrightarrow>
      static_constraint t cs ks j \<and> list_all (\<lambda>x. has_key x (sc_tables s)) (foreign_needs t [j])"
    by (cases j) (auto simp: foreign_needs_def List.map_filter_simps new_table_def table_with_def column_names_def has_key_def
        table_named_def key_sets_def simp flip: Some_in_map_filter split: option.splits)
  moreover have "foreign_needs t (j # js) = foreign_needs t [j] @ foreign_needs t js"
    by (simp add: foreign_needs_def List.map_filter_simps split: option.splits)
  ultimately show ?case using Cons by auto
qed (simp add: foreign_needs_def List.map_filter_simps)

lemma table_ok_new:
  "table_ok (new_table r t cs ks) s \<longleftrightarrow> static_ok t cs ks \<and>
     list_all (\<lambda>e. enum_named e s \<noteq> None) (enum_needs cs) \<and> (needs_citext cs \<longrightarrow> ''citext'' \<in> set (sc_extensions s)) \<and>
     list_all (\<lambda>x. has_key x (sc_tables s)) (foreign_needs t ks) \<and>
     list_all (\<lambda>n. n \<notin> set (relation_names s)) (t # key_names ks)"
proof -
  have "column_names (new_table r t cs ks) = map col_name cs" "tbl_columns (new_table r t cs ks) = cs"
    "tbl_constraints (new_table r t cs ks) = ks" "relations_of (new_table r t cs ks) = t # key_names ks"
    by (simp_all add: new_table_def table_with_def column_names_def relations_of_def key_names_def)
  then show ?thesis by (auto simp: table_ok_def static_ok_def types_exist constraint_ok_new)
qed

section \<open>The tables\<close>

lemma users_facts [table_facts]:
  "static_ok ''users'' users_columns users_keys"
  "enum_needs users_columns = [''user_role'', ''user_source'']"
  "needs_citext users_columns = True"
  "foreign_needs ''users'' users_keys = []"
  "key_names users_keys = [''pk_users'', ''uq_users_email'', ''uq_users_google_sub'']"
  "key_sets users_keys = [[''id''], [''email''], [''google_sub'']]"
  "map col_name users_columns = [''id'', ''email'', ''google_sub'', ''display_name'', ''ou_path'', ''role'', ''is_active'', ''source'', ''created_at'', ''last_login_at'']"
  by code_simp+

lemma admin_credentials_facts [table_facts]:
  "static_ok ''admin_credentials'' admin_credentials_columns admin_credentials_keys"
  "enum_needs admin_credentials_columns = []"
  "needs_citext admin_credentials_columns = False"
  "foreign_needs ''admin_credentials'' admin_credentials_keys = [(''users'', [''id''])]"
  "key_names admin_credentials_keys = [''pk_admin_credentials'']"
  "key_sets admin_credentials_keys = [[''user_id'']]"
  "map col_name admin_credentials_columns = [''user_id'', ''password_hash'', ''totp_secret_enc'', ''failed_attempts'', ''locked_until'']"
  by code_simp+

lemma sessions_facts [table_facts]:
  "static_ok ''sessions'' sessions_columns sessions_keys"
  "enum_needs sessions_columns = []"
  "needs_citext sessions_columns = False"
  "foreign_needs ''sessions'' sessions_keys = [(''users'', [''id''])]"
  "key_names sessions_keys = [''pk_sessions'']"
  "key_sets sessions_keys = [[''id_hash'']]"
  "map col_name sessions_columns = [''id_hash'', ''user_id'', ''created_at'', ''expires_at'', ''last_seen_at'', ''idle_expires_at'', ''ip_hash'', ''ua_hash'', ''revoked_at'']"
  by code_simp+

lemma admin_login_rate_limits_facts [table_facts]:
  "static_ok ''admin_login_rate_limits'' admin_login_rate_limits_columns admin_login_rate_limits_keys"
  "enum_needs admin_login_rate_limits_columns = []"
  "needs_citext admin_login_rate_limits_columns = False"
  "foreign_needs ''admin_login_rate_limits'' admin_login_rate_limits_keys = []"
  "key_names admin_login_rate_limits_keys = [''pk_admin_login_rate_limits'']"
  "key_sets admin_login_rate_limits_keys = [[''ip_hash'']]"
  "map col_name admin_login_rate_limits_columns = [''ip_hash'', ''window_started_at'', ''attempts'', ''blocked_until'']"
  by code_simp+

lemma platform_settings_facts [table_facts]:
  "static_ok ''platform_settings'' platform_settings_columns platform_settings_keys"
  "enum_needs platform_settings_columns = []"
  "needs_citext platform_settings_columns = False"
  "foreign_needs ''platform_settings'' platform_settings_keys = [(''users'', [''id''])]"
  "key_names platform_settings_keys = [''pk_platform_settings'']"
  "key_sets platform_settings_keys = [[''key'']]"
  "map col_name platform_settings_columns = [''key'', ''ciphertext'', ''nonce'', ''schema_version'', ''updated_at'', ''updated_by'']"
  by code_simp+

lemma audit_log_facts [table_facts]:
  "static_ok ''audit_log'' audit_log_columns audit_log_keys"
  "enum_needs audit_log_columns = []"
  "needs_citext audit_log_columns = False"
  "foreign_needs ''audit_log'' audit_log_keys = [(''users'', [''id''])]"
  "key_names audit_log_keys = [''pk_audit_log'']"
  "key_sets audit_log_keys = [[''id'']]"
  "map col_name audit_log_columns = [''id'', ''actor_id'', ''action'', ''target_type'', ''target_id'', ''ip_hash'', ''at'', ''meta'']"
  by code_simp+

lemma subjects_facts [table_facts]:
  "static_ok ''subjects'' subjects_columns subjects_keys"
  "enum_needs subjects_columns = [''subject_kind'']"
  "needs_citext subjects_columns = False"
  "foreign_needs ''subjects'' subjects_keys = [(''users'', [''id''])]"
  "key_names subjects_keys = [''pk_subjects'', ''uq_subjects_kind_value_norm'']"
  "key_sets subjects_keys = [[''id''], [''kind'', ''value_norm'']]"
  "map col_name subjects_columns = [''id'', ''kind'', ''value_norm'', ''value_display'', ''first_scanned_at'', ''last_scanned_at'', ''linked_user_id'']"
  by code_simp+

lemma scans_facts [table_facts]:
  "static_ok ''scans'' scans_columns scans_keys"
  "enum_needs scans_columns = [''scan_trigger'', ''scan_status'']"
  "needs_citext scans_columns = False"
  "foreign_needs ''scans'' scans_keys = [(''users'', [''id'']), (''subjects'', [''id''])]"
  "key_names scans_keys = [''pk_scans'']"
  "key_sets scans_keys = [[''id'']]"
  "map col_name scans_columns = [''id'', ''subject_id'', ''requested_by'', ''trigger'', ''status'', ''started_at'', ''finished_at'', ''result_count'', ''new_count'', ''quota'', ''truncated'', ''error'']"
  by code_simp+

lemma breach_sources_facts [table_facts]:
  "static_ok ''breach_sources'' breach_sources_columns breach_sources_keys"
  "enum_needs breach_sources_columns = []"
  "needs_citext breach_sources_columns = False"
  "foreign_needs ''breach_sources'' breach_sources_keys = []"
  "key_names breach_sources_keys = [''pk_breach_sources'', ''uq_breach_sources_identity'']"
  "key_sets breach_sources_keys = [[''id''], [''name_norm'', ''breach_date_norm'']]"
  "map col_name breach_sources_columns = [''id'', ''name'', ''name_norm'', ''breach_date'', ''breach_date_norm'', ''unverified'', ''passwordless'', ''compilation'', ''extra'']"
  by code_simp+

lemma findings_facts [table_facts]:
  "static_ok ''findings'' findings_columns findings_keys"
  "enum_needs findings_columns = [''finding_severity'']"
  "needs_citext findings_columns = False"
  "foreign_needs ''findings'' findings_keys = [(''users'', [''id'']), (''breach_sources'', [''id'']), (''subjects'', [''id''])]"
  "key_names findings_keys = [''pk_findings'', ''uq_findings_fingerprint'']"
  "key_sets findings_keys = [[''id''], [''fingerprint'']]"
  "map col_name findings_columns = [''id'', ''subject_id'', ''source_id'', ''email'', ''username'', ''phone'', ''origin'', ''identity_key'', ''password_ciphertext'', ''password_nonce'', ''password_sha256'', ''password_mask'', ''password_len'', ''password_charset'', ''fields'', ''raw'', ''fingerprint'', ''severity'', ''first_seen_at'', ''last_seen_at'', ''remediated_at'', ''remediated_by'', ''remediation_note'', ''superseded_by_id'', ''notified_at'']"
  by code_simp+

lemma finding_events_facts [table_facts]:
  "static_ok ''finding_events'' finding_events_columns finding_events_keys"
  "enum_needs finding_events_columns = [''finding_event_type'']"
  "needs_citext finding_events_columns = False"
  "foreign_needs ''finding_events'' finding_events_keys = [(''users'', [''id'']), (''findings'', [''id''])]"
  "key_names finding_events_keys = [''pk_finding_events'']"
  "key_sets finding_events_keys = [[''id'']]"
  "map col_name finding_events_columns = [''id'', ''finding_id'', ''event'', ''actor_id'', ''at'', ''meta'']"
  by code_simp+

lemma scan_batches_facts [table_facts]:
  "static_ok ''scan_batches'' scan_batches_columns scan_batches_keys"
  "enum_needs scan_batches_columns = [''batch_target'', ''batch_status'']"
  "needs_citext scan_batches_columns = False"
  "foreign_needs ''scan_batches'' scan_batches_keys = [(''users'', [''id''])]"
  "key_names scan_batches_keys = [''pk_scan_batches'']"
  "key_sets scan_batches_keys = [[''id'']]"
  "map col_name scan_batches_columns = [''id'', ''target_type'', ''target'', ''status'', ''created_by'', ''total_count'', ''completed_count'', ''failed_count'', ''created_at'', ''started_at'', ''finished_at'']"
  by code_simp+

lemma scan_queue_facts [table_facts]:
  "static_ok ''scan_queue'' scan_queue_columns scan_queue_keys"
  "enum_needs scan_queue_columns = [''queue_status'']"
  "needs_citext scan_queue_columns = False"
  "foreign_needs ''scan_queue'' scan_queue_keys = [(''scan_batches'', [''id'']), (''subjects'', [''id''])]"
  "key_names scan_queue_keys = [''pk_scan_queue'', ''uq_scan_queue_batch_subject'']"
  "key_sets scan_queue_keys = [[''id''], [''batch_id'', ''subject_id'']]"
  "map col_name scan_queue_columns = [''id'', ''batch_id'', ''subject_id'', ''status'', ''attempts'', ''locked_by'', ''locked_at'', ''last_error'', ''created_at'', ''finished_at'']"
  by code_simp+

lemma schedules_facts [table_facts]:
  "static_ok ''schedules'' schedules_columns schedules_keys"
  "enum_needs schedules_columns = [''schedule_kind'']"
  "needs_citext schedules_columns = False"
  "foreign_needs ''schedules'' schedules_keys = [(''users'', [''id''])]"
  "key_names schedules_keys = [''pk_schedules'']"
  "key_sets schedules_keys = [[''id'']]"
  "map col_name schedules_columns = [''id'', ''kind'', ''target'', ''cron'', ''timezone'', ''enabled'', ''misfire_grace_seconds'', ''last_run_at'', ''next_run_at'', ''last_error'', ''created_by'', ''created_at'']"
  by code_simp+

lemma notifications_facts [table_facts]:
  "static_ok ''notifications'' notifications_columns notifications_keys"
  "enum_needs notifications_columns = [''notification_status'']"
  "needs_citext notifications_columns = False"
  "foreign_needs ''notifications'' notifications_keys = [(''users'', [''id''])]"
  "key_names notifications_keys = [''pk_notifications'', ''uq_notifications_dedupe_key'']"
  "key_sets notifications_keys = [[''id''], [''dedupe_key'']]"
  "map col_name notifications_columns = [''id'', ''user_id'', ''template'', ''finding_ids'', ''status'', ''dedupe_key'', ''attempts'', ''error'', ''created_at'', ''sent_at'']"
  by code_simp+

lemma watchlist_facts [table_facts]:
  "static_ok ''watchlist'' watchlist_columns watchlist_keys"
  "enum_needs watchlist_columns = []"
  "needs_citext watchlist_columns = False"
  "foreign_needs ''watchlist'' watchlist_keys = [(''subjects'', [''id'']), (''users'', [''id'']), (''users'', [''id''])]"
  "key_names watchlist_keys = [''pk_watchlist'', ''uq_watchlist_subject_id'', ''uq_watchlist_user_id'']"
  "key_sets watchlist_keys = [[''id''], [''subject_id''], [''user_id'']]"
  "map col_name watchlist_columns = [''id'', ''subject_id'', ''user_id'', ''alert_soc'', ''alert_user'', ''alert_wazuh'', ''alert_iris'', ''enabled'', ''created_by'', ''created_at'']"
  by code_simp+

lemma alert_outbox_facts [table_facts]:
  "static_ok ''alert_outbox'' alert_outbox_columns alert_outbox_keys"
  "enum_needs alert_outbox_columns = [''alert_sink_name'', ''alert_outbox_status'']"
  "needs_citext alert_outbox_columns = False"
  "foreign_needs ''alert_outbox'' alert_outbox_keys = []"
  "key_names alert_outbox_keys = [''pk_alert_outbox'', ''uq_alert_outbox_dedupe_key'']"
  "key_sets alert_outbox_keys = [[''id''], [''dedupe_key'']]"
  "map col_name alert_outbox_columns = [''id'', ''sink'', ''payload'', ''status'', ''dedupe_key'', ''attempts'', ''next_attempt_at'', ''last_error'', ''created_at'', ''delivered_at'']"
  by code_simp+

lemma branding_facts [table_facts]:
  "static_ok ''branding'' branding_columns branding_keys"
  "enum_needs branding_columns = []"
  "needs_citext branding_columns = False"
  "foreign_needs ''branding'' branding_keys = []"
  "key_names branding_keys = [''pk_branding'']"
  "key_sets branding_keys = [[''id'']]"
  "map col_name branding_columns = [''id'', ''organization_name'', ''logo'', ''logo_content_type'', ''logo_sha256'', ''updated_at'']"
  by code_simp+

section \<open>What every revision adds\<close>

lemma table_with_selectors [grow_simps]:
  "tbl_name (table_with r t cs ks ix) = t" "tbl_owner (table_with r t cs ks ix) = r"
  "tbl_columns (table_with r t cs ks ix) = cs" "tbl_constraints (table_with r t cs ks ix) = ks"
  "tbl_indexes (table_with r t cs ks ix) = ix"
  "(table_with r t cs ks ix)\<lparr>tbl_indexes := ix'\<rparr> = table_with r t cs ks ix'"
  "(table_with r t cs ks ix)\<lparr>tbl_columns := cs'\<rparr> = table_with r t cs' ks ix"
  "(table_with r t cs ks ix)\<lparr>tbl_constraints := ks'\<rparr> = table_with r t cs ks' ix"
  "relations_of (table_with r t cs ks ix) = t # map fst ix @ key_names ks"
  "column_names (table_with r t cs ks ix) = map col_name cs"
  by (simp_all add: table_with_def relations_of_def key_names_def column_names_def)

definition tables_0002 :: "table list" where
  "tables_0002 = [
     table_with MIGRATOR ''users'' users_columns users_keys [],
     table_with MIGRATOR ''admin_credentials'' admin_credentials_columns admin_credentials_keys [],
     table_with MIGRATOR ''sessions'' sessions_columns sessions_keys [(''ix_sessions_user_id'', [''user_id''])]]"

definition acl_0002 :: "(object \<times> privilege \<times> string) list" where
  "acl_0002 = [
     (OnTable ''users'', SELECT, RUNTIME),
     (OnTable ''users'', INSERT, RUNTIME),
     (OnTable ''users'', UPDATE, RUNTIME),
     (OnTable ''admin_credentials'', SELECT, RUNTIME),
     (OnTable ''admin_credentials'', INSERT, RUNTIME),
     (OnTable ''admin_credentials'', UPDATE, RUNTIME),
     (OnTable ''sessions'', SELECT, RUNTIME),
     (OnTable ''sessions'', INSERT, RUNTIME),
     (OnTable ''sessions'', UPDATE, RUNTIME)]"

definition enums_0002 :: "enum_type list" where
  "enums_0002 = [
     \<lparr>enu_name = ''user_role'', enu_owner = MIGRATOR, enu_values = [''user'', ''analyst'', ''super_admin'']\<rparr>,
     \<lparr>enu_name = ''user_source'', enu_owner = MIGRATOR, enu_values = [''google'', ''workspace_sync'', ''manual'']\<rparr>]"

definition names_0002 :: "string list" where
  "names_0002 = [''users'', ''pk_users'', ''uq_users_email'', ''uq_users_google_sub'', ''admin_credentials'', ''pk_admin_credentials'', ''sessions'', ''ix_sessions_user_id'', ''pk_sessions'']"

lemma relations_0002: "concat (map relations_of tables_0002) = names_0002"
  by (simp add: tables_0002_def names_0002_def grow_simps table_facts)

definition tables_0003 :: "table list" where
  "tables_0003 = [
     table_with MIGRATOR ''admin_login_rate_limits'' admin_login_rate_limits_columns admin_login_rate_limits_keys []]"

definition acl_0003 :: "(object \<times> privilege \<times> string) list" where
  "acl_0003 = [
     (OnTable ''admin_login_rate_limits'', SELECT, RUNTIME),
     (OnTable ''admin_login_rate_limits'', INSERT, RUNTIME),
     (OnTable ''admin_login_rate_limits'', UPDATE, RUNTIME)]"

definition names_0003 :: "string list" where
  "names_0003 = [''admin_login_rate_limits'', ''pk_admin_login_rate_limits'']"

lemma relations_0003: "concat (map relations_of tables_0003) = names_0003"
  by (simp add: tables_0003_def names_0003_def grow_simps table_facts)

definition tables_0004 :: "table list" where
  "tables_0004 = [
     table_with MIGRATOR ''platform_settings'' platform_settings_columns platform_settings_keys [],
     table_with MIGRATOR ''audit_log'' audit_log_columns audit_log_keys [(''ix_audit_log_action'', [''action'']), (''ix_audit_log_actor_id'', [''actor_id''])]]"

definition acl_0004 :: "(object \<times> privilege \<times> string) list" where
  "acl_0004 = [
     (OnTable ''platform_settings'', SELECT, RUNTIME),
     (OnTable ''platform_settings'', INSERT, RUNTIME),
     (OnTable ''platform_settings'', UPDATE, RUNTIME),
     (OnTable ''audit_log'', SELECT, RUNTIME),
     (OnTable ''audit_log'', INSERT, RUNTIME)]"

definition names_0004 :: "string list" where
  "names_0004 = [''platform_settings'', ''pk_platform_settings'', ''audit_log'', ''ix_audit_log_action'', ''ix_audit_log_actor_id'', ''pk_audit_log'']"

lemma relations_0004: "concat (map relations_of tables_0004) = names_0004"
  by (simp add: tables_0004_def names_0004_def grow_simps table_facts)

definition tables_0005 :: "table list" where
  "tables_0005 = [
     table_with MIGRATOR ''subjects'' subjects_columns subjects_keys [(''ix_subjects_linked_user_id'', [''linked_user_id''])],
     table_with MIGRATOR ''scans'' scans_columns scans_keys [(''ix_scans_requested_by'', [''requested_by'']), (''ix_scans_subject_id'', [''subject_id''])],
     table_with MIGRATOR ''breach_sources'' breach_sources_columns breach_sources_keys [],
     table_with MIGRATOR ''findings'' findings_columns findings_keys [(''ix_findings_source_id'', [''source_id'']), (''ix_findings_subject_id'', [''subject_id'']), (''ix_findings_subject_remediation'', [''subject_id'', ''remediated_at''])],
     table_with MIGRATOR ''finding_events'' finding_events_columns finding_events_keys [(''ix_finding_events_finding_id'', [''finding_id''])]]"

definition acl_0005 :: "(object \<times> privilege \<times> string) list" where
  "acl_0005 = [
     (OnTable ''subjects'', SELECT, RUNTIME),
     (OnTable ''subjects'', INSERT, RUNTIME),
     (OnTable ''subjects'', UPDATE, RUNTIME),
     (OnTable ''scans'', SELECT, RUNTIME),
     (OnTable ''scans'', INSERT, RUNTIME),
     (OnTable ''scans'', UPDATE, RUNTIME),
     (OnTable ''breach_sources'', SELECT, RUNTIME),
     (OnTable ''breach_sources'', INSERT, RUNTIME),
     (OnTable ''breach_sources'', UPDATE, RUNTIME),
     (OnTable ''findings'', SELECT, RUNTIME),
     (OnTable ''findings'', INSERT, RUNTIME),
     (OnTable ''findings'', UPDATE, RUNTIME),
     (OnTable ''finding_events'', SELECT, RUNTIME),
     (OnTable ''finding_events'', INSERT, RUNTIME)]"

definition enums_0005 :: "enum_type list" where
  "enums_0005 = [
     \<lparr>enu_name = ''subject_kind'', enu_owner = MIGRATOR, enu_values = [''email'', ''domain'', ''username'', ''phone'', ''origin'', ''password'']\<rparr>,
     \<lparr>enu_name = ''scan_trigger'', enu_owner = MIGRATOR, enu_values = [''manual'', ''self'', ''batch'', ''scheduled'']\<rparr>,
     \<lparr>enu_name = ''scan_status'', enu_owner = MIGRATOR, enu_values = [''pending'', ''running'', ''succeeded'', ''failed'']\<rparr>,
     \<lparr>enu_name = ''finding_severity'', enu_owner = MIGRATOR, enu_values = [''low'', ''medium'', ''high'']\<rparr>,
     \<lparr>enu_name = ''finding_event_type'', enu_owner = MIGRATOR, enu_values = [''discovered'', ''remediated'', ''unremediated'', ''re_leaked'', ''password_viewed'', ''notified'', ''alerted'']\<rparr>]"

definition names_0005 :: "string list" where
  "names_0005 = [''subjects'', ''ix_subjects_linked_user_id'', ''pk_subjects'', ''uq_subjects_kind_value_norm'', ''scans'', ''ix_scans_requested_by'', ''ix_scans_subject_id'', ''pk_scans'', ''breach_sources'', ''pk_breach_sources'', ''uq_breach_sources_identity'', ''findings'', ''ix_findings_source_id'', ''ix_findings_subject_id'', ''ix_findings_subject_remediation'', ''pk_findings'', ''uq_findings_fingerprint'', ''finding_events'', ''ix_finding_events_finding_id'', ''pk_finding_events'']"

lemma relations_0005: "concat (map relations_of tables_0005) = names_0005"
  by (simp add: tables_0005_def names_0005_def grow_simps table_facts)

definition tables_0006 :: "table list" where
  "tables_0006 = [
     table_with MIGRATOR ''scan_batches'' scan_batches_columns scan_batches_keys [(''ix_scan_batches_created_by'', [''created_by''])],
     table_with MIGRATOR ''scan_queue'' scan_queue_columns scan_queue_keys [(''ix_scan_queue_batch_id'', [''batch_id'']), (''ix_scan_queue_subject_id'', [''subject_id'']), (''ix_scan_queue_claim'', [''status'', ''created_at''])]]"

definition acl_0006 :: "(object \<times> privilege \<times> string) list" where
  "acl_0006 = [
     (OnTable ''scan_batches'', SELECT, RUNTIME),
     (OnTable ''scan_batches'', INSERT, RUNTIME),
     (OnTable ''scan_batches'', UPDATE, RUNTIME),
     (OnTable ''scan_queue'', SELECT, RUNTIME),
     (OnTable ''scan_queue'', INSERT, RUNTIME),
     (OnTable ''scan_queue'', UPDATE, RUNTIME)]"

definition enums_0006 :: "enum_type list" where
  "enums_0006 = [
     \<lparr>enu_name = ''batch_target'', enu_owner = MIGRATOR, enu_values = [''ou'', ''domain'', ''selection'']\<rparr>,
     \<lparr>enu_name = ''batch_status'', enu_owner = MIGRATOR, enu_values = [''pending'', ''running'', ''succeeded'', ''partial'', ''failed'']\<rparr>,
     \<lparr>enu_name = ''queue_status'', enu_owner = MIGRATOR, enu_values = [''queued'', ''running'', ''succeeded'', ''failed'']\<rparr>]"

definition names_0006 :: "string list" where
  "names_0006 = [''scan_batches'', ''ix_scan_batches_created_by'', ''pk_scan_batches'', ''scan_queue'', ''ix_scan_queue_batch_id'', ''ix_scan_queue_subject_id'', ''ix_scan_queue_claim'', ''pk_scan_queue'', ''uq_scan_queue_batch_subject'']"

lemma relations_0006: "concat (map relations_of tables_0006) = names_0006"
  by (simp add: tables_0006_def names_0006_def grow_simps table_facts)

definition tables_0007 :: "table list" where
  "tables_0007 = [
     table_with MIGRATOR ''schedules'' schedules_columns schedules_keys [(''ix_schedules_created_by'', [''created_by'']), (''ix_schedules_due'', [''enabled'', ''next_run_at''])]]"

definition acl_0007 :: "(object \<times> privilege \<times> string) list" where
  "acl_0007 = [
     (OnTable ''schedules'', SELECT, RUNTIME),
     (OnTable ''schedules'', INSERT, RUNTIME),
     (OnTable ''schedules'', UPDATE, RUNTIME),
     (OnTable ''schedules'', DELETE, RUNTIME)]"

definition enums_0007 :: "enum_type list" where
  "enums_0007 = [
     \<lparr>enu_name = ''schedule_kind'', enu_owner = MIGRATOR, enu_values = [''scan_ou'', ''scan_domain'']\<rparr>]"

definition names_0007 :: "string list" where
  "names_0007 = [''schedules'', ''ix_schedules_created_by'', ''ix_schedules_due'', ''pk_schedules'']"

lemma relations_0007: "concat (map relations_of tables_0007) = names_0007"
  by (simp add: tables_0007_def names_0007_def grow_simps table_facts)

definition tables_0008 :: "table list" where
  "tables_0008 = [
     table_with MIGRATOR ''notifications'' notifications_columns notifications_keys [(''ix_notifications_user_id'', [''user_id'']), (''ix_notifications_claim'', [''status'', ''created_at'']), (''ix_notifications_user_sent'', [''user_id'', ''sent_at''])]]"

definition acl_0008 :: "(object \<times> privilege \<times> string) list" where
  "acl_0008 = [
     (OnTable ''notifications'', SELECT, RUNTIME),
     (OnTable ''notifications'', INSERT, RUNTIME),
     (OnTable ''notifications'', UPDATE, RUNTIME)]"

definition enums_0008 :: "enum_type list" where
  "enums_0008 = [
     \<lparr>enu_name = ''notification_status'', enu_owner = MIGRATOR, enu_values = [''pending'', ''dry_run'', ''sent'', ''suppressed'', ''failed'']\<rparr>]"

definition names_0008 :: "string list" where
  "names_0008 = [''notifications'', ''ix_notifications_user_id'', ''ix_notifications_claim'', ''ix_notifications_user_sent'', ''pk_notifications'', ''uq_notifications_dedupe_key'']"

lemma relations_0008: "concat (map relations_of tables_0008) = names_0008"
  by (simp add: tables_0008_def names_0008_def grow_simps table_facts)

definition tables_0009 :: "table list" where
  "tables_0009 = [
     table_with MIGRATOR ''watchlist'' watchlist_columns watchlist_keys [(''ix_watchlist_created_by'', [''created_by''])],
     table_with MIGRATOR ''alert_outbox'' alert_outbox_columns alert_outbox_keys [(''ix_alert_outbox_due'', [''status'', ''next_attempt_at''])]]"

definition acl_0009 :: "(object \<times> privilege \<times> string) list" where
  "acl_0009 = [
     (OnTable ''watchlist'', SELECT, RUNTIME),
     (OnTable ''watchlist'', INSERT, RUNTIME),
     (OnTable ''watchlist'', UPDATE, RUNTIME),
     (OnTable ''watchlist'', DELETE, RUNTIME),
     (OnTable ''alert_outbox'', SELECT, RUNTIME),
     (OnTable ''alert_outbox'', INSERT, RUNTIME),
     (OnTable ''alert_outbox'', UPDATE, RUNTIME)]"

definition enums_0009 :: "enum_type list" where
  "enums_0009 = [
     \<lparr>enu_name = ''alert_sink_name'', enu_owner = MIGRATOR, enu_values = [''wazuh'', ''dfir_iris'']\<rparr>,
     \<lparr>enu_name = ''alert_outbox_status'', enu_owner = MIGRATOR, enu_values = [''pending'', ''delivered'', ''dead_letter'']\<rparr>]"

definition names_0009 :: "string list" where
  "names_0009 = [''watchlist'', ''ix_watchlist_created_by'', ''pk_watchlist'', ''uq_watchlist_subject_id'', ''uq_watchlist_user_id'', ''alert_outbox'', ''ix_alert_outbox_due'', ''pk_alert_outbox'', ''uq_alert_outbox_dedupe_key'']"

lemma relations_0009: "concat (map relations_of tables_0009) = names_0009"
  by (simp add: tables_0009_def names_0009_def grow_simps table_facts)

definition tables_0012 :: "table list" where
  "tables_0012 = [
     table_with MIGRATOR ''branding'' branding_columns branding_keys []]"

definition names_0012 :: "string list" where
  "names_0012 = [''branding'', ''pk_branding'']"

lemma relations_0012: "concat (map relations_of tables_0012) = names_0012"
  by (simp add: tables_0012_def names_0012_def grow_simps table_facts)

section \<open>Growing a schema\<close>

definition grow ::
  "schema \<Rightarrow> (object \<times> privilege \<times> string) list \<Rightarrow> string list \<Rightarrow> enum_type list \<Rightarrow> table list \<Rightarrow> schema" where
  "grow s A X E T =
     s\<lparr>sc_acl := sc_acl s @ A, sc_extensions := sc_extensions s @ X, sc_enums := sc_enums s @ E, sc_tables := sc_tables s @ T\<rparr>"

lemma grow_nothing: "grow s [] [] [] [] = s"
  by (simp add: grow_def)

lemma grow_selectors [grow_simps]:
  "sc_acl (grow s A X E T) = sc_acl s @ A" "sc_extensions (grow s A X E T) = sc_extensions s @ X"
  "sc_enums (grow s A X E T) = sc_enums s @ E" "sc_tables (grow s A X E T) = sc_tables s @ T"
  "sc_credentials (grow s A X E T) = sc_credentials s" "sc_roles (grow s A X E T) = sc_roles s"
  "sc_now (grow s A X E T) = sc_now s" "sc_name (grow s A X E T) = sc_name s"
  "(grow s A X E T)\<lparr>sc_acl := sc_acl s @ A'\<rparr> = grow s A' X E T" "(grow s A X E T)\<lparr>sc_extensions := sc_extensions s @ X'\<rparr> = grow s A X' E T"
  "(grow s A X E T)\<lparr>sc_enums := sc_enums s @ E'\<rparr> = grow s A X E' T" "(grow s A X E T)\<lparr>sc_tables := sc_tables s @ T'\<rparr> = grow s A X E T'"
  by (simp_all add: grow_def)

text \<open>Privileges are those on tables that exist.\<close>

definition acl_scoped :: "schema \<Rightarrow> bool" where
  "acl_scoped s \<longleftrightarrow> list_all (\<lambda>(x, p, g). object_exists x s) (sc_acl s)"

lemma acl_scopedD: "acl_scoped s \<Longrightarrow> table_named t s = None \<Longrightarrow> (OnTable t, p, g) \<notin> set (sc_acl s)"
  by (fastforce simp: acl_scoped_def list_all_iff object_exists_def)

lemma grow_named [grow_simps]:
  "table_named t s = None \<Longrightarrow> table_named t (grow s A X E T) = find (\<lambda>y. tbl_name y = t) T"
  "table_named t s = Some y \<Longrightarrow> table_named t (grow s A X E T) = Some y"
  "enum_named e s = None \<Longrightarrow> enum_named e (grow s A X E T) = find (\<lambda>y. enu_name y = e) E"
  "enum_named e s = Some z \<Longrightarrow> enum_named e (grow s A X E T) = Some z"
  by (simp_all add: table_named_def enum_named_def grow_selectors find_append)

lemma grow_keys [grow_simps]:
  "has_key x (sc_tables s) \<Longrightarrow> has_key x (sc_tables s @ T)"
  "table_named (fst x) s = None \<Longrightarrow> has_key x (sc_tables s @ T) = has_key x T"
  by (auto simp: has_key_def table_named_def find_append split: option.splits)

lemma grow_relations [grow_simps]: "relation_names (grow s A X E T) = relation_names s @ concat (map relations_of T)"
  by (simp add: relation_names_def grow_selectors)

lemma grow_may [grow_simps]:
  "may r p PublicSchema s \<Longrightarrow> may r p PublicSchema (grow s A X E T)"
  "may r p TheDatabase s \<Longrightarrow> may r p TheDatabase (grow s A X E T)"
  by (auto simp: may_def grow_selectors)

lemma grow_roles [grow_simps]: "role_exists g (grow s A X E T) = role_exists g s"
  by (simp add: role_exists_def grow_selectors)

lemma find_None_name: "find (\<lambda>y. f y = t) xs = None \<longleftrightarrow> t \<notin> f ` set xs"
  by (induction xs) auto

lemma grow_alter [grow_simps]:
  assumes "table_named t s = None"
  shows "alter t f (grow s A X E T) = grow s A X E (map (\<lambda>y. if tbl_name y = t then f y else y) T)"
proof -
  have "map (\<lambda>y. if tbl_name y = t then f y else y) (sc_tables s) = sc_tables s"
    using assms by (intro map_idI) (auto simp: table_named_def find_None_name)
  then show ?thesis by (simp add: alter_def grow_def)
qed

lemma fresh_table: "t \<notin> set (relation_names s) \<Longrightarrow> table_named t s = None"
  by (auto simp: table_named_def relation_names_def relations_of_def find_None_name)

lemma fresh_acl [grow_simps]:
  "acl_scoped s \<Longrightarrow> table_named t s = None \<Longrightarrow>
   filter (\<lambda>e. e \<notin> set (sc_acl s) \<and> P e) ((OnTable t, p, g) # xs) =
     (if P (OnTable t, p, g) then [(OnTable t, p, g)] else []) @ filter (\<lambda>e. e \<notin> set (sc_acl s) \<and> P e) xs"
  by (simp add: acl_scopedD)

lemma exec_create_table [grow_simps]:
  "exec r (CreateTable t cs ks) s =
     (if \<not> may r CREATE PublicSchema s then Inl ddl_error
      else if \<not> (static_ok t cs ks \<and>
         list_all (\<lambda>e. enum_named e s \<noteq> None) (enum_needs cs) \<and> (needs_citext cs \<longrightarrow> ''citext'' \<in> set (sc_extensions s)) \<and>
         list_all (\<lambda>x. has_key x (sc_tables s)) (foreign_needs t ks) \<and>
         list_all (\<lambda>n. n \<notin> set (relation_names s)) (t # key_names ks)) then Inl ddl_error
      else Inr (s\<lparr>sc_tables := sc_tables s @ [table_with r t cs ks []]\<rparr>))"
  unfolding exec.simps table_ok_new by (simp add: new_table_def)

lemma exec_revoke_new [grow_simps]:
  "acl_scoped s \<Longrightarrow> table_named t s = None \<Longrightarrow> exec r (Revoke ps [OnTable t] g) (grow s A X E T) =
     (if \<not> role_exists g s \<or> \<not> owns_table r t (grow s A X E T) then Inl ddl_error
      else Inr (grow s (filter (\<lambda>(x, p, g'). \<not> (x = OnTable t \<and> p \<in> set ps \<and> g' = g)) A) X E T))"
proof -
  assume s: "acl_scoped s" "table_named t s = None"
  have "filter (\<lambda>(x, p, g'). \<not> (x = OnTable t \<and> p \<in> set ps \<and> g' = g)) (sc_acl s) = sc_acl s"
    using acl_scopedD [OF s] by (intro filter_True) auto
  then show ?thesis
    by (auto simp: grow_simps may_grant_def object_exists_def owns_table_def split: option.splits)
qed

lemma has_key_hit [grow_simps]:
  "has_key x (table_with r t cs ks ix # T) = (if t = fst x then snd x \<in> set (key_sets ks) else has_key x T)"
  "\<not> has_key x []"
  by (simp_all add: has_key_def grow_simps)

text \<open>What a revision of new tables needs of the schema.\<close>

definition receives :: "schema \<Rightarrow> string list \<Rightarrow> string list \<Rightarrow> bool" where
  "receives s ns es \<longleftrightarrow> acl_scoped s \<and> role_exists RUNTIME s \<and> may MIGRATOR CREATE PublicSchema s \<and> may MIGRATOR CREATE TheDatabase s \<and>
     list_all (\<lambda>n. n \<notin> set (relation_names s) \<and> table_named n s = None) ns \<and> list_all (\<lambda>e. enum_named e s = None) es"

lemmas run_simps = grow_simps table_facts receives_def owns_table_def object_exists_def may_grant_def acl_scopedD

lemma run_0002:
  assumes "receives s names_0002 [''user_role'', ''user_source'']" and "''citext'' \<notin> set (sc_extensions s)"
  shows "exec_all MIGRATOR upgrade_0002 s = Inr (grow s acl_0002 [''citext''] enums_0002 tables_0002)"
  using assms unfolding upgrade_0002_def names_0002_def tables_0002_def acl_0002_def enums_0002_def
  by (subst grow_nothing [of s, symmetric]) (simp add: run_simps del: exec.simps(4,11))

lemma run_0003:
  assumes "receives s names_0003 []"
  shows "exec_all MIGRATOR upgrade_0003 s = Inr (grow s acl_0003 [] [] tables_0003)"
  using assms unfolding upgrade_0003_def names_0003_def tables_0003_def acl_0003_def
  by (subst grow_nothing [of s, symmetric]) (simp add: run_simps del: exec.simps(4,11))

lemma run_0004:
  assumes "receives s names_0004 []" and "has_key (''users'', [''id'']) (sc_tables s)"
  shows "exec_all MIGRATOR upgrade_0004 s = Inr (grow s acl_0004 [] [] tables_0004)"
  using assms unfolding upgrade_0004_def names_0004_def tables_0004_def acl_0004_def
  by (subst grow_nothing [of s, symmetric]) (simp add: run_simps del: exec.simps(4,11))

lemma run_0005:
  assumes "receives s names_0005 [''subject_kind'', ''scan_trigger'', ''scan_status'', ''finding_severity'', ''finding_event_type'']" and "has_key (''users'', [''id'']) (sc_tables s)"
  shows "exec_all MIGRATOR upgrade_0005 s = Inr (grow s acl_0005 [] enums_0005 tables_0005)"
  using assms unfolding upgrade_0005_def names_0005_def tables_0005_def acl_0005_def enums_0005_def
  by (subst grow_nothing [of s, symmetric]) (simp add: run_simps del: exec.simps(4,11))

lemma run_0006:
  assumes "receives s names_0006 [''batch_target'', ''batch_status'', ''queue_status'']" and "has_key (''users'', [''id'']) (sc_tables s)" and "has_key (''subjects'', [''id'']) (sc_tables s)"
  shows "exec_all MIGRATOR upgrade_0006 s = Inr (grow s acl_0006 [] enums_0006 tables_0006)"
  using assms unfolding upgrade_0006_def names_0006_def tables_0006_def acl_0006_def enums_0006_def
  by (subst grow_nothing [of s, symmetric]) (simp add: run_simps del: exec.simps(4,11))

lemma run_0007:
  assumes "receives s names_0007 [''schedule_kind'']" and "has_key (''users'', [''id'']) (sc_tables s)"
  shows "exec_all MIGRATOR upgrade_0007 s = Inr (grow s acl_0007 [] enums_0007 tables_0007)"
  using assms unfolding upgrade_0007_def names_0007_def tables_0007_def acl_0007_def enums_0007_def
  by (subst grow_nothing [of s, symmetric]) (simp add: run_simps del: exec.simps(4,11))

lemma run_0008_tables:
  assumes "receives s names_0008 [''notification_status'']" and "has_key (''users'', [''id'']) (sc_tables s)"
  shows "exec_all MIGRATOR (tl upgrade_0008) s = Inr (grow s acl_0008 [] enums_0008 tables_0008)"
  using assms unfolding upgrade_0008_def names_0008_def tables_0008_def acl_0008_def enums_0008_def
  by (subst grow_nothing [of s, symmetric]) (simp add: run_simps del: exec.simps(4,11))

lemma run_0009:
  assumes "receives s names_0009 [''alert_sink_name'', ''alert_outbox_status'']" and "has_key (''subjects'', [''id'']) (sc_tables s)" and "has_key (''users'', [''id'']) (sc_tables s)"
  shows "exec_all MIGRATOR upgrade_0009 s = Inr (grow s acl_0009 [] enums_0009 tables_0009)"
  using assms unfolding upgrade_0009_def names_0009_def tables_0009_def acl_0009_def enums_0009_def
  by (subst grow_nothing [of s, symmetric]) (simp add: run_simps del: exec.simps(4,11))

lemma run_0012:
  assumes "receives s names_0012 []"
  shows "exec_all MIGRATOR upgrade_0012 s = Inr (grow s [] [] [] tables_0012)"
  using assms unfolding upgrade_0012_def names_0012_def tables_0012_def
  by (subst grow_nothing [of s, symmetric]) (simp add: run_simps del: exec.simps(4,11))

section \<open>The revisions that change tables\<close>

definition with_value :: "string \<Rightarrow> string \<Rightarrow> schema \<Rightarrow> schema" where
  "with_value e v s =
     s\<lparr>sc_enums := map (\<lambda>x. if enu_name x = e then x\<lparr>enu_values := enu_values x @ [v]\<rparr> else x) (sc_enums s)\<rparr>"

definition with_enrolment :: "schema \<Rightarrow> schema" where
  "with_enrolment s =
     (alter ''admin_credentials''
        (\<lambda>y. set_nullable ''totp_secret_enc'' True (y\<lparr>tbl_columns := tbl_columns y @ [optional ''totp_enabled_at'' DateTimeType]\<rparr>)) s)
     \<lparr>sc_credentials := map (\<lambda>c. c\<lparr>cred_totp_enabled_at := if cred_totp_secret_enc c = None then None else Some (sc_now s)\<rparr>)
        (sc_credentials s)\<rparr>"

definition latest_batch_key :: sql_constraint where
  "latest_batch_key = ForeignKey ''fk_schedules_last_batch_id'' [''last_batch_id''] ''scan_batches'' [''id''] (Some ''SET NULL'')"

definition with_latest_batch :: "schema \<Rightarrow> schema" where
  "with_latest_batch s =
     alter ''schedules'' (\<lambda>y. y\<lparr>tbl_columns := tbl_columns y @ [optional ''last_batch_id'' UuidType],
       tbl_constraints := tbl_constraints y @ [latest_batch_key],
       tbl_indexes := tbl_indexes y @ [(''ix_schedules_last_batch_id'', [''last_batch_id''])]\<rparr>) s"

definition acl_0013 :: "(object \<times> privilege \<times> string) list" where
  "acl_0013 = [
     (OnTable ''branding'', SELECT, RUNTIME), (OnTable ''branding'', INSERT, RUNTIME), (OnTable ''branding'', UPDATE, RUNTIME),
     (OnTable ''findings'', DELETE, RUNTIME), (OnTable ''finding_events'', DELETE, RUNTIME)]"

lemma alter_selectors [simp]:
  "sc_acl (alter t f s) = sc_acl s" "sc_enums (alter t f s) = sc_enums s" "sc_roles (alter t f s) = sc_roles s"
  "sc_credentials (alter t f s) = sc_credentials s" "sc_now (alter t f s) = sc_now s" "sc_extensions (alter t f s) = sc_extensions s"
  "sc_name (alter t f s) = sc_name s"
  by (simp_all add: alter_def)

definition keeps_name :: "(table \<Rightarrow> table) \<Rightarrow> bool" where
  "keeps_name f \<longleftrightarrow> (\<forall>y. tbl_name (f y) = tbl_name y \<and> tbl_owner (f y) = tbl_owner y)"

lemma find_map: "find P (map f xs) = map_option f (find (P \<circ> f) xs)"
  by (induction xs) auto

lemma table_named_alter:
  assumes "keeps_name f"
  shows "table_named u (alter t f s) = (if u = t then map_option f (table_named u s) else table_named u s)"
proof -
  have *: "(\<lambda>y. tbl_name y = u) \<circ> (\<lambda>y. if tbl_name y = t then f y else y) = (\<lambda>y. tbl_name y = u)"
    using assms by (auto simp: keeps_name_def fun_eq_iff)
  have "map_option (\<lambda>y. if tbl_name y = t then f y else y) (find (\<lambda>y. tbl_name y = u) xs) =
      (if u = t then map_option f (find (\<lambda>y. tbl_name y = u) xs) else find (\<lambda>y. tbl_name y = u) xs)" for xs
    by (induction xs) auto
  then show ?thesis by (simp add: table_named_def alter_def find_map *)
qed

lemma alter_alter: "keeps_name f \<Longrightarrow> alter t g (alter t f s) = alter t (g \<circ> f) s"
  by (auto simp: alter_def keeps_name_def)

lemma run_0010:
  assumes "table_named ''admin_credentials'' s = Some y" and "tbl_owner y = MIGRATOR"
    and "''totp_secret_enc'' \<in> set (column_names y)" and "''totp_enabled_at'' \<notin> set (column_names y)"
  shows "exec_all MIGRATOR upgrade_0010 s = Inr (with_enrolment s)"
proof -
  define f :: "table \<Rightarrow> table" where "f = (\<lambda>y. y\<lparr>tbl_columns := tbl_columns y @ [optional ''totp_enabled_at'' DateTimeType]\<rparr>)"
  define enabled :: "AdminCredential \<Rightarrow> AdminCredential" where "enabled = (\<lambda>c. if cred_totp_secret_enc c \<noteq> None then c\<lparr>cred_totp_enabled_at := Some (sc_now s)\<rparr> else c)"
  define s1 where "s1 = alter ''admin_credentials'' f (fill_column ''admin_credentials'' ''totp_enabled_at'' s)"
  define s2 where "s2 = s1\<lparr>sc_credentials := map enabled (sc_credentials s1)\<rparr>"
  have f: "keeps_name f" by (simp add: keeps_name_def f_def)
  have now: "sc_now s1 = sc_now s" by (simp add: s1_def fill_column_def)
  have named: "table_named ''admin_credentials'' s1 = Some (f y)"
    using assms(1) by (simp add: s1_def table_named_alter [OF f] fill_column_def) (simp add: table_named_def)
  then have named2: "table_named ''admin_credentials'' s2 = Some (f y)" by (simp add: s2_def table_named_def)
  have fy: "tbl_owner (f y) = MIGRATOR" "''totp_secret_enc'' \<in> set (column_names (f y))"
    using assms(2,3) by (simp_all add: f_def column_names_def)
  have "exec MIGRATOR (AddColumn ''admin_credentials'' (optional ''totp_enabled_at'' DateTimeType)) s = Inr s1"
    using assms by (simp add: owns_table_def type_exists_def optional_def s1_def f_def)
  moreover have "exec MIGRATOR EnableStoredSeeds s1 = Inr s2"
    by (simp add: may_def named fy s2_def enabled_def now)
  moreover have "exec MIGRATOR (AlterNullable ''admin_credentials'' ''totp_secret_enc'' True) s2 =
      Inr (alter ''admin_credentials'' (set_nullable ''totp_secret_enc'' True) s2)"
    using fy by (simp add: owns_table_def named2)
  moreover have "alter ''admin_credentials'' (set_nullable ''totp_secret_enc'' True) s2 = with_enrolment s"
    by (auto simp: with_enrolment_def s2_def s1_def fill_column_def alter_def f_def enabled_def)
  ultimately show ?thesis by (simp add: upgrade_0010_def del: exec.simps)
qed

lemma run_0011:
  assumes "table_named ''schedules'' s = Some y" and "tbl_owner y = MIGRATOR"
    and "''last_batch_id'' \<notin> set (column_names y)" and "constraint_name latest_batch_key \<notin> set (map constraint_name (tbl_constraints y))"
    and "table_named ''scan_batches'' s = Some z" and "Some [''id''] \<in> set (map key_columns (tbl_constraints z))"
    and "''ix_schedules_last_batch_id'' \<notin> set (relation_names s)"
  shows "exec_all MIGRATOR upgrade_0011 s = Inr (with_latest_batch s)"
proof -
  define f :: "table \<Rightarrow> table" where "f = (\<lambda>y. y\<lparr>tbl_columns := tbl_columns y @ [optional ''last_batch_id'' UuidType]\<rparr>)"
  define g :: "table \<Rightarrow> table" where "g = (\<lambda>y. y\<lparr>tbl_constraints := tbl_constraints y @ [latest_batch_key]\<rparr>)"
  define h :: "table \<Rightarrow> table" where "h = (\<lambda>y. y\<lparr>tbl_indexes := tbl_indexes y @ [(''ix_schedules_last_batch_id'', [''last_batch_id''])]\<rparr>)"
  have fgh: "keeps_name f" "keeps_name g" "keeps_name h" "keeps_name (g \<circ> f)"
    by (simp_all add: keeps_name_def f_def g_def h_def)
  define s1 where "s1 = alter ''schedules'' f s"
  define s2 where "s2 = alter ''schedules'' (g \<circ> f) s"
  have n1: "table_named ''schedules'' s1 = Some (f y)" "table_named ''scan_batches'' s1 = Some z"
    using assms(1,5) by (simp_all add: s1_def table_named_alter fgh)
  have n2: "table_named ''schedules'' s2 = Some (g (f y))"
    using assms(1) by (simp add: s2_def table_named_alter fgh)
  have "relation_names s2 = relation_names s"
  proof -
    have "relations_of (g (f y)) = relations_of y" for y
      by (simp add: relations_of_def f_def g_def latest_batch_key_def)
    then show ?thesis by (auto simp: relation_names_def s2_def alter_def intro!: arg_cong [where f = concat])
  qed
  then have fresh: "''ix_schedules_last_batch_id'' \<notin> set (relation_names s2)" using assms(7) by simp
  have "tbl_name y = ''schedules''" using assms(1) by (auto simp: table_named_def find_Some_iff)
  then have ok: "constraint_ok (f y) s1 latest_batch_key"
    using n1 assms(6) by (simp add: latest_batch_key_def f_def column_names_def optional_def)
  have "exec MIGRATOR (AddColumn ''schedules'' (optional ''last_batch_id'' UuidType)) s = Inr s1"
    using assms(1-3) by (simp add: owns_table_def type_exists_def optional_def s1_def f_def fill_column_def)
  moreover have "exec MIGRATOR (AddConstraint ''schedules'' latest_batch_key) s1 = Inr s2"
    using n1 ok assms(2,4) unfolding exec.simps
    by (simp add: owns_table_def f_def) (use fgh in \<open>simp add: s1_def s2_def alter_alter f_def [symmetric] g_def [symmetric]\<close>)
  moreover have "exec MIGRATOR (CreateIndex ''ix_schedules_last_batch_id'' ''schedules'' [''last_batch_id'']) s2 =
      Inr (alter ''schedules'' h s2)"
    using fresh assms(2) by (simp add: owns_table_def n2 f_def g_def column_names_def optional_def h_def)
  moreover have "alter ''schedules'' h s2 = with_latest_batch s"
    by (simp add: s2_def alter_alter fgh with_latest_batch_def) (simp add: f_def g_def h_def o_def)
  ultimately show ?thesis by (simp add: upgrade_0011_def latest_batch_key_def [symmetric] del: exec.simps)
qed

lemma run_0013:
  assumes "acl_scoped s" and "role_exists RUNTIME s" and "owns_table MIGRATOR ''branding'' s"
    and "owns_table MIGRATOR ''findings'' s" and "owns_table MIGRATOR ''finding_events'' s"
    and "list_all (\<lambda>e. e \<notin> set (sc_acl s)) acl_0013"
  shows "exec_all MIGRATOR upgrade_0013 s = Inr (s\<lparr>sc_acl := sc_acl s @ acl_0013\<rparr>)"
proof -
  have "table_named t (s\<lparr>sc_acl := A\<rparr>) = table_named t s" "role_exists r (s\<lparr>sc_acl := A\<rparr>) = role_exists r s"
    "owns_table r t (s\<lparr>sc_acl := A\<rparr>) = owns_table r t s" for A r t
    by (simp_all add: table_named_def role_exists_def owns_table_def)
  moreover have "table_named t s \<noteq> None" if "owns_table MIGRATOR t s" for t
    using that by (auto simp: owns_table_def split: option.splits)
  ultimately show ?thesis
    using assms by (simp add: upgrade_0013_def acl_0013_def object_exists_def may_grant_def)
qed

lemma enum_named_None: "enum_named e s = None \<longleftrightarrow> e \<notin> set (map enu_name (sc_enums s))"
  by (simp add: enum_named_def find_None_name)

lemma with_value_names: "map enu_name (sc_enums (with_value e v s)) = map enu_name (sc_enums s)"
  by (simp add: with_value_def)

lemma run_0008:
  assumes "receives s names_0008 [''notification_status'']" and "has_key (''users'', [''id'']) (sc_tables s)"
    and "enum_named ''schedule_kind'' s = Some z" and "enu_owner z = MIGRATOR" and "''digest'' \<notin> set (enu_values z)"
  shows "exec_all MIGRATOR upgrade_0008 s = Inr (grow (with_value ''schedule_kind'' ''digest'' s) acl_0008 [] enums_0008 tables_0008)"
proof -
  let ?s = "with_value ''schedule_kind'' ''digest'' s"
  have same: "sc_tables ?s = sc_tables s" "sc_acl ?s = sc_acl s" "sc_roles ?s = sc_roles s" by (simp_all add: with_value_def)
  have named: "table_named t ?s = table_named t s" "relation_names ?s = relation_names s" "role_exists r ?s = role_exists r s" for t r
    by (simp_all add: table_named_def relation_names_def role_exists_def same)
  then have "may r p x ?s = may r p x s" "object_exists x ?s = object_exists x s" for r p x
    by (simp_all add: may_def same object_exists_def split: object.splits)
  then have "may r p x ?s = may r p x s" "acl_scoped ?s = acl_scoped s" for r p x
    by (simp_all add: acl_scoped_def same)
  moreover have "enum_named e ?s = None \<longleftrightarrow> enum_named e s = None" for e
    by (simp add: enum_named_None with_value_names)
  ultimately have "receives ?s names_0008 [''notification_status'']"
    using assms(1) by (simp add: receives_def named)
  then have "exec_all MIGRATOR (tl upgrade_0008) ?s = Inr (grow ?s acl_0008 [] enums_0008 tables_0008)"
    by (rule run_0008_tables) (simp add: same assms(2))
  moreover have "exec MIGRATOR (hd upgrade_0008) s = Inr ?s"
    using assms(3-5) by (simp add: upgrade_0008_def with_value_def)
  moreover have "upgrade_0008 = hd upgrade_0008 # tl upgrade_0008" by (simp add: upgrade_0008_def)
  ultimately show ?thesis by (metis bind_res_simps(2) exec_all.simps(2))
qed

section \<open>The whole chain\<close>

definition new_database :: "ustr \<Rightarrow> ustr \<Rightarrow> datetime \<Rightarrow> schema" where
  "new_database name pw now =
     \<lparr>sc_name = name, sc_roles = [(SUPERUSER, pw)],
      sc_acl = [(TheDatabase, CONNECT, ''PUBLIC''), (PublicSchema, USAGE, ''PUBLIC'')],
      sc_extensions = [], sc_enums = [], sc_tables = [], sc_credentials = [], sc_now = now\<rparr>"

definition version_table :: table where
  "version_table = table_with MIGRATOR VERSION_TABLE [required ''version_num'' (StringType 32)]
     [PrimaryKey ''alembic_version_pkc'' [''version_num'']] []"

definition acl_0001 :: "(object \<times> privilege \<times> string) list" where
  "acl_0001 = [
     (TheDatabase, CONNECT, ''PUBLIC''), (PublicSchema, USAGE, ''PUBLIC''),
     (TheDatabase, CONNECT, MIGRATOR), (TheDatabase, CREATE, MIGRATOR), (TheDatabase, CONNECT, RUNTIME),
     (PublicSchema, USAGE, MIGRATOR), (PublicSchema, CREATE, MIGRATOR), (PublicSchema, USAGE, RUNTIME),
     (OnTable VERSION_TABLE, SELECT, RUNTIME)]"

definition after_0001 :: "ustr \<Rightarrow> ustr \<Rightarrow> ustr \<Rightarrow> ustr \<Rightarrow> datetime \<Rightarrow> schema" where
  "after_0001 name pw migrator runtime now =
     (new_database name pw now)\<lparr>sc_roles := [(SUPERUSER, pw), (MIGRATOR, migrator), (RUNTIME, runtime)],
       sc_acl := acl_0001, sc_tables := [version_table]\<rparr>"

definition after_0002 :: "schema \<Rightarrow> schema" where
  "after_0002 s = grow s acl_0002 [''citext''] enums_0002 tables_0002"

definition after_0003 :: "schema \<Rightarrow> schema" where
  "after_0003 s = grow (after_0002 s) acl_0003 [] [] tables_0003"

definition after_0004 :: "schema \<Rightarrow> schema" where
  "after_0004 s = grow (after_0003 s) acl_0004 [] [] tables_0004"

definition after_0005 :: "schema \<Rightarrow> schema" where
  "after_0005 s = grow (after_0004 s) acl_0005 [] enums_0005 tables_0005"

definition after_0006 :: "schema \<Rightarrow> schema" where
  "after_0006 s = grow (after_0005 s) acl_0006 [] enums_0006 tables_0006"

definition after_0007 :: "schema \<Rightarrow> schema" where
  "after_0007 s = grow (after_0006 s) acl_0007 [] enums_0007 tables_0007"

definition after_0008 :: "schema \<Rightarrow> schema" where
  "after_0008 s = grow (with_value ''schedule_kind'' ''digest'' (after_0007 s)) acl_0008 [] enums_0008 tables_0008"

definition after_0009 :: "schema \<Rightarrow> schema" where
  "after_0009 s = grow (after_0008 s) acl_0009 [] enums_0009 tables_0009"

definition after_0010 :: "schema \<Rightarrow> schema" where
  "after_0010 s = with_enrolment (after_0009 s)"

definition after_0011 :: "schema \<Rightarrow> schema" where
  "after_0011 s = with_latest_batch (after_0010 s)"

definition after_0012 :: "schema \<Rightarrow> schema" where
  "after_0012 s = grow (after_0011 s) [] [] [] tables_0012"

definition after_0013 :: "schema \<Rightarrow> schema" where
  "after_0013 s = (after_0012 s)\<lparr>sc_acl := sc_acl (after_0012 s) @ acl_0013\<rparr>"

text \<open>A password a role can get: a literal in the \<open>DO\<close> block has no two dollar signs in a row.\<close>

fun double_dollar :: "ustr \<Rightarrow> bool" where
  "double_dollar [] = False"
| "double_dollar (c # cs) \<longleftrightarrow> c = 36 \<and> cs \<noteq> [] \<and> hd cs = 36 \<or> double_dollar cs"

lemma doubled_quotes_Cons: "doubled_quotes (c # cs) = (if c = 39 then [39, 39] else [c]) @ doubled_quotes cs"
  by (simp add: doubled_quotes_def)

lemma doubled_quotes_Nil [simp]: "doubled_quotes [] = []"
  by (simp add: doubled_quotes_def)

lemma hd_doubled_quotes: "cs \<noteq> [] \<Longrightarrow> doubled_quotes cs \<noteq> [] \<and> hd (doubled_quotes cs) = hd cs"
  by (cases cs) (auto simp: doubled_quotes_Cons)

lemma unquoted_doubled: "unquoted (doubled_quotes p) = (if double_dollar p then None else Some p)"
proof (induction p)
  case (Cons c cs)
  show ?case
  proof (cases "cs = []")
    case False
    then show ?thesis using Cons hd_doubled_quotes [OF False] by (auto simp: doubled_quotes_Cons)
  qed (simp add: doubled_quotes_Cons)
qed simp

definition password_accepted :: "environ \<Rightarrow> string \<Rightarrow> ustr \<Rightarrow> bool" where
  "password_accepted E name p \<longleftrightarrow>
     E name = Some p \<and> 32 \<le> length p \<and> \<not> startswith ''replace-with-'' p \<and> \<not> double_dollar p"

lemma lineage_first: "lineage_of (Some ''0001_bootstrap_roles'') = Some (take 1 scripts)"
  by (simp add: lineage_of_def scripts_def)

lemma lineage_head: "lineage_of (Some ''0013_branding_grants'') = Some scripts"
  by (simp add: lineage_of_def scripts_def eval_nat_numeral)

lemma the_head: "head_revisions = [''0013_branding_grants'']"
  by (simp add: head_revisions_def scripts_def)

lemma run_0001:
  assumes "password_accepted E ''LC_MIGRATOR_DB_PASSWORD'' p" and "password_accepted E ''LC_RUNTIME_DB_PASSWORD'' q"
    and "plain_identifier name"
  shows "command_upgrade E SUPERUSER ''0001_bootstrap_roles'' \<lparr>sv_schema = new_database name pw now, sv_version = None\<rparr> =
    Inr \<lparr>sv_schema = after_0001 name pw p q now, sv_version = Some ''0001_bootstrap_roles''\<rparr>"
proof -
  have path: "filter (\<lambda>x. sr_revision x \<notin> sr_revision ` set []) (take 1 scripts) =
      [\<lparr>sr_revision = ''0001_bootstrap_roles'', sr_down = None, sr_upgrade = upgrade_0001, sr_downgrade = downgrade_0001\<rparr>]"
    by (simp add: scripts_def)
  let ?t = "\<lparr>sv_schema = (new_database name pw now)\<lparr>sc_tables := [table_with SUPERUSER VERSION_TABLE [required ''version_num'' (StringType 32)]
        [PrimaryKey ''alembic_version_pkc'' [''version_num'']] []]\<rparr>, sv_version = None\<rparr>"
  have table: "ensure_version_table SUPERUSER \<lparr>sv_schema = new_database name pw now, sv_version = None\<rparr> = Inr ?t"
    by (simp add: ensure_version_table_def table_named_def new_database_def table_ok_def new_table_def may_def
        table_with_selectors type_exists_def required_def relation_names_def VERSION_TABLE_def key_names_def)
  have stmts: "upgrade_0001 E name = Inr [
       CreateRole MIGRATOR (doubled_quotes p), CreateRole RUNTIME (doubled_quotes q),
       Grant [CONNECT] [TheDatabase] MIGRATOR, Grant [CREATE] [TheDatabase] MIGRATOR, Grant [CONNECT] [TheDatabase] RUNTIME,
       Revoke [CREATE] [PublicSchema] ''PUBLIC'', Grant [USAGE, CREATE] [PublicSchema] MIGRATOR, Grant [USAGE] [PublicSchema] RUNTIME,
       AlterOwner ''alembic_version'' MIGRATOR, Grant [SELECT] [OnTable ''alembic_version''] RUNTIME]"
    using assms by (simp add: upgrade_0001_def bootstrap_password_def password_accepted_def)
  have exec: "exec_all SUPERUSER (projr (upgrade_0001 E name)) (sv_schema ?t) = Inr (after_0001 name pw p q now)"
    using assms(1,2)
    by (simp add: stmts new_database_def role_exists_def unquoted_doubled password_accepted_def may_grant_def object_exists_def
        owns_table_def table_named_def table_with_selectors VERSION_TABLE_def alter_def after_0001_def acl_0001_def version_table_def)
  have "upgrade_step E SUPERUSER \<lparr>sr_revision = ''0001_bootstrap_roles'', sr_down = None, sr_upgrade = upgrade_0001, sr_downgrade = downgrade_0001\<rparr> ?t
      = Inr \<lparr>sv_schema = after_0001 name pw p q now, sv_version = Some ''0001_bootstrap_roles''\<rparr>"
    using exec stmts by (simp add: upgrade_step_def new_database_def stamp_def may_def)
  then show ?thesis
    unfolding command_upgrade_def lineage_first
    by (simp add: lineage_of_def path [simplified] table)
qed

text \<open>What every later revision finds, and what it needs for its own objects.\<close>

definition ready :: "schema \<Rightarrow> bool" where
  "ready s \<longleftrightarrow> acl_scoped s \<and> role_exists RUNTIME s \<and> may MIGRATOR CREATE PublicSchema s \<and> may MIGRATOR CREATE TheDatabase s \<and>
     owns_table MIGRATOR VERSION_TABLE s"

lemma ready_receives:
  "ready s \<Longrightarrow> set ns \<inter> set (relation_names s) = {} \<Longrightarrow> set es \<inter> set (map enu_name (sc_enums s)) = {} \<Longrightarrow> receives s ns es"
  using fresh_table by (fastforce simp: ready_def receives_def list_all_iff enum_named_None)

lemma ready_cong:
  assumes "ready s" and "sc_roles s' = sc_roles s" and "sc_acl s' = sc_acl s"
    and "\<And>t. map_option tbl_owner (table_named t s') = map_option tbl_owner (table_named t s)"
  shows "ready s'"
proof -
  have named: "table_named t s' = None \<longleftrightarrow> table_named t s = None" for t using assms(4) [of t] by (metis option.map_disc_iff)
  then have "object_exists x s' = object_exists x s" for x by (simp add: object_exists_def split: object.splits)
  moreover have "owns_table r t s' = owns_table r t s" for r t
    using assms(4) [of t] by (auto simp: owns_table_def split: option.splits)
  ultimately show ?thesis using assms(1-3) by (simp add: ready_def acl_scoped_def role_exists_def may_def)
qed

lemma ready_grow:
  assumes "ready s" and "list_all (\<lambda>(x, p, g). case x of OnTable t \<Rightarrow> t \<in> tbl_name ` set T | _ \<Rightarrow> True) A"
  shows "ready (grow s A X E T)"
proof -
  have "table_named t (grow s A X E T) = None \<longleftrightarrow> t \<notin> tbl_name ` set (sc_tables s @ T)" for t
    unfolding table_named_def grow_selectors find_None_name ..
  moreover have "table_named t s = None \<longleftrightarrow> t \<notin> tbl_name ` set (sc_tables s)" for t
    unfolding table_named_def find_None_name ..
  ultimately have named: "table_named t (grow s A X E T) \<noteq> None \<longleftrightarrow> table_named t s \<noteq> None \<or> t \<in> tbl_name ` set T" for t
    by auto
  have "object_exists x (grow s A X E T)" if "object_exists x s" for x
    using that named by (auto simp: object_exists_def split: object.splits)
  moreover have "object_exists x (grow s A X E T)" if "(x, p, g) \<in> set A" for x p g
    using that assms(2) named by (auto simp: object_exists_def list_all_iff split: object.splits)
  ultimately have "acl_scoped (grow s A X E T)"
    using assms(1) by (auto simp: acl_scoped_def ready_def list_all_iff grow_selectors)
  moreover have "owns_table r t (grow s A X E T)" if "owns_table r t s" for r t
    using that by (auto simp: owns_table_def grow_named split: option.splits)
  ultimately show ?thesis using assms(1) by (simp add: ready_def grow_may grow_roles)
qed

lemma ready_alter: "ready s \<Longrightarrow> keeps_name f \<Longrightarrow> ready (alter t f s)"
  by (erule ready_cong) (auto simp: table_named_alter keeps_name_def option.map_comp o_def)

lemma ready_with_value: "ready s \<Longrightarrow> ready (with_value e v s)"
  by (erule ready_cong) (simp_all add: with_value_def table_named_def)

definition enrol :: "table \<Rightarrow> table" where
  "enrol y = set_nullable ''totp_secret_enc'' True (y\<lparr>tbl_columns := tbl_columns y @ [optional ''totp_enabled_at'' DateTimeType]\<rparr>)"

definition link_batch :: "table \<Rightarrow> table" where
  "link_batch y = y\<lparr>tbl_columns := tbl_columns y @ [optional ''last_batch_id'' UuidType],
       tbl_constraints := tbl_constraints y @ [latest_batch_key],
       tbl_indexes := tbl_indexes y @ [(''ix_schedules_last_batch_id'', [''last_batch_id''])]\<rparr>"

lemma keeps_names: "keeps_name enrol" "keeps_name link_batch"
  by (simp_all add: keeps_name_def enrol_def link_batch_def set_nullable_def)

lemma table_named_enrolment:
  "table_named t (with_enrolment s) = (if t = ''admin_credentials'' then map_option enrol (table_named t s) else table_named t s)"
  unfolding with_enrolment_def enrol_def [symmetric] using keeps_names
  by (simp add: table_named_alter [symmetric]) (simp add: table_named_def)

lemma table_named_latest_batch:
  "table_named t (with_latest_batch s) = (if t = ''schedules'' then map_option link_batch (table_named t s) else table_named t s)"
  unfolding with_latest_batch_def link_batch_def [symmetric] using keeps_names by (simp add: table_named_alter)

lemma changed_selectors [simp]:
  "sc_acl (with_enrolment s) = sc_acl s" "sc_roles (with_enrolment s) = sc_roles s" "sc_enums (with_enrolment s) = sc_enums s"
  "sc_acl (with_latest_batch s) = sc_acl s" "sc_roles (with_latest_batch s) = sc_roles s" "sc_enums (with_latest_batch s) = sc_enums s"
  by (simp_all add: with_enrolment_def with_latest_batch_def)

lemma ready_enrolment: "ready s \<Longrightarrow> ready (with_enrolment s)"
  using keeps_names by (elim ready_cong) (auto simp: table_named_enrolment option.map_comp o_def keeps_name_def)

lemma ready_latest_batch: "ready s \<Longrightarrow> ready (with_latest_batch s)"
  using keeps_names by (elim ready_cong) (auto simp: table_named_latest_batch option.map_comp o_def keeps_name_def)

lemma ready_more_acl:
  "ready s \<Longrightarrow> list_all (\<lambda>(x, p, g). object_exists x s) A \<Longrightarrow> ready (s\<lparr>sc_acl := sc_acl s @ A\<rparr>)"
  by (auto simp: ready_def acl_scoped_def list_all_iff object_exists_def table_named_def role_exists_def may_def owns_table_def
      split: object.splits)

lemma ready_first: "ready (after_0001 name pw p q now)"
  by (simp add: ready_def acl_scoped_def after_0001_def acl_0001_def object_exists_def table_named_def version_table_def
      table_with_selectors role_exists_def may_def owns_table_def)

lemmas tables_defs = tables_0002_def tables_0003_def tables_0004_def tables_0005_def tables_0006_def tables_0007_def tables_0008_def tables_0009_def tables_0012_def
lemmas acl_defs = acl_0002_def acl_0003_def acl_0004_def acl_0005_def acl_0006_def acl_0007_def acl_0008_def acl_0009_def
lemmas enums_defs = enums_0002_def enums_0005_def enums_0006_def enums_0007_def enums_0008_def enums_0009_def

lemma ready_chain:
  assumes "ready s"
  shows "ready (after_0002 s)" "ready (after_0003 s)" "ready (after_0004 s)" "ready (after_0005 s)" "ready (after_0006 s)"
    "ready (after_0007 s)" "ready (with_value ''schedule_kind'' ''digest'' (after_0007 s))" "ready (after_0008 s)"
    "ready (after_0009 s)" "ready (after_0010 s)" "ready (after_0011 s)" "ready (after_0012 s)"
proof -
  show 2: "ready (after_0002 s)" unfolding after_0002_def
    by (rule ready_grow [OF assms]) (simp add: acl_0002_def tables_0002_def table_with_selectors)
  show 3: "ready (after_0003 s)" unfolding after_0003_def
    by (rule ready_grow [OF 2]) (simp add: acl_0003_def tables_0003_def table_with_selectors)
  show 4: "ready (after_0004 s)" unfolding after_0004_def
    by (rule ready_grow [OF 3]) (simp add: acl_0004_def tables_0004_def table_with_selectors)
  show 5: "ready (after_0005 s)" unfolding after_0005_def
    by (rule ready_grow [OF 4]) (simp add: acl_0005_def tables_0005_def table_with_selectors)
  show 6: "ready (after_0006 s)" unfolding after_0006_def
    by (rule ready_grow [OF 5]) (simp add: acl_0006_def tables_0006_def table_with_selectors)
  show 7: "ready (after_0007 s)" unfolding after_0007_def
    by (rule ready_grow [OF 6]) (simp add: acl_0007_def tables_0007_def table_with_selectors)
  show 8: "ready (with_value ''schedule_kind'' ''digest'' (after_0007 s))" by (rule ready_with_value [OF 7])
  show 9: "ready (after_0008 s)" unfolding after_0008_def
    by (rule ready_grow [OF 8]) (simp add: acl_0008_def tables_0008_def table_with_selectors)
  show 10: "ready (after_0009 s)" unfolding after_0009_def
    by (rule ready_grow [OF 9]) (simp add: acl_0009_def tables_0009_def table_with_selectors)
  show 11: "ready (after_0010 s)" unfolding after_0010_def by (rule ready_enrolment [OF 10])
  show 12: "ready (after_0011 s)" unfolding after_0011_def by (rule ready_latest_batch [OF 11])
  show "ready (after_0012 s)" unfolding after_0012_def by (rule ready_grow [OF 12]) simp
qed

text \<open>No name is used twice.\<close>

definition first_names :: "string list" where
  "first_names = [VERSION_TABLE, ''alembic_version_pkc'']"

definition all_names :: "string list" where
  "all_names = first_names @ names_0002 @ names_0003 @ names_0004 @ names_0005 @ names_0006 @ names_0007 @ names_0008 @ names_0009
     @ [''ix_schedules_last_batch_id''] @ names_0012"

definition weight :: "string \<Rightarrow> nat" where
  "weight s = fold (\<lambda>c a. 3 * a + of_char c) s 0"

lemma weights:
  "map weight all_names = [717954554, 58154322867, 13948, 359980, 273621186, 66490042076, 6383542624, 190279134736,
     366673, 62671484485, 9709537, 4653966468289, 138713853117937, 7103541763, 190999133875, 1004080,
     62461437725, 562152940372, 29032672, 373279, 137157307166125, 9716143, 436043285143192, 13306,
     563682728917, 62631496783, 359338, 243410926, 7054358782, 144781965136036, 338698, 562391454970,
     1687174357807, 33208652886313133, 9681562, 5364872388626, 246934543, 1229947775367193, 7057882399, 29164918,
     136966936724911, 785936902, 3242171, 1690982654212, 15218844319738, 62628987376, 87327947, 435480154670906,
     1084036, 5073540524857, 2319863033, 29112628, 88046500, 15222167904232, 1691351987617, 136999511138813,
     2358362452, 435569902666705, 1114265, 5078895501520, 29142857, 5382246075643, 199342448578, 26660352,
     62424901829, 783432336, 144713716875451, 136985597002738, 333991, 9676855]"
  by (simp add: weight_def all_names_def first_names_def VERSION_TABLE_def names_0002_def names_0003_def names_0004_def names_0005_def
      names_0006_def names_0007_def names_0008_def names_0009_def names_0012_def)

lemma names_distinct: "distinct all_names"
proof -
  have "distinct (map weight all_names)" unfolding weights by simp
  then show ?thesis by (simp add: distinct_map)
qed

lemma grown_relations:
  "relation_names (after_0002 s) = relation_names s @ names_0002"
  "relation_names (after_0003 s) = relation_names (after_0002 s) @ names_0003"
  "relation_names (after_0004 s) = relation_names (after_0003 s) @ names_0004"
  "relation_names (after_0005 s) = relation_names (after_0004 s) @ names_0005"
  "relation_names (after_0006 s) = relation_names (after_0005 s) @ names_0006"
  "relation_names (after_0007 s) = relation_names (after_0006 s) @ names_0007"
  "relation_names (after_0008 s) = relation_names (after_0007 s) @ names_0008"
  "relation_names (after_0009 s) = relation_names (after_0008 s) @ names_0009"
  "relation_names (after_0010 s) = relation_names (after_0009 s)"
  "relation_names (after_0012 s) = relation_names (after_0011 s) @ names_0012"
proof -
  show "relation_names (after_0010 s) = relation_names (after_0009 s)"
    by (auto simp: after_0010_def with_enrolment_def relation_names_def alter_def relations_of_def set_nullable_def
        intro!: arg_cong [where f = concat])
  have "relation_names (with_value e v s) = relation_names s" for e v s by (simp add: relation_names_def with_value_def)
  then show "relation_names (after_0008 s) = relation_names (after_0007 s) @ names_0008"
    by (simp add: after_0008_def grow_relations relations_0008)
qed (simp_all add: after_0002_def after_0003_def after_0004_def after_0005_def after_0006_def after_0007_def after_0009_def
    after_0012_def grow_relations relations_0002 relations_0003 relations_0004 relations_0005 relations_0006 relations_0007
    relations_0009 relations_0012)

lemma grown_relations_0011:
  "set (relation_names (after_0011 s)) \<subseteq> insert ''ix_schedules_last_batch_id'' (set (relation_names (after_0010 s)))"
proof -
  have "set (relations_of (link_batch y)) \<subseteq> insert ''ix_schedules_last_batch_id'' (set (relations_of y))" for y
    by (auto simp: link_batch_def relations_of_def latest_batch_key_def)
  then show ?thesis
    unfolding after_0011_def with_latest_batch_def link_batch_def [symmetric]
    by (fastforce simp: relation_names_def alter_def split: if_splits)
qed

lemma grown_enums:
  "map enu_name (sc_enums (after_0002 s)) = map enu_name (sc_enums s) @ [''user_role'', ''user_source'']"
  "map enu_name (sc_enums (after_0003 s)) = map enu_name (sc_enums (after_0002 s))"
  "map enu_name (sc_enums (after_0004 s)) = map enu_name (sc_enums (after_0003 s))"
  "map enu_name (sc_enums (after_0005 s)) = map enu_name (sc_enums (after_0004 s)) @
     [''subject_kind'', ''scan_trigger'', ''scan_status'', ''finding_severity'', ''finding_event_type'']"
  "map enu_name (sc_enums (after_0006 s)) = map enu_name (sc_enums (after_0005 s)) @ [''batch_target'', ''batch_status'', ''queue_status'']"
  "map enu_name (sc_enums (after_0007 s)) = map enu_name (sc_enums (after_0006 s)) @ [''schedule_kind'']"
  "map enu_name (sc_enums (after_0008 s)) = map enu_name (sc_enums (after_0007 s)) @ [''notification_status'']"
  by (simp_all add: after_0002_def after_0003_def after_0004_def after_0005_def after_0006_def after_0007_def after_0008_def
      grow_selectors enums_0002_def enums_0005_def enums_0006_def enums_0007_def enums_0008_def with_value_names)

lemma first_relations: "relation_names (after_0001 name pw p q now) = first_names" "sc_enums (after_0001 name pw p q now) = []"
  by (simp_all add: relation_names_def after_0001_def version_table_def table_with_selectors first_names_def key_names_def new_database_def)

text \<open>Tables stay where they are, and the keys others refer to.\<close>

lemma stays_named:
  "table_named t s = Some y \<Longrightarrow> table_named t (after_0002 s) = Some y"
  "table_named t (after_0002 s) = Some y \<Longrightarrow> table_named t (after_0005 s) = Some y"
  "table_named t (after_0005 s) = Some y \<Longrightarrow> table_named t (after_0006 s) = Some y"
  "table_named t (after_0006 s) = Some y \<Longrightarrow> table_named t (after_0007 s) = Some y"
  "table_named t (after_0007 s) = Some y \<Longrightarrow> table_named t (after_0009 s) = Some y"
proof -
  have "table_named t (with_value e v s) = table_named t s" for e v s by (simp add: table_named_def with_value_def)
  then show "table_named t (after_0007 s) = Some y \<Longrightarrow> table_named t (after_0009 s) = Some y"
    by (simp add: after_0008_def after_0009_def grow_named)
qed (simp_all add: after_0002_def after_0003_def after_0004_def after_0005_def after_0006_def after_0007_def grow_named)

lemma has_key_named: "has_key (t, cs) (sc_tables s) \<longleftrightarrow> (\<exists>y. table_named t s = Some y \<and> cs \<in> set (key_sets (tbl_constraints y)))"
  by (auto simp: has_key_def table_named_def split: option.splits)

lemma has_key_grow: "has_key x (sc_tables s) \<Longrightarrow> has_key x (sc_tables (grow s A X E T))"
  by (simp add: grow_selectors grow_keys)

lemma keeps_keys:
  "has_key x (sc_tables (after_0002 s)) \<Longrightarrow> has_key x (sc_tables (after_0003 s))"
  "has_key x (sc_tables (after_0003 s)) \<Longrightarrow> has_key x (sc_tables (after_0004 s))"
  "has_key x (sc_tables (after_0004 s)) \<Longrightarrow> has_key x (sc_tables (after_0005 s))"
  "has_key x (sc_tables (after_0005 s)) \<Longrightarrow> has_key x (sc_tables (after_0006 s))"
  "has_key x (sc_tables (after_0006 s)) \<Longrightarrow> has_key x (sc_tables (after_0007 s))"
  "has_key x (sc_tables (after_0007 s)) \<Longrightarrow> has_key x (sc_tables (after_0008 s))"
proof -
  show "has_key x (sc_tables (after_0002 s)) \<Longrightarrow> has_key x (sc_tables (after_0003 s))"
    unfolding after_0003_def by (rule has_key_grow)
  show "has_key x (sc_tables (after_0003 s)) \<Longrightarrow> has_key x (sc_tables (after_0004 s))"
    unfolding after_0004_def by (rule has_key_grow)
  show "has_key x (sc_tables (after_0004 s)) \<Longrightarrow> has_key x (sc_tables (after_0005 s))"
    unfolding after_0005_def by (rule has_key_grow)
  show "has_key x (sc_tables (after_0005 s)) \<Longrightarrow> has_key x (sc_tables (after_0006 s))"
    unfolding after_0006_def by (rule has_key_grow)
  show "has_key x (sc_tables (after_0006 s)) \<Longrightarrow> has_key x (sc_tables (after_0007 s))"
    unfolding after_0007_def by (rule has_key_grow)
  show "has_key x (sc_tables (after_0007 s)) \<Longrightarrow> has_key x (sc_tables (after_0008 s))"
    unfolding after_0008_def by (rule has_key_grow) (simp add: with_value_def)
qed

lemma in_key_sets: "Some x \<in> set (map key_columns ks) \<longleftrightarrow> x \<in> set (key_sets ks)"
  unfolding key_sets_def by (rule Some_in_map_filter)

lemma stays_to_the_end:
  "table_named t (after_0009 s) = Some y \<Longrightarrow> t \<notin> {''admin_credentials'', ''schedules''} \<Longrightarrow> table_named t (after_0012 s) = Some y"
  by (simp add: after_0010_def after_0011_def after_0012_def grow_named table_named_enrolment table_named_latest_batch)

lemma grown_acl:
  "sc_acl (after_0012 s) = sc_acl s @ acl_0002 @ acl_0003 @ acl_0004 @ acl_0005 @ acl_0006 @ acl_0007 @ acl_0008 @ acl_0009"
  by (simp add: after_0002_def after_0003_def after_0004_def after_0005_def after_0006_def after_0007_def after_0008_def
      after_0009_def after_0010_def after_0011_def after_0012_def grow_selectors with_value_def)

lemma distinct_middle: "distinct all \<Longrightarrow> all = xs @ ys @ zs \<Longrightarrow> set ys \<inter> set xs = {}"
  by auto

lemma step:
  assumes "exec_all MIGRATOR stmts s = Inr s'" and "ready s'" and "length rv \<le> 32"
  shows "upgrade_step E MIGRATOR \<lparr>sr_revision = rv, sr_down = dn, sr_upgrade = (\<lambda>_ _. Inr stmts), sr_downgrade = undo\<rparr>
      \<lparr>sv_schema = s, sv_version = Some v\<rparr> = Inr \<lparr>sv_schema = s', sv_version = Some rv\<rparr>"
proof -
  have "may MIGRATOR UPDATE (OnTable VERSION_TABLE) s'"
    using assms(2) by (auto simp: ready_def owns_table_def may_def split: option.splits)
  with assms(1,3) show ?thesis by (simp add: upgrade_step_def stamp_def)
qed

lemma migrations_run:
  assumes s: "s = after_0001 name pw p q now"
  shows "command_upgrade_head E MIGRATOR \<lparr>sv_schema = s, sv_version = Some ''0001_bootstrap_roles''\<rparr> =
    Inr \<lparr>sv_schema = after_0013 s, sv_version = Some ''0013_branding_grants''\<rparr>"
proof -
  note ready = ready_first [of name pw p q now, folded s]
  note rels = grown_relations first_relations [of name pw p q now, folded s]
  note apart = distinct_middle [OF names_distinct]
  note enums = grown_enums rels(11,12)
  have fresh: "table_named t s = None" if "t \<noteq> VERSION_TABLE" for t
    using that by (simp add: table_named_def s after_0001_def version_table_def table_with_selectors)
  have users: "table_named ''users'' (after_0002 s) = Some (table_with MIGRATOR ''users'' users_columns users_keys [])"
    and creds: "table_named ''admin_credentials'' (after_0002 s) =
        Some (table_with MIGRATOR ''admin_credentials'' admin_credentials_columns admin_credentials_keys [])"
    by (simp_all add: after_0002_def grow_named fresh VERSION_TABLE_def tables_0002_def table_with_selectors)
  have "set names_0005 \<inter> set (relation_names (after_0004 s)) = {}"
    by (rule apart) (simp add: all_names_def rels)
  then have "''subjects'' \<notin> set (relation_names (after_0004 s))" by (simp add: names_0005_def)
  then have "table_named ''subjects'' (after_0004 s) = None" by (rule fresh_table)
  then obtain subjects where subjects: "table_named ''subjects'' (after_0005 s) = Some subjects" "[''id''] \<in> set (key_sets (tbl_constraints subjects))"
    by (simp add: after_0005_def grow_named tables_0005_def table_with_selectors table_facts)
  have "set names_0006 \<inter> set (relation_names (after_0005 s)) = {}"
    by (rule apart) (simp add: all_names_def rels)
  then have "''scan_batches'' \<notin> set (relation_names (after_0005 s))" by (simp add: names_0006_def)
  then have "table_named ''scan_batches'' (after_0005 s) = None" by (rule fresh_table)
  then obtain batches where batches: "table_named ''scan_batches'' (after_0006 s) = Some batches" "[''id''] \<in> set (key_sets (tbl_constraints batches))"
    by (simp add: after_0006_def grow_named tables_0006_def table_with_selectors table_facts)
  have "set names_0007 \<inter> set (relation_names (after_0006 s)) = {}"
    by (rule apart) (simp add: all_names_def rels)
  then have "''schedules'' \<notin> set (relation_names (after_0006 s))" by (simp add: names_0007_def)
  then have "table_named ''schedules'' (after_0006 s) = None" by (rule fresh_table)
  then have schedules: "table_named ''schedules'' (after_0007 s) = Some (hd tables_0007)"
    by (simp add: after_0007_def grow_named tables_0007_def table_with_selectors)
  have 2: "exec_all MIGRATOR upgrade_0002 s = Inr (after_0002 s)"
    unfolding after_0002_def
  proof (rule run_0002)
    show "receives s names_0002 [''user_role'', ''user_source'']"
      by (rule ready_receives [OF ready], rule apart) (simp_all add: all_names_def rels enums del: set_map)
  qed (use s in \<open>simp_all add: s after_0001_def new_database_def\<close>)
  have users_key: "has_key (''users'', [''id'']) (sc_tables (after_0002 s))"
    by (simp add: has_key_named users table_with_selectors table_facts)
  note users_keys = users_key keeps_keys(1) [OF users_key]
  note users_keys = users_keys keeps_keys(2) [OF users_keys(2)]
  note users_keys = users_keys keeps_keys(3) [OF users_keys(3)]
  note users_keys = users_keys keeps_keys(4) [OF users_keys(4)]
  note users_keys = users_keys keeps_keys(5) [OF users_keys(5)]
  note users_keys = users_keys keeps_keys(6) [OF users_keys(6)]
  have subjects_key: "has_key (''subjects'', [''id'']) (sc_tables (after_0005 s))"
    using subjects by (simp add: has_key_named)
  note subjects_keys = subjects_key keeps_keys(4) [OF subjects_key]
  note subjects_keys = subjects_keys keeps_keys(5) [OF subjects_keys(2)]
  note subjects_keys = subjects_keys keeps_keys(6) [OF subjects_keys(3)]
  note chain = ready_chain [OF ready]
  have 3: "exec_all MIGRATOR upgrade_0003 (after_0002 s) = Inr (after_0003 s)"
    unfolding after_0003_def
  proof (rule run_0003)
    show "receives (after_0002 s) names_0003 []"
      by (rule ready_receives [OF chain(1)], rule apart) (simp_all add: all_names_def rels enums del: set_map)
  qed
  have 4: "exec_all MIGRATOR upgrade_0004 (after_0003 s) = Inr (after_0004 s)"
    unfolding after_0004_def
  proof (rule run_0004)
    show "receives (after_0003 s) names_0004 []"
      by (rule ready_receives [OF chain(2)], rule apart) (simp_all add: all_names_def rels enums del: set_map)
  qed (use users_keys in \<open>simp_all\<close>)
  have 5: "exec_all MIGRATOR upgrade_0005 (after_0004 s) = Inr (after_0005 s)"
    unfolding after_0005_def
  proof (rule run_0005)
    show "receives (after_0004 s) names_0005 [''subject_kind'', ''scan_trigger'', ''scan_status'', ''finding_severity'', ''finding_event_type'']"
      by (rule ready_receives [OF chain(3)], rule apart) (simp_all add: all_names_def rels enums del: set_map)
  qed (use users_keys in \<open>simp_all\<close>)
  have 6: "exec_all MIGRATOR upgrade_0006 (after_0005 s) = Inr (after_0006 s)"
    unfolding after_0006_def
  proof (rule run_0006)
    show "receives (after_0005 s) names_0006 [''batch_target'', ''batch_status'', ''queue_status'']"
      by (rule ready_receives [OF chain(4)], rule apart) (simp_all add: all_names_def rels enums del: set_map)
  qed (use users_keys subjects_keys in \<open>simp_all\<close>)
  have 7: "exec_all MIGRATOR upgrade_0007 (after_0006 s) = Inr (after_0007 s)"
    unfolding after_0007_def
  proof (rule run_0007)
    show "receives (after_0006 s) names_0007 [''schedule_kind'']"
      by (rule ready_receives [OF chain(5)], rule apart) (simp_all add: all_names_def rels enums del: set_map)
  qed (use users_keys in \<open>simp_all\<close>)
  have kind: "enum_named ''schedule_kind'' (after_0007 s) = Some (hd enums_0007)"
  proof -
    have "enum_named ''schedule_kind'' (after_0006 s) = None" by (simp add: enum_named_None enums del: set_map)
    then show ?thesis by (simp add: after_0007_def grow_named enums_0007_def)
  qed
  have 8: "exec_all MIGRATOR upgrade_0008 (after_0007 s) = Inr (after_0008 s)"
    unfolding after_0008_def
  proof (rule run_0008 [OF _ _ kind])
    show "receives (after_0007 s) names_0008 [''notification_status'']"
      by (rule ready_receives [OF chain(6)], rule apart) (simp_all add: all_names_def rels enums del: set_map)
  qed (use users_keys in \<open>simp_all add: enums_0007_def\<close>)
  have 9: "exec_all MIGRATOR upgrade_0009 (after_0008 s) = Inr (after_0009 s)"
    unfolding after_0009_def
  proof (rule run_0009)
    show "receives (after_0008 s) names_0009 [''alert_sink_name'', ''alert_outbox_status'']"
      by (rule ready_receives [OF chain(8)], rule apart) (simp_all add: all_names_def rels enums del: set_map)
  qed (use users_keys subjects_keys in \<open>simp_all\<close>)
  note at_0009 = stays_named(2-5)
  have "table_named ''admin_credentials'' (after_0009 s) =
      Some (table_with MIGRATOR ''admin_credentials'' admin_credentials_columns admin_credentials_keys [])"
    by (intro at_0009 creds)
  then have 10: "exec_all MIGRATOR upgrade_0010 (after_0009 s) = Inr (after_0010 s)"
    unfolding after_0010_def by (rule run_0010) (simp_all add: table_with_selectors table_facts)
  have "table_named ''schedules'' (after_0009 s) = Some (hd tables_0007)" by (intro at_0009 schedules)
  then have s10: "table_named ''schedules'' (after_0010 s) = Some (hd tables_0007)"
    by (simp add: after_0010_def table_named_enrolment)
  have "table_named ''scan_batches'' (after_0009 s) = Some batches" by (intro at_0009 batches)
  then have b10: "table_named ''scan_batches'' (after_0010 s) = Some batches"
    by (simp add: after_0010_def table_named_enrolment)
  have ix: "set [''ix_schedules_last_batch_id''] \<inter> set (relation_names (after_0010 s)) = {}"
    by (rule apart) (simp add: all_names_def rels)
  have 11: "exec_all MIGRATOR upgrade_0011 (after_0010 s) = Inr (after_0011 s)"
    unfolding after_0011_def
    by (rule run_0011 [OF s10 _ _ _ b10])
      (use ix batches(2) in \<open>simp_all add: tables_0007_def table_with_selectors table_facts in_key_sets
         latest_batch_key_def schedules_keys_def del: set_map\<close>)
  have 12: "exec_all MIGRATOR upgrade_0012 (after_0011 s) = Inr (after_0012 s)"
    unfolding after_0012_def
  proof (rule run_0012)
    have "set names_0012 \<inter> set (relation_names (after_0010 s) @ [''ix_schedules_last_batch_id'']) = {}"
      by (rule distinct_middle [OF names_distinct, where zs = "[]"]) (simp add: all_names_def rels)
    then show "receives (after_0011 s) names_0012 []"
      using grown_relations_0011 [of s] by (intro ready_receives [OF chain(11)]) auto
  qed
  have "set names_0005 \<inter> set (relation_names (after_0004 s)) = {}"
    by (rule apart) (simp add: all_names_def rels)
  then have "table_named ''findings'' (after_0004 s) = None" "table_named ''finding_events'' (after_0004 s) = None"
    by (simp_all add: names_0005_def fresh_table)
  then have "table_named ''findings'' (after_0005 s) = Some (tables_0005 ! 3)" "table_named ''finding_events'' (after_0005 s) = Some (tables_0005 ! 4)"
    by (simp_all add: after_0005_def grow_named tables_0005_def table_with_selectors)
  then have findings: "table_named ''findings'' (after_0012 s) = Some (tables_0005 ! 3)"
    "table_named ''finding_events'' (after_0012 s) = Some (tables_0005 ! 4)"
    by (intro stays_to_the_end stays_named(3-5); simp)+
  have "''branding'' \<notin> set (relation_names (after_0011 s))"
  proof -
    have "set names_0012 \<inter> set (relation_names (after_0010 s) @ [''ix_schedules_last_batch_id'']) = {}"
      by (rule distinct_middle [OF names_distinct, where zs = "[]"]) (simp add: all_names_def rels)
    then show ?thesis using grown_relations_0011 [of s] by (auto simp: names_0012_def)
  qed
  then have branding: "table_named ''branding'' (after_0012 s) = Some (hd tables_0012)"
    by (simp add: after_0012_def grow_named fresh_table tables_0012_def table_with_selectors)
  then have owned: "owns_table MIGRATOR t (after_0012 s)" if "t \<in> {''branding'', ''findings'', ''finding_events''}" for t
    using that findings branding by (auto simp: owns_table_def tables_0005_def tables_0012_def table_with_selectors)
  have 13: "exec_all MIGRATOR upgrade_0013 (after_0012 s) = Inr (after_0013 s)"
    unfolding after_0013_def
  proof (rule run_0013)
    show "list_all (\<lambda>e. e \<notin> set (sc_acl (after_0012 s))) acl_0013"
      unfolding grown_acl
      by (simp add: s after_0001_def acl_0001_def VERSION_TABLE_def acl_0002_def acl_0003_def acl_0004_def acl_0005_def acl_0006_def
          acl_0007_def acl_0008_def acl_0009_def acl_0013_def)
  qed (use chain(12) owned in \<open>simp_all add: ready_def\<close>)
  have ready13: "ready (after_0013 s)" unfolding after_0013_def
    using findings branding by (intro ready_more_acl chain(12)) (auto simp: acl_0013_def object_exists_def)
  note steps = step [OF 2 chain(1)] step [OF 3 chain(2)] step [OF 4 chain(3)] step [OF 5 chain(4)] step [OF 6 chain(5)]
    step [OF 7 chain(6)] step [OF 8 chain(8)] step [OF 9 chain(9)] step [OF 10 chain(10)] step [OF 11 chain(11)]
    step [OF 12 chain(12)] step [OF 13 ready13]
  have "ensure_version_table MIGRATOR \<lparr>sv_schema = s, sv_version = Some v\<rparr> = Inr \<lparr>sv_schema = s, sv_version = Some v\<rparr>" for v
    using ready by (auto simp: ensure_version_table_def ready_def owns_table_def split: option.splits)
  then show ?thesis
    by (simp add: command_upgrade_head_def the_head command_upgrade_def lineage_head lineage_first)
      (simp add: scripts_def steps)
qed

section \<open>The schema of the application\<close>

text \<open>
  A column of the metadata is one of the table, with the default it declares; keys of the metadata have no
  name, checks and foreign keys have. The order of columns and constraints does not matter.
\<close>

definition same_column :: "column \<Rightarrow> column \<Rightarrow> bool" where
  "same_column c d \<longleftrightarrow> col_name c = col_name d \<and> col_type c = col_type d \<and> col_nullable c = col_nullable d \<and>
     (col_default c = None \<or> col_default c = col_default d)"

fun unnamed_key :: "sql_constraint \<Rightarrow> sql_constraint" where
  "unnamed_key (PrimaryKey n cs) = PrimaryKey [] cs"
| "unnamed_key k = k"

definition same_shape :: "table \<Rightarrow> table \<Rightarrow> bool" where
  "same_shape m t \<longleftrightarrow>
     length (tbl_columns m) = length (tbl_columns t) \<and>
     list_all (\<lambda>c. list_ex (same_column c) (tbl_columns t)) (tbl_columns m) \<and>
     set (tbl_constraints m) = set (map unnamed_key (tbl_constraints t)) \<and>
     set (tbl_indexes m) = set (tbl_indexes t)"

definition agrees_with_models :: "schema \<Rightarrow> bool" where
  "agrees_with_models s \<longleftrightarrow>
     list_all (\<lambda>m. case table_named (tbl_name m) s of None \<Rightarrow> False | Some t \<Rightarrow> same_shape m t) metadata \<and>
     set (map tbl_name (sc_tables s)) = set (VERSION_TABLE # map tbl_name metadata) \<and>
     set (map (\<lambda>x. (enu_name x, enu_values x)) (sc_enums s)) = set metadata_enums"

lemma same_shape_by_order:
  assumes "list_all2 same_column (tbl_columns m) (tbl_columns t)"
    and "set (tbl_constraints m) = set (map unnamed_key (tbl_constraints t))" and "set (tbl_indexes m) = set (tbl_indexes t)"
  shows "same_shape m t"
proof -
  have "list_all (\<lambda>c. list_ex (same_column c) ds) cs" if "list_all2 same_column cs ds" for cs ds
    using that by (fastforce simp: list_all_iff list_ex_iff list_all2_conv_all_nth in_set_conv_nth)
  then show ?thesis using assms by (auto simp: same_shape_def dest: list_all2_lengthD)
qed

lemma shapes:
  "same_shape orm_users ((table_with MIGRATOR ''users'' users_columns users_keys []))"
  "same_shape orm_admin_credentials (enrol (table_with MIGRATOR ''admin_credentials'' admin_credentials_columns admin_credentials_keys []))"
  "same_shape orm_sessions ((table_with MIGRATOR ''sessions'' sessions_columns sessions_keys [(''ix_sessions_user_id'', [''user_id''])]))"
  "same_shape orm_admin_login_rate_limits ((table_with MIGRATOR ''admin_login_rate_limits'' admin_login_rate_limits_columns admin_login_rate_limits_keys []))"
  "same_shape orm_platform_settings ((table_with MIGRATOR ''platform_settings'' platform_settings_columns platform_settings_keys []))"
  "same_shape orm_audit_log ((table_with MIGRATOR ''audit_log'' audit_log_columns audit_log_keys [(''ix_audit_log_action'', [''action'']), (''ix_audit_log_actor_id'', [''actor_id''])]))"
  "same_shape orm_subjects ((table_with MIGRATOR ''subjects'' subjects_columns subjects_keys [(''ix_subjects_linked_user_id'', [''linked_user_id''])]))"
  "same_shape orm_scans ((table_with MIGRATOR ''scans'' scans_columns scans_keys [(''ix_scans_requested_by'', [''requested_by'']), (''ix_scans_subject_id'', [''subject_id''])]))"
  "same_shape orm_breach_sources ((table_with MIGRATOR ''breach_sources'' breach_sources_columns breach_sources_keys []))"
  "same_shape orm_findings ((table_with MIGRATOR ''findings'' findings_columns findings_keys [(''ix_findings_source_id'', [''source_id'']), (''ix_findings_subject_id'', [''subject_id'']), (''ix_findings_subject_remediation'', [''subject_id'', ''remediated_at''])]))"
  "same_shape orm_finding_events ((table_with MIGRATOR ''finding_events'' finding_events_columns finding_events_keys [(''ix_finding_events_finding_id'', [''finding_id''])]))"
  "same_shape orm_scan_batches ((table_with MIGRATOR ''scan_batches'' scan_batches_columns scan_batches_keys [(''ix_scan_batches_created_by'', [''created_by''])]))"
  "same_shape orm_scan_queue ((table_with MIGRATOR ''scan_queue'' scan_queue_columns scan_queue_keys [(''ix_scan_queue_batch_id'', [''batch_id'']), (''ix_scan_queue_subject_id'', [''subject_id'']), (''ix_scan_queue_claim'', [''status'', ''created_at''])]))"
  "same_shape orm_schedules (link_batch (table_with MIGRATOR ''schedules'' schedules_columns schedules_keys [(''ix_schedules_created_by'', [''created_by'']), (''ix_schedules_due'', [''enabled'', ''next_run_at''])]))"
  "same_shape orm_notifications ((table_with MIGRATOR ''notifications'' notifications_columns notifications_keys [(''ix_notifications_user_id'', [''user_id'']), (''ix_notifications_claim'', [''status'', ''created_at'']), (''ix_notifications_user_sent'', [''user_id'', ''sent_at''])]))"
  "same_shape orm_watchlist ((table_with MIGRATOR ''watchlist'' watchlist_columns watchlist_keys [(''ix_watchlist_created_by'', [''created_by''])]))"
  "same_shape orm_alert_outbox ((table_with MIGRATOR ''alert_outbox'' alert_outbox_columns alert_outbox_keys [(''ix_alert_outbox_due'', [''status'', ''next_attempt_at''])]))"
  "same_shape orm_branding ((table_with MIGRATOR ''branding'' branding_columns branding_keys []))"
proof -
  show "same_shape orm_users (table_with MIGRATOR ''users'' users_columns users_keys [])"
  proof (rule same_shape_by_order)
    show "list_all2 same_column (tbl_columns orm_users) (tbl_columns (table_with MIGRATOR ''users'' users_columns users_keys []))" by code_simp
  qed (simp only: orm_users_def orm_table_def table_with_def table.simps users_keys_def unnamed_key.simps list.map list.set simp_thms; (intro equalityI insert_subsetI empty_subsetI; (rule insertI1 | rule insertI2)+))+
  show "same_shape orm_admin_credentials (enrol (table_with MIGRATOR ''admin_credentials'' admin_credentials_columns admin_credentials_keys []))" by code_simp
  show "same_shape orm_sessions (table_with MIGRATOR ''sessions'' sessions_columns sessions_keys [(''ix_sessions_user_id'', [''user_id''])])"
  proof (rule same_shape_by_order)
    show "list_all2 same_column (tbl_columns orm_sessions) (tbl_columns (table_with MIGRATOR ''sessions'' sessions_columns sessions_keys [(''ix_sessions_user_id'', [''user_id''])]))" by code_simp
  qed (simp only: orm_sessions_def orm_table_def table_with_def table.simps sessions_keys_def unnamed_key.simps list.map list.set simp_thms; (intro equalityI insert_subsetI empty_subsetI; (rule insertI1 | rule insertI2)+))+
  show "same_shape orm_admin_login_rate_limits (table_with MIGRATOR ''admin_login_rate_limits'' admin_login_rate_limits_columns admin_login_rate_limits_keys [])"
  proof (rule same_shape_by_order)
    show "list_all2 same_column (tbl_columns orm_admin_login_rate_limits) (tbl_columns (table_with MIGRATOR ''admin_login_rate_limits'' admin_login_rate_limits_columns admin_login_rate_limits_keys []))" by code_simp
  qed (simp only: orm_admin_login_rate_limits_def orm_table_def table_with_def table.simps admin_login_rate_limits_keys_def unnamed_key.simps list.map list.set simp_thms; (intro equalityI insert_subsetI empty_subsetI; (rule insertI1 | rule insertI2)+))+
  show "same_shape orm_platform_settings (table_with MIGRATOR ''platform_settings'' platform_settings_columns platform_settings_keys [])"
  proof (rule same_shape_by_order)
    show "list_all2 same_column (tbl_columns orm_platform_settings) (tbl_columns (table_with MIGRATOR ''platform_settings'' platform_settings_columns platform_settings_keys []))" by code_simp
  qed (simp only: orm_platform_settings_def orm_table_def table_with_def table.simps platform_settings_keys_def unnamed_key.simps list.map list.set simp_thms; (intro equalityI insert_subsetI empty_subsetI; (rule insertI1 | rule insertI2)+))+
  show "same_shape orm_audit_log (table_with MIGRATOR ''audit_log'' audit_log_columns audit_log_keys [(''ix_audit_log_action'', [''action'']), (''ix_audit_log_actor_id'', [''actor_id''])])"
  proof (rule same_shape_by_order)
    show "list_all2 same_column (tbl_columns orm_audit_log) (tbl_columns (table_with MIGRATOR ''audit_log'' audit_log_columns audit_log_keys [(''ix_audit_log_action'', [''action'']), (''ix_audit_log_actor_id'', [''actor_id''])]))" by code_simp
  qed (simp only: orm_audit_log_def orm_table_def table_with_def table.simps audit_log_keys_def unnamed_key.simps list.map list.set simp_thms; (intro equalityI insert_subsetI empty_subsetI; (rule insertI1 | rule insertI2)+))+
  show "same_shape orm_subjects (table_with MIGRATOR ''subjects'' subjects_columns subjects_keys [(''ix_subjects_linked_user_id'', [''linked_user_id''])])"
  proof (rule same_shape_by_order)
    show "list_all2 same_column (tbl_columns orm_subjects) (tbl_columns (table_with MIGRATOR ''subjects'' subjects_columns subjects_keys [(''ix_subjects_linked_user_id'', [''linked_user_id''])]))" by code_simp
  qed (simp only: orm_subjects_def orm_table_def table_with_def table.simps subjects_keys_def unnamed_key.simps list.map list.set simp_thms; (intro equalityI insert_subsetI empty_subsetI; (rule insertI1 | rule insertI2)+))+
  show "same_shape orm_scans (table_with MIGRATOR ''scans'' scans_columns scans_keys [(''ix_scans_requested_by'', [''requested_by'']), (''ix_scans_subject_id'', [''subject_id''])])"
  proof (rule same_shape_by_order)
    show "list_all2 same_column (tbl_columns orm_scans) (tbl_columns (table_with MIGRATOR ''scans'' scans_columns scans_keys [(''ix_scans_requested_by'', [''requested_by'']), (''ix_scans_subject_id'', [''subject_id''])]))" by code_simp
  qed (simp only: orm_scans_def orm_table_def table_with_def table.simps scans_keys_def unnamed_key.simps list.map list.set simp_thms; (intro equalityI insert_subsetI empty_subsetI; (rule insertI1 | rule insertI2)+))+
  show "same_shape orm_breach_sources (table_with MIGRATOR ''breach_sources'' breach_sources_columns breach_sources_keys [])"
  proof (rule same_shape_by_order)
    show "list_all2 same_column (tbl_columns orm_breach_sources) (tbl_columns (table_with MIGRATOR ''breach_sources'' breach_sources_columns breach_sources_keys []))" by code_simp
  qed (simp only: orm_breach_sources_def orm_table_def table_with_def table.simps breach_sources_keys_def unnamed_key.simps list.map list.set simp_thms; (intro equalityI insert_subsetI empty_subsetI; (rule insertI1 | rule insertI2)+))+
  show "same_shape orm_findings (table_with MIGRATOR ''findings'' findings_columns findings_keys [(''ix_findings_source_id'', [''source_id'']), (''ix_findings_subject_id'', [''subject_id'']), (''ix_findings_subject_remediation'', [''subject_id'', ''remediated_at''])])"
  proof (rule same_shape_by_order)
    show "list_all2 same_column (tbl_columns orm_findings) (tbl_columns (table_with MIGRATOR ''findings'' findings_columns findings_keys [(''ix_findings_source_id'', [''source_id'']), (''ix_findings_subject_id'', [''subject_id'']), (''ix_findings_subject_remediation'', [''subject_id'', ''remediated_at''])]))" by code_simp
  qed (simp only: orm_findings_def orm_table_def table_with_def table.simps findings_keys_def unnamed_key.simps list.map list.set simp_thms; (intro equalityI insert_subsetI empty_subsetI; (rule insertI1 | rule insertI2)+))+
  show "same_shape orm_finding_events (table_with MIGRATOR ''finding_events'' finding_events_columns finding_events_keys [(''ix_finding_events_finding_id'', [''finding_id''])])"
  proof (rule same_shape_by_order)
    show "list_all2 same_column (tbl_columns orm_finding_events) (tbl_columns (table_with MIGRATOR ''finding_events'' finding_events_columns finding_events_keys [(''ix_finding_events_finding_id'', [''finding_id''])]))" by code_simp
  qed (simp only: orm_finding_events_def orm_table_def table_with_def table.simps finding_events_keys_def unnamed_key.simps list.map list.set simp_thms; (intro equalityI insert_subsetI empty_subsetI; (rule insertI1 | rule insertI2)+))+
  show "same_shape orm_scan_batches (table_with MIGRATOR ''scan_batches'' scan_batches_columns scan_batches_keys [(''ix_scan_batches_created_by'', [''created_by''])])"
  proof (rule same_shape_by_order)
    show "list_all2 same_column (tbl_columns orm_scan_batches) (tbl_columns (table_with MIGRATOR ''scan_batches'' scan_batches_columns scan_batches_keys [(''ix_scan_batches_created_by'', [''created_by''])]))" by code_simp
  qed (simp only: orm_scan_batches_def orm_table_def table_with_def table.simps scan_batches_keys_def unnamed_key.simps list.map list.set simp_thms; (intro equalityI insert_subsetI empty_subsetI; (rule insertI1 | rule insertI2)+))+
  show "same_shape orm_scan_queue (table_with MIGRATOR ''scan_queue'' scan_queue_columns scan_queue_keys [(''ix_scan_queue_batch_id'', [''batch_id'']), (''ix_scan_queue_subject_id'', [''subject_id'']), (''ix_scan_queue_claim'', [''status'', ''created_at''])])"
  proof (rule same_shape_by_order)
    show "list_all2 same_column (tbl_columns orm_scan_queue) (tbl_columns (table_with MIGRATOR ''scan_queue'' scan_queue_columns scan_queue_keys [(''ix_scan_queue_batch_id'', [''batch_id'']), (''ix_scan_queue_subject_id'', [''subject_id'']), (''ix_scan_queue_claim'', [''status'', ''created_at''])]))" by code_simp
  qed (simp only: orm_scan_queue_def orm_table_def table_with_def table.simps scan_queue_keys_def unnamed_key.simps list.map list.set simp_thms; (intro equalityI insert_subsetI empty_subsetI; (rule insertI1 | rule insertI2)+))+
  show "same_shape orm_schedules (link_batch (table_with MIGRATOR ''schedules'' schedules_columns schedules_keys [(''ix_schedules_created_by'', [''created_by'']), (''ix_schedules_due'', [''enabled'', ''next_run_at''])]))" by code_simp
  show "same_shape orm_notifications (table_with MIGRATOR ''notifications'' notifications_columns notifications_keys [(''ix_notifications_user_id'', [''user_id'']), (''ix_notifications_claim'', [''status'', ''created_at'']), (''ix_notifications_user_sent'', [''user_id'', ''sent_at''])])"
  proof (rule same_shape_by_order)
    show "list_all2 same_column (tbl_columns orm_notifications) (tbl_columns (table_with MIGRATOR ''notifications'' notifications_columns notifications_keys [(''ix_notifications_user_id'', [''user_id'']), (''ix_notifications_claim'', [''status'', ''created_at'']), (''ix_notifications_user_sent'', [''user_id'', ''sent_at''])]))" by code_simp
  qed (simp only: orm_notifications_def orm_table_def table_with_def table.simps notifications_keys_def unnamed_key.simps list.map list.set simp_thms; (intro equalityI insert_subsetI empty_subsetI; (rule insertI1 | rule insertI2)+))+
  show "same_shape orm_watchlist (table_with MIGRATOR ''watchlist'' watchlist_columns watchlist_keys [(''ix_watchlist_created_by'', [''created_by''])])"
  proof (rule same_shape_by_order)
    show "list_all2 same_column (tbl_columns orm_watchlist) (tbl_columns (table_with MIGRATOR ''watchlist'' watchlist_columns watchlist_keys [(''ix_watchlist_created_by'', [''created_by''])]))" by code_simp
  qed (simp only: orm_watchlist_def orm_table_def table_with_def table.simps watchlist_keys_def unnamed_key.simps list.map list.set simp_thms; (intro equalityI insert_subsetI empty_subsetI; (rule insertI1 | rule insertI2)+))+
  show "same_shape orm_alert_outbox (table_with MIGRATOR ''alert_outbox'' alert_outbox_columns alert_outbox_keys [(''ix_alert_outbox_due'', [''status'', ''next_attempt_at''])])"
  proof (rule same_shape_by_order)
    show "list_all2 same_column (tbl_columns orm_alert_outbox) (tbl_columns (table_with MIGRATOR ''alert_outbox'' alert_outbox_columns alert_outbox_keys [(''ix_alert_outbox_due'', [''status'', ''next_attempt_at''])]))" by code_simp
  qed (simp only: orm_alert_outbox_def orm_table_def table_with_def table.simps alert_outbox_keys_def unnamed_key.simps list.map list.set simp_thms; (intro equalityI insert_subsetI empty_subsetI; (rule insertI1 | rule insertI2)+))+
  show "same_shape orm_branding (table_with MIGRATOR ''branding'' branding_columns branding_keys [])"
  proof (rule same_shape_by_order)
    show "list_all2 same_column (tbl_columns orm_branding) (tbl_columns (table_with MIGRATOR ''branding'' branding_columns branding_keys []))" by code_simp
  qed (simp only: orm_branding_def orm_table_def table_with_def table.simps branding_keys_def unnamed_key.simps list.map list.set simp_thms; (intro equalityI insert_subsetI empty_subsetI; (rule insertI1 | rule insertI2)+))+
qed

lemma metadata_names:
  "tbl_name orm_users = ''users''"
  "tbl_name orm_admin_credentials = ''admin_credentials''"
  "tbl_name orm_sessions = ''sessions''"
  "tbl_name orm_admin_login_rate_limits = ''admin_login_rate_limits''"
  "tbl_name orm_platform_settings = ''platform_settings''"
  "tbl_name orm_audit_log = ''audit_log''"
  "tbl_name orm_subjects = ''subjects''"
  "tbl_name orm_scans = ''scans''"
  "tbl_name orm_breach_sources = ''breach_sources''"
  "tbl_name orm_findings = ''findings''"
  "tbl_name orm_finding_events = ''finding_events''"
  "tbl_name orm_scan_batches = ''scan_batches''"
  "tbl_name orm_scan_queue = ''scan_queue''"
  "tbl_name orm_schedules = ''schedules''"
  "tbl_name orm_notifications = ''notifications''"
  "tbl_name orm_watchlist = ''watchlist''"
  "tbl_name orm_alert_outbox = ''alert_outbox''"
  "tbl_name orm_branding = ''branding''"
  by (simp_all add: orm_table_def orm_users_def orm_admin_credentials_def orm_sessions_def orm_admin_login_rate_limits_def orm_platform_settings_def orm_audit_log_def orm_subjects_def orm_scans_def orm_breach_sources_def orm_findings_def orm_finding_events_def orm_scan_batches_def orm_scan_queue_def orm_schedules_def orm_notifications_def orm_watchlist_def orm_alert_outbox_def orm_branding_def)

lemma grown_tables:
  "sc_tables (after_0009 s) = sc_tables s @ tables_0002 @ tables_0003 @ tables_0004 @ tables_0005 @ tables_0006 @ tables_0007
     @ tables_0008 @ tables_0009"
  by (simp add: after_0002_def after_0003_def after_0004_def after_0005_def after_0006_def after_0007_def after_0008_def
      after_0009_def grow_selectors with_value_def)

lemma alter_names: "keeps_name f \<Longrightarrow> map tbl_name (sc_tables (alter t f s)) = map tbl_name (sc_tables s)"
  by (auto simp: alter_def keeps_name_def)

lemma final_names:
  "map tbl_name (sc_tables (after_0013 s)) = map tbl_name (sc_tables (after_0009 s)) @ [''branding'']"
proof -
  have "map tbl_name (sc_tables (with_enrolment u)) = map tbl_name (sc_tables u)"
    "map tbl_name (sc_tables (with_latest_batch u)) = map tbl_name (sc_tables u)" for u
    using keeps_names alter_names [of enrol "''admin_credentials''" u] alter_names [of link_batch "''schedules''" u]
    by (simp_all add: with_enrolment_def enrol_def [abs_def] with_latest_batch_def link_batch_def [abs_def] del: alter_selectors)
  then show ?thesis
    by (simp add: after_0013_def after_0012_def after_0011_def after_0010_def grow_selectors tables_0012_def table_with_selectors)
qed

lemma final_tables:
  assumes "sc_tables s = [version_table]"
  shows "\<And>t. t \<notin> {''admin_credentials'', ''schedules'', ''branding''} \<Longrightarrow>
       table_named t (after_0013 s) = table_named t (after_0009 s)"
    and "table_named ''admin_credentials'' (after_0013 s) = map_option enrol (table_named ''admin_credentials'' (after_0009 s))"
    and "table_named ''schedules'' (after_0013 s) = map_option link_batch (table_named ''schedules'' (after_0009 s))"
    and "table_named ''branding'' (after_0013 s) = Some (hd tables_0012)"
proof -
  have "table_named t (after_0013 s) = table_named t (after_0012 s)" for t by (simp add: after_0013_def table_named_def)
  moreover have "table_named t (after_0012 s) =
      (case table_named t (after_0011 s) of None \<Rightarrow> find (\<lambda>y. tbl_name y = t) tables_0012 | Some y \<Rightarrow> Some y)" for t
    by (simp add: after_0012_def table_named_def grow_selectors find_append)
  moreover have "table_named ''branding'' (after_0009 s) = None"
    using assms by (simp add: table_named_def grown_tables version_table_def tables_defs table_with_selectors VERSION_TABLE_def)
  ultimately show "\<And>t. t \<notin> {''admin_credentials'', ''schedules'', ''branding''} \<Longrightarrow>
       table_named t (after_0013 s) = table_named t (after_0009 s)"
    "table_named ''admin_credentials'' (after_0013 s) = map_option enrol (table_named ''admin_credentials'' (after_0009 s))"
    "table_named ''schedules'' (after_0013 s) = map_option link_batch (table_named ''schedules'' (after_0009 s))"
    "table_named ''branding'' (after_0013 s) = Some (hd tables_0012)"
    by (auto simp: after_0011_def after_0010_def table_named_enrolment table_named_latest_batch tables_0012_def table_with_selectors
        split: option.splits)
qed

lemma table_named_member:
  "distinct (map tbl_name (sc_tables u)) \<Longrightarrow> y \<in> set (sc_tables u) \<Longrightarrow> tbl_name y = t \<Longrightarrow> table_named t u = Some y"
proof -
  have "distinct (map tbl_name T) \<Longrightarrow> y \<in> set T \<Longrightarrow> find (\<lambda>x. tbl_name x = tbl_name y) T = Some y" for T
    by (induction T) auto
  then show "distinct (map tbl_name (sc_tables u)) \<Longrightarrow> y \<in> set (sc_tables u) \<Longrightarrow> tbl_name y = t \<Longrightarrow> table_named t u = Some y"
    by (auto simp: table_named_def)
qed

lemma created_tables:
  assumes "sc_tables s = [version_table]"
  shows
    "table_named ''users'' (after_0009 s) = Some (table_with MIGRATOR ''users'' users_columns users_keys [])"
    "table_named ''admin_credentials'' (after_0009 s) = Some (table_with MIGRATOR ''admin_credentials'' admin_credentials_columns admin_credentials_keys [])"
    "table_named ''sessions'' (after_0009 s) = Some (table_with MIGRATOR ''sessions'' sessions_columns sessions_keys [(''ix_sessions_user_id'', [''user_id''])])"
    "table_named ''admin_login_rate_limits'' (after_0009 s) = Some (table_with MIGRATOR ''admin_login_rate_limits'' admin_login_rate_limits_columns admin_login_rate_limits_keys [])"
    "table_named ''platform_settings'' (after_0009 s) = Some (table_with MIGRATOR ''platform_settings'' platform_settings_columns platform_settings_keys [])"
    "table_named ''audit_log'' (after_0009 s) = Some (table_with MIGRATOR ''audit_log'' audit_log_columns audit_log_keys [(''ix_audit_log_action'', [''action'']), (''ix_audit_log_actor_id'', [''actor_id''])])"
    "table_named ''subjects'' (after_0009 s) = Some (table_with MIGRATOR ''subjects'' subjects_columns subjects_keys [(''ix_subjects_linked_user_id'', [''linked_user_id''])])"
    "table_named ''scans'' (after_0009 s) = Some (table_with MIGRATOR ''scans'' scans_columns scans_keys [(''ix_scans_requested_by'', [''requested_by'']), (''ix_scans_subject_id'', [''subject_id''])])"
    "table_named ''breach_sources'' (after_0009 s) = Some (table_with MIGRATOR ''breach_sources'' breach_sources_columns breach_sources_keys [])"
    "table_named ''findings'' (after_0009 s) = Some (table_with MIGRATOR ''findings'' findings_columns findings_keys [(''ix_findings_source_id'', [''source_id'']), (''ix_findings_subject_id'', [''subject_id'']), (''ix_findings_subject_remediation'', [''subject_id'', ''remediated_at''])])"
    "table_named ''finding_events'' (after_0009 s) = Some (table_with MIGRATOR ''finding_events'' finding_events_columns finding_events_keys [(''ix_finding_events_finding_id'', [''finding_id''])])"
    "table_named ''scan_batches'' (after_0009 s) = Some (table_with MIGRATOR ''scan_batches'' scan_batches_columns scan_batches_keys [(''ix_scan_batches_created_by'', [''created_by''])])"
    "table_named ''scan_queue'' (after_0009 s) = Some (table_with MIGRATOR ''scan_queue'' scan_queue_columns scan_queue_keys [(''ix_scan_queue_batch_id'', [''batch_id'']), (''ix_scan_queue_subject_id'', [''subject_id'']), (''ix_scan_queue_claim'', [''status'', ''created_at''])])"
    "table_named ''schedules'' (after_0009 s) = Some (table_with MIGRATOR ''schedules'' schedules_columns schedules_keys [(''ix_schedules_created_by'', [''created_by'']), (''ix_schedules_due'', [''enabled'', ''next_run_at''])])"
    "table_named ''notifications'' (after_0009 s) = Some (table_with MIGRATOR ''notifications'' notifications_columns notifications_keys [(''ix_notifications_user_id'', [''user_id'']), (''ix_notifications_claim'', [''status'', ''created_at'']), (''ix_notifications_user_sent'', [''user_id'', ''sent_at''])])"
    "table_named ''watchlist'' (after_0009 s) = Some (table_with MIGRATOR ''watchlist'' watchlist_columns watchlist_keys [(''ix_watchlist_created_by'', [''created_by''])])"
    "table_named ''alert_outbox'' (after_0009 s) = Some (table_with MIGRATOR ''alert_outbox'' alert_outbox_columns alert_outbox_keys [(''ix_alert_outbox_due'', [''status'', ''next_attempt_at''])])"
proof -
  have names: "distinct (map tbl_name (sc_tables (after_0009 s)))"
    unfolding grown_tables assms
    by (simp add: version_table_def tables_defs table_with_selectors VERSION_TABLE_def)
  show "table_named ''users'' (after_0009 s) = Some (table_with MIGRATOR ''users'' users_columns users_keys [])"
    by (rule table_named_member [OF names]) (simp_all only: grown_tables tables_0002_def set_append list.set Un_iff insert_iff simp_thms table_with_selectors)
  show "table_named ''admin_credentials'' (after_0009 s) = Some (table_with MIGRATOR ''admin_credentials'' admin_credentials_columns admin_credentials_keys [])"
    by (rule table_named_member [OF names]) (simp_all only: grown_tables tables_0002_def set_append list.set Un_iff insert_iff simp_thms table_with_selectors)
  show "table_named ''sessions'' (after_0009 s) = Some (table_with MIGRATOR ''sessions'' sessions_columns sessions_keys [(''ix_sessions_user_id'', [''user_id''])])"
    by (rule table_named_member [OF names]) (simp_all only: grown_tables tables_0002_def set_append list.set Un_iff insert_iff simp_thms table_with_selectors)
  show "table_named ''admin_login_rate_limits'' (after_0009 s) = Some (table_with MIGRATOR ''admin_login_rate_limits'' admin_login_rate_limits_columns admin_login_rate_limits_keys [])"
    by (rule table_named_member [OF names]) (simp_all only: grown_tables tables_0003_def set_append list.set Un_iff insert_iff simp_thms table_with_selectors)
  show "table_named ''platform_settings'' (after_0009 s) = Some (table_with MIGRATOR ''platform_settings'' platform_settings_columns platform_settings_keys [])"
    by (rule table_named_member [OF names]) (simp_all only: grown_tables tables_0004_def set_append list.set Un_iff insert_iff simp_thms table_with_selectors)
  show "table_named ''audit_log'' (after_0009 s) = Some (table_with MIGRATOR ''audit_log'' audit_log_columns audit_log_keys [(''ix_audit_log_action'', [''action'']), (''ix_audit_log_actor_id'', [''actor_id''])])"
    by (rule table_named_member [OF names]) (simp_all only: grown_tables tables_0004_def set_append list.set Un_iff insert_iff simp_thms table_with_selectors)
  show "table_named ''subjects'' (after_0009 s) = Some (table_with MIGRATOR ''subjects'' subjects_columns subjects_keys [(''ix_subjects_linked_user_id'', [''linked_user_id''])])"
    by (rule table_named_member [OF names]) (simp_all only: grown_tables tables_0005_def set_append list.set Un_iff insert_iff simp_thms table_with_selectors)
  show "table_named ''scans'' (after_0009 s) = Some (table_with MIGRATOR ''scans'' scans_columns scans_keys [(''ix_scans_requested_by'', [''requested_by'']), (''ix_scans_subject_id'', [''subject_id''])])"
    by (rule table_named_member [OF names]) (simp_all only: grown_tables tables_0005_def set_append list.set Un_iff insert_iff simp_thms table_with_selectors)
  show "table_named ''breach_sources'' (after_0009 s) = Some (table_with MIGRATOR ''breach_sources'' breach_sources_columns breach_sources_keys [])"
    by (rule table_named_member [OF names]) (simp_all only: grown_tables tables_0005_def set_append list.set Un_iff insert_iff simp_thms table_with_selectors)
  show "table_named ''findings'' (after_0009 s) = Some (table_with MIGRATOR ''findings'' findings_columns findings_keys [(''ix_findings_source_id'', [''source_id'']), (''ix_findings_subject_id'', [''subject_id'']), (''ix_findings_subject_remediation'', [''subject_id'', ''remediated_at''])])"
    by (rule table_named_member [OF names]) (simp_all only: grown_tables tables_0005_def set_append list.set Un_iff insert_iff simp_thms table_with_selectors)
  show "table_named ''finding_events'' (after_0009 s) = Some (table_with MIGRATOR ''finding_events'' finding_events_columns finding_events_keys [(''ix_finding_events_finding_id'', [''finding_id''])])"
    by (rule table_named_member [OF names]) (simp_all only: grown_tables tables_0005_def set_append list.set Un_iff insert_iff simp_thms table_with_selectors)
  show "table_named ''scan_batches'' (after_0009 s) = Some (table_with MIGRATOR ''scan_batches'' scan_batches_columns scan_batches_keys [(''ix_scan_batches_created_by'', [''created_by''])])"
    by (rule table_named_member [OF names]) (simp_all only: grown_tables tables_0006_def set_append list.set Un_iff insert_iff simp_thms table_with_selectors)
  show "table_named ''scan_queue'' (after_0009 s) = Some (table_with MIGRATOR ''scan_queue'' scan_queue_columns scan_queue_keys [(''ix_scan_queue_batch_id'', [''batch_id'']), (''ix_scan_queue_subject_id'', [''subject_id'']), (''ix_scan_queue_claim'', [''status'', ''created_at''])])"
    by (rule table_named_member [OF names]) (simp_all only: grown_tables tables_0006_def set_append list.set Un_iff insert_iff simp_thms table_with_selectors)
  show "table_named ''schedules'' (after_0009 s) = Some (table_with MIGRATOR ''schedules'' schedules_columns schedules_keys [(''ix_schedules_created_by'', [''created_by'']), (''ix_schedules_due'', [''enabled'', ''next_run_at''])])"
    by (rule table_named_member [OF names]) (simp_all only: grown_tables tables_0007_def set_append list.set Un_iff insert_iff simp_thms table_with_selectors)
  show "table_named ''notifications'' (after_0009 s) = Some (table_with MIGRATOR ''notifications'' notifications_columns notifications_keys [(''ix_notifications_user_id'', [''user_id'']), (''ix_notifications_claim'', [''status'', ''created_at'']), (''ix_notifications_user_sent'', [''user_id'', ''sent_at''])])"
    by (rule table_named_member [OF names]) (simp_all only: grown_tables tables_0008_def set_append list.set Un_iff insert_iff simp_thms table_with_selectors)
  show "table_named ''watchlist'' (after_0009 s) = Some (table_with MIGRATOR ''watchlist'' watchlist_columns watchlist_keys [(''ix_watchlist_created_by'', [''created_by''])])"
    by (rule table_named_member [OF names]) (simp_all only: grown_tables tables_0009_def set_append list.set Un_iff insert_iff simp_thms table_with_selectors)
  show "table_named ''alert_outbox'' (after_0009 s) = Some (table_with MIGRATOR ''alert_outbox'' alert_outbox_columns alert_outbox_keys [(''ix_alert_outbox_due'', [''status'', ''next_attempt_at''])])"
    by (rule table_named_member [OF names]) (simp_all only: grown_tables tables_0009_def set_append list.set Un_iff insert_iff simp_thms table_with_selectors)
qed

lemma final_enums:
  assumes "sc_enums s = []"
  shows "sc_enums (after_0013 s) = enums_0002 @ enums_0005 @ enums_0006
      @ [\<lparr>enu_name = ''schedule_kind'', enu_owner = MIGRATOR, enu_values = [''scan_ou'', ''scan_domain'', ''digest'']\<rparr>]
      @ enums_0008 @ enums_0009"
  using assms
  by (simp add: after_0002_def after_0003_def after_0004_def after_0005_def after_0006_def after_0007_def after_0008_def
      after_0009_def after_0010_def after_0011_def after_0012_def after_0013_def grow_selectors with_value_def
      enums_0002_def enums_0005_def enums_0006_def enums_0007_def)

lemma final_agrees:
  assumes "sc_tables s = [version_table]" and "sc_enums s = []"
  shows "agrees_with_models (after_0013 s)"
proof -
  have "list_all (\<lambda>m. case table_named (tbl_name m) (after_0013 s) of None \<Rightarrow> False | Some t \<Rightarrow> same_shape m t) metadata"
    using shapes
    by (simp add: metadata_def metadata_names final_tables [OF assms(1)] created_tables [OF assms(1)] tables_0012_def)
  moreover have "set (map tbl_name (sc_tables (after_0013 s))) = set (VERSION_TABLE # map tbl_name metadata)"
    unfolding final_names grown_tables assms(1)
    by (simp only: version_table_def tables_defs table_with_selectors metadata_def metadata_names list.map map_append append.simps list.set
        simp_thms; (intro equalityI insert_subsetI empty_subsetI; (rule insertI1 | rule insertI2)+))
  moreover have "set (map (\<lambda>x. (enu_name x, enu_values x)) (sc_enums (after_0013 s))) = set metadata_enums"
    by (simp only: final_enums [OF assms(2)] metadata_enums_def enums_0002_def enums_0005_def enums_0006_def enums_0008_def enums_0009_def
        enum_type.simps list.map map_append append.simps list.set simp_thms;
        (intro equalityI insert_subsetI empty_subsetI; (rule insertI1 | rule insertI2)+))
  ultimately show ?thesis by (simp add: agrees_with_models_def)
qed

text \<open>
  C5. The migrations bring a new database to exactly the schema the application declares: as superuser to
  the first revision and as the migration role to the head, every statement succeeds, and tables, columns,
  keys, checks, foreign keys, indexes, enumerations and every default the models declare are those of the metadata.
\<close>

theorem migrations_reach_models:
  assumes "password_accepted E ''LC_MIGRATOR_DB_PASSWORD'' p" and "password_accepted E ''LC_RUNTIME_DB_PASSWORD'' q"
    and "plain_identifier name"
  shows "\<exists>sv sv'. command_upgrade E SUPERUSER ''0001_bootstrap_roles'' \<lparr>sv_schema = new_database name pw now, sv_version = None\<rparr> = Inr sv \<and>
    command_upgrade_head E' MIGRATOR sv = Inr sv' \<and> sv_version sv' = Some ''0013_branding_grants'' \<and>
    agrees_with_models (sv_schema sv') \<and>
    sc_roles (sv_schema sv') = [(SUPERUSER, pw), (MIGRATOR, p), (RUNTIME, q)]"
proof -
  let ?s = "after_0001 name pw p q now"
  have "sc_tables ?s = [version_table]" "sc_enums ?s = []" by (simp_all add: after_0001_def new_database_def)
  then have "agrees_with_models (after_0013 ?s)" by (rule final_agrees)
  moreover have "sc_roles (after_0013 ?s) = sc_roles ?s"
    by (simp add: after_0002_def after_0003_def after_0004_def after_0005_def after_0006_def after_0007_def after_0008_def
      after_0009_def after_0010_def after_0011_def after_0012_def after_0013_def grow_selectors with_value_def)
  ultimately show ?thesis
    using run_0001 [OF assms] migrations_run [OF refl] by (simp add: after_0001_def)
qed

section \<open>An instance\<close>

definition sample_environ :: environ where
  "sample_environ = [''LC_MIGRATOR_DB_PASSWORD'' \<mapsto> replicate 40 97, ''LC_RUNTIME_DB_PASSWORD'' \<mapsto> replicate 40 98]"

lemma double_dollar_replicate: "c \<noteq> 36 \<Longrightarrow> \<not> double_dollar (replicate n c)"
  by (induction n) auto

lemma sample_accepted:
  "password_accepted sample_environ ''LC_MIGRATOR_DB_PASSWORD'' (replicate 40 97)"
  "password_accepted sample_environ ''LC_RUNTIME_DB_PASSWORD'' (replicate 40 98)"
  by (simp_all add: password_accepted_def sample_environ_def double_dollar_replicate startswith_def uni_def eval_nat_numeral)

lemma sample_identifier: "plain_identifier (uni ''leakcheck'')"
  by code_simp

theorem migrations_reach_models_witness:
  "\<exists>sv sv'. command_upgrade sample_environ SUPERUSER ''0001_bootstrap_roles''
      \<lparr>sv_schema = new_database (uni ''leakcheck'') (replicate 40 99) 0, sv_version = None\<rparr> = Inr sv \<and>
    command_upgrade_head Map.empty MIGRATOR sv = Inr sv' \<and> sv_version sv' = Some ''0013_branding_grants'' \<and>
    agrees_with_models (sv_schema sv') \<and>
    sc_roles (sv_schema sv') = [(SUPERUSER, replicate 40 99), (MIGRATOR, replicate 40 97), (RUNTIME, replicate 40 98)]"
  by (rule migrations_reach_models [OF sample_accepted sample_identifier])

end
