(* ===== verification/MigrationSafety.thy ===== *)
theory MigrationSafety
  imports MigrationChain
begin

text \<open>
  What holds of the migrations in every order: the runtime role never gets more than the application needs, and
  the two places where a downgrade refuses.
\<close>

section \<open>The runtime role\<close>

text \<open>
  All that the migrations may leave to the role of the web process: reading, inserting and updating, but no
  update of the two histories, deletion only where the code deletes, and nothing else.
\<close>

definition runtime_may :: "object \<Rightarrow> privilege \<Rightarrow> bool" where
  "runtime_may x p =
     (case x of
        TheDatabase \<Rightarrow> p = CONNECT
      | PublicSchema \<Rightarrow> p = USAGE
      | OnTable t \<Rightarrow>
          p = SELECT \<or>
          p = INSERT \<and> t \<noteq> VERSION_TABLE \<or>
          p = UPDATE \<and> t \<notin> {VERSION_TABLE, ''audit_log'', ''finding_events''} \<or>
          p = DELETE \<and> t \<in> {''schedules'', ''watchlist'', ''findings'', ''finding_events''})"

definition public_may :: "object \<Rightarrow> privilege \<Rightarrow> bool" where
  "public_may x p \<longleftrightarrow> (x, p) \<in> {(TheDatabase, CONNECT), (PublicSchema, USAGE)}"

definition narrow_entry :: "object \<times> privilege \<times> string \<Rightarrow> bool" where
  "narrow_entry e = (case e of (x, p, g) \<Rightarrow> (g = RUNTIME \<longrightarrow> runtime_may x p) \<and> (g = ''PUBLIC'' \<longrightarrow> public_may x p))"

definition narrow :: "schema \<Rightarrow> bool" where
  "narrow s \<longleftrightarrow> list_all narrow_entry (sc_acl s) \<and> list_all (\<lambda>y. tbl_owner y \<noteq> RUNTIME) (sc_tables s)"

fun careful :: "ddl \<Rightarrow> bool" where
  "careful (Grant ps xs g) = list_all (\<lambda>x. list_all (\<lambda>p. narrow_entry (x, p, g)) ps) xs"
| "careful (AlterOwner t x) = (x \<noteq> RUNTIME)"
| "careful _ = True"

lemma narrow_alter:
  assumes "narrow s" and "\<And>y. tbl_owner y \<noteq> RUNTIME \<Longrightarrow> tbl_owner (f y) \<noteq> RUNTIME"
  shows "narrow (alter t f s)"
  using assms by (auto simp: narrow_def alter_def list_all_iff)

lemma exec_narrow:
  assumes "exec r st s = Inr s'" and "careful st" and "r \<noteq> RUNTIME" and "narrow s"
  shows "narrow s'"
proof (cases st)
  case (AddColumn t c)
  have "narrow (fill_column t x s)" for x using assms(4) by (simp add: narrow_def fill_column_def)
  with AddColumn assms show ?thesis by (auto split: if_splits option.splits intro!: narrow_alter)
next
  case (DropColumn t c)
  with assms show ?thesis by (auto simp: without_column_def split: if_splits option.splits intro!: narrow_alter)
next
  case (AlterNullable t c b)
  with assms show ?thesis by (auto simp: set_nullable_def split: if_splits option.splits intro!: narrow_alter)
next
  case (CreateTable t cs ks)
  with assms show ?thesis by (auto simp: narrow_def new_table_def table_with_def split: if_splits)
next
  case (DropTable t)
  with assms show ?thesis by (auto simp: narrow_def list_all_iff split: if_splits)
qed (use assms in \<open>auto simp: narrow_def list_all_iff split: if_splits option.splits intro!: narrow_alter [unfolded narrow_def list_all_iff]\<close>)

lemma exec_all_narrow: "exec_all r xs s = Inr s' \<Longrightarrow> list_all careful xs \<Longrightarrow> r \<noteq> RUNTIME \<Longrightarrow> narrow s \<Longrightarrow> narrow s'"
  by (induction xs arbitrary: s) (auto simp: bind_res_Inr_iff dest: exec_narrow)

lemma scripts_careful:
  "list_all (\<lambda>x. list_all careful (sr_downgrade x)) scripts"
  "list_all (\<lambda>x. list_all careful (projr (sr_upgrade x E name))) (tl scripts)"
  by code_simp+

lemma upgrade_careful:
  assumes "x \<in> set scripts" and "sr_upgrade x E name = Inr stmts"
  shows "list_all careful stmts"
proof -
  have "scripts = hd scripts # tl scripts" by (simp add: scripts_def)
  with assms(1) consider "x = hd scripts" | "x \<in> set (tl scripts)" by (metis set_ConsD)
  then show ?thesis
  proof cases
    case 1
    with assms(2) show ?thesis
      by (auto simp: scripts_def upgrade_0001_def bind_res_Inr_iff narrow_entry_def runtime_may_def public_may_def)
  next
    case 2
    with scripts_careful(2) [of E name] have "list_all careful (projr (sr_upgrade x E name))" by (auto simp: list_all_iff)
    with assms(2) show ?thesis by simp
  qed
qed

text \<open>
  What operators do to a database: upgrades to a revision and single downgrades, each as some role.
\<close>

datatype alembic = UpgradeTo string | DowngradeOne

fun run_command :: "environ \<Rightarrow> string \<Rightarrow> alembic \<Rightarrow> server \<Rightarrow> server res" where
  "run_command E r (UpgradeTo target) sv = command_upgrade E r target sv"
| "run_command E r DowngradeOne sv =
     (case find (\<lambda>x. Some (sr_revision x) = sv_version sv) scripts of
        None \<Rightarrow> Inl command_error
      | Some x \<Rightarrow> downgrade_step r x sv)"

fun run_commands :: "environ \<Rightarrow> (string \<times> alembic) list \<Rightarrow> server \<Rightarrow> server res" where
  "run_commands E [] sv = Inr sv"
| "run_commands E ((r, x) # xs) sv = bind_res (run_command E r x sv) (run_commands E xs)"

lemma stamp_schema: "stamp r v sv = Inr sv' \<Longrightarrow> sv_schema sv' = sv_schema sv"
  by (auto simp: stamp_def Let_def split: if_splits)

lemma lineage_known: "lineage n ss r = Some l \<Longrightarrow> set l \<subseteq> set ss"
proof (induction n ss r arbitrary: l rule: lineage.induct)
  case (3 n ss r)
  then obtain x k where x: "find (\<lambda>x. sr_revision x = r) ss = Some x" and k: "lineage n ss (sr_down x) = Some k" "l = k @ [x]"
    by (auto split: option.splits)
  then have "x \<in> set ss" by (auto simp: find_Some_iff)
  then show ?case using "3.IH" [OF x k(1)] k(2) by simp
qed simp_all

lemma each_step_narrow:
  "each_step (upgrade_step E r) xs sv = Inr sv' \<Longrightarrow> set xs \<subseteq> set scripts \<Longrightarrow> r \<noteq> RUNTIME \<Longrightarrow> narrow (sv_schema sv) \<Longrightarrow>
    narrow (sv_schema sv')"
proof (induction xs arbitrary: sv)
  case (Cons x xs)
  then obtain u where u: "upgrade_step E r x sv = Inr u" "each_step (upgrade_step E r) xs u = Inr sv'"
    by (auto simp: bind_res_Inr_iff)
  have "x \<in> set scripts" using Cons.prems(2) by simp
  then have "narrow (sv_schema u)"
    using u(1) Cons.prems(3,4) by (auto simp: upgrade_step_def bind_res_Inr_iff dest!: stamp_schema dest: upgrade_careful exec_all_narrow)
  then show ?case using Cons.IH [OF u(2)] Cons.prems by simp
qed simp

lemma run_command_narrow:
  assumes "run_command E r x sv = Inr sv'" and "r \<noteq> RUNTIME" and "narrow (sv_schema sv)"
  shows "narrow (sv_schema sv')"
proof (cases x)
  case (UpgradeTo target)
  obtain want got t where w: "lineage_of (Some target) = Some want" and "lineage_of (sv_version sv) = Some got" and t: "ensure_version_table r sv = Inr t"
    and u: "each_step (upgrade_step E r) (filter (\<lambda>x. sr_revision x \<notin> sr_revision ` set got) want) t = Inr sv'"
    using assms(1) UpgradeTo by (auto simp: command_upgrade_def bind_res_Inr_iff split: option.splits)
  have "narrow (sv_schema t)"
    using t assms(2,3) by (auto simp: ensure_version_table_def bind_res_Inr_iff split: if_splits dest!: exec_narrow simp del: exec.simps)
  moreover have "set want \<subseteq> set scripts" using w lineage_known by (auto simp: lineage_of_def)
  ultimately show ?thesis using each_step_narrow [OF u] assms(2) by auto
next
  case DowngradeOne
  then obtain y where y: "y \<in> set scripts" "downgrade_step r y sv = Inr sv'"
    using assms(1) by (auto simp: find_Some_iff split: option.splits intro: nth_mem)
  have "list_all careful (sr_downgrade y)" using scripts_careful(1) y(1) by (auto simp: list_all_iff)
  then show ?thesis
    using y(2) assms(2,3) by (auto simp: downgrade_step_def bind_res_Inr_iff dest!: stamp_schema dest: exec_all_narrow)
qed

lemma run_commands_narrow:
  "run_commands E xs sv = Inr sv' \<Longrightarrow> RUNTIME \<notin> fst ` set xs \<Longrightarrow> narrow (sv_schema sv) \<Longrightarrow> narrow (sv_schema sv')"
  by (induction E xs sv rule: run_commands.induct) (auto simp: bind_res_Inr_iff dest: run_command_narrow)

lemma narrow_may:
  assumes "narrow s" and "may RUNTIME p x s"
  shows "runtime_may x p"
proof -
  have "tbl_owner y \<noteq> RUNTIME" if "table_named t s = Some y" for t y
  proof -
    have "y \<in> set (sc_tables s)" using that by (auto simp: table_named_def find_Some_iff)
    then show ?thesis using assms(1) by (simp add: narrow_def list_all_iff)
  qed
  with assms(2) have "(x, p, RUNTIME) \<in> set (sc_acl s) \<or> (x, p, ''PUBLIC'') \<in> set (sc_acl s)"
    by (auto simp: may_def split: object.splits option.splits)
  then have "runtime_may x p \<or> public_may x p"
    using assms(1) by (auto simp: narrow_def list_all_iff narrow_entry_def)
  then show ?thesis by (auto simp: public_may_def runtime_may_def)
qed

text \<open>
  C17. Least privilege. Whatever upgrades and downgrades, run by any other roles, build the database, the role of the web
  process can neither rewrite nor truncate the audit log or the history of findings, deletes at most from
  the four tables the application deletes from, may not touch the revision, and creates nothing.
\<close>

theorem runtime_role_stays_narrow:
  assumes "run_commands E xs \<lparr>sv_schema = new_database name pw now, sv_version = None\<rparr> = Inr sv"
    and "RUNTIME \<notin> fst ` set xs" and "may RUNTIME p x (sv_schema sv)"
  shows "p \<notin> {CREATE, TRUNCATE} \<and>
    (p = UPDATE \<longrightarrow> x \<notin> {OnTable ''audit_log'', OnTable ''finding_events'', OnTable VERSION_TABLE}) \<and>
    (p = DELETE \<longrightarrow> x \<in> {OnTable ''schedules'', OnTable ''watchlist'', OnTable ''findings'', OnTable ''finding_events''}) \<and>
    (p = INSERT \<longrightarrow> x \<noteq> OnTable VERSION_TABLE)"
proof -
  have "narrow (new_database name pw now)"
    by (simp add: narrow_def new_database_def narrow_entry_def public_may_def)
  then have "narrow (sv_schema sv)" using run_commands_narrow [OF assms(1,2)] by simp
  then have "runtime_may x p" using assms(3) by (rule narrow_may)
  then show ?thesis by (auto simp: runtime_may_def split: object.splits)
qed

section \<open>Roles are never dropped\<close>

text \<open>
  The downgrade of the first revision fails: the roles still hold the privileges on database, schema and
  revision the upgrade gave them, and nothing takes these back.
\<close>

theorem roles_cannot_be_dropped:
  assumes "password_accepted E ''LC_MIGRATOR_DB_PASSWORD'' p" and "password_accepted E ''LC_RUNTIME_DB_PASSWORD'' q"
    and "plain_identifier name"
  shows "\<exists>sv. command_upgrade E SUPERUSER ''0001_bootstrap_roles'' \<lparr>sv_schema = new_database name pw now, sv_version = None\<rparr> = Inr sv \<and>
    downgrade_step SUPERUSER (hd scripts) sv = Inl ddl_error"
proof -
  have "depends_on_role RUNTIME (after_0001 name pw p q now)" "RUNTIME \<in> fst ` set (sc_roles (after_0001 name pw p q now))"
    by (simp_all add: depends_on_role_def after_0001_def acl_0001_def)
  then have "exec_all SUPERUSER downgrade_0001 (after_0001 name pw p q now) = Inl ddl_error"
    by (simp add: downgrade_0001_def)
  then have "downgrade_step SUPERUSER (hd scripts)
      \<lparr>sv_schema = after_0001 name pw p q now, sv_version = Some ''0001_bootstrap_roles''\<rparr> = Inl ddl_error"
    by (simp add: downgrade_step_def scripts_def)
  then show ?thesis using run_0001 [OF assms] by blast
qed

section \<open>The enrolment revision\<close>

text \<open>
  The tenth revision and its downgrade. The upgrade gives the moment of enrolment to whoever has a seed; taking it
  back is refused while an administrator has no seed for the second factor.
\<close>

theorem enrolment_downgrade:
  assumes "table_named ''admin_credentials'' s = Some y" and "tbl_owner y = MIGRATOR"
    and "''totp_secret_enc'' \<in> set (column_names y)" and "''totp_enabled_at'' \<notin> set (column_names y)"
    and "s' = (with_enrolment s)\<lparr>sc_credentials := C\<rparr>"
  shows "exec_all MIGRATOR upgrade_0010 s = Inr (with_enrolment s) \<and>
    (list_ex (\<lambda>c. cred_totp_secret_enc c = None) C \<longrightarrow> exec_all MIGRATOR downgrade_0010 s' = Inl (OtherError ''RuntimeError''))"
proof
  show "exec_all MIGRATOR upgrade_0010 s = Inr (with_enrolment s)" using assms(1-4) by (rule run_0010)
  have "table_named ''admin_credentials'' s' = Some (enrol y)"
    using assms(1,5) table_named_enrolment [of "''admin_credentials''" s] by (simp add: table_named_def)
  then have "may MIGRATOR SELECT (OnTable ''admin_credentials'') s'"
    using assms(2) keeps_names(1) by (simp add: may_def keeps_name_def)
  then show "list_ex (\<lambda>c. cred_totp_secret_enc c = None) C \<longrightarrow> exec_all MIGRATOR downgrade_0010 s' = Inl (OtherError ''RuntimeError'')"
    using assms(5) by (simp add: downgrade_0010_def seedless_def)
qed

section \<open>Instances\<close>

lemma sample_commands:
  "run_commands sample_environ [(SUPERUSER, UpgradeTo ''0001_bootstrap_roles''), (MIGRATOR, UpgradeTo ''0013_branding_grants'')]
      \<lparr>sv_schema = new_database (uni ''leakcheck'') (replicate 40 99) 0, sv_version = None\<rparr> =
    Inr \<lparr>sv_schema = after_0013 (after_0001 (uni ''leakcheck'') (replicate 40 99) (replicate 40 97) (replicate 40 98) 0),
      sv_version = Some ''0013_branding_grants''\<rparr>"
  using run_0001 [OF sample_accepted sample_identifier] migrations_run [OF refl]
  by (simp add: command_upgrade_head_def the_head)

theorem runtime_role_stays_narrow_witness:
  "\<exists>sv. run_commands sample_environ [(SUPERUSER, UpgradeTo ''0001_bootstrap_roles''), (MIGRATOR, UpgradeTo ''0013_branding_grants'')]
      \<lparr>sv_schema = new_database (uni ''leakcheck'') (replicate 40 99) 0, sv_version = None\<rparr> = Inr sv \<and>
    may RUNTIME DELETE (OnTable ''findings'') (sv_schema sv) \<and> \<not> may RUNTIME UPDATE (OnTable ''audit_log'') (sv_schema sv)"
proof -
  let ?s = "after_0013 (after_0001 (uni ''leakcheck'') (replicate 40 99) (replicate 40 97) (replicate 40 98) 0)"
  have "may RUNTIME DELETE (OnTable ''findings'') ?s"
    by (simp add: may_def after_0013_def acl_0013_def)
  moreover have "\<not> may RUNTIME UPDATE (OnTable ''audit_log'') ?s"
    using runtime_role_stays_narrow [OF sample_commands, of UPDATE "OnTable ''audit_log''"] by auto
  ultimately show ?thesis using sample_commands by simp
qed

theorem roles_cannot_be_dropped_witness:
  "\<exists>sv. command_upgrade sample_environ SUPERUSER ''0001_bootstrap_roles''
      \<lparr>sv_schema = new_database (uni ''leakcheck'') (replicate 40 99) 0, sv_version = None\<rparr> = Inr sv \<and>
    downgrade_step SUPERUSER (hd scripts) sv = Inl ddl_error"
  by (rule roles_cannot_be_dropped [OF sample_accepted sample_identifier])

end
