(* ===== verification/Deployment.thy ===== *)
theory Deployment
  imports MigrationChain
begin

text \<open>
  The zero-input deployment (\<open>src/app/bootstrap_secrets.py\<close>) and the choice of the settings in
  \<open>get_settings\<close> (\<open>src/app/config.py\<close>): the volume of generated secrets, the environment of the migration
  steps, the wait for the database and the start of the web container. The facts follow the life of a stack:
  secrets are drawn once and never replaced, the first start builds the schema, a later one changes nothing.
\<close>

section \<open>The volume\<close>

text \<open>Modes as numbers: 256, 292 and 493 are the octal 400, 444 and 755.\<close>

record secret_file =
  sf_content :: bytes
  sf_mode :: nat

text \<open>Whatever is no regular file (a directory, a link, a socket) is refused alike.\<close>

datatype node = Regular secret_file | Special

record volume =
  vol_writable :: bool
  vol_owned :: bool
  vol_mode :: nat
  vol_files :: "string \<rightharpoonup> node"

text \<open>What is at the path; a missing directory can be created or not.\<close>

datatype place = Missing bool | NotADirectory | Folder volume

definition SECRET_FILES :: "(string \<times> string) list" where
  "SECRET_FILES = [
     (''postgres_password'', ''postgres-password''),
     (''migrator_password'', ''migrator-password''),
     (''runtime_password'', ''runtime-password''),
     (''session_secret'', ''session-secret''),
     (''data_key'', ''data-key'')]"

abbreviation file_not_found :: exn where "file_not_found \<equiv> OtherError ''FileNotFoundError''"
abbreviation os_error :: exn where "os_error \<equiv> OtherError ''OSError''"

text \<open>Reading text: every end of line becomes a line feed.\<close>

fun universal_newlines :: "bool \<Rightarrow> ustr \<Rightarrow> ustr" where
  "universal_newlines after_cr [] = []"
| "universal_newlines after_cr (c # cs) =
     (if c = 13 then 10 # universal_newlines True cs
      else if c = 10 \<and> after_cr then universal_newlines False cs
      else c # universal_newlines False cs)"

definition read_ascii :: "bytes \<Rightarrow> ustr res" where
  "read_ascii bs =
     (if list_all (\<lambda>b. unat b < 128) bs then Inr (universal_newlines False (map unat bs)) else Inl UnicodeDecodeError)"

definition encode_ascii :: "ustr \<Rightarrow> bytes" where
  "encode_ascii s = map word_of_nat s"

definition read_secret :: "unidata \<Rightarrow> node option \<Rightarrow> ustr res" where
  "read_secret U file =
     (case file of
        None \<Rightarrow> Inl file_not_found
      | Some Special \<Rightarrow> Inl runtime_error
      | Some (Regular f) \<Rightarrow>
          bind_res (read_ascii (sf_content f)) (\<lambda>text.
          let value = strip U text in
          if secret_value_ok value then Inr value else Inl runtime_error))"

section \<open>Creating and loading the secrets\<close>

text \<open>
  The loop over the names. \<open>stored\<close> tells whether the write of a file succeeds; a failed one leaves the file
  empty, with the mode it was opened with.
\<close>

fun create_secrets ::
  "unidata \<Rightarrow> (string \<Rightarrow> bool) \<Rightarrow> (string \<times> string) list \<Rightarrow> volume \<Rightarrow> db \<Rightarrow> unit res \<times> volume \<times> db" where
  "create_secrets U stored [] v d = (Inr (), v, d)"
| "create_secrets U stored ((name, path) # rest) v d =
     (case vol_files v path of
        Some n \<Rightarrow>
          (case read_secret U (Some n) of
             Inl e \<Rightarrow> (Inl e, v, d)
           | Inr _ \<Rightarrow> create_secrets U stored rest v d)
      | None \<Rightarrow>
          (let (secret, d) = new_secret name d in
           if stored name
           then create_secrets U stored rest
                  (v\<lparr>vol_files := (vol_files v)(path \<mapsto> Regular \<lparr>sf_content = encode_ascii (secret @ [10]), sf_mode = 292\<rparr>)\<rparr>) d
           else (Inl os_error,
                 v\<lparr>vol_files := (vol_files v)(path \<mapsto> Regular \<lparr>sf_content = [], sf_mode = 256\<rparr>)\<rparr>, d)))"

definition initialize_bootstrap_secrets ::
  "unidata \<Rightarrow> (string \<Rightarrow> bool) \<Rightarrow> place \<Rightarrow> db \<Rightarrow> unit res \<times> place \<times> db" where
  "initialize_bootstrap_secrets U stored p d =
     (let populate = (\<lambda>v.
        if \<not> vol_writable v then (Inl runtime_error, Folder v, d)
        else
          let v = (if vol_owned v then v\<lparr>vol_mode := 493\<rparr> else v);
              (r, v', d') = create_secrets U stored SECRET_FILES v d
          in (r, Folder v', d')) in
      case p of
        NotADirectory \<Rightarrow> (Inl (OtherError ''FileExistsError''), p, d)
      | Missing creatable \<Rightarrow>
          if creatable then populate \<lparr>vol_writable = True, vol_owned = True, vol_mode = 493, vol_files = Map.empty\<rparr>
          else (Inl os_error, p, d)
      | Folder v \<Rightarrow> populate v)"

definition file_at :: "place \<Rightarrow> string \<Rightarrow> node option" where
  "file_at p path = (case p of Folder v \<Rightarrow> vol_files v path | _ \<Rightarrow> None)"

definition load_bootstrap_secrets :: "unidata \<Rightarrow> place \<Rightarrow> (string \<times> ustr) list res" where
  "load_bootstrap_secrets U p =
     (if p = NotADirectory then Inl (OtherError ''NotADirectoryError'')
      else map_res (\<lambda>(name, path). bind_res (read_secret U (file_at p path)) (\<lambda>value. Inr (name, value))) SECRET_FILES)"

definition bootstrap_secrets_available :: "place \<Rightarrow> bool" where
  "bootstrap_secrets_available p = (case p of Folder _ \<Rightarrow> True | _ \<Rightarrow> False)"

definition secret_of :: "(string \<times> ustr) list \<Rightarrow> string \<Rightarrow> ustr" where
  "secret_of vs name = the (map_of vs name)"

definition loaded_settings :: "unidata \<Rightarrow> place \<Rightarrow> Settings res" where
  "loaded_settings U p =
     bind_res (load_bootstrap_secrets U p) (\<lambda>values.
     Inr (runtime_settings (secret_of values ''runtime_password'') (secret_of values ''session_secret'')
            (secret_of values ''data_key'')))"

text \<open>\<open>from_environment\<close> is \<open>Settings()\<close>, read from the \<open>LC_\<close> variables and the file \<open>.env\<close>.\<close>

definition get_settings :: "unidata \<Rightarrow> Settings res \<Rightarrow> place \<Rightarrow> Settings res" where
  "get_settings U from_environment p =
     (if bootstrap_secrets_available p then bind_res (loaded_settings U p) (validate_settings U)
      else from_environment)"

section \<open>Migrating\<close>

definition migration_environment :: "unidata \<Rightarrow> string \<Rightarrow> place \<Rightarrow> (string \<times> ustr) list res" where
  "migration_environment U role p =
     bind_res (load_bootstrap_secrets U p) (\<lambda>values.
     if role = ''bootstrap''
     then Inr [
       (MIGRATION_URL, postgres_url ''postgres'' (secret_of values ''postgres_password'')),
       (''LC_MIGRATOR_DB_PASSWORD'', secret_of values ''migrator_password''),
       (''LC_RUNTIME_DB_PASSWORD'', secret_of values ''runtime_password'')]
     else if role = ''migrate''
     then Inr [(MIGRATION_URL, postgres_url ''leakcheck_migrator'' (secret_of values ''migrator_password''))]
     else Inl runtime_error)"

text \<open>The result and the environment the process is left with; a failed migration is rolled back.\<close>

definition run_migration :: "unidata \<Rightarrow> string \<Rightarrow> place \<Rightarrow> environ \<Rightarrow> server \<Rightarrow> server res \<times> environ" where
  "run_migration U role p E sv =
     (case migration_environment U role p of
        Inl e \<Rightarrow> (Inl e, E)
      | Inr env \<Rightarrow>
          (let E' = E ++ map_of env in
           ((if role = ''bootstrap'' then bootstrap_database E' sv else migrate_database E' sv),
            E' |` (- set (map fst env)))))"

section \<open>Waiting for the database\<close>

definition DATABASE_WAIT :: nat where "DATABASE_WAIT = 180000000"
definition DATABASE_RETRY :: nat where "DATABASE_RETRY = 3000000"

text \<open>
  Each attempt with the microseconds it takes. Only the failures of a connection are retried, any other
  exception leaves the loop.
\<close>

datatype probe = Reached | Unreachable | Fails exn

abbreviation system_exit :: exn where "system_exit \<equiv> OtherError ''SystemExit''"

function wait_loop :: "(nat \<Rightarrow> probe \<times> nat) \<Rightarrow> nat \<Rightarrow> nat \<Rightarrow> nat \<Rightarrow> nat res" where
  "wait_loop probes deadline now attempt =
     (let attempt = attempt + 1; (outcome, took) = probes attempt; now = now + took in
      case outcome of
        Reached \<Rightarrow> Inr attempt
      | Fails e \<Rightarrow> Inl e
      | Unreachable \<Rightarrow>
          if now \<ge> deadline then Inl system_exit
          else wait_loop probes deadline (now + DATABASE_RETRY) attempt)"
  by pat_completeness auto

termination
  by (relation "measure (\<lambda>(probes, deadline, now, attempt). deadline - now)") (auto simp: DATABASE_RETRY_def)

declare wait_loop.simps [simp del]

definition wait_for_database :: "unidata \<Rightarrow> place \<Rightarrow> (nat \<Rightarrow> probe \<times> nat) \<Rightarrow> nat \<Rightarrow> nat res" where
  "wait_for_database U p probes now =
     bind_res (load_bootstrap_secrets U p) (\<lambda>_. wait_loop probes (now + DATABASE_WAIT) now 0)"

section \<open>Serving\<close>

record container =
  ct_place :: place
  ct_db :: db
  ct_environ :: environ
  ct_server :: server

text \<open>The migrations of one role, on the server and in the environment of the container.\<close>

definition migrate_as :: "unidata \<Rightarrow> string \<Rightarrow> container \<Rightarrow> unit res \<times> container" where
  "migrate_as U role c =
     (case run_migration U role (ct_place c) (ct_environ c) (ct_server c) of
        (Inl e, E) \<Rightarrow> (Inl e, c\<lparr>ct_environ := E\<rparr>)
      | (Inr sv, E) \<Rightarrow> (Inr (), c\<lparr>ct_environ := E, ct_server := sv\<rparr>))"

text \<open>\<open>_serve\<close> up to the start of the web server, which is the result \<open>Inr ()\<close>.\<close>

definition serve_container :: "unidata \<Rightarrow> (nat \<Rightarrow> probe \<times> nat) \<Rightarrow> nat \<Rightarrow> container \<Rightarrow> unit res \<times> container" where
  "serve_container U probes now c =
     (case wait_for_database U (ct_place c) probes now of
        Inl e \<Rightarrow> (Inl e, c)
      | Inr _ \<Rightarrow>
          (case migrate_as U ''bootstrap'' c of
             (Inl e, c) \<Rightarrow> (Inl e, c)
           | (Inr _, c) \<Rightarrow> migrate_as U ''migrate'' c))"

definition bootstrap_main ::
  "unidata \<Rightarrow> (string \<Rightarrow> bool) \<Rightarrow> (nat \<Rightarrow> probe \<times> nat) \<Rightarrow> nat \<Rightarrow> string list \<Rightarrow> container \<Rightarrow> unit res \<times> container" where
  "bootstrap_main U stored probes now arguments c =
     (let action = (case arguments of [a] \<Rightarrow> a | _ \<Rightarrow> '''') in
      if action = ''init''
      then (case initialize_bootstrap_secrets U stored (ct_place c) (ct_db c) of
              (r, p, d) \<Rightarrow> (r, c\<lparr>ct_place := p, ct_db := d\<rparr>))
      else if action \<in> {''bootstrap'', ''migrate''} then migrate_as U action c
      else if action = ''serve'' then serve_container U probes now c
      else (Inl system_exit, c))"

section \<open>Secrets are drawn once\<close>

lemma create_secrets_extends:
  "create_secrets U stored ns v d = (r, v', d') \<Longrightarrow>
     vol_files v \<subseteq>\<^sub>m vol_files v' \<and> vol_writable v' = vol_writable v \<and> vol_owned v' = vol_owned v \<and> vol_mode v' = vol_mode v"
proof (induction U stored ns v d arbitrary: r v' d' rule: create_secrets.induct)
  case (2 U stored name path rest v d)
  show ?case
  proof (cases "vol_files v path")
    case None
    obtain s e where s: "new_secret name d = (s, e)" by (cases "new_secret name d")
    have ext: "m \<subseteq>\<^sub>m m(path \<mapsto> n)" if "m path = None" for m :: "string \<rightharpoonup> node" and n
      using that by (auto simp: map_le_def dom_def)
    show ?thesis
    proof (cases "stored name")
      case True
      have "create_secrets U stored rest
          (v\<lparr>vol_files := (vol_files v)(path \<mapsto> Regular \<lparr>sf_content = encode_ascii (s @ [10]), sf_mode = 292\<rparr>)\<rparr>) e = (r, v', d')"
        using "2.prems" None s True by simp
      from "2.IH"(1) [OF None s [symmetric] refl True this]
      have "(vol_files v)(path \<mapsto> Regular \<lparr>sf_content = encode_ascii (s @ [10]), sf_mode = 292\<rparr>) \<subseteq>\<^sub>m vol_files v' \<and>
          vol_writable v' = vol_writable v \<and> vol_owned v' = vol_owned v \<and> vol_mode v' = vol_mode v" by (simp add: fun_upd_def)
      with ext [of "vol_files v", OF None] show ?thesis by (blast intro: map_le_trans)
    next
      case False
      with "2.prems" None s show ?thesis by (auto simp: map_le_def dom_def)
    qed
  next
    case (Some n)
    with "2.prems" "2.IH"(2) show ?thesis by (auto split: sum.splits)
  qed
qed simp

lemma universal_newlines_id: "13 \<notin> set t \<Longrightarrow> universal_newlines False t = t"
  by (induction t) auto

lemma encoded_ascii: "list_all (\<lambda>c. c < 128) s \<Longrightarrow> map unat (encode_ascii s) = s"
  by (induction s) (auto simp: encode_ascii_def unat_of_nat take_bit_eq_mod)

lemma urlsafe_char: "is_urlsafe c \<Longrightarrow> c < 128 \<and> c \<noteq> 10 \<and> c \<noteq> 13 \<and> \<not> isspace U c"
  by (auto simp: is_urlsafe_def isspace_def)

lemma strip_line:
  assumes "list_all is_urlsafe s" and "s \<noteq> []"
  shows "strip U (s @ [10]) = s"
proof -
  have ends: "\<not> isspace U (hd s)" "\<not> isspace U (last s)"
    using assms urlsafe_char by (auto simp: list_all_iff)
  have "dropWhile (isspace U) (s @ [10]) = s @ [10]" using assms(2) ends(1) by (cases s) simp_all
  moreover have "dropWhile (isspace U) (rev s) = rev s" using assms(2) ends(2) by (cases s rule: rev_cases) simp_all
  ultimately show ?thesis by (simp add: strip_def lstrip_of_def rstrip_of_def isspace_def)
qed

lemma read_line:
  assumes "list_all is_urlsafe s" and "32 \<le> length s"
  shows "read_secret U (Some (Regular \<lparr>sf_content = encode_ascii (s @ [10]), sf_mode = m\<rparr>)) = Inr s"
proof -
  have ascii: "list_all (\<lambda>c. c < 128) (s @ [10])" and "10 \<notin> set s" "13 \<notin> set s"
    using assms(1) urlsafe_char by (auto simp: list_all_iff)
  then have "secret_value_ok s" using assms(2) by (simp add: secret_value_ok_def)
  moreover have "read_ascii (encode_ascii (s @ [10])) = Inr (s @ [10])"
  proof -
    have "list_all (\<lambda>b. unat b < 128) (encode_ascii (s @ [10]))"
      using encoded_ascii [OF ascii] ascii by (metis (mono_tags, lifting) list.pred_map o_def list.pred_mono_strong)
    then show ?thesis
      using encoded_ascii [OF ascii] \<open>13 \<notin> set s\<close> by (simp add: read_ascii_def universal_newlines_id)
  qed
  ultimately show ?thesis
    using strip_line [OF assms(1), of U] assms(2) by (simp add: read_secret_def Let_def flip: length_greater_0_conv)
qed

lemma hexdigest_urlsafe: "list_all is_urlsafe (hexdigest bs)"
  using hexdigest_chars by (fastforce simp: list_all_iff is_urlsafe_def)

lemma new_secret_text:
  assumes "new_secret name d = (s, d')"
  shows "list_all is_urlsafe s" and "32 \<le> length s"
  using assms hexdigest_urlsafe base64url_urlsafe
  by (auto simp: new_secret_def token_bytes_def Let_def length_hexdigest length_base64url split: if_splits)

text \<open>A path with a usable secret stays usable, and creating is then a matter of checking.\<close>

definition readable :: "unidata \<Rightarrow> volume \<Rightarrow> string \<times> string \<Rightarrow> bool" where
  "readable U v = (\<lambda>(name, path). case read_secret U (vol_files v path) of Inr _ \<Rightarrow> True | Inl _ \<Rightarrow> False)"

lemma readable_extends: "vol_files v \<subseteq>\<^sub>m vol_files v' \<Longrightarrow> readable U v x \<Longrightarrow> readable U v' x"
  by (auto simp: readable_def read_secret_def map_le_def dom_def split: prod.splits option.splits)

lemma readableE:
  assumes "readable U v (name, path)"
  obtains n x where "vol_files v path = Some n" and "read_secret U (Some n) = Inr x"
  using assms by (cases "vol_files v path") (auto simp: readable_def read_secret_def [of U None] split: sum.splits)

lemma create_secrets_append:
  "list_all (readable U v) ns \<Longrightarrow> create_secrets U stored (ns @ ms) v d = create_secrets U stored ms v d"
proof (induction ns)
  case (Cons x ns)
  obtain name path where x: "x = (name, path)" by (cases x)
  from Cons.prems obtain n t where "vol_files v path = Some n" "read_secret U (Some n) = Inr t"
    unfolding x by (auto elim: readableE)
  then show ?case using Cons by (simp add: x)
qed simp

lemma create_secrets_complete:
  "create_secrets U stored ns v d = (Inr (), v', d') \<Longrightarrow> list_all (readable U v') ns"
proof (induction U stored ns v d arbitrary: v' d' rule: create_secrets.induct)
  case (2 U stored name path rest v d)
  show ?case
  proof (cases "vol_files v path")
    case None
    obtain s e where s: "new_secret name d = (s, e)" by (cases "new_secret name d")
    define w where "w = v\<lparr>vol_files := (vol_files v)(path \<mapsto> Regular \<lparr>sf_content = encode_ascii (s @ [10]), sf_mode = 292\<rparr>)\<rparr>"
    have stored: "stored name" and run: "create_secrets U stored rest w e = (Inr (), v', d')"
      using "2.prems" None s by (auto simp: w_def split: if_splits)
    have "readable U w (name, path)"
      using read_line [OF new_secret_text [OF s]] by (simp add: readable_def w_def)
    then have "readable U v' (name, path)"
      using create_secrets_extends [OF run] readable_extends by blast
    moreover have "list_all (readable U v') rest"
      using "2.IH"(1) [OF None s [symmetric] refl stored] run by (simp add: w_def)
    ultimately show ?thesis by simp
  next
    case (Some n)
    then obtain x where x: "read_secret U (Some n) = Inr x" and run: "create_secrets U stored rest v d = (Inr (), v', d')"
      using "2.prems" by (auto split: sum.splits)
    have "readable U v (name, path)" using Some x by (simp add: readable_def)
    then have "readable U v' (name, path)"
      using create_secrets_extends [OF run] readable_extends by blast
    then show ?thesis using "2.IH"(2) [OF Some x run] by simp
  qed
qed simp

lemma create_secrets_interrupted:
  "create_secrets U stored ns v d = (Inl os_error, v', d') \<Longrightarrow>
     \<exists>pre name path post. ns = pre @ (name, path) # post \<and> list_all (readable U v') pre \<and>
       vol_files v' path = Some (Regular \<lparr>sf_content = [], sf_mode = 256\<rparr>)"
proof (induction U stored ns v d arbitrary: v' d' rule: create_secrets.induct)
  case (2 U stored name path rest v d)
  have grown: "\<exists>pre name' path' post. (name, path) # rest = pre @ (name', path') # post \<and> list_all (readable U v') pre \<and>
       vol_files v' path' = Some (Regular \<lparr>sf_content = [], sf_mode = 256\<rparr>)"
    if "readable U w (name, path)" and run: "create_secrets U stored rest w e = (Inl os_error, v', d')"
      and "\<exists>pre name path post. rest = pre @ (name, path) # post \<and> list_all (readable U v') pre \<and>
       vol_files v' path = Some (Regular \<lparr>sf_content = [], sf_mode = 256\<rparr>)" for w e
  proof -
    have "readable U v' (name, path)" using create_secrets_extends [OF run] readable_extends that(1) by blast
    with that(3) show ?thesis by (metis append_Cons list.pred_inject(2))
  qed
  show ?case
  proof (cases "vol_files v path")
    case None
    obtain s e where s: "new_secret name d = (s, e)" by (cases "new_secret name d")
    define w where "w = v\<lparr>vol_files := (vol_files v)(path \<mapsto> Regular \<lparr>sf_content = encode_ascii (s @ [10]), sf_mode = 292\<rparr>)\<rparr>"
    show ?thesis
    proof (cases "stored name")
      case True
      with "2.prems" None s have run: "create_secrets U stored rest w e = (Inl os_error, v', d')" by (simp add: w_def)
      have "readable U w (name, path)"
        using read_line [OF new_secret_text [OF s]] by (simp add: readable_def w_def)
      then show ?thesis using grown run "2.IH"(1) [OF None s [symmetric] refl True] by (simp add: w_def)
    next
      case False
      with "2.prems" None s have "vol_files v' path = Some (Regular \<lparr>sf_content = [], sf_mode = 256\<rparr>)" by auto
      then show ?thesis by (metis append_Nil list.pred_inject(1))
    qed
  next
    case (Some n)
    show ?thesis
    proof (cases "read_secret U (Some n)")
      case (Inl e)
      then have "e \<noteq> os_error"
        by (auto simp: read_secret_def read_ascii_def bind_res_def Let_def split: node.splits if_splits)
      with Inl "2.prems" Some show ?thesis by simp
    next
      case (Inr x)
      with "2.prems" Some have run: "create_secrets U stored rest v d = (Inl os_error, v', d')" by simp
      moreover have "readable U v (name, path)" using Some Inr by (simp add: readable_def)
      ultimately show ?thesis using grown "2.IH"(2) [OF Some Inr run] by simp
    qed
  qed
qed simp

text \<open>
  C18. The secrets of a stack are drawn once. An \<open>init\<close> that succeeds leaves a volume from which all five secrets
  load, and from then on every further \<open>init\<close>, whatever it could draw, succeeds and changes nothing.
\<close>

theorem secrets_drawn_once:
  assumes "initialize_bootstrap_secrets U stored p d = (Inr (), p', d')"
  shows "\<exists>vs. load_bootstrap_secrets U p' = Inr vs \<and> map fst vs = map fst SECRET_FILES \<and>
    initialize_bootstrap_secrets U stored' p' e = (Inr (), p', e)"
proof -
  obtain v w where run: "create_secrets U stored SECRET_FILES v d = (Inr (), w, d')" and p': "p' = Folder w"
    and v: "vol_writable v" "vol_owned v \<longrightarrow> vol_mode v = 493"
    using assms by (auto simp: initialize_bootstrap_secrets_def Let_def split: place.splits if_splits prod.splits)
  have w: "vol_writable w" "vol_owned w \<longrightarrow> vol_mode w = 493"
    using v create_secrets_extends [OF run] by auto
  have ready: "list_all (readable U w) SECRET_FILES" using run by (rule create_secrets_complete)
  define g where "g = (\<lambda>(name, path). (name, projr (read_secret U (vol_files w path))) :: string \<times> ustr)"
  have "map_res (\<lambda>(name, path). bind_res (read_secret U (file_at p' path)) (\<lambda>value. Inr (name, value))) SECRET_FILES
      = Inr (map g SECRET_FILES)"
  proof (rule map_res_total)
    fix x :: "string \<times> string" assume "x \<in> set SECRET_FILES"
    with ready have "readable U w x" by (simp add: list_all_iff)
    then show "(case x of (name, path) \<Rightarrow> bind_res (read_secret U (file_at p' path)) (\<lambda>value. Inr (name, value))) = Inr (g x)"
      by (cases x) (auto simp: g_def file_at_def p' elim: readableE)
  qed
  moreover have "map fst (map g SECRET_FILES) = map fst SECRET_FILES"
    by (simp add: g_def case_prod_beta)
  moreover have "create_secrets U stored' SECRET_FILES w e = (Inr (), w, e)"
    using create_secrets_append [OF ready, of stored' "[]"] by simp
  moreover have "(if vol_owned w then w\<lparr>vol_mode := 493\<rparr> else w) = w" using w(2) by (cases w) simp
  ultimately show ?thesis
    using w(1) by (auto simp: load_bootstrap_secrets_def initialize_bootstrap_secrets_def p')
qed

text \<open>
  No \<open>init\<close>, successful or not, replaces or removes a file of the volume.
\<close>

theorem existing_secrets_kept:
  "case initialize_bootstrap_secrets U stored (Folder v) d of
     (_, Folder w, _) \<Rightarrow> vol_files v \<subseteq>\<^sub>m vol_files w
   | _ \<Rightarrow> False"
proof (cases "vol_writable v")
  case True
  define u where "u = (if vol_owned v then v\<lparr>vol_mode := 493\<rparr> else v)"
  obtain r w e where run: "create_secrets U stored SECRET_FILES u d = (r, w, e)" by (metis prod.exhaust)
  have "vol_files u = vol_files v" by (simp add: u_def)
  with create_secrets_extends [OF run] True run show ?thesis
    by (simp add: initialize_bootstrap_secrets_def Let_def flip: u_def)
qed (simp add: initialize_bootstrap_secrets_def)

text \<open>
  C38. An interrupted \<open>init\<close> cannot be repeated. The write of a secret that fails leaves an empty file, which no
  later \<open>init\<close> replaces: it and every attempt to load the secrets raise until the file is removed by hand.
\<close>

theorem interrupted_init_blocks:
  assumes "initialize_bootstrap_secrets U stored (Folder v) d = (Inl os_error, p, e)"
  shows "load_bootstrap_secrets U p = Inl runtime_error \<and>
    fst (initialize_bootstrap_secrets U stored' p e') = Inl runtime_error"
proof -
  obtain u w where u: "create_secrets U stored SECRET_FILES u d = (Inl os_error, w, e)" and p: "p = Folder w" and "vol_writable u"
    using assms by (auto simp: initialize_bootstrap_secrets_def Let_def split: place.splits if_splits prod.splits)
  then have "vol_writable w" using create_secrets_extends [OF u] by simp
  obtain pre name path post where split: "SECRET_FILES = pre @ (name, path) # post" and ready: "list_all (readable U w) pre"
    and empty: "vol_files w path = Some (Regular \<lparr>sf_content = [], sf_mode = 256\<rparr>)"
    using create_secrets_interrupted [OF u] by blast
  have bad: "read_secret U (Some (Regular \<lparr>sf_content = [], sf_mode = 256\<rparr>)) = Inl runtime_error"
    by (simp add: read_secret_def read_ascii_def strip_def lstrip_of_def rstrip_of_def secret_value_ok_def)
  have "map_res (\<lambda>(name, path). bind_res (read_secret U (file_at p path)) (\<lambda>value. Inr (name, value))) (pre @ (name, path) # post)
      = Inl runtime_error"
    using ready
  proof (induction pre)
    case (Cons x xs)
    then show ?case by (cases x) (auto simp: file_at_def p elim!: readableE)
  qed (simp add: file_at_def p empty bad)
  moreover have "fst (create_secrets U stored' SECRET_FILES w' e') = Inl runtime_error" if "vol_files w' = vol_files w" for w'
  proof -
    have "readable U w' = readable U w" using that by (simp add: readable_def)
    then show ?thesis
      unfolding split using create_secrets_append [of U w' pre] ready that by (simp add: empty bad)
  qed
  moreover have "fst (initialize_bootstrap_secrets U stored' (Folder w) e') =
      fst (create_secrets U stored' SECRET_FILES (if vol_owned w then w\<lparr>vol_mode := 493\<rparr> else w) e')"
    using \<open>vol_writable w\<close> by (simp add: initialize_bootstrap_secrets_def Let_def split: prod.splits)
  ultimately show ?thesis
    by (simp add: load_bootstrap_secrets_def p split)
qed

text \<open>
  The directory of the image alone, empty and without a volume, hides the settings of the environment.
\<close>

theorem environment_hidden:
  assumes "vol_files v = Map.empty"
  shows "get_settings U from_environment (Folder v) = Inl file_not_found"
  using assms
  by (simp add: get_settings_def bootstrap_secrets_available_def loaded_settings_def load_bootstrap_secrets_def
      SECRET_FILES_def file_at_def read_secret_def)

section \<open>The environment and the wait\<close>

lemma run_migration_environ: "snd (run_migration U role p E sv) \<subseteq>\<^sub>m E"
proof (cases "migration_environment U role p")
  case (Inr env)
  have "(E ++ map_of env) |` (- set (map fst env)) \<subseteq>\<^sub>m E"
    by (auto simp: map_le_def restrict_map_def map_add_def dom_def map_of_eq_None_iff [THEN iffD2] split: option.splits if_splits)
  with Inr show ?thesis by (simp add: run_migration_def Let_def)
qed (simp add: run_migration_def)

lemma migrate_as_environ: "ct_environ (snd (migrate_as U role c)) \<subseteq>\<^sub>m ct_environ c"
  using run_migration_environ [of U role "ct_place c" "ct_environ c" "ct_server c"]
  by (auto simp: migrate_as_def split: prod.splits sum.splits)

text \<open>
  No step of the container, finished or failed, leaves anything in the environment of the process that was
  not there before: the passwords of the privileged database roles least of all.
\<close>

theorem no_credentials_left:
  "ct_environ (snd (bootstrap_main U stored probes now arguments c)) \<subseteq>\<^sub>m ct_environ c"
proof -
  have "ct_environ (snd (serve_container U probes now c)) \<subseteq>\<^sub>m ct_environ c"
    using migrate_as_environ [of U "''bootstrap''" c] migrate_as_environ [of U "''migrate''" "snd (migrate_as U ''bootstrap'' c)"]
    by (auto simp: serve_container_def split: sum.splits prod.splits intro: map_le_trans)
  then show ?thesis
    using migrate_as_environ by (auto simp: bootstrap_main_def Let_def split: prod.splits)
qed

lemma wait_loop_run:
  "start + DATABASE_RETRY * k \<le> now \<Longrightarrow> now = start + sum_list (map (\<lambda>i. snd (probes i)) [1..<k + 1]) + DATABASE_RETRY * k \<Longrightarrow>
   k \<le> 60 \<Longrightarrow> list_all (\<lambda>i. fst (probes i) = Unreachable) [1..<k + 1] \<Longrightarrow> deadline = start + DATABASE_WAIT \<Longrightarrow>
   \<exists>n \<le> 61. 0 < n \<and> list_all (\<lambda>i. fst (probes i) = Unreachable) [1..<n] \<and>
     (wait_loop probes deadline now k = Inr n \<and> fst (probes n) = Reached \<or>
      (\<exists>e. wait_loop probes deadline now k = Inl e \<and> fst (probes n) = Fails e) \<or>
      wait_loop probes deadline now k = Inl system_exit \<and> fst (probes n) = Unreachable \<and>
        DATABASE_WAIT \<le> sum_list (map (\<lambda>i. snd (probes i)) [1..<n + 1]) + DATABASE_RETRY * (n - 1))"
proof (induction probes deadline now k rule: wait_loop.induct)
  case (1 probes deadline now k)
  obtain outcome took where p: "probes (k + 1) = (outcome, took)" by (cases "probes (k + 1)")
  note step = wait_loop.simps [of probes deadline now k]
  show ?case
  proof (cases outcome)
    case Reached
    with p step "1.prems" show ?thesis by (intro exI [of _ "k + 1"]) simp
  next
    case (Fails e)
    with p step "1.prems" show ?thesis by (intro exI [of _ "k + 1"]) simp
  next
    case Unreachable
    show ?thesis
    proof (cases "deadline \<le> now + took")
      case True
      with Unreachable p step "1.prems" show ?thesis by (intro exI [of _ "k + 1"]) (simp add: Let_def)
    next
      case False
      then have "DATABASE_RETRY * k < DATABASE_WAIT" using "1.prems" by simp
      then have k: "k + 1 \<le> 60" by (simp add: DATABASE_RETRY_def DATABASE_WAIT_def)
      have "wait_loop probes deadline now k = wait_loop probes deadline (now + took + DATABASE_RETRY) (k + 1)"
        using step False Unreachable p by (simp add: Let_def)
      with "1.IH" [OF refl p [symmetric] refl refl Unreachable False] "1.prems" k p Unreachable show ?thesis
        by (simp add: algebra_simps)
    qed
  qed
qed

text \<open>
  The wait for the database always ends, within 61 attempts: at the first that reaches the database, at the
  first failure that is no connection failure, or with an exit once 180 seconds have passed in vain.
\<close>

theorem wait_settles:
  "case wait_loop probes (now + DATABASE_WAIT) now 0 of
     Inr n \<Rightarrow> 0 < n \<and> n \<le> 61 \<and> fst (probes n) = Reached \<and> list_all (\<lambda>i. fst (probes i) = Unreachable) [1..<n]
   | Inl e \<Rightarrow> (\<exists>n \<le> 61. 0 < n \<and> list_all (\<lambda>i. fst (probes i) = Unreachable) [1..<n] \<and>
       (fst (probes n) = Fails e \<or>
        e = system_exit \<and> fst (probes n) = Unreachable \<and>
          DATABASE_WAIT \<le> sum_list (map (\<lambda>i. snd (probes i)) [1..<n + 1]) + DATABASE_RETRY * (n - 1)))"
  using wait_loop_run [of now 0 now probes "now + DATABASE_WAIT"] by fastforce

section \<open>A fresh stack\<close>

definition draw :: "db \<Rightarrow> nat \<Rightarrow> bytes" where
  "draw d i = map (entropy d) [drawn d + 32 * i..<drawn d + 32 * i + 32]"

definition drawn_secrets :: "db \<Rightarrow> (string \<times> ustr) list" where
  "drawn_secrets d = [
     (''postgres_password'', hexdigest (draw d 0)),
     (''migrator_password'', hexdigest (draw d 1)),
     (''runtime_password'', hexdigest (draw d 2)),
     (''session_secret'', hexdigest (draw d 3)),
     (''data_key'', base64url (draw d 4))]"

lemma read_hexdigest:
  "length bs = 32 \<Longrightarrow> read_secret U (Some (Regular \<lparr>sf_content = encode_ascii (hexdigest bs @ [10]), sf_mode = m\<rparr>)) = Inr (hexdigest bs)"
  by (rule read_line) (simp_all add: hexdigest_urlsafe length_hexdigest)

lemma read_base64url:
  "length bs = 32 \<Longrightarrow> read_secret U (Some (Regular \<lparr>sf_content = encode_ascii (base64url bs @ [10]), sf_mode = m\<rparr>)) = Inr (base64url bs)"
  by (rule read_line) (simp_all add: base64url_urlsafe length_base64url)

definition drawn_volume :: "db \<Rightarrow> volume" where
  "drawn_volume d = \<lparr>vol_writable = True, vol_owned = True, vol_mode = 493,
      vol_files = [''postgres-password'' \<mapsto> Regular \<lparr>sf_content = encode_ascii (hexdigest (draw d 0) @ [10]), sf_mode = 292\<rparr>,
        ''migrator-password'' \<mapsto> Regular \<lparr>sf_content = encode_ascii (hexdigest (draw d 1) @ [10]), sf_mode = 292\<rparr>,
        ''runtime-password'' \<mapsto> Regular \<lparr>sf_content = encode_ascii (hexdigest (draw d 2) @ [10]), sf_mode = 292\<rparr>,
        ''session-secret'' \<mapsto> Regular \<lparr>sf_content = encode_ascii (hexdigest (draw d 3) @ [10]), sf_mode = 292\<rparr>,
        ''data-key'' \<mapsto> Regular \<lparr>sf_content = encode_ascii (base64url (draw d 4) @ [10]), sf_mode = 292\<rparr>]\<rparr>"

lemma init_runs:
  assumes "list_all (\<lambda>(name, path). stored name) SECRET_FILES"
  shows "initialize_bootstrap_secrets U stored (Missing True) d = (Inr (), Folder (drawn_volume d), d\<lparr>drawn := drawn d + 160\<rparr>)"
  using assms
  by (simp add: initialize_bootstrap_secrets_def SECRET_FILES_def new_secret_def token_bytes_def Let_def draw_def drawn_volume_def algebra_simps)

lemma load_drawn: "load_bootstrap_secrets U (Folder (drawn_volume d)) = Inr (drawn_secrets d)"
proof -
  have "length (draw d i) = 32" for i by (simp add: draw_def)
  then show ?thesis
    by (simp add: load_bootstrap_secrets_def SECRET_FILES_def file_at_def drawn_volume_def read_hexdigest read_base64url drawn_secrets_def)
qed

lemma init_fresh:
  assumes "initialize_bootstrap_secrets U stored (Missing True) d = (Inr (), p, d')"
  shows "p = Folder (drawn_volume d)"
proof -
  have "list_all (\<lambda>(name, path). stored name) SECRET_FILES"
    using assms
    by (auto simp: initialize_bootstrap_secrets_def SECRET_FILES_def new_secret_def token_bytes_def Let_def split: if_splits)
  from init_runs [OF this, of U d] assms show ?thesis by simp
qed

lemma hex_password:
  assumes "length bs = 32" and "E name = Some (hexdigest bs)"
  shows "password_accepted E name (hexdigest bs)"
proof -
  have ne: "hexdigest bs \<noteq> []" using assms(1) length_hexdigest [of bs] by auto
  have "hd (hexdigest bs) \<noteq> 114" using hexdigest_chars [OF hd_in_set [OF ne]] by auto
  with ne have "\<not> startswith ''replace-with-'' (hexdigest bs)"
    by (cases "hexdigest bs") (auto simp: startswith_def uni_def)
  moreover have "\<not> double_dollar s" if "36 \<notin> set s" for s
    using that by (induction s) auto
  ultimately show ?thesis
    using assms hexdigest_chars [of 36 bs] by (auto simp: password_accepted_def length_hexdigest)
qed

lemma hex_plain: "list_all (\<lambda>c. word_start c \<or> 48 \<le> c \<and> c \<le> 57) (hexdigest bs)"
  using hexdigest_chars by (fastforce simp: list_all_iff word_start_def)

lemma hex_login:
  "sc_roles s = (SUPERUSER, hexdigest a) # rs \<Longrightarrow> login_role (postgres_url ''postgres'' (hexdigest a)) s = Inr SUPERUSER"
  "sc_roles s = [(SUPERUSER, hexdigest a), (MIGRATOR, hexdigest b), (RUNTIME, hexdigest c)] \<Longrightarrow>
     login_role (postgres_url ''leakcheck_migrator'' (hexdigest b)) s = Inr MIGRATOR"
  "sc_roles s = [(SUPERUSER, hexdigest a), (MIGRATOR, hexdigest b), (RUNTIME, hexdigest c)] \<Longrightarrow>
     login_role (postgres_url ''leakcheck_runtime'' (hexdigest c)) s = Inr RUNTIME"
  by (simp_all add: login_role_def hex_plain postgres_url_def uni_def)

lemma url_prefix: "startswith ''postgresql+asyncpg://'' (postgres_url u pw)" "postgres_url u pw \<noteq> []"
  by (simp_all add: postgres_url_def startswith_def uni_def)

text \<open>The states a fresh stack goes through.\<close>

definition new_server :: "db \<Rightarrow> datetime \<Rightarrow> server" where
  "new_server d t = \<lparr>sv_schema = new_database (uni ''leakcheck'') (hexdigest (draw d 0)) t, sv_version = None\<rparr>"

definition first_schema :: "db \<Rightarrow> datetime \<Rightarrow> schema" where
  "first_schema d t =
     after_0001 (uni ''leakcheck'') (hexdigest (draw d 0)) (hexdigest (draw d 1)) (hexdigest (draw d 2)) t"

definition full_server :: "db \<Rightarrow> datetime \<Rightarrow> server" where
  "full_server d t = \<lparr>sv_schema = after_0013 (first_schema d t), sv_version = Some ''0013_branding_grants''\<rparr>"

lemma secrets_of:
  "secret_of (drawn_secrets d) ''postgres_password'' = hexdigest (draw d 0)"
  "secret_of (drawn_secrets d) ''migrator_password'' = hexdigest (draw d 1)"
  "secret_of (drawn_secrets d) ''runtime_password'' = hexdigest (draw d 2)"
  "secret_of (drawn_secrets d) ''session_secret'' = hexdigest (draw d 3)"
  "secret_of (drawn_secrets d) ''data_key'' = base64url (draw d 4)"
  by (simp_all add: secret_of_def drawn_secrets_def)

definition bootstrap_environ :: "db \<Rightarrow> environ \<Rightarrow> environ" where
  "bootstrap_environ d E = E ++ map_of [
     (MIGRATION_URL, postgres_url ''postgres'' (hexdigest (draw d 0))),
     (''LC_MIGRATOR_DB_PASSWORD'', hexdigest (draw d 1)),
     (''LC_RUNTIME_DB_PASSWORD'', hexdigest (draw d 2))]"

definition migrate_environ :: "db \<Rightarrow> environ \<Rightarrow> environ" where
  "migrate_environ d E = E ++ map_of [(MIGRATION_URL, postgres_url ''leakcheck_migrator'' (hexdigest (draw d 1)))]"

lemma bootstrap_url:
  "bootstrap_migration_url (bootstrap_environ d E) = Inr (postgres_url ''postgres'' (hexdigest (draw d 0)))"
  "env_migration_url (bootstrap_environ d E) = Inr (postgres_url ''postgres'' (hexdigest (draw d 0)))"
  "env_migration_url (migrate_environ d E) = Inr (postgres_url ''leakcheck_migrator'' (hexdigest (draw d 1)))"
  using url_prefix
  by (simp_all add: bootstrap_migration_url_def env_migration_url_def bootstrap_environ_def migrate_environ_def MIGRATION_URL_def)

lemma bootstrap_new: "bootstrap_database (bootstrap_environ d E) (new_server d t) =
    Inr \<lparr>sv_schema = first_schema d t, sv_version = Some ''0001_bootstrap_roles''\<rparr>"
proof -
  have login: "login_role (postgres_url ''postgres'' (hexdigest (draw d 0))) (sv_schema (new_server d t)) = Inr SUPERUSER"
    by (rule hex_login(1)) (simp add: new_server_def new_database_def)
  have accepted: "password_accepted (bootstrap_environ d E) ''LC_MIGRATOR_DB_PASSWORD'' (hexdigest (draw d 1))"
    "password_accepted (bootstrap_environ d E) ''LC_RUNTIME_DB_PASSWORD'' (hexdigest (draw d 2))"
    by (rule hex_password; simp add: draw_def bootstrap_environ_def MIGRATION_URL_def)+
  have "table_named VERSION_TABLE (sv_schema (new_server d t)) = None"
    by (simp add: new_server_def new_database_def table_named_def)
  then show ?thesis
    using login run_0001 [OF accepted sample_identifier]
    by (simp add: bootstrap_database_def bootstrap_url database_needs_bootstrap_def bootstrap_required_def run_migrations_online_def
        first_schema_def) (simp add: new_server_def)
qed

lemma full_roles:
  "sc_roles (first_schema d t) = [(SUPERUSER, hexdigest (draw d 0)), (MIGRATOR, hexdigest (draw d 1)), (RUNTIME, hexdigest (draw d 2))]"
  "sc_roles (sv_schema (full_server d t)) = sc_roles (first_schema d t)"
  by (simp_all add: full_server_def first_schema_def after_0001_def after_0002_def after_0003_def after_0004_def after_0005_def after_0006_def
      after_0007_def after_0008_def after_0009_def after_0010_def after_0011_def after_0012_def after_0013_def grow_selectors with_value_def)

lemma full_login:
  "login_role (postgres_url ''postgres'' (hexdigest (draw d 0))) (sv_schema (full_server d t)) = Inr SUPERUSER"
  "login_role (postgres_url ''leakcheck_migrator'' (hexdigest (draw d 1))) (first_schema d t) = Inr MIGRATOR"
  "login_role (postgres_url ''leakcheck_migrator'' (hexdigest (draw d 1))) (sv_schema (full_server d t)) = Inr MIGRATOR"
  "login_role (postgres_url ''leakcheck_runtime'' (hexdigest (draw d 2))) (sv_schema (full_server d t)) = Inr RUNTIME"
  by (rule hex_login, simp add: full_roles)+

lemma migrate_new:
  "migrate_database (migrate_environ d E) \<lparr>sv_schema = first_schema d t, sv_version = Some ''0001_bootstrap_roles''\<rparr> = Inr (full_server d t)"
  using migrations_run [OF first_schema_def [of d t]] full_login(2)
  by (simp add: migrate_database_def run_migrations_online_def bootstrap_url full_server_def)

lemma full_agrees: "agrees_with_models (sv_schema (full_server d t))"
proof -
  have "sc_tables (first_schema d t) = [version_table]" "sc_enums (first_schema d t) = []"
    by (simp_all add: first_schema_def after_0001_def new_database_def)
  then show ?thesis by (simp add: full_server_def final_agrees)
qed

lemma full_version_table: "table_named VERSION_TABLE (sv_schema (full_server d t)) \<noteq> None"
proof -
  have "VERSION_TABLE \<in> set (map tbl_name (sc_tables (sv_schema (full_server d t))))"
    using full_agrees by (simp add: agrees_with_models_def)
  then show ?thesis by (auto simp: table_named_def find_None_iff)
qed

lemma migrate_full: "migrate_database (migrate_environ d E) (full_server d t) = Inr (full_server d t)"
proof -
  have "sv_version (full_server d t) = Some ''0013_branding_grants''" by (simp add: full_server_def)
  then show ?thesis
    using full_login(3) full_version_table
    by (simp add: migrate_database_def run_migrations_online_def bootstrap_url command_upgrade_head_def the_head command_upgrade_def
        lineage_head ensure_version_table_def)
qed

lemma bootstrap_full: "bootstrap_database (bootstrap_environ d E) (full_server d t) = Inr (full_server d t)"
proof -
  have "sv_version (full_server d t) \<noteq> None" by (simp add: full_server_def)
  then show ?thesis
    using full_login(1) [of d t] full_version_table [of d t]
    by (auto simp: bootstrap_database_def bootstrap_url database_needs_bootstrap_def bootstrap_required_def may_def)
qed

lemma environ_restored: "(E ++ map_of env) |` (- set (map fst env)) = E |` (- set (map fst env))"
  by (auto simp: restrict_map_def map_add_def map_of_eq_None_iff [THEN iffD2] fun_eq_iff split: option.splits)

lemma migrate_as_drawn:
  assumes "load_bootstrap_secrets U (ct_place c) = Inr (drawn_secrets d)"
  shows "bootstrap_database (bootstrap_environ d (ct_environ c)) (ct_server c) = Inr sv \<Longrightarrow>
      migrate_as U ''bootstrap'' c = (Inr (), c\<lparr>ct_environ := ct_environ c |`
        (- {MIGRATION_URL, ''LC_MIGRATOR_DB_PASSWORD'', ''LC_RUNTIME_DB_PASSWORD''}), ct_server := sv\<rparr>)"
    and "migrate_database (migrate_environ d (ct_environ c)) (ct_server c) = Inr sv \<Longrightarrow>
      migrate_as U ''migrate'' c = (Inr (), c\<lparr>ct_environ := ct_environ c |` (- {MIGRATION_URL}), ct_server := sv\<rparr>)"
  using assms environ_restored [of "ct_environ c" "[
     (MIGRATION_URL, postgres_url ''postgres'' (hexdigest (draw d 0))),
     (''LC_MIGRATOR_DB_PASSWORD'', hexdigest (draw d 1)),
     (''LC_RUNTIME_DB_PASSWORD'', hexdigest (draw d 2))]"]
    environ_restored [of "ct_environ c" "[(MIGRATION_URL, postgres_url ''leakcheck_migrator'' (hexdigest (draw d 1)))]"]
  by (simp_all add: migrate_as_def run_migration_def migration_environment_def secrets_of bootstrap_environ_def migrate_environ_def Let_def)

definition scrubbed :: "environ \<Rightarrow> environ" where
  "scrubbed E = E |` (- {MIGRATION_URL, ''LC_MIGRATOR_DB_PASSWORD'', ''LC_RUNTIME_DB_PASSWORD''})"

lemma scrubbed_simps:
  "scrubbed E |` (- {MIGRATION_URL}) = scrubbed E" "scrubbed (scrubbed E) = scrubbed E"
  by (auto simp: scrubbed_def restrict_map_def fun_eq_iff)

lemma serve_drawn:
  assumes "load_bootstrap_secrets U (ct_place c) = Inr (drawn_secrets d)"
    and "wait_loop probes (now + DATABASE_WAIT) now 0 = Inr n"
    and "ct_server c \<in> {new_server d t, full_server d t}"
  shows "serve_container U probes now c = (Inr (), c\<lparr>ct_environ := scrubbed (ct_environ c), ct_server := full_server d t\<rparr>)"
proof -
  obtain sv where first: "bootstrap_database (bootstrap_environ d (ct_environ c)) (ct_server c) = Inr sv"
    and second: "migrate_database (migrate_environ d (scrubbed (ct_environ c))) sv = Inr (full_server d t)"
    using assms(3) bootstrap_new bootstrap_full migrate_new migrate_full by auto
  let ?c = "c\<lparr>ct_environ := scrubbed (ct_environ c), ct_server := sv\<rparr>"
  have "migrate_as U ''bootstrap'' c = (Inr (), ?c)"
    using migrate_as_drawn(1) [OF assms(1) first] by (simp add: scrubbed_def)
  moreover have "migrate_as U ''migrate'' ?c = (Inr (), ?c\<lparr>ct_environ := scrubbed (ct_environ c), ct_server := full_server d t\<rparr>)"
    using migrate_as_drawn(2) [of U ?c d "full_server d t"] assms(1) second by (simp add: scrubbed_simps)
  ultimately show ?thesis using assms(1,2) by (simp add: serve_container_def wait_for_database_def)
qed


section \<open>Instances\<close>

text \<open>A source of octets that is constant, and a server that answers at the third attempt.\<close>

definition constant_draw :: db where
  "constant_draw = db0\<lparr>entropy := (\<lambda>_. 1), drawn := 0\<rparr>"

definition third_time :: "nat \<Rightarrow> probe \<times> nat" where
  "third_time k = (if k < 3 then Unreachable else Reached, 1000000)"

lemma all_stored: "list_all (\<lambda>(name, path). True) SECRET_FILES"
  by (simp add: SECRET_FILES_def)

lemma third_time_waits: "wait_loop third_time (0 + DATABASE_WAIT) 0 0 = Inr 3"
  by (simp add: wait_loop.simps third_time_def DATABASE_WAIT_def DATABASE_RETRY_def)

theorem secrets_drawn_once_witness:
  "\<exists>vs. load_bootstrap_secrets ascii_unidata (Folder (drawn_volume constant_draw)) = Inr vs \<and> map fst vs = map fst SECRET_FILES \<and>
    initialize_bootstrap_secrets ascii_unidata (\<lambda>_. False) (Folder (drawn_volume constant_draw)) constant_draw
      = (Inr (), Folder (drawn_volume constant_draw), constant_draw)"
  by (rule secrets_drawn_once [OF init_runs [OF all_stored]])

theorem interrupted_init_blocks_witness:
  "\<exists>p e. initialize_bootstrap_secrets ascii_unidata (\<lambda>_. False)
       (Folder \<lparr>vol_writable = True, vol_owned = True, vol_mode = 493, vol_files = Map.empty\<rparr>) constant_draw = (Inl os_error, p, e) \<and>
     load_bootstrap_secrets ascii_unidata p = Inl runtime_error \<and>
     fst (initialize_bootstrap_secrets ascii_unidata (\<lambda>_. True) p e) = Inl runtime_error"
proof -
  obtain r p e where run: "initialize_bootstrap_secrets ascii_unidata (\<lambda>_. False)
       (Folder \<lparr>vol_writable = True, vol_owned = True, vol_mode = 493, vol_files = Map.empty\<rparr>) constant_draw = (r, p, e)"
    by (metis prod.exhaust)
  have "r = Inl os_error"
    using run by (auto simp: initialize_bootstrap_secrets_def SECRET_FILES_def Let_def split: prod.splits)
  with run interrupted_init_blocks [of ascii_unidata "\<lambda>_. False" _ constant_draw p e "\<lambda>_. True" e] show ?thesis by blast
qed


end
